(* ===== verification/Goth_Prelude.thy ===== *)
theory Goth_Prelude
  imports Complex_Main "HOL-Library.Option_ord" "HOL-Library.Product_Lexorder"
begin

text \<open>
  The vocabulary shared by every theory of the development: instants and durations, the
  comparisons of SQL with NULL, the list operations behind \<open>UPDATE \<dots> WHERE\<close> and
  \<open>ORDER BY \<dots> LIMIT 1\<close>, and the lemma collections the component proofs use.

  \<^item> \<open>table_simps\<close>: how an update of a table changes keys, membership and lookups;
  \<^item> \<open>query_simps\<close>: what each query returns and leaves (filled by the query theories);
  \<^item> \<open>frame_simps\<close>: which tables an operation does not touch.
\<close>

named_theorems table_simps "tables as lists: updates, keys and lookups"
named_theorems query_simps "results of queries when the driver does not fail"
named_theorems frame_simps "tables an operation leaves alone"

section \<open>Time\<close>

text \<open>
  \<open>time.Time\<close> and \<open>time.Duration\<close> count nanoseconds; \<open>time.Duration\<close> is an
  \<open>int64\<close>, which matters only where the code multiplies durations (the backoff of the
  worker), and there the width is written out.
\<close>

type_synonym instant = int
type_synonym duration = int

definition second :: duration where
  "second = 1000000000"

definition millisecond :: duration where
  "millisecond = 1000000"

definition minute :: duration where
  "minute = 60 * second"

definition hour :: duration where
  "hour = 60 * minute"

text \<open>
  \<open>t.Sub(u)\<close>, and with it \<open>time.Since\<close>: the difference saturates at the bounds of
  \<open>time.Duration\<close>.
\<close>

definition max_duration :: duration where
  "max_duration = 9223372036854775807"

definition time_sub :: "instant \<Rightarrow> instant \<Rightarrow> duration" where
  "time_sub t u = max (- max_duration - 1) (min max_duration (t - u))"

lemma time_sub_within: "0 \<le> d \<Longrightarrow> t \<le> u + d \<Longrightarrow> \<not> d < time_sub t u"
  by (auto simp: time_sub_def max_duration_def)

lemma time_sub_beyond: "d < max_duration \<Longrightarrow> u + d < t \<Longrightarrow> d < time_sub t u"
  by (auto simp: time_sub_def)

lemmas time_units = second_def millisecond_def minute_def hour_def

section \<open>Numbers as text\<close>

text \<open>\<open>strconv.FormatInt(n, 10)\<close>, and with it \<open>%d\<close>.\<close>

fun string_of_nat :: "nat \<Rightarrow> string" where
  "string_of_nat n =
     (if n < 10 then [char_of (48 + n)] else string_of_nat (n div 10) @ [char_of (48 + n mod 10)])"

declare string_of_nat.simps [simp del]

definition string_of_int :: "int \<Rightarrow> string" where
  "string_of_int i =
     (if i < 0 then CHR ''-'' # string_of_nat (nat (- i)) else string_of_nat (nat i))"

text \<open>Reading the digits back.\<close>

definition digit_value :: "char \<Rightarrow> nat" where
  "digit_value c = of_char c - 48"

definition digits_value :: "string \<Rightarrow> nat" where
  "digits_value ds = foldl (\<lambda>n c. 10 * n + digit_value c) 0 ds"

definition is_digit :: "char \<Rightarrow> bool" where
  "is_digit c \<longleftrightarrow> 48 \<le> (of_char c :: nat) \<and> (of_char c :: nat) \<le> 57"

lemma of_char_digit: "d < 10 \<Longrightarrow> of_char (char_of (48 + d) :: char) = (48 + d :: nat)"
  by simp

lemma digits_value_string_of_nat [simp]: "digits_value (string_of_nat n) = n"
proof (induction n rule: string_of_nat.induct)
  case (1 n)
  show ?case
    by (subst string_of_nat.simps)
      (use 1 in \<open>auto simp: digits_value_def digit_value_def of_char_digit\<close>)
qed

lemma string_of_nat_all_digits: "list_all is_digit (string_of_nat n)"
proof (induction n rule: string_of_nat.induct)
  case (1 n)
  have "is_digit (char_of (48 + d))" if "d < 10" for d :: nat
    using that by (simp add: is_digit_def of_char_digit)
  with 1 show ?case by (subst string_of_nat.simps) simp
qed

lemma string_of_nat_digits: "c \<in> set (string_of_nat n) \<Longrightarrow> is_digit c"
  using string_of_nat_all_digits by (auto simp: list_all_iff)

lemma string_of_nat_inj: "string_of_nat m = string_of_nat n \<longleftrightarrow> m = n"
  by (metis digits_value_string_of_nat)

lemma string_of_nat_nonempty [simp]: "string_of_nat n \<noteq> []"
  by (subst string_of_nat.simps) simp

lemma string_of_int_inj: "string_of_int i = string_of_int j \<longleftrightarrow> i = j"
proof
  have minus: "CHR ''-'' \<notin> set (string_of_nat n)" for n
    using string_of_nat_digits [of "CHR ''-''" n] by (auto simp: is_digit_def)
  assume eq: "string_of_int i = string_of_int j"
  have "i < 0 \<longleftrightarrow> j < 0"
  proof (rule ccontr)
    assume "\<not> ?thesis"
    with eq have "\<exists>m n. CHR ''-'' # string_of_nat m = string_of_nat n"
      unfolding string_of_int_def by (metis (full_types))
    then have "\<exists>n. CHR ''-'' \<in> set (string_of_nat n)" by (metis list.set_intros(1))
    with minus show False by blast
  qed
  with eq show "i = j"
    by (auto simp: string_of_int_def string_of_nat_inj split: if_splits)
qed simp

text \<open>\<open>strings.Contains(s, pat)\<close>.\<close>

definition str_contains :: "string \<Rightarrow> string \<Rightarrow> bool" where
  "str_contains s pat \<longleftrightarrow>
     list_ex (\<lambda>n. take (length pat) (drop n s) = pat) [0..<Suc (length s)]"

lemma str_contains_prefix: "str_contains (pat @ rest) pat"
  unfolding str_contains_def list_ex_iff by (intro bexI [of _ 0]) auto

section \<open>Dates\<close>

text \<open>
  \<open>time.Parse("2006-01-02", v)\<close>: four digits, two and two, a month and a day that exist.
  \<open>days_from_civil\<close> counts days from the Unix epoch in the Gregorian calendar.
\<close>

definition days_from_civil :: "int \<Rightarrow> int \<Rightarrow> int \<Rightarrow> int" where
  "days_from_civil y m d =
     (let y' = (if m \<le> 2 then y - 1 else y);
          era = y' div 400;
          yoe = y' - era * 400;
          doy = (153 * (if 2 < m then m - 3 else m + 9) + 2) div 5 + d - 1;
          doe = yoe * 365 + yoe div 4 - yoe div 100 + doy
      in era * 146097 + doe - 719468)"

definition leap_year :: "int \<Rightarrow> bool" where
  "leap_year y \<longleftrightarrow> y mod 4 = 0 \<and> (y mod 100 \<noteq> 0 \<or> y mod 400 = 0)"

definition days_in :: "int \<Rightarrow> int \<Rightarrow> int" where
  "days_in y m =
     (if m = 2 then (if leap_year y then 29 else 28)
      else if m \<in> {4, 6, 9, 11} then 30 else 31)"

definition parse_date :: "string \<Rightarrow> instant option" where
  "parse_date v =
     (let ys = take 4 v; ms = take 2 (drop 5 v); ds = drop 8 v;
          y = int (digits_value ys); m = int (digits_value ms); d = int (digits_value ds)
      in if length v = 10 \<and> v ! 4 = CHR ''-'' \<and> v ! 7 = CHR ''-'' \<and>
            list_all is_digit ys \<and> list_all is_digit ms \<and> list_all is_digit ds \<and>
            1 \<le> m \<and> m \<le> 12 \<and> 1 \<le> d \<and> d \<le> days_in y m
         then Some (days_from_civil y m d * 24 * hour) else None)"

section \<open>NULL in SQL\<close>

text \<open>
  A column that may be NULL (\<open>sql.NullString\<close>, \<open>sql.NullTime\<close>, \<open>sql.NullInt64\<close>)
  is an option. A comparison with NULL is NULL, which a WHERE clause treats as false.
\<close>

fun sql_le :: "'a::linorder option \<Rightarrow> 'a \<Rightarrow> bool" where
  "sql_le None y = False"
| "sql_le (Some x) y = (x \<le> y)"

fun sql_less :: "'a::linorder option \<Rightarrow> 'a \<Rightarrow> bool" where
  "sql_less None y = False"
| "sql_less (Some x) y = (x < y)"

fun sql_eq :: "'a option \<Rightarrow> 'a option \<Rightarrow> bool" where
  "sql_eq (Some x) (Some y) = (x = y)"
| "sql_eq _ _ = False"

lemma sql_le_iff: "sql_le a y \<longleftrightarrow> (\<exists>x. a = Some x \<and> x \<le> y)"
  by (cases a) auto

lemma sql_less_iff: "sql_less a y \<longleftrightarrow> (\<exists>x. a = Some x \<and> x < y)"
  by (cases a) auto

lemma sql_eq_iff: "sql_eq a b \<longleftrightarrow> (\<exists>x. a = Some x \<and> b = Some x)"
  by (cases a; cases b) auto

section \<open>Tables as lists of rows\<close>

text \<open>\<open>UPDATE t SET \<dots> WHERE p\<close>: every row that satisfies \<open>p\<close> is rewritten in place.\<close>

definition update_where :: "('r \<Rightarrow> bool) \<Rightarrow> ('r \<Rightarrow> 'r) \<Rightarrow> 'r list \<Rightarrow> 'r list" where
  "update_where p f = map (\<lambda>r. if p r then f r else r)"

lemma update_where_Nil [simp]: "update_where p f [] = []"
  by (simp add: update_where_def)

lemma update_where_Cons [simp]:
  "update_where p f (r # rs) = (if p r then f r else r) # update_where p f rs"
  by (simp add: update_where_def)

lemma update_where_append [simp]:
  "update_where p f (rs @ rs') = update_where p f rs @ update_where p f rs'"
  by (simp add: update_where_def)

lemma length_update_where [simp, table_simps]: "length (update_where p f rs) = length rs"
  by (simp add: update_where_def)

lemma set_update_where [table_simps]:
  "set (update_where p f rs) = f ` {r \<in> set rs. p r} \<union> {r \<in> set rs. \<not> p r}"
  by (induction rs) auto

lemma map_update_where [table_simps]:
  "(\<And>r. r \<in> set rs \<Longrightarrow> p r \<Longrightarrow> k (f r) = k r) \<Longrightarrow> map k (update_where p f rs) = map k rs"
  by (induction rs) auto

lemma update_where_none: "(\<And>r. r \<in> set rs \<Longrightarrow> \<not> p r) \<Longrightarrow> update_where p f rs = rs"
  by (induction rs) auto

lemma update_where_id: "(\<And>r. r \<in> set rs \<Longrightarrow> p r \<Longrightarrow> f r = r) \<Longrightarrow> update_where p f rs = rs"
  by (induction rs) auto

lemma list_all_update_where:
  "list_all P rs \<Longrightarrow> (\<And>r. P r \<Longrightarrow> p r \<Longrightarrow> P (f r)) \<Longrightarrow> list_all P (update_where p f rs)"
  by (induction rs) auto

lemma find_update_where [table_simps]:
  "(\<And>r. q (f r) = q r) \<Longrightarrow>
   find q (update_where p f rs) = map_option (\<lambda>r. if p r then f r else r) (find q rs)"
  by (induction rs) auto

text \<open>Rows with a key: at most one row has a given key.\<close>

definition keyed :: "('r \<Rightarrow> 'k) \<Rightarrow> 'r list \<Rightarrow> bool" where
  "keyed k rs = distinct (map k rs)"

lemma keyed_unique: "keyed k rs \<Longrightarrow> r \<in> set rs \<Longrightarrow> r' \<in> set rs \<Longrightarrow> k r = k r' \<Longrightarrow> r = r'"
  unfolding keyed_def by (metis distinct_map inj_onD)

lemma keyed_find:
  "keyed k rs \<Longrightarrow> r \<in> set rs \<Longrightarrow> find (\<lambda>r'. k r' = k r) rs = Some r"
  by (induction rs) (auto simp: keyed_def rev_image_eqI)

lemma keyed_update_where:
  "keyed k rs \<Longrightarrow> (\<And>r. p r \<Longrightarrow> k (f r) = k r) \<Longrightarrow> keyed k (update_where p f rs)"
  unfolding keyed_def by (subst map_update_where) auto

lemma keyed_append_fresh: "keyed k rs \<Longrightarrow> k r \<notin> k ` set rs \<Longrightarrow> keyed k (rs @ [r])"
  by (simp add: keyed_def)

lemma keyed_filter: "keyed k rs \<Longrightarrow> keyed k (filter p rs)"
  by (simp add: keyed_def distinct_map_filter)

lemma keyed_sort_key: "keyed k rs \<Longrightarrow> keyed k (sort_key f rs)"
  by (simp add: keyed_def distinct_map)

lemma keyed_fold_upd:
  "keyed k rs \<Longrightarrow> r \<in> set rs \<Longrightarrow> fold (\<lambda>r m. m(k r \<mapsto> v r)) rs m (k r) = Some (v r)"
proof (induction rs arbitrary: m rule: rev_induct)
  case (snoc x rs)
  then have "keyed k rs" by (simp add: keyed_def)
  with snoc show ?case by (cases "r = x") (auto simp: keyed_def rev_image_eqI)
qed simp

lemma find_None_iff_all: "find p rs = None \<longleftrightarrow> (\<forall>r\<in>set rs. \<not> p r)"
  by (auto simp: find_None_iff)

lemma find_append: "find p (xs @ ys) = (case find p xs of None \<Rightarrow> find p ys | Some x \<Rightarrow> Some x)"
  by (induction xs) auto

lemma find_Some_in: "find p rs = Some r \<Longrightarrow> r \<in> set rs \<and> p r"
  by (auto simp: find_Some_iff)

text \<open>
  \<open>SELECT \<dots> ORDER BY k LIMIT 1\<close>: the first row whose key is least. SQL leaves the choice
  among equal keys open; the model takes the one stored first, which is what SQLite does
  when it scans the rows, or an index over the key, in rowid order.
\<close>

fun least_by :: "('r \<Rightarrow> 'k::linorder) \<Rightarrow> 'r list \<Rightarrow> 'r option" where
  "least_by k [] = None"
| "least_by k (r # rs) =
     (case least_by k rs of None \<Rightarrow> Some r | Some r' \<Rightarrow> Some (if k r' < k r then r' else r))"

lemma least_by_None [simp]: "least_by k rs = None \<longleftrightarrow> rs = []"
  by (cases rs) (auto split: option.splits)

lemma least_by_in: "least_by k rs = Some r \<Longrightarrow> r \<in> set rs"
  by (induction rs arbitrary: r) (auto split: option.splits if_splits)

lemma least_by_least: "least_by k rs = Some r \<Longrightarrow> r' \<in> set rs \<Longrightarrow> k r \<le> k r'"
  by (induction rs arbitrary: r) (fastforce split: option.splits if_splits)+

section \<open>Outcomes\<close>

text \<open>
  A Go function that returns \<open>(T, error)\<close> yields a sum: \<open>Inl\<close> the error, \<open>Inr\<close> the value.
\<close>

fun is_ok :: "'e + 'a \<Rightarrow> bool" where
  "is_ok (Inr _) = True"
| "is_ok (Inl _) = False"

lemma is_ok_iff: "is_ok r \<longleftrightarrow> (\<exists>v. r = Inr v)"
  by (cases r) auto

text \<open>A call returns, or panics: a failed type assertion, a nil pointer, an index out of range.\<close>

datatype 'a go_result = Returns 'a | Panics

lemma three_steps: "R a b \<Longrightarrow> R b c \<Longrightarrow> R c d \<Longrightarrow> R\<^sup>*\<^sup>* a d"
  by (blast intro: rtranclp.rtrancl_refl rtranclp.rtrancl_into_rtrancl)

text \<open>A list updated at several different places.\<close>

lemma fold_update_distinct:
  "distinct cs \<Longrightarrow> length (fold (\<lambda>c hs. hs[c := f (hs ! c)]) cs hs) = length hs \<and>
     (\<forall>i<length hs. fold (\<lambda>c hs. hs[c := f (hs ! c)]) cs hs ! i = (if i \<in> set cs then f (hs ! i) else hs ! i))"
proof (induction cs arbitrary: hs)
  case (Cons c cs)
  then show ?case by (cases "c < length hs") (auto simp: nth_list_update)
qed simp

end
