(* ===== verification/Database.thy ===== *)
theory Database
  imports Goth_Prelude
begin

text \<open>
  The SQLite database: one record per row type of \<open>internal/db/models.go\<close>, the record of
  all tables, the errors a statement can return, and how a method of \<open>db.Queries\<close> runs a
  statement. Constraints (CHECK, UNIQUE, FOREIGN KEY, defaults) and triggers come from
  \<open>migrations/*.sql\<close>.

  The driver may fail a statement for reasons outside the program (I/O, a busy database, an
  expired context). The field \<open>faults\<close> is the schedule of those failures: each statement
  consumes one entry, \<open>Some e\<close> makes it return \<open>e\<close> and change nothing. With an empty
  schedule no statement fails for such a reason. Every theorem that does not say
  \<open>faults s = []\<close> holds for every schedule. \<open>clock\<close> is the instant that both
  \<open>CURRENT_TIMESTAMP\<close> and \<open>time.Now()\<close> read.
\<close>

section \<open>Errors\<close>

datatype dberr =
    NoRows                      \<comment> \<open>\<open>sql.ErrNoRows\<close>\<close>
  | UniqueViolation string      \<comment> \<open>UNIQUE constraint failed: column\<close>
  | CheckViolation string       \<comment> \<open>CHECK constraint failed: column\<close>
  | NotNullViolation string     \<comment> \<open>NOT NULL constraint failed: column\<close>
  | ForeignKeyViolation         \<comment> \<open>FOREIGN KEY constraint failed\<close>
  | BadStatement string         \<comment> \<open>the statement does not compile against the schema\<close>
  | ScanError string            \<comment> \<open>\<open>row.Scan\<close> cannot store a column in its Go field\<close>
  | DriverError string          \<comment> \<open>anything else the driver returns\<close>

text \<open>\<open>err.Error()\<close>, as far as the program looks at it or stores it.\<close>

fun dberr_text :: "dberr \<Rightarrow> string" where
  "dberr_text NoRows = ''sql: no rows in result set''"
| "dberr_text (UniqueViolation c) = ''UNIQUE constraint failed: '' @ c"
| "dberr_text (CheckViolation c) = ''CHECK constraint failed: '' @ c"
| "dberr_text (NotNullViolation c) = ''NOT NULL constraint failed: '' @ c"
| "dberr_text ForeignKeyViolation = ''FOREIGN KEY constraint failed''"
| "dberr_text (BadStatement t) = t"
| "dberr_text (ScanError c) = ''sql: Scan error on column '' @ c"
| "dberr_text (DriverError t) = t"

section \<open>Floating point values\<close>

text \<open>
  A \<open>float64\<close> is only stored and compared with zero: its finite values are rationals,
  and the three special values are kept apart (SQLite stores NaN as NULL).
\<close>

datatype float64 = Fin rat | PosInf | NegInf | NaN

fun float_positive :: "float64 \<Rightarrow> bool" where
  "float_positive (Fin q) = (0 < q)"
| "float_positive PosInf = True"
| "float_positive _ = False"

section \<open>Rows\<close>

datatype job_status = Pending | Processing | Completed | Failed

record job =
  j_id :: int
  j_tenant :: "string option"
  j_type :: string
  j_payload :: string
  j_status :: job_status
  j_idem_key :: "string option"
  j_attempt_count :: "int option"
  j_max_attempts :: "int option"
  j_last_error :: "string option"
  j_run_at :: "instant option"
  j_next_retry_at :: "instant option"
  j_worker_id :: "string option"
  j_started_at :: "instant option"
  j_completed_at :: "instant option"
  j_timeout_seconds :: "int option"
  j_priority :: "int option"
  j_created_at :: "instant option"
  j_updated_at :: "instant option"

record dead_letter_job =
  dl_id :: int
  dl_job_id :: int
  dl_type :: string
  dl_payload :: string
  dl_error :: string
  dl_attempt_count :: int
  dl_failed_at :: instant
  dl_tenant :: "string option"
  dl_metadata :: string

record job_metrics_hourly =
  jm_hour :: string
  jm_job_type :: string
  jm_total_processed :: "int option"
  jm_total_succeeded :: "int option"
  jm_total_failed :: "int option"
  jm_avg_duration_ms :: "float64 option"
  jm_min_duration_ms :: "float64 option"
  jm_max_duration_ms :: "float64 option"
  jm_updated_at :: "instant option"

record job_type_config_row =
  jc_job_type :: string
  jc_timeout_seconds :: int
  jc_max_attempts :: int
  jc_backoff_base_seconds :: int
  jc_backoff_max_seconds :: int
  jc_enabled :: bool
  jc_updated_at :: "instant option"

record breaker_row =
  br_job_type :: string
  br_state :: string
  br_failure_count :: int
  br_success_count :: int
  br_last_failure_at :: "instant option"
  br_last_success_at :: "instant option"
  br_opened_at :: "instant option"
  br_updated_at :: "instant option"

record webhook_row =
  wh_id :: int
  wh_source :: string
  wh_external_id :: "string option"
  wh_payload :: string
  wh_headers :: string
  wh_status :: string
  wh_created_at :: "instant option"

record processed_event =
  pe_source :: string
  pe_event_id :: string
  pe_webhook_id :: "int option"
  pe_processed_at :: instant

record user =
  u_id :: int
  u_tenant :: string
  u_email :: string
  u_password_hash :: string
  u_role_id :: string
  u_is_verified :: bool
  u_avatar_url :: "string option"
  u_created_at :: "instant option"
  u_provider :: "string option"
  u_provider_id :: "string option"

record email_verification =
  ev_email :: string
  ev_token :: string
  ev_expires_at :: instant
  ev_created_at :: "instant option"

record password_reset =
  pr_email :: string
  pr_token_hash :: string
  pr_expires_at :: instant
  pr_created_at :: "instant option"

record asaas_customer =
  ac_id :: string
  ac_tenant :: string
  ac_user_id :: "int option"
  ac_email :: string
  ac_cpf_cnpj :: "string option"
  ac_name :: "string option"
  ac_data :: "string option"
  ac_created_at :: "instant option"
  ac_updated_at :: "instant option"

record asaas_payment =
  ap_id :: string
  ap_tenant :: string
  ap_customer_id :: string
  ap_user_id :: "int option"
  ap_amount :: float64
  ap_billing_type :: string
  ap_status :: string
  ap_due_date :: instant
  ap_payment_date :: "instant option"
  ap_invoice_url :: "string option"
  ap_invoice_id :: "string option"
  ap_pix_qr_code :: "string option"
  ap_pix_copy_paste :: "string option"
  ap_asaas_response :: "string option"
  ap_created_at :: "instant option"
  ap_updated_at :: "instant option"

record asaas_subscription =
  as_id :: string
  as_tenant :: string
  as_customer_id :: string
  as_user_id :: "int option"
  as_plan_value :: float64
  as_billing_type :: string
  as_cycle_type :: string
  as_status :: string
  as_next_billing_date :: "instant option"
  as_asaas_response :: "string option"
  as_created_at :: "instant option"
  as_updated_at :: "instant option"

record flag_row =
  ff_id :: int
  ff_name :: string
  ff_description :: "string option"
  ff_enabled :: bool
  ff_metadata :: "string option"
  ff_tenant :: string
  ff_created_at :: "instant option"
  ff_updated_at :: "instant option"

section \<open>The database\<close>

text \<open>
  \<open>processed_jobs\<close> maps a job id to \<open>processed_at\<close>. The \<open>seq\<close> fields are the
  AUTOINCREMENT counters: the next id of a table, never reused.
\<close>

record db =
  t_tenants :: "string list"
  t_roles :: "string list"
  t_jobs :: "job list"
  t_processed_jobs :: "int \<rightharpoonup> instant"
  t_dead_letters :: "dead_letter_job list"
  t_job_metrics :: "job_metrics_hourly list"
  t_job_configs :: "job_type_config_row list"
  t_breakers :: "breaker_row list"
  t_webhooks :: "webhook_row list"
  t_processed_events :: "processed_event list"
  t_users :: "user list"
  t_email_verifications :: "email_verification list"
  t_password_resets :: "password_reset list"
  t_customers :: "asaas_customer list"
  t_payments :: "asaas_payment list"
  t_subscriptions :: "asaas_subscription list"
  t_flags :: "flag_row list"
  seq_jobs :: int
  seq_dead_letters :: int
  seq_webhooks :: int
  seq_users :: int
  seq_flags :: int
  clock :: instant
  faults :: "dberr option list"

section \<open>Running a statement\<close>

type_synonym 'a query = "db \<Rightarrow> (dberr + 'a) \<times> db"

text \<open>
  \<open>run\<close> is the call into the driver every method of \<open>Queries\<close> makes: it takes the next
  entry of the fault schedule and, unless that is a failure, executes the statement.
\<close>

definition run :: "'a query \<Rightarrow> 'a query" where
  "run q s =
     (case faults s of
        [] \<Rightarrow> q s
      | None # fs \<Rightarrow> q (s\<lparr>faults := fs\<rparr>)
      | Some e # fs \<Rightarrow> (Inl e, s\<lparr>faults := fs\<rparr>))"

lemma run_no_faults: "faults s = [] \<Longrightarrow> run q s = q s"
  by (simp add: run_def)

text \<open>
  To show a relation between the database before and after a statement, it is enough to
  show it for the statement itself and for dropping entries of the schedule.
\<close>

lemma run_cases:
  assumes "run q s = (r, s')"
  obtains (executed) fs where "q (s\<lparr>faults := fs\<rparr>) = (r, s')"
    | (failed) e fs where "r = Inl e" "s' = s\<lparr>faults := fs\<rparr>"
proof (cases "faults s")
  case Nil
  with assms have "q s = (r, s')" by (simp add: run_def)
  then have "q (s\<lparr>faults := faults s\<rparr>) = (r, s')" by simp
  then show thesis by (rule executed)
next
  case (Cons f fs)
  show thesis
  proof (cases f)
    case None
    with Cons assms have "q (s\<lparr>faults := fs\<rparr>) = (r, s')" by (simp add: run_def)
    then show thesis by (rule executed)
  next
    case (Some e)
    with Cons assms have "r = Inl e" "s' = s\<lparr>faults := fs\<rparr>" by (auto simp: run_def)
    then show thesis by (rule failed)
  qed
qed

text \<open>
  What every statement of a class of queries keeps: a predicate that ignores the schedule
  and that each statement keeps is kept by running it.
\<close>

definition fault_blind :: "(db \<Rightarrow> 'b) \<Rightarrow> bool" where
  "fault_blind f \<longleftrightarrow> (\<forall>s fs. f (s\<lparr>faults := fs\<rparr>) = f s)"

lemma run_preserves:
  assumes "fault_blind I" and "\<And>s. I s \<Longrightarrow> I (snd (q s))" and "I s"
  shows "I (snd (run q s))"
proof -
  obtain r s' where rs: "run q s = (r, s')" by (cases "run q s")
  from rs show ?thesis
  proof (cases rule: run_cases)
    case (executed fs)
    have "I (s\<lparr>faults := fs\<rparr>)" using assms(1,3) by (simp add: fault_blind_def)
    then have "I (snd (q (s\<lparr>faults := fs\<rparr>)))" by (rule assms(2))
    with executed rs show ?thesis by simp
  next
    case (failed e fs)
    with assms(1,3) rs show ?thesis by (simp add: fault_blind_def)
  qed
qed

lemma run_rel:
  assumes "\<And>fs. R s (s\<lparr>faults := fs\<rparr>)" and "\<And>fs. R s (snd (q (s\<lparr>faults := fs\<rparr>)))"
  shows "R s (snd (run q s))"
proof -
  obtain r s' where rs: "run q s = (r, s')" by (cases "run q s")
  from rs show ?thesis
  proof (cases rule: run_cases)
    case (executed fs)
    with assms(2) [of fs] rs show ?thesis by simp
  next
    case (failed e fs)
    with assms(1) [of fs] rs show ?thesis by simp
  qed
qed

lemma run_frame:
  assumes "fault_blind f" and "\<And>s. f (snd (q s)) = f s"
  shows "f (snd (run q s)) = f s"
  using run_preserves [of "\<lambda>t. f t = f s" q s] assms by (auto simp: fault_blind_def)

text \<open>
  Sequencing statements: the next one runs only when this one returned a value. This is
  \<open>if err != nil { return err }\<close> after a call.
\<close>

definition and_then :: "'a query \<Rightarrow> ('a \<Rightarrow> 'b query) \<Rightarrow> 'b query" where
  "and_then q k s =
     (case q s of (Inl e, s') \<Rightarrow> (Inl e, s') | (Inr v, s') \<Rightarrow> k v s')"

text \<open>\<open>_ = q(\<dots>)\<close>: the error is dropped, only the effect stays.\<close>

definition ignore_error :: "'a query \<Rightarrow> db \<Rightarrow> db" where
  "ignore_error q s = snd (q s)"

lemma ignore_error_snd [simp]: "ignore_error q s = snd (q s)"
  by (simp add: ignore_error_def)

section \<open>Transactions\<close>

text \<open>
  \<open>BeginTx\<close>, a body and \<open>Commit\<close>, with the deferred \<open>Rollback\<close> of the early
  returns: unless the body and the commit succeed, nothing the body wrote remains.
\<close>

definition roll_back :: "db \<Rightarrow> db \<Rightarrow> db" where
  "roll_back s s' = s\<lparr>clock := clock s', faults := faults s'\<rparr>"

definition transaction :: "'a query \<Rightarrow> 'a query" where
  "transaction body s =
     (case run (\<lambda>t. (Inr (), t)) s of
        (Inl e, s1) \<Rightarrow> (Inl e, s1)
      | (Inr _, s1) \<Rightarrow>
          (case body s1 of
             (Inl e, s2) \<Rightarrow> (Inl e, roll_back s1 s2)
           | (Inr v, s2) \<Rightarrow>
               (case run (\<lambda>t. (Inr (), t)) s2 of
                  (Inl e, s3) \<Rightarrow> (Inl e, roll_back s1 s3)
                | (Inr _, s3) \<Rightarrow> (Inr v, s3))))"

lemma roll_back_simps [simp]:
  "faults (roll_back s s') = faults s'" "clock (roll_back s s') = clock s'"
  by (simp_all add: roll_back_def)

lemma run_skip:
  obtains (ok) fs where "run (\<lambda>t. (Inr (), t)) s = (Inr (), s\<lparr>faults := fs\<rparr>)"
    | (failed) e fs where "run (\<lambda>t. (Inr (), t)) s = (Inl e, s\<lparr>faults := fs\<rparr>)"
proof -
  obtain r s' where rs: "run (\<lambda>t. (Inr (), t)) s = (r, s')" by (cases "run (\<lambda>t. (Inr (), t)) s")
  from rs show thesis
  proof (cases rule: run_cases)
    case (executed fs)
    with rs show ?thesis by (intro ok [of fs]) auto
  next
    case (failed e fs)
    with rs show ?thesis by (intro that(2) [of e fs]) auto
  qed
qed

lemma transaction_cases:
  assumes "transaction body s = (r, s')"
  obtains (aborted) e where "r = Inl e" and "s' = s\<lparr>clock := clock s', faults := faults s'\<rparr>"
    | (committed) v fs fs' s2 where "body (s\<lparr>faults := fs\<rparr>) = (Inr v, s2)" and "r = Inr v"
        and "s' = s2\<lparr>faults := fs'\<rparr>"
proof (cases rule: run_skip [of s])
  case (failed e fs)
  with assms show thesis by (intro aborted) (auto simp: transaction_def)
next
  case begun: (ok fs)
  obtain b s2 where b: "body (s\<lparr>faults := fs\<rparr>) = (b, s2)" by (cases "body (s\<lparr>faults := fs\<rparr>)")
  show thesis
  proof (cases b)
    case (Inl e)
    with assms begun b show thesis
      by (intro aborted) (auto simp: transaction_def roll_back_def)
  next
    case (Inr v)
    show thesis
    proof (cases rule: run_skip [of s2])
      case (failed e fs')
      with assms begun b Inr show thesis
        by (intro aborted) (auto simp: transaction_def roll_back_def)
    next
      case (ok fs')
      with assms begun b Inr show thesis
        by (intro committed [of fs v s2 fs']) (auto simp: transaction_def)
    qed
  qed
qed

lemma clock_fault_blind [simp]: "fault_blind clock"
  by (simp add: fault_blind_def)

lemma clock_run: "(\<And>s. clock (snd (q s)) = clock s) \<Longrightarrow> clock (snd (run q s)) = clock s"
  by (rule run_frame) simp_all

lemma clock_transaction:
  assumes "\<And>s. clock (snd (body s)) = clock s"
  shows "clock (snd (transaction body s)) = clock s"
proof -
  have skip: "clock (snd (run (\<lambda>t. (Inr (), t)) s)) = clock s" for s
    by (rule clock_run) simp
  obtain r1 s1 where 1: "run (\<lambda>t. (Inr (), t)) s = (r1, s1)" by force
  obtain r2 s2 where 2: "body s1 = (r2, s2)" by force
  obtain r3 s3 where 3: "run (\<lambda>t. (Inr (), t)) s2 = (r3, s3)" by force
  have "clock s1 = clock s" "clock s2 = clock s1" "clock s3 = clock s2"
    using skip [of s] 1 assms [of s1] 2 skip [of s2] 3 by simp_all
  with 1 2 3 show ?thesis
    by (auto simp: transaction_def split: sum.split)
qed

lemma transaction_frame:
  assumes "fault_blind f" and "\<And>s c. f (s\<lparr>clock := c\<rparr>) = f s" and "\<And>s. f (snd (body s)) = f s"
  shows "f (snd (transaction body s)) = f s"
proof -
  have keep: "f (s\<lparr>faults := fs\<rparr>) = f s" for s fs using assms(1) by (simp add: fault_blind_def)
  obtain r s' where rs: "transaction body s = (r, s')" by force
  from rs have "f s' = f s"
  proof (cases rule: transaction_cases)
    case (aborted e)
    have "f (s\<lparr>clock := clock s', faults := faults s'\<rparr>) = f s" using keep assms(2) by metis
    with aborted(2) show ?thesis by metis
  next
    case (committed v fs fs' s2)
    have "f s2 = f (s\<lparr>faults := fs\<rparr>)" using assms(3) [of "s\<lparr>faults := fs\<rparr>"] committed(1) by simp
    with committed(3) keep show ?thesis by metis
  qed
  with rs show ?thesis by simp
qed

section \<open>Values in columns\<close>

text \<open>
  \<open>sql.NullString{String: v, Valid: v != ""}\<close> and
  \<open>sql.NullTime{Time: t, Valid: !t.IsZero()}\<close>. The zero \<open>time.Time\<close> is the first instant
  of year 1, as nanoseconds from the Unix epoch.
\<close>

definition null_string :: "string \<Rightarrow> string option" where
  "null_string v = (if v = '''' then None else Some v)"

definition zero_time :: instant where
  "zero_time = - 62135596800 * second"

definition null_time :: "instant \<Rightarrow> instant option" where
  "null_time t = (if t = zero_time then None else Some t)"

text \<open>\<open>x.Time\<close> of a scanned \<open>sql.NullTime\<close>: the zero time when the column is NULL.\<close>

definition time_of :: "instant option \<Rightarrow> instant" where
  "time_of v = (case v of None \<Rightarrow> zero_time | Some t \<Rightarrow> t)"

lemma null_time_of: "v \<noteq> Some zero_time \<Longrightarrow> null_time (time_of v) = v"
  by (cases v) (auto simp: null_time_def time_of_def)

section \<open>The migrated database\<close>

text \<open>What \<open>migrations/*.sql\<close> leave: the seeded tenant, roles, job settings and breakers.\<close>

definition seed_config :: "instant \<Rightarrow> string \<Rightarrow> int \<Rightarrow> int \<Rightarrow> int \<Rightarrow> int \<Rightarrow> job_type_config_row" where
  "seed_config t ty timeout attempts base cap =
     \<lparr>jc_job_type = ty, jc_timeout_seconds = timeout, jc_max_attempts = attempts,
      jc_backoff_base_seconds = base, jc_backoff_max_seconds = cap, jc_enabled = True,
      jc_updated_at = Some t\<rparr>"

definition seed_breaker :: "instant \<Rightarrow> string \<Rightarrow> breaker_row" where
  "seed_breaker t ty =
     \<lparr>br_job_type = ty, br_state = ''closed'', br_failure_count = 0, br_success_count = 0,
      br_last_failure_at = None, br_last_success_at = None, br_opened_at = None,
      br_updated_at = Some t\<rparr>"

text \<open>The flags of \<open>feature_flags.sql\<close>; their metadata is NULL.\<close>

definition seed_flag :: "instant \<Rightarrow> int \<Rightarrow> string \<Rightarrow> string \<Rightarrow> bool \<Rightarrow> flag_row" where
  "seed_flag t i name text enabled =
     \<lparr>ff_id = i, ff_name = name, ff_description = Some text, ff_enabled = enabled, ff_metadata = None,
      ff_tenant = ''global'', ff_created_at = Some t, ff_updated_at = Some t\<rparr>"

definition seeded_flags :: "instant \<Rightarrow> flag_row list" where
  "seeded_flags t =
     [seed_flag t 1 ''dark_mode'' ''Enable dark mode UI theme'' False,
      seed_flag t 2 ''new_dashboard'' ''Enable new dashboard design'' False,
      seed_flag t 3 ''beta_features'' ''Enable beta features for testing'' False,
      seed_flag t 4 ''maintenance_mode'' ''Enable maintenance mode'' False,
      seed_flag t 5 ''rate_limit_strict'' ''Enable strict rate limiting'' False,
      seed_flag t 6 ''oauth_google'' ''Enable Google OAuth login'' True,
      seed_flag t 7 ''email_verification'' ''Require email verification'' True,
      seed_flag t 8 ''billing_enabled'' ''Enable billing features'' True]"

definition migrated_db :: "instant \<Rightarrow> db" where
  "migrated_db t =
     \<lparr>t_tenants = [''default''], t_roles = [''admin'', ''user''], t_jobs = [],
      t_processed_jobs = Map.empty, t_dead_letters = [], t_job_metrics = [],
      t_job_configs =
        [seed_config t ''send_email'' 60 5 30 600,
         seed_config t ''send_password_reset_email'' 60 5 30 600,
         seed_config t ''send_verification_email'' 60 5 30 600,
         seed_config t ''process_ai'' 120 3 60 300,
         seed_config t ''process_webhook'' 300 5 30 600,
         seed_config t ''process_asaas_webhook'' 300 5 30 600],
      t_breakers =
        [seed_breaker t ''send_email'', seed_breaker t ''send_password_reset_email'',
         seed_breaker t ''send_verification_email'', seed_breaker t ''process_ai'',
         seed_breaker t ''process_webhook'', seed_breaker t ''process_asaas_webhook''],
      t_webhooks = [], t_processed_events = [], t_users = [], t_email_verifications = [],
      t_password_resets = [], t_customers = [], t_payments = [], t_subscriptions = [], t_flags = seeded_flags t,
      seq_jobs = 1, seq_dead_letters = 1, seq_webhooks = 1, seq_users = 1, seq_flags = 9,
      clock = t, faults = []\<rparr>"

end
