(* ===== verification/Job_Queries.thy ===== *)
theory Job_Queries
  imports Database "HOL-Library.Char_ord" "HOL-Library.List_Lexorder"
begin

text \<open>
  The statements of \<open>internal/db/core.sql.go\<close> on the job queue: the tables \<open>jobs\<close>,
  \<open>processed_jobs\<close>, \<open>dead_letter_jobs\<close>, \<open>job_metrics_hourly\<close>,
  \<open>job_type_configs\<close> and \<open>circuit_breaker_states\<close>, with the constraints and the
  two triggers of \<open>migrations/20260226120300_jobs_queue.sql\<close>. Then the invariant of these
  tables, and what each statement returns and changes.
\<close>

section \<open>Triggers\<close>

text \<open>
  \<open>jobs_update_started_at\<close> and \<open>jobs_update_completed_at\<close> run after an UPDATE that
  assigns \<open>status\<close>, with the row before and after it.
\<close>

definition fire_job_triggers :: "instant \<Rightarrow> job \<Rightarrow> job \<Rightarrow> job" where
  "fire_job_triggers t old new =
     (let new' = (if j_status new = Processing \<and> j_status old \<noteq> Processing
                  then new\<lparr>j_started_at := Some t\<rparr> else new)
      in if (j_status new = Completed \<or> j_status new = Failed) \<and> j_status old \<noteq> Completed
         then new'\<lparr>j_completed_at := Some t\<rparr> else new')"

lemma fire_job_triggers_keeps [simp]:
  "j_id (fire_job_triggers t old new) = j_id new"
  "j_status (fire_job_triggers t old new) = j_status new"
  "j_type (fire_job_triggers t old new) = j_type new"
  "j_payload (fire_job_triggers t old new) = j_payload new"
  "j_tenant (fire_job_triggers t old new) = j_tenant new"
  "j_idem_key (fire_job_triggers t old new) = j_idem_key new"
  "j_attempt_count (fire_job_triggers t old new) = j_attempt_count new"
  "j_last_error (fire_job_triggers t old new) = j_last_error new"
  "j_worker_id (fire_job_triggers t old new) = j_worker_id new"
  "j_run_at (fire_job_triggers t old new) = j_run_at new"
  "j_next_retry_at (fire_job_triggers t old new) = j_next_retry_at new"
  "j_priority (fire_job_triggers t old new) = j_priority new"
  by (simp_all add: fire_job_triggers_def Let_def)

text \<open>An UPDATE of \<open>jobs\<close> that assigns \<open>status\<close>.\<close>

definition update_jobs_status :: "(job \<Rightarrow> bool) \<Rightarrow> (job \<Rightarrow> job) \<Rightarrow> db \<Rightarrow> db" where
  "update_jobs_status p f s =
     s\<lparr>t_jobs := update_where p (\<lambda>j. fire_job_triggers (clock s) j (f j)) (t_jobs s)\<rparr>"

section \<open>Enqueueing\<close>

text \<open>
  The row an INSERT makes: columns the statement does not name take the defaults of the
  schema. \<open>run_at\<close> is named, so an invalid \<open>sql.NullTime\<close> stores NULL, not the default.
\<close>

definition new_job ::
  "db \<Rightarrow> string option \<Rightarrow> string \<Rightarrow> string \<Rightarrow> instant option \<Rightarrow> string option \<Rightarrow> job" where
  "new_job s tenant ty payload run_at key =
     \<lparr>j_id = seq_jobs s, j_tenant = tenant, j_type = ty, j_payload = payload,
      j_status = Pending, j_idem_key = key, j_attempt_count = Some 0,
      j_max_attempts = Some 3, j_last_error = None, j_run_at = run_at,
      j_next_retry_at = None, j_worker_id = None, j_started_at = None,
      j_completed_at = None, j_timeout_seconds = Some 300, j_priority = Some 5,
      j_created_at = Some (clock s), j_updated_at = Some (clock s)\<rparr>"

definition insert_job :: "job \<Rightarrow> job query" where
  "insert_job j s =
     (if j_idem_key j \<noteq> None \<and> (\<exists>r\<in>set (t_jobs s). j_idem_key r = j_idem_key j)
      then (Inl (UniqueViolation ''jobs.idempotency_key''), s)
      else if case j_attempt_count j of None \<Rightarrow> False | Some n \<Rightarrow> n < 0
      then (Inl (CheckViolation ''attempt_count''), s)
      else if case j_tenant j of None \<Rightarrow> False | Some t \<Rightarrow> t \<notin> set (t_tenants s)
      then (Inl ForeignKeyViolation, s)
      else (Inr j, s\<lparr>t_jobs := t_jobs s @ [j], seq_jobs := seq_jobs s + 1\<rparr>))"

definition CreateJob ::
  "string option \<Rightarrow> string \<Rightarrow> string \<Rightarrow> instant option \<Rightarrow> string option \<Rightarrow> job query" where
  "CreateJob tenant ty payload run_at key =
     run (\<lambda>s. insert_job (new_job s tenant ty payload run_at key) s)"

text \<open>
  \<open>ON CONFLICT(idempotency_key) DO UPDATE\<close>: a row that already has the key is returned
  with a new \<open>updated_at\<close>, and nothing is inserted. NULL keys never conflict.
\<close>

definition CreateJobWithIdempotency ::
  "string option \<Rightarrow> string \<Rightarrow> string \<Rightarrow> instant option \<Rightarrow> string option \<Rightarrow> job query" where
  "CreateJobWithIdempotency tenant ty payload run_at key =
     run (\<lambda>s.
       case (if key = None then None else find (\<lambda>r. j_idem_key r = key) (t_jobs s)) of
         Some r \<Rightarrow>
           (Inr (r\<lparr>j_updated_at := Some (clock s)\<rparr>),
            s\<lparr>t_jobs := update_where (\<lambda>r'. j_id r' = j_id r)
                 (\<lambda>r'. r'\<lparr>j_updated_at := Some (clock s)\<rparr>) (t_jobs s)\<rparr>)
       | None \<Rightarrow> insert_job (new_job s tenant ty payload run_at key) s)"

definition RetryDeadLetterJob ::
  "string option \<Rightarrow> string \<Rightarrow> string \<Rightarrow> instant option \<Rightarrow> int option \<Rightarrow> int option \<Rightarrow> job query" where
  "RetryDeadLetterJob tenant ty payload run_at attempts timeout =
     run (\<lambda>s. insert_job ((new_job s tenant ty payload run_at None)
                 \<lparr>j_attempt_count := attempts, j_timeout_seconds := timeout\<rparr>) s)"

section \<open>Picking\<close>

text \<open>The WHERE clause of \<open>PickNextJob\<close>, and its \<open>ORDER BY priority ASC, run_at ASC\<close>.\<close>

definition eligible :: "instant \<Rightarrow> job \<Rightarrow> bool" where
  "eligible t j \<longleftrightarrow>
     j_status j = Pending \<and> sql_le (j_run_at j) t \<and>
     (j_next_retry_at j = None \<or> sql_le (j_next_retry_at j) t)"

datatype pick_key = PickKey (key_priority: "int option") (key_run_at: "instant option")

text \<open>SQLite sorts NULL before every value, as \<^typ>\<open>'a option\<close> does.\<close>

instantiation pick_key :: linorder
begin

definition less_eq_pick_key :: "pick_key \<Rightarrow> pick_key \<Rightarrow> bool" where
  "less_eq_pick_key a b \<longleftrightarrow>
     key_priority a < key_priority b \<or>
     key_priority a = key_priority b \<and> key_run_at a \<le> key_run_at b"

definition less_pick_key :: "pick_key \<Rightarrow> pick_key \<Rightarrow> bool" where
  "less_pick_key a b \<longleftrightarrow> a \<le> b \<and> \<not> b \<le> (a :: pick_key)"

instance
  by standard (auto simp: less_eq_pick_key_def less_pick_key_def pick_key.expand)

end

definition pick_order :: "job \<Rightarrow> pick_key" where
  "pick_order j = PickKey (j_priority j) (j_run_at j)"

definition next_eligible :: "db \<Rightarrow> job option" where
  "next_eligible s = least_by pick_order (filter (eligible (clock s)) (t_jobs s))"

text \<open>
  \<open>RETURNING\<close> gives the row as the UPDATE wrote it. The first trigger would write the same
  \<open>started_at\<close> again.
\<close>

definition start_job :: "instant \<Rightarrow> job \<Rightarrow> job" where
  "start_job t j =
     j\<lparr>j_status := Processing, j_updated_at := Some t, j_started_at := Some t\<rparr>"

definition PickNextJob :: "job query" where
  "PickNextJob =
     run (\<lambda>s. case next_eligible s of
         None \<Rightarrow> (Inl NoRows, s)
       | Some j \<Rightarrow>
           (Inr (start_job (clock s) j),
            update_jobs_status (\<lambda>r. j_id r = j_id j) (start_job (clock s)) s))"

definition PickNextJobWithWorker :: "string option \<Rightarrow> job query" where
  "PickNextJobWithWorker w =
     run (\<lambda>s. case next_eligible s of
         None \<Rightarrow> (Inl NoRows, s)
       | Some j \<Rightarrow>
           (Inr ((start_job (clock s) j)\<lparr>j_worker_id := w\<rparr>),
            update_jobs_status (\<lambda>r. j_id r = j_id j)
              (\<lambda>r. (start_job (clock s) r)\<lparr>j_worker_id := w\<rparr>) s))"

section \<open>Settling and rescheduling\<close>

definition CompleteJob :: "int \<Rightarrow> unit query" where
  "CompleteJob i =
     run (\<lambda>s. (Inr (), update_jobs_status (\<lambda>j. j_id j = i)
            (\<lambda>j. j\<lparr>j_status := Completed, j_updated_at := Some (clock s)\<rparr>) s))"

definition FailJob :: "string option \<Rightarrow> int \<Rightarrow> unit query" where
  "FailJob err i =
     run (\<lambda>s. (Inr (), update_jobs_status (\<lambda>j. j_id j = i)
            (\<lambda>j. j\<lparr>j_status := Failed, j_last_error := err, j_updated_at := Some (clock s)\<rparr>) s))"

definition TimeoutJob :: "int \<Rightarrow> unit query" where
  "TimeoutJob i =
     run (\<lambda>s. (Inr (), update_jobs_status (\<lambda>j. j_id j = i)
            (\<lambda>j. j\<lparr>j_status := Failed, j_last_error := Some ''Job timed out'',
                   j_updated_at := Some (clock s), j_completed_at := Some (clock s)\<rparr>) s))"

definition UpdateJobNextRetry :: "instant option \<Rightarrow> int \<Rightarrow> unit query" where
  "UpdateJobNextRetry t i =
     run (\<lambda>s. (Inr (), s\<lparr>t_jobs :=
            update_where (\<lambda>j. j_id j = i) (\<lambda>j. j\<lparr>j_next_retry_at := t\<rparr>) (t_jobs s)\<rparr>))"

text \<open>The statement named \<open>RescueZombies\<close>; the program's own \<open>RescueZombies\<close> does not use it.\<close>

definition RescueZombies_stmt :: "unit query" where
  "RescueZombies_stmt =
     run (\<lambda>s. (Inr (), update_jobs_status
            (\<lambda>j. j_status j = Processing \<and> sql_less (j_updated_at j) (clock s - 5 * minute))
            (\<lambda>j. j\<lparr>j_status := Pending, j_attempt_count := map_option (\<lambda>n. n + 1) (j_attempt_count j)\<rparr>) s))"

section \<open>Reading the queue\<close>

definition GetJobByID :: "int \<Rightarrow> job query" where
  "GetJobByID i =
     run (\<lambda>s. (case find (\<lambda>j. j_id j = i) (t_jobs s) of
                 None \<Rightarrow> Inl NoRows | Some j \<Rightarrow> Inr j, s))"

definition GetPendingJobCount :: "int query" where
  "GetPendingJobCount =
     run (\<lambda>s. (Inr (int (length (filter (\<lambda>j. j_status j = Pending \<and>
                 sql_le (j_run_at j) (clock s)) (t_jobs s)))), s))"

definition GetStaleProcessingJobs :: "int \<Rightarrow> job list query" where
  "GetStaleProcessingJobs secs =
     run (\<lambda>s. (Inr (sort_key j_started_at (filter (\<lambda>j. j_status j = Processing \<and>
                 sql_less (j_started_at j) (clock s - secs * second)) (t_jobs s))), s))"

definition IsJobProcessed :: "int \<Rightarrow> int query" where
  "IsJobProcessed i =
     run (\<lambda>s. (Inr (case t_processed_jobs s i of None \<Rightarrow> 0 | Some _ \<Rightarrow> 1), s))"

definition RecordJobProcessed :: "int \<Rightarrow> unit query" where
  "RecordJobProcessed i =
     run (\<lambda>s. if t_processed_jobs s i = None \<and> i \<notin> j_id ` set (t_jobs s)
              then (Inl ForeignKeyViolation, s)
              else (Inr (), s\<lparr>t_processed_jobs := (t_processed_jobs s)(i \<mapsto> clock s)\<rparr>))"

section \<open>The dead letter queue\<close>

definition CreateDeadLetterJob ::
  "int \<Rightarrow> string \<Rightarrow> string \<Rightarrow> string \<Rightarrow> int \<Rightarrow> string option \<Rightarrow> string \<Rightarrow> dead_letter_job query" where
  "CreateDeadLetterJob job ty payload err attempts tenant metadata =
     run (\<lambda>s.
       if job \<notin> j_id ` set (t_jobs s) then (Inl ForeignKeyViolation, s)
       else let d = \<lparr>dl_id = seq_dead_letters s, dl_job_id = job, dl_type = ty,
                     dl_payload = payload, dl_error = err, dl_attempt_count = attempts,
                     dl_failed_at = clock s, dl_tenant = tenant, dl_metadata = metadata\<rparr>
            in (Inr d, s\<lparr>t_dead_letters := t_dead_letters s @ [d],
                         seq_dead_letters := seq_dead_letters s + 1\<rparr>))"

text \<open>\<open>LIMIT\<close> with a negative bound is no bound; a negative \<open>OFFSET\<close> is 0.\<close>

definition sql_page :: "int \<Rightarrow> int \<Rightarrow> 'a list \<Rightarrow> 'a list" where
  "sql_page limit offset xs =
     (let ys = drop (nat offset) xs in if limit < 0 then ys else take (nat limit) ys)"

definition GetDeadLetterJobs :: "int \<Rightarrow> int \<Rightarrow> dead_letter_job list query" where
  "GetDeadLetterJobs limit offset =
     run (\<lambda>s. (Inr (sql_page limit offset
                 (sort_key (\<lambda>d. - dl_failed_at d) (t_dead_letters s))), s))"

definition GetDeadLetterJobCount :: "int query" where
  "GetDeadLetterJobCount = run (\<lambda>s. (Inr (int (length (t_dead_letters s))), s))"

definition DeleteDeadLetterJob :: "int \<Rightarrow> unit query" where
  "DeleteDeadLetterJob i =
     run (\<lambda>s. (Inr (), s\<lparr>t_dead_letters := filter (\<lambda>d. dl_id d \<noteq> i) (t_dead_letters s)\<rparr>))"

section \<open>Job type configuration\<close>

definition ListJobTypeConfigs :: "job_type_config_row list query" where
  "ListJobTypeConfigs = run (\<lambda>s. (Inr (sort_key jc_job_type (t_job_configs s)), s))"

definition GetJobTypeConfig :: "string \<Rightarrow> job_type_config_row query" where
  "GetJobTypeConfig ty =
     run (\<lambda>s. (case find (\<lambda>c. jc_job_type c = ty) (t_job_configs s) of
                 None \<Rightarrow> Inl NoRows | Some c \<Rightarrow> Inr c, s))"

definition UpsertJobTypeConfig ::
  "string \<Rightarrow> int \<Rightarrow> int \<Rightarrow> int \<Rightarrow> int \<Rightarrow> bool \<Rightarrow> job_type_config_row query" where
  "UpsertJobTypeConfig ty timeout attempts base max_backoff enabled =
     run (\<lambda>s.
       let row = \<lparr>jc_job_type = ty, jc_timeout_seconds = timeout, jc_max_attempts = attempts,
                  jc_backoff_base_seconds = base, jc_backoff_max_seconds = max_backoff,
                  jc_enabled = enabled, jc_updated_at = Some (clock s)\<rparr>
       in (Inr row,
           if ty \<in> jc_job_type ` set (t_job_configs s)
           then s\<lparr>t_job_configs :=
                  update_where (\<lambda>c. jc_job_type c = ty) (\<lambda>_. row) (t_job_configs s)\<rparr>
           else s\<lparr>t_job_configs := t_job_configs s @ [row]\<rparr>))"

section \<open>Circuit breaker rows\<close>

definition GetCircuitBreakerState :: "string \<Rightarrow> breaker_row query" where
  "GetCircuitBreakerState ty =
     run (\<lambda>s. (case find (\<lambda>b. br_job_type b = ty) (t_breakers s) of
                 None \<Rightarrow> Inl NoRows | Some b \<Rightarrow> Inr b, s))"

definition ListCircuitBreakerStates :: "breaker_row list query" where
  "ListCircuitBreakerStates = run (\<lambda>s. (Inr (sort_key br_job_type (t_breakers s)), s))"

definition UpsertCircuitBreakerState ::
  "string \<Rightarrow> string \<Rightarrow> int \<Rightarrow> int \<Rightarrow> instant option \<Rightarrow> instant option \<Rightarrow> instant option
   \<Rightarrow> breaker_row query" where
  "UpsertCircuitBreakerState ty st fails succs last_fail last_succ opened =
     run (\<lambda>s.
       let row = \<lparr>br_job_type = ty, br_state = st, br_failure_count = fails,
                  br_success_count = succs, br_last_failure_at = last_fail,
                  br_last_success_at = last_succ, br_opened_at = opened,
                  br_updated_at = Some (clock s)\<rparr>
       in (Inr row,
           if ty \<in> br_job_type ` set (t_breakers s)
           then s\<lparr>t_breakers := update_where (\<lambda>b. br_job_type b = ty) (\<lambda>_. row) (t_breakers s)\<rparr>
           else s\<lparr>t_breakers := t_breakers s @ [row]\<rparr>))"

definition UpdateCircuitBreakerFailure :: "string \<Rightarrow> unit query" where
  "UpdateCircuitBreakerFailure ty =
     run (\<lambda>s. (Inr (), s\<lparr>t_breakers := update_where (\<lambda>b. br_job_type b = ty)
            (\<lambda>b. b\<lparr>br_failure_count := br_failure_count b + 1,
                   br_last_failure_at := Some (clock s), br_updated_at := Some (clock s)\<rparr>)
            (t_breakers s)\<rparr>))"

definition UpdateCircuitBreakerOpen :: "string \<Rightarrow> unit query" where
  "UpdateCircuitBreakerOpen ty =
     run (\<lambda>s. (Inr (), s\<lparr>t_breakers := update_where (\<lambda>b. br_job_type b = ty)
            (\<lambda>b. b\<lparr>br_state := ''open'', br_opened_at := Some (clock s),
                   br_updated_at := Some (clock s)\<rparr>)
            (t_breakers s)\<rparr>))"

definition UpdateCircuitBreakerSuccess :: "string \<Rightarrow> unit query" where
  "UpdateCircuitBreakerSuccess ty =
     run (\<lambda>s. (Inr (), s\<lparr>t_breakers := update_where (\<lambda>b. br_job_type b = ty)
            (\<lambda>b. b\<lparr>br_failure_count := 0, br_success_count := br_success_count b + 1,
                   br_last_success_at := Some (clock s), br_state := ''closed'',
                   br_updated_at := Some (clock s)\<rparr>)
            (t_breakers s)\<rparr>))"

section \<open>Hourly metrics\<close>

text \<open>
  \<open>ON CONFLICT(hour, job_type)\<close> names no key of \<open>job_metrics_hourly\<close>, whose primary key
  is \<open>hour\<close> alone (\<open>migrations/20260226120500_job_metrics.sql\<close>). SQLite rejects such a
  statement when it prepares it, so it never changes the table.
\<close>

definition UpsertJobMetricsHourly :: "string \<Rightarrow> string \<Rightarrow> int \<Rightarrow> int \<Rightarrow> int \<Rightarrow> float64 \<Rightarrow> unit query" where
  "UpsertJobMetricsHourly hr ty processed succeeded failed dur =
     run (\<lambda>s. (Inl (BadStatement ''ON CONFLICT clause does not match any PRIMARY KEY or UNIQUE constraint''), s))"

definition GetJobMetricsHourly :: "string \<Rightarrow> int \<Rightarrow> job_metrics_hourly list query" where
  "GetJobMetricsHourly hr limit =
     run (\<lambda>s. (Inr (sql_page limit 0
            (rev (sort_key jm_hour (filter (\<lambda>m. hr \<le> jm_hour m) (t_job_metrics s))))), s))"

section \<open>The invariant of the job tables\<close>

definition attempts_ok :: "job \<Rightarrow> bool" where
  "attempts_ok j = (case j_attempt_count j of None \<Rightarrow> True | Some n \<Rightarrow> 0 \<le> n)"

definition tenant_ok :: "string list \<Rightarrow> job \<Rightarrow> bool" where
  "tenant_ok ts j = (case j_tenant j of None \<Rightarrow> True | Some t \<Rightarrow> t \<in> set ts)"

definition job_rows_ok :: "int \<Rightarrow> string list \<Rightarrow> job list \<Rightarrow> bool" where
  "job_rows_ok n ts js \<longleftrightarrow>
     keyed j_id js \<and>
     (\<forall>j\<in>set js. j_id j < n \<and> tenant_ok ts j \<and> attempts_ok j) \<and>
     (\<forall>j\<in>set js. \<forall>j'\<in>set js. j_idem_key j \<noteq> None \<and> j_idem_key j = j_idem_key j' \<longrightarrow> j_id j = j_id j')"

definition jobs_wf :: "db \<Rightarrow> bool" where
  "jobs_wf s \<longleftrightarrow>
     job_rows_ok (seq_jobs s) (t_tenants s) (t_jobs s) \<and>
     dom (t_processed_jobs s) \<subseteq> j_id ` set (t_jobs s) \<and>
     keyed dl_id (t_dead_letters s) \<and>
     (\<forall>d\<in>set (t_dead_letters s). dl_id d < seq_dead_letters s \<and> dl_job_id d \<in> j_id ` set (t_jobs s))"

lemma jobs_wf_fault_blind [simp]: "fault_blind jobs_wf"
  by (simp add: fault_blind_def jobs_wf_def)

lemma job_rows_ok_update:
  assumes "job_rows_ok n ts js"
    and "\<And>j. p j \<Longrightarrow> j_id (f j) = j_id j"
    and "\<And>j. p j \<Longrightarrow> j_idem_key (f j) = j_idem_key j"
    and "\<And>j. p j \<Longrightarrow> j_tenant (f j) = j_tenant j"
    and "\<And>j. p j \<Longrightarrow> attempts_ok j \<Longrightarrow> attempts_ok (f j)"
  shows "job_rows_ok n ts (update_where p f js)"
proof -
  have "keyed j_id (update_where p f js)"
    using assms(1,2) by (auto simp: job_rows_ok_def intro: keyed_update_where)
  moreover have "\<forall>j\<in>set (update_where p f js). j_id j < n \<and> tenant_ok ts j \<and> attempts_ok j"
    using assms by (auto simp: set_update_where job_rows_ok_def tenant_ok_def)
  moreover have "\<forall>j\<in>set (update_where p f js). \<forall>j'\<in>set (update_where p f js).
      j_idem_key j \<noteq> None \<and> j_idem_key j = j_idem_key j' \<longrightarrow> j_id j = j_id j'"
  proof (intro ballI impI)
    have origin: "\<exists>r\<in>set js. j_id r = j_id j \<and> j_idem_key r = j_idem_key j"
      if "j \<in> set (update_where p f js)" for j
      using that assms(2,3) by (auto simp: set_update_where)
    fix j j'
    assume "j \<in> set (update_where p f js)" and "j' \<in> set (update_where p f js)"
      and key: "j_idem_key j \<noteq> None \<and> j_idem_key j = j_idem_key j'"
    then obtain r r' where "r \<in> set js" "j_id r = j_id j" "j_idem_key r = j_idem_key j"
      and "r' \<in> set js" "j_id r' = j_id j'" "j_idem_key r' = j_idem_key j'"
      using origin by metis
    with key assms(1) show "j_id j = j_id j'"
      unfolding job_rows_ok_def by metis
  qed
  ultimately show ?thesis by (simp add: job_rows_ok_def)
qed

lemma ids_update_where:
  "(\<And>j. p j \<Longrightarrow> j_id (f j) = j_id j) \<Longrightarrow> j_id ` set (update_where p f js) = j_id ` set js"
  by (induction js) auto

end
