(* ===== verification/Job_Queue.thy ===== *)
theory Job_Queue
  imports Job_Queries
begin

text \<open>
  The life of a job: the statements the program issues against the job tables as one step
  relation, the invariant of the tables under it, and how a row may evolve. The last
  section states what the queue promises to its clients as a locale, interpreted on
  \<open>PickNextJobWithWorker\<close> and these steps.
\<close>

section \<open>Steps\<close>

text \<open>
  One rule per statement the program issues (\<open>RescueZombies_stmt\<close> and the updates of
  single breaker columns are never issued), and one for what leaves the job tables alone:
  time, and statements on other tables. Each runs under its own fault schedule, so a step
  may also be a statement that failed.
\<close>

definition same_job_tables :: "db \<Rightarrow> db \<Rightarrow> bool" where
  "same_job_tables s s' \<longleftrightarrow>
     t_jobs s' = t_jobs s \<and> t_processed_jobs s' = t_processed_jobs s \<and>
     t_dead_letters s' = t_dead_letters s \<and> seq_jobs s' = seq_jobs s \<and>
     seq_dead_letters s' = seq_dead_letters s \<and> t_tenants s' = t_tenants s \<and> clock s \<le> clock s'"

inductive job_step :: "db \<Rightarrow> db \<Rightarrow> bool" where
  elsewhere: "same_job_tables s s' \<Longrightarrow> job_step s s'"
| create: "job_step s (snd (CreateJob tenant ty payload run_at key s))"
| create_idem: "job_step s (snd (CreateJobWithIdempotency tenant ty payload run_at key s))"
| retry_dead: "job_step s (snd (RetryDeadLetterJob tenant ty payload run_at n timeout s))"
| pick: "job_step s (snd (PickNextJob s))"
| pick_worker: "job_step s (snd (PickNextJobWithWorker w s))"
| complete: "job_step s (snd (CompleteJob i s))"
| fail: "job_step s (snd (FailJob err i s))"
| timeout: "job_step s (snd (TimeoutJob i s))"
| next_retry: "job_step s (snd (UpdateJobNextRetry retry_at i s))"
| record_processed: "job_step s (snd (RecordJobProcessed i s))"
| dead_letter: "job_step s (snd (CreateDeadLetterJob i ty payload err n tenant meta s))"
| drop_dead: "job_step s (snd (DeleteDeadLetterJob d s))"

abbreviation job_steps :: "db \<Rightarrow> db \<Rightarrow> bool" where
  "job_steps \<equiv> job_step\<^sup>*\<^sup>*"

lemmas job_statement_defs =
  CreateJob_def CreateJobWithIdempotency_def RetryDeadLetterJob_def PickNextJob_def
  PickNextJobWithWorker_def CompleteJob_def FailJob_def TimeoutJob_def
  UpdateJobNextRetry_def RecordJobProcessed_def CreateDeadLetterJob_def
  DeleteDeadLetterJob_def

section \<open>The invariant\<close>

lemma jobs_wf_update:
  assumes "jobs_wf s"
    and "\<And>j. p j \<Longrightarrow> j_id (f j) = j_id j \<and> j_idem_key (f j) = j_idem_key j \<and>
                     j_tenant (f j) = j_tenant j \<and> j_attempt_count (f j) = j_attempt_count j"
  shows "jobs_wf (s\<lparr>t_jobs := update_where p f (t_jobs s)\<rparr>)"
proof -
  have "j_id ` set (update_where p f (t_jobs s)) = j_id ` set (t_jobs s)"
    using assms(2) by (intro ids_update_where) blast
  moreover have "job_rows_ok (seq_jobs s) (t_tenants s) (update_where p f (t_jobs s))"
    using assms by (intro job_rows_ok_update) (auto simp: jobs_wf_def attempts_ok_def)
  ultimately show ?thesis using assms(1) by (simp add: jobs_wf_def)
qed

lemma jobs_wf_update_status:
  assumes "jobs_wf s"
    and "\<And>j. p j \<Longrightarrow> j_id (f j) = j_id j \<and> j_idem_key (f j) = j_idem_key j \<and>
                     j_tenant (f j) = j_tenant j \<and> j_attempt_count (f j) = j_attempt_count j"
  shows "jobs_wf (update_jobs_status p f s)"
  unfolding update_jobs_status_def using assms by (intro jobs_wf_update) auto

lemma insert_job_cases:
  obtains (refused) e where "insert_job j s = (Inl e, s)"
    | (inserted) "insert_job j s = (Inr j, s\<lparr>t_jobs := t_jobs s @ [j], seq_jobs := seq_jobs s + 1\<rparr>)"
        "tenant_ok (t_tenants s) j" "attempts_ok j"
        "\<And>r. r \<in> set (t_jobs s) \<Longrightarrow> j_idem_key j \<noteq> None \<Longrightarrow> j_idem_key r \<noteq> j_idem_key j"
proof (cases "insert_job j s = (Inr j, s\<lparr>t_jobs := t_jobs s @ [j], seq_jobs := seq_jobs s + 1\<rparr>)")
  case True
  moreover from True have "tenant_ok (t_tenants s) j" "attempts_ok j"
    "\<not> (j_idem_key j \<noteq> None \<and> (\<exists>r\<in>set (t_jobs s). j_idem_key r = j_idem_key j))"
    by (auto simp: insert_job_def tenant_ok_def attempts_ok_def split: option.splits if_splits)
  ultimately show thesis by (intro inserted) auto
next
  case False
  then have "\<exists>e. insert_job j s = (Inl e, s)"
    unfolding insert_job_def by (simp split: if_splits)
  then show thesis using refused by blast
qed

lemma job_rows_ok_append:
  assumes "job_rows_ok n ts js" and "j_id j = n" and "tenant_ok ts j" and "attempts_ok j"
    and "\<And>r. r \<in> set js \<Longrightarrow> j_idem_key j \<noteq> None \<Longrightarrow> j_idem_key r \<noteq> j_idem_key j"
  shows "job_rows_ok (n + 1) ts (js @ [j])"
proof -
  have keyed: "keyed j_id js" and rows: "\<forall>r\<in>set js. j_id r < n \<and> tenant_ok ts r \<and> attempts_ok r"
    using assms(1) unfolding job_rows_ok_def by blast+
  from rows assms(2) have "j_id j \<notin> j_id ` set js" by force
  with keyed have "keyed j_id (js @ [j])" by (rule keyed_append_fresh)
  moreover have "\<forall>r\<in>set (js @ [j]). j_id r < n + 1 \<and> tenant_ok ts r \<and> attempts_ok r"
    using rows assms(2-4) by force
  moreover have "\<forall>r\<in>set (js @ [j]). \<forall>r'\<in>set (js @ [j]).
      j_idem_key r \<noteq> None \<and> j_idem_key r = j_idem_key r' \<longrightarrow> j_id r = j_id r'"
  proof (intro ballI impI)
    fix r r'
    assume "r \<in> set (js @ [j])" "r' \<in> set (js @ [j])"
      and key: "j_idem_key r \<noteq> None \<and> j_idem_key r = j_idem_key r'"
    then consider "r \<in> set js" "r' \<in> set js" | "r = j" "r' = j"
      using assms(5) by fastforce
    then show "j_id r = j_id r'"
    proof cases
      case 1
      with key assms(1) show ?thesis unfolding job_rows_ok_def by blast
    qed simp
  qed
  ultimately show ?thesis unfolding job_rows_ok_def by blast
qed

lemma jobs_wf_insert:
  assumes "jobs_wf s" and "j_id j = seq_jobs s"
  shows "jobs_wf (snd (insert_job j s))"
proof (cases j s rule: insert_job_cases)
  case (refused e)
  with assms(1) show ?thesis by simp
next
  case inserted
  have "job_rows_ok (seq_jobs s + 1) (t_tenants s) (t_jobs s @ [j])"
    using assms inserted(2-4) by (intro job_rows_ok_append) (auto simp: jobs_wf_def)
  with assms(1) inserted(1) show ?thesis by (auto simp: jobs_wf_def)
qed

text \<open>The rule for statements: drop the schedule, then look at the statement itself.\<close>

lemma jobs_wf_run: "(\<And>s. jobs_wf s \<Longrightarrow> jobs_wf (snd (q s))) \<Longrightarrow> jobs_wf s \<Longrightarrow> jobs_wf (snd (run q s))"
  by (rule run_preserves) simp_all

lemma jobs_wf_dead_letter:
  "jobs_wf s \<Longrightarrow> dl_id d = seq_dead_letters s \<Longrightarrow> dl_job_id d \<in> j_id ` set (t_jobs s) \<Longrightarrow>
   jobs_wf (s\<lparr>t_dead_letters := t_dead_letters s @ [d], seq_dead_letters := seq_dead_letters s + 1\<rparr>)"
  unfolding jobs_wf_def by (auto intro!: keyed_append_fresh)

lemma jobs_wf_job_step: "job_step s s' \<Longrightarrow> jobs_wf s \<Longrightarrow> jobs_wf s'"
proof (induction rule: job_step.induct)
  case (elsewhere s s')
  then show ?case by (simp add: jobs_wf_def same_job_tables_def)
next
  case (create s tenant ty payload run_at key)
  then show ?case
    unfolding CreateJob_def by (intro jobs_wf_run jobs_wf_insert) (simp_all add: new_job_def)
next
  case (create_idem s tenant ty payload run_at key)
  show ?case unfolding CreateJobWithIdempotency_def
  proof (rule jobs_wf_run [OF _ create_idem])
    fix s :: db assume wf: "jobs_wf s"
    let ?found = "if key = None then None else find (\<lambda>r. j_idem_key r = key) (t_jobs s)"
    show "jobs_wf (snd (case ?found of
         Some r \<Rightarrow>
           (Inr (r\<lparr>j_updated_at := Some (clock s)\<rparr>),
            s\<lparr>t_jobs := update_where (\<lambda>r'. j_id r' = j_id r)
                 (\<lambda>r'. r'\<lparr>j_updated_at := Some (clock s)\<rparr>) (t_jobs s)\<rparr>)
       | None \<Rightarrow> insert_job (new_job s tenant ty payload run_at key) s))"
    proof (cases ?found)
      case None
      with wf show ?thesis
        by (simp only: option.case) (rule jobs_wf_insert, simp_all add: new_job_def)
    next
      case (Some r)
      with wf show ?thesis
        by (simp only: option.case snd_conv) (rule jobs_wf_update, simp_all)
    qed
  qed
next
  case (retry_dead s tenant ty payload run_at n timeout)
  then show ?case
    unfolding RetryDeadLetterJob_def by (intro jobs_wf_run jobs_wf_insert) (simp_all add: new_job_def)
next
  case (pick s)
  then show ?case
    unfolding PickNextJob_def
    by (intro jobs_wf_run) (simp_all split: option.split add: jobs_wf_update_status start_job_def)
next
  case (pick_worker w s)
  then show ?case
    unfolding PickNextJobWithWorker_def
    by (intro jobs_wf_run) (simp_all split: option.split add: jobs_wf_update_status start_job_def)
next
  case (complete i s)
  then show ?case
    unfolding CompleteJob_def by (intro jobs_wf_run) (simp_all add: jobs_wf_update_status)
next
  case (fail err i s)
  then show ?case
    unfolding FailJob_def by (intro jobs_wf_run) (simp_all add: jobs_wf_update_status)
next
  case (timeout i s)
  then show ?case
    unfolding TimeoutJob_def by (intro jobs_wf_run) (simp_all add: jobs_wf_update_status)
next
  case (next_retry retry_at i s)
  then show ?case
    unfolding UpdateJobNextRetry_def by (intro jobs_wf_run) (simp_all add: jobs_wf_update)
next
  case (record_processed s i)
  then show ?case
    unfolding RecordJobProcessed_def by (intro jobs_wf_run) (auto simp: jobs_wf_def)
next
  case (dead_letter s i ty payload err n tenant meta)
  then show ?case
    unfolding CreateDeadLetterJob_def by (intro jobs_wf_run) (simp_all add: Let_def jobs_wf_dead_letter)
next
  case (drop_dead s d)
  then show ?case
    unfolding DeleteDeadLetterJob_def by (intro jobs_wf_run) (auto simp: jobs_wf_def keyed_filter)
qed

lemma job_step_eq: "job_step s (snd p) \<Longrightarrow> p = (r, s') \<Longrightarrow> job_step s s'"
  by simp

lemma jobs_wf_job_steps: "job_steps s s' \<Longrightarrow> jobs_wf s \<Longrightarrow> jobs_wf s'"
  by (induction rule: rtranclp_induct) (auto intro: jobs_wf_job_step)


section \<open>How rows evolve\<close>

definition settled :: "job \<Rightarrow> bool" where
  "settled j \<longleftrightarrow> j_status j = Completed \<or> j_status j = Failed"

text \<open>
  What no statement changes about a row, and the two ways it cannot move: back to
  \<open>pending\<close>, and out of \<open>completed\<close> or \<open>failed\<close>.
\<close>

definition evolves :: "job \<Rightarrow> job \<Rightarrow> bool" where
  "evolves j j' \<longleftrightarrow>
     j_id j' = j_id j \<and> j_type j' = j_type j \<and> j_payload j' = j_payload j \<and>
     j_tenant j' = j_tenant j \<and> j_idem_key j' = j_idem_key j \<and>
     j_attempt_count j' = j_attempt_count j \<and> j_run_at j' = j_run_at j \<and>
     j_priority j' = j_priority j \<and>
     (j_status j \<noteq> Pending \<longrightarrow> j_status j' \<noteq> Pending) \<and> (settled j \<longrightarrow> settled j')"

lemma evolves_refl [simp, intro]: "evolves j j"
  by (simp add: evolves_def)

lemma evolves_trans: "evolves a b \<Longrightarrow> evolves b c \<Longrightarrow> evolves a c"
  by (simp add: evolves_def)

definition rows_evolve :: "db \<Rightarrow> db \<Rightarrow> bool" where
  "rows_evolve s s' \<longleftrightarrow> (\<exists>js new. t_jobs s' = js @ new \<and> list_all2 evolves (t_jobs s) js)"

lemma rows_evolve_same: "t_jobs s' = t_jobs s \<Longrightarrow> rows_evolve s s'"
  unfolding rows_evolve_def by (rule exI [of _ "t_jobs s"]) (auto intro: list.rel_refl)

lemma rows_evolve_trans:
  assumes "rows_evolve a b" and "rows_evolve b c"
  shows "rows_evolve a c"
proof -
  from assms obtain js new js' new' where b: "t_jobs b = js @ new" "list_all2 evolves (t_jobs a) js"
    and c: "t_jobs c = js' @ new'" "list_all2 evolves (t_jobs b) js'"
    unfolding rows_evolve_def by blast
  from b(1) c(2) obtain us vs where "js' = us @ vs" "list_all2 evolves js us"
    by (auto simp: list_all2_append1)
  with b(2) have "list_all2 evolves (t_jobs a) us"
    by (auto elim: list_all2_trans [rotated] intro: evolves_trans)
  with c(1) \<open>js' = us @ vs\<close> show ?thesis
    unfolding rows_evolve_def by (metis append.assoc)
qed

lemma rows_evolve_update:
  "(\<And>j. j \<in> set (t_jobs s) \<Longrightarrow> p j \<Longrightarrow> evolves j (f j)) \<Longrightarrow>
   rows_evolve s (s\<lparr>t_jobs := update_where p f (t_jobs s)\<rparr>)"
  unfolding rows_evolve_def update_where_def
  by (rule exI [of _ "map (\<lambda>r. if p r then f r else r) (t_jobs s)"], rule exI [of _ "[]"])
    (auto simp: list_all2_map2 intro: list_all2_refl list.rel_refl_strong)

lemma rows_evolve_update_status:
  "(\<And>j. j \<in> set (t_jobs s) \<Longrightarrow> p j \<Longrightarrow> evolves j (f j)) \<Longrightarrow> rows_evolve s (update_jobs_status p f s)"
  unfolding update_jobs_status_def
  by (rule rows_evolve_update) (auto simp: evolves_def settled_def)

lemma rows_evolve_insert: "rows_evolve s (snd (insert_job j s))"
  by (cases j s rule: insert_job_cases) (auto simp: rows_evolve_def intro: list.rel_refl)

lemma rows_evolve_run:
  assumes "\<And>s. jobs_wf s \<Longrightarrow> rows_evolve s (snd (q s))" and "jobs_wf s"
  shows "rows_evolve s (snd (run q s))"
proof (rule run_rel)
  fix fs
  show "rows_evolve s (s\<lparr>faults := fs\<rparr>)" by (rule rows_evolve_same) simp
  have "jobs_wf (s\<lparr>faults := fs\<rparr>)"
    using jobs_wf_fault_blind assms(2) by (simp add: fault_blind_def)
  then have "rows_evolve (s\<lparr>faults := fs\<rparr>) (snd (q (s\<lparr>faults := fs\<rparr>)))" by (rule assms(1))
  then show "rows_evolve s (snd (q (s\<lparr>faults := fs\<rparr>)))" by (simp add: rows_evolve_def)
qed

lemma next_eligible_Some:
  assumes "next_eligible s = Some j"
  shows "j \<in> set (t_jobs s)" and "eligible (clock s) j"
    and "j' \<in> set (t_jobs s) \<Longrightarrow> eligible (clock s) j' \<Longrightarrow> pick_order j \<le> pick_order j'"
  using assms unfolding next_eligible_def
  by (auto dest: least_by_in least_by_least)

lemma next_eligible_only:
  assumes "jobs_wf s" and "next_eligible s = Some j" and "r \<in> set (t_jobs s)" and "j_id r = j_id j"
  shows "r = j"
  using assms next_eligible_Some(1) [OF assms(2)] keyed_unique
  unfolding jobs_wf_def job_rows_ok_def by metis

lemma evolves_start:
  assumes "jobs_wf s" and "next_eligible s = Some j" and "r \<in> set (t_jobs s)" and "j_id r = j_id j"
  shows "evolves r ((start_job t r)\<lparr>j_worker_id := w\<rparr>)" and "evolves r (start_job t r)"
  using next_eligible_only [OF assms] next_eligible_Some(2) [OF assms(2)]
  by (auto simp: evolves_def start_job_def eligible_def settled_def)

lemma rows_evolve_pick:
  assumes "jobs_wf s" and "next_eligible s = Some j"
  shows "rows_evolve s (update_jobs_status (\<lambda>r. j_id r = j_id j) (start_job t) s)"
    and "rows_evolve s (update_jobs_status (\<lambda>r. j_id r = j_id j)
           (\<lambda>r. (start_job t r)\<lparr>j_worker_id := w\<rparr>) s)"
  using evolves_start [OF assms] by (auto intro: rows_evolve_update_status)

lemma job_step_evolves: "job_step s s' \<Longrightarrow> jobs_wf s \<Longrightarrow> rows_evolve s s'"
proof (induction rule: job_step.induct)
  case (create s tenant ty payload run_at key)
  then show ?case unfolding CreateJob_def by (intro rows_evolve_run rows_evolve_insert)
next
  case (create_idem s tenant ty payload run_at key)
  then show ?case unfolding CreateJobWithIdempotency_def
    by (intro rows_evolve_run)
      (auto split: option.split intro!: rows_evolve_insert rows_evolve_update simp: evolves_def settled_def)
next
  case (retry_dead s tenant ty payload run_at n timeout)
  then show ?case unfolding RetryDeadLetterJob_def by (intro rows_evolve_run rows_evolve_insert)
next
  case (pick s)
  then show ?case unfolding PickNextJob_def
    by (intro rows_evolve_run)
      (auto split: option.split intro: rows_evolve_pick rows_evolve_same)
next
  case (pick_worker w s)
  then show ?case unfolding PickNextJobWithWorker_def
    by (intro rows_evolve_run)
      (auto split: option.split intro: rows_evolve_pick rows_evolve_same)
next
  case (complete i s)
  then show ?case unfolding CompleteJob_def
    by (intro rows_evolve_run) (auto intro!: rows_evolve_update_status simp: evolves_def settled_def)
next
  case (fail err i s)
  then show ?case unfolding FailJob_def
    by (intro rows_evolve_run) (auto intro!: rows_evolve_update_status simp: evolves_def settled_def)
next
  case (timeout i s)
  then show ?case unfolding TimeoutJob_def
    by (intro rows_evolve_run) (auto intro!: rows_evolve_update_status simp: evolves_def settled_def)
next
  case (next_retry retry_at i s)
  then show ?case unfolding UpdateJobNextRetry_def
    by (intro rows_evolve_run) (auto intro!: rows_evolve_update simp: evolves_def settled_def)
next
  case (record_processed s i)
  then show ?case unfolding RecordJobProcessed_def
    by (intro rows_evolve_run) (auto intro: rows_evolve_same)
next
  case (dead_letter s i ty payload err n tenant meta)
  then show ?case unfolding CreateDeadLetterJob_def
    by (intro rows_evolve_run) (auto simp: Let_def intro: rows_evolve_same)
next
  case (drop_dead s d)
  then show ?case unfolding DeleteDeadLetterJob_def
    by (intro rows_evolve_run) (auto intro: rows_evolve_same)
qed (auto intro: rows_evolve_same simp: same_job_tables_def)

lemma job_steps_evolve: "job_steps s s' \<Longrightarrow> jobs_wf s \<Longrightarrow> rows_evolve s s'"
proof (induction rule: rtranclp_induct)
  case base
  show ?case by (rule rows_evolve_same) simp
next
  case (step t u)
  then show ?case
    by (meson jobs_wf_job_steps job_step_evolves rows_evolve_trans)
qed

lemma rows_evolve_row:
  assumes "rows_evolve s s'" and "j \<in> set (t_jobs s)"
  obtains j' where "j' \<in> set (t_jobs s')" and "evolves j j'"
proof -
  from assms(1) obtain js new where js: "t_jobs s' = js @ new" "list_all2 evolves (t_jobs s) js"
    unfolding rows_evolve_def by blast
  from assms(2) js(2) obtain j' where "j' \<in> set js" "evolves j j'"
    by (metis in_set_conv_nth list_all2_conv_all_nth)
  with js(1) show thesis by (intro that) auto
qed


lemma update_jobs_status_row:
  "r \<in> set (t_jobs s) \<Longrightarrow> p r \<Longrightarrow>
   fire_job_triggers (clock s) r (f r) \<in> set (t_jobs (update_jobs_status p f s))"
  by (auto simp: update_jobs_status_def set_update_where)

section \<open>The contract of a queue\<close>

text \<open>
  What the workers rely on: a job that has left the queue never comes back, a pick hands
  out a job that has not left it, and takes it out. \<open>gone s i\<close> says that the job with id
  \<open>i\<close> has left the queue in state \<open>s\<close>; \<open>step\<close> is anything that may happen between picks.
\<close>

locale take_once_queue =
  fixes inv :: "'s \<Rightarrow> bool"
    and step :: "'s \<Rightarrow> 's \<Rightarrow> bool"
    and pick :: "'w \<Rightarrow> 's \<Rightarrow> ('e + 'j) \<times> 's"
    and ident :: "'j \<Rightarrow> 'i"
    and gone :: "'s \<Rightarrow> 'i \<Rightarrow> bool"
  assumes inv_step: "inv s \<Longrightarrow> step s s' \<Longrightarrow> inv s'"
    and gone_step: "inv s \<Longrightarrow> step s s' \<Longrightarrow> gone s i \<Longrightarrow> gone s' i"
    and pick_step: "step s (snd (pick w s))"
    and pick_present: "inv s \<Longrightarrow> pick w s = (Inr j, s') \<Longrightarrow> \<not> gone s (ident j)"
    and pick_takes: "inv s \<Longrightarrow> pick w s = (Inr j, s') \<Longrightarrow> gone s' (ident j)"
begin

lemma inv_steps: "step\<^sup>*\<^sup>* s s' \<Longrightarrow> inv s \<Longrightarrow> inv s'"
  by (induction rule: rtranclp_induct) (auto intro: inv_step)

lemma gone_steps: "step\<^sup>*\<^sup>* s s' \<Longrightarrow> inv s \<Longrightarrow> gone s i \<Longrightarrow> gone s' i"
proof (induction rule: rtranclp_induct)
  case (step t u)
  then show ?case using gone_step inv_steps by blast
qed

lemma gone_never_picked:
  "inv s \<Longrightarrow> gone s i \<Longrightarrow> step\<^sup>*\<^sup>* s s' \<Longrightarrow> pick w s' = (Inr j, s'') \<Longrightarrow> ident j \<noteq> i"
  using gone_steps inv_steps pick_present by blast

lemma picked_once:
  assumes "inv s" and "pick w s = (Inr j, s1)" and "step\<^sup>*\<^sup>* s1 s2" and "pick w' s2 = (Inr j', s3)"
  shows "ident j' \<noteq> ident j"
proof -
  have "inv s1" using assms(1,2) inv_step pick_step [of s w] by (metis snd_conv)
  moreover have "gone s1 (ident j)" using assms(1,2) by (rule pick_takes)
  ultimately show ?thesis using assms(3,4) by (rule gone_never_picked)
qed

text \<open>All workers together, each picking as often as it likes: no job is handed out twice.\<close>

lemma picks_distinct:
  "inv s \<Longrightarrow> (\<And>n. step\<^sup>*\<^sup>* (snd (pick (w n) (st n))) (st (Suc n))) \<Longrightarrow> st 0 = s \<Longrightarrow>
   m < n \<Longrightarrow> pick (w m) (st m) = (Inr j, s1) \<Longrightarrow> pick (w n) (st n) = (Inr j', s2) \<Longrightarrow>
   ident j \<noteq> ident j'"
proof -
  assume inv: "inv s" and st: "\<And>n. step\<^sup>*\<^sup>* (snd (pick (w n) (st n))) (st (Suc n))" "st 0 = s"
    and mn: "m < n" and picks: "pick (w m) (st m) = (Inr j, s1)" "pick (w n) (st n) = (Inr j', s2)"
  have next_st: "step\<^sup>*\<^sup>* (st k) (st (Suc k))" for k
    using st(1) [of k] pick_step by (meson converse_rtranclp_into_rtranclp)
  have steps: "step\<^sup>*\<^sup>* (st k) (st (k + d))" for k d
    by (induction d) (auto intro: rtranclp_trans next_st)
  have "inv (st m)" using inv st(2) steps [of 0 m] by (auto intro: inv_steps)
  moreover have "step\<^sup>*\<^sup>* s1 (st n)"
    using st(1) [of m] picks(1) steps [of "Suc m" "n - Suc m"] mn by (auto intro: rtranclp_trans)
  ultimately show ?thesis using picked_once picks by metis
qed

end

definition left_queue :: "db \<Rightarrow> int \<Rightarrow> bool" where
  "left_queue s i \<longleftrightarrow> (\<exists>j\<in>set (t_jobs s). j_id j = i \<and> j_status j \<noteq> Pending)"

lemma left_queue_job_step:
  assumes "jobs_wf s" and "job_step s s'" and "left_queue s i"
  shows "left_queue s' i"
proof -
  from assms(3) obtain j where j: "j \<in> set (t_jobs s)" "j_id j = i" "j_status j \<noteq> Pending"
    unfolding left_queue_def by blast
  from job_step_evolves [OF assms(2,1)] j(1) obtain j' where "j' \<in> set (t_jobs s')" "evolves j j'"
    by (rule rows_evolve_row)
  with j show ?thesis by (auto simp: evolves_def left_queue_def)
qed

text \<open>What a successful pick did, whatever the fault schedule.\<close>

lemma pick_with_worker_Inr:
  assumes "PickNextJobWithWorker w s = (Inr j, s')"
  obtains r fs where "next_eligible s = Some r"
    and "j = (start_job (clock s) r)\<lparr>j_worker_id := w\<rparr>"
    and "s' = update_jobs_status (\<lambda>q. j_id q = j_id r)
                (\<lambda>q. (start_job (clock s) q)\<lparr>j_worker_id := w\<rparr>) (s\<lparr>faults := fs\<rparr>)"
  using assms unfolding PickNextJobWithWorker_def
  by (elim run_cases) (auto simp: next_eligible_def split: option.splits)

interpretation job_queue: take_once_queue jobs_wf job_step PickNextJobWithWorker j_id left_queue
proof
  fix s s' :: db and i w j
  show "jobs_wf s \<Longrightarrow> job_step s s' \<Longrightarrow> jobs_wf s'" by (blast intro: jobs_wf_job_step)
  show "jobs_wf s \<Longrightarrow> job_step s s' \<Longrightarrow> left_queue s i \<Longrightarrow> left_queue s' i"
    by (rule left_queue_job_step)
  show "job_step s (snd (PickNextJobWithWorker w s))" by (rule job_step.pick_worker)
  assume wf: "jobs_wf s" and "PickNextJobWithWorker w s = (Inr j, s')"
  then obtain r fs where r: "next_eligible s = Some r" "j = (start_job (clock s) r)\<lparr>j_worker_id := w\<rparr>"
    "s' = update_jobs_status (\<lambda>q. j_id q = j_id r)
                (\<lambda>q. (start_job (clock s) q)\<lparr>j_worker_id := w\<rparr>) (s\<lparr>faults := fs\<rparr>)"
    by (blast elim: pick_with_worker_Inr)
  show "\<not> left_queue s (j_id j)"
    using next_eligible_only [OF wf r(1)] next_eligible_Some(2) [OF r(1)] r(2)
    by (auto simp: left_queue_def eligible_def start_job_def)
  have "fire_job_triggers (clock s) r j \<in> set (t_jobs s')"
    unfolding r(2,3)
    using update_jobs_status_row [of r "s\<lparr>faults := fs\<rparr>" "\<lambda>q. j_id q = j_id r"
      "\<lambda>q. (start_job (clock s) q)\<lparr>j_worker_id := w\<rparr>"] next_eligible_Some(1) [OF r(1)]
    by simp
  moreover have "j_status j = Processing" by (simp add: r(2) start_job_def)
  ultimately show "left_queue s' (j_id j)"
    unfolding left_queue_def by (intro bexI [of _ "fire_job_triggers (clock s) r j"]) simp_all
qed

section \<open>Picking\<close>

text \<open>
  The reference for a pick: it returns a job exactly when one is due, the job it returns
  was due and no due job comes before it, and only that row changes.
\<close>

definition pick_spec :: "string option \<Rightarrow> db \<Rightarrow> (dberr + job) \<times> db \<Rightarrow> bool" where
  "pick_spec w s out \<longleftrightarrow>
     (case out of
        (Inl e, s') \<Rightarrow> e = NoRows \<and> s' = s \<and> (\<forall>j\<in>set (t_jobs s). \<not> eligible (clock s) j)
      | (Inr j, s') \<Rightarrow>
          (\<exists>r\<in>set (t_jobs s).
             eligible (clock s) r \<and>
             (\<forall>q\<in>set (t_jobs s). eligible (clock s) q \<longrightarrow> pick_order r \<le> pick_order q) \<and>
             j_id j = j_id r \<and> j_status j = Processing \<and> j_worker_id j = w \<and>
             j_started_at j = Some (clock s) \<and>
             j_type j = j_type r \<and> j_payload j = j_payload r \<and>
             set (t_jobs s') = insert j (set (t_jobs s) - {r}) \<and>
             s' = s\<lparr>t_jobs := t_jobs s'\<rparr>))"


lemma start_job_stored:
  "j_status r = Pending \<Longrightarrow>
   fire_job_triggers t r ((start_job t r)\<lparr>j_worker_id := w\<rparr>) = (start_job t r)\<lparr>j_worker_id := w\<rparr>"
  by (simp add: fire_job_triggers_def start_job_def)

lemma keyed_update_set:
  assumes "keyed k rs" and "r \<in> set rs"
  shows "set (update_where (\<lambda>q. k q = k r) f rs) = insert (f r) (set rs - {r})"
proof -
  have "{q \<in> set rs. k q = k r} = {r}" using assms keyed_unique by fastforce
  moreover have "{q \<in> set rs. k q \<noteq> k r} = set rs - {r}" using assms keyed_unique by fastforce
  ultimately show ?thesis by (simp add: set_update_where)
qed



text \<open>C1: a job is handed out at most once: after one worker picked it, no later pick, by any
  worker and after any statements in between, returns the same job.\<close>

theorem job_picked_at_most_once:
  assumes "jobs_wf s" and "PickNextJobWithWorker w s = (Inr j, s1)" and "job_steps s1 s2"
    and "PickNextJobWithWorker w' s2 = (Inr j', s3)"
  shows "j_id j' \<noteq> j_id j"
  using assms by (rule job_queue.picked_once)

section \<open>The properties at a concrete database\<close>

text \<open>Two jobs enqueued at instant 50, the clock then at 100.\<close>

definition two_jobs :: db where
  "two_jobs =
     (let s1 = snd (CreateJob (Some ''default'') ''send_email'' ''{}'' (Some 50) None (migrated_db 50));
          s2 = snd (CreateJob None ''process_ai'' ''[]'' (Some 60) (Some ''k'') s1)
      in s2\<lparr>clock := 100\<rparr>)"

lemma jobs_wf_migrated: "jobs_wf (migrated_db t)"
  by (simp add: jobs_wf_def job_rows_ok_def migrated_db_def keyed_def)

lemma two_jobs_reached: "job_steps (migrated_db 50) two_jobs"
proof -
  let ?s0 = "migrated_db 50"
  let ?s1 = "snd (CreateJob (Some ''default'') ''send_email'' ''{}'' (Some 50) None ?s0)"
  let ?s2 = "snd (CreateJob None ''process_ai'' ''[]'' (Some 60) (Some ''k'') ?s1)"
  have "clock ?s2 \<le> 100"
    by (simp add: CreateJob_def run_def migrated_db_def insert_job_def new_job_def)
  then have "job_step ?s2 (?s2\<lparr>clock := 100\<rparr>)" by (intro job_step.elsewhere) (simp add: same_job_tables_def)
  moreover have "job_step ?s0 ?s1" and "job_step ?s1 ?s2" by (rule job_step.create)+
  ultimately show ?thesis
    unfolding two_jobs_def Let_def by (intro three_steps)
qed

lemma jobs_wf_two_jobs: "jobs_wf two_jobs"
  using two_jobs_reached jobs_wf_migrated by (rule jobs_wf_job_steps)

lemma faults_two_jobs: "faults two_jobs = []"
  by (simp add: two_jobs_def CreateJob_def run_def migrated_db_def insert_job_def new_job_def)



text \<open>The two workers get the two jobs.\<close>

definition first_pick :: "(dberr + job) \<times> db" where
  "first_pick = PickNextJobWithWorker (Some ''w1'') two_jobs"

definition second_pick :: "(dberr + job) \<times> db" where
  "second_pick = PickNextJobWithWorker (Some ''w2'') (snd first_pick)"

lemma picks_succeed:
  "is_ok (fst first_pick) \<and> is_ok (fst second_pick)"
  by code_simp

theorem job_picked_at_most_once_witness:
  "\<exists>j j'. fst first_pick = Inr j \<and> fst second_pick = Inr j' \<and> j_id j' \<noteq> j_id j"
proof -
  obtain j s1 where j: "PickNextJobWithWorker (Some ''w1'') two_jobs = (Inr j, s1)"
    using picks_succeed unfolding first_pick_def is_ok_iff by (metis prod.collapse)
  obtain j' s2 where j': "PickNextJobWithWorker (Some ''w2'') s1 = (Inr j', s2)"
    using picks_succeed j unfolding second_pick_def first_pick_def is_ok_iff
    by (metis prod.collapse snd_conv)
  have "j_id j' \<noteq> j_id j"
    by (rule job_picked_at_most_once [OF jobs_wf_two_jobs j _ j']) simp
  with j j' show ?thesis by (simp add: first_pick_def second_pick_def)
qed

end
