(* ===== verification/Job_Repository.thy ===== *)
theory Job_Repository
  imports Job_Queue
begin

text \<open>
  The two ways into the queue from the rest of the program: \<open>jobs.JobQueue\<close> and
  \<open>jobs.JobRepository\<close> (\<open>internal/features/jobs/repository.go\<close>) and the queue of the
  auth feature (\<open>internal/features/auth/jobqueue.go\<close>), with what enqueueing twice, or
  without a run time, leads to.

  A \<open>NotifyFunc\<close> acts on the state of its owner; \<open>c\<close> is that state, and \<open>notify\<close> the
  callback, \<open>None\<close> when the queue was made without one.
\<close>

type_synonym 'c notify = "('c \<Rightarrow> 'c) option"

definition NotifyNewJob :: "'c notify \<Rightarrow> 'c \<Rightarrow> 'c" where
  "NotifyNewJob notify c = (case notify of None \<Rightarrow> c | Some f \<Rightarrow> f c)"

definition Enqueue ::
  "'c notify \<Rightarrow> string \<Rightarrow> string \<Rightarrow> string \<Rightarrow> 'c \<times> db \<Rightarrow> (dberr + unit) \<times> 'c \<times> db" where
  "Enqueue notify ty payload tenant = (\<lambda>(c, s).
     case CreateJob (null_string tenant) ty payload (Some (clock s)) None s of
       (Inl e, s') \<Rightarrow> (Inl e, c, s')
     | (Inr _, s') \<Rightarrow> (Inr (), NotifyNewJob notify c, s'))"

definition EnqueueWithIdempotency ::
  "'c notify \<Rightarrow> string \<Rightarrow> string \<Rightarrow> string \<Rightarrow> string \<Rightarrow> 'c \<times> db \<Rightarrow> (dberr + unit) \<times> 'c \<times> db" where
  "EnqueueWithIdempotency notify ty payload tenant key = (\<lambda>(c, s).
     case CreateJobWithIdempotency (null_string tenant) ty payload (Some (clock s)) (null_string key) s of
       (Inl e, s') \<Rightarrow> (Inl e, c, s')
     | (Inr _, s') \<Rightarrow> (Inr (), NotifyNewJob notify c, s'))"

record create_job_params =
  cj_tenant_id :: string
  cj_type :: string
  cj_payload :: string
  cj_run_at :: instant

definition repo_PickNext :: "job query" where
  "repo_PickNext = PickNextJob"

definition repo_Complete :: "int \<Rightarrow> unit query" where
  "repo_Complete i = CompleteJob i"

definition repo_Fail :: "int \<Rightarrow> string \<Rightarrow> unit query" where
  "repo_Fail i msg = FailJob (Some msg) i"

definition repo_Create :: "create_job_params \<Rightarrow> job query" where
  "repo_Create ps =
     CreateJob (null_string (cj_tenant_id ps)) (cj_type ps) (cj_payload ps)
       (null_time (cj_run_at ps)) None"

definition repo_RecordProcessed :: "int \<Rightarrow> unit query" where
  "repo_RecordProcessed i = RecordJobProcessed i"

text \<open>The pair \<open>(bool, error)\<close>: with an error the boolean is false and is not read.\<close>

definition repo_IsProcessed :: "int \<Rightarrow> bool query" where
  "repo_IsProcessed i s =
     (case IsJobProcessed i s of
        (Inl e, s') \<Rightarrow> (Inl e, s')
      | (Inr n, s') \<Rightarrow> (Inr (n = 1), s'))"

text \<open>\<open>auth.jobQueueImpl.Enqueue\<close>: the same insert, in a transaction, without notification.\<close>

definition auth_Enqueue :: "string \<Rightarrow> string \<Rightarrow> string \<Rightarrow> unit query" where
  "auth_Enqueue ty payload tenant =
     transaction (\<lambda>s.
       case CreateJob (null_string tenant) ty payload (Some (clock s)) None s of
         (Inl e, s') \<Rightarrow> (Inl e, s')
       | (Inr _, s') \<Rightarrow> (Inr (), s'))"

section \<open>Every call is made of steps of the queue\<close>

lemma Enqueue_steps: "job_steps s (snd (snd (Enqueue notify ty payload tenant (c, s))))"
  by (auto simp: Enqueue_def split: prod.split sum.split
      intro!: r_into_rtranclp dest!: arg_cong [where f = snd] intro: job_step.create)

lemma EnqueueWithIdempotency_step:
  "EnqueueWithIdempotency notify ty payload tenant key (c, s) = (r, c', s') \<Longrightarrow> job_step s s'"
  by (auto simp: EnqueueWithIdempotency_def split: prod.splits sum.splits
      intro: job_step_eq [OF job_step.create_idem])

lemma repo_Create_step: "repo_Create ps s = (r, s') \<Longrightarrow> job_step s s'"
  unfolding repo_Create_def by (rule job_step_eq [OF job_step.create])

section \<open>Rows with a key\<close>

lemma idem_key_unique:
  assumes "jobs_wf s" and "j \<in> set (t_jobs s)" and "j' \<in> set (t_jobs s)"
    and "j_idem_key j = Some k" and "j_idem_key j' = Some k"
  shows "j = j'"
proof -
  have rows: "job_rows_ok (seq_jobs s) (t_tenants s) (t_jobs s)"
    using assms(1) by (simp add: jobs_wf_def)
  then have "j_id j = j_id j'"
    using assms(2-5) unfolding job_rows_ok_def by (metis option.distinct(1))
  with rows assms(2,3) show ?thesis
    unfolding job_rows_ok_def by (metis keyed_unique)
qed

lemma insert_job_Inr: "insert_job j s = (Inr r, s') \<Longrightarrow> t_jobs s' = t_jobs s @ [j]"
  by (auto simp: insert_job_def split: if_splits)

lemma create_idem_stored:
  assumes "CreateJobWithIdempotency tenant ty payload run_at (Some k) s = (Inr j, s')"
  shows "\<exists>r\<in>set (t_jobs s'). j_idem_key r = Some k"
  using assms unfolding CreateJobWithIdempotency_def
proof (cases rule: run_cases)
  case (executed fs)
  let ?s = "s\<lparr>faults := fs\<rparr>"
  show ?thesis
  proof (cases "find (\<lambda>r. j_idem_key r = Some k) (t_jobs s)")
    case None
    with executed have "insert_job (new_job ?s tenant ty payload run_at (Some k)) ?s = (Inr j, s')"
      by simp
    from insert_job_Inr [OF this] have "t_jobs s' = t_jobs ?s @ [new_job ?s tenant ty payload run_at (Some k)]"
      .
    then show ?thesis by (simp add: new_job_def)
  next
    case (Some r)
    with executed have s': "s' = ?s\<lparr>t_jobs := update_where (\<lambda>r'. j_id r' = j_id r)
                 (\<lambda>r'. r'\<lparr>j_updated_at := Some (clock s)\<rparr>) (t_jobs s)\<rparr>" by auto
    from Some have "r \<in> set (t_jobs s)" "j_idem_key r = Some k" by (auto dest: find_Some_in)
    with s' show ?thesis
      by (auto simp: set_update_where intro!: bexI [of _ "r\<lparr>j_updated_at := Some (clock s)\<rparr>"])
  qed
qed simp

lemma create_idem_again:
  assumes "r \<in> set (t_jobs s)" and "j_idem_key r = Some k" and "faults s = []"
  shows "\<exists>j q. q \<in> set (t_jobs s) \<and> CreateJobWithIdempotency tenant ty payload run_at (Some k) s =
           (Inr j, s\<lparr>t_jobs := update_where (\<lambda>r'. j_id r' = j_id q)
                 (\<lambda>r'. r'\<lparr>j_updated_at := Some (clock s)\<rparr>) (t_jobs s)\<rparr>)"
proof -
  have "find (\<lambda>r. j_idem_key r = Some k) (t_jobs s) \<noteq> None"
    using assms(1,2) unfolding find_None_iff_all by blast
  then obtain q where q: "find (\<lambda>r. j_idem_key r = Some k) (t_jobs s) = Some q" by blast
  then have "q \<in> set (t_jobs s)" by (rule find_Some_in [THEN conjunct1])
  moreover have "CreateJobWithIdempotency tenant ty payload run_at (Some k) s =
      (Inr (q\<lparr>j_updated_at := Some (clock s)\<rparr>), s\<lparr>t_jobs := update_where (\<lambda>r'. j_id r' = j_id q)
                 (\<lambda>r'. r'\<lparr>j_updated_at := Some (clock s)\<rparr>) (t_jobs s)\<rparr>)"
    by (simp add: CreateJobWithIdempotency_def run_no_faults assms(3) q)
  ultimately show ?thesis by blast
qed

lemma jobs_evolve_row:
  assumes "jobs_wf s" and "job_steps s s'" and "j \<in> set (t_jobs s)"
  obtains j' where "j' \<in> set (t_jobs s')" and "evolves j j'"
  using rows_evolve_row [OF job_steps_evolve [OF assms(2,1)] assms(3)] by blast

text \<open>C6: enqueueing twice under one idempotency key makes one job: once a call with the key
  succeeded, a later call, whatever happened in between and whatever it asks for, succeeds, adds no
  row, and leaves the one job with that key with its id, type and payload and never pending again
  once it was picked.\<close>

theorem enqueue_with_idempotency_once:
  assumes "jobs_wf s" and "key \<noteq> ''''"
    and "EnqueueWithIdempotency notify ty payload tenant key (c, s) = (Inr (), c1, s1)"
    and "job_steps s1 s2" and "faults s2 = []"
  shows "\<exists>c3 s3 j1 j3.
    EnqueueWithIdempotency notify ty' payload' tenant' key (c1, s2) = (Inr (), c3, s3) \<and>
    {j \<in> set (t_jobs s1). j_idem_key j = Some key} = {j1} \<and>
    {j \<in> set (t_jobs s3). j_idem_key j = Some key} = {j3} \<and>
    j_id j3 = j_id j1 \<and> j_type j3 = j_type j1 \<and> j_payload j3 = j_payload j1 \<and>
    (j_status j1 \<noteq> Pending \<longrightarrow> j_status j3 \<noteq> Pending) \<and>
    map j_id (t_jobs s3) = map j_id (t_jobs s2)"
proof -
  have key: "null_string key = Some key" using assms(2) by (simp add: null_string_def)
  have wf1: "jobs_wf s1"
    by (rule jobs_wf_job_step [OF EnqueueWithIdempotency_step [OF assms(3)] assms(1)])
  have wf2: "jobs_wf s2" using assms(4) wf1 by (rule jobs_wf_job_steps)
  obtain j1 where j1: "j1 \<in> set (t_jobs s1)" "j_idem_key j1 = Some key"
    using assms(3) key create_idem_stored
    by (fastforce simp: EnqueueWithIdempotency_def split: prod.splits sum.splits)
  obtain j2 where j2: "j2 \<in> set (t_jobs s2)" "evolves j1 j2"
    using wf1 assms(4) j1(1) by (rule jobs_evolve_row)
  then have "j_idem_key j2 = Some key" using j1(2) by (simp add: evolves_def)
  from create_idem_again [OF j2(1) this assms(5)] obtain j q where "q \<in> set (t_jobs s2)" and
    again: "CreateJobWithIdempotency (null_string tenant') ty' payload' (Some (clock s2)) (Some key) s2 =
       (Inr j, s2\<lparr>t_jobs := update_where (\<lambda>r'. j_id r' = j_id q)
                 (\<lambda>r'. r'\<lparr>j_updated_at := Some (clock s2)\<rparr>) (t_jobs s2)\<rparr>)" (is "_ = (Inr j, ?s3)")
    by blast
  have call: "EnqueueWithIdempotency notify ty' payload' tenant' key (c1, s2) =
      (Inr (), NotifyNewJob notify c1, ?s3)"
    by (simp add: EnqueueWithIdempotency_def key again)
  have wf3: "jobs_wf ?s3" by (rule jobs_wf_job_step [OF EnqueueWithIdempotency_step [OF call] wf2])
  have "job_steps s2 ?s3" by (rule r_into_rtranclp) (rule EnqueueWithIdempotency_step [OF call])
  from wf2 this j2(1) obtain j3 where j3: "j3 \<in> set (t_jobs ?s3)" "evolves j2 j3"
    by (rule jobs_evolve_row)
  have "evolves j1 j3" using j2(2) j3(2) by (rule evolves_trans)
  moreover from this j1(2) have "j_idem_key j3 = Some key" by (simp add: evolves_def)
  moreover have "{j \<in> set (t_jobs s1). j_idem_key j = Some key} = {j1}"
    using j1 idem_key_unique [OF wf1] by blast
  moreover have "{j \<in> set (t_jobs ?s3). j_idem_key j = Some key} = {j3}"
    using j3(1) calculation(2) idem_key_unique [OF wf3] by blast
  moreover have "map j_id (t_jobs ?s3) = map j_id (t_jobs s2)" by (simp add: map_update_where)
  ultimately show ?thesis using call unfolding evolves_def by blast
qed

text \<open>a job created with the zero run time is stored with no run time at all and is never due:
  no pick by any worker, at any later time, returns it.\<close>

theorem zero_run_at_never_picked:
  assumes "jobs_wf s" and "cj_run_at ps = zero_time" and "repo_Create ps s = (Inr j, s1)"
    and "job_steps s1 s2" and "PickNextJobWithWorker w s2 = (Inr j', s3)"
  shows "j \<in> set (t_jobs s1) \<and> j_run_at j = None \<and> j_id j' \<noteq> j_id j"
proof -
  have stored: "t_jobs s1 = t_jobs s @ [j] \<and> j_run_at j = None"
    using assms(3) unfolding repo_Create_def CreateJob_def
  proof (cases rule: run_cases)
    case (executed fs)
    from insert_job_Inr [OF this] this show ?thesis
      by (auto simp: insert_job_def new_job_def null_time_def assms(2) split: if_splits)
  qed simp
  then have j: "j \<in> set (t_jobs s1)" and run_at: "j_run_at j = None" by simp_all
  have wf1: "jobs_wf s1" using repo_Create_step [OF assms(3)] assms(1) by (rule jobs_wf_job_step)
  from this assms(4) j obtain j2 where j2: "j2 \<in> set (t_jobs s2)" "evolves j j2"
    by (rule jobs_evolve_row)
  from assms(5) obtain r fs where r: "next_eligible s2 = Some r"
    "j' = (start_job (clock s2) r)\<lparr>j_worker_id := w\<rparr>" by (rule pick_with_worker_Inr)
  have "r \<noteq> j2"
    using next_eligible_Some(2) [OF r(1)] j2(2) run_at by (auto simp: eligible_def evolves_def)
  then have "j_id r \<noteq> j_id j2"
    using next_eligible_only [OF jobs_wf_job_steps [OF assms(4) wf1] r(1) j2(1)] by metis
  with j2(2) r(2) j run_at show ?thesis by (simp add: evolves_def start_job_def)
qed

text \<open>the queue of the auth feature is all or nothing: an enqueue that reports an error, be it
  of the insert, the begin or the commit, leaves every table as it was; one that reports success
  added exactly one row, pending and due at once.\<close>

theorem auth_enqueue_atomic:
  "case auth_Enqueue ty payload tenant s of
     (Inl e, s') \<Rightarrow> s' = s\<lparr>clock := clock s', faults := faults s'\<rparr>
   | (Inr _, s') \<Rightarrow>
       (\<exists>j. s' = s\<lparr>t_jobs := t_jobs s @ [j], seq_jobs := seq_jobs s + 1, faults := faults s'\<rparr> \<and>
            j_id j = seq_jobs s \<and> j_type j = ty \<and> j_payload j = payload \<and>
            j_tenant j = null_string tenant \<and> eligible (clock s) j)"
proof (cases "auth_Enqueue ty payload tenant s")
  case (Pair r s')
  from Pair [unfolded auth_Enqueue_def] show ?thesis
  proof (cases rule: transaction_cases)
    case (aborted e)
    with Pair show ?thesis by simp
  next
    case (committed v fs fs' s2)
    let ?j = "new_job s (null_string tenant) ty payload (Some (clock s)) None"
    from committed(1) obtain j where
      "CreateJob (null_string tenant) ty payload (Some (clock s)) None (s\<lparr>faults := fs\<rparr>) = (Inr j, s2)"
      by (auto split: prod.splits sum.splits)
    then obtain fs2 where "insert_job (new_job (s\<lparr>faults := fs2\<rparr>) (null_string tenant) ty payload
        (Some (clock s)) None) (s\<lparr>faults := fs2\<rparr>) = (Inr j, s2)"
      unfolding CreateJob_def by (cases rule: run_cases) auto
    then have "s2 = s\<lparr>t_jobs := t_jobs s @ [?j], seq_jobs := seq_jobs s + 1, faults := fs2\<rparr>"
      by (auto simp: insert_job_def new_job_def split: if_splits)
    with committed(2,3) Pair show ?thesis
      by (auto simp: new_job_def eligible_def intro!: exI [of _ ?j])
  qed
qed

section \<open>The properties at a concrete database\<close>

definition enqueued_once :: db where
  "enqueued_once = snd (snd (EnqueueWithIdempotency None ''process_webhook'' ''{}'' '''' ''asaas:1''
     ((), migrated_db 50)))"

theorem enqueue_with_idempotency_once_witness:
  "\<exists>s3. EnqueueWithIdempotency None ''send_email'' ''[]'' ''default'' ''asaas:1'' ((), enqueued_once)
           = (Inr (), (), s3) \<and> map j_id (t_jobs s3) = map j_id (t_jobs enqueued_once)"
proof -
  have first: "EnqueueWithIdempotency None ''process_webhook'' ''{}'' '''' ''asaas:1'' ((), migrated_db 50)
      = (Inr (), (), enqueued_once)"
    by (simp add: enqueued_once_def EnqueueWithIdempotency_def CreateJobWithIdempotency_def run_def
        migrated_db_def insert_job_def null_string_def NotifyNewJob_def new_job_def)
  have "faults enqueued_once = []"
    by (simp add: enqueued_once_def EnqueueWithIdempotency_def CreateJobWithIdempotency_def run_def
        migrated_db_def insert_job_def null_string_def NotifyNewJob_def new_job_def)
  from enqueue_with_idempotency_once [where ty' = "''send_email''"
      and payload' = "''[]''" and tenant' = "''default''",
      OF jobs_wf_migrated _ first rtranclp.rtrancl_refl this]
  show ?thesis by auto
qed

text \<open>A job without a run time, and one that is due.\<close>

definition undated :: create_job_params where
  "undated = \<lparr>cj_tenant_id = '''', cj_type = ''process_ai'', cj_payload = ''{}'', cj_run_at = zero_time\<rparr>"

definition undated_and_due :: db where
  "undated_and_due =
     snd (CreateJob None ''process_ai'' ''{}'' (Some 50) None (snd (repo_Create undated (migrated_db 50))))"

theorem zero_run_at_never_picked_witness:
  "\<exists>j j' s'. repo_Create undated (migrated_db 50) = (Inr j, snd (repo_Create undated (migrated_db 50))) \<and>
     PickNextJobWithWorker None undated_and_due = (Inr j', s') \<and> j_id j' \<noteq> j_id j"
proof -
  have "is_ok (fst (repo_Create undated (migrated_db 50)))" by code_simp
  then obtain j where j: "repo_Create undated (migrated_db 50) =
      (Inr j, snd (repo_Create undated (migrated_db 50)))"
    by (metis is_ok_iff prod.collapse)
  have "is_ok (fst (PickNextJobWithWorker None undated_and_due))" by code_simp
  then obtain j' s' where j': "PickNextJobWithWorker None undated_and_due = (Inr j', s')"
    by (metis is_ok_iff prod.collapse)
  have "job_steps (snd (repo_Create undated (migrated_db 50))) undated_and_due"
    unfolding undated_and_due_def by (intro r_into_rtranclp job_step.create)
  from zero_run_at_never_picked [OF jobs_wf_migrated _ j this j'] have "j_id j' \<noteq> j_id j"
    by (simp add: undated_def)
  with j j' show ?thesis by blast
qed

end
