(* ===== verification/Billing_Queries.thy ===== *)
theory Billing_Queries
  imports Database
begin

text \<open>
  The statements of \<open>internal/db/core.sql.go\<close> on webhooks, processed webhook events,
  Asaas customers, payments and subscriptions, with the constraints of
  \<open>migrations/20260226120800_webhooks.sql\<close> and \<open>20260226121100_billing_asaas.sql\<close>.

  A nullable JSON column is scanned into a \<open>json.RawMessage\<close>, which cannot hold NULL:
  \<open>row.Scan\<close> then fails after the statement has run, so a \<open>RETURNING\<close> that gives such a
  row reports an error although the change stays.
\<close>

section \<open>Webhooks\<close>

definition CreateWebhook :: "string \<Rightarrow> string option \<Rightarrow> string \<Rightarrow> string \<Rightarrow> webhook_row query" where
  "CreateWebhook source external_id payload headers =
     run (\<lambda>s.
       if external_id \<noteq> None \<and>
          (\<exists>w\<in>set (t_webhooks s). wh_source w = source \<and> wh_external_id w = external_id)
       then (Inl (UniqueViolation ''webhooks.source, webhooks.external_id''), s)
       else let w = \<lparr>wh_id = seq_webhooks s, wh_source = source, wh_external_id = external_id,
                     wh_payload = payload, wh_headers = headers, wh_status = ''pending'',
                     wh_created_at = Some (clock s)\<rparr>
            in (Inr w, s\<lparr>t_webhooks := t_webhooks s @ [w], seq_webhooks := seq_webhooks s + 1\<rparr>))"

text \<open>
  The conflict target \<open>(source, external_id)\<close> names no unique constraint: the only unique
  index on these columns is partial, and the target has no WHERE clause; and the table has
  no column \<open>updated_at\<close>. SQLite refuses the statement when it prepares it.
\<close>

definition CreateWebhookWithIdempotency ::
  "string \<Rightarrow> string option \<Rightarrow> string \<Rightarrow> string \<Rightarrow> webhook_row query" where
  "CreateWebhookWithIdempotency source external_id payload headers =
     run (\<lambda>s. (Inl (BadStatement ''ON CONFLICT clause does not match any PRIMARY KEY or UNIQUE constraint''), s))"

definition GetWebhookByID :: "int \<Rightarrow> webhook_row query" where
  "GetWebhookByID i =
     run (\<lambda>s. (case find (\<lambda>w. wh_id w = i) (t_webhooks s) of
                 None \<Rightarrow> Inl NoRows | Some w \<Rightarrow> Inr w, s))"

section \<open>Processed events\<close>

definition event_processed :: "db \<Rightarrow> string \<Rightarrow> string \<Rightarrow> bool" where
  "event_processed s source ev \<longleftrightarrow>
     (\<exists>p\<in>set (t_processed_events s). pe_source p = source \<and> pe_event_id p = ev)"

definition IsWebhookEventProcessed :: "string \<Rightarrow> string \<Rightarrow> int query" where
  "IsWebhookEventProcessed source ev =
     run (\<lambda>s. (Inr (if event_processed s source ev then 1 else 0), s))"

definition CreateProcessedWebhookEvent :: "string \<Rightarrow> string \<Rightarrow> int option \<Rightarrow> unit query" where
  "CreateProcessedWebhookEvent source ev webhook =
     run (\<lambda>s.
       if event_processed s source ev
       then (Inr (), s\<lparr>t_processed_events :=
               update_where (\<lambda>p. pe_source p = source \<and> pe_event_id p = ev)
                 (\<lambda>p. p\<lparr>pe_processed_at := clock s\<rparr>) (t_processed_events s)\<rparr>)
       else if case webhook of None \<Rightarrow> False | Some i \<Rightarrow> i \<notin> wh_id ` set (t_webhooks s)
       then (Inl ForeignKeyViolation, s)
       else (Inr (), s\<lparr>t_processed_events := t_processed_events s @
               [\<lparr>pe_source = source, pe_event_id = ev, pe_webhook_id = webhook,
                 pe_processed_at = clock s\<rparr>]\<rparr>))"

definition GetProcessedWebhookEvent :: "string \<Rightarrow> string \<Rightarrow> processed_event query" where
  "GetProcessedWebhookEvent source ev =
     run (\<lambda>s. (case find (\<lambda>p. pe_source p = source \<and> pe_event_id p = ev) (t_processed_events s) of
                 None \<Rightarrow> Inl NoRows | Some p \<Rightarrow> Inr p, s))"

section \<open>Customers\<close>

definition scan_customer :: "asaas_customer \<Rightarrow> dberr + asaas_customer" where
  "scan_customer c = (if ac_data c = None then Inl (ScanError ''asaas_data'') else Inr c)"

definition CreateAsaasCustomer ::
  "string \<Rightarrow> string \<Rightarrow> int option \<Rightarrow> string \<Rightarrow> string option \<Rightarrow> string option \<Rightarrow> string option
   \<Rightarrow> asaas_customer query" where
  "CreateAsaasCustomer i tenant uid email cpf name data =
     run (\<lambda>s.
       if i \<in> ac_id ` set (t_customers s) then (Inl (UniqueViolation ''asaas_customers.id''), s)
       else if \<exists>c\<in>set (t_customers s). ac_tenant c = tenant \<and> ac_email c = email
       then (Inl (UniqueViolation ''asaas_customers.tenant_id, asaas_customers.email''), s)
       else if tenant \<notin> set (t_tenants s) \<or>
               (case uid of None \<Rightarrow> False | Some u \<Rightarrow> u \<notin> u_id ` set (t_users s))
       then (Inl ForeignKeyViolation, s)
       else let c = \<lparr>ac_id = i, ac_tenant = tenant, ac_user_id = uid, ac_email = email,
                     ac_cpf_cnpj = cpf, ac_name = name, ac_data = data,
                     ac_created_at = Some (clock s), ac_updated_at = Some (clock s)\<rparr>
            in (scan_customer c, s\<lparr>t_customers := t_customers s @ [c]\<rparr>))"

definition GetAsaasCustomerByEmail :: "string \<Rightarrow> string \<Rightarrow> asaas_customer query" where
  "GetAsaasCustomerByEmail tenant email =
     run (\<lambda>s. (case find (\<lambda>c. ac_tenant c = tenant \<and> ac_email c = email) (t_customers s) of
                 None \<Rightarrow> Inl NoRows | Some c \<Rightarrow> scan_customer c, s))"

definition GetAsaasCustomerByID :: "string \<Rightarrow> asaas_customer query" where
  "GetAsaasCustomerByID i =
     run (\<lambda>s. (case find (\<lambda>c. ac_id c = i) (t_customers s) of
                 None \<Rightarrow> Inl NoRows | Some c \<Rightarrow> scan_customer c, s))"

definition UpdateAsaasCustomer ::
  "string option \<Rightarrow> string option \<Rightarrow> string option \<Rightarrow> string \<Rightarrow> asaas_customer query" where
  "UpdateAsaasCustomer cpf name data i =
     run (\<lambda>s.
       let f = (\<lambda>c. c\<lparr>ac_cpf_cnpj := cpf, ac_name := name, ac_data := data,
                        ac_updated_at := Some (clock s)\<rparr>)
       in case find (\<lambda>c. ac_id c = i) (t_customers s) of
            None \<Rightarrow> (Inl NoRows, s)
          | Some c \<Rightarrow> (scan_customer (f c),
              s\<lparr>t_customers := update_where (\<lambda>c. ac_id c = i) f (t_customers s)\<rparr>))"

section \<open>Payments\<close>

definition payment_statuses :: "string list" where
  "payment_statuses = [''PENDING'', ''RECEIVED'', ''CONFIRMED'', ''OVERDUE'', ''REFUNDED'', ''CANCELLED'']"

definition billing_types :: "string list" where
  "billing_types = [''CREDIT_CARD'', ''BOLETO'', ''PIX'', ''UNDEFINED'']"

definition scan_payment :: "asaas_payment \<Rightarrow> dberr + asaas_payment" where
  "scan_payment p = (if ap_asaas_response p = None then Inl (ScanError ''asaas_response'') else Inr p)"

text \<open>
  \<open>new\<close> carries the columns the statement names; \<open>payment_date\<close> is NULL and the two
  timestamps are the current time. NaN is stored as NULL.
\<close>

definition CreateAsaasPayment :: "asaas_payment \<Rightarrow> asaas_payment query" where
  "CreateAsaasPayment new =
     run (\<lambda>s.
       if ap_amount new = NaN then (Inl (NotNullViolation ''asaas_payments.amount''), s)
       else if \<not> float_positive (ap_amount new) then (Inl (CheckViolation ''amount > 0''), s)
       else if ap_billing_type new \<notin> set billing_types then (Inl (CheckViolation ''billing_type''), s)
       else if ap_status new \<notin> set payment_statuses then (Inl (CheckViolation ''status''), s)
       else if ap_id new \<in> ap_id ` set (t_payments s) then (Inl (UniqueViolation ''asaas_payments.id''), s)
       else if ap_tenant new \<notin> set (t_tenants s) \<or> ap_customer_id new \<notin> ac_id ` set (t_customers s) \<or>
               (case ap_user_id new of None \<Rightarrow> False | Some u \<Rightarrow> u \<notin> u_id ` set (t_users s))
       then (Inl ForeignKeyViolation, s)
       else let p = new\<lparr>ap_payment_date := None, ap_created_at := Some (clock s),
                        ap_updated_at := Some (clock s)\<rparr>
            in (scan_payment p, s\<lparr>t_payments := t_payments s @ [p]\<rparr>))"

definition GetAsaasPaymentByID :: "string \<Rightarrow> asaas_payment query" where
  "GetAsaasPaymentByID i =
     run (\<lambda>s. (case find (\<lambda>p. ap_id p = i) (t_payments s) of
                 None \<Rightarrow> Inl NoRows | Some p \<Rightarrow> scan_payment p, s))"

text \<open>Scanning many rows stops at the first one that cannot be scanned.\<close>

fun scan_rows :: "('r \<Rightarrow> dberr + 'r) \<Rightarrow> 'r list \<Rightarrow> dberr + 'r list" where
  "scan_rows f [] = Inr []"
| "scan_rows f (r # rs) =
     (case f r of
        Inl e \<Rightarrow> Inl e
      | Inr v \<Rightarrow> (case scan_rows f rs of Inl e \<Rightarrow> Inl e | Inr vs \<Rightarrow> Inr (v # vs)))"

definition ListAsaasPaymentsByCustomer :: "string \<Rightarrow> asaas_payment list query" where
  "ListAsaasPaymentsByCustomer c =
     run (\<lambda>s. (scan_rows scan_payment (rev (sort_key ap_created_at
                 (rev (filter (\<lambda>p. ap_customer_id p = c) (t_payments s))))), s))"

definition ListAsaasPaymentsByUser :: "int option \<Rightarrow> asaas_payment list query" where
  "ListAsaasPaymentsByUser u =
     run (\<lambda>s. (scan_rows scan_payment (rev (sort_key ap_created_at
                 (rev (filter (\<lambda>p. sql_eq (ap_user_id p) u) (t_payments s))))), s))"

definition UpdateAsaasPaymentStatus :: "string \<Rightarrow> instant option \<Rightarrow> string \<Rightarrow> asaas_payment query" where
  "UpdateAsaasPaymentStatus st date i =
     run (\<lambda>s.
       let f = (\<lambda>p. p\<lparr>ap_status := st, ap_payment_date := date, ap_updated_at := Some (clock s)\<rparr>)
       in case find (\<lambda>p. ap_id p = i) (t_payments s) of
            None \<Rightarrow> (Inl NoRows, s)
          | Some p \<Rightarrow>
              if st \<notin> set payment_statuses then (Inl (CheckViolation ''status''), s)
              else (scan_payment (f p),
                    s\<lparr>t_payments := update_where (\<lambda>p. ap_id p = i) f (t_payments s)\<rparr>))"

section \<open>Subscriptions\<close>

definition subscription_statuses :: "string list" where
  "subscription_statuses = [''ACTIVE'', ''INACTIVE'', ''CANCELLED'', ''PENDING'']"

definition cycle_types :: "string list" where
  "cycle_types = [''WEEKLY'', ''MONTHLY'', ''BIMONTHLY'', ''QUARTERLY'', ''SEMIANNUALLY'', ''YEARLY'']"

definition scan_subscription :: "asaas_subscription \<Rightarrow> dberr + asaas_subscription" where
  "scan_subscription r = (if as_asaas_response r = None then Inl (ScanError ''asaas_response'') else Inr r)"

definition CreateAsaasSubscription :: "asaas_subscription \<Rightarrow> asaas_subscription query" where
  "CreateAsaasSubscription new =
     run (\<lambda>s.
       if as_plan_value new = NaN then (Inl (NotNullViolation ''asaas_subscriptions.plan_value''), s)
       else if \<not> float_positive (as_plan_value new) then (Inl (CheckViolation ''plan_value > 0''), s)
       else if as_billing_type new \<notin> set billing_types then (Inl (CheckViolation ''billing_type''), s)
       else if as_cycle_type new \<notin> set cycle_types then (Inl (CheckViolation ''cycle_type''), s)
       else if as_status new \<notin> set subscription_statuses then (Inl (CheckViolation ''status''), s)
       else if as_id new \<in> as_id ` set (t_subscriptions s)
       then (Inl (UniqueViolation ''asaas_subscriptions.id''), s)
       else if as_tenant new \<notin> set (t_tenants s) \<or> as_customer_id new \<notin> ac_id ` set (t_customers s) \<or>
               (case as_user_id new of None \<Rightarrow> False | Some u \<Rightarrow> u \<notin> u_id ` set (t_users s))
       then (Inl ForeignKeyViolation, s)
       else let r = new\<lparr>as_created_at := Some (clock s), as_updated_at := Some (clock s)\<rparr>
            in (scan_subscription r, s\<lparr>t_subscriptions := t_subscriptions s @ [r]\<rparr>))"

definition GetAsaasSubscriptionByID :: "string \<Rightarrow> asaas_subscription query" where
  "GetAsaasSubscriptionByID i =
     run (\<lambda>s. (case find (\<lambda>r. as_id r = i) (t_subscriptions s) of
                 None \<Rightarrow> Inl NoRows | Some r \<Rightarrow> scan_subscription r, s))"

definition GetActiveSubscriptionByUser :: "int option \<Rightarrow> asaas_subscription query" where
  "GetActiveSubscriptionByUser u =
     run (\<lambda>s. (case find (\<lambda>r. sql_eq (as_user_id r) u \<and> as_status r = ''ACTIVE'') (t_subscriptions s) of
                 None \<Rightarrow> Inl NoRows | Some r \<Rightarrow> scan_subscription r, s))"

definition ListAsaasSubscriptionsByCustomer :: "string \<Rightarrow> asaas_subscription list query" where
  "ListAsaasSubscriptionsByCustomer c =
     run (\<lambda>s. (scan_rows scan_subscription (rev (sort_key as_created_at
                 (rev (filter (\<lambda>r. as_customer_id r = c) (t_subscriptions s))))), s))"

definition ListAsaasSubscriptionsByUser :: "int option \<Rightarrow> asaas_subscription list query" where
  "ListAsaasSubscriptionsByUser u =
     run (\<lambda>s. (scan_rows scan_subscription (rev (sort_key as_created_at
                 (rev (filter (\<lambda>r. sql_eq (as_user_id r) u) (t_subscriptions s))))), s))"

definition UpdateAsaasSubscription ::
  "string \<Rightarrow> instant option \<Rightarrow> string option \<Rightarrow> string \<Rightarrow> asaas_subscription query" where
  "UpdateAsaasSubscription st next_date resp i =
     run (\<lambda>s.
       let f = (\<lambda>r. r\<lparr>as_status := st, as_next_billing_date := next_date,
                        as_asaas_response := resp, as_updated_at := Some (clock s)\<rparr>)
       in case find (\<lambda>r. as_id r = i) (t_subscriptions s) of
            None \<Rightarrow> (Inl NoRows, s)
          | Some r \<Rightarrow>
              if st \<notin> set subscription_statuses then (Inl (CheckViolation ''status''), s)
              else (scan_subscription (f r),
                    s\<lparr>t_subscriptions := update_where (\<lambda>r. as_id r = i) f (t_subscriptions s)\<rparr>))"

end
