(* ===== verification/Json.thy ===== *)
theory Json
  imports Goth_Prelude
begin

text \<open>
  What the program uses of \<open>encoding/json\<close>: parsing a document, printing one, and the rules
  by which \<open>json.Unmarshal\<close> fills the fields of a struct. Strings are byte strings; bytes
  from 128 on are kept as they are (the replacement of invalid UTF-8 is not modelled). A
  number without fraction or exponent is \<open>JInt\<close>, any other keeps its text.
\<close>

datatype json =
    JNull
  | JBool bool
  | JInt int
  | JReal string
  | JStr string
  | JArr "json list"
  | JObj "(string \<times> json) list"

section \<open>Lexical parts\<close>

definition is_space :: "char \<Rightarrow> bool" where
  "is_space c \<longleftrightarrow> c = CHR '' '' \<or> c = CHR 0x09 \<or> c = CHR 0x0A \<or> c = CHR 0x0D"

definition skip_space :: "string \<Rightarrow> string" where
  "skip_space = dropWhile is_space"

definition hex_value :: "char \<Rightarrow> nat option" where
  "hex_value c =
     (if is_digit c then Some (digit_value c)
      else if c \<in> set ''abcdef'' then Some (of_char c - 87)
      else if c \<in> set ''ABCDEF'' then Some (of_char c - 55)
      else None)"

text \<open>The UTF-8 bytes of a code point.\<close>

definition utf8_encode :: "nat \<Rightarrow> string" where
  "utf8_encode n =
     (if n < 0x80 then [char_of n]
      else if n < 0x800 then [char_of (0xC0 + n div 64), char_of (0x80 + n mod 64)]
      else if n < 0x10000 then
        [char_of (0xE0 + n div 4096), char_of (0x80 + (n div 64) mod 64), char_of (0x80 + n mod 64)]
      else [char_of (0xF0 + n div 262144), char_of (0x80 + (n div 4096) mod 64),
            char_of (0x80 + (n div 64) mod 64), char_of (0x80 + n mod 64)])"

fun parse_hex4 :: "string \<Rightarrow> (nat \<times> string) option" where
  "parse_hex4 (a # b # c # d # cs) =
     (case (hex_value a, hex_value b, hex_value c, hex_value d) of
        (Some w, Some x, Some y, Some z) \<Rightarrow> Some (4096 * w + 256 * x + 16 * y + z, cs)
      | _ \<Rightarrow> None)"
| "parse_hex4 _ = None"

definition simple_escape :: "char \<Rightarrow> char option" where
  "simple_escape c =
     map_of [(CHR 0x22, CHR 0x22), (CHR 0x5C, CHR 0x5C), (CHR ''/'', CHR ''/''),
             (CHR ''b'', CHR 0x08), (CHR ''f'', CHR 0x0C), (CHR ''n'', CHR 0x0A),
             (CHR ''r'', CHR 0x0D), (CHR ''t'', CHR 0x09)] c"

definition surrogate :: "nat \<Rightarrow> bool" where
  "surrogate n \<longleftrightarrow> 0xD800 \<le> n \<and> n < 0xE000"

text \<open>
  The rest of a string, after its opening quote. A \<open>\u\<close> escape of a surrogate takes the
  following escape with it when the two make a pair, and stands for U+FFFD otherwise.
  Every round takes at least one byte; the first argument bounds the rounds.
\<close>

fun parse_string :: "nat \<Rightarrow> string \<Rightarrow> (string \<times> string) option" where
  "parse_string 0 cs = None"
| "parse_string (Suc n) [] = None"
| "parse_string (Suc n) (c # cs) =
     (if c = CHR 0x22 then Some ([], cs)
      else if of_char c < (32::nat) then None
      else if c \<noteq> CHR 0x5C then
        map_option (\<lambda>(s, r). (c # s, r)) (parse_string n cs)
      else case cs of
        [] \<Rightarrow> None
      | e # cs' \<Rightarrow>
          if e = CHR ''u'' then
            (case parse_hex4 cs' of
               None \<Rightarrow> None
             | Some (u, r) \<Rightarrow>
                 if \<not> surrogate u then
                   map_option (\<lambda>(s, r'). (utf8_encode u @ s, r')) (parse_string n r)
                 else
                   (case (if take 2 r = [CHR 0x5C, CHR ''u''] then parse_hex4 (drop 2 r) else None) of
                      Some (v, r2) \<Rightarrow>
                        if u < 0xDC00 \<and> 0xDC00 \<le> v \<and> v < 0xE000
                        then map_option (\<lambda>(s, r'). (utf8_encode (0x10000 + (u - 0xD800) * 1024 + (v - 0xDC00)) @ s, r'))
                               (parse_string n r2)
                        else map_option (\<lambda>(s, r'). (utf8_encode 0xFFFD @ s, r')) (parse_string n r)
                    | None \<Rightarrow> map_option (\<lambda>(s, r'). (utf8_encode 0xFFFD @ s, r')) (parse_string n r)))
          else
            (case simple_escape e of
               None \<Rightarrow> None
             | Some d \<Rightarrow> map_option (\<lambda>(s, r). (d # s, r)) (parse_string n cs')))"

text \<open>
  A number: an optional minus, digits without a leading zero, then an optional fraction and
  an optional exponent.
\<close>

definition parse_fraction :: "string \<Rightarrow> (string \<times> string) option" where
  "parse_fraction cs =
     (case cs of
        c # r \<Rightarrow>
          if c = CHR ''.'' then
            (let ds = takeWhile is_digit r
             in if ds = [] then None else Some (c # ds, dropWhile is_digit r))
          else Some ([], cs)
      | [] \<Rightarrow> Some ([], []))"

definition parse_exponent :: "string \<Rightarrow> (string \<times> string) option" where
  "parse_exponent cs =
     (case cs of
        c # r \<Rightarrow>
          if c = CHR ''e'' \<or> c = CHR ''E'' then
            (let (sgn, r') = (case r of d # r' \<Rightarrow> if d = CHR ''+'' \<or> d = CHR ''-'' then ([d], r') else ([], r)
                              | [] \<Rightarrow> ([], []));
                 ds = takeWhile is_digit r'
             in if ds = [] then None else Some (c # sgn @ ds, dropWhile is_digit r'))
          else Some ([], cs)
      | [] \<Rightarrow> Some ([], []))"

definition parse_number :: "string \<Rightarrow> (json \<times> string) option" where
  "parse_number cs =
     (let (neg, r) = (case cs of c # r \<Rightarrow> if c = CHR ''-'' then (True, r) else (False, cs) | [] \<Rightarrow> (False, []));
          ds = (case r of
                  c # r' \<Rightarrow> if c = CHR ''0'' then ''0'' else takeWhile is_digit r
                | [] \<Rightarrow> []);
          r1 = drop (length ds) r
      in if ds = [] then None
         else case parse_fraction r1 of
           None \<Rightarrow> None
         | Some (fr, r2) \<Rightarrow>
             (case parse_exponent r2 of
                None \<Rightarrow> None
              | Some (ex, r3) \<Rightarrow>
                  if fr = [] \<and> ex = []
                  then Some (JInt (if neg then - int (digits_value ds) else int (digits_value ds)), r3)
                  else Some (JReal ((if neg then ''-'' else []) @ ds @ fr @ ex), r3)))"

definition literal :: "string \<Rightarrow> json \<Rightarrow> string \<Rightarrow> (json \<times> string) option" where
  "literal w v cs = (if take (length w) cs = w then Some (v, drop (length w) cs) else None)"

section \<open>Documents\<close>

text \<open>
  A value at the head of the input (after white space) and what follows it. The first
  argument bounds the depth of the calls; each takes at least one byte or enters a list, so
  twice the length of the input is enough.
\<close>

fun parse_value :: "nat \<Rightarrow> string \<Rightarrow> (json \<times> string) option"
  and parse_elements :: "nat \<Rightarrow> string \<Rightarrow> (json list \<times> string) option"
  and parse_members :: "nat \<Rightarrow> string \<Rightarrow> ((string \<times> json) list \<times> string) option" where
  "parse_value 0 cs = None"
| "parse_value (Suc n) cs =
     (case skip_space cs of
        [] \<Rightarrow> None
      | c # r \<Rightarrow>
          if c = CHR 0x22 then map_option (\<lambda>(s, r'). (JStr s, r')) (parse_string (Suc (length r)) r)
          else if c = CHR ''['' then
            (case skip_space r of
               d # r' \<Rightarrow>
                 if d = CHR '']'' then Some (JArr [], r')
                 else map_option (\<lambda>(vs, r''). (JArr vs, r'')) (parse_elements n r)
             | [] \<Rightarrow> None)
          else if c = CHR ''{'' then
            (case skip_space r of
               d # r' \<Rightarrow>
                 if d = CHR ''}'' then Some (JObj [], r')
                 else map_option (\<lambda>(ms, r''). (JObj ms, r'')) (parse_members n r)
             | [] \<Rightarrow> None)
          else if c = CHR ''t'' then literal ''true'' (JBool True) (c # r)
          else if c = CHR ''f'' then literal ''false'' (JBool False) (c # r)
          else if c = CHR ''n'' then literal ''null'' JNull (c # r)
          else parse_number (c # r))"
| "parse_elements 0 cs = None"
| "parse_elements (Suc n) cs =
     (case parse_value n cs of
        None \<Rightarrow> None
      | Some (v, r) \<Rightarrow>
          (case skip_space r of
             d # r' \<Rightarrow>
               if d = CHR '']'' then Some ([v], r')
               else if d = CHR '','' then map_option (\<lambda>(vs, r''). (v # vs, r'')) (parse_elements n r')
               else None
           | [] \<Rightarrow> None))"
| "parse_members 0 cs = None"
| "parse_members (Suc n) cs =
     (case skip_space cs of
        q # r \<Rightarrow>
          if q \<noteq> CHR 0x22 then None
          else case parse_string (Suc (length r)) r of
            None \<Rightarrow> None
          | Some (k, r1) \<Rightarrow>
              (case skip_space r1 of
                 d # r2 \<Rightarrow>
                   if d \<noteq> CHR '':'' then None
                   else case parse_value n r2 of
                     None \<Rightarrow> None
                   | Some (v, r3) \<Rightarrow>
                       (case skip_space r3 of
                          e # r4 \<Rightarrow>
                            if e = CHR ''}'' then Some ([(k, v)], r4)
                            else if e = CHR '','' then
                              map_option (\<lambda>(ms, r''). ((k, v) # ms, r'')) (parse_members n r4)
                            else None
                        | [] \<Rightarrow> None)
               | [] \<Rightarrow> None)
      | [] \<Rightarrow> None)"

definition json_parse :: "string \<Rightarrow> json option" where
  "json_parse cs =
     (case parse_value (2 * length cs + 2) cs of
        Some (v, r) \<Rightarrow> if skip_space r = [] then Some v else None
      | None \<Rightarrow> None)"

text \<open>\<open>Decode\<close> of a decoder reads one value and leaves what follows it unread.\<close>

definition json_decode :: "string \<Rightarrow> json option" where
  "json_decode cs = map_option fst (parse_value (2 * length cs + 2) cs)"

definition decode_struct :: "string \<Rightarrow> (string \<times> json) list option" where
  "decode_struct cs =
     (case json_decode cs of Some (JObj ms) \<Rightarrow> Some ms | Some JNull \<Rightarrow> Some [] | _ \<Rightarrow> None)"

section \<open>Filling a struct\<close>

text \<open>
  \<open>json.Unmarshal\<close> gives each member of an object to the field whose tag equals its name, or
  equals it up to case (ASCII case here); members without a field are ignored, a later
  member overwrites an earlier one, \<open>null\<close> leaves a field as it is, and a value of another
  type makes the call fail (\<open>None\<close>). A top-level \<open>null\<close> leaves the whole struct as it is.
\<close>

definition lower_char :: "char \<Rightarrow> char" where
  "lower_char c = (let n = of_char c :: nat in if 65 \<le> n \<and> n \<le> 90 then char_of (n + 32) else c)"

definition equal_fold :: "string \<Rightarrow> string \<Rightarrow> bool" where
  "equal_fold a b \<longleftrightarrow> map lower_char a = map lower_char b"

definition as_struct :: "json \<Rightarrow> (string \<times> json) list option" where
  "as_struct v = (case v of JNull \<Rightarrow> Some [] | JObj ms \<Rightarrow> Some ms | _ \<Rightarrow> None)"

definition values_of :: "string \<Rightarrow> (string \<times> json) list \<Rightarrow> json list" where
  "values_of tag ms = map snd (filter (\<lambda>m. equal_fold (fst m) tag) ms)"

primrec assign_all :: "('a \<Rightarrow> json \<Rightarrow> 'a option) \<Rightarrow> json list \<Rightarrow> 'a \<Rightarrow> 'a option" where
  "assign_all f [] x = Some x"
| "assign_all f (v # vs) x = (case f x v of None \<Rightarrow> None | Some y \<Rightarrow> assign_all f vs y)"

definition assign_string :: "string \<Rightarrow> json \<Rightarrow> string option" where
  "assign_string old v = (case v of JNull \<Rightarrow> Some old | JStr s \<Rightarrow> Some s | _ \<Rightarrow> None)"

definition assign_int64 :: "int \<Rightarrow> json \<Rightarrow> int option" where
  "assign_int64 old v =
     (case v of
        JNull \<Rightarrow> Some old
      | JInt i \<Rightarrow> if - (2 ^ 63) \<le> i \<and> i < 2 ^ 63 then Some i else None
      | _ \<Rightarrow> None)"

definition assign_bool :: "bool \<Rightarrow> json \<Rightarrow> bool option" where
  "assign_bool old v = (case v of JNull \<Rightarrow> Some old | JBool b \<Rightarrow> Some b | _ \<Rightarrow> None)"

definition string_field :: "string \<Rightarrow> (string \<times> json) list \<Rightarrow> string option" where
  "string_field tag ms = assign_all assign_string (values_of tag ms) ''''"

definition int64_field :: "string \<Rightarrow> (string \<times> json) list \<Rightarrow> int option" where
  "int64_field tag ms = assign_all assign_int64 (values_of tag ms) 0"

definition bool_field :: "string \<Rightarrow> (string \<times> json) list \<Rightarrow> bool option" where
  "bool_field tag ms = assign_all assign_bool (values_of tag ms) False"

text \<open>A field that is a pointer to a struct: \<open>null\<close> makes it nil, an object fills it.\<close>

definition assign_pointer ::
  "'a \<Rightarrow> ((string \<times> json) list \<Rightarrow> 'a \<Rightarrow> 'a option) \<Rightarrow> 'a option \<Rightarrow> json \<Rightarrow> 'a option option" where
  "assign_pointer zero fill old v =
     (case v of
        JNull \<Rightarrow> Some None
      | JObj ms \<Rightarrow> map_option Some (fill ms (case old of None \<Rightarrow> zero | Some x \<Rightarrow> x))
      | _ \<Rightarrow> None)"

section \<open>Printing\<close>

text \<open>
  \<open>json.Marshal\<close>: no white space, the members of a map sorted by name (the callers list them
  so), and in strings the quote, the backslash, control characters and the three HTML
  characters escaped. (U+2028 and U+2029, which Go escapes too, are printed as they are.)
\<close>

definition hex_digit :: "nat \<Rightarrow> char" where
  "hex_digit n = (if n < 10 then char_of (48 + n) else char_of (87 + n))"

definition unicode_escape :: "nat \<Rightarrow> string" where
  "unicode_escape n = [CHR 0x5C, CHR ''u'', CHR ''0'', CHR ''0'', hex_digit (n div 16), hex_digit (n mod 16)]"

definition escape_char :: "char \<Rightarrow> string" where
  "escape_char c =
     (if c = CHR 0x22 \<or> c = CHR 0x5C then [CHR 0x5C, c]
      else if c = CHR 0x08 then [CHR 0x5C, CHR ''b'']
      else if c = CHR 0x0C then [CHR 0x5C, CHR ''f'']
      else if c = CHR 0x0A then [CHR 0x5C, CHR ''n'']
      else if c = CHR 0x0D then [CHR 0x5C, CHR ''r'']
      else if c = CHR 0x09 then [CHR 0x5C, CHR ''t'']
      else if of_char c < (32::nat) \<or> c \<in> set ''<>&'' then unicode_escape (of_char c)
      else [c])"

definition print_string :: "string \<Rightarrow> string" where
  "print_string s = [CHR 0x22] @ concat (map escape_char s) @ [CHR 0x22]"

text \<open>The elements of a list or the members of an object, separated by commas.\<close>

fun commas :: "string list \<Rightarrow> string" where
  "commas [] = []"
| "commas [x] = x"
| "commas (x # y # ys) = x @ CHR '','' # commas (y # ys)"

fun json_print :: "json \<Rightarrow> string" where
  "json_print JNull = ''null''"
| "json_print (JBool b) = (if b then ''true'' else ''false'')"
| "json_print (JInt i) = string_of_int i"
| "json_print (JReal t) = t"
| "json_print (JStr s) = print_string s"
| "json_print (JArr vs) = ''['' @ commas (map json_print vs) @ '']''"
| "json_print (JObj ms) = ''{'' @ commas (map (\<lambda>(k, v). print_string k @ CHR '':'' # json_print v) ms) @ ''}''"

end
