(* ===== verification/Http_Errors.thy ===== *)
theory Http_Errors
  imports Json "HOL-Library.Char_ord" "HOL-Library.List_Lexorder"
begin

text \<open>
  Requests and responses as the handlers see them, and the application errors of
  \<open>internal/platform/http/errors.go\<close>. A response is its status and its body; headers that
  the code sets are modelled where a component is about them.
\<close>

record response =
  rp_status :: int
  rp_body :: string

record app_error =
  ae_type :: string
  ae_message :: string
  ae_code :: string
  ae_status :: int
  ae_cause :: "string option"
  ae_metadata :: "(string \<times> json) list"

definition app_error_Error :: "app_error \<Rightarrow> string" where
  "app_error_Error e =
     (case ae_cause e of Some c \<Rightarrow> ae_message e @ '': '' @ c | None \<Rightarrow> ae_message e)"

definition NewValidationError :: "string \<Rightarrow> (string \<times> json) list \<Rightarrow> app_error" where
  "NewValidationError msg meta =
     \<lparr>ae_type = ''validation_error'', ae_message = msg, ae_code = ''VALIDATION_ERROR'',
      ae_status = 400, ae_cause = None, ae_metadata = meta\<rparr>"

definition NewNotFoundError :: "string \<Rightarrow> app_error" where
  "NewNotFoundError resource =
     \<lparr>ae_type = ''not_found'', ae_message = resource @ '' not found'', ae_code = ''NOT_FOUND'',
      ae_status = 404, ae_cause = None, ae_metadata = []\<rparr>"

definition NewUnauthorizedError :: "string \<Rightarrow> app_error" where
  "NewUnauthorizedError msg =
     \<lparr>ae_type = ''unauthorized'', ae_message = (if msg = '''' then ''Unauthorized'' else msg),
      ae_code = ''UNAUTHORIZED'', ae_status = 401, ae_cause = None, ae_metadata = []\<rparr>"

definition NewForbiddenError :: "string \<Rightarrow> app_error" where
  "NewForbiddenError msg =
     \<lparr>ae_type = ''forbidden'', ae_message = (if msg = '''' then ''Forbidden'' else msg),
      ae_code = ''FORBIDDEN'', ae_status = 403, ae_cause = None, ae_metadata = []\<rparr>"

definition NewConflictError :: "string \<Rightarrow> string \<Rightarrow> app_error" where
  "NewConflictError resource msg =
     \<lparr>ae_type = ''conflict'',
      ae_message = (if msg = '''' then resource @ '' already exists'' else msg),
      ae_code = ''CONFLICT'', ae_status = 409, ae_cause = None, ae_metadata = []\<rparr>"

definition NewInternalError :: "string \<Rightarrow> string option \<Rightarrow> app_error" where
  "NewInternalError msg cause =
     \<lparr>ae_type = ''internal_error'',
      ae_message = (if msg = '''' then ''Internal server error'' else msg),
      ae_code = ''INTERNAL_ERROR'', ae_status = 500, ae_cause = cause, ae_metadata = []\<rparr>"

definition NewTimeoutError :: "string \<Rightarrow> app_error" where
  "NewTimeoutError msg =
     \<lparr>ae_type = ''timeout'', ae_message = (if msg = '''' then ''Request timeout'' else msg),
      ae_code = ''TIMEOUT'', ae_status = 504, ae_cause = None, ae_metadata = []\<rparr>"

definition NewServiceError :: "string \<Rightarrow> string \<Rightarrow> string option \<Rightarrow> app_error" where
  "NewServiceError service msg cause =
     \<lparr>ae_type = ''service_error'',
      ae_message = (if msg = '''' then ''Service '' @ service @ '' unavailable'' else msg),
      ae_code = ''SERVICE_ERROR'', ae_status = 503, ae_cause = cause, ae_metadata = []\<rparr>"

definition WithError :: "string option \<Rightarrow> app_error \<Rightarrow> app_error" where
  "WithError cause e = e\<lparr>ae_cause := cause\<rparr>"

definition WithMetadata :: "string \<Rightarrow> json \<Rightarrow> app_error \<Rightarrow> app_error" where
  "WithMetadata k v e =
     e\<lparr>ae_metadata := filter (\<lambda>m. fst m \<noteq> k) (ae_metadata e) @ [(k, v)]\<rparr>"

text \<open>
  The body: \<open>code\<close> and \<open>details\<close> are left out when empty, and the encoder ends it with a
  newline. The members of \<open>details\<close>, a Go map, are printed sorted by name.
\<close>

definition writeAppError :: "app_error \<Rightarrow> response" where
  "writeAppError e =
     \<lparr>rp_status = ae_status e,
      rp_body = json_print (JObj (
        [(''error'', JStr (ae_type e)), (''message'', JStr (ae_message e))] @
        (if ae_code e = '''' then [] else [(''code'', JStr (ae_code e))]) @
        (if ae_metadata e = [] then [] else [(''details'', JObj (sort_key fst (ae_metadata e)))]))) @ [CHR 0x0A]\<rparr>"

text \<open>An error is an \<open>AppError\<close>, or another error with its text.\<close>

definition HandleError :: "app_error + string \<Rightarrow> response" where
  "HandleError err =
     (case err of
        Inl e \<Rightarrow> writeAppError e
      | Inr t \<Rightarrow> writeAppError (NewInternalError ''Internal server error'' (Some t)))"

lemma HandleError_status [simp]:
  "rp_status (HandleError (Inl e)) = ae_status e"
  "rp_status (HandleError (Inr t)) = 500"
  by (simp_all add: HandleError_def writeAppError_def NewInternalError_def)

lemma new_error_status [simp]:
  "ae_status (NewValidationError m d) = 400" "ae_status (NewNotFoundError m) = 404"
  "ae_status (NewUnauthorizedError m) = 401" "ae_status (NewForbiddenError m) = 403"
  "ae_status (NewConflictError m x) = 409" "ae_status (NewInternalError m c) = 500"
  "ae_status (NewTimeoutError m) = 504" "ae_status (NewServiceError m x c) = 503"
  by (simp_all add: NewValidationError_def NewNotFoundError_def NewUnauthorizedError_def
      NewForbiddenError_def NewConflictError_def NewInternalError_def NewTimeoutError_def
      NewServiceError_def)

text \<open>\<open>http.Error\<close>: the text and a newline.\<close>

definition http_error :: "string \<Rightarrow> int \<Rightarrow> response" where
  "http_error msg status = \<lparr>rp_status = status, rp_body = msg @ [CHR 0x0A]\<rparr>"

definition status_only :: "int \<Rightarrow> response" where
  "status_only status = \<lparr>rp_status = status, rp_body = ''''\<rparr>"

section \<open>JSON replies of the API handlers\<close>

definition respondJSON :: "json \<Rightarrow> int \<Rightarrow> response" where
  "respondJSON v status = \<lparr>rp_status = status, rp_body = json_print v @ [CHR 0x0A]\<rparr>"

definition respondError :: "string \<Rightarrow> int \<Rightarrow> response" where
  "respondError msg status = respondJSON (JObj [(''error'', JStr msg)]) status"

end
