(* ===== verification/Billing.thy ===== *)
theory Billing
  imports Billing_Queries Job_Repository Http_Errors
begin

text \<open>
  Asaas webhooks and payments: the synchronous webhook handler and the event processing the
  worker calls (\<open>internal/features/billing/webhook.go\<close>), the asynchronous handler
  (\<open>async_webhook.go\<close>), the generic webhook endpoint (\<open>internal/features/webhook/handler.go\<close>)
  and the checkout service (\<open>handler.go\<close>). \<open>hmac_hex\<close> is HMAC-SHA256 in hexadecimal of a
  secret and a body.
\<close>

section \<open>Payloads\<close>

record payment_ref =
  pp_id :: string
  pp_status :: string
  pp_payment_date :: string

record subscription_ref =
  ps_id :: string
  ps_status :: string
  ps_next_due_date :: string

record webhook_payload =
  wp_event :: string
  wp_payment :: "payment_ref option"
  wp_subscription :: "subscription_ref option"

text \<open>Filling the fields of one of these structs; \<open>None\<close> when a value has the wrong type.\<close>

definition fill_payment :: "(string \<times> json) list \<Rightarrow> payment_ref \<Rightarrow> payment_ref option" where
  "fill_payment ms p =
     (case (assign_all assign_string (values_of ''id'' ms) (pp_id p),
            assign_all assign_string (values_of ''status'' ms) (pp_status p),
            assign_all assign_string (values_of ''paymentDate'' ms) (pp_payment_date p)) of
        (Some i, Some st, Some d) \<Rightarrow> Some \<lparr>pp_id = i, pp_status = st, pp_payment_date = d\<rparr>
      | _ \<Rightarrow> None)"

definition fill_subscription :: "(string \<times> json) list \<Rightarrow> subscription_ref \<Rightarrow> subscription_ref option" where
  "fill_subscription ms p =
     (case (assign_all assign_string (values_of ''id'' ms) (ps_id p),
            assign_all assign_string (values_of ''status'' ms) (ps_status p),
            assign_all assign_string (values_of ''nextDueDate'' ms) (ps_next_due_date p)) of
        (Some i, Some st, Some d) \<Rightarrow> Some \<lparr>ps_id = i, ps_status = st, ps_next_due_date = d\<rparr>
      | _ \<Rightarrow> None)"

definition unmarshal_webhook :: "string \<Rightarrow> webhook_payload option" where
  "unmarshal_webhook body =
     (case map_option as_struct (json_parse body) of
        Some (Some ms) \<Rightarrow>
          (case (string_field ''event'' ms,
                 assign_all (assign_pointer \<lparr>pp_id = '''', pp_status = '''', pp_payment_date = ''''\<rparr> fill_payment)
                   (values_of ''payment'' ms) None,
                 assign_all (assign_pointer \<lparr>ps_id = '''', ps_status = '''', ps_next_due_date = ''''\<rparr> fill_subscription)
                   (values_of ''subscription'' ms) None) of
             (Some ev, Some p, Some sub) \<Rightarrow>
               Some \<lparr>wp_event = ev, wp_payment = p, wp_subscription = sub\<rparr>
           | _ \<Rightarrow> None)
      | _ \<Rightarrow> None)"

section \<open>Event handlers\<close>

text \<open>
  Every handler logs the error of its statement and goes on; what remains is its effect on
  the database. (The branches for a handler without queries, used in tests, are left out.)
\<close>

definition update_payment :: "string \<Rightarrow> instant option \<Rightarrow> webhook_payload \<Rightarrow> db \<Rightarrow> db" where
  "update_payment st date pl s =
     (case wp_payment pl of
        None \<Rightarrow> s
      | Some p \<Rightarrow> ignore_error (UpdateAsaasPaymentStatus st date (pp_id p)) s)"

definition handlePaymentReceived :: "webhook_payload \<Rightarrow> db \<Rightarrow> db" where
  "handlePaymentReceived pl s = update_payment ''RECEIVED'' (Some (clock s)) pl s"

definition handlePaymentConfirmed :: "webhook_payload \<Rightarrow> db \<Rightarrow> db" where
  "handlePaymentConfirmed pl s = update_payment ''CONFIRMED'' (Some (clock s)) pl s"

definition handlePaymentOverdue :: "webhook_payload \<Rightarrow> db \<Rightarrow> db" where
  "handlePaymentOverdue = update_payment ''OVERDUE'' None"

definition handlePaymentRefunded :: "webhook_payload \<Rightarrow> db \<Rightarrow> db" where
  "handlePaymentRefunded = update_payment ''REFUNDED'' None"

definition handlePaymentCanceled :: "webhook_payload \<Rightarrow> db \<Rightarrow> db" where
  "handlePaymentCanceled = update_payment ''CANCELED'' None"

definition handleSubscriptionUpdated :: "webhook_payload \<Rightarrow> db \<Rightarrow> db" where
  "handleSubscriptionUpdated pl s =
     (case wp_subscription pl of
        None \<Rightarrow> s
      | Some sub \<Rightarrow>
          (let next_date = (case parse_date (ps_next_due_date sub) of Some t \<Rightarrow> t | None \<Rightarrow> zero_time)
           in ignore_error (UpdateAsaasSubscription (ps_status sub) (Some next_date) None (ps_id sub)) s))"

definition handleSubscriptionCanceled :: "webhook_payload \<Rightarrow> db \<Rightarrow> db" where
  "handleSubscriptionCanceled pl s =
     (case wp_subscription pl of
        None \<Rightarrow> s
      | Some sub \<Rightarrow> ignore_error (UpdateAsaasSubscription ''CANCELED'' None None (ps_id sub)) s)"

definition handleSubscriptionDeleted :: "webhook_payload \<Rightarrow> db \<Rightarrow> db" where
  "handleSubscriptionDeleted pl s =
     (case wp_subscription pl of
        None \<Rightarrow> s
      | Some sub \<Rightarrow> ignore_error (UpdateAsaasSubscription ''DELETED'' None None (ps_id sub)) s)"

text \<open>The switch on the event, the same in \<open>ServeHTTP\<close> and in \<open>ProcessWebhookEvent\<close>.\<close>

definition dispatch_event :: "webhook_payload \<Rightarrow> db \<Rightarrow> db" where
  "dispatch_event pl s =
     (let ev = wp_event pl in
      if ev = ''PAYMENT_RECEIVED'' then handlePaymentReceived pl s
      else if ev = ''PAYMENT_CONFIRMED'' then handlePaymentConfirmed pl s
      else if ev = ''PAYMENT_OVERDUE'' then handlePaymentOverdue pl s
      else if ev = ''PAYMENT_REFUNDED'' then handlePaymentRefunded pl s
      else if ev = ''PAYMENT_CANCELED'' then handlePaymentCanceled pl s
      else if ev = ''SUBSCRIPTION_UPDATED'' then handleSubscriptionUpdated pl s
      else if ev = ''SUBSCRIPTION_CANCELED'' then handleSubscriptionCanceled pl s
      else if ev = ''SUBSCRIPTION_DELETED'' then handleSubscriptionDeleted pl s
      else s)"

section \<open>Processing a stored webhook\<close>

text \<open>A payload that does not unmarshal is an error about that payload.\<close>

datatype hook_error = HookDbError dberr | HookBadPayload string

definition ProcessWebhookEvent :: "int \<Rightarrow> string \<Rightarrow> string \<Rightarrow> db \<Rightarrow> (hook_error + unit) \<times> db" where
  "ProcessWebhookEvent webhook_id source ev s =
     (case IsWebhookEventProcessed source ev s of
        (processed, s1) \<Rightarrow>
          if processed = Inr 1 then (Inr (), s1)
          else case GetWebhookByID webhook_id s1 of
            (Inl e, s2) \<Rightarrow> (Inl (HookDbError e), s2)
          | (Inr w, s2) \<Rightarrow>
              (case unmarshal_webhook (wh_payload w) of
                 None \<Rightarrow> (Inl (HookBadPayload (wh_payload w)), s2)
               | Some pl \<Rightarrow>
                   (case CreateProcessedWebhookEvent source ev (Some webhook_id) (dispatch_event pl s2) of
                      (Inl e, s3) \<Rightarrow> (Inl (HookDbError e), s3)
                    | (Inr _, s3) \<Rightarrow> (Inr (), s3))))"

section \<open>The synchronous handler\<close>

text \<open>\<open>hr_body\<close> is what reading the body yields, \<open>None\<close> for a read error.\<close>

record hook_request =
  hr_method :: string
  hr_header :: "string \<Rightarrow> string"
  hr_body :: "string option"

record hook_config =
  hk_token :: string
  hk_secret :: string

text \<open>\<open>http.MaxBytesReader\<close> makes reading fail when the body is longer than the limit.\<close>

definition read_limited :: "nat \<Rightarrow> string option \<Rightarrow> string option" where
  "read_limited n body =
     (case body of Some b \<Rightarrow> if length b \<le> n then Some b else None | None \<Rightarrow> None)"

definition max_hook_body :: nat where
  "max_hook_body = 1048576"

definition received_signature :: "hook_request \<Rightarrow> string" where
  "received_signature r =
     (let sg = hr_header r ''X-Signature''
      in if sg = '''' then hr_header r ''X-Hub-Signature-256'' else sg)"

definition strip_sha256 :: "string \<Rightarrow> string" where
  "strip_sha256 sg = (if 7 < length sg \<and> take 7 sg = ''sha256='' then drop 7 sg else sg)"

text \<open>Whether the signature check lets the request pass.\<close>

definition validateHMACSignature ::
  "(string \<Rightarrow> string \<Rightarrow> string) \<Rightarrow> string \<Rightarrow> hook_request \<Rightarrow> bool" where
  "validateHMACSignature hmac_hex secret r =
     (if received_signature r = '''' then True
      else case hr_body r of
        None \<Rightarrow> False
      | Some body \<Rightarrow> strip_sha256 (received_signature r) = hmac_hex secret body)"

definition WebhookHandler_ServeHTTP ::
  "(string \<Rightarrow> string \<Rightarrow> string) \<Rightarrow> hook_config \<Rightarrow> hook_request \<Rightarrow> db \<Rightarrow> response \<times> db" where
  "WebhookHandler_ServeHTTP hmac_hex h r s =
     (if hr_method r \<noteq> ''POST''
      then (HandleError (Inl (NewValidationError ''method not allowed'' [])), s)
      else if hr_header r ''X-Asaas-Token'' \<noteq> hk_token h
      then (HandleError (Inl (NewUnauthorizedError ''invalid token'')), s)
      else if hk_secret h \<noteq> '''' \<and> \<not> validateHMACSignature hmac_hex (hk_secret h) r
      then (HandleError (Inl (NewUnauthorizedError ''invalid signature'')), s)
      else case read_limited max_hook_body (hr_body r) of
        None \<Rightarrow> (HandleError (Inl (NewValidationError ''failed to read body'' [])), s)
      | Some body \<Rightarrow>
          (case unmarshal_webhook body of
             None \<Rightarrow> (HandleError (Inl (NewValidationError ''invalid payload'' [])), s)
           | Some pl \<Rightarrow> (status_only 200, dispatch_event pl s)))"

section \<open>The asynchronous handler\<close>

text \<open>
  \<open>c\<close> is the state of the queue's notification callback. The unique-constraint test of the
  code is on the text of the error.
\<close>

definition isUniqueConstraintError :: "dberr \<Rightarrow> bool" where
  "isUniqueConstraintError e = str_contains (dberr_text e) ''UNIQUE constraint failed''"

definition generateEventID :: "webhook_payload \<Rightarrow> string" where
  "generateEventID pl =
     (case wp_payment pl of
        Some p \<Rightarrow>
          if pp_id p \<noteq> '''' then ''payment:'' @ pp_id p @ '':'' @ wp_event pl
          else (case wp_subscription pl of
                  Some sub \<Rightarrow> if ps_id sub \<noteq> '''' then ''subscription:'' @ ps_id sub @ '':'' @ wp_event pl else ''''
                | None \<Rightarrow> '''')
      | None \<Rightarrow>
          (case wp_subscription pl of
             Some sub \<Rightarrow> if ps_id sub \<noteq> '''' then ''subscription:'' @ ps_id sub @ '':'' @ wp_event pl else ''''
           | None \<Rightarrow> ''''))"

definition async_job_payload :: "int \<Rightarrow> string \<Rightarrow> string" where
  "async_job_payload webhook_id ev =
     json_print (JObj [(''event_id'', JStr ev), (''source'', JStr ''asaas''), (''webhook_id'', JInt webhook_id)])"

definition AsyncWebhookHandler_ServeHTTP ::
  "'c notify \<Rightarrow> (string \<Rightarrow> string \<Rightarrow> string) \<Rightarrow> hook_config \<Rightarrow> hook_request \<Rightarrow> 'c \<times> db
   \<Rightarrow> response \<times> 'c \<times> db" where
  "AsyncWebhookHandler_ServeHTTP notify hmac_hex h r = (\<lambda>(c, s).
     if hr_method r \<noteq> ''POST'' then (http_error ''Method not allowed'' 405, c, s)
     else if hr_header r ''X-Asaas-Token'' \<noteq> hk_token h then (http_error ''Unauthorized'' 401, c, s)
     else if hk_secret h \<noteq> '''' \<and> \<not> validateHMACSignature hmac_hex (hk_secret h) r
     then (http_error ''Invalid signature'' 401, c, s)
     else case read_limited max_hook_body (hr_body r) of
       None \<Rightarrow> (http_error ''Failed to read body'' 400, c, s)
     | Some body \<Rightarrow>
         (case unmarshal_webhook body of
            None \<Rightarrow> (http_error ''Invalid payload'' 400, c, s)
          | Some pl \<Rightarrow>
              (let ev = generateEventID pl in
               if ev = '''' then (http_error ''Invalid event payload'' 400, c, s)
               else
                 (let headers = json_print (JObj
                        [(''Content-Type'', JStr (hr_header r ''Content-Type'')),
                         (''X-Asaas-Token'', JStr (hr_header r ''X-Asaas-Token''))]) in
                  case CreateWebhookWithIdempotency ''asaas'' (Some ev) body headers s of
                    (Inl e, s1) \<Rightarrow>
                      if isUniqueConstraintError e then (status_only 200, c, s1)
                      else (http_error ''Failed to store webhook'' 500, c, s1)
                  | (Inr w, s1) \<Rightarrow>
                      (case EnqueueWithIdempotency notify ''process_webhook''
                              (async_job_payload (wh_id w) ev) '''' (''asaas:'' @ ev) (c, s1) of
                         (_, cs) \<Rightarrow> (status_only 200, cs))))))"

section \<open>The generic webhook endpoint\<close>

record create_webhook_params =
  cw_source :: string
  cw_external_id :: string
  cw_payload :: string
  cw_headers :: string

definition webhook_Create :: "create_webhook_params \<Rightarrow> webhook_row query" where
  "webhook_Create ps =
     CreateWebhook (cw_source ps) (null_string (cw_external_id ps)) (cw_payload ps) (cw_headers ps)"

definition webhook_CreateWithIdempotency :: "create_webhook_params \<Rightarrow> webhook_row query" where
  "webhook_CreateWithIdempotency ps =
     CreateWebhookWithIdempotency (cw_source ps) (null_string (cw_external_id ps)) (cw_payload ps) (cw_headers ps)"

text \<open>\<open>source\<close> is the path value, \<open>headers\<close> the JSON of all headers, \<open>body\<close> as above.\<close>

definition generic_webhook_ServeHTTP ::
  "'c notify \<Rightarrow> string \<Rightarrow> string option \<Rightarrow> string \<Rightarrow> 'c \<times> db \<Rightarrow> response \<times> 'c \<times> db" where
  "generic_webhook_ServeHTTP notify source body headers = (\<lambda>(c, s).
     if source = '''' then (HandleError (Inl (NewValidationError ''source required'' [])), c, s)
     else case body of
       None \<Rightarrow> (HandleError (Inr ''read error''), c, s)
     | Some payload \<Rightarrow>
         (case (case map_option as_struct (json_parse payload) of
                  Some (Some ms) \<Rightarrow> string_field ''id'' ms | _ \<Rightarrow> None) of
            None \<Rightarrow> (HandleError (Inl (NewValidationError ''invalid json'' [])), c, s)
          | Some ext \<Rightarrow>
              (case webhook_CreateWithIdempotency
                      \<lparr>cw_source = source, cw_external_id = ext, cw_payload = payload, cw_headers = headers\<rparr> s of
                 (Inl e, s1) \<Rightarrow>
                   if isUniqueConstraintError e then (status_only 200, c, s1)
                   else (HandleError (Inr (dberr_text e)), c, s1)
               | (Inr w, s1) \<Rightarrow>
                   (case EnqueueWithIdempotency notify ''process_webhook''
                           (json_print (JObj [(''source'', JStr source), (''webhook_id'', JInt (wh_id w))]))
                           '''' (source @ '':'' @ ext) (c, s1) of
                      (_, cs) \<Rightarrow> (status_only 200, cs)))))"

section \<open>Checkout\<close>

record create_payment_input =
  ci_tenant :: string
  ci_user_id :: int
  ci_email :: string
  ci_amount :: float64
  ci_billing_type :: string

record payment_result =
  pr_invoice_url :: string
  pr_payment_id :: string
  pr_pix_qr_code :: string
  pr_pix_copy_paste :: string

record asaas_customer_output =
  ao_id :: string
  ao_name :: string

record asaas_payment_output =
  po_id :: string
  po_status :: string
  po_due_date :: string
  po_invoice_url :: string
  po_invoice_id :: string
  po_pix_qr_code :: string
  po_pix_copy_paste :: string

text \<open>The client of the payment provider as the repository has it: it makes no call yet.\<close>

definition AsaasClient_CreateCustomer :: "string \<Rightarrow> string \<Rightarrow> asaas_customer_output" where
  "AsaasClient_CreateCustomer email name = \<lparr>ao_id = ''cus_'' @ email, ao_name = name\<rparr>"

definition AsaasClient_CreatePayment :: "string \<Rightarrow> string \<Rightarrow> asaas_payment_output" where
  "AsaasClient_CreatePayment due_date ref =
     \<lparr>po_id = ''pay_'' @ ref, po_status = ''PENDING'', po_due_date = due_date,
      po_invoice_url = ''https://asaas.com/i/'' @ ref, po_invoice_id = ''inv_'' @ ref,
      po_pix_qr_code = ''00000000000000000000000000000000000000000000000'',
      po_pix_copy_paste = ''00000000000000000000000000000000000000000000000''\<rparr>"

definition customer_GetByEmail :: "string \<Rightarrow> string \<Rightarrow> asaas_customer query" where
  "customer_GetByEmail tenant email = GetAsaasCustomerByEmail tenant email"

text \<open>\<open>json.Marshal\<close> of the string \<open>AsaasData\<close> is never NULL.\<close>

definition customer_Create :: "string \<Rightarrow> int \<Rightarrow> string \<Rightarrow> string \<Rightarrow> string \<Rightarrow> asaas_customer query" where
  "customer_Create tenant uid email name data =
     CreateAsaasCustomer (tenant @ ''_'' @ string_of_int uid) tenant (Some uid) email None
       (null_string name) (Some (print_string data))"

text \<open>
  \<open>params_json\<close> is the JSON of the parameters, which is stored for reference. A due date that
  does not parse is the zero time.
\<close>

definition payment_Create ::
  "string \<Rightarrow> string \<Rightarrow> string \<Rightarrow> int \<Rightarrow> float64 \<Rightarrow> string \<Rightarrow> string \<Rightarrow> string \<Rightarrow> asaas_payment query" where
  "payment_Create params_json tenant customer uid amount billing_type due_date ref =
     CreateAsaasPayment
       \<lparr>ap_id = ref, ap_tenant = tenant, ap_customer_id = customer, ap_user_id = Some uid,
        ap_amount = amount, ap_billing_type = billing_type, ap_status = ''PENDING'',
        ap_due_date = (case parse_date due_date of Some t \<Rightarrow> t | None \<Rightarrow> zero_time),
        ap_payment_date = None, ap_invoice_url = None, ap_invoice_id = None, ap_pix_qr_code = None,
        ap_pix_copy_paste = None, ap_asaas_response = Some params_json,
        ap_created_at = None, ap_updated_at = None\<rparr>"

definition payment_GetByID :: "string \<Rightarrow> asaas_payment query" where
  "payment_GetByID i = GetAsaasPaymentByID i"

definition payment_ListByUser :: "int \<Rightarrow> asaas_payment list query" where
  "payment_ListByUser uid = ListAsaasPaymentsByUser (Some uid)"

definition payment_UpdateStatus :: "string \<Rightarrow> string \<Rightarrow> unit query" where
  "payment_UpdateStatus i st s =
     (case UpdateAsaasPaymentStatus st None i s of
        (Inl e, s') \<Rightarrow> (Inl e, s') | (Inr _, s') \<Rightarrow> (Inr (), s'))"

text \<open>\<open>x.String\<close> of a scanned \<open>sql.NullString\<close>.\<close>

definition string_of :: "string option \<Rightarrow> string" where
  "string_of v = (case v of None \<Rightarrow> '''' | Some t \<Rightarrow> t)"

text \<open>
  \<open>local_date\<close> formats an instant as a date of the server's time zone, and \<open>marshal\<close> is the
  JSON of the payment parameters.
\<close>

definition CreatePayment ::
  "(instant \<Rightarrow> string) \<Rightarrow> (create_payment_input \<Rightarrow> string) \<Rightarrow> create_payment_input \<Rightarrow> payment_result query" where
  "CreatePayment local_date marshal input s =
     (case (case customer_GetByEmail (ci_tenant input) (ci_email input) s of
              (Inr c, s1) \<Rightarrow> (Inr c, s1)
            | (Inl _, s1) \<Rightarrow>
                customer_Create (ci_tenant input) (ci_user_id input) (ci_email input)
                  (ao_name (AsaasClient_CreateCustomer (ci_email input) (ci_email input))) '''' s1) of
        (Inl e, s1) \<Rightarrow> (Inl e, s1)
      | (Inr customer, s1) \<Rightarrow>
          (let ap = AsaasClient_CreatePayment (local_date (clock s1 + 24 * hour))
                      (''user_'' @ string_of_int (ci_user_id input)) in
           case payment_Create (marshal input) (ci_tenant input) (ac_id customer) (ci_user_id input)
                  (ci_amount input) (ci_billing_type input) (po_due_date ap) (po_id ap) s1 of
             (Inl e, s2) \<Rightarrow> (Inl e, s2)
           | (Inr p, s2) \<Rightarrow>
               (Inr \<lparr>pr_invoice_url = string_of (ap_invoice_url p), pr_payment_id = ap_id p,
                     pr_pix_qr_code = string_of (ap_pix_qr_code p),
                     pr_pix_copy_paste = string_of (ap_pix_copy_paste p)\<rparr>, s2)))"

text \<open>
  \<open>HandleWebhook\<close> of the service. The two type assertions without \<open>ok\<close> panic when the
  payload has another shape, \<open>Panics\<close>. \<open>Some ev\<close> is the returned map.
\<close>

definition last_member :: "string \<Rightarrow> (string \<times> json) list \<Rightarrow> json option" where
  "last_member k ms = map_of (rev ms) k"

definition HandleWebhook :: "string \<Rightarrow> db \<Rightarrow> (json option option) go_result \<times> db" where
  "HandleWebhook payload s =
     (case map_option as_struct (json_parse payload) of
        Some (Some ms) \<Rightarrow>
          (case last_member ''event'' ms of
             Some (JStr ev) \<Rightarrow>
               if ev = ''PAYMENT_RECEIVED'' then
                 (case last_member ''payment'' ms of
                    Some (JObj ps) \<Rightarrow>
                      (case last_member ''id'' ps of
                         Some (JStr i) \<Rightarrow>
                           (Returns (Some (Some (JObj ms))), ignore_error (payment_UpdateStatus i ''RECEIVED'') s)
                       | _ \<Rightarrow> (Panics, s))
                  | _ \<Rightarrow> (Panics, s))
               else (Returns (Some (Some (JObj ms))), s)
           | _ \<Rightarrow> (Returns (Some None), s))
      | _ \<Rightarrow> (Returns None, s))"

section \<open>What these operations leave alone\<close>

lemma UpdateAsaasPaymentStatus_job_tables:
  "same_job_tables s (snd (UpdateAsaasPaymentStatus st date i s))"
  unfolding UpdateAsaasPaymentStatus_def
  by (rule run_rel) (auto simp: same_job_tables_def Let_def split: option.split)

lemma UpdateAsaasSubscription_job_tables:
  "same_job_tables s (snd (UpdateAsaasSubscription st date resp i s))"
  unfolding UpdateAsaasSubscription_def
  by (rule run_rel) (auto simp: same_job_tables_def Let_def split: option.split)

lemma same_job_tables_refl [simp]: "same_job_tables s s"
  by (simp add: same_job_tables_def)

lemma same_job_tables_trans: "same_job_tables a b \<Longrightarrow> same_job_tables b c \<Longrightarrow> same_job_tables a c"
  by (simp add: same_job_tables_def)

lemmas event_handler_defs =
  update_payment_def handlePaymentReceived_def handlePaymentConfirmed_def handlePaymentOverdue_def
  handlePaymentRefunded_def handlePaymentCanceled_def handleSubscriptionUpdated_def
  handleSubscriptionCanceled_def handleSubscriptionDeleted_def

text \<open>An event leads to at most one statement.\<close>

lemma dispatch_event_cases:
  assumes "P s" and "\<And>st date i. P (snd (UpdateAsaasPaymentStatus st date i s))"
    and "\<And>st date resp i. P (snd (UpdateAsaasSubscription st date resp i s))"
  shows "P (dispatch_event pl s)"
  using assms
  unfolding dispatch_event_def Let_def event_handler_defs
  by (simp split: option.split)

lemma dispatch_event_job_tables: "same_job_tables s (dispatch_event pl s)"
  by (rule dispatch_event_cases)
    (simp_all add: UpdateAsaasPaymentStatus_job_tables UpdateAsaasSubscription_job_tables)

lemma dispatch_event_frame:
  "t_webhooks (dispatch_event pl s) = t_webhooks s"
  "t_processed_events (dispatch_event pl s) = t_processed_events s"
  by (rule dispatch_event_cases,
      simp_all add: UpdateAsaasPaymentStatus_def UpdateAsaasSubscription_def run_frame fault_blind_def
        Let_def split: option.split)+

lemma dispatch_event_faults: "faults s = [] \<Longrightarrow> faults (dispatch_event pl s) = []"
  by (rule dispatch_event_cases)
    (simp_all add: UpdateAsaasPaymentStatus_def UpdateAsaasSubscription_def run_no_faults
        Let_def split: option.split)

lemma ProcessWebhookEvent_job_tables:
  "same_job_tables s (snd (ProcessWebhookEvent i source ev s))"
proof -
  have a: "same_job_tables s (snd (IsWebhookEventProcessed source ev s))" for s
    unfolding IsWebhookEventProcessed_def by (rule run_rel) (auto simp: same_job_tables_def)
  have b: "same_job_tables s (snd (GetWebhookByID i s))" for s
    unfolding GetWebhookByID_def by (rule run_rel) (auto simp: same_job_tables_def)
  have c: "same_job_tables s (snd (CreateProcessedWebhookEvent source ev (Some i) s))" for s
    unfolding CreateProcessedWebhookEvent_def by (rule run_rel) (auto simp: same_job_tables_def)
  obtain p s1 where p: "IsWebhookEventProcessed source ev s = (p, s1)" by force
  obtain q s2 where q: "GetWebhookByID i s1 = (q, s2)" by force
  have "same_job_tables s s1" "same_job_tables s1 s2" using a [of s] b [of s1] p q by simp_all
  then have s2: "same_job_tables s s2" by (rule same_job_tables_trans)
  have s3: "same_job_tables s (snd (CreateProcessedWebhookEvent source ev (Some i) (dispatch_event pl s2)))" for pl
    using s2 dispatch_event_job_tables [of s2 pl] c same_job_tables_trans by blast
  show ?thesis
    using \<open>same_job_tables s s1\<close> s2 s3 unfolding ProcessWebhookEvent_def
    by (auto simp: p q split: prod.splits sum.splits option.splits) (metis snd_conv)+
qed

section \<open>Properties\<close>

text \<open>C25: no webhook request changes the database unless it is a POST with the configured token and,
  when an HMAC secret is configured and the request carries a signature header, that signature is
  the HMAC of its body.\<close>

theorem webhook_needs_credentials:
  assumes "snd (WebhookHandler_ServeHTTP hmac_hex h r s) \<noteq> s"
  shows "hr_method r = ''POST'' \<and> hr_header r ''X-Asaas-Token'' = hk_token h \<and>
    (hk_secret h \<noteq> '''' \<and> received_signature r \<noteq> '''' \<longrightarrow>
       (\<exists>body. hr_body r = Some body \<and> strip_sha256 (received_signature r) = hmac_hex (hk_secret h) body)) \<and>
    rp_status (fst (WebhookHandler_ServeHTTP hmac_hex h r s)) = 200"
  using assms
  by (auto simp: WebhookHandler_ServeHTTP_def validateHMACSignature_def status_only_def
      split: if_splits option.splits)

lemma event_processed_keys:
  "event_processed s source ev \<longleftrightarrow>
     (source, ev) \<in> set (map (\<lambda>p. (pe_source p, pe_event_id p)) (t_processed_events s))"
  by (auto simp: event_processed_def)

lemma event_processed_touch [simp]:
  "event_processed (s\<lparr>faults := fs, t_processed_events :=
     update_where p (\<lambda>q. q\<lparr>pe_processed_at := t\<rparr>) (t_processed_events s)\<rparr>) source ev \<longleftrightarrow>
   event_processed s source ev"
  unfolding event_processed_keys by (simp add: map_update_where del: set_map)

lemma event_processed_fault_blind [simp]:
  "event_processed (s\<lparr>faults := fs\<rparr>) source ev = event_processed s source ev"
  by (simp add: event_processed_def)

lemma create_processed_event_Inr:
  assumes "CreateProcessedWebhookEvent source ev w s = (Inr (), s')"
  shows "event_processed s' source ev"
  using assms unfolding CreateProcessedWebhookEvent_def
proof (cases rule: run_cases)
  case (executed fs)
  show ?thesis
  proof (cases "event_processed s source ev")
    case True
    with executed show ?thesis by auto
  next
    case False
    with executed show ?thesis by (auto simp: event_processed_def split: if_splits)
  qed
qed simp

lemma is_event_processed_Inr:
  "IsWebhookEventProcessed source ev s = (Inr 1, s') \<Longrightarrow> event_processed s' source ev"
  unfolding IsWebhookEventProcessed_def
  by (elim run_cases) (auto simp: event_processed_def split: if_splits)

text \<open>C28: an event is processed once: after a call for a source and an event id succeeded, a further
  call for them, with whatever webhook, succeeds without changing anything.\<close>

theorem webhook_event_processed_once:
  assumes "ProcessWebhookEvent i source ev s = (Inr (), s1)" and "faults s1 = []"
  shows "ProcessWebhookEvent j source ev s1 = (Inr (), s1)"
proof -
  have "event_processed s1 source ev"
    using assms(1) unfolding ProcessWebhookEvent_def
    by (auto split: prod.splits sum.splits option.splits if_splits
        dest: create_processed_event_Inr is_event_processed_Inr)
  with assms(2) show ?thesis
    by (simp add: ProcessWebhookEvent_def IsWebhookEventProcessed_def run_no_faults)
qed

text \<open>The status the code writes for an event on a payment, where the table accepts it.\<close>

definition payment_status_after :: "string \<Rightarrow> string \<Rightarrow> string" where
  "payment_status_after ev old =
     (if ev = ''PAYMENT_RECEIVED'' then ''RECEIVED''
      else if ev = ''PAYMENT_CONFIRMED'' then ''CONFIRMED''
      else if ev = ''PAYMENT_OVERDUE'' then ''OVERDUE''
      else if ev = ''PAYMENT_REFUNDED'' then ''REFUNDED''
      else old)"

lemma update_payment_statuses:
  assumes "faults s = []" and "wp_payment pl = Some p"
  shows "map ap_status (t_payments (update_payment st date pl s)) =
    map (\<lambda>q. if ap_id q = pp_id p \<and> st \<in> set payment_statuses then st else ap_status q) (t_payments s)"
proof (cases "find (\<lambda>q. ap_id q = pp_id p) (t_payments s)")
  case None
  then have "\<forall>q\<in>set (t_payments s). ap_id q \<noteq> pp_id p" by (simp add: find_None_iff_all)
  with None assms show ?thesis
    by (simp add: update_payment_def UpdateAsaasPaymentStatus_def run_no_faults)
next
  case (Some q)
  with assms show ?thesis
    by (auto simp: update_payment_def UpdateAsaasPaymentStatus_def run_no_faults Let_def update_where_def)
qed

text \<open>processing a stored payment event gives every payment with its id the status of the event and
  leaves all others as they are; \<open>PAYMENT_CANCELED\<close> changes no status (the table rejects the
  spelling the code writes), yet the event is recorded as processed.\<close>

theorem payment_event_sets_status:
  assumes "faults s = []" and "w \<in> set (t_webhooks s)" and "keyed wh_id (t_webhooks s)"
    and "unmarshal_webhook (wh_payload w) = Some pl" and "wp_payment pl = Some p"
    and "\<not> event_processed s source ev"
    and "wp_event pl \<in> {''PAYMENT_RECEIVED'', ''PAYMENT_CONFIRMED'', ''PAYMENT_OVERDUE'',
           ''PAYMENT_REFUNDED'', ''PAYMENT_CANCELED''}"
  shows "fst (ProcessWebhookEvent (wh_id w) source ev s) = Inr () \<and>
    map ap_status (t_payments (snd (ProcessWebhookEvent (wh_id w) source ev s))) =
      map (\<lambda>q. if ap_id q = pp_id p then payment_status_after (wp_event pl) (ap_status q) else ap_status q)
        (t_payments s) \<and>
    event_processed (snd (ProcessWebhookEvent (wh_id w) source ev s)) source ev"
proof -
  let ?s = "dispatch_event pl s"
  have get: "GetWebhookByID (wh_id w) s = (Inr w, s)"
    using keyed_find [OF assms(3,2)] assms(1) by (simp add: GetWebhookByID_def run_no_faults)
  have new: "\<not> event_processed ?s source ev"
    using assms(6) by (simp add: event_processed_def dispatch_event_frame)
  have "wh_id w \<in> wh_id ` set (t_webhooks ?s)" using assms(2) by (simp add: dispatch_event_frame)
  with new have create: "CreateProcessedWebhookEvent source ev (Some (wh_id w)) ?s =
      (Inr (), ?s\<lparr>t_processed_events := t_processed_events ?s @
         [\<lparr>pe_source = source, pe_event_id = ev, pe_webhook_id = Some (wh_id w),
           pe_processed_at = clock ?s\<rparr>]\<rparr>)"
    using dispatch_event_faults [OF assms(1)]
    by (simp add: CreateProcessedWebhookEvent_def run_no_faults)
  have run: "ProcessWebhookEvent (wh_id w) source ev s =
      (Inr (), snd (CreateProcessedWebhookEvent source ev (Some (wh_id w)) ?s))"
    using assms(1,4,6) get create
    by (simp add: ProcessWebhookEvent_def IsWebhookEventProcessed_def run_no_faults)
  have "map ap_status (t_payments ?s) =
      map (\<lambda>q. if ap_id q = pp_id p then payment_status_after (wp_event pl) (ap_status q) else ap_status q)
        (t_payments s)"
    using assms(7) update_payment_statuses [OF assms(1,5)]
    by (auto simp: dispatch_event_def handlePaymentReceived_def handlePaymentConfirmed_def
        handlePaymentOverdue_def handlePaymentRefunded_def handlePaymentCanceled_def
        payment_status_after_def payment_statuses_def)
  then show ?thesis
    unfolding run create by (simp add: event_processed_def)
qed

text \<open>the asynchronous handler and the generic webhook endpoint never store a webhook and never
  enqueue a job: the statement they store it with cannot be prepared, and a request that passes all
  checks is answered with 500.\<close>

theorem async_webhook_never_stores:
  assumes "faults s = []"
  shows "snd (AsyncWebhookHandler_ServeHTTP notify hmac_hex h r (c, s)) = (c, s) \<and>
    snd (generic_webhook_ServeHTTP notify source body headers (c, s)) = (c, s) \<and>
    rp_status (fst (AsyncWebhookHandler_ServeHTTP notify hmac_hex h r (c, s))) \<in> {400, 401, 405, 500} \<and>
    rp_status (fst (generic_webhook_ServeHTTP notify source body headers (c, s))) \<in> {400, 500}"
proof -
  have refused: "CreateWebhookWithIdempotency a b d e s =
      (Inl (BadStatement ''ON CONFLICT clause does not match any PRIMARY KEY or UNIQUE constraint''), s)" for a b d e
    using assms by (simp add: CreateWebhookWithIdempotency_def run_no_faults)
  have "\<not> isUniqueConstraintError
      (BadStatement ''ON CONFLICT clause does not match any PRIMARY KEY or UNIQUE constraint'')"
    by code_simp
  then have "snd (AsyncWebhookHandler_ServeHTTP notify hmac_hex h r (c, s)) = (c, s) \<and>
      rp_status (fst (AsyncWebhookHandler_ServeHTTP notify hmac_hex h r (c, s))) \<in> {400, 401, 405, 500}"
    by (simp add: AsyncWebhookHandler_ServeHTTP_def refused http_error_def Let_def split: option.split)
  moreover have "snd (generic_webhook_ServeHTTP notify source body headers (c, s)) = (c, s) \<and>
      rp_status (fst (generic_webhook_ServeHTTP notify source body headers (c, s))) \<in> {400, 500}"
    using \<open>\<not> isUniqueConstraintError _\<close>
    by (simp add: generic_webhook_ServeHTTP_def webhook_CreateWithIdempotency_def refused
        split: option.split)
  ultimately show ?thesis by simp
qed

text \<open>a \<open>SUBSCRIPTION_UPDATED\<close> event that takes effect makes its subscription unreadable: the new
  status is stored together with a NULL response, which no later read of the row can scan.\<close>

theorem subscription_update_unreadable:
  assumes "faults s = []" and "keyed as_id (t_subscriptions s)" and "r \<in> set (t_subscriptions s)"
    and "wp_subscription pl = Some sub" and "ps_id sub = as_id r"
    and "ps_status sub \<in> {''ACTIVE'', ''INACTIVE'', ''CANCELLED'', ''PENDING''}"
  shows "(\<exists>r'\<in>set (t_subscriptions (handleSubscriptionUpdated pl s)).
      as_id r' = as_id r \<and> as_status r' = ps_status sub \<and> as_asaas_response r' = None) \<and>
    fst (GetAsaasSubscriptionByID (as_id r) (handleSubscriptionUpdated pl s)) =
      Inl (ScanError ''asaas_response'')" (is "?stored \<and> ?unreadable")
proof -
  let ?f = "\<lambda>q. q\<lparr>as_status := ps_status sub,
      as_next_billing_date := Some (case parse_date (ps_next_due_date sub) of Some t \<Rightarrow> t | None \<Rightarrow> zero_time),
      as_asaas_response := None, as_updated_at := Some (clock s)\<rparr>"
  have "find (\<lambda>q. as_id q = as_id r) (t_subscriptions s) = Some r"
    using assms(2,3) by (rule keyed_find)
  moreover have "ps_status sub \<in> set subscription_statuses"
    using assms(6) by (simp add: subscription_statuses_def)
  ultimately have after: "handleSubscriptionUpdated pl s =
      s\<lparr>t_subscriptions := update_where (\<lambda>q. as_id q = as_id r) ?f (t_subscriptions s)\<rparr>"
    and found: "find (\<lambda>q. as_id q = as_id r) (t_subscriptions s) = Some r"
    using assms(1,4,5)
    by (simp_all add: handleSubscriptionUpdated_def UpdateAsaasSubscription_def run_no_faults Let_def)
  have stored: ?stored
    unfolding after using assms(3) by (auto simp: set_update_where intro!: bexI [of _ "?f r"])
  have "find (\<lambda>q. as_id q = as_id r) (update_where (\<lambda>q. as_id q = as_id r) ?f (t_subscriptions s)) = Some (?f r)"
    using found by (subst find_update_where) auto
  then have ?unreadable
    unfolding after using assms(1)
    by (simp add: GetAsaasSubscriptionByID_def run_no_faults scan_subscription_def)
  with stored show ?thesis ..
qed

lemma customer_step_payments:
  "t_payments (snd (customer_GetByEmail t e s)) = t_payments s"
  "t_payments (snd (customer_Create t u e n d s)) = t_payments s"
  unfolding customer_GetByEmail_def GetAsaasCustomerByEmail_def customer_Create_def CreateAsaasCustomer_def
  by (rule run_frame, auto simp: fault_blind_def Let_def split: option.split)+

text \<open>What a checkout does to the payments: it stops before them, or makes one insert.\<close>

lemma CreatePayment_cases:
  assumes "CreatePayment local_date marshal input s = (r, s')"
  obtains (no_customer) e where "r = Inl e"
    | (insert) customer due s1 out where "t_payments s1 = t_payments s"
        and "payment_Create (marshal input) (ci_tenant input) customer (ci_user_id input)
               (ci_amount input) (ci_billing_type input) due
               (''pay_user_'' @ string_of_int (ci_user_id input)) s1 = (out, s')"
        and "r = (case out of Inl e \<Rightarrow> Inl e | Inr p \<Rightarrow>
               Inr \<lparr>pr_invoice_url = string_of (ap_invoice_url p), pr_payment_id = ap_id p,
                    pr_pix_qr_code = string_of (ap_pix_qr_code p),
                    pr_pix_copy_paste = string_of (ap_pix_copy_paste p)\<rparr>)"
proof -
  obtain q s1 where q: "(case customer_GetByEmail (ci_tenant input) (ci_email input) s of
              (Inr c, s1) \<Rightarrow> (Inr c, s1)
            | (Inl _, s1) \<Rightarrow>
                customer_Create (ci_tenant input) (ci_user_id input) (ci_email input)
                  (ao_name (AsaasClient_CreateCustomer (ci_email input) (ci_email input))) '''' s1) = (q, s1)"
    by force
  have same: "t_payments s1 = t_payments s"
    using q customer_step_payments(1) [of "ci_tenant input" "ci_email input" s]
      customer_step_payments(2)
    by (auto split: prod.splits sum.splits) (metis snd_conv)+
  show thesis
  proof (cases q)
    case (Inl e)
    with assms q show thesis by (intro no_customer [of e]) (auto simp: CreatePayment_def)
  next
    case (Inr c)
    obtain out s2 where out: "payment_Create (marshal input) (ci_tenant input) (ac_id c) (ci_user_id input)
        (ci_amount input) (ci_billing_type input)
        (local_date (clock s1 + 24 * hour)) (''pay_user_'' @ string_of_int (ci_user_id input)) s1 = (out, s2)"
      by force
    with assms q Inr have "s2 = s'"
      "r = (case out of Inl e \<Rightarrow> Inl e | Inr p \<Rightarrow>
               Inr \<lparr>pr_invoice_url = string_of (ap_invoice_url p), pr_payment_id = ap_id p,
                    pr_pix_qr_code = string_of (ap_pix_qr_code p),
                    pr_pix_copy_paste = string_of (ap_pix_copy_paste p)\<rparr>)"
      by (auto simp: CreatePayment_def AsaasClient_CreatePayment_def Let_def split: sum.splits)
    with same out show thesis by (intro insert) simp_all
  qed
qed

lemma payment_Create_Inr:
  assumes "payment_Create j t c u a b d ref s = (Inr p, s')"
  shows "ap_id p = ref \<and> ap_invoice_url p = None \<and> ap_pix_qr_code p = None \<and>
    ap_pix_copy_paste p = None \<and> ref \<notin> ap_id ` set (t_payments s) \<and> t_payments s' = t_payments s @ [p]"
  using assms unfolding payment_Create_def CreateAsaasPayment_def
proof (cases rule: run_cases)
  case (executed fs)
  then show ?thesis
    by (simp add: Let_def scan_payment_def split: if_splits) auto
qed simp

text \<open>a user can check out once: the payment gets an id made of the user's id alone, so after one
  successful checkout every further one of the same user fails, whatever it asks for; and the result
  of the successful one carries neither an invoice URL nor a PIX code.\<close>

theorem checkout_once_per_user:
  assumes "CreatePayment local_date marshal input s = (Inr res, s1)"
    and "ci_user_id input' = ci_user_id input"
  shows "pr_payment_id res = ''pay_user_'' @ string_of_int (ci_user_id input) \<and>
    pr_invoice_url res = '''' \<and> pr_pix_qr_code res = '''' \<and> pr_pix_copy_paste res = '''' \<and>
    (\<exists>e. fst (CreatePayment local_date' marshal' input' s1) = Inl e)"
proof -
  let ?id = "''pay_user_'' @ string_of_int (ci_user_id input)"
  from assms(1) obtain c due sa p where
    paid: "payment_Create (marshal input) (ci_tenant input) c (ci_user_id input) (ci_amount input)
        (ci_billing_type input) due ?id sa = (Inr p, s1)"
    and res: "res = \<lparr>pr_invoice_url = string_of (ap_invoice_url p), pr_payment_id = ap_id p,
                    pr_pix_qr_code = string_of (ap_pix_qr_code p),
                    pr_pix_copy_paste = string_of (ap_pix_copy_paste p)\<rparr>"
    by (cases rule: CreatePayment_cases) (auto split: sum.splits)
  note p = payment_Create_Inr [OF paid]
  then have taken: "?id \<in> ap_id ` set (t_payments s1)" by auto
  obtain r s2 where again: "CreatePayment local_date' marshal' input' s1 = (r, s2)" by force
  then have "\<exists>e. r = Inl e"
  proof (cases rule: CreatePayment_cases)
    case (insert customer due' sb out)
    show ?thesis
    proof (cases out)
      case (Inr q)
      with insert(2) assms(2) have "?id \<notin> ap_id ` set (t_payments sb)"
        using payment_Create_Inr by fastforce
      with taken insert(1) show ?thesis by simp
    qed (use insert(3) in simp)
  qed simp
  with again p res show ?thesis by (simp add: string_of_def)
qed

section \<open>The properties at a concrete database\<close>

definition sample_payment :: asaas_payment where
  "sample_payment = \<lparr>ap_id = ''pay_1'', ap_tenant = ''default'', ap_customer_id = ''c'', ap_user_id = None,
     ap_amount = Fin 10, ap_billing_type = ''PIX'', ap_status = ''PENDING'', ap_due_date = 0,
     ap_payment_date = None, ap_invoice_url = None, ap_invoice_id = None, ap_pix_qr_code = None,
     ap_pix_copy_paste = None, ap_asaas_response = Some ''{}'', ap_created_at = None, ap_updated_at = None\<rparr>"

definition sample_subscription :: asaas_subscription where
  "sample_subscription = \<lparr>as_id = ''sub_1'', as_tenant = ''default'', as_customer_id = ''c'', as_user_id = None,
     as_plan_value = Fin 10, as_billing_type = ''PIX'', as_cycle_type = ''MONTHLY'', as_status = ''ACTIVE'',
     as_next_billing_date = None, as_asaas_response = Some ''{}'', as_created_at = None, as_updated_at = None\<rparr>"

definition paid_body :: string where
  "paid_body = json_print (JObj [(''event'', JStr ''PAYMENT_RECEIVED''), (''payment'', JObj [(''id'', JStr ''pay_1'')])])"

definition paid_payload :: webhook_payload where
  "paid_payload = \<lparr>wp_event = ''PAYMENT_RECEIVED'',
     wp_payment = Some \<lparr>pp_id = ''pay_1'', pp_status = '''', pp_payment_date = ''''\<rparr>, wp_subscription = None\<rparr>"

definition sample_webhook :: webhook_row where
  "sample_webhook = \<lparr>wh_id = 1, wh_source = ''asaas'', wh_external_id = None, wh_payload = paid_body,
     wh_headers = ''{}'', wh_status = ''pending'', wh_created_at = None\<rparr>"

definition billing_db :: db where
  "billing_db = (migrated_db 50)\<lparr>t_payments := [sample_payment], t_webhooks := [sample_webhook],
     t_subscriptions := [sample_subscription]\<rparr>"

lemma unmarshal_paid_body: "unmarshal_webhook paid_body = Some paid_payload"
  by code_simp

lemma billing_db_simps:
  "t_payments billing_db = [sample_payment]" "t_webhooks billing_db = [sample_webhook]"
  "t_subscriptions billing_db = [sample_subscription]" "faults billing_db = []"
  "t_processed_events billing_db = []"
  by (simp_all add: billing_db_def migrated_db_def)

lemma paid_effect:
  "map ap_status (t_payments (dispatch_event paid_payload billing_db)) = [''RECEIVED'']"
proof -
  have "dispatch_event paid_payload billing_db = update_payment ''RECEIVED'' (Some (clock billing_db)) paid_payload billing_db"
    by (simp add: dispatch_event_def paid_payload_def handlePaymentReceived_def)
  then show ?thesis
    using update_payment_statuses [of billing_db paid_payload _ "''RECEIVED''"]
    by (simp add: billing_db_simps paid_payload_def sample_payment_def payment_statuses_def)
qed

definition paid_request :: hook_request where
  "paid_request = \<lparr>hr_method = ''POST'', hr_header = (\<lambda>n. if n = ''X-Asaas-Token'' then ''tok'' else ''''),
     hr_body = Some paid_body\<rparr>"

theorem webhook_needs_credentials_witness:
  "rp_status (fst (WebhookHandler_ServeHTTP (\<lambda>k b. '''') \<lparr>hk_token = ''tok'', hk_secret = ''''\<rparr>
     paid_request billing_db)) = 200"
proof -
  have "length paid_body \<le> 100" by code_simp
  then have "length paid_body \<le> max_hook_body" by (simp add: max_hook_body_def)
  then have "snd (WebhookHandler_ServeHTTP (\<lambda>k b. '''') \<lparr>hk_token = ''tok'', hk_secret = ''''\<rparr>
      paid_request billing_db) = dispatch_event paid_payload billing_db"
    by (simp add: WebhookHandler_ServeHTTP_def paid_request_def read_limited_def unmarshal_paid_body)
  moreover have "dispatch_event paid_payload billing_db \<noteq> billing_db"
    using paid_effect by (auto simp: billing_db_simps sample_payment_def)
  ultimately have "snd (WebhookHandler_ServeHTTP (\<lambda>k b. '''') \<lparr>hk_token = ''tok'', hk_secret = ''''\<rparr>
      paid_request billing_db) \<noteq> billing_db" by simp
  from webhook_needs_credentials [OF this] show ?thesis by blast
qed

lemma paid_event_sets_status:
  "fst (ProcessWebhookEvent 1 ''asaas'' ''e1'' billing_db) = Inr () \<and>
   map ap_status (t_payments (snd (ProcessWebhookEvent 1 ''asaas'' ''e1'' billing_db))) = [''RECEIVED'']"
  by code_simp

theorem payment_event_sets_status_witness:
  "event_processed (snd (ProcessWebhookEvent (wh_id sample_webhook) ''asaas'' ''e1'' billing_db)) ''asaas'' ''e1''"
  using payment_event_sets_status [of billing_db sample_webhook paid_payload _ "''asaas''" "''e1''"]
  by (simp add: billing_db_simps keyed_def event_processed_def unmarshal_paid_body
      paid_payload_def [symmetric] sample_webhook_def [THEN arg_cong [where f = wh_payload]])
    (simp add: paid_payload_def)

theorem webhook_event_processed_once_witness:
  "\<exists>s1. ProcessWebhookEvent 1 ''asaas'' ''e1'' billing_db = (Inr (), s1) \<and>
     ProcessWebhookEvent 1 ''asaas'' ''e1'' s1 = (Inr (), s1)"
proof -
  have "faults (snd (ProcessWebhookEvent 1 ''asaas'' ''e1'' billing_db)) = []" by code_simp
  with webhook_event_processed_once [of 1 "''asaas''" "''e1''" billing_db] paid_event_sets_status
  show ?thesis by (metis prod.collapse)
qed

theorem async_webhook_never_stores_witness:
  "snd (AsyncWebhookHandler_ServeHTTP None (\<lambda>k b. '''') \<lparr>hk_token = ''tok'', hk_secret = ''''\<rparr>
     paid_request ((), billing_db)) = ((), billing_db)"
  by (rule async_webhook_never_stores [OF billing_db_simps(4), THEN conjunct1])

theorem subscription_update_unreadable_witness:
  "fst (GetAsaasSubscriptionByID ''sub_1'' (handleSubscriptionUpdated
     \<lparr>wp_event = ''SUBSCRIPTION_UPDATED'', wp_payment = None,
      wp_subscription = Some \<lparr>ps_id = ''sub_1'', ps_status = ''ACTIVE'', ps_next_due_date = ''2026-03-01''\<rparr>\<rparr>
     billing_db)) = Inl (ScanError ''asaas_response'')"
  using subscription_update_unreadable [of billing_db sample_subscription
      "\<lparr>wp_event = ''SUBSCRIPTION_UPDATED'', wp_payment = None,
      wp_subscription = Some \<lparr>ps_id = ''sub_1'', ps_status = ''ACTIVE'', ps_next_due_date = ''2026-03-01''\<rparr>\<rparr>"]
  by (simp add: billing_db_simps keyed_def sample_subscription_def)

text \<open>A checkout of user 1.\<close>

definition checkout_db :: db where
  "checkout_db = (migrated_db 50)\<lparr>t_users := [\<lparr>u_id = 1, u_tenant = ''default'', u_email = ''a@b.co'',
     u_password_hash = '''', u_role_id = ''user'', u_is_verified = True, u_avatar_url = None,
     u_created_at = None, u_provider = None, u_provider_id = None\<rparr>]\<rparr>"

definition checkout_input :: create_payment_input where
  "checkout_input = \<lparr>ci_tenant = ''default'', ci_user_id = 1, ci_email = ''a@b.co'', ci_amount = Fin 10,
     ci_billing_type = ''PIX''\<rparr>"

theorem checkout_once_per_user_witness:
  "\<exists>res s1 e. CreatePayment (\<lambda>t. ''2026-03-01'') (\<lambda>i. ''{}'') checkout_input checkout_db = (Inr res, s1) \<and>
     fst (CreatePayment (\<lambda>t. ''2026-03-01'') (\<lambda>i. ''{}'') checkout_input s1) = Inl e"
proof -
  have "is_ok (fst (CreatePayment (\<lambda>t. ''2026-03-01'') (\<lambda>i. ''{}'') checkout_input checkout_db))"
    by code_simp
  then obtain res s1 where
    first: "CreatePayment (\<lambda>t. ''2026-03-01'') (\<lambda>i. ''{}'') checkout_input checkout_db = (Inr res, s1)"
    by (metis is_ok_iff prod.collapse)
  from checkout_once_per_user [OF first refl, of "\<lambda>t. ''2026-03-01''" "\<lambda>i. ''{}''"] first
  show ?thesis by blast
qed

end
