(* ===== verification/Breaker_Contract.thy ===== *)
theory Breaker_Contract
  imports Goth_Prelude
begin

text \<open>
  What the callers of a circuit breaker rely on, for the two breakers of the program (the
  one per job type in \<open>jobs/worker/circuit_breaker.go\<close>, and the one of the HTTP client in
  \<open>platform/httpclient/circuitbreaker.go\<close>): while it is open and its timeout has not
  passed it refuses, and nothing its users do meanwhile makes it admit.
\<close>

datatype breaker_op = OpAllow | OpSuccess | OpFailure

locale fail_fast =
  fixes inv :: "'s \<Rightarrow> bool"
    and step :: "'op \<Rightarrow> instant \<Rightarrow> 's \<Rightarrow> 's"
    and allows :: "instant \<Rightarrow> 's \<Rightarrow> bool"
    and opened :: "'s \<Rightarrow> instant option"
    and cool_down :: "'s \<Rightarrow> duration"
  assumes inv_step: "inv s \<Longrightarrow> inv (step x t s)"
    and cool_down_step: "cool_down (step x t s) = cool_down s"
    and refuses: "inv s \<Longrightarrow> opened s = Some u \<Longrightarrow> t \<le> u + cool_down s \<Longrightarrow> \<not> allows t s"
    and stays_open: "inv s \<Longrightarrow> opened s = Some u \<Longrightarrow> t \<le> u + cool_down s \<Longrightarrow>
           opened (step x t s) = Some u \<or> opened (step x t s) = Some t"
begin

definition run_ops :: "('op \<times> instant) list \<Rightarrow> 's \<Rightarrow> 's" where
  "run_ops xs s = fold (\<lambda>(x, t). step x t) xs s"

lemma run_ops_simps [simp]:
  "run_ops [] s = s"
  "run_ops ((x, t) # xs) s = run_ops xs (step x t s)"
  by (simp_all add: run_ops_def)

lemma inv_run_ops: "inv s \<Longrightarrow> inv (run_ops xs s)"
  by (induction xs arbitrary: s) (auto simp: inv_step)

lemma cool_down_run_ops: "cool_down (run_ops xs s) = cool_down s"
  by (induction xs arbitrary: s) (auto simp: cool_down_step)

lemma still_open:
  "inv s \<Longrightarrow> opened s = Some u \<Longrightarrow> u0 \<le> u \<Longrightarrow>
   \<forall>(x, t)\<in>set xs. u0 \<le> t \<and> t \<le> u0 + cool_down s \<Longrightarrow>
   \<exists>u'\<ge>u0. opened (run_ops xs s) = Some u'"
proof (induction xs arbitrary: s u)
  case (Cons p xs)
  obtain x t where p: "p = (x, t)" by (cases p)
  have t: "u0 \<le> t" "t \<le> u0 + cool_down s" using Cons.prems(4) p by auto
  with Cons.prems(3) have "t \<le> u + cool_down s" by simp
  with Cons.prems(1,2) have "opened (step x t s) = Some u \<or> opened (step x t s) = Some t"
    by (rule stays_open)
  then obtain u' where u': "opened (step x t s) = Some u'" "u0 \<le> u'"
    using Cons.prems(3) t(1) by auto
  have "\<forall>(y, v)\<in>set xs. u0 \<le> v \<and> v \<le> u0 + cool_down (step x t s)"
    using Cons.prems(4) by (simp add: cool_down_step)
  with inv_step [OF Cons.prems(1)] u'
  have "\<exists>u''\<ge>u0. opened (run_ops xs (step x t s)) = Some u''"
    by (rule Cons.IH)
  with p show ?case by simp
qed auto

text \<open>The window: from the opening to the end of the timeout every request is refused.\<close>

lemma refuses_throughout:
  assumes "inv s" and "opened s = Some u"
    and "\<forall>(x, t)\<in>set xs. u \<le> t \<and> t \<le> u + cool_down s"
    and "t \<le> u + cool_down s"
  shows "\<not> allows t (run_ops xs s)"
proof -
  obtain u' where u': "opened (run_ops xs s) = Some u'" "u \<le> u'"
    using still_open [OF assms(1,2) order_refl assms(3)] by blast
  then have "t \<le> u' + cool_down (run_ops xs s)"
    using assms(4) by (simp add: cool_down_run_ops)
  with inv_run_ops [OF assms(1)] u'(1) show ?thesis by (rule refuses)
qed

end

end
