(* ===== verification/Worker_Breaker.thy ===== *)
theory Worker_Breaker
  imports Breaker_Contract Job_Queries
begin

text \<open>
  The circuit breaker of the worker, one circuit per job type
  (\<open>internal/features/jobs/worker/circuit_breaker.go\<close>), its table, and what it promises.

  The state of a circuit is the string the code keeps: an entry the code makes itself
  starts from \<open>&circuitState{}\<close>, whose state is the empty string and not \<open>"closed"\<close>.
  \<open>go cb.persistState(\<dots>)\<close> runs later: \<open>wb_pending\<close> lists the job types whose goroutine
  has been started and not yet run, and a goroutine writes the entry as it is then (the
  entries are pointers, and are never replaced after loading).
\<close>

section \<open>State\<close>

record breaker_config =
  bc_failure_threshold :: int
  bc_success_threshold :: int
  bc_timeout :: duration

record circuit =
  ct_state :: string
  ct_failures :: int
  ct_successes :: int
  ct_last_failure :: instant
  ct_last_success :: instant
  ct_opened_at :: instant

record worker_breaker =
  wb_config :: breaker_config
  wb_states :: "string \<rightharpoonup> circuit"
  wb_pending :: "string list"

abbreviation (input) "StateClosed \<equiv> ''closed''"
abbreviation (input) "StateOpen \<equiv> ''open''"
abbreviation (input) "StateHalfOpen \<equiv> ''half-open''"

definition DefaultCircuitBreakerConfig :: breaker_config where
  "DefaultCircuitBreakerConfig =
     \<lparr>bc_failure_threshold = 5, bc_success_threshold = 3, bc_timeout = 30 * second\<rparr>"

definition new_circuit :: circuit where
  "new_circuit =
     \<lparr>ct_state = '''', ct_failures = 0, ct_successes = 0, ct_last_failure = zero_time,
      ct_last_success = zero_time, ct_opened_at = zero_time\<rparr>"

section \<open>Loading\<close>

definition circuit_of_row :: "breaker_row \<Rightarrow> circuit" where
  "circuit_of_row r =
     \<lparr>ct_state = br_state r, ct_failures = br_failure_count r, ct_successes = br_success_count r,
      ct_last_failure = time_of (br_last_failure_at r), ct_last_success = time_of (br_last_success_at r),
      ct_opened_at = time_of (br_opened_at r)\<rparr>"

definition wb_loadStates :: "worker_breaker \<Rightarrow> db \<Rightarrow> worker_breaker \<times> db" where
  "wb_loadStates b s =
     (case ListCircuitBreakerStates s of
        (Inl _, s') \<Rightarrow> (b, s')
      | (Inr rows, s') \<Rightarrow>
          (b\<lparr>wb_states := fold (\<lambda>r m. m(br_job_type r \<mapsto> circuit_of_row r)) rows (wb_states b)\<rparr>, s'))"

definition wb_NewCircuitBreaker :: "breaker_config \<Rightarrow> db \<Rightarrow> worker_breaker \<times> db" where
  "wb_NewCircuitBreaker cfg s =
     (let cfg' = (if bc_failure_threshold cfg = 0 then DefaultCircuitBreakerConfig else cfg)
      in wb_loadStates \<lparr>wb_config = cfg', wb_states = Map.empty, wb_pending = []\<rparr> s)"

section \<open>Operations\<close>

definition wb_Allow :: "instant \<Rightarrow> string \<Rightarrow> worker_breaker \<Rightarrow> bool \<times> worker_breaker" where
  "wb_Allow now ty b =
     (case wb_states b ty of
        None \<Rightarrow> (True, b)
      | Some c \<Rightarrow>
          if ct_state c = StateClosed then (True, b)
          else if ct_state c = StateOpen then
            (if bc_timeout (wb_config b) < time_sub now (ct_opened_at c)
             then (True, b\<lparr>wb_states := (wb_states b)(ty \<mapsto> c\<lparr>ct_state := StateHalfOpen\<rparr>)\<rparr>)
             else (False, b))
          else if ct_state c = StateHalfOpen then (True, b)
          else (True, b))"

definition circuit_of :: "string \<Rightarrow> worker_breaker \<Rightarrow> circuit" where
  "circuit_of ty b = (case wb_states b ty of None \<Rightarrow> new_circuit | Some c \<Rightarrow> c)"

definition wb_RecordSuccess :: "instant \<Rightarrow> string \<Rightarrow> worker_breaker \<Rightarrow> worker_breaker" where
  "wb_RecordSuccess now ty b =
     (let c = (circuit_of ty b)\<lparr>ct_successes := ct_successes (circuit_of ty b) + 1,
                                ct_failures := 0, ct_last_success := now\<rparr>
      in if ct_state c = StateHalfOpen \<and> bc_success_threshold (wb_config b) \<le> ct_successes c
         then b\<lparr>wb_states := (wb_states b)(ty \<mapsto> c\<lparr>ct_state := StateClosed, ct_opened_at := zero_time\<rparr>)\<rparr>
         else if ct_state c = StateClosed
         then b\<lparr>wb_states := (wb_states b)(ty \<mapsto> c), wb_pending := wb_pending b @ [ty]\<rparr>
         else b\<lparr>wb_states := (wb_states b)(ty \<mapsto> c)\<rparr>)"

definition wb_RecordFailure :: "instant \<Rightarrow> string \<Rightarrow> worker_breaker \<Rightarrow> worker_breaker" where
  "wb_RecordFailure now ty b =
     (let c = (circuit_of ty b)\<lparr>ct_failures := ct_failures (circuit_of ty b) + 1,
                                ct_last_failure := now, ct_successes := 0\<rparr>;
          c' = (if bc_failure_threshold (wb_config b) \<le> ct_failures c
                then c\<lparr>ct_state := StateOpen, ct_opened_at := now\<rparr> else c)
      in b\<lparr>wb_states := (wb_states b)(ty \<mapsto> c'), wb_pending := wb_pending b @ [ty]\<rparr>)"

definition wb_persistState :: "string \<Rightarrow> circuit \<Rightarrow> db \<Rightarrow> db" where
  "wb_persistState ty c s =
     ignore_error (UpsertCircuitBreakerState ty (ct_state c) (ct_failures c) (ct_successes c)
       (null_time (ct_last_failure c)) (null_time (ct_last_success c)) (null_time (ct_opened_at c))) s"

text \<open>The \<open>i\<close>th goroutine started and not yet run gets its turn.\<close>

definition wb_run_pending :: "nat \<Rightarrow> worker_breaker \<times> db \<Rightarrow> worker_breaker \<times> db" where
  "wb_run_pending i = (\<lambda>(b, s).
     if i < length (wb_pending b)
     then (b\<lparr>wb_pending := take i (wb_pending b) @ drop (Suc i) (wb_pending b)\<rparr>,
           wb_persistState (wb_pending b ! i) (circuit_of (wb_pending b ! i) b) s)
     else (b, s))"

definition wb_GetState :: "string \<Rightarrow> worker_breaker \<Rightarrow> string" where
  "wb_GetState ty b =
     (case wb_states b ty of Some c \<Rightarrow> ct_state c | None \<Rightarrow> StateClosed)"

definition wb_GetAllStates :: "worker_breaker \<Rightarrow> string \<rightharpoonup> string" where
  "wb_GetAllStates b = (\<lambda>ty. map_option ct_state (wb_states b ty))"

section \<open>One circuit does not affect another\<close>

fun wb_step :: "breaker_op \<times> string \<Rightarrow> instant \<Rightarrow> worker_breaker \<Rightarrow> worker_breaker" where
  "wb_step (OpAllow, ty) now b = snd (wb_Allow now ty b)"
| "wb_step (OpSuccess, ty) now b = wb_RecordSuccess now ty b"
| "wb_step (OpFailure, ty) now b = wb_RecordFailure now ty b"

lemma wb_config_step [simp]:
  "wb_config (snd (wb_Allow now ty b)) = wb_config b"
  "wb_config (wb_RecordSuccess now ty b) = wb_config b"
  "wb_config (wb_RecordFailure now ty b) = wb_config b"
  by (auto simp: wb_Allow_def wb_RecordSuccess_def wb_RecordFailure_def Let_def split: option.split)

lemma wb_other_type [simp]:
  "ty' \<noteq> ty \<Longrightarrow> wb_states (snd (wb_Allow now ty b)) ty' = wb_states b ty'"
  "ty' \<noteq> ty \<Longrightarrow> wb_states (wb_RecordSuccess now ty b) ty' = wb_states b ty'"
  "ty' \<noteq> ty \<Longrightarrow> wb_states (wb_RecordFailure now ty b) ty' = wb_states b ty'"
  by (auto simp: wb_Allow_def wb_RecordSuccess_def wb_RecordFailure_def Let_def split: option.split)

lemma wb_config_wb_step [simp]: "wb_config (wb_step x now b) = wb_config b"
  by (cases "(x, now, b)" rule: wb_step.cases) simp_all

text \<open>The instant at which the circuit of a type opened, if it is open.\<close>

definition wb_opened :: "string \<Rightarrow> worker_breaker \<Rightarrow> instant option" where
  "wb_opened ty b =
     (case wb_states b ty of
        None \<Rightarrow> None
      | Some c \<Rightarrow> if ct_state c = StateOpen then Some (ct_opened_at c) else None)"

lemma wb_opened_iff:
  "wb_opened ty b = Some u \<longleftrightarrow>
     (\<exists>c. wb_states b ty = Some c \<and> ct_state c = StateOpen \<and> ct_opened_at c = u)"
  by (auto simp: wb_opened_def split: option.splits)

definition wb_timeout_ok :: "worker_breaker \<Rightarrow> bool" where
  "wb_timeout_ok b \<longleftrightarrow> 0 \<le> bc_timeout (wb_config b)"

lemma wb_Allow_refuses:
  "wb_timeout_ok b \<Longrightarrow> wb_opened ty b = Some u \<Longrightarrow> t \<le> u + bc_timeout (wb_config b) \<Longrightarrow>
   wb_Allow t ty b = (False, b)"
  using time_sub_within [of "bc_timeout (wb_config b)" t u]
  by (auto simp: wb_Allow_def wb_opened_iff wb_timeout_ok_def)

lemma wb_step_stays_open:
  assumes "wb_timeout_ok b" and "wb_opened ty b = Some u" and "t \<le> u + bc_timeout (wb_config b)"
  shows "wb_opened ty (wb_step x t b) = Some u \<or> wb_opened ty (wb_step x t b) = Some t"
proof -
  obtain c where c: "wb_states b ty = Some c" "ct_state c = StateOpen" "ct_opened_at c = u"
    using assms(2) by (auto simp: wb_opened_iff)
  obtain y ty' where x: "x = (y, ty')" by (cases x)
  show ?thesis
  proof (cases "ty' = ty")
    case False
    with x have "wb_states (wb_step x t b) ty = wb_states b ty" by (cases y) simp_all
    with assms(2) show ?thesis by (simp add: wb_opened_def)
  next
    case True
    show ?thesis
    proof (cases y)
      case OpAllow
      with x True wb_Allow_refuses [OF assms] assms(2) show ?thesis by simp
    next
      case OpSuccess
      with x True c show ?thesis by (simp add: wb_RecordSuccess_def circuit_of_def wb_opened_def)
    next
      case OpFailure
      with x True c show ?thesis
        by (simp add: wb_RecordFailure_def circuit_of_def wb_opened_def Let_def)
    qed
  qed
qed

interpretation worker_circuit: fail_fast wb_timeout_ok wb_step "\<lambda>t b. fst (wb_Allow t ty b)"
  "wb_opened ty" "\<lambda>b. bc_timeout (wb_config b)" for ty :: string
proof
  fix s :: worker_breaker and x t u
  show "wb_timeout_ok s \<Longrightarrow> wb_timeout_ok (wb_step x t s)" by (simp add: wb_timeout_ok_def)
  show "bc_timeout (wb_config (wb_step x t s)) = bc_timeout (wb_config s)" by simp
  assume open_s: "wb_timeout_ok s" "wb_opened ty s = Some u" "t \<le> u + bc_timeout (wb_config s)"
  then show "\<not> fst (wb_Allow t ty s)" by (simp add: wb_Allow_refuses)
  from open_s show "wb_opened ty (wb_step x t s) = Some u \<or> wb_opened ty (wb_step x t s) = Some t"
    by (rule wb_step_stays_open)
qed

text \<open>while the circuit of a job type is open and its timeout has not passed, every request for
  that type is refused, whatever requests, successes and failures of any job types come in between;
  and no operation on another type changes the circuit.\<close>

theorem worker_breaker_fails_fast:
  assumes "0 \<le> bc_timeout (wb_config b)"
    and "wb_states b ty = Some c" and "ct_state c = ''open''"
    and "\<forall>(x, t)\<in>set xs. ct_opened_at c \<le> t \<and> t \<le> ct_opened_at c + bc_timeout (wb_config b)"
    and "now \<le> ct_opened_at c + bc_timeout (wb_config b)"
  shows "\<not> fst (wb_Allow now ty (fold (\<lambda>(x, t). wb_step x t) xs b))"
proof -
  have "wb_opened ty b = Some (ct_opened_at c)" using assms(2,3) by (simp add: wb_opened_def)
  from worker_circuit.refuses_throughout [of b ty, OF _ this assms(4,5)] assms(1)
  show ?thesis by (simp add: wb_timeout_ok_def worker_circuit.run_ops_def)
qed

section \<open>Opening and closing\<close>

lemma failures_count:
  assumes "wb_states b ty = Some c"
  shows "\<exists>c'. wb_states (fold (\<lambda>t. wb_RecordFailure t ty) ts b) ty = Some c' \<and>
    ct_failures c' = ct_failures c + int (length ts) \<and>
    (ct_state c' = StateOpen \<longleftrightarrow> ct_state c = StateOpen \<or>
       ts \<noteq> [] \<and> bc_failure_threshold (wb_config b) \<le> ct_failures c + int (length ts))"
  using assms
proof (induction ts arbitrary: b c)
  case (Cons t ts)
  let ?b = "wb_RecordFailure t ty b"
  obtain c1 where c1: "wb_states ?b ty = Some c1" "ct_failures c1 = ct_failures c + 1"
    "ct_state c1 = StateOpen \<longleftrightarrow>
       ct_state c = StateOpen \<or> bc_failure_threshold (wb_config b) \<le> ct_failures c + 1"
    using Cons.prems by (auto simp: wb_RecordFailure_def circuit_of_def Let_def)
  from Cons.IH [OF c1(1)] c1(2,3) show ?case by auto
qed auto

lemma success_entry:
  assumes "ct_state (circuit_of ty b) \<noteq> StateOpen"
  shows "\<exists>c. wb_states (wb_RecordSuccess now ty b) ty = Some c \<and> ct_failures c = 0 \<and>
           ct_state c \<noteq> StateOpen"
  using assms by (simp add: wb_RecordSuccess_def Let_def)

text \<open>after a success, the circuit of a job type that is not open opens exactly when as many
  failures as the threshold follow without another success, whether it was closed, fresh or
  half-open: a half-open circuit that has seen one success tolerates failures like a closed one.\<close>

theorem worker_breaker_opens_iff:
  assumes "1 \<le> bc_failure_threshold (wb_config b)" and "wb_GetState ty b \<noteq> ''open''"
  shows "wb_GetState ty (fold (\<lambda>t. wb_RecordFailure t ty) ts (wb_RecordSuccess now ty b)) = ''open''
    \<longleftrightarrow> bc_failure_threshold (wb_config b) \<le> int (length ts)"
proof -
  let ?b = "wb_RecordSuccess now ty b"
  have "ct_state (circuit_of ty b) \<noteq> StateOpen"
    using assms(2) by (auto simp: circuit_of_def wb_GetState_def new_circuit_def split: option.splits)
  from success_entry [OF this] obtain c where
    c: "wb_states ?b ty = Some c" "ct_failures c = 0" "ct_state c \<noteq> StateOpen" by blast
  from failures_count [OF c(1), of ts] c(2,3) assms(1) show ?thesis
    by (auto simp: wb_GetState_def)
qed

text \<open>What successes do to a half-open circuit.\<close>

lemma successes_half_open:
  assumes "wb_states b ty = Some c" and "ct_state c = StateHalfOpen"
    and "ct_successes c < bc_success_threshold (wb_config b)"
  shows "wb_GetState ty (fold (\<lambda>t. wb_RecordSuccess t ty) ts b) =
    (if bc_success_threshold (wb_config b) \<le> ct_successes c + int (length ts)
     then StateClosed else StateHalfOpen)"
  using assms
proof (induction ts arbitrary: b c)
  case Nil
  then show ?case by (simp add: wb_GetState_def)
next
  case (Cons t ts)
  let ?b = "wb_RecordSuccess t ty b"
  show ?case
  proof (cases "bc_success_threshold (wb_config b) \<le> ct_successes c + 1")
    case False
    have "wb_states ?b ty = Some (c\<lparr>ct_successes := ct_successes c + 1, ct_failures := 0, ct_last_success := t\<rparr>)"
      using Cons.prems False by (simp add: wb_RecordSuccess_def circuit_of_def)
    from Cons.IH [OF this] Cons.prems False show ?thesis by auto
  next
    case True
    have closed: "wb_GetState ty (fold (\<lambda>t. wb_RecordSuccess t ty) ts b') = StateClosed"
      if "wb_GetState ty b' = StateClosed" "wb_states b' ty \<noteq> None" for ts b'
      using that
      by (induction ts arbitrary: b')
        (auto simp: wb_GetState_def wb_RecordSuccess_def circuit_of_def Let_def split: option.splits)
    have "wb_GetState ty ?b = StateClosed" "wb_states ?b ty \<noteq> None"
      using Cons.prems True by (auto simp: wb_RecordSuccess_def circuit_of_def wb_GetState_def)
    from closed [OF this, of ts] True show ?thesis by auto
  qed
qed

text \<open>an open circuit recovers: once the timeout has passed the next request is admitted and
  makes it half-open, and from then on it closes exactly when the successes since it opened reach
  the threshold, if no failure comes.\<close>

theorem worker_breaker_recovers:
  assumes "wb_states b ty = Some c" and "ct_state c = ''open''" and "ct_successes c = 0"
    and "ct_opened_at c + bc_timeout (wb_config b) < now" and "bc_timeout (wb_config b) < max_duration"
    and "1 \<le> bc_success_threshold (wb_config b)"
  shows "fst (wb_Allow now ty b) \<and>
    wb_GetState ty (fold (\<lambda>t. wb_RecordSuccess t ty) ts (snd (wb_Allow now ty b))) =
      (if bc_success_threshold (wb_config b) \<le> int (length ts) then ''closed'' else ''half-open'')"
proof -
  let ?b = "snd (wb_Allow now ty b)"
  have "wb_Allow now ty b =
      (True, b\<lparr>wb_states := (wb_states b)(ty \<mapsto> c\<lparr>ct_state := StateHalfOpen\<rparr>)\<rparr>)"
    using assms(1,2) time_sub_beyond [OF assms(5,4)] by (simp add: wb_Allow_def)
  then have admitted: "fst (wb_Allow now ty b)"
    and half: "wb_states ?b ty = Some (c\<lparr>ct_state := StateHalfOpen\<rparr>)" by simp_all
  from successes_half_open [OF half, of ts] admitted assms(3,6) show ?thesis by simp
qed

section \<open>Persistence\<close>

lemma time_of_null [simp]: "time_of (null_time t) = t"
  by (simp add: null_time_def time_of_def)

lemma wb_NewCircuitBreaker_entry:
  assumes "keyed br_job_type (t_breakers s)" and "faults s = []" and "r \<in> set (t_breakers s)"
  shows "wb_states (fst (wb_NewCircuitBreaker cfg s)) (br_job_type r) = Some (circuit_of_row r)"
  using keyed_fold_upd [OF keyed_sort_key [OF assms(1), of br_job_type], of r] assms(2,3)
  by (simp add: wb_NewCircuitBreaker_def wb_loadStates_def ListCircuitBreakerStates_def
      run_no_faults Let_def)

text \<open>a circuit that its goroutine has written comes back unchanged after a restart: loading the
  table into a new breaker gives the same state, counters and times.\<close>

theorem breaker_survives_restart:
  assumes "keyed br_job_type (t_breakers s)" and "faults s = []"
    and "wb_states b ty = Some c" and "i < length (wb_pending b)" and "wb_pending b ! i = ty"
  shows "wb_states (fst (wb_NewCircuitBreaker cfg (snd (wb_run_pending i (b, s))))) ty = Some c"
proof -
  define row where "row = \<lparr>br_job_type = ty, br_state = ct_state c, br_failure_count = ct_failures c,
    br_success_count = ct_successes c, br_last_failure_at = null_time (ct_last_failure c),
    br_last_success_at = null_time (ct_last_success c), br_opened_at = null_time (ct_opened_at c),
    br_updated_at = Some (clock s)\<rparr>"
  let ?s = "snd (wb_run_pending i (b, s))"
  have s': "?s = (if ty \<in> br_job_type ` set (t_breakers s)
      then s\<lparr>t_breakers := update_where (\<lambda>b. br_job_type b = ty) (\<lambda>_. row) (t_breakers s)\<rparr>
      else s\<lparr>t_breakers := t_breakers s @ [row]\<rparr>)"
    using assms by (simp add: wb_run_pending_def wb_persistState_def circuit_of_def
        UpsertCircuitBreakerState_def run_no_faults row_def Let_def)
  have "row \<in> set (t_breakers ?s)"
    unfolding s' by (auto simp: set_update_where)
  moreover have "keyed br_job_type (t_breakers ?s)"
    unfolding s' using assms(1)
    by (auto intro!: keyed_update_where keyed_append_fresh simp: row_def)
  moreover have "faults ?s = []" unfolding s' using assms(2) by simp
  ultimately have "wb_states (fst (wb_NewCircuitBreaker cfg ?s)) (br_job_type row) =
      Some (circuit_of_row row)" by (intro wb_NewCircuitBreaker_entry)
  then show ?thesis by (simp add: circuit_of_row_def row_def)
qed

text \<open>
  Closing is not written: the success that closes a half-open circuit starts no goroutine,
  so until the next success the table still says what the last failure wrote, and a restart
  brings that state back.
\<close>

theorem closing_not_persisted:
  assumes "wb_states b ty = Some c" and "ct_state c = ''half-open''"
    and "bc_success_threshold (wb_config b) \<le> ct_successes c + 1"
  shows "wb_GetState ty (wb_RecordSuccess now ty b) = ''closed'' \<and>
    wb_pending (wb_RecordSuccess now ty b) = wb_pending b"
  using assms by (simp add: wb_RecordSuccess_def circuit_of_def wb_GetState_def)

text \<open>
  A type without a row starts from the empty state, which no success turns into
  \<open>"closed"\<close>: it is reported as empty and its successes are never written.
\<close>

theorem fresh_circuit_never_closed:
  assumes "wb_states b ty = None"
  shows "wb_GetState ty (fold (\<lambda>t. wb_RecordSuccess t ty) (t # ts) b) = '''' \<and>
    wb_pending (fold (\<lambda>t. wb_RecordSuccess t ty) (t # ts) b) = wb_pending b"
proof -
  have step: "ct_state (circuit_of ty (wb_RecordSuccess t ty b)) = '''' \<and>
      wb_states (wb_RecordSuccess t ty b) ty \<noteq> None \<and>
      wb_pending (wb_RecordSuccess t ty b) = wb_pending b"
    if "ct_state (circuit_of ty b) = ''''" for t b
    using that by (simp add: wb_RecordSuccess_def circuit_of_def)
  have "ct_state (circuit_of ty (fold (\<lambda>t. wb_RecordSuccess t ty) ts b)) = '''' \<and>
      wb_states (fold (\<lambda>t. wb_RecordSuccess t ty) ts b) ty \<noteq> None \<and>
      wb_pending (fold (\<lambda>t. wb_RecordSuccess t ty) ts b) = wb_pending b"
    if "ct_state (circuit_of ty b) = ''''" "wb_states b ty \<noteq> None" for ts b
    using that
  proof (induction ts arbitrary: b)
    case (Cons t ts)
    with step [of b t] show ?case by simp
  qed simp
  from this [of "wb_RecordSuccess t ty b" ts] step [of b t] assms show ?thesis
    by (auto simp: circuit_of_def wb_GetState_def new_circuit_def split: option.splits)
qed

section \<open>The properties at a concrete breaker\<close>

definition open_breaker :: worker_breaker where
  "open_breaker = fold (\<lambda>t. wb_RecordFailure t ''process_ai'') [1, 2, 3, 4, 5]
     \<lparr>wb_config = DefaultCircuitBreakerConfig, wb_states = Map.empty, wb_pending = []\<rparr>"

definition open_circuit :: circuit where
  "open_circuit = \<lparr>ct_state = ''open'', ct_failures = 5, ct_successes = 0, ct_last_failure = 5,
     ct_last_success = zero_time, ct_opened_at = 5\<rparr>"

lemma open_breaker_entry:
  "wb_states open_breaker ''process_ai'' = Some open_circuit"
  "wb_config open_breaker = DefaultCircuitBreakerConfig"
  "wb_pending open_breaker = replicate 5 ''process_ai''"
  by (simp_all add: open_breaker_def open_circuit_def wb_RecordFailure_def circuit_of_def
      new_circuit_def DefaultCircuitBreakerConfig_def eval_nat_numeral)

theorem worker_breaker_fails_fast_witness:
  "\<not> fst (wb_Allow 20 ''process_ai''
     (fold (\<lambda>(x, t). wb_step x t) [((OpSuccess, ''process_ai''), 6), ((OpAllow, ''process_ai''), 7)] open_breaker))"
  by (rule worker_breaker_fails_fast [OF _ open_breaker_entry(1)])
    (simp_all add: open_breaker_entry open_circuit_def DefaultCircuitBreakerConfig_def time_units)

theorem worker_breaker_opens_iff_witness:
  "wb_GetState ''send_email'' (fold (\<lambda>t. wb_RecordFailure t ''send_email'') [11, 12, 13, 14, 15]
     (wb_RecordSuccess 10 ''send_email'' open_breaker)) = ''open''"
  by (subst worker_breaker_opens_iff)
    (simp_all add: open_breaker_entry DefaultCircuitBreakerConfig_def wb_GetState_def,
      simp add: open_breaker_def wb_RecordFailure_def Let_def)

theorem worker_breaker_recovers_witness:
  "fst (wb_Allow 40000000000 ''process_ai'' open_breaker) \<and>
   wb_GetState ''process_ai'' (fold (\<lambda>t. wb_RecordSuccess t ''process_ai'') [41, 42, 43]
     (snd (wb_Allow 40000000000 ''process_ai'' open_breaker))) = ''closed''"
  using worker_breaker_recovers [OF open_breaker_entry(1), of 40000000000 "[41, 42, 43]"]
  by (simp add: open_breaker_entry open_circuit_def DefaultCircuitBreakerConfig_def time_units
      max_duration_def)

theorem breaker_survives_restart_witness:
  "wb_states (fst (wb_NewCircuitBreaker DefaultCircuitBreakerConfig
     (snd (wb_run_pending 0 (open_breaker, migrated_db 9))))) ''process_ai'' = Some open_circuit"
  by (rule breaker_survives_restart [OF _ _ open_breaker_entry(1)])
    (simp_all add: open_breaker_entry migrated_db_def keyed_def seed_breaker_def)

end
