(* ===== verification/Http_Client.thy ===== *)
theory Http_Client
  imports Breaker_Contract
begin

text \<open>
  The HTTP client of \<open>internal/platform/httpclient\<close>: its circuit breaker
  (\<open>circuitbreaker.go\<close>), the retry loops (\<open>retry.go\<close>) and the client that combines them
  (\<open>client.go\<close>).

  What lies outside the program is a record of functions on a world \<open>'w\<close>: reading the
  clock, sending a request, waiting until a timer or the context fires, and
  \<open>rand.Float64\<close>. The breaker is the only state the client keeps.
\<close>

section \<open>The circuit breaker\<close>

datatype http_circuit_state = StClosed | StOpen | StHalfOpen

fun http_circuit_state_String :: "http_circuit_state \<Rightarrow> string" where
  "http_circuit_state_String StClosed = ''closed''"
| "http_circuit_state_String StOpen = ''open''"
| "http_circuit_state_String StHalfOpen = ''half-open''"

record http_breaker_config =
  hc_max_failures :: int
  hc_timeout :: duration
  hc_half_open_max_requests :: int
  hc_success_threshold :: int

definition http_DefaultCircuitBreakerConfig :: http_breaker_config where
  "http_DefaultCircuitBreakerConfig =
     \<lparr>hc_max_failures = 5, hc_timeout = 30 * second, hc_half_open_max_requests = 3,
      hc_success_threshold = 2\<rparr>"

record http_breaker =
  hb_state :: http_circuit_state
  hb_failures :: int
  hb_successes :: int
  hb_last_failure :: instant
  hb_half_open_reqs :: int
  hb_success_threshold :: int
  hb_config :: http_breaker_config
  hb_name :: string

text \<open>The zero \<open>time.Time\<close> of \<open>lastFailure\<close> is never compared before a failure sets it.\<close>

definition hb_NewCircuitBreaker :: "string \<Rightarrow> http_breaker_config \<Rightarrow> http_breaker" where
  "hb_NewCircuitBreaker name cfg =
     \<lparr>hb_state = StClosed, hb_failures = 0, hb_successes = 0,
      hb_last_failure = - 62135596800 * second, hb_half_open_reqs = 0,
      hb_success_threshold = hc_success_threshold cfg, hb_config = cfg, hb_name = name\<rparr>"

definition hb_Allow :: "instant \<Rightarrow> http_breaker \<Rightarrow> bool \<times> http_breaker" where
  "hb_Allow now b =
     (case hb_state b of
        StClosed \<Rightarrow> (True, b)
      | StOpen \<Rightarrow>
          if hc_timeout (hb_config b) < time_sub now (hb_last_failure b)
          then (True, b\<lparr>hb_state := StHalfOpen, hb_half_open_reqs := 0, hb_successes := 0\<rparr>)
          else (False, b)
      | StHalfOpen \<Rightarrow>
          if hb_half_open_reqs b < hc_half_open_max_requests (hb_config b)
          then (True, b\<lparr>hb_half_open_reqs := hb_half_open_reqs b + 1\<rparr>)
          else (False, b))"

definition hb_RecordSuccess :: "http_breaker \<Rightarrow> http_breaker" where
  "hb_RecordSuccess b =
     (case hb_state b of
        StHalfOpen \<Rightarrow>
          if hb_success_threshold b \<le> hb_successes b + 1
          then b\<lparr>hb_state := StClosed, hb_failures := 0, hb_successes := 0, hb_half_open_reqs := 0\<rparr>
          else b\<lparr>hb_successes := hb_successes b + 1\<rparr>
      | StClosed \<Rightarrow> b\<lparr>hb_failures := 0\<rparr>
      | StOpen \<Rightarrow> b)"

definition hb_RecordFailure :: "instant \<Rightarrow> http_breaker \<Rightarrow> http_breaker" where
  "hb_RecordFailure now b =
     (let b' = b\<lparr>hb_failures := hb_failures b + 1, hb_last_failure := now\<rparr> in
      case hb_state b of
        StClosed \<Rightarrow> if hc_max_failures (hb_config b) \<le> hb_failures b' then b'\<lparr>hb_state := StOpen\<rparr> else b'
      | StHalfOpen \<Rightarrow> b'\<lparr>hb_state := StOpen, hb_half_open_reqs := 0, hb_successes := 0\<rparr>
      | StOpen \<Rightarrow> b')"

definition hb_State :: "http_breaker \<Rightarrow> http_circuit_state" where
  "hb_State b = hb_state b"

record http_breaker_stats =
  hs_state :: string
  hs_failures :: int
  hs_successes :: int
  hs_half_open_reqs :: int
  hs_last_failure :: instant
  hs_max_failures :: int
  hs_timeout :: duration

text \<open>\<open>timeout_seconds\<close> is a \<open>float64\<close>; the duration it is computed from is kept.\<close>

definition hb_Stats :: "http_breaker \<Rightarrow> http_breaker_stats" where
  "hb_Stats b =
     \<lparr>hs_state = http_circuit_state_String (hb_state b), hs_failures = hb_failures b,
      hs_successes = hb_successes b, hs_half_open_reqs = hb_half_open_reqs b,
      hs_last_failure = hb_last_failure b, hs_max_failures = hc_max_failures (hb_config b),
      hs_timeout = hc_timeout (hb_config b)\<rparr>"

text \<open>
  \<open>Execute\<close>: the function runs outside the lock, so it acts on the breaker and the world
  (it may use the breaker itself). \<open>now\<close> reads the clock of the world.
\<close>

datatype 'e exec_error = ErrCircuitOpen | FnError 'e

definition hb_Execute ::
  "('w \<Rightarrow> instant) \<Rightarrow> (http_breaker \<times> 'w \<Rightarrow> 'e option \<times> http_breaker \<times> 'w)
   \<Rightarrow> http_breaker \<times> 'w \<Rightarrow> 'e exec_error option \<times> http_breaker \<times> 'w" where
  "hb_Execute now fn = (\<lambda>(b, w).
     case hb_Allow (now w) b of
       (False, b1) \<Rightarrow> (Some ErrCircuitOpen, b1, w)
     | (True, b1) \<Rightarrow>
         (case fn (b1, w) of
            (Some e, b2, w2) \<Rightarrow> (Some (FnError e), hb_RecordFailure (now w2) b2, w2)
          | (None, b2, w2) \<Rightarrow> (None, hb_RecordSuccess b2, w2)))"

definition hb_ExecuteWithFallback ::
  "('w \<Rightarrow> instant) \<Rightarrow> (http_breaker \<times> 'w \<Rightarrow> 'e option \<times> http_breaker \<times> 'w)
   \<Rightarrow> (http_breaker \<times> 'w \<Rightarrow> 'e option \<times> http_breaker \<times> 'w) option
   \<Rightarrow> http_breaker \<times> 'w \<Rightarrow> 'e exec_error option \<times> http_breaker \<times> 'w" where
  "hb_ExecuteWithFallback now fn fallback = (\<lambda>(b, w).
     case hb_Allow (now w) b of
       (False, b1) \<Rightarrow>
         (case fallback of
            None \<Rightarrow> (Some ErrCircuitOpen, b1, w)
          | Some f \<Rightarrow> (case f (b1, w) of (e, bw) \<Rightarrow> (map_option FnError e, bw)))
     | (True, b1) \<Rightarrow>
         (case fn (b1, w) of
            (Some e, b2, w2) \<Rightarrow> (Some (FnError e), hb_RecordFailure (now w2) b2, w2)
          | (None, b2, w2) \<Rightarrow> (None, hb_RecordSuccess b2, w2)))"

section \<open>Retries\<close>

record retry_config =
  rc_max_retries :: int
  rc_initial_backoff :: duration
  rc_max_backoff :: duration
  rc_multiplier :: rat
  rc_jitter :: rat

definition DefaultRetryConfig :: retry_config where
  "DefaultRetryConfig =
     \<lparr>rc_max_retries = 3, rc_initial_backoff = 100 * millisecond, rc_max_backoff = 10 * second,
      rc_multiplier = 2, rc_jitter = 1 / 10\<rparr>"

record 'w transport =
  tr_now :: "'w \<Rightarrow> instant"
  tr_wait :: "duration \<Rightarrow> 'w \<Rightarrow> string option \<times> 'w"
  tr_rand :: "'w \<Rightarrow> rat \<times> 'w"

text \<open>
  The backoff, computed exactly where the code computes in \<open>float64\<close>; \<open>u\<close> is what
  \<open>rand.Float64\<close> returned, and is drawn only when there is jitter. The conversion to
  \<open>time.Duration\<close> truncates towards zero.
\<close>

definition truncate_rat :: "rat \<Rightarrow> int" where
  "truncate_rat q = (if 0 \<le> q then \<lfloor>q\<rfloor> else \<lceil>q\<rceil>)"

definition backoff_base :: "nat \<Rightarrow> retry_config \<Rightarrow> rat" where
  "backoff_base attempt cfg =
     min (of_int (rc_initial_backoff cfg) * rc_multiplier cfg ^ attempt) (of_int (rc_max_backoff cfg))"

definition calculateBackoff :: "'w transport \<Rightarrow> nat \<Rightarrow> retry_config \<Rightarrow> 'w \<Rightarrow> duration \<times> 'w" where
  "calculateBackoff tr attempt cfg w =
     (let b = backoff_base attempt cfg in
      if 0 < rc_jitter cfg
      then (case tr_rand tr w of
              (u, w') \<Rightarrow> (truncate_rat (b + (u * 2 * (b * rc_jitter cfg) - b * rc_jitter cfg)), w'))
      else (truncate_rat b, w))"

text \<open>
  An error of the function, with \<open>retryable\<close> telling whether \<open>errors.As\<close> finds a
  \<open>RetryableError\<close> in it, and the errors the loop makes itself.
\<close>

datatype 'e retry_error = FnErr 'e | RetryCancelled string

definition attempts_of :: "int \<Rightarrow> nat" where
  "attempts_of max_retries = nat (max_retries + 1)"

text \<open>
  The loop \<open>for attempt := 0; attempt <= MaxRetries; attempt++\<close>: the first argument is the
  number of rounds left. With a negative \<open>MaxRetries\<close> the body never runs, and \<open>Retry\<close>
  returns a nil error, \<open>RetryWithResult\<close> the zero value and a nil error.
\<close>

primrec retry_loop ::
  "nat \<Rightarrow> 'w transport \<Rightarrow> retry_config \<Rightarrow> ('e \<Rightarrow> bool) \<Rightarrow> ('w \<Rightarrow> 'e option \<times> 'w) \<Rightarrow> nat \<Rightarrow> 'w
   \<Rightarrow> 'e retry_error option \<times> 'w" where
  "retry_loop 0 tr cfg retryable fn attempt w = (None, w)"
| "retry_loop (Suc n) tr cfg retryable fn attempt w =
     (case fn w of
        (None, w1) \<Rightarrow> (None, w1)
      | (Some e, w1) \<Rightarrow>
          if \<not> retryable e \<and> int attempt < rc_max_retries cfg then (Some (FnErr e), w1)
          else if int attempt = rc_max_retries cfg then (Some (FnErr e), w1)
          else (case calculateBackoff tr attempt cfg w1 of
                  (d, w2) \<Rightarrow>
                    (case tr_wait tr d w2 of
                       (Some c, w3) \<Rightarrow> (Some (RetryCancelled c), w3)
                     | (None, w3) \<Rightarrow> retry_loop n tr cfg retryable fn (Suc attempt) w3)))"

definition Retry ::
  "'w transport \<Rightarrow> retry_config \<Rightarrow> ('e \<Rightarrow> bool) \<Rightarrow> ('w \<Rightarrow> 'e option \<times> 'w) \<Rightarrow> 'w
   \<Rightarrow> 'e retry_error option \<times> 'w" where
  "Retry tr cfg retryable fn w =
     retry_loop (attempts_of (rc_max_retries cfg)) tr cfg retryable fn 0 w"

primrec retry_result_loop ::
  "nat \<Rightarrow> 'w transport \<Rightarrow> retry_config \<Rightarrow> ('e \<Rightarrow> bool) \<Rightarrow> 'a \<Rightarrow> ('w \<Rightarrow> ('e + 'a) \<times> 'w) \<Rightarrow> nat \<Rightarrow> 'w
   \<Rightarrow> ('a \<times> 'e retry_error option) \<times> 'w" where
  "retry_result_loop 0 tr cfg retryable zero fn attempt w = ((zero, None), w)"
| "retry_result_loop (Suc n) tr cfg retryable zero fn attempt w =
     (case fn w of
        (Inr v, w1) \<Rightarrow> ((v, None), w1)
      | (Inl e, w1) \<Rightarrow>
          if \<not> retryable e \<and> int attempt < rc_max_retries cfg then ((zero, Some (FnErr e)), w1)
          else if int attempt = rc_max_retries cfg then ((zero, Some (FnErr e)), w1)
          else (case calculateBackoff tr attempt cfg w1 of
                  (d, w2) \<Rightarrow>
                    (case tr_wait tr d w2 of
                       (Some c, w3) \<Rightarrow> ((zero, Some (RetryCancelled c)), w3)
                     | (None, w3) \<Rightarrow> retry_result_loop n tr cfg retryable zero fn (Suc attempt) w3)))"

definition RetryWithResult ::
  "'w transport \<Rightarrow> retry_config \<Rightarrow> ('e \<Rightarrow> bool) \<Rightarrow> 'a \<Rightarrow> ('w \<Rightarrow> ('e + 'a) \<times> 'w) \<Rightarrow> 'w
   \<Rightarrow> ('a \<times> 'e retry_error option) \<times> 'w" where
  "RetryWithResult tr cfg retryable zero fn w =
     retry_result_loop (attempts_of (rc_max_retries cfg)) tr cfg retryable zero fn 0 w"

section \<open>The client\<close>

record http_response =
  rs_status :: int
  rs_body :: string

record http_request =
  rq_method :: string
  rq_url :: string
  rq_content_type :: "string option"
  rq_body :: string

text \<open>\<open>http.Client.Do\<close> on the world, and \<open>http.NewRequestWithContext\<close>'s check of the URL.\<close>

record 'w http_transport = "'w transport" +
  tr_send :: "http_request \<Rightarrow> 'w \<Rightarrow> (string + http_response) \<times> 'w"
  tr_url_error :: "string \<Rightarrow> string option"

datatype attempt_error = NetworkError string | RetryableStatus int

datatype client_error =
    BreakerOpen string
  | RequestCancelled string
  | MaxRetriesExceeded string "attempt_error option"
  | AttemptError attempt_error
  | BadRequest string
  | BadStatus int

record http_client =
  cl_breaker :: http_breaker
  cl_retry :: retry_config
  cl_name :: string

definition NewClient :: "string \<Rightarrow> http_breaker_config \<Rightarrow> retry_config \<Rightarrow> http_client" where
  "NewClient name breaker retry =
     \<lparr>cl_breaker = hb_NewCircuitBreaker name breaker, cl_retry = retry, cl_name = name\<rparr>"

definition isRetryableError :: "string \<Rightarrow> bool" where
  "isRetryableError e = True"

definition retryable_status :: "int \<Rightarrow> bool" where
  "retryable_status n \<longleftrightarrow> n \<ge> 500 \<or> n = 429"

text \<open>
  The loop of \<open>DoWithContext\<close>: rounds left, the attempt and \<open>lastErr\<close>. After a failed
  attempt that is not the last one the code waits for the backoff or the context; after the
  last one the loop ends.
\<close>

primrec do_loop ::
  "nat \<Rightarrow> 'w http_transport \<Rightarrow> http_request \<Rightarrow> nat \<Rightarrow> attempt_error option \<Rightarrow> http_client \<times> 'w
   \<Rightarrow> (client_error + http_response) \<times> http_client \<times> 'w" where
  "do_loop 0 tr req attempt lastErr cw =
     (Inl (MaxRetriesExceeded (cl_name (fst cw)) lastErr), cw)"
| "do_loop (Suc n) tr req attempt lastErr cw =
     (case cw of (c, w) \<Rightarrow>
      case hb_Allow (tr_now tr w) (cl_breaker c) of
        (False, b) \<Rightarrow> (Inl (BreakerOpen (cl_name c)), c\<lparr>cl_breaker := b\<rparr>, w)
      | (True, b) \<Rightarrow>
          (case tr_send tr req w of
             (Inr resp, w1) \<Rightarrow>
               if retryable_status (rs_status resp) then
                 (let c1 = c\<lparr>cl_breaker := hb_RecordFailure (tr_now tr w1) b\<rparr>;
                      err = RetryableStatus (rs_status resp) in
                  if int attempt < rc_max_retries (cl_retry c) then
                    (case calculateBackoff (transport.truncate tr) attempt (cl_retry c) w1 of
                       (d, w2) \<Rightarrow>
                         (case tr_wait tr d w2 of
                            (Some e, w3) \<Rightarrow> (Inl (RequestCancelled e), c1, w3)
                          | (None, w3) \<Rightarrow> do_loop n tr req (Suc attempt) (Some err) (c1, w3)))
                  else do_loop n tr req (Suc attempt) (Some err) (c1, w1))
               else (Inr resp, c\<lparr>cl_breaker := hb_RecordSuccess b\<rparr>, w1)
           | (Inl e, w1) \<Rightarrow>
               (let c1 = c\<lparr>cl_breaker := hb_RecordFailure (tr_now tr w1) b\<rparr>;
                    err = NetworkError e in
                if \<not> isRetryableError e then (Inl (AttemptError err), c1, w1)
                else if int attempt < rc_max_retries (cl_retry c) then
                  (case calculateBackoff (transport.truncate tr) attempt (cl_retry c) w1 of
                     (d, w2) \<Rightarrow>
                       (case tr_wait tr d w2 of
                          (Some e', w3) \<Rightarrow> (Inl (RequestCancelled e'), c1, w3)
                        | (None, w3) \<Rightarrow> do_loop n tr req (Suc attempt) (Some err) (c1, w3)))
                else do_loop n tr req (Suc attempt) (Some err) (c1, w1))))"

definition DoWithContext ::
  "'w http_transport \<Rightarrow> http_request \<Rightarrow> http_client \<times> 'w
   \<Rightarrow> (client_error + http_response) \<times> http_client \<times> 'w" where
  "DoWithContext tr req cw =
     do_loop (attempts_of (rc_max_retries (cl_retry (fst cw)))) tr req 0 None cw"

definition http_Get ::
  "'w http_transport \<Rightarrow> string \<Rightarrow> http_client \<times> 'w \<Rightarrow> (client_error + http_response) \<times> http_client \<times> 'w" where
  "http_Get tr url cw =
     (case tr_url_error tr url of
        Some e \<Rightarrow> (Inl (BadRequest e), cw)
      | None \<Rightarrow> DoWithContext tr
          \<lparr>rq_method = ''GET'', rq_url = url, rq_content_type = None, rq_body = ''''\<rparr> cw)"

definition http_Post ::
  "'w http_transport \<Rightarrow> string \<Rightarrow> string \<Rightarrow> string \<Rightarrow> http_client \<times> 'w
   \<Rightarrow> (client_error + http_response) \<times> http_client \<times> 'w" where
  "http_Post tr url content_type body cw =
     (case tr_url_error tr url of
        Some e \<Rightarrow> (Inl (BadRequest e), cw)
      | None \<Rightarrow> DoWithContext tr
          \<lparr>rq_method = ''POST'', rq_url = url, rq_content_type = Some content_type, rq_body = body\<rparr> cw)"

definition http_GetWithResult ::
  "'w http_transport \<Rightarrow> string \<Rightarrow> http_client \<times> 'w \<Rightarrow> (client_error + unit) \<times> http_client \<times> 'w" where
  "http_GetWithResult tr url cw =
     (case http_Get tr url cw of
        (Inl e, cw') \<Rightarrow> (Inl e, cw')
      | (Inr resp, cw') \<Rightarrow>
          if 300 \<le> rs_status resp then (Inl (BadStatus (rs_status resp)), cw') else (Inr (), cw'))"

definition client_State :: "http_client \<Rightarrow> http_circuit_state" where
  "client_State c = hb_State (cl_breaker c)"

definition client_Stats :: "http_client \<Rightarrow> http_breaker_stats" where
  "client_Stats c = hb_Stats (cl_breaker c)"

section \<open>The breaker refuses while it is open\<close>

fun hb_step :: "breaker_op \<Rightarrow> instant \<Rightarrow> http_breaker \<Rightarrow> http_breaker" where
  "hb_step OpAllow now b = snd (hb_Allow now b)"
| "hb_step OpSuccess now b = hb_RecordSuccess b"
| "hb_step OpFailure now b = hb_RecordFailure now b"

definition hb_opened :: "http_breaker \<Rightarrow> instant option" where
  "hb_opened b = (if hb_state b = StOpen then Some (hb_last_failure b) else None)"

definition hb_timeout_ok :: "http_breaker \<Rightarrow> bool" where
  "hb_timeout_ok b \<longleftrightarrow> 0 \<le> hc_timeout (hb_config b)"

lemmas hb_op_defs = hb_Allow_def hb_RecordSuccess_def hb_RecordFailure_def

lemma hb_config_step [simp]: "hb_config (hb_step x t b) = hb_config b"
  by (cases x) (auto simp: hb_op_defs Let_def split: http_circuit_state.splits)

lemma hb_Allow_refuses:
  "hb_timeout_ok b \<Longrightarrow> hb_opened b = Some u \<Longrightarrow> t \<le> u + hc_timeout (hb_config b) \<Longrightarrow>
   hb_Allow t b = (False, b)"
  using time_sub_within [of "hc_timeout (hb_config b)" t u]
  by (auto simp: hb_Allow_def hb_opened_def hb_timeout_ok_def split: if_splits)

interpretation http_circuit: fail_fast hb_timeout_ok hb_step "\<lambda>t b. fst (hb_Allow t b)"
  hb_opened "\<lambda>b. hc_timeout (hb_config b)"
proof
  fix s :: http_breaker and x t u
  show "hb_timeout_ok s \<Longrightarrow> hb_timeout_ok (hb_step x t s)" by (simp add: hb_timeout_ok_def)
  show "hc_timeout (hb_config (hb_step x t s)) = hc_timeout (hb_config s)" by simp
  assume open_s: "hb_timeout_ok s" "hb_opened s = Some u" "t \<le> u + hc_timeout (hb_config s)"
  then show "\<not> fst (hb_Allow t s)" by (simp add: hb_Allow_refuses)
  from open_s have "hb_state s = StOpen" by (simp add: hb_opened_def split: if_splits)
  with open_s hb_Allow_refuses [OF open_s]
  show "hb_opened (hb_step x t s) = Some u \<or> hb_opened (hb_step x t s) = Some t"
    by (cases x) (auto simp: hb_RecordSuccess_def hb_RecordFailure_def hb_opened_def)
qed

text \<open>once the breaker of the HTTP client is open it refuses every request until the timeout has
  passed since the last failure, whatever requests, successes and failures come meanwhile.\<close>

theorem http_breaker_fails_fast:
  assumes "0 \<le> hc_timeout (hb_config b)" and "hb_state b = StOpen"
    and "\<forall>(x, t)\<in>set xs. hb_last_failure b \<le> t \<and> t \<le> hb_last_failure b + hc_timeout (hb_config b)"
    and "now \<le> hb_last_failure b + hc_timeout (hb_config b)"
  shows "\<not> fst (hb_Allow now (fold (\<lambda>(x, t). hb_step x t) xs b))"
proof -
  have "hb_opened b = Some (hb_last_failure b)" using assms(2) by (simp add: hb_opened_def)
  from http_circuit.refuses_throughout [of b, OF _ this assms(3,4)] assms(1)
  show ?thesis by (simp add: hb_timeout_ok_def http_circuit.run_ops_def)
qed

section \<open>Recovery\<close>

text \<open>One request that, when it is admitted, succeeds.\<close>

definition good_round :: "instant \<Rightarrow> http_breaker \<Rightarrow> http_breaker" where
  "good_round now b =
     (case hb_Allow now b of (True, b') \<Rightarrow> hb_RecordSuccess b' | (False, b') \<Rightarrow> b')"

lemma good_rounds_closed: "hb_state b = StClosed \<Longrightarrow> hb_state (fold good_round ts b) = StClosed"
  by (induction ts arbitrary: b) (auto simp: good_round_def hb_Allow_def hb_RecordSuccess_def)

lemma good_round_half_open:
  assumes "hb_state b = StHalfOpen"
  shows "good_round t b =
    (if hc_half_open_max_requests (hb_config b) \<le> hb_half_open_reqs b then b
     else if hb_success_threshold b \<le> hb_successes b + 1
     then b\<lparr>hb_state := StClosed, hb_failures := 0, hb_successes := 0, hb_half_open_reqs := 0\<rparr>
     else b\<lparr>hb_half_open_reqs := hb_half_open_reqs b + 1, hb_successes := hb_successes b + 1\<rparr>)"
  using assms by (auto simp: good_round_def hb_Allow_def hb_RecordSuccess_def)

lemma good_rounds_half_open:
  "hb_state b = StHalfOpen \<Longrightarrow> hb_successes b = hb_half_open_reqs b + 1 \<Longrightarrow>
   hb_half_open_reqs b \<le> hc_half_open_max_requests (hb_config b) \<Longrightarrow>
   hb_successes b < hb_success_threshold b \<Longrightarrow>
   hb_state (fold good_round ts b) = StClosed \<longleftrightarrow>
     hb_success_threshold b \<le> hb_successes b + int (length ts) \<and>
     hb_success_threshold b \<le> hc_half_open_max_requests (hb_config b) + 1"
proof (induction ts arbitrary: b)
  case (Cons t ts)
  show ?case
  proof (cases "hc_half_open_max_requests (hb_config b) \<le> hb_half_open_reqs b")
    case True
    then have "good_round t b = b" using Cons.prems(1) by (simp add: good_round_half_open)
    with Cons.IH [OF Cons.prems] Cons.prems True show ?thesis by auto
  next
    case False
    show ?thesis
    proof (cases "hb_success_threshold b \<le> hb_successes b + 1")
      case True
      with False Cons.prems show ?thesis by (simp add: good_round_half_open good_rounds_closed)
    next
      case open_still: False
      let ?b = "good_round t b"
      have "?b = b\<lparr>hb_half_open_reqs := hb_half_open_reqs b + 1, hb_successes := hb_successes b + 1\<rparr>"
        using False open_still Cons.prems(1) by (simp add: good_round_half_open)
      with Cons.IH [of ?b] Cons.prems False open_still show ?thesis by auto
    qed
  qed
qed auto

text \<open>after its timeout an open breaker recovers exactly when its configuration lets enough
  requests through: if every admitted request succeeds it closes after as many requests as
  \<open>SuccessThreshold\<close>, provided that is at most \<open>HalfOpenMaxRequests + 1\<close> (the request that
  makes it half-open is not counted); otherwise it stays half-open for ever.\<close>

theorem http_breaker_recovers_iff:
  assumes "hb_state b = StOpen"
    and "hb_last_failure b + hc_timeout (hb_config b) < now" and "hc_timeout (hb_config b) < max_duration"
    and "1 \<le> hb_success_threshold b" and "0 \<le> hc_half_open_max_requests (hb_config b)"
  shows "hb_state (fold good_round (now # ts) b) = StClosed \<longleftrightarrow>
    hb_success_threshold b \<le> 1 + int (length ts) \<and>
    hb_success_threshold b \<le> hc_half_open_max_requests (hb_config b) + 1"
proof -
  have allow: "hb_Allow now b =
      (True, b\<lparr>hb_state := StHalfOpen, hb_half_open_reqs := 0, hb_successes := 0\<rparr>)"
    using assms(1) time_sub_beyond [OF assms(3,2)] by (simp add: hb_Allow_def)
  show ?thesis
  proof (cases "hb_success_threshold b \<le> 1")
    case True
    with allow have "hb_state (good_round now b) = StClosed"
      by (simp add: good_round_def hb_RecordSuccess_def)
    with True assms(4,5) show ?thesis by (simp add: good_rounds_closed)
  next
    case False
    let ?b = "good_round now b"
    have "?b = b\<lparr>hb_state := StHalfOpen, hb_half_open_reqs := 0, hb_successes := 1\<rparr>"
      using False allow by (simp add: good_round_def hb_RecordSuccess_def)
    with good_rounds_half_open [of ?b ts] False assms(5) show ?thesis by simp
  qed
qed

section \<open>Retrying\<close>

text \<open>the two retry loops are one: \<open>RetryWithResult\<close> on a function without a result does what
  \<open>Retry\<close> does, with the same calls, waits and errors.\<close>

theorem retry_with_result_is_retry:
  "RetryWithResult tr cfg retryable ()
     (\<lambda>w. case fn w of (None, w') \<Rightarrow> (Inr (), w') | (Some e, w') \<Rightarrow> (Inl e, w')) w =
   (case Retry tr cfg retryable fn w of (e, w') \<Rightarrow> (((), e), w'))"
proof -
  have "retry_result_loop n tr cfg retryable ()
     (\<lambda>w. case fn w of (None, w') \<Rightarrow> (Inr (), w') | (Some e, w') \<Rightarrow> (Inl e, w')) attempt w =
   (case retry_loop n tr cfg retryable fn attempt w of (e, w') \<Rightarrow> (((), e), w'))" for n attempt w
    by (induction n arbitrary: attempt w) (auto split: prod.splits option.splits)
  then show ?thesis by (simp add: Retry_def RetryWithResult_def)
qed

text \<open>
  What a call of the client may do, for any way \<open>k\<close> of counting sends in the world that
  waiting and drawing random numbers do not change.
\<close>

lemma do_loop_outcome:
  assumes send: "\<And>w. k (snd (tr_send tr req w)) \<le> k w + (1::nat)"
    and wait: "\<And>d w. k (snd (tr_wait tr d w)) = k w"
    and rand: "\<And>w. k (snd (tr_rand tr w)) = k w"
  shows "do_loop n tr req attempt lastErr (c, w) = (r, c', w') \<Longrightarrow>
    k w' \<le> k w + n \<and> cl_name c' = cl_name c \<and> cl_retry c' = cl_retry c \<and>
    (\<forall>resp. r = Inr resp \<longrightarrow> \<not> retryable_status (rs_status resp))"
proof (induction n arbitrary: attempt lastErr c w)
  case (Suc n)
  have delay: "k (snd (calculateBackoff (transport.truncate tr) a cfg v)) = k v" for a cfg v
    using rand [of v]
    by (cases "tr_rand tr v") (simp add: calculateBackoff_def Let_def transport.truncate_def)
  obtain ok b where allow: "hb_Allow (tr_now tr w) (cl_breaker c) = (ok, b)" by force
  obtain reply w1 where reply: "tr_send tr req w = (reply, w1)" by force
  obtain d w2 where d: "calculateBackoff (transport.truncate tr) attempt (cl_retry c) w1 = (d, w2)" by force
  obtain x w3 where x: "tr_wait tr d w2 = (x, w3)" by force
  have counts: "k w1 \<le> k w + 1" "k w2 = k w1" "k w3 = k w2"
    using send [of w] reply delay [of attempt "cl_retry c" w1] d wait [of d w2] x by simp_all
  have "(\<exists>e b. r = Inl e \<and> c' = c\<lparr>cl_breaker := b\<rparr> \<and> (w' = w \<or> w' = w1 \<or> w' = w3)) \<or>
      (\<exists>resp b. r = Inr resp \<and> \<not> retryable_status (rs_status resp) \<and> c' = c\<lparr>cl_breaker := b\<rparr> \<and> w' = w1) \<or>
      (\<exists>a e b v. (v = w1 \<or> v = w3) \<and> do_loop n tr req a e (c\<lparr>cl_breaker := b\<rparr>, v) = (r, c', w'))"
    using Suc.prems allow reply d x
    by (cases ok; cases reply; cases x) (simp_all add: Let_def isRetryableError_def split: if_splits; blast)+
  then consider
      (failed) e b where "r = Inl e" "c' = c\<lparr>cl_breaker := b\<rparr>" "w' = w \<or> w' = w1 \<or> w' = w3"
    | (returned) resp b where "r = Inr resp" "\<not> retryable_status (rs_status resp)"
        "c' = c\<lparr>cl_breaker := b\<rparr>" "w' = w1"
    | (again) a e b v where "v = w1 \<or> v = w3" "do_loop n tr req a e (c\<lparr>cl_breaker := b\<rparr>, v) = (r, c', w')"
    by blast
  then show ?case
  proof cases
    case failed
    with counts show ?thesis by auto
  next
    case returned
    with counts show ?thesis by simp
  next
    case (again a e b v)
    with Suc.IH [OF again(2)] counts show ?thesis by auto
  qed
qed auto

text \<open>a call of the client sends the request at most \<open>MaxRetries + 1\<close> times, and not at all with
  a negative \<open>MaxRetries\<close>; a response it returns without an error is neither a server error nor
  429, and the client keeps its name and retry settings.\<close>

theorem client_call_outcome:
  assumes "\<And>w. k (snd (tr_send tr req w)) \<le> k w + (1::nat)"
    and "\<And>d w. k (snd (tr_wait tr d w)) = k w" and "\<And>w. k (snd (tr_rand tr w)) = k w"
    and "DoWithContext tr req (c, w) = (r, c', w')"
  shows "k w' \<le> k w + nat (rc_max_retries (cl_retry c) + 1) \<and>
    (\<forall>resp. r = Inr resp \<longrightarrow> rs_status resp < 500 \<and> rs_status resp \<noteq> 429) \<and>
    cl_name c' = cl_name c \<and> cl_retry c' = cl_retry c"
  using do_loop_outcome [of k tr req, OF assms(1-3),
      of "attempts_of (rc_max_retries (cl_retry c))" 0 None c w r c' w'] assms(4)
  by (auto simp: DoWithContext_def attempts_of_def retryable_status_def)

text \<open>while its breaker is open and the timeout has not passed, a call fails at once with the
  breaker error: nothing is sent, and neither the world nor the breaker changes.\<close>

theorem client_fails_fast:
  assumes "0 \<le> rc_max_retries (cl_retry c)"
    and "hb_state (cl_breaker c) = StOpen" and "0 \<le> hc_timeout (hb_config (cl_breaker c))"
    and "tr_now tr w \<le> hb_last_failure (cl_breaker c) + hc_timeout (hb_config (cl_breaker c))"
  shows "DoWithContext tr req (c, w) = (Inl (BreakerOpen (cl_name c)), c, w)"
proof -
  have "hb_Allow (tr_now tr w) (cl_breaker c) = (False, cl_breaker c)"
    using assms(2-4) by (intro hb_Allow_refuses) (auto simp: hb_timeout_ok_def hb_opened_def)
  moreover obtain n where "attempts_of (rc_max_retries (cl_retry c)) = Suc n"
    using assms(1) by (metis attempts_of_def add.commute nat_add_distrib nat_one_as_int
        not0_implies_Suc of_nat_eq_iff Suc_eq_plus1 zero_le_one nat_int)
  ultimately show ?thesis by (simp add: DoWithContext_def)
qed

section \<open>The properties at concrete values\<close>

definition tripped_breaker :: http_breaker where
  "tripped_breaker = fold hb_RecordFailure [1, 2, 3, 4, 5]
     (hb_NewCircuitBreaker ''api'' http_DefaultCircuitBreakerConfig)"

lemma tripped_breaker_simps:
  "hb_state tripped_breaker = StOpen" "hb_last_failure tripped_breaker = 5"
  "hb_config tripped_breaker = http_DefaultCircuitBreakerConfig"
  "hb_success_threshold tripped_breaker = 2"
  by (simp_all add: tripped_breaker_def hb_RecordFailure_def hb_NewCircuitBreaker_def
      http_DefaultCircuitBreakerConfig_def)

theorem http_breaker_fails_fast_witness:
  "\<not> fst (hb_Allow 30 (fold (\<lambda>(x, t). hb_step x t) [(OpSuccess, 6), (OpFailure, 7)] tripped_breaker))"
  by (rule http_breaker_fails_fast)
    (simp_all add: tripped_breaker_simps http_DefaultCircuitBreakerConfig_def time_units)

theorem http_breaker_recovers_iff_witness:
  "hb_state (fold good_round [40000000000, 41000000000] tripped_breaker) = StClosed"
  using http_breaker_recovers_iff [of tripped_breaker 40000000000 "[41000000000]"]
  by (simp add: tripped_breaker_simps http_DefaultCircuitBreakerConfig_def time_units max_duration_def)

text \<open>A world that counts the requests it answered: the first with 503, the others with 200.\<close>

definition flaky :: "nat http_transport" where
  "flaky = \<lparr>tr_now = (\<lambda>w. 0), tr_wait = (\<lambda>d w. (None, w)), tr_rand = (\<lambda>w. (0, w)),
     tr_send = (\<lambda>req w. (Inr \<lparr>rs_status = (if w = 0 then 503 else 200), rs_body = ''ok''\<rparr>, w + 1)),
     tr_url_error = (\<lambda>u. None)\<rparr>"

definition plain_get :: http_request where
  "plain_get = \<lparr>rq_method = ''GET'', rq_url = ''http://x'', rq_content_type = None, rq_body = ''''\<rparr>"

definition api_client :: http_client where
  "api_client = NewClient ''api'' http_DefaultCircuitBreakerConfig DefaultRetryConfig"

theorem client_call_outcome_witness:
  "\<exists>resp c'. DoWithContext flaky plain_get (api_client, 0) = (Inr resp, c', 2) \<and>
     rs_status resp < 500 \<and> (2::nat) \<le> 0 + nat (rc_max_retries (cl_retry api_client) + 1)"
proof -
  have run: "\<exists>c'. DoWithContext flaky plain_get (api_client, 0) =
      (Inr \<lparr>rs_status = 200, rs_body = ''ok''\<rparr>, c', 2)"
    by (simp add: DoWithContext_def attempts_of_def api_client_def NewClient_def DefaultRetryConfig_def
        hb_NewCircuitBreaker_def http_DefaultCircuitBreakerConfig_def flaky_def hb_op_defs Let_def
        retryable_status_def calculateBackoff_def transport.truncate_def eval_nat_numeral)
  then obtain c' where c': "DoWithContext flaky plain_get (api_client, 0) =
      (Inr \<lparr>rs_status = 200, rs_body = ''ok''\<rparr>, c', 2)" by blast
  from client_call_outcome [where k = id, OF _ _ _ c'] c' show ?thesis
    by (auto simp: flaky_def)
qed

theorem client_fails_fast_witness:
  "DoWithContext flaky plain_get (api_client\<lparr>cl_breaker := tripped_breaker\<rparr>, 7) =
     (Inl (BreakerOpen ''api''), api_client\<lparr>cl_breaker := tripped_breaker\<rparr>, 7)"
  by (subst client_fails_fast)
    (simp_all add: tripped_breaker_simps http_DefaultCircuitBreakerConfig_def time_units api_client_def
      NewClient_def DefaultRetryConfig_def flaky_def)

end
