(* ===== verification/Api_Throttler.thy ===== *)
theory Api_Throttler
  imports Goth_Prelude
begin

text \<open>
  The rate limiter of the worker, one token bucket per job type
  (\<open>internal/features/jobs/worker/api_throttler.go\<close>). The token bucket itself is
  \<open>golang.org/x/time/rate\<close>, which is not part of the repository: it is a record of
  functions \<open>lib\<close>, on a type \<open>'l\<close> of limiters.
\<close>

record 'l limiter_lib =
  lim_new :: "rat \<Rightarrow> int \<Rightarrow> 'l"
  lim_allow :: "instant \<Rightarrow> 'l \<Rightarrow> bool \<times> 'l"
  lim_wait :: "instant \<Rightarrow> 'l \<Rightarrow> string option \<times> 'l"
  lim_reserve_delay :: "instant \<Rightarrow> 'l \<Rightarrow> duration \<times> 'l"

record api_throttle_config =
  tc_rps :: rat
  tc_burst :: int

definition DefaultAPILimits :: "(string \<times> api_throttle_config) list" where
  "DefaultAPILimits =
     [(''send_email'', \<lparr>tc_rps = 5, tc_burst = 10\<rparr>),
      (''send_password_reset_email'', \<lparr>tc_rps = 2, tc_burst = 5\<rparr>),
      (''send_verification_email'', \<lparr>tc_rps = 2, tc_burst = 5\<rparr>),
      (''process_ai'', \<lparr>tc_rps = 1, tc_burst = 3\<rparr>),
      (''process_webhook'', \<lparr>tc_rps = 50, tc_burst = 100\<rparr>),
      (''process_asaas_webhook'', \<lparr>tc_rps = 10, tc_burst = 20\<rparr>),
      (''asaas_payment'', \<lparr>tc_rps = 10, tc_burst = 20\<rparr>),
      (''asaas_subscription'', \<lparr>tc_rps = 10, tc_burst = 20\<rparr>)]"

record 'l throttler =
  th_limiters :: "string \<rightharpoonup> 'l"
  th_configs :: "string \<rightharpoonup> api_throttle_config"
  th_stopped :: bool

definition new_limiter :: "'l limiter_lib \<Rightarrow> api_throttle_config \<Rightarrow> 'l" where
  "new_limiter lib c = lim_new lib (tc_rps c) (tc_burst c)"

definition NewAPIThrottler :: "'l limiter_lib \<Rightarrow> 'l throttler" where
  "NewAPIThrottler lib =
     \<lparr>th_limiters = (\<lambda>n. map_option (new_limiter lib) (map_of DefaultAPILimits n)),
      th_configs = map_of DefaultAPILimits, th_stopped = False\<rparr>"

definition fallback_config :: api_throttle_config where
  "fallback_config = \<lparr>tc_rps = 10, tc_burst = 20\<rparr>"

definition th_Allow :: "'l limiter_lib \<Rightarrow> instant \<Rightarrow> string \<Rightarrow> 'l throttler \<Rightarrow> bool \<times> 'l throttler" where
  "th_Allow lib now name t =
     (let (l, t1) =
        (case th_limiters t name of
           Some l \<Rightarrow> (l, t)
         | None \<Rightarrow>
             (case map_of DefaultAPILimits name of
                Some c \<Rightarrow> (new_limiter lib c,
                  t\<lparr>th_configs := (th_configs t)(name \<mapsto> c),
                    th_limiters := (th_limiters t)(name \<mapsto> new_limiter lib c)\<rparr>)
              | None \<Rightarrow> (lim_new lib 10 20,
                  t\<lparr>th_limiters := (th_limiters t)(name \<mapsto> lim_new lib 10 20)\<rparr>)));
        (ok, l') = lim_allow lib now l
      in (ok, t1\<lparr>th_limiters := (th_limiters t1)(name \<mapsto> l')\<rparr>))"

definition th_Wait :: "'l limiter_lib \<Rightarrow> instant \<Rightarrow> string \<Rightarrow> 'l throttler \<Rightarrow> string option \<times> 'l throttler" where
  "th_Wait lib now name t =
     (let (l, t1) =
        (case th_limiters t name of
           Some l \<Rightarrow> (l, t)
         | None \<Rightarrow>
             (let c = (case map_of DefaultAPILimits name of Some c \<Rightarrow> c | None \<Rightarrow> fallback_config)
              in (new_limiter lib c,
                  t\<lparr>th_limiters := (th_limiters t)(name \<mapsto> new_limiter lib c),
                    th_configs := (th_configs t)(name \<mapsto> c)\<rparr>)));
        (e, l') = lim_wait lib now l
      in (e, t1\<lparr>th_limiters := (th_limiters t1)(name \<mapsto> l')\<rparr>))"

definition th_Delay :: "'l limiter_lib \<Rightarrow> instant \<Rightarrow> string \<Rightarrow> 'l throttler \<Rightarrow> duration \<times> 'l throttler" where
  "th_Delay lib now name t =
     (case th_limiters t name of
        None \<Rightarrow> (0, t)
      | Some l \<Rightarrow>
          (let (d, l') = lim_reserve_delay lib now l
           in (d, t\<lparr>th_limiters := (th_limiters t)(name \<mapsto> l')\<rparr>)))"

text \<open>\<open>close(t.stopChan)\<close> panics the second time: \<open>None\<close>.\<close>

definition th_Stop :: "'l throttler \<Rightarrow> 'l throttler option" where
  "th_Stop t = (if th_stopped t then None else Some (t\<lparr>th_stopped := True\<rparr>))"

definition th_GetConfig :: "string \<Rightarrow> 'l throttler \<Rightarrow> rat \<times> int" where
  "th_GetConfig name t =
     (case th_configs t name of
        Some c \<Rightarrow> (tc_rps c, tc_burst c)
      | None \<Rightarrow>
          (case map_of DefaultAPILimits name of
             Some c \<Rightarrow> (tc_rps c, tc_burst c)
           | None \<Rightarrow> (10, 20)))"

definition th_GetAllConfigs :: "'l throttler \<Rightarrow> string \<rightharpoonup> api_throttle_config" where
  "th_GetAllConfigs t = th_configs t"

section \<open>Job types do not share a budget, and the reported limits are the real ones\<close>

text \<open>
  A limiter keeps the limits it was made with: \<open>rate_of\<close> reads them, and the operations of the
  library do not change them (there is no call of \<open>SetLimit\<close> or \<open>SetBurst\<close>).
\<close>

definition limits_kept :: "'l limiter_lib \<Rightarrow> ('l \<Rightarrow> rat \<times> int) \<Rightarrow> bool" where
  "limits_kept lib rate_of \<longleftrightarrow>
     (\<forall>r b. rate_of (lim_new lib r b) = (r, b)) \<and>
     (\<forall>now l. rate_of (snd (lim_allow lib now l)) = rate_of l \<and> rate_of (snd (lim_wait lib now l)) = rate_of l \<and>
        rate_of (snd (lim_reserve_delay lib now l)) = rate_of l)"

inductive throttle_step :: "'l limiter_lib \<Rightarrow> 'l throttler \<Rightarrow> 'l throttler \<Rightarrow> bool" for lib where
  allow: "throttle_step lib t (snd (th_Allow lib now name t))"
| wait: "throttle_step lib t (snd (th_Wait lib now name t))"
| delay: "throttle_step lib t (snd (th_Delay lib now name t))"

definition limits_of :: "string \<Rightarrow> rat \<times> int" where
  "limits_of name = (case map_of DefaultAPILimits name of
     Some c \<Rightarrow> (tc_rps c, tc_burst c) | None \<Rightarrow> (10, 20))"

definition throttler_ok :: "('l \<Rightarrow> rat \<times> int) \<Rightarrow> 'l throttler \<Rightarrow> bool" where
  "throttler_ok rate_of t \<longleftrightarrow>
     (\<forall>name l. th_limiters t name = Some l \<longrightarrow> rate_of l = limits_of name) \<and>
     (\<forall>name c. th_configs t name = Some c \<longrightarrow> (tc_rps c, tc_burst c) = limits_of name)"

lemma limits_kept_simps:
  "limits_kept lib rate_of \<Longrightarrow> rate_of (lim_new lib r b) = (r, b)"
  "limits_kept lib rate_of \<Longrightarrow> lim_allow lib now l = (ok, l') \<Longrightarrow> rate_of l' = rate_of l"
  "limits_kept lib rate_of \<Longrightarrow> lim_wait lib now l = (e, l') \<Longrightarrow> rate_of l' = rate_of l"
  "limits_kept lib rate_of \<Longrightarrow> lim_reserve_delay lib now l = (d, l') \<Longrightarrow> rate_of l' = rate_of l"
  unfolding limits_kept_def by (metis snd_conv)+

text \<open>The limiter of a name, once an operation has seen to it that there is one.\<close>

lemma throttler_ok_limiter:
  "throttler_ok rate_of t \<Longrightarrow> rate_of l = limits_of name \<Longrightarrow>
   throttler_ok rate_of (t\<lparr>th_limiters := (th_limiters t)(name \<mapsto> l)\<rparr>)"
  by (simp add: throttler_ok_def)

lemma throttler_ok_both:
  "throttler_ok rate_of t \<Longrightarrow> rate_of l = limits_of name \<Longrightarrow> (tc_rps c, tc_burst c) = limits_of name \<Longrightarrow>
   throttler_ok rate_of (t\<lparr>th_configs := (th_configs t)(name \<mapsto> c), th_limiters := (th_limiters t)(name \<mapsto> l)\<rparr>)"
  by (simp add: throttler_ok_def)

lemma throttler_ok_new: "limits_kept lib rate_of \<Longrightarrow> throttler_ok rate_of (NewAPIThrottler lib)"
  by (auto simp: throttler_ok_def NewAPIThrottler_def limits_kept_simps new_limiter_def limits_of_def)

lemma throttler_ok_Allow:
  assumes "limits_kept lib rate_of" and "throttler_ok rate_of t"
  shows "throttler_ok rate_of (snd (th_Allow lib now name t))"
proof (cases "th_limiters t name")
  case (Some l)
  then have "rate_of l = limits_of name" using assms(2) by (simp add: throttler_ok_def)
  with assms Some show ?thesis
    by (auto simp: th_Allow_def limits_kept_simps split: prod.split intro: throttler_ok_limiter)
next
  case None
  with assms show ?thesis
    by (cases "map_of DefaultAPILimits name")
      (auto simp: th_Allow_def limits_kept_simps new_limiter_def limits_of_def
        split: prod.split intro!: throttler_ok_limiter throttler_ok_both)
qed

lemma throttler_ok_Wait:
  assumes "limits_kept lib rate_of" and "throttler_ok rate_of t"
  shows "throttler_ok rate_of (snd (th_Wait lib now name t))"
proof (cases "th_limiters t name")
  case (Some l)
  then have "rate_of l = limits_of name" using assms(2) by (simp add: throttler_ok_def)
  with assms Some show ?thesis
    by (auto simp: th_Wait_def limits_kept_simps split: prod.split intro: throttler_ok_limiter)
next
  case None
  with assms show ?thesis
    by (cases "map_of DefaultAPILimits name")
      (auto simp: th_Wait_def limits_kept_simps new_limiter_def limits_of_def fallback_config_def
        throttler_ok_def Let_def split: prod.split)
qed

lemma throttler_ok_Delay:
  assumes "limits_kept lib rate_of" and "throttler_ok rate_of t"
  shows "throttler_ok rate_of (snd (th_Delay lib now name t))"
proof (cases "th_limiters t name")
  case (Some l)
  then have "rate_of l = limits_of name" using assms(2) by (simp add: throttler_ok_def)
  with assms Some show ?thesis
    by (auto simp: th_Delay_def limits_kept_simps split: prod.split intro: throttler_ok_limiter)
qed (simp add: th_Delay_def assms(2))

lemma throttler_ok_step:
  "throttle_step lib t t' \<Longrightarrow> limits_kept lib rate_of \<Longrightarrow> throttler_ok rate_of t \<Longrightarrow> throttler_ok rate_of t'"
  by (cases rule: throttle_step.cases)
    (auto intro: throttler_ok_Allow throttler_ok_Wait throttler_ok_Delay)

text \<open>whatever calls were made, the limits \<open>GetConfig\<close> reports for a name are the limits of the
  limiter that throttles it: those of the table of defaults, or 10 per second with bursts of 20.\<close>

theorem throttler_reports_its_limits:
  assumes "limits_kept lib rate_of" and "(throttle_step lib)\<^sup>*\<^sup>* (NewAPIThrottler lib) t"
  shows "th_GetConfig name t = limits_of name \<and>
    (\<forall>l. th_limiters t name = Some l \<longrightarrow> rate_of l = th_GetConfig name t)"
proof -
  from assms(2) have ok: "throttler_ok rate_of t"
    by (induction rule: rtranclp_induct)
      (auto intro: throttler_ok_new assms(1) throttler_ok_step)
  then have "th_GetConfig name t = limits_of name"
    by (auto simp: th_GetConfig_def throttler_ok_def limits_of_def split: option.split)
  with ok show ?thesis by (simp add: throttler_ok_def)
qed

text \<open>A limiter that is only its limits: every request passes.\<close>

definition unlimited :: "(rat \<times> int) limiter_lib" where
  "unlimited = \<lparr>lim_new = Pair, lim_allow = (\<lambda>now l. (True, l)), lim_wait = (\<lambda>now l. (None, l)),
     lim_reserve_delay = (\<lambda>now l. (0, l))\<rparr>"

theorem throttler_reports_its_limits_witness:
  "th_GetConfig ''process_ai'' (snd (th_Allow unlimited 5 ''process_ai'' (NewAPIThrottler unlimited))) = (1, 3)"
proof -
  have "limits_kept unlimited id" by (simp add: limits_kept_def unlimited_def)
  moreover have "(throttle_step unlimited)\<^sup>*\<^sup>* (NewAPIThrottler unlimited)
      (snd (th_Allow unlimited 5 ''process_ai'' (NewAPIThrottler unlimited)))"
    by (intro r_into_rtranclp throttle_step.allow)
  ultimately have "th_GetConfig ''process_ai''
      (snd (th_Allow unlimited 5 ''process_ai'' (NewAPIThrottler unlimited))) = limits_of ''process_ai''"
    using throttler_reports_its_limits by blast
  then show ?thesis by (simp add: limits_of_def DefaultAPILimits_def)
qed

end
