(* ===== verification/Db_Writer.thy ===== *)
theory Db_Writer
  imports Job_Queue
begin

text \<open>
  The fan-in of database writes, \<open>internal/features/jobs/worker/db_writer.go\<close>: callers put
  requests into a buffered channel of 1000, one goroutine takes them out in order, runs
  each against the database and answers on the channel of the request. The answers are a
  map from the number of the request to the error it got; a caller that gave up waiting
  never reads its answer.
\<close>

section \<open>Requests\<close>

datatype write_kind =
    WriteCompleteJob | WriteFailJob | WriteRecordProcessed | WriteUpdateNextRetry
  | WriteMoveToDLQ | WriteUpdateCircuitState

text \<open>\<open>params interface{}\<close>: nothing, or the parameters of one statement.\<close>

datatype write_params =
    NoParams
  | FailJobParams "string option" int
  | NextRetryParams "instant option" int
  | DeadLetterParams int string string string int "string option" string
  | CircuitParams string string int int "instant option" "instant option" "instant option"

record write_request =
  wr_kind :: write_kind
  wr_job_id :: int
  wr_params :: write_params

datatype write_error = WriteDbErr dberr | InvalidParams string | WriteTimeout | CtxDone string

definition drop_value :: "(dberr + 'a) \<times> db \<Rightarrow> write_error option \<times> db" where
  "drop_value out = (case out of (Inl e, s) \<Rightarrow> (Some (WriteDbErr e), s) | (Inr _, s) \<Rightarrow> (None, s))"

definition processWrite :: "write_request \<Rightarrow> db \<Rightarrow> write_error option \<times> db" where
  "processWrite r s =
     (case wr_kind r of
        WriteCompleteJob \<Rightarrow> drop_value (CompleteJob (wr_job_id r) s)
      | WriteFailJob \<Rightarrow>
          (case wr_params r of
             FailJobParams err i \<Rightarrow> drop_value (FailJob err i s)
           | _ \<Rightarrow> (Some (InvalidParams ''invalid params for FailJob''), s))
      | WriteRecordProcessed \<Rightarrow> drop_value (RecordJobProcessed (wr_job_id r) s)
      | WriteUpdateNextRetry \<Rightarrow>
          (case wr_params r of
             NextRetryParams t i \<Rightarrow> drop_value (UpdateJobNextRetry t i s)
           | _ \<Rightarrow> (Some (InvalidParams ''invalid params for UpdateJobNextRetry''), s))
      | WriteMoveToDLQ \<Rightarrow>
          (case wr_params r of
             DeadLetterParams job ty payload err n tenant meta \<Rightarrow>
               drop_value (CreateDeadLetterJob job ty payload err n tenant meta s)
           | _ \<Rightarrow> (Some (InvalidParams ''invalid params for CreateDeadLetterJob''), s))
      | WriteUpdateCircuitState \<Rightarrow>
          (case wr_params r of
             CircuitParams ty st fails succs lf ls op \<Rightarrow>
               drop_value (UpsertCircuitBreakerState ty st fails succs lf ls op s)
           | _ \<Rightarrow> (Some (InvalidParams ''invalid params for UpsertCircuitBreakerState''), s)))"

text \<open>The methods: each builds one request.\<close>

definition dw_CompleteJob :: "int \<Rightarrow> write_request" where
  "dw_CompleteJob i = \<lparr>wr_kind = WriteCompleteJob, wr_job_id = i, wr_params = NoParams\<rparr>"

definition dw_FailJob :: "string option \<Rightarrow> int \<Rightarrow> write_request" where
  "dw_FailJob err i = \<lparr>wr_kind = WriteFailJob, wr_job_id = 0, wr_params = FailJobParams err i\<rparr>"

definition dw_RecordJobProcessed :: "int \<Rightarrow> write_request" where
  "dw_RecordJobProcessed i = \<lparr>wr_kind = WriteRecordProcessed, wr_job_id = i, wr_params = NoParams\<rparr>"

definition dw_UpdateJobNextRetry :: "instant option \<Rightarrow> int \<Rightarrow> write_request" where
  "dw_UpdateJobNextRetry t i =
     \<lparr>wr_kind = WriteUpdateNextRetry, wr_job_id = 0, wr_params = NextRetryParams t i\<rparr>"

definition dw_CreateDeadLetterJob ::
  "int \<Rightarrow> string \<Rightarrow> string \<Rightarrow> string \<Rightarrow> int \<Rightarrow> string option \<Rightarrow> string \<Rightarrow> write_request" where
  "dw_CreateDeadLetterJob job ty payload err n tenant meta =
     \<lparr>wr_kind = WriteMoveToDLQ, wr_job_id = 0,
      wr_params = DeadLetterParams job ty payload err n tenant meta\<rparr>"

definition dw_UpsertCircuitBreakerState ::
  "string \<Rightarrow> string \<Rightarrow> int \<Rightarrow> int \<Rightarrow> instant option \<Rightarrow> instant option \<Rightarrow> instant option
   \<Rightarrow> write_request" where
  "dw_UpsertCircuitBreakerState ty st fails succs lf ls op =
     \<lparr>wr_kind = WriteUpdateCircuitState, wr_job_id = 0,
      wr_params = CircuitParams ty st fails succs lf ls op\<rparr>"

section \<open>The writer\<close>

record db_writer =
  dw_queue :: "(nat \<times> write_request) list"
  dw_submitted :: nat
  dw_results :: "nat \<rightharpoonup> write_error option"
  dw_stopped :: bool

definition NewDBWriter :: db_writer where
  "NewDBWriter = \<lparr>dw_queue = [], dw_submitted = 0, dw_results = Map.empty, dw_stopped = False\<rparr>"

definition write_chan_capacity :: nat where
  "write_chan_capacity = 1000"

text \<open>
  The send of \<open>submitWrite\<close>: it blocks while the channel is full (no step is possible), and
  yields the number of the request.
\<close>

definition submit_send :: "write_request \<Rightarrow> db_writer \<Rightarrow> (nat \<times> db_writer) option" where
  "submit_send r w =
     (if length (dw_queue w) < write_chan_capacity
      then Some (dw_submitted w,
             w\<lparr>dw_queue := dw_queue w @ [(dw_submitted w, r)], dw_submitted := dw_submitted w + 1\<rparr>)
      else None)"

text \<open>
  The wait of \<open>submitWrite\<close>. What fires first is the environment's choice: the answer, the
  context, or the ten second timer.
\<close>

datatype wait_event = Answered | ContextDone string | TimerFired

definition submit_wait :: "nat \<Rightarrow> wait_event \<Rightarrow> db_writer \<Rightarrow> write_error option option" where
  "submit_wait n ev w =
     (case ev of
        Answered \<Rightarrow> dw_results w n
      | ContextDone e \<Rightarrow> Some (Some (CtxDone e))
      | TimerFired \<Rightarrow> Some (Some WriteTimeout))"

text \<open>One round of \<open>run\<close>: nothing once stopped, nothing on an empty channel.\<close>

definition dw_run :: "db_writer \<times> db \<Rightarrow> db_writer \<times> db" where
  "dw_run = (\<lambda>(w, s).
     if dw_stopped w then (w, s)
     else case dw_queue w of
       [] \<Rightarrow> (w, s)
     | (n, r) # q \<Rightarrow>
         (case processWrite r s of
            (e, s') \<Rightarrow> (w\<lparr>dw_queue := q, dw_results := (dw_results w)(n \<mapsto> e)\<rparr>, s')))"

definition QueueLength :: "db_writer \<Rightarrow> nat" where
  "QueueLength w = length (dw_queue w)"

definition dw_Stop :: "db_writer \<Rightarrow> db_writer" where
  "dw_Stop w = w\<lparr>dw_stopped := True\<rparr>"

definition dw_Stats :: "db_writer \<Rightarrow> nat" where
  "dw_Stats w = length (dw_queue w)"

section \<open>The writer is a queue in front of the database\<close>

text \<open>Submissions by any callers and rounds of the goroutine, in any order.\<close>

inductive writer_step :: "db_writer \<times> db \<Rightarrow> write_request list \<Rightarrow> db_writer \<times> db \<Rightarrow> bool" where
  submit: "submit_send r w = Some (n, w') \<Longrightarrow> writer_step (w, s) [r] (w', s)"
| round: "writer_step (w, s) [] (dw_run (w, s))"

inductive writer_run :: "db_writer \<times> db \<Rightarrow> write_request list \<Rightarrow> db_writer \<times> db \<Rightarrow> bool" where
  idle: "writer_run ws [] ws"
| more: "writer_run ws rs ws' \<Longrightarrow> writer_step ws' rs' ws'' \<Longrightarrow> writer_run ws (rs @ rs') ws''"

text \<open>The reference: the requests made directly, one after the other, with their errors.\<close>

primrec direct_writes :: "write_request list \<Rightarrow> db \<Rightarrow> write_error option list \<times> db" where
  "direct_writes [] s = ([], s)"
| "direct_writes (r # rs) s =
     (case processWrite r s of (e, s1) \<Rightarrow>
        (case direct_writes rs s1 of (es, s2) \<Rightarrow> (e # es, s2)))"

lemma direct_writes_snoc:
  "direct_writes (rs @ [r]) s =
     (case direct_writes rs s of (es, s1) \<Rightarrow>
        (case processWrite r s1 of (e, s2) \<Rightarrow> (es @ [e], s2)))"
  by (induction rs arbitrary: s) (auto split: prod.split)

lemma length_direct_writes: "length (fst (direct_writes rs s)) = length rs"
proof (induction rs arbitrary: s)
  case (Cons r rs)
  then show ?case
    by (cases "processWrite r s"; cases "direct_writes rs (snd (processWrite r s))") (auto, metis fst_conv)
qed simp

text \<open>After submitting \<open>rs\<close>, the first \<open>k\<close> have been run and the rest is the queue.\<close>

definition writer_at :: "write_request list \<Rightarrow> db \<Rightarrow> nat \<Rightarrow> db_writer \<times> db \<Rightarrow> bool" where
  "writer_at rs s0 k ws \<longleftrightarrow>
     (case ws of (w, s) \<Rightarrow>
        k \<le> length rs \<and> dw_submitted w = length rs \<and>
        dw_queue w = map (\<lambda>i. (i, rs ! i)) [k..<length rs] \<and>
        (case direct_writes (take k rs) s0 of (es, s1) \<Rightarrow>
           s = s1 \<and> dw_results w = (\<lambda>i. if i < k then Some (es ! i) else None)))"

lemma writer_at_submit:
  assumes "writer_at rs s0 k (w, s)" and "submit_send r w = Some (n, w')"
  shows "writer_at (rs @ [r]) s0 k (w', s)"
proof -
  have "map (\<lambda>i. (i, (rs @ [r]) ! i)) [k..<length rs] = map (\<lambda>i. (i, rs ! i)) [k..<length rs]"
    by (auto simp: nth_append)
  with assms show ?thesis
    by (auto simp: writer_at_def submit_send_def nth_append split: if_splits prod.splits)
qed

lemma writer_at_round:
  assumes "writer_at rs s0 k (w, s)"
  shows "\<exists>k'. writer_at rs s0 k' (dw_run (w, s))"
proof (cases "dw_stopped w \<or> dw_queue w = []")
  case True
  then have "dw_run (w, s) = (w, s)" by (auto simp: dw_run_def)
  with assms show ?thesis by auto
next
  case False
  then have k: "k < length rs" using assms by (auto simp: writer_at_def)
  then have queue: "dw_queue w = (k, rs ! k) # map (\<lambda>i. (i, rs ! i)) [Suc k..<length rs]"
    using assms by (simp add: writer_at_def upt_conv_Cons)
  obtain e s' where e: "processWrite (rs ! k) s = (e, s')" by force
  obtain es s1 where es: "direct_writes (take k rs) s0 = (es, s1)" by force
  have "length es = k"
    using length_direct_writes [of "take k rs" s0] es k by simp
  with assms False k queue e es have "writer_at rs s0 (Suc k) (dw_run (w, s))"
    by (auto simp: writer_at_def dw_run_def take_Suc_conv_app_nth direct_writes_snoc nth_append
        fun_eq_iff less_Suc_eq)
  then show ?thesis by blast
qed

lemma writer_run_at:
  "writer_run ws rs ws' \<Longrightarrow> ws = (NewDBWriter, s0) \<Longrightarrow> \<exists>k. writer_at rs s0 k ws'"
proof (induction rule: writer_run.induct)
  case (idle ws)
  then show ?case by (auto simp: writer_at_def NewDBWriter_def intro!: exI [of _ 0])
next
  case (more ws rs ws' rs' ws'')
  then obtain k where k: "writer_at rs s0 k ws'" by blast
  from more.hyps(2) show ?case
  proof cases
    case (submit r w n w' s)
    with k writer_at_submit show ?thesis by blast
  next
    case (round w s)
    with k writer_at_round show ?thesis by auto
  qed
qed


text \<open>One submission and one round on the database with two jobs.\<close>

definition after_submit :: db_writer where
  "after_submit = NewDBWriter\<lparr>dw_queue := [(0, dw_CompleteJob 1)], dw_submitted := 1\<rparr>"

lemma one_write_run:
  "writer_run (NewDBWriter, two_jobs) [dw_CompleteJob 1] (dw_run (after_submit, two_jobs))"
proof -
  have "submit_send (dw_CompleteJob 1) NewDBWriter = Some (0, after_submit)"
    by (simp add: submit_send_def after_submit_def NewDBWriter_def write_chan_capacity_def)
  then have "writer_step (NewDBWriter, two_jobs) [dw_CompleteJob 1] (after_submit, two_jobs)"
    by (rule writer_step.submit)
  from writer_run.more [OF writer_run.more [OF writer_run.idle this] writer_step.round]
  show ?thesis by simp
qed


end
