(* ===== verification/Processor.thy ===== *)
theory Processor
  imports Billing Worker_Breaker Api_Throttler "HOL-Library.Word"
begin

text \<open>
  The worker, \<open>internal/features/jobs/worker/processor.go\<close>: job settings, picking and
  running a job, retries and the dead letter queue, the stale job checker, the rescue of
  zombies at start, and scaling.

  A state of the worker is the processor itself (settings, breaker, throttler, counters),
  the database, the messages sent to browsers, and a world \<open>'w\<close> for what lies outside: the
  mail server and the random source. What the code calls there is the record of functions
  \<open>worker_env\<close>. The work of a job takes time: the clock of the database advances by what
  the environment says a mail took, and by the two seconds the AI job sleeps.
\<close>

section \<open>Settings per job type\<close>

record job_type_config =
  jt_timeout_seconds :: int
  jt_max_attempts :: int
  jt_backoff_base_sec :: int
  jt_backoff_max_sec :: int
  jt_enabled :: bool

definition config_of :: "int \<Rightarrow> int \<Rightarrow> int \<Rightarrow> int \<Rightarrow> job_type_config" where
  "config_of timeout attempts base cap =
     \<lparr>jt_timeout_seconds = timeout, jt_max_attempts = attempts, jt_backoff_base_sec = base,
      jt_backoff_max_sec = cap, jt_enabled = True\<rparr>"

definition DefaultJobConfigs :: "string \<rightharpoonup> job_type_config" where
  "DefaultJobConfigs = map_of
     [(''send_email'', config_of 60 5 30 600),
      (''send_password_reset_email'', config_of 60 5 30 600),
      (''send_verification_email'', config_of 60 5 30 600),
      (''process_ai'', config_of 120 3 60 300),
      (''process_webhook'', config_of 300 5 30 600),
      (''process_asaas_webhook'', config_of 300 5 30 600)]"

text \<open>The zero value of the struct, which a lookup of a missing key yields.\<close>

definition zero_job_config :: job_type_config where
  "zero_job_config =
     \<lparr>jt_timeout_seconds = 0, jt_max_attempts = 0, jt_backoff_base_sec = 0,
      jt_backoff_max_sec = 0, jt_enabled = False\<rparr>"

definition config_of_row :: "job_type_config_row \<Rightarrow> job_type_config" where
  "config_of_row c =
     \<lparr>jt_timeout_seconds = jc_timeout_seconds c, jt_max_attempts = jc_max_attempts c,
      jt_backoff_base_sec = jc_backoff_base_seconds c, jt_backoff_max_sec = jc_backoff_max_seconds c,
      jt_enabled = jc_enabled c\<rparr>"

section \<open>State\<close>

datatype sse_message = ToUser int string string | ToAll string string

record 'l processor =
  wk_configs :: "string \<rightharpoonup> job_type_config"
  wk_worker_id :: string
  wk_breaker :: "worker_breaker option"
  wk_throttler :: "'l throttler option"
  wk_has_writer :: bool
  wk_active_jobs :: int
  wk_worker_count :: int
  wk_min_workers :: int
  wk_max_workers :: int
  wk_notify :: nat
  wk_scale_pending :: bool
  wk_auto_scale :: bool

record ('l, 'w) worker =
  st_proc :: "'l processor"
  st_db :: db
  st_sse :: "sse_message list"
  st_world :: 'w

text \<open>
  \<open>env_mail\<close> sends a mail: the error, if any, and how long it took. \<open>env_rand\<close> is
  \<open>rand.Int63n\<close> of a positive bound. \<open>env_json_error\<close> is the text of the error
  \<open>json.Unmarshal\<close> gives for a payload, \<open>env_metadata\<close> the JSON of a dead letter's metadata
  (worker, start of the job, error), \<open>env_hour\<close> the hour of an instant as text.
\<close>

record ('l, 'w) worker_env =
  env_limiter :: "'l limiter_lib"
  env_mail :: "string \<Rightarrow> string \<Rightarrow> string \<Rightarrow> 'w \<Rightarrow> (string option \<times> nat) \<times> 'w"
  env_rand :: "int \<Rightarrow> 'w \<Rightarrow> int \<times> 'w"
  env_json_error :: "string \<Rightarrow> string"
  env_metadata :: "string \<Rightarrow> instant option \<Rightarrow> string \<Rightarrow> string"
  env_hour :: "instant \<Rightarrow> string"

text \<open>A statement run by the worker.\<close>

definition on_db :: "(db \<Rightarrow> 'a \<times> db) \<Rightarrow> ('l, 'w) worker \<Rightarrow> 'a \<times> ('l, 'w) worker" where
  "on_db q st = (case q (st_db st) of (r, s) \<Rightarrow> (r, st\<lparr>st_db := s\<rparr>))"

definition do_db :: "(db \<Rightarrow> 'a \<times> db) \<Rightarrow> ('l, 'w) worker \<Rightarrow> ('l, 'w) worker" where
  "do_db q st = st\<lparr>st_db := snd (q (st_db st))\<rparr>"

definition now :: "('l, 'w) worker \<Rightarrow> instant" where
  "now st = clock (st_db st)"

definition pass_time :: "nat \<Rightarrow> ('l, 'w) worker \<Rightarrow> ('l, 'w) worker" where
  "pass_time d st = st\<lparr>st_db := (st_db st)\<lparr>clock := clock (st_db st) + int d\<rparr>\<rparr>"

section \<open>Loading and looking up settings\<close>

definition loadJobConfigs :: "('l, 'w) worker \<Rightarrow> ('l, 'w) worker" where
  "loadJobConfigs st =
     (case ListJobTypeConfigs (st_db st) of
        (Inl _, s) \<Rightarrow> st\<lparr>st_proc := (st_proc st)\<lparr>wk_configs := DefaultJobConfigs\<rparr>, st_db := s\<rparr>
      | (Inr rows, s) \<Rightarrow>
          st\<lparr>st_proc := (st_proc st)\<lparr>wk_configs :=
                fold (\<lambda>c m. m(jc_job_type c \<mapsto> config_of_row c)) rows DefaultJobConfigs\<rparr>,
             st_db := s\<rparr>)"

definition getJobConfig :: "string \<Rightarrow> 'l processor \<Rightarrow> job_type_config" where
  "getJobConfig ty p =
     (case wk_configs p ty of
        Some c \<Rightarrow> c
      | None \<Rightarrow> (case DefaultJobConfigs ty of Some c \<Rightarrow> c | None \<Rightarrow> zero_job_config))"

text \<open>The notification channel holds 100 entries; a full channel drops the notification.\<close>

definition worker_NotifyNewJob :: "'l processor \<Rightarrow> 'l processor" where
  "worker_NotifyNewJob p = (if wk_notify p < 100 then p\<lparr>wk_notify := wk_notify p + 1\<rparr> else p)"

definition PendingJobs :: "('l, 'w) worker \<Rightarrow> int \<times> ('l, 'w) worker" where
  "PendingJobs st =
     (case on_db GetPendingJobCount st of
        (Inl _, st') \<Rightarrow> (0, st') | (Inr n, st') \<Rightarrow> (n, st'))"

section \<open>Backoff\<close>

text \<open>
  \<open>calculateBackoffWithJitter\<close> on 64-bit durations, which wrap around; \<open>1 << (attempt-1)\<close> is
  zero from 64 on and panics for a negative count, and \<open>rand.Int63n\<close> panics unless its
  argument is positive. \<open>None\<close> is a panic.
\<close>

definition backoff_delay :: "int \<Rightarrow> job_type_config \<Rightarrow> 64 word" where
  "backoff_delay attempt cfg =
     (let base = word_of_int (jt_backoff_base_sec cfg) * word_of_int second :: 64 word;
          cap = word_of_int (jt_backoff_max_sec cfg) * word_of_int second :: 64 word;
          delay = base * push_bit (nat (attempt - 1)) 1
      in if sint cap < sint delay then cap else delay)"

text \<open>The division of signed integers in Go truncates towards zero.\<close>

definition trunc_div :: "int \<Rightarrow> int \<Rightarrow> int" where
  "trunc_div a b = sgn a * sgn b * (\<bar>a\<bar> div \<bar>b\<bar>)"

definition calculateBackoffWithJitter ::
  "(int \<Rightarrow> 'w \<Rightarrow> int \<times> 'w) \<Rightarrow> int \<Rightarrow> job_type_config \<Rightarrow> 'w \<Rightarrow> duration option \<times> 'w" where
  "calculateBackoffWithJitter rand attempt cfg w =
     (if attempt < 1 then (None, w)
      else let delay = backoff_delay attempt cfg;
               bound = trunc_div (sint delay) 5
           in if bound \<le> 0 then (None, w)
              else case rand bound w of
                (jitter, w') \<Rightarrow> (Some (sint (delay + word_of_int jitter)), w'))"

section \<open>Handlers\<close>

text \<open>A handler returns the text of its error, if any.\<close>

definition payload_fields :: "string \<Rightarrow> (string \<times> json) list option" where
  "payload_fields payload =
     (case json_parse payload of None \<Rightarrow> None | Some v \<Rightarrow> as_struct v)"

definition send_mail ::
  "('l, 'w) worker_env \<Rightarrow> string \<Rightarrow> string \<Rightarrow> string \<Rightarrow> ('l, 'w) worker
   \<Rightarrow> string option \<times> ('l, 'w) worker" where
  "send_mail env to subject body st =
     (case env_mail env to subject body (st_world st) of
        ((e, d), w) \<Rightarrow> (e, pass_time d (st\<lparr>st_world := w\<rparr>)))"

definition handleSendEmail ::
  "('l, 'w) worker_env \<Rightarrow> string \<Rightarrow> ('l, 'w) worker \<Rightarrow> string option \<times> ('l, 'w) worker" where
  "handleSendEmail env payload st =
     (case payload_fields payload of
        None \<Rightarrow> (Some (env_json_error env payload), st)
      | Some ms \<Rightarrow>
          (case (string_field ''to'' ms, string_field ''subject'' ms, string_field ''body'' ms) of
             (Some to, Some subject, Some body) \<Rightarrow> send_mail env to subject body st
           | _ \<Rightarrow> (Some (env_json_error env payload), st)))"

text \<open>The texts of the two mails, in UTF-8.\<close>

definition verification_subject :: string where
  "verification_subject = ''Verifique seu E-mail''"

definition verification_body :: "string \<Rightarrow> string" where
  "verification_body token =
     ''Ol'' @ [CHR 0xC3, CHR 0xA1] @ '','' @ [CHR 0x0A, CHR 0x0A] @
     ''Bem-vindo! Clique no link abaixo para verificar seu e-mail:'' @ [CHR 0x0A, CHR 0x0A] @
     ''http://localhost:8080/verify-email?token='' @ token"

definition reset_subject :: string where
  "reset_subject = ''Recupera'' @ [CHR 0xC3, CHR 0xA7, CHR 0xC3, CHR 0xA3] @ ''o de Senha''"

definition reset_body :: "string \<Rightarrow> string" where
  "reset_body token =
     ''Ol'' @ [CHR 0xC3, CHR 0xA1] @ '','' @ [CHR 0x0A, CHR 0x0A] @
     ''Clique no link abaixo para redefinir sua senha:'' @ [CHR 0x0A, CHR 0x0A] @
     ''http://localhost:8080/reset-password?token='' @ token @ [CHR 0x0A, CHR 0x0A] @
     ''Este link expira em 1 hora.''"

definition handleSendVerificationEmail ::
  "('l, 'w) worker_env \<Rightarrow> string \<Rightarrow> ('l, 'w) worker \<Rightarrow> string option \<times> ('l, 'w) worker" where
  "handleSendVerificationEmail env payload st =
     (case payload_fields payload of
        None \<Rightarrow> (Some (env_json_error env payload), st)
      | Some ms \<Rightarrow>
          (case (string_field ''email'' ms, string_field ''token'' ms) of
             (Some email, Some token) \<Rightarrow>
               send_mail env email verification_subject (verification_body token) st
           | _ \<Rightarrow> (Some (env_json_error env payload), st)))"

definition handleSendPasswordResetEmail ::
  "('l, 'w) worker_env \<Rightarrow> string \<Rightarrow> ('l, 'w) worker \<Rightarrow> string option \<times> ('l, 'w) worker" where
  "handleSendPasswordResetEmail env payload st =
     (case payload_fields payload of
        None \<Rightarrow> (Some (env_json_error env payload), st)
      | Some ms \<Rightarrow>
          (case (string_field ''email'' ms, string_field ''token'' ms) of
             (Some email, Some token) \<Rightarrow> send_mail env email reset_subject (reset_body token) st
           | _ \<Rightarrow> (Some (env_json_error env payload), st)))"

definition handleProcessAI ::
  "('l, 'w) worker_env \<Rightarrow> string \<Rightarrow> ('l, 'w) worker \<Rightarrow> string option \<times> ('l, 'w) worker" where
  "handleProcessAI env payload st =
     (case payload_fields payload of
        None \<Rightarrow> (Some (env_json_error env payload), st)
      | Some ms \<Rightarrow>
          (case string_field ''prompt'' ms of
             Some prompt \<Rightarrow> (None, pass_time (nat (2 * second)) st)
           | None \<Rightarrow> (Some (env_json_error env payload), st)))"

definition handleProcessWebhook ::
  "('l, 'w) worker_env \<Rightarrow> string \<Rightarrow> ('l, 'w) worker \<Rightarrow> string option \<times> ('l, 'w) worker" where
  "handleProcessWebhook env payload st =
     (case payload_fields payload of
        None \<Rightarrow> (Some (env_json_error env payload), st)
      | Some ms \<Rightarrow>
          (case (int64_field ''webhook_id'' ms, string_field ''source'' ms, string_field ''event_id'' ms) of
             (Some i, Some source, Some ev) \<Rightarrow>
               if source = ''asaas'' then
                 (case on_db (ProcessWebhookEvent i source ev) st of
                    (Inr _, st') \<Rightarrow> (None, st')
                  | (Inl (HookDbError e), st') \<Rightarrow> (Some (dberr_text e), st')
                  | (Inl (HookBadPayload t), st') \<Rightarrow> (Some (env_json_error env t), st'))
               else (None, st)
           | _ \<Rightarrow> (Some (env_json_error env payload), st)))"

text \<open>The switch on the job type.\<close>

definition run_handler ::
  "('l, 'w) worker_env \<Rightarrow> job \<Rightarrow> ('l, 'w) worker \<Rightarrow> string option \<times> ('l, 'w) worker" where
  "run_handler env j st =
     (let ty = j_type j in
      if ty = ''send_email'' then handleSendEmail env (j_payload j) st
      else if ty = ''send_password_reset_email'' then handleSendPasswordResetEmail env (j_payload j) st
      else if ty = ''send_verification_email'' then handleSendVerificationEmail env (j_payload j) st
      else if ty = ''process_ai'' then handleProcessAI env (j_payload j) st
      else if ty = ''process_webhook'' then handleProcessWebhook env (j_payload j) st
      else (Some (''unknown job type: '' @ ty), st))"

section \<open>Processing one job\<close>

definition moveToDeadLetterQueue ::
  "('l, 'w) worker_env \<Rightarrow> job \<Rightarrow> string \<Rightarrow> ('l, 'w) worker \<Rightarrow> ('l, 'w) worker" where
  "moveToDeadLetterQueue env j err st =
     do_db (CreateDeadLetterJob (j_id j) (j_type j) (j_payload j) err
       (case j_attempt_count j of None \<Rightarrow> 0 | Some n \<Rightarrow> n) (j_tenant j)
       (env_metadata env (wk_worker_id (st_proc st)) (j_started_at j) err)) st"

definition breaker_allows :: "string \<Rightarrow> ('l, 'w) worker \<Rightarrow> bool \<times> ('l, 'w) worker" where
  "breaker_allows ty st =
     (case wk_breaker (st_proc st) of
        None \<Rightarrow> (True, st)
      | Some b \<Rightarrow>
          (case wb_Allow (now st) ty b of
             (ok, b') \<Rightarrow> (ok, st\<lparr>st_proc := (st_proc st)\<lparr>wk_breaker := Some b'\<rparr>\<rparr>)))"

definition breaker_records ::
  "(instant \<Rightarrow> string \<Rightarrow> worker_breaker \<Rightarrow> worker_breaker) \<Rightarrow> string \<Rightarrow> ('l, 'w) worker \<Rightarrow> ('l, 'w) worker" where
  "breaker_records record ty st =
     st\<lparr>st_proc := (st_proc st)\<lparr>wk_breaker := map_option (record (now st) ty) (wk_breaker (st_proc st))\<rparr>\<rparr>"

text \<open>
  The rate limit: \<open>None\<close> lets the job pass, \<open>Some d\<close> is the delay the limiter asks for
  when it does not.
\<close>

definition throttler_delay ::
  "('l, 'w) worker_env \<Rightarrow> string \<Rightarrow> ('l, 'w) worker \<Rightarrow> duration option \<times> ('l, 'w) worker" where
  "throttler_delay env ty st =
     (case wk_throttler (st_proc st) of
        None \<Rightarrow> (None, st)
      | Some t \<Rightarrow>
          (case th_Allow (env_limiter env) (now st) ty t of
             (True, t1) \<Rightarrow> (None, st\<lparr>st_proc := (st_proc st)\<lparr>wk_throttler := Some t1\<rparr>\<rparr>)
           | (False, t1) \<Rightarrow>
               (case th_Delay (env_limiter env) (now st) ty t1 of
                  (d, t2) \<Rightarrow> (Some d, st\<lparr>st_proc := (st_proc st)\<lparr>wk_throttler := Some t2\<rparr>\<rparr>))))"

text \<open>
  The writes that close a job. With the writer (which refines the direct calls, see
  \<open>Db_Writer\<close>) the two statements are separate, without it they are one transaction.
\<close>

definition record_and_complete :: "bool \<Rightarrow> int \<Rightarrow> unit query" where
  "record_and_complete has_writer i =
     (let both = and_then (RecordJobProcessed i) (\<lambda>_. CompleteJob i)
      in if has_writer then both else transaction both)"

text \<open>\<open>fmt.Sscanf(v, "%d", &n)\<close>: leading spaces, a sign, digits, within 64 bits.\<close>

definition scan_int :: "string \<Rightarrow> int option" where
  "scan_int v =
     (let r = dropWhile (\<lambda>c. c = CHR '' '' \<or> c = CHR 0x09 \<or> c = CHR 0x0D) v;
          (neg, r') = (case r of
              c # cs \<Rightarrow> if c = CHR ''-'' then (True, cs) else if c = CHR ''+'' then (False, cs) else (False, r)
            | [] \<Rightarrow> (False, []));
          ds = takeWhile is_digit r';
          n = (if neg then - int (digits_value ds) else int (digits_value ds))
      in if ds = [] \<or> n < - (2 ^ 63) \<or> 2 ^ 63 \<le> n then None else Some n)"

definition job_completed_message :: "job \<Rightarrow> sse_message" where
  "job_completed_message j =
     (case j_tenant j of
        None \<Rightarrow> ToAll ''job_completed'' (j_type j)
      | Some t \<Rightarrow>
          (case scan_int t of
             None \<Rightarrow> ToAll ''job_completed'' (j_type j)
           | Some u \<Rightarrow>
               if 0 < u then ToUser u ''job_completed'' (j_type j)
               else ToAll ''job_completed'' (j_type j)))"

text \<open>What follows a failed handler. The backoff is computed in both branches and may panic.\<close>

definition after_failure ::
  "('l, 'w) worker_env \<Rightarrow> job \<Rightarrow> job_type_config \<Rightarrow> string \<Rightarrow> ('l, 'w) worker
   \<Rightarrow> unit go_result \<times> ('l, 'w) worker" where
  "after_failure env j cfg err st =
     (let attempts = (case j_attempt_count j of None \<Rightarrow> 0 | Some n \<Rightarrow> n) + 1 in
      case calculateBackoffWithJitter (env_rand env) attempts cfg (st_world st) of
        (None, w) \<Rightarrow> (Panics, st\<lparr>st_world := w\<rparr>)
      | (Some delay, w) \<Rightarrow>
          (let st1 = st\<lparr>st_world := w\<rparr>; retry_at = now st1 + delay in
           if jt_max_attempts cfg \<le> attempts then
             (let st2 = moveToDeadLetterQueue env j err st1;
                  st3 = do_db (FailJob (Some err) (j_id j)) st2
              in (Returns (), breaker_records wb_RecordFailure (j_type j) st3))
           else
             (let st2 = do_db (UpdateJobNextRetry (Some retry_at) (j_id j)) st1;
                  st3 = do_db (FailJob (Some err) (j_id j)) st2
              in (Returns (), breaker_records wb_RecordFailure (j_type j) st3))))"

text \<open>
  What follows a handler without error. The hourly metrics are upserted with the duration of
  the job in milliseconds; the error of that statement is dropped.
\<close>

definition after_success ::
  "('l, 'w) worker_env \<Rightarrow> job \<Rightarrow> instant \<Rightarrow> ('l, 'w) worker \<Rightarrow> ('l, 'w) worker" where
  "after_success env j start st =
     (case on_db (record_and_complete (wk_has_writer (st_proc st)) (j_id j)) st of
        (Inl _, st1) \<Rightarrow> st1
      | (Inr _, st1) \<Rightarrow>
          (let ms = Fin (of_int (now st - start) / 1000000);
               st2 = do_db (UpsertJobMetricsHourly (env_hour env (now st1)) (j_type j) 1 1 0 ms) st1;
               st3 = breaker_records wb_RecordSuccess (j_type j) st2
           in st3\<lparr>st_sse := st_sse st3 @ [job_completed_message j]\<rparr>))"

text \<open>The part of \<open>processNext\<close> after a job was picked, in the order of the code.\<close>

definition process_picked ::
  "('l, 'w) worker_env \<Rightarrow> job \<Rightarrow> ('l, 'w) worker \<Rightarrow> unit go_result \<times> ('l, 'w) worker" where
  "process_picked env j st =
     (let cfg = getJobConfig (j_type j) (st_proc st); start = now st in
      if \<not> jt_enabled cfg then (Returns (), do_db (CompleteJob (j_id j)) st)
      else case breaker_allows (j_type j) st of
        (False, st1) \<Rightarrow>
          (Returns (), do_db (UpdateJobNextRetry (Some (now st1 + 30 * second)) (j_id j)) st1)
      | (True, st1) \<Rightarrow>
          (case throttler_delay env (j_type j) st1 of
             (Some d, st2) \<Rightarrow>
               (Returns (), do_db (UpdateJobNextRetry (Some (now st2 + d)) (j_id j)) st2)
           | (None, st2) \<Rightarrow>
               (case on_db (IsJobProcessed (j_id j)) st2 of
                  (processed, st3) \<Rightarrow>
                    if processed = Inr 1 then (Returns (), do_db (CompleteJob (j_id j)) st3)
                    else case run_handler env j st3 of
                      (Some err, st4) \<Rightarrow> after_failure env j cfg err st4
                    | (None, st4) \<Rightarrow> (Returns (), after_success env j start st4))))"

text \<open>
  \<open>processNext\<close>. The counters of active jobs go up for the time of the job and down again
  when it returns or panics, so they are as before afterwards.
\<close>

definition processNext ::
  "('l, 'w) worker_env \<Rightarrow> ('l, 'w) worker \<Rightarrow> unit go_result \<times> ('l, 'w) worker" where
  "processNext env st =
     (case on_db (PickNextJobWithWorker (Some (wk_worker_id (st_proc st)))) st of
        (Inl _, st1) \<Rightarrow> (Returns (), st1)
      | (Inr j, st1) \<Rightarrow> process_picked env j st1)"

section \<open>Stale jobs and zombies\<close>

definition timeout_text :: "int \<Rightarrow> string" where
  "timeout_text secs = ''Job timed out after '' @ string_of_int secs @ '' seconds''"

definition expire_job ::
  "('l, 'w) worker_env \<Rightarrow> job \<Rightarrow> ('l, 'w) worker \<Rightarrow> ('l, 'w) worker" where
  "expire_job env j st =
     (let cfg = getJobConfig (j_type j) (st_proc st);
          secs = (if jt_timeout_seconds cfg \<le> 0 then 300 else jt_timeout_seconds cfg)
      in do_db (TimeoutJob (j_id j)) (moveToDeadLetterQueue env j (timeout_text secs) st))"

definition checkStaleJobs :: "('l, 'w) worker_env \<Rightarrow> ('l, 'w) worker \<Rightarrow> ('l, 'w) worker" where
  "checkStaleJobs env st =
     (case on_db (GetStaleProcessingJobs 600) st of
        (Inl _, st1) \<Rightarrow> st1
      | (Inr js, st1) \<Rightarrow> fold (expire_job env) js st1)"

text \<open>One zombie: \<open>next_retry_at\<close>, then, unless that failed, \<open>FailJob\<close>.\<close>

definition rescue_job :: "job \<Rightarrow> ('l, 'w) worker \<Rightarrow> ('l, 'w) worker" where
  "rescue_job j st =
     (case on_db (UpdateJobNextRetry (Some (now st)) (j_id j)) st of
        (Inl _, st1) \<Rightarrow> st1
      | (Inr _, st1) \<Rightarrow> do_db (FailJob (Some ''Job rescued from zombie state'') (j_id j)) st1)"

definition RescueZombies :: "('l, 'w) worker \<Rightarrow> (dberr + unit) \<times> ('l, 'w) worker" where
  "RescueZombies st =
     (case on_db (GetStaleProcessingJobs 300) st of
        (Inl e, st1) \<Rightarrow> (Inl e, st1)
      | (Inr js, st1) \<Rightarrow> (Inr (), fold rescue_job js st1))"

section \<open>Scaling\<close>

text \<open>
  \<open>evaluateScaling\<close>: the new number of workers and whether a goroutine is spawned. \<open>cpus\<close> is
  \<open>runtime.NumCPU()\<close>. Scaling down changes the number only: no goroutine stops.
\<close>

definition evaluateScaling :: "int \<Rightarrow> ('l, 'w) worker \<Rightarrow> bool \<times> ('l, 'w) worker" where
  "evaluateScaling cpus st =
     (case PendingJobs st of
        (pending, st1) \<Rightarrow>
          (let p = st_proc st1;
               current = wk_worker_count p;
               effective_max = min (wk_max_workers p) (4 * cpus)
           in if 50 < pending \<and> current < effective_max
              then (True, st1\<lparr>st_proc := p\<lparr>wk_worker_count := current + 1\<rparr>\<rparr>)
              else if pending = 0 \<and> wk_active_jobs p = 0 \<and> wk_min_workers p < current
              then (False, st1\<lparr>st_proc := p\<lparr>wk_worker_count := current - 1\<rparr>\<rparr>)
              else (False, st1)))"

definition ScaleWorkers :: "int \<Rightarrow> 'l processor \<Rightarrow> 'l processor" where
  "ScaleWorkers wanted p =
     (let c1 = (if wanted < wk_min_workers p then wk_min_workers p else wanted);
          c2 = (if wk_max_workers p < c1 then wk_max_workers p else c1)
      in p\<lparr>wk_worker_count := c2, wk_scale_pending := True\<rparr>)"

definition GetWorkerCount :: "'l processor \<Rightarrow> int" where
  "GetWorkerCount p = wk_worker_count p"

definition SetAutoScaleEnabled :: "bool \<Rightarrow> 'l processor \<Rightarrow> 'l processor" where
  "SetAutoScaleEnabled on p = p\<lparr>wk_auto_scale := on\<rparr>"

definition ActiveJobs :: "'l processor \<Rightarrow> int" where
  "ActiveJobs p = wk_active_jobs p"

text \<open>The numbers of workers \<open>New\<close> starts from; \<open>factor\<close> is the configured CPU multiplier.\<close>

definition initial_limits :: "int \<Rightarrow> rat \<Rightarrow> int \<Rightarrow> int \<Rightarrow> int \<Rightarrow> int \<times> int \<times> int" where
  "initial_limits cpus factor cfg_min cfg_max cfg_count =
     (let lo = (if cfg_min = 0 then 1 else cfg_min);
          hi = (if 0 < cfg_max then cfg_max else max 8 \<lfloor>of_int cpus * factor\<rfloor>);
          n = (if cfg_count = 0 then max 2 \<lfloor>of_int cpus * factor / 2\<rfloor> else cfg_count)
      in (lo, hi, n))"

section \<open>The worker takes only steps of the queue\<close>

lemma read_only_job_step: "(\<And>s. snd (q s) = s) \<Longrightarrow> job_step s (snd (run q s))"
  by (rule job_step.elsewhere, rule run_rel) (simp_all add: same_job_tables_def)

lemma read_statements [simp]:
  "job_step s (snd (IsJobProcessed i s))"
  "job_step s (snd (GetStaleProcessingJobs n s))"
  "job_step s (snd (GetPendingJobCount s))"
  "job_step s (snd (UpsertJobMetricsHourly h ty a b c d s))"
  unfolding IsJobProcessed_def GetStaleProcessingJobs_def GetPendingJobCount_def UpsertJobMetricsHourly_def
  by (rule read_only_job_step, simp)+

lemma set_faults_job_step: "job_step s (s\<lparr>faults := fs\<rparr>)"
  by (rule job_step.elsewhere) (simp add: same_job_tables_def)

lemma and_then_steps:
  assumes "\<And>s. job_steps s (snd (q s))" and "\<And>v s. job_steps s (snd (k v s))"
  shows "job_steps s (snd (and_then q k s))"
proof (cases "q s")
  case (Pair r s1)
  then have "job_steps s s1" using assms(1) [of s] by simp
  with Pair assms(2) [of s1] show ?thesis
    by (auto simp: and_then_def split: sum.split intro: rtranclp_trans)
qed

lemma transaction_steps:
  assumes "\<And>s. job_steps s (snd (body s))" and "\<And>s. clock (snd (body s)) = clock s"
  shows "job_steps s (snd (transaction body s))"
proof -
  obtain r s' where rs: "transaction body s = (r, s')" by force
  then have clock: "clock s' = clock s" using clock_transaction [OF assms(2), of s] by simp
  from rs have "job_steps s s'"
  proof (cases rule: transaction_cases)
    case (aborted e)
    have "same_job_tables s (s\<lparr>clock := clock s, faults := fs\<rparr>)" for fs
      by (simp add: same_job_tables_def)
    then have "same_job_tables s s'" using aborted(2) clock by metis
    then show ?thesis by (intro r_into_rtranclp job_step.elsewhere)
  next
    case (committed v fs fs' s2)
    have "job_steps (s\<lparr>faults := fs\<rparr>) s2" using assms(1) [of "s\<lparr>faults := fs\<rparr>"] committed(1) by simp
    with set_faults_job_step [of s fs] have "job_steps s s2" by (rule converse_rtranclp_into_rtranclp)
    then show ?thesis
      unfolding committed(3) using set_faults_job_step [of s2 fs'] by (rule rtranclp.rtrancl_into_rtrancl)
  qed
  with rs show ?thesis by simp
qed

lemma record_and_complete_steps: "job_steps s (snd (record_and_complete w i s))"
proof -
  have both: "job_steps s (snd (and_then (RecordJobProcessed i) (\<lambda>_. CompleteJob i) s))" for s
    by (rule and_then_steps) (auto intro: r_into_rtranclp job_step.intros)
  have "clock (snd (RecordJobProcessed i s)) = clock s" "clock (snd (CompleteJob i s)) = clock s" for s
    unfolding RecordJobProcessed_def CompleteJob_def
    by (rule clock_run, simp add: update_jobs_status_def)+
  then have "clock (snd (and_then (RecordJobProcessed i) (\<lambda>_. CompleteJob i) s)) = clock s" for s
    by (auto simp: and_then_def split: sum.split prod.split) (metis snd_conv)+
  with both show ?thesis
    unfolding record_and_complete_def by (auto simp: Let_def intro: transaction_steps)
qed

definition db_path :: "('l, 'w) worker \<Rightarrow> ('l, 'w) worker \<Rightarrow> bool" where
  "db_path st st' \<longleftrightarrow> job_steps (st_db st) (st_db st')"

lemma db_path_refl [simp]: "db_path st st"
  by (simp add: db_path_def)

lemma db_path_trans: "db_path a b \<Longrightarrow> db_path b c \<Longrightarrow> db_path a c"
  by (auto simp: db_path_def)

lemma db_path_same: "st_db st' = st_db st \<Longrightarrow> db_path st st'"
  by (simp add: db_path_def)

lemma db_path_on_db: "(\<And>s. job_steps s (snd (q s))) \<Longrightarrow> on_db q st = (r, st') \<Longrightarrow> db_path st st'"
  by (auto simp: on_db_def db_path_def split: prod.splits) (metis snd_conv)

lemma db_path_do_db: "(\<And>s. job_steps s (snd (q s))) \<Longrightarrow> db_path st (do_db q st)"
  by (simp add: do_db_def db_path_def)

lemma db_path_pass_time: "db_path st (pass_time d st)"
  by (auto simp: pass_time_def db_path_def same_job_tables_def intro!: r_into_rtranclp job_step.elsewhere)

text \<open>A handler leaves the job tables alone, and an empty fault schedule empty.\<close>

definition db_quiet :: "db \<Rightarrow> db \<Rightarrow> bool" where
  "db_quiet s s' \<longleftrightarrow> same_job_tables s s' \<and> (faults s = [] \<longrightarrow> faults s' = [])"

lemma db_quiet_refl [simp]: "db_quiet s s"
  by (simp add: db_quiet_def)

lemma db_quiet_clock [simp]: "db_quiet s (s\<lparr>clock := clock s + int d\<rparr>)"
  by (simp add: db_quiet_def same_job_tables_def)

lemma faults_run_keeps: "faults s = [] \<Longrightarrow> faults (snd (q s)) = [] \<Longrightarrow> faults (snd (run q s)) = []"
  by (simp add: run_no_faults)

lemma ProcessWebhookEvent_quiet: "db_quiet s (snd (ProcessWebhookEvent i source ev s))"
proof -
  have "faults (snd (ProcessWebhookEvent i source ev s)) = []" if "faults s = []"
  proof -
    have "faults (snd (CreateProcessedWebhookEvent source ev (Some i) (dispatch_event pl s))) = []" for pl
      using dispatch_event_faults [OF that, of pl]
      by (simp add: CreateProcessedWebhookEvent_def run_no_faults)
    then have "faults s3 = []"
      if "CreateProcessedWebhookEvent source ev (Some i) (dispatch_event pl s) = (x, s3)" for pl x s3
      using that by (metis snd_conv)
    with that show ?thesis
      by (auto simp: ProcessWebhookEvent_def IsWebhookEventProcessed_def GetWebhookByID_def run_no_faults
          split: option.split prod.split sum.split)
  qed
  then show ?thesis by (simp add: db_quiet_def ProcessWebhookEvent_job_tables)
qed

lemma quiet_handler: "db_quiet (st_db st) (st_db (snd (run_handler env j st)))"
proof -
  have mail: "db_quiet (st_db st) (st_db (snd (send_mail env to subject body st)))" for to subject body
    by (simp add: send_mail_def pass_time_def split: prod.split)
  have ai: "db_quiet (st_db st) (st_db (pass_time d st))" for d
    by (simp add: pass_time_def)
  have hook: "db_quiet (st_db st) (st_db st')"
    if "on_db (ProcessWebhookEvent i source ev) st = (r, st')" for i source ev r st'
    using that ProcessWebhookEvent_quiet [of "st_db st" i source ev]
    by (auto simp: on_db_def split: prod.splits)
  have webhook: "db_quiet (st_db st) (st_db (snd (handleProcessWebhook env (j_payload j) st)))"
    unfolding handleProcessWebhook_def
    by (auto split: option.split prod.split sum.split hook_error.split dest: hook)
  show ?thesis
    unfolding run_handler_def Let_def handleSendEmail_def handleSendPasswordResetEmail_def
      handleSendVerificationEmail_def handleProcessAI_def
    using webhook by (simp add: mail ai split: option.split)
qed

lemma db_path_handler: "db_path st (snd (run_handler env j st))"
  using quiet_handler [of st env j] unfolding db_path_def db_quiet_def
  by (blast intro: r_into_rtranclp job_step.elsewhere)

lemma db_path_breaker: "breaker_allows ty st = (ok, st') \<Longrightarrow> st_db st' = st_db st"
  by (auto simp: breaker_allows_def split: option.splits prod.splits)

lemma st_db_throttler: "throttler_delay env ty st = (d, st') \<Longrightarrow> st_db st' = st_db st"
  by (auto simp: throttler_delay_def split: option.splits prod.splits bool.splits)

lemma st_db_records [simp]: "st_db (breaker_records f ty st) = st_db st"
  by (simp add: breaker_records_def)

lemma db_path_records [simp]: "db_path st (breaker_records f ty st') = db_path st st'"
  by (simp add: db_path_def)

lemma db_path_after_failure: "db_path st (snd (after_failure env j cfg err st))"
proof -
  have dl: "db_path st (moveToDeadLetterQueue env j err st)" for st :: "('a, 'b) worker"
    unfolding moveToDeadLetterQueue_def
    by (rule db_path_do_db) (auto intro: r_into_rtranclp job_step.dead_letter)
  have fail: "db_path st (do_db (FailJob e i) st)" for st :: "('a, 'b) worker" and e i
    by (rule db_path_do_db) (auto intro: r_into_rtranclp job_step.fail)
  have retry: "db_path st (do_db (UpdateJobNextRetry t i) st)" for st :: "('a, 'b) worker" and t i
    by (rule db_path_do_db) (auto intro: r_into_rtranclp job_step.next_retry)
  have w: "db_path st (st\<lparr>st_world := w\<rparr>)" for w by (rule db_path_same) simp
  show ?thesis
    unfolding after_failure_def Let_def
    using dl fail retry w
    by (auto split: prod.split option.split) (meson db_path_trans)+
qed

lemma db_path_after_success: "db_path st (after_success env j start st)"
proof -
  have rc: "db_path st st'" if "on_db (record_and_complete b i) st = (r, st')" for b i r st'
    by (rule db_path_on_db [OF record_and_complete_steps that])
  have m: "db_path st (do_db (UpsertJobMetricsHourly h ty x y z d) st)" for st :: "('a, 'b) worker" and h ty x y z d
    by (rule db_path_do_db) (auto intro: r_into_rtranclp)
  have sse: "db_path st (st'\<lparr>st_sse := ms\<rparr>) = db_path st st'" for st st' :: "('a, 'b) worker" and ms
    by (simp add: db_path_def)
  show ?thesis
    unfolding after_success_def Let_def
    by (auto split: prod.split sum.split simp: sse dest: rc intro: db_path_trans [OF rc m])
qed

lemma db_path_process_picked: "db_path st (snd (process_picked env j st))"
proof -
  have complete: "db_path st (do_db (CompleteJob i) st)" for st :: "('a, 'b) worker" and i
    by (rule db_path_do_db) (auto intro: r_into_rtranclp job_step.complete)
  have retry: "db_path st (do_db (UpdateJobNextRetry t i) st')" if "db_path st st'"
    for st st' :: "('a, 'b) worker" and t i
    using that by (rule db_path_trans, intro db_path_do_db) (auto intro: r_into_rtranclp job_step.next_retry)
  have checked: "db_path st st'" if "on_db (IsJobProcessed i) st = (r, st')" for st st' :: "('a, 'b) worker" and i r
    by (rule db_path_on_db [OF _ that]) (auto intro: r_into_rtranclp)
  obtain ok st1 where 1: "breaker_allows (j_type j) st = (ok, st1)" by force
  then have p1: "db_path st st1" by (auto intro: db_path_same dest: db_path_breaker)
  obtain d st2 where 2: "throttler_delay env (j_type j) st1 = (d, st2)" by force
  then have p2: "db_path st st2" using p1 by (auto simp: db_path_def dest: st_db_throttler)
  obtain r st3 where 3: "on_db (IsJobProcessed (j_id j)) st2 = (r, st3)" by force
  then have p3: "db_path st st3" using p2 checked db_path_trans by blast
  obtain e st4 where 4: "run_handler env j st3 = (e, st4)" by force
  then have p4: "db_path st st4" using p3 db_path_handler [of st3 env j] db_path_trans by (metis snd_conv)
  have failed: "db_path st (snd (after_failure env j cfg err st4))" for cfg err
    using p4 db_path_after_failure by (rule db_path_trans)
  have succeeded: "db_path st (after_success env j t st4)" for t
    using p4 db_path_after_success by (rule db_path_trans)
  have skipped: "db_path st (do_db (CompleteJob (j_id j)) st3)"
    using p3 complete by (rule db_path_trans)
  show ?thesis
    unfolding process_picked_def Let_def 1
    by (simp add: 2 3 4 complete retry [OF p1] retry [OF p2] failed succeeded skipped
        split: bool.split option.split)
qed

lemma processNext_picked:
  assumes "PickNextJobWithWorker (Some (wk_worker_id (st_proc st))) (st_db st) = (Inr j, s1)"
  shows "processNext env st = process_picked env j (st\<lparr>st_db := s1\<rparr>)"
  using assms by (simp add: processNext_def on_db_def)

text \<open>C2: no job is ever attempted twice: once a worker picked a job, then whatever becomes of it (done,
  failed with a retry scheduled, held back by the breaker or the rate limit, a panic) and whatever
  happens to the queue afterwards, no worker gets that job again.\<close>

theorem no_job_is_retried:
  assumes "jobs_wf (st_db st)"
    and "PickNextJobWithWorker (Some (wk_worker_id (st_proc st))) (st_db st) = (Inr j, s1)"
    and "processNext env st = (out, st1)" and "job_steps (st_db st1) s2"
    and "PickNextJobWithWorker w s2 = (Inr j', s3)"
  shows "j_id j' \<noteq> j_id j"
proof -
  have "process_picked env j (st\<lparr>st_db := s1\<rparr>) = (out, st1)"
    using processNext_picked [OF assms(2), of env] assms(3) by simp
  with db_path_process_picked [of "st\<lparr>st_db := s1\<rparr>" env j] have "job_steps s1 (st_db st1)"
    by (simp add: db_path_def)
  then have "job_steps s1 s2" using assms(4) by (rule rtranclp_trans)
  with assms(1,2) show ?thesis using assms(5) by (rule job_queue.picked_once)
qed

section \<open>An example\<close>

text \<open>
  A worker on the queue of two jobs, with no breaker and no limiter, a mail server that takes
  every mail at once, and a limiter library that refuses everything.
\<close>

definition demo_env :: "(unit, unit) worker_env" where
  "demo_env =
     \<lparr>env_limiter = \<lparr>lim_new = (\<lambda>_ _. ()), lim_allow = (\<lambda>_ _. (False, ())), lim_wait = (\<lambda>_ _. (None, ())),
        lim_reserve_delay = (\<lambda>_ _. (second, ()))\<rparr>,
      env_mail = (\<lambda>to subject body w. ((None, 5), w)), env_rand = (\<lambda>n w. (0, w)),
      env_json_error = (\<lambda>_. ''bad payload''), env_metadata = (\<lambda>_ _ _. ''{}''), env_hour = (\<lambda>_. ''h'')\<rparr>"

definition demo_worker :: "(unit, unit) worker" where
  "demo_worker =
     \<lparr>st_proc = \<lparr>wk_configs = DefaultJobConfigs, wk_worker_id = ''w1'', wk_breaker = None, wk_throttler = None,
        wk_has_writer = True, wk_active_jobs = 0, wk_worker_count = 2, wk_min_workers = 1,
        wk_max_workers = 8, wk_notify = 0, wk_scale_pending = False, wk_auto_scale = True\<rparr>,
      st_db = two_jobs, st_sse = [], st_world = ()\<rparr>"

definition demo_done :: "unit go_result \<times> (unit, unit) worker" where
  "demo_done = processNext demo_env demo_worker"

definition demo_next :: "(dberr + job) \<times> db" where
  "demo_next = PickNextJobWithWorker (Some ''w2'') (st_db (snd demo_done))"

lemma demo_next_ok: "is_ok (fst demo_next)"
  by code_simp

theorem no_job_is_retried_witness:
  "\<exists>j j'. fst first_pick = Inr j \<and> fst demo_next = Inr j' \<and> j_id j' \<noteq> j_id j"
proof -
  have proc: "st_db demo_worker = two_jobs" "wk_worker_id (st_proc demo_worker) = ''w1''"
    by (simp_all add: demo_worker_def)
  obtain j s1 where j: "PickNextJobWithWorker (Some ''w1'') two_jobs = (Inr j, s1)"
    using picks_succeed unfolding first_pick_def is_ok_iff by (metis prod.collapse)
  obtain j' s3 where j': "PickNextJobWithWorker (Some ''w2'') (st_db (snd demo_done)) = (Inr j', s3)"
    using demo_next_ok unfolding demo_next_def is_ok_iff by (metis prod.collapse)
  have "j_id j' \<noteq> j_id j"
  proof (rule no_job_is_retried)
    show "jobs_wf (st_db demo_worker)" by (simp add: proc jobs_wf_two_jobs)
    show "PickNextJobWithWorker (Some (wk_worker_id (st_proc demo_worker))) (st_db demo_worker) = (Inr j, s1)"
      using j by (simp add: proc)
    show "processNext demo_env demo_worker = (fst demo_done, snd demo_done)" by (simp add: demo_done_def)
    show "job_steps (st_db (snd demo_done)) (st_db (snd demo_done))" by simp
  qed (rule j')
  with j j' show ?thesis by (simp add: first_pick_def demo_next_def)
qed

end
