(* ===== verification/Processor_Outcomes.thy ===== *)
theory Processor_Outcomes
  imports Processor "HOL-Library.Multiset"
begin

text \<open>
  What the worker does to the rows of the queue (\<open>internal/features/jobs/worker/processor.go\<close>):
  the row and the dead letter a picked job ends with on every path of \<open>processNext\<close>, the
  stale job checker, the rescue at start, the backoff and the scaling.
\<close>

section \<open>What becomes of a picked job\<close>

definition job_row :: "int \<Rightarrow> db \<Rightarrow> job option" where
  "job_row i s = find (\<lambda>j. j_id j = i) (t_jobs s)"

lemma job_row_update_status:
  "(\<And>j. j_id (f j) = j_id j) \<Longrightarrow>
   job_row i (update_jobs_status p f s) =
     map_option (\<lambda>j. if p j then fire_job_triggers (clock s) j (f j) else j) (job_row i s)"
  unfolding job_row_def update_jobs_status_def by (simp add: find_update_where)

lemma job_row_id: "job_row i s = Some r \<Longrightarrow> j_id r = i"
  by (auto simp: job_row_def dest: find_Some_in)

lemma job_row_in: "job_row i s = Some r \<Longrightarrow> i \<in> j_id ` set (t_jobs s)"
  by (auto simp: job_row_def dest: find_Some_in)

lemma CompleteJob_row:
  "faults s = [] \<Longrightarrow> job_row i s = Some r \<Longrightarrow>
   \<exists>r'. job_row i (snd (CompleteJob i s)) = Some r' \<and> j_status r' = Completed"
  by (simp add: CompleteJob_def run_no_faults job_row_update_status job_row_id)

lemma FailJob_row:
  "faults s = [] \<Longrightarrow> job_row i s = Some r \<Longrightarrow>
   \<exists>r'. job_row i (snd (FailJob e i s)) = Some r' \<and> j_status r' = Failed \<and> j_last_error r' = e \<and>
        j_attempt_count r' = j_attempt_count r \<and> j_next_retry_at r' = j_next_retry_at r"
  by (simp add: FailJob_def run_no_faults job_row_update_status job_row_id)

lemma UpdateJobNextRetry_row:
  "faults s = [] \<Longrightarrow> job_row i s = Some r \<Longrightarrow>
   job_row i (snd (UpdateJobNextRetry t i s)) = Some (r\<lparr>j_next_retry_at := t\<rparr>)"
  by (simp add: UpdateJobNextRetry_def run_no_faults job_row_def find_update_where)
    (auto dest: find_Some_in)

lemma statement_frames:
  "faults s = [] \<Longrightarrow> faults (snd (FailJob e i s)) = []"
  "faults s = [] \<Longrightarrow> faults (snd (UpdateJobNextRetry t i s)) = []"
  "faults s = [] \<Longrightarrow> faults (snd (CompleteJob i s)) = []"
  "t_dead_letters (snd (FailJob e i s)) = t_dead_letters s"
  "t_dead_letters (snd (UpdateJobNextRetry t i s)) = t_dead_letters s"
  "t_processed_jobs (snd (CompleteJob i s)) = t_processed_jobs s"
  by (auto simp: FailJob_def UpdateJobNextRetry_def CompleteJob_def run_no_faults update_jobs_status_def
      fault_blind_def intro!: run_frame)

lemma CreateDeadLetterJob_row:
  assumes "faults s = []" and "job_row i s = Some r"
  shows "snd (CreateDeadLetterJob i ty payload err n tenant meta s) =
    s\<lparr>t_dead_letters := t_dead_letters s @
        [\<lparr>dl_id = seq_dead_letters s, dl_job_id = i, dl_type = ty, dl_payload = payload, dl_error = err,
          dl_attempt_count = n, dl_failed_at = clock s, dl_tenant = tenant, dl_metadata = meta\<rparr>],
      seq_dead_letters := seq_dead_letters s + 1\<rparr>"
  using assms job_row_in [OF assms(2)] by (simp add: CreateDeadLetterJob_def run_no_faults Let_def)

text \<open>The way of a picked job to its handler.\<close>

lemma process_picked_handler:
  assumes "jt_enabled (getJobConfig (j_type j) (st_proc st))"
    and "breaker_allows (j_type j) st = (True, st1)" and "throttler_delay env (j_type j) st1 = (None, st2)"
    and "faults (st_db st) = []" and "t_processed_jobs (st_db st) (j_id j) = None"
  shows "process_picked env j st =
    (case run_handler env j st2 of
       (Some err, st4) \<Rightarrow> after_failure env j (getJobConfig (j_type j) (st_proc st)) err st4
     | (None, st4) \<Rightarrow> (Returns (), after_success env j (now st) st4))"
proof -
  have db: "st_db st2 = st_db st" using db_path_breaker [OF assms(2)] st_db_throttler [OF assms(3)] by simp
  then have "on_db (IsJobProcessed (j_id j)) st2 = (Inr 0, st2)"
    using assms(4,5) by (simp add: on_db_def IsJobProcessed_def run_no_faults)
  with assms(1-3) show ?thesis by (simp add: process_picked_def)
qed

text \<open>C19: a picked job whose handler succeeds ends completed, with its processed mark set and one
  completion message sent, and the worker goes on.\<close>

theorem successful_job_outcome:
  assumes "faults (st_db st) = []" and "job_row (j_id j) (st_db st) = Some r"
    and "t_processed_jobs (st_db st) (j_id j) = None"
    and "jt_enabled (getJobConfig (j_type j) (st_proc st))"
    and "breaker_allows (j_type j) st = (True, st1)" and "throttler_delay env (j_type j) st1 = (None, st2)"
    and "run_handler env j st2 = (None, st4)" and "wk_has_writer (st_proc st4)"
    and "process_picked env j st = (out, st')"
  shows "out = Returns () \<and>
    (\<exists>r'. job_row (j_id j) (st_db st') = Some r' \<and> j_status r' = Completed) \<and>
    t_processed_jobs (st_db st') (j_id j) = Some (now st4) \<and>
    st_sse st' = st_sse st4 @ [job_completed_message j]"
proof -
  let ?i = "j_id j"
  have run: "process_picked env j st = (Returns (), after_success env j (now st) st4)"
    using process_picked_handler [OF assms(4-6,1,3)] assms(7) by simp
  have "st_db st2 = st_db st" using db_path_breaker [OF assms(5)] st_db_throttler [OF assms(6)] by simp
  then have quiet: "db_quiet (st_db st) (st_db st4)" using quiet_handler [of st2 env j] assms(7) by simp
  then have jobs: "t_jobs (st_db st4) = t_jobs (st_db st)" and nf: "faults (st_db st4) = []"
    and undone: "t_processed_jobs (st_db st4) ?i = None"
    using assms(1,3) by (auto simp: db_quiet_def same_job_tables_def)
  have row: "job_row ?i (st_db st4) = Some r" using assms(2) jobs by (simp add: job_row_def)
  let ?s = "(st_db st4)\<lparr>t_processed_jobs := (t_processed_jobs (st_db st4))(?i \<mapsto> now st4)\<rparr>"
  have recorded: "RecordJobProcessed ?i (st_db st4) = (Inr (), ?s)"
    using nf undone job_row_in [OF row] by (simp add: RecordJobProcessed_def run_no_faults now_def)
  obtain s5 where complete: "CompleteJob ?i ?s = (Inr (), s5)"
    using nf by (simp add: CompleteJob_def run_no_faults)
  then have s5: "s5 = snd (CompleteJob ?i ?s)" by simp
  have closed: "on_db (record_and_complete (wk_has_writer (st_proc st4)) ?i) st4 = (Inr (), st4\<lparr>st_db := s5\<rparr>)"
    using assms(8) by (simp add: on_db_def record_and_complete_def and_then_def recorded complete)
  have "\<exists>r'. job_row ?i s5 = Some r' \<and> j_status r' = Completed"
    unfolding s5 using nf row by (intro CompleteJob_row) (simp_all add: job_row_def)
  moreover have "t_processed_jobs s5 ?i = Some (now st4)"
    unfolding s5 by (simp add: statement_frames)
  moreover have "faults s5 = []" unfolding s5 using nf by (simp add: statement_frames)
  ultimately show ?thesis
    using run assms(9) closed
    by (auto simp: after_success_def Let_def do_db_def UpsertJobMetricsHourly_def run_no_faults
        breaker_records_def)
qed

text \<open>C20: a job whose handler fails is marked failed with the error, its attempt count unchanged. When the
  count plus one has reached the maximum of its type, one dead letter with the payload and the
  error is added; otherwise \<open>next_retry_at\<close> is set to the current time plus the backoff and no
  dead letter is added.\<close>

theorem failed_job_outcome:
  assumes "faults (st_db st) = []" and "job_row (j_id j) (st_db st) = Some r"
    and "calculateBackoffWithJitter (env_rand env) attempts cfg (st_world st) = (Some delay, w)"
    and "attempts = (case j_attempt_count j of None \<Rightarrow> 0 | Some n \<Rightarrow> n) + 1"
    and "after_failure env j cfg err st = (out, st')"
  shows "out = Returns () \<and>
    (\<exists>r'. job_row (j_id j) (st_db st') = Some r' \<and> j_status r' = Failed \<and> j_last_error r' = Some err \<and>
       j_attempt_count r' = j_attempt_count r \<and>
       (attempts < jt_max_attempts cfg \<longrightarrow> j_next_retry_at r' = Some (now st + delay))) \<and>
    (if attempts < jt_max_attempts cfg then t_dead_letters (st_db st') = t_dead_letters (st_db st)
     else \<exists>d. t_dead_letters (st_db st') = t_dead_letters (st_db st) @ [d] \<and> dl_job_id d = j_id j \<and>
       dl_payload d = j_payload j \<and> dl_error d = err)"
proof (cases "attempts < jt_max_attempts cfg")
  case True
  let ?s = "snd (UpdateJobNextRetry (Some (now st + delay)) (j_id j) (st_db st))"
  have "job_row (j_id j) ?s = Some (r\<lparr>j_next_retry_at := Some (now st + delay)\<rparr>)"
    using assms(1,2) by (rule UpdateJobNextRetry_row)
  from FailJob_row [OF _ this, of "Some err"] have row:
    "\<exists>r'. job_row (j_id j) (snd (FailJob (Some err) (j_id j) ?s)) = Some r' \<and> j_status r' = Failed \<and>
      j_last_error r' = Some err \<and> j_attempt_count r' = j_attempt_count r \<and>
      j_next_retry_at r' = Some (now st + delay)"
    using assms(1) by (simp add: statement_frames)
  have "after_failure env j cfg err st = (Returns (), breaker_records wb_RecordFailure (j_type j)
      (do_db (FailJob (Some err) (j_id j)) (st\<lparr>st_world := w, st_db := ?s\<rparr>)))"
    using True assms(3) by (simp add: after_failure_def assms(4) [symmetric] Let_def do_db_def now_def)
  with assms(5) True row show ?thesis
    by (auto simp: do_db_def statement_frames)
next
  case False
  let ?st = "moveToDeadLetterQueue env j err (st\<lparr>st_world := w\<rparr>)"
  obtain d where d: "st_db ?st = (st_db st)\<lparr>t_dead_letters := t_dead_letters (st_db st) @ [d],
      seq_dead_letters := seq_dead_letters (st_db st) + 1\<rparr>"
    and dl: "dl_job_id d = j_id j" "dl_payload d = j_payload j" "dl_error d = err"
    using CreateDeadLetterJob_row [OF assms(1,2)]
    by (simp add: moveToDeadLetterQueue_def do_db_def)
  have "job_row (j_id j) (st_db ?st) = Some r" and "faults (st_db ?st) = []"
    using assms(1,2) by (simp_all add: d job_row_def)
  from FailJob_row [OF this(2,1), of "Some err"] have row:
    "\<exists>r'. job_row (j_id j) (snd (FailJob (Some err) (j_id j) (st_db ?st))) = Some r' \<and> j_status r' = Failed \<and>
      j_last_error r' = Some err \<and> j_attempt_count r' = j_attempt_count r"
    by auto
  have "after_failure env j cfg err st = (Returns (), breaker_records wb_RecordFailure (j_type j)
      (do_db (FailJob (Some err) (j_id j)) ?st))"
    using False assms(3) by (simp add: after_failure_def assms(4) [symmetric] Let_def)
  with assms(5) False row dl show ?thesis
    by (auto simp: do_db_def statement_frames d)
qed

text \<open>a job that the breaker or the rate limit holds back stays as it was picked, processing, with
  only \<open>next_retry_at\<close> set: it is not put back in the queue.\<close>

theorem held_back_job_stays_processing:
  assumes "faults (st_db st) = []" and "job_row (j_id j) (st_db st) = Some r"
    and "jt_enabled (getJobConfig (j_type j) (st_proc st))"
    and "breaker_allows (j_type j) st = (ok, st1)"
    and "\<not> ok \<or> fst (throttler_delay env (j_type j) st1) \<noteq> None"
    and "process_picked env j st = (out, st')"
  shows "out = Returns () \<and> (\<exists>t. job_row (j_id j) (st_db st') = Some (r\<lparr>j_next_retry_at := Some t\<rparr>)) \<and>
    t_dead_letters (st_db st') = t_dead_letters (st_db st)"
proof -
  obtain d st2 where th: "throttler_delay env (j_type j) st1 = (d, st2)" by force
  have db: "st_db st1 = st_db st" "st_db st2 = st_db st"
    using db_path_breaker [OF assms(4)] st_db_throttler [OF th] by simp_all
  have "\<exists>t st3. process_picked env j st = (Returns (), do_db (UpdateJobNextRetry (Some t) (j_id j)) st3) \<and>
      st_db st3 = st_db st"
    using assms(3,5) th db by (cases ok) (auto simp: process_picked_def Let_def assms(4), blast+)
  then obtain t st3 where "out = Returns ()" "st' = do_db (UpdateJobNextRetry (Some t) (j_id j)) st3"
    "st_db st3 = st_db st" using assms(6) by auto
  then show ?thesis
    using UpdateJobNextRetry_row [OF assms(1,2), of "Some t"] by (auto simp: do_db_def statement_frames)
qed

section \<open>Stale jobs and zombies\<close>

lemma GetStale_no_faults:
  "faults s = [] \<Longrightarrow> \<exists>js. GetStaleProcessingJobs n s = (Inr js, s) \<and>
     (\<forall>j\<in>set js. j \<in> set (t_jobs s) \<and> j_status j = Processing)"
  by (auto simp: GetStaleProcessingJobs_def run_no_faults)

lemma TimeoutJob_row:
  "faults s = [] \<Longrightarrow> job_row i s = Some r \<Longrightarrow>
   \<exists>r'. job_row i (snd (TimeoutJob i s)) = Some r' \<and> j_status r' = Failed \<and>
        j_last_error r' = Some ''Job timed out''"
  by (simp add: TimeoutJob_def run_no_faults job_row_update_status job_row_id)

lemma other_rows:
  assumes "faults s = []" and "k \<noteq> i"
  shows "job_row k (snd (TimeoutJob i s)) = job_row k s"
    and "job_row k (snd (FailJob e i s)) = job_row k s"
    and "job_row k (snd (UpdateJobNextRetry t i s)) = job_row k s"
proof -
  have same: "map_option (\<lambda>j. if j_id j = i then h j else j) (job_row k s) = job_row k s" for h
    using assms(2) by (cases "job_row k s") (auto dest: job_row_id)
  show "job_row k (snd (TimeoutJob i s)) = job_row k s" "job_row k (snd (FailJob e i s)) = job_row k s"
    using assms(1) by (simp_all add: TimeoutJob_def FailJob_def run_no_faults job_row_update_status same)
  show "job_row k (snd (UpdateJobNextRetry t i s)) = job_row k s"
    using assms(1) same [unfolded job_row_def]
    by (simp add: UpdateJobNextRetry_def run_no_faults job_row_def find_update_where)
qed

text \<open>
  A pass over a list of jobs that changes the row of each: \<open>f\<close> touches the row of its job only,
  and leaves it with the property \<open>P\<close>.
\<close>

definition settles :: "(job \<Rightarrow> ('l, 'w) worker \<Rightarrow> ('l, 'w) worker) \<Rightarrow> (job \<Rightarrow> bool) \<Rightarrow> bool" where
  "settles f P \<longleftrightarrow>
     (\<forall>j st. faults (st_db st) = [] \<longrightarrow> job_row (j_id j) (st_db st) \<noteq> None \<longrightarrow>
        faults (st_db (f j st)) = [] \<and>
        (\<exists>r. job_row (j_id j) (st_db (f j st)) = Some r \<and> P r) \<and>
        (\<forall>k. k \<noteq> j_id j \<longrightarrow> job_row k (st_db (f j st)) = job_row k (st_db st)))"

lemma settlesD:
  assumes "settles f P" and "faults (st_db st) = []" and "job_row (j_id j) (st_db st) \<noteq> None"
  shows "faults (st_db (f j st)) = []" and "\<exists>r. job_row (j_id j) (st_db (f j st)) = Some r \<and> P r"
    and "k \<noteq> j_id j \<Longrightarrow> job_row k (st_db (f j st)) = job_row k (st_db st)"
  using assms unfolding settles_def by blast+

lemma settles_fold:
  assumes "settles f P"
    and "faults (st_db st) = []" and "\<forall>j\<in>set js. job_row (j_id j) (st_db st) \<noteq> None"
  shows "faults (st_db (fold f js st)) = [] \<and>
    (\<forall>k\<in>j_id ` set js. \<exists>r. job_row k (st_db (fold f js st)) = Some r \<and> P r) \<and>
    (\<forall>k. k \<notin> j_id ` set js \<longrightarrow> job_row k (st_db (fold f js st)) = job_row k (st_db st))"
  using assms(2,3)
proof (induction js arbitrary: st)
  case (Cons j js)
  let ?st = "f j st"
  have one: "faults (st_db ?st) = []" "\<exists>r. job_row (j_id j) (st_db ?st) = Some r \<and> P r"
    "\<And>k. k \<noteq> j_id j \<Longrightarrow> job_row k (st_db ?st) = job_row k (st_db st)"
    using settlesD [OF assms(1) Cons.prems(1), of j] Cons.prems(2) by simp_all
  have "\<forall>i\<in>set js. job_row (j_id i) (st_db ?st) \<noteq> None"
  proof
    fix i assume "i \<in> set js"
    with Cons.prems(2) one(2,3) show "job_row (j_id i) (st_db ?st) \<noteq> None"
      by (cases "j_id i = j_id j") auto
  qed
  from Cons.IH [OF one(1) this] one show ?case
    by (metis (no_types, lifting) fold_simps(2) image_insert insert_iff list.simps(15))
qed simp

lemma st_db_dead_letter:
  assumes "faults (st_db st) = []" and "job_row (j_id j) (st_db st) \<noteq> None"
  shows "\<exists>d. st_db (moveToDeadLetterQueue env j err st) = (st_db st)\<lparr>
      t_dead_letters := t_dead_letters (st_db st) @ [d], seq_dead_letters := seq_dead_letters (st_db st) + 1\<rparr> \<and>
    dl_job_id d = j_id j \<and> dl_payload d = j_payload j \<and> dl_error d = err"
  using assms CreateDeadLetterJob_row [OF assms(1)]
  by (auto simp: moveToDeadLetterQueue_def do_db_def)

lemma faults_TimeoutJob: "faults s = [] \<Longrightarrow> faults (snd (TimeoutJob i s)) = []"
  and dead_letters_TimeoutJob: "faults s = [] \<Longrightarrow> t_dead_letters (snd (TimeoutJob i s)) = t_dead_letters s"
  by (simp_all add: TimeoutJob_def run_no_faults update_jobs_status_def)

lemma st_db_expire:
  assumes "faults (st_db st) = []" and "job_row (j_id j) (st_db st) \<noteq> None"
  shows "\<exists>d. st_db (expire_job env j st) = snd (TimeoutJob (j_id j) ((st_db st)\<lparr>
      t_dead_letters := t_dead_letters (st_db st) @ [d], seq_dead_letters := seq_dead_letters (st_db st) + 1\<rparr>)) \<and>
    dl_job_id d = j_id j \<and> dl_payload d = j_payload j"
proof -
  define secs where "secs = (if jt_timeout_seconds (getJobConfig (j_type j) (st_proc st)) \<le> 0 then 300
    else jt_timeout_seconds (getJobConfig (j_type j) (st_proc st)))"
  have "st_db (expire_job env j st) =
      snd (TimeoutJob (j_id j) (st_db (moveToDeadLetterQueue env j (timeout_text secs) st)))"
    by (simp add: expire_job_def Let_def do_db_def secs_def)
  with st_db_dead_letter [OF assms, of env "timeout_text secs"] show ?thesis by auto
qed

lemma settles_expire: "settles (expire_job env) (\<lambda>r. j_status r = Failed)"
proof -
  have "faults (st_db (expire_job env j st)) = [] \<and>
      (\<exists>r. job_row (j_id j) (st_db (expire_job env j st)) = Some r \<and> j_status r = Failed) \<and>
      (\<forall>k. k \<noteq> j_id j \<longrightarrow> job_row k (st_db (expire_job env j st)) = job_row k (st_db st))"
    if prems: "faults (st_db st) = []" "job_row (j_id j) (st_db st) \<noteq> None"
    for j and st :: "('a, 'b) worker"
  proof -
    obtain d where after: "st_db (expire_job env j st) = snd (TimeoutJob (j_id j) ((st_db st)\<lparr>
        t_dead_letters := t_dead_letters (st_db st) @ [d],
        seq_dead_letters := seq_dead_letters (st_db st) + 1\<rparr>))" (is "_ = snd (TimeoutJob _ ?s)")
      using st_db_expire [OF prems] by blast
    have rows: "job_row k ?s = job_row k (st_db st)" for k by (simp add: job_row_def)
    obtain r where "job_row (j_id j) ?s = Some r" using prems(2) rows by auto
    from TimeoutJob_row [OF _ this] prems(1) show ?thesis
      unfolding after using other_rows(1) [of ?s _ "j_id j"] rows by (auto simp: faults_TimeoutJob)
  qed
  then show ?thesis unfolding settles_def by blast
qed

definition stale_jobs :: "int \<Rightarrow> db \<Rightarrow> job list" where
  "stale_jobs secs s = filter (\<lambda>j. j_status j = Processing \<and>
     sql_less (j_started_at j) (clock s - secs * second)) (t_jobs s)"

lemma stale_query:
  "faults s = [] \<Longrightarrow> \<exists>js. GetStaleProcessingJobs secs s = (Inr js, s) \<and> mset js = mset (stale_jobs secs s)"
  by (auto simp: GetStaleProcessingJobs_def run_no_faults stale_jobs_def)

lemma stale_have_rows: "j \<in> set (stale_jobs secs s) \<Longrightarrow> job_row (j_id j) s \<noteq> None"
  by (auto simp: stale_jobs_def job_row_def find_None_iff)

lemma expire_dead_letters:
  assumes "faults (st_db st) = []" and "\<forall>j\<in>set js. job_row (j_id j) (st_db st) \<noteq> None"
  shows "\<exists>ds. t_dead_letters (st_db (fold (expire_job env) js st)) = t_dead_letters (st_db st) @ ds \<and>
    map (\<lambda>d. (dl_job_id d, dl_payload d)) ds = map (\<lambda>j. (j_id j, j_payload j)) js"
  using assms
proof (induction js arbitrary: st)
  case (Cons j js)
  let ?st = "expire_job env j st"
  have s: "faults (st_db ?st) = []" "\<forall>i\<in>set js. job_row (j_id i) (st_db ?st) \<noteq> None"
  proof -
    have one: "faults (st_db ?st) = []" "job_row (j_id j) (st_db ?st) \<noteq> None"
      "\<And>k. k \<noteq> j_id j \<Longrightarrow> job_row k (st_db ?st) = job_row k (st_db st)"
      using settlesD [OF settles_expire [of env] Cons.prems(1), of j] Cons.prems(2) by fastforce+
    then show "faults (st_db ?st) = []" by simp
    show "\<forall>i\<in>set js. job_row (j_id i) (st_db ?st) \<noteq> None"
      using one(2,3) Cons.prems(2) by (metis list.set_intros(2))
  qed
  obtain d where "st_db ?st = snd (TimeoutJob (j_id j) ((st_db st)\<lparr>
      t_dead_letters := t_dead_letters (st_db st) @ [d], seq_dead_letters := seq_dead_letters (st_db st) + 1\<rparr>))"
    and d: "dl_job_id d = j_id j" "dl_payload d = j_payload j"
    using st_db_expire [of st j env] Cons.prems by auto
  then have dl: "t_dead_letters (st_db ?st) = t_dead_letters (st_db st) @ [d]"
    using Cons.prems(1) by (simp add: dead_letters_TimeoutJob)
  from Cons.IH [OF s] obtain ds where
    "t_dead_letters (st_db (fold (expire_job env) js ?st)) = t_dead_letters (st_db ?st) @ ds"
    "map (\<lambda>d. (dl_job_id d, dl_payload d)) ds = map (\<lambda>j. (j_id j, j_payload j)) js" by blast
  with dl d show ?case by (intro exI [of _ "d # ds"]) simp
qed simp

text \<open>C21: the stale job check moves exactly the jobs that have been processing for more than 600 seconds
  out: each ends failed with one dead letter holding its payload, and no other row of a job changes.\<close>

theorem stale_jobs_outcome:
  assumes "faults (st_db st) = []"
  shows "(\<forall>k\<in>j_id ` set (stale_jobs 600 (st_db st)).
      \<exists>r. job_row k (st_db (checkStaleJobs env st)) = Some r \<and> j_status r = Failed) \<and>
    (\<forall>k. k \<notin> j_id ` set (stale_jobs 600 (st_db st)) \<longrightarrow>
      job_row k (st_db (checkStaleJobs env st)) = job_row k (st_db st)) \<and>
    (\<exists>ds. t_dead_letters (st_db (checkStaleJobs env st)) = t_dead_letters (st_db st) @ ds \<and>
      mset (map (\<lambda>d. (dl_job_id d, dl_payload d)) ds) =
      mset (map (\<lambda>j. (j_id j, j_payload j)) (stale_jobs 600 (st_db st))))"
proof -
  obtain js where js: "GetStaleProcessingJobs 600 (st_db st) = (Inr js, st_db st)"
    and same: "mset js = mset (stale_jobs 600 (st_db st))" using stale_query [OF assms] by blast
  have run: "checkStaleJobs env st = fold (expire_job env) js st"
    by (simp add: checkStaleJobs_def on_db_def js)
  have set: "set js = set (stale_jobs 600 (st_db st))" using same by (rule mset_eq_setD)
  then have rows: "\<forall>j\<in>set js. job_row (j_id j) (st_db st) \<noteq> None" by (simp add: stale_have_rows)
  obtain ds where ds: "t_dead_letters (st_db (checkStaleJobs env st)) = t_dead_letters (st_db st) @ ds"
    and maps: "map (\<lambda>d. (dl_job_id d, dl_payload d)) ds = map (\<lambda>j. (j_id j, j_payload j)) js"
    using expire_dead_letters [OF assms rows, of env] run by auto
  from maps same have "mset (map (\<lambda>d. (dl_job_id d, dl_payload d)) ds) =
      mset (map (\<lambda>j. (j_id j, j_payload j)) (stale_jobs 600 (st_db st)))" by (metis mset_map)
  with ds settles_fold [OF settles_expire [of env] assms rows] show ?thesis
    unfolding run set by blast
qed

lemma settles_rescue:
  "settles rescue_job (\<lambda>r. j_status r = Failed \<and> j_last_error r = Some ''Job rescued from zombie state'')"
proof -
  have "faults (st_db (rescue_job j st)) = [] \<and>
      (\<exists>r. job_row (j_id j) (st_db (rescue_job j st)) = Some r \<and> j_status r = Failed \<and>
        j_last_error r = Some ''Job rescued from zombie state'') \<and>
      (\<forall>k. k \<noteq> j_id j \<longrightarrow> job_row k (st_db (rescue_job j st)) = job_row k (st_db st))"
    if prems: "faults (st_db st) = []" "job_row (j_id j) (st_db st) \<noteq> None"
    for j and st :: "('a, 'b) worker"
  proof -
    let ?s = "snd (UpdateJobNextRetry (Some (now st)) (j_id j) (st_db st))"
    obtain v u where u: "UpdateJobNextRetry (Some (now st)) (j_id j) (st_db st) = (Inr v, u)"
      using prems(1) by (simp add: UpdateJobNextRetry_def run_no_faults)
    then have after: "st_db (rescue_job j st) = snd (FailJob (Some ''Job rescued from zombie state'') (j_id j) ?s)"
      by (simp add: rescue_job_def on_db_def do_db_def)
    have nf: "faults ?s = []" using prems(1) by (simp add: statement_frames)
    obtain r where "job_row (j_id j) ?s = Some r"
      using prems UpdateJobNextRetry_row [OF prems(1)] by blast
    from FailJob_row [OF nf this, of "Some ''Job rescued from zombie state''"] show ?thesis
      unfolding after using other_rows(2) [OF nf] other_rows(3) [OF prems(1)]
      by (auto simp: statement_frames nf)
  qed
  then show ?thesis unfolding settles_def by blast
qed

text \<open>the rescue at start leaves every job that has been processing for more than 300 seconds failed,
  not pending, and changes no other row; such a job is not picked again.\<close>

theorem rescued_zombies_fail:
  assumes "faults (st_db st) = []"
  shows "fst (RescueZombies st) = Inr () \<and>
    (\<forall>k\<in>j_id ` set (stale_jobs 300 (st_db st)).
      \<exists>r. job_row k (st_db (snd (RescueZombies st))) = Some r \<and> j_status r = Failed) \<and>
    (\<forall>k. k \<notin> j_id ` set (stale_jobs 300 (st_db st)) \<longrightarrow>
      job_row k (st_db (snd (RescueZombies st))) = job_row k (st_db st))"
proof -
  obtain js where js: "GetStaleProcessingJobs 300 (st_db st) = (Inr js, st_db st)"
    and same: "mset js = mset (stale_jobs 300 (st_db st))" using stale_query [OF assms] by blast
  have run: "RescueZombies st = (Inr (), fold rescue_job js st)"
    by (simp add: RescueZombies_def on_db_def js)
  have set: "set js = set (stale_jobs 300 (st_db st))" using same by (rule mset_eq_setD)
  then have rows: "\<forall>j\<in>set js. job_row (j_id j) (st_db st) \<noteq> None" by (simp add: stale_have_rows)
  from settles_fold [OF settles_rescue assms rows] show ?thesis
    unfolding run set by auto
qed

section \<open>Types without settings\<close>

text \<open>
  The settings in force: the defaults, overridden by rows of the table; every loaded map covers
  the defaults.
\<close>

lemma loaded_configs_cover:
  "DefaultJobConfigs ty \<noteq> None \<Longrightarrow> wk_configs (st_proc (loadJobConfigs st)) ty \<noteq> None"
proof -
  have "m ty \<noteq> None \<Longrightarrow> fold (\<lambda>c m. m(jc_job_type c \<mapsto> config_of_row c)) rows m ty \<noteq> None"
    for rows :: "job_type_config_row list" and m
    by (induction rows arbitrary: m) auto
  then show "DefaultJobConfigs ty \<noteq> None \<Longrightarrow> ?thesis"
    by (auto simp: loadJobConfigs_def split: prod.split sum.split)
qed

text \<open>a job whose type has no settings (neither loaded nor a default), or whose type is disabled, is
  marked completed without any handler running: no mail, no message to a browser, no dead letter.\<close>

theorem unknown_type_completed_unrun:
  assumes "faults (st_db st) = []" and "job_row (j_id j) (st_db st) = Some r"
    and "wk_configs (st_proc st) (j_type j) = None \<and> DefaultJobConfigs (j_type j) = None \<or>
      (\<exists>c. wk_configs (st_proc st) (j_type j) = Some c \<and> \<not> jt_enabled c)"
    and "process_picked env j st = (out, st')"
  shows "out = Returns () \<and> (\<exists>r'. job_row (j_id j) (st_db st') = Some r' \<and> j_status r' = Completed) \<and>
    st_world st' = st_world st \<and> st_sse st' = st_sse st \<and>
    t_dead_letters (st_db st') = t_dead_letters (st_db st)"
proof -
  have "\<not> jt_enabled (getJobConfig (j_type j) (st_proc st))"
    using assms(3) by (auto simp: getJobConfig_def zero_job_config_def)
  then have run: "out = Returns ()" "st' = do_db (CompleteJob (j_id j)) st"
    using assms(4) by (simp_all add: process_picked_def)
  have "t_dead_letters (snd (CompleteJob (j_id j) (st_db st))) = t_dead_letters (st_db st)"
    using assms(1) by (simp add: CompleteJob_def run_no_faults update_jobs_status_def)
  then show ?thesis
    using run CompleteJob_row [OF assms(1,2)] by (simp add: do_db_def)
qed

section \<open>Scaling\<close>

text \<open>automatic scaling moves the number of workers by at most one, keeps it between the configured
  minimum and the smaller of the maximum and four times the CPUs when it was there, and starts a
  goroutine exactly when the number grows.\<close>

theorem scaling_stays_in_bounds:
  assumes "wk_min_workers (st_proc st) \<le> wk_worker_count (st_proc st)"
    and "wk_worker_count (st_proc st) \<le> min (wk_max_workers (st_proc st)) (4 * cpus)"
    and "evaluateScaling cpus st = (spawn, st')"
  shows "wk_min_workers (st_proc st') \<le> wk_worker_count (st_proc st') \<and>
    wk_worker_count (st_proc st') \<le> min (wk_max_workers (st_proc st')) (4 * cpus) \<and>
    \<bar>wk_worker_count (st_proc st') - wk_worker_count (st_proc st)\<bar> \<le> 1 \<and>
    (spawn \<longleftrightarrow> wk_worker_count (st_proc st) < wk_worker_count (st_proc st'))"
proof -
  obtain n st1 where pending: "PendingJobs st = (n, st1)" by force
  then have "st_proc st1 = st_proc st"
    by (auto simp: PendingJobs_def on_db_def split: prod.splits sum.splits)
  with pending assms show ?thesis
    by (auto simp: evaluateScaling_def Let_def split: if_splits)
qed

section \<open>Backoff\<close>

lemma backoff_delay_word:
  "backoff_delay attempt cfg =
     (let delay = word_of_int (jt_backoff_base_sec cfg * second * 2 ^ nat (attempt - 1)) :: 64 word;
          cap = word_of_int (jt_backoff_max_sec cfg * second)
      in if sint cap < sint delay then cap else delay)"
  by (simp add: backoff_delay_def Let_def push_bit_eq_mult)

lemma sint_of_int_eq: "0 \<le> n \<Longrightarrow> n < 2 ^ 63 \<Longrightarrow> sint (word_of_int n :: 64 word) = n"
  by (simp add: sint_sbintrunc' signed_take_bit_int_eq_self)

lemma backoff_delay_in_range:
  assumes "0 \<le> jt_backoff_base_sec cfg" and "0 \<le> jt_backoff_max_sec cfg"
    and "jt_backoff_max_sec cfg * second < 2 ^ 63"
    and "jt_backoff_base_sec cfg * second * 2 ^ nat (attempt - 1) < 2 ^ 63"
  shows "sint (backoff_delay attempt cfg) =
    min (jt_backoff_base_sec cfg * second * 2 ^ nat (attempt - 1)) (jt_backoff_max_sec cfg * second)"
proof -
  let ?d = "jt_backoff_base_sec cfg * second * 2 ^ nat (attempt - 1)"
  let ?c = "jt_backoff_max_sec cfg * second"
  have pos: "0 \<le> ?d" "0 \<le> ?c" using assms(1,2) by (simp_all add: second_def)
  have "sint (word_of_int ?d :: 64 word) = ?d" and "sint (word_of_int ?c :: 64 word) = ?c"
    using sint_of_int_eq [OF pos(1) assms(4)] sint_of_int_eq [OF pos(2) assms(3)] by simp_all
  then show ?thesis unfolding backoff_delay_word Let_def by simp
qed

lemma sint_add_in_range:
  "0 \<le> sint a \<Longrightarrow> 0 \<le> j \<Longrightarrow> sint a + j < 2 ^ 63 \<Longrightarrow> sint (a + word_of_int j :: 64 word) = sint a + j"
proof -
  assume "0 \<le> sint a" "0 \<le> j" "sint a + j < 2 ^ 63"
  then have "sint (word_of_int (sint a + j) :: 64 word) = sint a + j"
    by (intro sint_of_int_eq) simp_all
  then show ?thesis by simp
qed

text \<open>C37: as long as nothing overflows, the backoff before attempt n is the base doubled n - 1 times, cut at
  the maximum, plus a jitter below a fifth of that; it does not panic.\<close>

theorem backoff_bounds:
  assumes "1 \<le> attempt" and "1 \<le> jt_backoff_base_sec cfg" and "1 \<le> jt_backoff_max_sec cfg"
    and "jt_backoff_max_sec cfg * second < 2 ^ 62"
    and "jt_backoff_base_sec cfg * second * 2 ^ nat (attempt - 1) < 2 ^ 63"
    and "\<And>n w. 0 < n \<Longrightarrow> 0 \<le> fst (rand n w) \<and> fst (rand n w) < n"
    and "delay = min (jt_backoff_base_sec cfg * second * 2 ^ nat (attempt - 1)) (jt_backoff_max_sec cfg * second)"
  shows "\<exists>d w'. calculateBackoffWithJitter rand attempt cfg w = (Some d, w') \<and>
    delay \<le> d \<and> 5 * d < 6 * delay"
proof -
  let ?b = "backoff_delay attempt cfg"
  have sint: "sint ?b = delay"
    using backoff_delay_in_range [of cfg attempt] assms(2-5,7) by simp
  have "second \<le> jt_backoff_base_sec cfg * second" "second \<le> jt_backoff_max_sec cfg * second"
    using assms(2,3) by (simp_all add: second_def)
  moreover have "jt_backoff_base_sec cfg * second * 1 \<le> jt_backoff_base_sec cfg * second * 2 ^ nat (attempt - 1)"
    using assms(2) by (intro mult_left_mono) (simp_all add: second_def)
  ultimately have lo: "second \<le> delay" unfolding assms(7) by linarith
  have hi: "delay < 2 ^ 62" using assms(4) unfolding assms(7) by linarith
  define bound where "bound = delay div 5"
  have bound: "trunc_div (sint ?b) 5 = bound" "0 < bound" "5 * bound \<le> delay"
    using lo by (simp_all add: sint trunc_div_def bound_def second_def)
  obtain j w' where j: "rand bound w = (j, w')" by force
  with assms(6) [OF bound(2), of w] have jit: "0 \<le> j" "j < bound" by simp_all
  have "calculateBackoffWithJitter rand attempt cfg w = (Some (sint (?b + word_of_int j)), w')"
    using assms(1) bound(2) j by (simp add: calculateBackoffWithJitter_def Let_def bound(1))
  moreover have "sint (?b + word_of_int j) = delay + j"
    using sint_add_in_range [of ?b j] sint lo hi jit bound(3) by (simp add: second_def)
  ultimately show ?thesis using jit bound(3) by auto
qed

lemma two_to_64: "(2 :: 64 word) ^ 64 = 0"
  using word_pow_0 [where 'a = 64] by simp

text \<open>from the 56th attempt on the shifted delay is zero modulo 2 to the 64, whatever the settings (up to the
  limit where the maximum itself overflows): \<open>rand.Int63n(0)\<close> panics.\<close>

theorem backoff_overflow_panics:
  assumes "56 \<le> attempt" and "0 \<le> jt_backoff_max_sec cfg" and "jt_backoff_max_sec cfg * second < 2 ^ 63"
  shows "calculateBackoffWithJitter rand attempt cfg w = (None, w)"
proof -
  define k where "k = nat (attempt - 56)"
  have shift: "nat (attempt - 1) = 55 + k" using assms(1) by (simp add: k_def)
  have "jt_backoff_base_sec cfg * second * 2 ^ nat (attempt - 1) =
      2 ^ 64 * (jt_backoff_base_sec cfg * 5 ^ 9 * 2 ^ k)"
    unfolding shift second_def power_add by simp
  then have zero: "(word_of_int (jt_backoff_base_sec cfg * second * 2 ^ nat (attempt - 1)) :: 64 word) = 0"
    by (simp only: of_int_mult of_int_power of_int_numeral two_to_64) simp
  have "sint (word_of_int (jt_backoff_max_sec cfg * second) :: 64 word) = jt_backoff_max_sec cfg * second"
    using assms(2,3) by (intro sint_of_int_eq) (simp_all add: second_def)
  then have "backoff_delay attempt cfg = 0"
    using assms(2) unfolding backoff_delay_word Let_def zero by (simp add: second_def)
  then show ?thesis using assms(1) by (simp add: calculateBackoffWithJitter_def Let_def trunc_div_def)
qed

section \<open>Examples\<close>

text \<open>The two jobs of the queue as their workers got them: a mail, and an AI job with a bad payload.\<close>

definition mail_job :: job where "mail_job = projr (fst first_pick)"

definition mail_picked :: "(unit, unit) worker" where
  "mail_picked = demo_worker\<lparr>st_db := snd first_pick\<rparr>"

definition ai_job :: job where "ai_job = projr (fst second_pick)"

definition ai_picked :: "(unit, unit) worker" where
  "ai_picked = demo_worker\<lparr>st_db := snd second_pick\<rparr>"

text \<open>A worker whose limiter refuses, and one that finds the two picked jobs an hour later.\<close>

definition limited_picked :: "(unit, unit) worker" where
  "limited_picked = mail_picked\<lparr>st_proc := (st_proc mail_picked)\<lparr>wk_throttler :=
     Some (NewAPIThrottler (env_limiter demo_env))\<rparr>\<rparr>"

definition hour_later :: "(unit, unit) worker" where
  "hour_later = ai_picked\<lparr>st_db := (st_db ai_picked)\<lparr>clock := clock (st_db ai_picked) + 3600 * second\<rparr>\<rparr>"

lemma mail_facts:
  "faults (st_db mail_picked) = []" "job_row (j_id mail_job) (st_db mail_picked) \<noteq> None"
  "t_processed_jobs (st_db mail_picked) (j_id mail_job) = None"
  "jt_enabled (getJobConfig (j_type mail_job) (st_proc mail_picked))"
  "fst (run_handler demo_env mail_job mail_picked) = None"
  "wk_has_writer (st_proc (snd (run_handler demo_env mail_job mail_picked)))"
  by code_simp+

lemma mail_breaker: "breaker_allows ty mail_picked = (True, mail_picked)"
  "throttler_delay env ty mail_picked = (None, mail_picked)"
  "breaker_allows ty limited_picked = (True, limited_picked)"
  by (simp_all add: breaker_allows_def throttler_delay_def mail_picked_def limited_picked_def demo_worker_def)

theorem successful_job_outcome_witness:
  "\<exists>r'. job_row (j_id mail_job) (st_db (snd (process_picked demo_env mail_job mail_picked))) = Some r' \<and>
    j_status r' = Completed"
proof -
  obtain r where r: "job_row (j_id mail_job) (st_db mail_picked) = Some r" using mail_facts(2) by blast
  have h: "run_handler demo_env mail_job mail_picked = (None, snd (run_handler demo_env mail_job mail_picked))"
    using mail_facts(5) by (metis prod.collapse)
  show ?thesis
    using successful_job_outcome [OF mail_facts(1) r mail_facts(3,4) mail_breaker(1,2) h mail_facts(6)
      prod.collapse [symmetric]] by blast
qed

lemma ai_facts:
  "faults (st_db ai_picked) = []" "job_row (j_id ai_job) (st_db ai_picked) \<noteq> None"
  "j_attempt_count ai_job = Some 0"
  "fst (run_handler demo_env ai_job ai_picked) = Some ''bad payload''"
  by code_simp+

definition ai_config :: job_type_config where "ai_config = config_of 120 3 60 300"

lemma ai_backoff: "calculateBackoffWithJitter (env_rand demo_env) 1 ai_config w = (Some (60 * second), w)"
proof -
  have "sint (backoff_delay 1 ai_config) = 60 * second"
    by (subst backoff_delay_in_range) (simp_all add: ai_config_def config_of_def second_def)
  then show ?thesis
    by (simp add: calculateBackoffWithJitter_def Let_def trunc_div_def demo_env_def second_def)
qed

theorem failed_job_outcome_witness:
  "\<exists>r'. job_row (j_id ai_job)
      (st_db (snd (after_failure demo_env ai_job ai_config ''bad payload'' ai_picked))) = Some r' \<and>
    j_status r' = Failed \<and> j_next_retry_at r' = Some (now ai_picked + 60 * second)"
proof -
  obtain r where r: "job_row (j_id ai_job) (st_db ai_picked) = Some r" using ai_facts(2) by blast
  have "jt_max_attempts ai_config = 3" by (simp add: ai_config_def config_of_def)
  with failed_job_outcome [OF ai_facts(1) r ai_backoff _ prod.collapse [symmetric]] ai_facts(3)
  show ?thesis by fastforce
qed

theorem held_back_job_stays_processing_witness:
  "\<exists>t. job_row (j_id mail_job) (st_db (snd (process_picked demo_env mail_job limited_picked))) =
     Some ((the (job_row (j_id mail_job) (st_db limited_picked)))\<lparr>j_next_retry_at := Some t\<rparr>)"
proof -
  have same: "st_db limited_picked = st_db mail_picked"
    "wk_configs (st_proc limited_picked) = wk_configs (st_proc mail_picked)"
    by (simp_all add: limited_picked_def)
  obtain r where r: "job_row (j_id mail_job) (st_db limited_picked) = Some r"
    using mail_facts(2) same by auto
  have cfg: "jt_enabled (getJobConfig (j_type mail_job) (st_proc limited_picked))"
    using mail_facts(4) same by (simp add: getJobConfig_def)
  have "fst (throttler_delay demo_env (j_type mail_job) limited_picked) \<noteq> None"
    by (simp add: throttler_delay_def limited_picked_def th_Allow_def demo_env_def Let_def
        split: prod.split option.split)
  then have held: "\<not> True \<or> fst (throttler_delay demo_env (j_type mail_job) limited_picked) \<noteq> None" ..
  show ?thesis
    using held_back_job_stays_processing [OF _ r cfg mail_breaker(3) held prod.collapse [symmetric]]
      mail_facts(1) same r by simp
qed

lemma hour_later_facts: "faults (st_db hour_later) = []"
  "j_id ai_job \<in> set (map j_id (stale_jobs 600 (st_db hour_later)))"
  "j_id ai_job \<in> set (map j_id (stale_jobs 300 (st_db hour_later)))"
  by code_simp+

theorem stale_jobs_outcome_witness:
  "\<exists>r. job_row (j_id ai_job) (st_db (checkStaleJobs demo_env hour_later)) = Some r \<and> j_status r = Failed"
  using stale_jobs_outcome [OF hour_later_facts(1), of demo_env] hour_later_facts(2) unfolding set_map by blast

theorem rescued_zombies_fail_witness:
  "\<exists>r. job_row (j_id ai_job) (st_db (snd (RescueZombies hour_later))) = Some r \<and> j_status r = Failed"
  using rescued_zombies_fail [OF hour_later_facts(1)] hour_later_facts(3) unfolding set_map by blast

theorem unknown_type_completed_unrun_witness:
  "\<exists>r'. job_row (j_id mail_job)
      (st_db (snd (process_picked demo_env (mail_job\<lparr>j_type := ''send_sms''\<rparr>) mail_picked))) = Some r' \<and>
    j_status r' = Completed"
proof -
  obtain r where r: "job_row (j_id (mail_job\<lparr>j_type := ''send_sms''\<rparr>)) (st_db mail_picked) = Some r"
    using mail_facts(2) by auto
  have "wk_configs (st_proc mail_picked) (j_type (mail_job\<lparr>j_type := ''send_sms''\<rparr>)) = None \<and>
      DefaultJobConfigs (j_type (mail_job\<lparr>j_type := ''send_sms''\<rparr>)) = None"
    by (simp add: mail_picked_def demo_worker_def DefaultJobConfigs_def)
  then show ?thesis
    using unknown_type_completed_unrun [OF mail_facts(1) r disjI1 prod.collapse [symmetric]] by simp
qed

theorem scaling_stays_in_bounds_witness:
  "wk_min_workers (st_proc (snd (evaluateScaling 4 demo_worker))) \<le>
   wk_worker_count (st_proc (snd (evaluateScaling 4 demo_worker)))"
  using scaling_stays_in_bounds [of demo_worker 4, OF _ _ prod.collapse [symmetric]]
  by (simp add: demo_worker_def)

theorem backoff_bounds_witness:
  "\<exists>d w'. calculateBackoffWithJitter (\<lambda>n w. (0, w)) 3 ai_config () = (Some d, w') \<and>
    240 * second \<le> d \<and> 5 * d < 6 * (240 * second)"
  by (rule backoff_bounds) (simp_all add: ai_config_def config_of_def second_def)

theorem backoff_overflow_panics_witness:
  "calculateBackoffWithJitter (\<lambda>n w. (0, w)) 60 ai_config () = (None, ())"
  by (rule backoff_overflow_panics) (simp_all add: ai_config_def config_of_def second_def)

end
