(* ===== verification/Worker_Pool.thy ===== *)
theory Worker_Pool
  imports Processor
begin

text \<open>
  The worker goroutines, \<open>internal/features/jobs/worker/processor.go\<close>: \<open>Start\<close> spawns them on the
  context of the server, the scaling spawns them on \<open>context.Background()\<close>, a panic in a job ends
  the goroutine (\<open>spawnWorker\<close> recovers and returns), the end of the context ends those of
  \<open>Start\<close>, and \<open>Wait\<close> returns when none is left.
\<close>

datatype worker_context = ServerContext | BackgroundContext

record ('l, 'w) pool =
  pl_worker :: "('l, 'w) worker"
  pl_live :: "worker_context list"
  pl_cancelled :: bool

definition spawnWorker :: "worker_context \<Rightarrow> ('l, 'w) pool \<Rightarrow> ('l, 'w) pool" where
  "spawnWorker c p = p\<lparr>pl_live := pl_live p @ [c]\<rparr>"

text \<open>\<open>Start\<close>: a positive count replaces the one of \<open>New\<close>.\<close>

definition Start :: "int \<Rightarrow> ('l, 'w) worker \<Rightarrow> ('l, 'w) pool" where
  "Start wanted st =
     (let n = (if wanted \<le> 0 then wk_worker_count (st_proc st) else wanted)
      in \<lparr>pl_worker = st\<lparr>st_proc := (st_proc st)\<lparr>wk_worker_count := n\<rparr>\<rparr>,
          pl_live = replicate (nat n) ServerContext, pl_cancelled = False\<rparr>)"

text \<open>One tick of a worker goroutine: a panic of \<open>processNext\<close> ends it.\<close>

definition worker_tick :: "('l, 'w) worker_env \<Rightarrow> nat \<Rightarrow> ('l, 'w) pool \<Rightarrow> ('l, 'w) pool" where
  "worker_tick env i p =
     (case processNext env (pl_worker p) of
        (Returns _, st) \<Rightarrow> p\<lparr>pl_worker := st\<rparr>
      | (Panics, st) \<Rightarrow> p\<lparr>pl_worker := st, pl_live := take i (pl_live p) @ drop (Suc i) (pl_live p)\<rparr>)"

definition autoScale_tick :: "int \<Rightarrow> ('l, 'w) pool \<Rightarrow> ('l, 'w) pool" where
  "autoScale_tick cpus p =
     (case evaluateScaling cpus (pl_worker p) of
        (spawn, st) \<Rightarrow>
          (let p' = p\<lparr>pl_worker := st\<rparr>
           in if spawn then spawnWorker BackgroundContext p' else p'))"

text \<open>\<open>runWorker\<close> leaves its loop when its context is done; the background context never is.\<close>

definition worker_exit :: "nat \<Rightarrow> ('l, 'w) pool \<Rightarrow> ('l, 'w) pool" where
  "worker_exit i p =
     (if pl_cancelled p \<and> pl_live p ! i = ServerContext
      then p\<lparr>pl_live := take i (pl_live p) @ drop (Suc i) (pl_live p)\<rparr> else p)"

definition Wait_returns :: "('l, 'w) pool \<Rightarrow> bool" where
  "Wait_returns p \<longleftrightarrow> pl_live p = []"

inductive pool_step :: "('l, 'w) worker_env \<Rightarrow> int \<Rightarrow> ('l, 'w) pool \<Rightarrow> ('l, 'w) pool \<Rightarrow> bool" for env cpus where
  tick: "i < length (pl_live p) \<Longrightarrow> pool_step env cpus p (worker_tick env i p)"
| scale: "pool_step env cpus p (autoScale_tick cpus p)"
| manual: "pool_step env cpus p (p\<lparr>pl_worker := (pl_worker p)\<lparr>st_proc := ScaleWorkers n (st_proc (pl_worker p))\<rparr>\<rparr>)"
| stop: "pool_step env cpus p (p\<lparr>pl_cancelled := True\<rparr>)"
| leave: "i < length (pl_live p) \<Longrightarrow> pool_step env cpus p (worker_exit i p)"

text \<open>A step in which no job panics.\<close>

definition calm :: "('l, 'w) worker_env \<Rightarrow> int \<Rightarrow> ('l, 'w) pool \<Rightarrow> ('l, 'w) pool \<Rightarrow> bool" where
  "calm env cpus p p' \<longleftrightarrow> pool_step env cpus p p' \<and> fst (processNext env (pl_worker p)) = Returns ()"

lemma background_in_rest:
  "BackgroundContext \<in> set xs \<Longrightarrow> xs ! i = ServerContext \<Longrightarrow> i < length xs \<Longrightarrow>
   BackgroundContext \<in> set (take i xs @ drop (Suc i) xs)"
  by (subst (asm) id_take_nth_drop [of i xs]) auto

lemma calm_keeps_background:
  assumes "calm env cpus p p'" and "BackgroundContext \<in> set (pl_live p)"
  shows "BackgroundContext \<in> set (pl_live p')"
proof -
  from assms(1) have step: "pool_step env cpus p p'" and ok: "fst (processNext env (pl_worker p)) = Returns ()"
    by (simp_all add: calm_def)
  from step show ?thesis
  proof cases
    case (tick i)
    with ok assms(2) show ?thesis by (auto simp: worker_tick_def split: prod.split go_result.split)
  next
    case scale
    with assms(2) show ?thesis by (auto simp: autoScale_tick_def spawnWorker_def Let_def split: prod.split)
  next
    case (leave i)
    then show ?thesis using assms(2) background_in_rest [of "pl_live p" i]
      by (auto simp: worker_exit_def)
  qed (use assms(2) in simp_all)
qed

text \<open>once the scaling has started a worker, the shutdown never completes: whatever happens, as long as no
  job panics, that goroutine does not end and \<open>Wait\<close> does not return.\<close>

theorem scaled_worker_blocks_shutdown:
  assumes "fst (evaluateScaling cpus (pl_worker p))" and "(calm env cpus)\<^sup>*\<^sup>* (autoScale_tick cpus p) p'"
  shows "\<not> Wait_returns p'"
proof -
  have "BackgroundContext \<in> set (pl_live (autoScale_tick cpus p))"
    using assms(1) by (auto simp: autoScale_tick_def spawnWorker_def Let_def split: prod.splits)
  with assms(2) have "BackgroundContext \<in> set (pl_live p')"
    by (induction rule: rtranclp_induct) (auto intro: calm_keeps_background)
  then show ?thesis by (auto simp: Wait_returns_def)
qed

text \<open>A queue of 51 pending jobs makes the scaling start a third worker.\<close>

definition busy_pool :: "(unit, unit) pool" where
  "busy_pool = Start 0 (demo_worker\<lparr>st_db := two_jobs\<lparr>t_jobs := replicate 51 (hd (t_jobs two_jobs))\<rparr>\<rparr>)"

lemma busy_scales: "fst (evaluateScaling 4 (pl_worker busy_pool))"
  by code_simp

theorem scaled_worker_blocks_shutdown_witness: "\<not> Wait_returns (autoScale_tick 4 busy_pool)"
  by (rule scaled_worker_blocks_shutdown [OF busy_scales, where env = demo_env]) simp

end
