(* ===== verification/Batch_Processor.thy ===== *)
theory Batch_Processor
  imports Processor
begin

text \<open>
  Mails in batches, \<open>internal/features/jobs/worker/batch_processor.go\<close>. One goroutine per
  recipient sends the recipient's mails one after the other and puts every error into a
  channel with room for one error per recipient; the caller waits for all goroutines before
  it reads the channel. The interleaving of the goroutines is the relation \<open>batch_step\<close>;
  \<open>ProcessEmailBatch\<close> runs one schedule, and \<open>batch_schedules_agree\<close> shows that every schedule
  ends the same way.
\<close>

record email_batch_job =
  eb_to :: string
  eb_subject :: string
  eb_body :: string
  eb_job_id :: int

definition email_of_job :: "job \<Rightarrow> email_batch_job option" where
  "email_of_job j =
     (case payload_fields (j_payload j) of
        None \<Rightarrow> None
      | Some ms \<Rightarrow>
          (case (string_field ''to'' ms, string_field ''subject'' ms, string_field ''body'' ms, int64_field ''job_id'' ms) of
             (Some to, Some subject, Some body, Some i) \<Rightarrow>
               Some \<lparr>eb_to = to, eb_subject = subject, eb_body = body, eb_job_id = j_id j\<rparr>
           | _ \<Rightarrow> None))"

text \<open>The jobs that can be read; the others are logged and left out.\<close>

fun batch_jobs :: "int list \<Rightarrow> db \<Rightarrow> job list \<times> db" where
  "batch_jobs [] s = ([], s)"
| "batch_jobs (i # is) s =
     (case GetJobByID i s of
        (Inl _, s1) \<Rightarrow> batch_jobs is s1
      | (Inr j, s1) \<Rightarrow> (case batch_jobs is s1 of (js, s2) \<Rightarrow> (j # js, s2)))"

type_synonym mail_groups = "(string \<times> email_batch_job list) list"

fun add_email :: "email_batch_job \<Rightarrow> mail_groups \<Rightarrow> mail_groups" where
  "add_email e [] = [(eb_to e, [e])]"
| "add_email e ((to, es) # gs) =
     (if to = eb_to e then (to, es @ [e]) # gs else (to, es) # add_email e gs)"

definition group_emails :: "email_batch_job list \<Rightarrow> mail_groups" where
  "group_emails es = fold add_email es []"

section \<open>The goroutines\<close>

text \<open>
  What each goroutine still has to send, and the errors in the channel. \<open>send\<close> is the mail
  server: the error a mail gives, if any. A goroutine whose mail failed is stuck while the
  channel is full.
\<close>

record batch_run =
  br_left :: mail_groups
  br_errors :: nat

inductive batch_step :: "(email_batch_job \<Rightarrow> string option) \<Rightarrow> nat \<Rightarrow> batch_run \<Rightarrow> batch_run \<Rightarrow> bool"
  for send :: "email_batch_job \<Rightarrow> string option" and room :: nat where
  sent: "br_left r = gs @ (to, e # es) # hs \<Longrightarrow> send e = None \<Longrightarrow>
    batch_step send room r (r\<lparr>br_left := gs @ (to, es) # hs\<rparr>)"
| failed: "br_left r = gs @ (to, e # es) # hs \<Longrightarrow> send e = Some err \<Longrightarrow> br_errors r < room \<Longrightarrow>
    batch_step send room r (r\<lparr>br_left := gs @ (to, es) # hs, br_errors := br_errors r + 1\<rparr>)"

definition all_done :: "batch_run \<Rightarrow> bool" where
  "all_done r \<longleftrightarrow> list_all (\<lambda>(to, es). es = []) (br_left r)"

text \<open>One schedule: the goroutines in order, each to its end. \<open>None\<close>: stuck on a full channel.\<close>

fun drain :: "(email_batch_job \<Rightarrow> string option) \<Rightarrow> nat \<Rightarrow> nat \<Rightarrow> mail_groups \<Rightarrow> nat option" where
  "drain send room n [] = Some n"
| "drain send room n ((to, []) # gs) = drain send room n gs"
| "drain send room n ((to, e # es) # gs) =
     (if send e = None then drain send room n ((to, es) # gs)
      else if n < room then drain send room (n + 1) ((to, es) # gs)
      else None)"

datatype batch_result = BatchOk | BatchError | BatchNeverReturns

definition ProcessEmailBatch ::
  "(email_batch_job \<Rightarrow> string option) \<Rightarrow> int list \<Rightarrow> db \<Rightarrow> batch_result \<times> db" where
  "ProcessEmailBatch send ids s =
     (if ids = [] then (BatchOk, s)
      else case batch_jobs ids s of
        (js, s1) \<Rightarrow>
          if js = [] then (BatchOk, s1)
          else let gs = group_emails (List.map_filter email_of_job js) in
            (case drain send (length gs) 0 gs of
               None \<Rightarrow> BatchNeverReturns
             | Some n \<Rightarrow> if 0 < n then BatchError else BatchOk, s1))"

text \<open>\<open>MarkJobsAsProcessed\<close>: the errors of the statements are logged, the transaction goes on.\<close>

definition mark_job :: "int \<Rightarrow> db \<Rightarrow> db" where
  "mark_job i s = ignore_error (CompleteJob i) (ignore_error (RecordJobProcessed i) s)"

definition MarkJobsAsProcessed :: "int list \<Rightarrow> unit query" where
  "MarkJobsAsProcessed ids = transaction (\<lambda>s. (Inr (), fold mark_job ids s))"

section \<open>Every schedule agrees\<close>

definition failures :: "(email_batch_job \<Rightarrow> string option) \<Rightarrow> mail_groups \<Rightarrow> nat" where
  "failures send gs = length (filter (\<lambda>e. send e \<noteq> None) (concat (map snd gs)))"

definition left_over :: "mail_groups \<Rightarrow> nat" where
  "left_over gs = length (concat (map snd gs))"

lemma failures_simps [simp]:
  "failures send [] = 0"
  "failures send ((to, []) # gs) = failures send gs"
  "failures send ((to, e # es) # gs) = (if send e = None then 0 else 1) + failures send ((to, es) # gs)"
  "failures send (gs @ hs) = failures send gs + failures send hs"
  by (simp_all add: failures_def)

lemma left_over_simps [simp]:
  "left_over [] = 0" "left_over ((to, []) # gs) = left_over gs"
  "left_over ((to, e # es) # gs) = Suc (left_over ((to, es) # gs))"
  "left_over (gs @ hs) = left_over gs + left_over hs"
  by (simp_all add: left_over_def)

lemma drain_iff:
  "n \<le> room \<Longrightarrow> drain send room n gs =
     (if n + failures send gs \<le> room then Some (n + failures send gs) else None)"
  by (induction send room n gs rule: drain.induct) auto

lemma batch_step_total: "batch_step send room r r' \<Longrightarrow>
   br_errors r' + failures send (br_left r') = br_errors r + failures send (br_left r) \<and>
   left_over (br_left r) = Suc (left_over (br_left r')) \<and> (br_errors r \<le> room \<longrightarrow> br_errors r' \<le> room)"
  by (induction rule: batch_step.induct) simp_all

lemma batch_steps_total: "(batch_step send room)\<^sup>*\<^sup>* r r' \<Longrightarrow>
   br_errors r' + failures send (br_left r') = br_errors r + failures send (br_left r) \<and>
   (br_errors r \<le> room \<longrightarrow> br_errors r' \<le> room)"
  by (induction rule: rtranclp_induct) (auto dest: batch_step_total)

lemma all_done_failures: "all_done r \<Longrightarrow> failures send (br_left r) = 0 \<and> left_over (br_left r) = 0"
proof -
  assume "all_done r"
  then have "concat (map snd (br_left r)) = []" by (auto simp: all_done_def list_all_iff)
  then show ?thesis by (simp add: failures_def left_over_def)
qed

lemma group_in_middle: "\<not> all_done r \<Longrightarrow> \<exists>gs to e es hs. br_left r = gs @ (to, e # es) # hs"
proof -
  assume "\<not> all_done r"
  then obtain to es where "(to, es) \<in> set (br_left r)" "es \<noteq> []"
    by (auto simp: all_done_def list_all_iff)
  then show ?thesis by (metis neq_Nil_conv split_list)
qed

text \<open>A goroutine that has a mail to send can go on, unless the channel is full and the mail fails.\<close>

lemma batch_progress:
  assumes "\<not> all_done r" and "br_errors r + failures send (br_left r) \<le> room"
  shows "\<exists>r'. batch_step send room r r'"
proof -
  obtain gs to e es hs where left: "br_left r = gs @ (to, e # es) # hs"
    using group_in_middle [OF assms(1)] by blast
  show ?thesis
  proof (cases "send e")
    case None
    with left show ?thesis by (blast intro: batch_step.sent)
  next
    case (Some err)
    with assms(2) left have "br_errors r < room" by simp
    with left Some show ?thesis by (blast intro: batch_step.failed)
  qed
qed

text \<open>C38: the goroutines of a batch always come to a halt, and every schedule of theirs halts the same way: if the
  failing mails are at most as many as the recipients, each halts with all mails sent and as many
  errors as mails failed; if they are more, no schedule ever finishes, so the call does not return.\<close>

theorem batch_schedules_agree:
  assumes "(batch_step send (length (group_emails es)))\<^sup>*\<^sup>* \<lparr>br_left = group_emails es, br_errors = 0\<rparr> r"
    and "\<And>r'. \<not> batch_step send (length (group_emails es)) r r'"
  shows "wfp (\<lambda>r' r. batch_step send (length (group_emails es)) r r') \<and>
    (if failures send (group_emails es) \<le> length (group_emails es)
     then all_done r \<and> br_errors r = failures send (group_emails es) \<and>
       drain send (length (group_emails es)) 0 (group_emails es) = Some (br_errors r)
     else \<not> all_done r \<and> drain send (length (group_emails es)) 0 (group_emails es) = None)"
proof
  let ?gs = "group_emails es" and ?room = "length (group_emails es)"
  show "wfp (\<lambda>r' r. batch_step send ?room r r')"
  proof (rule wfp_if_convertible_to_nat [where f = "\<lambda>r. left_over (br_left r)"])
    fix r' r assume "batch_step send ?room r r'"
    then show "left_over (br_left r') < left_over (br_left r)" by (auto dest: batch_step_total)
  qed
  have total: "br_errors r + failures send (br_left r) = failures send ?gs" "br_errors r \<le> ?room"
    using batch_steps_total [OF assms(1)] by simp_all
  show "if failures send ?gs \<le> ?room
     then all_done r \<and> br_errors r = failures send ?gs \<and> drain send ?room 0 ?gs = Some (br_errors r)
     else \<not> all_done r \<and> drain send ?room 0 ?gs = None"
  proof (cases "failures send ?gs \<le> ?room")
    case True
    with total have "all_done r" using assms(2) batch_progress by metis
    with True total show ?thesis using all_done_failures [of r send] by (simp add: drain_iff)
  next
    case False
    with total have "\<not> all_done r" using all_done_failures [of r send] by auto
    with False show ?thesis by (simp add: drain_iff)
  qed
qed

text \<open>Two mails to one recipient, both refused by the server: the call never returns.\<close>

definition two_mails :: "email_batch_job list" where
  "two_mails =
     [\<lparr>eb_to = ''a@b.c'', eb_subject = ''s'', eb_body = ''x'', eb_job_id = 1\<rparr>,
      \<lparr>eb_to = ''a@b.c'', eb_subject = ''s'', eb_body = ''y'', eb_job_id = 2\<rparr>]"

definition refuse_all :: "email_batch_job \<Rightarrow> string option" where
  "refuse_all e = Some ''550''"

definition stuck_run :: batch_run where
  "stuck_run = \<lparr>br_left = [(''a@b.c'', [two_mails ! 1])], br_errors = 1\<rparr>"

lemma two_mails_group: "group_emails two_mails = [(''a@b.c'', two_mails)]"
  by (simp add: group_emails_def two_mails_def)

lemma two_mails_stuck:
  "(batch_step refuse_all 1)\<^sup>*\<^sup>* \<lparr>br_left = [(''a@b.c'', two_mails)], br_errors = 0\<rparr> stuck_run"
  "\<not> batch_step refuse_all 1 stuck_run r'"
proof -
  have "batch_step refuse_all 1 \<lparr>br_left = [(''a@b.c'', two_mails)], br_errors = 0\<rparr> stuck_run"
    using batch_step.failed [of "\<lparr>br_left = [(''a@b.c'', two_mails)], br_errors = 0\<rparr>" "[]" "''a@b.c''"
        "two_mails ! 0" "[two_mails ! 1]" "[]" refuse_all "''550''" 1]
    by (simp add: two_mails_def refuse_all_def stuck_run_def)
  then show "(batch_step refuse_all 1)\<^sup>*\<^sup>* \<lparr>br_left = [(''a@b.c'', two_mails)], br_errors = 0\<rparr> stuck_run"
    by (rule r_into_rtranclp)
  show "\<not> batch_step refuse_all 1 stuck_run r'"
    by (auto elim!: batch_step.cases simp: stuck_run_def refuse_all_def)
qed

theorem batch_schedules_agree_witness:
  "\<not> all_done stuck_run \<and> drain refuse_all 1 0 (group_emails two_mails) = None"
proof -
  have "failures refuse_all (group_emails two_mails) = 2" "length (group_emails two_mails) = 1"
    unfolding two_mails_group by (simp_all add: two_mails_def refuse_all_def failures_def)
  then show ?thesis
    using batch_schedules_agree [of refuse_all two_mails stuck_run] two_mails_stuck
    by (simp add: two_mails_group)
qed

end
