(* ===== verification/Mailer.thy ===== *)
theory Mailer
  imports Http_Client
begin

text \<open>
  The mailer, \<open>internal/platform/mailer/sender.go\<close>: a message is sent through \<open>net/smtp\<close> behind a
  breaker of the HTTP client's kind. \<open>net/smtp\<close>, the clock and the context are a record of
  functions on a world \<open>'w\<close>; \<open>sm_cancelled\<close> gives the error of the context when the select takes
  that branch after the send that led from one world to the other.
\<close>

type_synonym smtp_auth = "string \<times> string \<times> string"

record 'w smtp =
  sm_now :: "'w \<Rightarrow> instant"
  sm_send :: "string \<Rightarrow> smtp_auth option \<Rightarrow> string \<Rightarrow> string list \<Rightarrow> string \<Rightarrow> 'w \<Rightarrow> string option \<times> 'w"
  sm_cancelled :: "'w \<Rightarrow> 'w \<Rightarrow> string option"

record mailer =
  ml_addr :: string
  ml_auth :: "smtp_auth option"
  ml_from :: string
  ml_breaker :: http_breaker

definition mailer_config :: http_breaker_config where
  "mailer_config = http_DefaultCircuitBreakerConfig\<lparr>hc_max_failures := 5, hc_timeout := 60 * second\<rparr>"

definition mailer_New :: "string \<Rightarrow> string \<Rightarrow> string \<Rightarrow> string \<Rightarrow> string \<Rightarrow> mailer" where
  "mailer_New host port user pass from_addr =
     \<lparr>ml_addr = host @ '':'' @ port,
      ml_auth = (if user \<noteq> '''' then Some (user, pass, host) else None),
      ml_from = from_addr, ml_breaker = hb_NewCircuitBreaker ''smtp'' mailer_config\<rparr>"

abbreviation (input) crlf :: string where "crlf \<equiv> [CHR 0x0D, CHR 0x0A]"

definition mail_message :: "string \<Rightarrow> string \<Rightarrow> string \<Rightarrow> string" where
  "mail_message to subject body =
     ''To: '' @ to @ crlf @ ''Subject: '' @ subject @ crlf @
     ''Content-Type: text/html; charset=UTF-8'' @ crlf @ crlf @ body"

text \<open>\<open>Send\<close>: the error, if any.\<close>

definition mailer_Send ::
  "'w smtp \<Rightarrow> string \<Rightarrow> string \<Rightarrow> string \<Rightarrow> mailer \<times> 'w \<Rightarrow> string option \<times> mailer \<times> 'w" where
  "mailer_Send env to subject body = (\<lambda>(m, w).
     case hb_Allow (sm_now env w) (ml_breaker m) of
       (False, b) \<Rightarrow> (Some ''smtp circuit breaker is open'', m\<lparr>ml_breaker := b\<rparr>, w)
     | (True, b) \<Rightarrow>
         (case sm_send env (ml_addr m) (ml_auth m) (ml_from m) [to] (mail_message to subject body) w of
            (sent, w') \<Rightarrow>
              (case sm_cancelled env w w' of
                 Some e \<Rightarrow>
                   (Some (''context cancelled: '' @ e), m\<lparr>ml_breaker := hb_RecordFailure (sm_now env w') b\<rparr>, w')
               | None \<Rightarrow>
                   (case sent of
                      Some e \<Rightarrow>
                        (Some (''failed to send email: '' @ e), m\<lparr>ml_breaker := hb_RecordFailure (sm_now env w') b\<rparr>, w')
                    | None \<Rightarrow> (None, m\<lparr>ml_breaker := hb_RecordSuccess b\<rparr>, w')))))"

text \<open>Mails one after the other, as a worker sends them.\<close>

primrec send_all :: "'w smtp \<Rightarrow> (string \<times> string \<times> string) list \<Rightarrow> mailer \<times> 'w \<Rightarrow> string option list \<times> mailer \<times> 'w" where
  "send_all env [] mw = ([], mw)"
| "send_all env (x # xs) mw =
     (case x of (to, subject, body) \<Rightarrow>
        case mailer_Send env to subject body mw of
          (e, mw1) \<Rightarrow> (case send_all env xs mw1 of (es, mw2) \<Rightarrow> (e # es, mw2)))"

section \<open>An SMTP server that is down is left alone\<close>

text \<open>The server never accepts a mail and the clock does not run backwards.\<close>

definition server_down :: "'w smtp \<Rightarrow> bool" where
  "server_down env \<longleftrightarrow>
     (\<forall>addr auth sender to msg w. fst (sm_send env addr auth sender to msg w) \<noteq> None)"

definition failing :: "nat \<Rightarrow> mailer \<Rightarrow> bool" where
  "failing n m \<longleftrightarrow> hb_config (ml_breaker m) = mailer_config \<and>
     hb_state (ml_breaker m) = StClosed \<and> hb_failures (ml_breaker m) = int n \<and> n < 5"

lemma mailer_config_simps [simp]:
  "hc_max_failures mailer_config = 5" "hc_timeout mailer_config = 60 * second"
  by (simp_all add: mailer_config_def)

lemma failing_send:
  assumes "server_down env" and "failing n m" and "mailer_Send env to subject body (m, w) = (e, m', w')"
  shows "e \<noteq> None \<and> (if n < 4 then failing (Suc n) m'
     else hb_state (ml_breaker m') = StOpen \<and> hb_last_failure (ml_breaker m') = sm_now env w' \<and>
       hb_config (ml_breaker m') = mailer_config)"
proof -
  have allow: "hb_Allow (sm_now env w) (ml_breaker m) = (True, ml_breaker m)"
    using assms(2) by (simp add: failing_def hb_Allow_def)
  obtain err where "sm_send env (ml_addr m) (ml_auth m) (ml_from m) [to] (mail_message to subject body) w =
      (Some err, snd (sm_send env (ml_addr m) (ml_auth m) (ml_from m) [to] (mail_message to subject body) w))"
    using assms(1) unfolding server_down_def by (metis option.exhaust prod.collapse)
  then have "m' = m\<lparr>ml_breaker := hb_RecordFailure (sm_now env w') (ml_breaker m)\<rparr> \<and> e \<noteq> None"
    using assms(3) allow by (auto simp: mailer_Send_def split: prod.splits option.splits)
  with assms(2) show ?thesis by (auto simp: failing_def hb_RecordFailure_def Let_def)
qed

lemma send_all_failing:
  assumes "server_down env" and "failing n m" and "n + length xs = 5" and "send_all env xs (m, w) = (es, m', w')"
  shows "hb_state (ml_breaker m') = StOpen \<and> hb_last_failure (ml_breaker m') = sm_now env w' \<and>
    hb_config (ml_breaker m') = mailer_config \<and> None \<notin> set es"
  using assms(2-4)
proof (induction xs arbitrary: n m w es)
  case Nil
  then show ?case by (simp add: failing_def)
next
  case (Cons x xs)
  obtain to subject body where x: "x = (to, subject, body)" by (cases x)
  obtain e m1 w1 where one: "mailer_Send env to subject body (m, w) = (e, m1, w1)" by (metis prod_cases3)
  obtain es1 where rest: "send_all env xs (m1, w1) = (es1, m', w')" and es: "es = e # es1"
    using Cons.prems(3) by (auto simp: x one split: prod.splits)
  note step = failing_send [OF assms(1) Cons.prems(1) one]
  show ?case
  proof (cases "n < 4")
    case True
    with step Cons.prems(2) Cons.IH [of "Suc n" m1 w1 es1] rest es show ?thesis by auto
  next
    case False
    with Cons.prems(2) have "xs = []" by (cases xs) simp_all
    with False step rest es show ?thesis by (cases e) simp_all
  qed
qed

text \<open>when five mails in a row failed on a new mailer, then for the 60 seconds after the last of them every mail
  is refused with the breaker's error: the SMTP server is not contacted and the mailer stays as it is.\<close>

theorem mailer_leaves_dead_server_alone:
  assumes "server_down env" and "length xs = 5"
    and "send_all env xs (mailer_New host port user pass sender, w) = (es, m, w1)"
    and "sm_now env w2 \<le> sm_now env w1 + 60 * second"
  shows "mailer_Send env to subject body (m, w2) = (Some ''smtp circuit breaker is open'', m, w2) \<and> None \<notin> set es"
proof -
  have "failing 0 (mailer_New host port user pass sender)"
    by (simp add: failing_def mailer_New_def hb_NewCircuitBreaker_def)
  from send_all_failing [OF assms(1) this _ assms(3)] assms(2)
  have st: "hb_state (ml_breaker m) = StOpen" "hb_last_failure (ml_breaker m) = sm_now env w1"
    "hb_config (ml_breaker m) = mailer_config" "None \<notin> set es" by simp_all
  have "hb_Allow (sm_now env w2) (ml_breaker m) = (False, ml_breaker m)"
    by (rule hb_Allow_refuses [where u = "sm_now env w1"])
      (use st assms(4) in \<open>simp_all add: hb_timeout_ok_def hb_opened_def second_def\<close>)
  with st(4) show ?thesis by (simp add: mailer_Send_def)
qed

text \<open>A server that refuses every mail after one second; the world is the time.\<close>

definition dead_server :: "int smtp" where
  "dead_server = \<lparr>sm_now = (\<lambda>t. t), sm_send = (\<lambda>_ _ _ _ _ t. (Some ''421'', t + second)), sm_cancelled = (\<lambda>_ _. None)\<rparr>"

definition five_mails :: "string option list \<times> mailer \<times> int" where
  "five_mails = send_all dead_server (replicate 5 (''a@b.c'', ''s'', ''b''))
     (mailer_New ''h'' ''25'' '''' '''' ''f'', 0)"

theorem mailer_leaves_dead_server_alone_witness:
  "mailer_Send dead_server ''a@b.c'' ''s'' ''b'' (fst (snd five_mails), snd (snd five_mails) + second) =
     (Some ''smtp circuit breaker is open'', fst (snd five_mails), snd (snd five_mails) + second)"
proof -
  have down: "server_down dead_server" by (simp add: server_down_def dead_server_def)
  have mails: "send_all dead_server (replicate 5 (''a@b.c'', ''s'', ''b''))
      (mailer_New ''h'' ''25'' '''' ''''  ''f'', 0) = (fst five_mails, fst (snd five_mails), snd (snd five_mails))"
    by (simp add: five_mails_def)
  have window: "sm_now dead_server (snd (snd five_mails) + second) \<le>
      sm_now dead_server (snd (snd five_mails)) + 60 * second"
    by (simp add: dead_server_def second_def)
  show ?thesis
    by (rule mailer_leaves_dead_server_alone [OF down _ mails window, THEN conjunct1]) simp
qed

end
