(* ===== verification/Unicode.thy ===== *)
theory Unicode
  imports Json
begin

text \<open>
  Go strings as text. A \<open>string\<close> here is the bytes of a Go string; \<open>range\<close> over it, the
  \<open>strings\<close> functions and the predicates of \<open>unicode\<close> see its runes. \<open>runes\<close> decodes UTF-8 as
  Go does: a byte that starts no well-formed sequence is U+FFFD and takes one byte. The tables
  of \<open>unicode\<close> are a record of functions; what the program relies on of them is \<open>ascii_tables\<close>.
\<close>

definition byte_of :: "char \<Rightarrow> nat" where "byte_of c = of_char c"

definition cont_byte :: "char \<Rightarrow> bool" where
  "cont_byte c \<longleftrightarrow> 0x80 \<le> byte_of c \<and> byte_of c < 0xC0"

definition low6 :: "char \<Rightarrow> nat" where "low6 c = byte_of c - 0x80"

text \<open>The first rune and the number of bytes it takes.\<close>

definition decode_rune :: "char \<Rightarrow> string \<Rightarrow> nat \<times> nat" where
  "decode_rune c cs =
     (let b = byte_of c; bad = (0xFFFD, 1) in
      if b < 0x80 then (b, 1)
      else if 0xC2 \<le> b \<and> b < 0xE0 then
        (case cs of c1 # _ \<Rightarrow> if cont_byte c1 then ((b - 0xC0) * 64 + low6 c1, 2) else bad | [] \<Rightarrow> bad)
      else if 0xE0 \<le> b \<and> b < 0xF0 then
        (case cs of
           c1 # c2 # _ \<Rightarrow>
             (let n = (b - 0xE0) * 4096 + low6 c1 * 64 + low6 c2
              in if cont_byte c1 \<and> cont_byte c2 \<and> 0x800 \<le> n \<and> \<not> surrogate n then (n, 3) else bad)
         | _ \<Rightarrow> bad)
      else if 0xF0 \<le> b \<and> b < 0xF5 then
        (case cs of
           c1 # c2 # c3 # _ \<Rightarrow>
             (let n = (b - 0xF0) * 262144 + low6 c1 * 4096 + low6 c2 * 64 + low6 c3
              in if cont_byte c1 \<and> cont_byte c2 \<and> cont_byte c3 \<and> 0x10000 \<le> n \<and> n < 0x110000
                 then (n, 4) else bad)
         | _ \<Rightarrow> bad)
      else bad)"

lemma decode_rune_width: "1 \<le> snd (decode_rune c cs)"
  by (auto simp: decode_rune_def Let_def split: list.split)

function runes :: "string \<Rightarrow> nat list" where
  "runes [] = []"
| "runes (c # cs) = fst (decode_rune c cs) # runes (drop (snd (decode_rune c cs) - 1) cs)"
  by pat_completeness auto
termination by (relation "measure length") auto

definition text_of_runes :: "nat list \<Rightarrow> string" where
  "text_of_runes ns = concat (map utf8_encode ns)"

definition scalar :: "nat \<Rightarrow> bool" where
  "scalar n \<longleftrightarrow> n < 0x110000 \<and> \<not> surrogate n"

section \<open>Encoding and decoding\<close>

lemma byte_char_of: "n < 256 \<Longrightarrow> byte_of (char_of n) = n"
  by (simp add: byte_of_def)

lemma split64:
  "n = n div 64 * 64 + n mod 64" "n div 64 = n div 4096 * 64 + n div 64 mod 64"
  "n div 4096 = n div 262144 * 64 + n div 4096 mod 64" for n :: nat
  using div_mult_mod_eq [of n 64] div_mult_mod_eq [of "n div 64" 64] div_mult_mod_eq [of "n div 4096" 64]
    div_mult2_eq [of n 64 64] div_mult2_eq [of n 4096 64] by simp_all

lemma decode_encode_rune:
  assumes "scalar n"
  shows "\<exists>c cs. utf8_encode n = c # cs \<and> decode_rune c (cs @ rest) = (n, Suc (length cs))"
proof -
  have m: "n mod 64 < 64" "(n div 64) mod 64 < 64" "(n div 4096) mod 64 < 64" by simp_all
  consider "n < 0x80" | "0x80 \<le> n" "n < 0x800" | "0x800 \<le> n" "n < 0x10000" | "0x10000 \<le> n" by linarith
  then show ?thesis
  proof cases
    case 1
    then show ?thesis by (simp add: utf8_encode_def decode_rune_def Let_def byte_char_of)
  next
    case 2
    then have hi: "n div 64 < 32" "2 \<le> n div 64" by linarith+
    have "n = (n div 64) * 64 + n mod 64" by simp
    moreover have "utf8_encode n = [char_of (0xC0 + n div 64), char_of (0x80 + n mod 64)]"
      using 2 by (simp add: utf8_encode_def)
    ultimately show ?thesis using hi m(1)
      by (simp add: decode_rune_def Let_def byte_char_of cont_byte_def low6_def)
  next
    case 3
    then have hi: "n div 4096 < 16" by linarith
    have "n = (n div 4096) * 4096 + (n div 64) mod 64 * 64 + n mod 64"
      using split64 [of n] by linarith
    with 3 hi m assms show ?thesis
      by (simp add: utf8_encode_def decode_rune_def Let_def byte_char_of cont_byte_def low6_def scalar_def)
  next
    case 4
    with assms have hi: "n div 262144 < 5" unfolding scalar_def by linarith
    have "n = (n div 262144) * 262144 + (n div 4096) mod 64 * 4096 + (n div 64) mod 64 * 64 + n mod 64"
      using split64 [of n] by linarith
    with 4 hi m assms show ?thesis
      by (simp add: utf8_encode_def decode_rune_def Let_def byte_char_of cont_byte_def low6_def scalar_def)
  qed
qed

lemma runes_encode: "scalar n \<Longrightarrow> runes (utf8_encode n @ rest) = n # runes rest"
  using decode_encode_rune [of n rest] by auto

lemma runes_text_of_runes: "list_all scalar ns \<Longrightarrow> runes (text_of_runes ns) = ns"
  by (induction ns) (simp_all add: text_of_runes_def runes_encode)

text \<open>ASCII text is its own runes.\<close>

definition ascii :: "string \<Rightarrow> bool" where
  "ascii = list_all (\<lambda>c. byte_of c < 0x80)"

lemma runes_ascii: "ascii s \<Longrightarrow> runes s = map byte_of s"
  by (induction s) (auto simp: ascii_def decode_rune_def Let_def)

lemma text_of_ascii_runes: "list_all (\<lambda>n. n < 0x80) ns \<Longrightarrow> text_of_runes ns = map char_of ns"
  by (induction ns) (auto simp: text_of_runes_def utf8_encode_def)

section \<open>The tables of unicode\<close>

record unicode =
  uc_upper :: "nat \<Rightarrow> bool"
  uc_lower :: "nat \<Rightarrow> bool"
  uc_number :: "nat \<Rightarrow> bool"
  uc_letter :: "nat \<Rightarrow> bool"
  uc_space :: "nat \<Rightarrow> bool"
  uc_to_lower :: "nat \<Rightarrow> nat"
  uc_to_upper :: "nat \<Rightarrow> nat"

definition rune_upper :: "nat \<Rightarrow> bool" where "rune_upper n \<longleftrightarrow> 65 \<le> n \<and> n \<le> 90"
definition rune_lower :: "nat \<Rightarrow> bool" where "rune_lower n \<longleftrightarrow> 97 \<le> n \<and> n \<le> 122"
definition rune_digit :: "nat \<Rightarrow> bool" where "rune_digit n \<longleftrightarrow> 48 \<le> n \<and> n \<le> 57"

text \<open>The tables on ASCII, and \<open>ToLower\<close> yields scalars.\<close>

definition ascii_tables :: "unicode \<Rightarrow> bool" where
  "ascii_tables u \<longleftrightarrow>
     (\<forall>n < 0x80. uc_upper u n = rune_upper n \<and> uc_lower u n = rune_lower n \<and> uc_number u n = rune_digit n \<and>
        uc_letter u n = (rune_upper n \<or> rune_lower n) \<and>
        uc_space u n = (n \<in> {9, 10, 11, 12, 13, 32}) \<and>
        uc_to_lower u n = (if rune_upper n then n + 32 else n) \<and>
        uc_to_upper u n = (if rune_lower n then n - 32 else n)) \<and>
     (\<forall>n. scalar n \<longrightarrow> scalar (uc_to_lower u n))"

definition plain_unicode :: unicode where
  "plain_unicode =
     \<lparr>uc_upper = rune_upper, uc_lower = rune_lower, uc_number = rune_digit,
      uc_letter = (\<lambda>n. rune_upper n \<or> rune_lower n), uc_space = (\<lambda>n. n \<in> {9, 10, 11, 12, 13, 32}),
      uc_to_lower = (\<lambda>n. if rune_upper n then n + 32 else n),
      uc_to_upper = (\<lambda>n. if rune_lower n then n - 32 else n)\<rparr>"

lemma ascii_tables_plain: "ascii_tables plain_unicode"
  by (auto simp: ascii_tables_def plain_unicode_def scalar_def surrogate_def rune_upper_def)

definition ToLower :: "unicode \<Rightarrow> string \<Rightarrow> string" where
  "ToLower u s = text_of_runes (map (uc_to_lower u) (runes s))"

definition ToUpper :: "unicode \<Rightarrow> string \<Rightarrow> string" where
  "ToUpper u s = text_of_runes (map (uc_to_upper u) (runes s))"

text \<open>\<open>TrimSpace\<close> on runes.\<close>

definition trim_runes :: "unicode \<Rightarrow> nat list \<Rightarrow> nat list" where
  "trim_runes u ns = rev (dropWhile (uc_space u) (rev (dropWhile (uc_space u) ns)))"

lemma set_trim_runes: "set (trim_runes u ns) \<subseteq> set ns"
  by (auto simp: trim_runes_def dest!: set_dropWhileD)

lemma trim_runes_none: "list_all (\<lambda>n. \<not> uc_space u n) ns \<Longrightarrow> trim_runes u ns = ns"
proof -
  assume none: "list_all (\<lambda>n. \<not> uc_space u n) ns"
  have "dropWhile (uc_space u) xs = xs" if "list_all (\<lambda>n. \<not> uc_space u n) xs" for xs
    using that by (cases xs) auto
  with none show ?thesis by (simp add: trim_runes_def list_all_rev)
qed

text \<open>The runes of a string with the bytes each takes; \<open>TrimSpace\<close> drops parts and keeps the bytes.\<close>

function rune_parts :: "string \<Rightarrow> (nat \<times> string) list" where
  "rune_parts [] = []"
| "rune_parts (c # cs) =
     (fst (decode_rune c cs), take (snd (decode_rune c cs)) (c # cs)) #
     rune_parts (drop (snd (decode_rune c cs) - 1) cs)"
  by pat_completeness auto
termination by (relation "measure length") auto

definition TrimSpace :: "unicode \<Rightarrow> string \<Rightarrow> string" where
  "TrimSpace u s =
     (let blank = (\<lambda>p. uc_space u (fst p))
      in concat (map snd (rev (dropWhile blank (rev (dropWhile blank (rune_parts s)))))))"

lemma rune_parts_runes: "map fst (rune_parts s) = runes s"
  by (induction s rule: rune_parts.induct) auto

lemma concat_rune_parts: "concat (map snd (rune_parts s)) = s"
proof (induction s rule: rune_parts.induct)
  case (2 c cs)
  obtain k where "snd (decode_rune c cs) = Suc k" using decode_rune_width [of c cs] by (cases "snd (decode_rune c cs)") auto
  with 2 show ?case by simp
qed simp

lemma TrimSpace_none: "list_all (\<lambda>n. \<not> uc_space u n) (runes s) \<Longrightarrow> TrimSpace u s = s"
proof -
  assume none: "list_all (\<lambda>n. \<not> uc_space u n) (runes s)"
  then have parts: "list_all (\<lambda>p. \<not> uc_space u (fst p)) (rune_parts s)"
    by (simp add: rune_parts_runes [symmetric] list_all_iff)
  have "dropWhile (\<lambda>p. uc_space u (fst p)) ps = ps" if "list_all (\<lambda>p. \<not> uc_space u (fst p)) ps" for ps :: "(nat \<times> string) list"
    using that by (cases ps) auto
  with parts show ?thesis by (simp add: TrimSpace_def concat_rune_parts list_all_rev)
qed

end
