(* ===== verification/Validation.thy ===== *)
theory Validation
  imports Unicode
begin

text \<open>
  Passwords and email addresses, \<open>internal/features/auth/validation.go\<close>. An error is its text;
  \<open>None\<close> is \<open>nil\<close>. The regular expression of addresses is the matcher \<open>email_regex\<close>.
\<close>

section \<open>Addresses\<close>

definition allowed_rune :: "nat \<Rightarrow> bool" where
  "allowed_rune n \<longleftrightarrow> rune_lower n \<or> rune_digit n \<or> n \<in> {64, 46, 45, 95, 43}"

definition SanitizeEmail :: "unicode \<Rightarrow> string \<Rightarrow> string" where
  "SanitizeEmail u email =
     text_of_runes (filter allowed_rune (map (uc_to_lower u) (trim_runes u (runes email))))"

definition local_char :: "char \<Rightarrow> bool" where
  "local_char c \<longleftrightarrow> (let n = byte_of c in
     rune_upper n \<or> rune_lower n \<or> rune_digit n \<or> c \<in> set ''._%+-'')"

definition domain_char :: "char \<Rightarrow> bool" where
  "domain_char c \<longleftrightarrow> (let n = byte_of c in
     rune_upper n \<or> rune_lower n \<or> rune_digit n \<or> c \<in> set ''.-'')"

definition alpha_char :: "char \<Rightarrow> bool" where
  "alpha_char c \<longleftrightarrow> rune_upper (byte_of c) \<or> rune_lower (byte_of c)"

text \<open>\<open>^[a-zA-Z0-9._%+\-]+@[a-zA-Z0-9.\-]+\.[a-zA-Z]{2,}$\<close>: the part before the first \<open>@\<close>, and a dot
  in the rest with domain characters before and at least two letters after it.\<close>

definition domain_matches :: "string \<Rightarrow> bool" where
  "domain_matches d \<longleftrightarrow>
     list_ex (\<lambda>i. d ! i = CHR ''.'' \<and> 0 < i \<and> list_all domain_char (take i d) \<and>
        2 \<le> length (drop (Suc i) d) \<and> list_all alpha_char (drop (Suc i) d)) [0..<length d]"

definition email_regex :: "string \<Rightarrow> bool" where
  "email_regex e \<longleftrightarrow>
     (let local = takeWhile (\<lambda>c. c \<noteq> CHR ''@'') e; rest = dropWhile (\<lambda>c. c \<noteq> CHR ''@'') e
      in local \<noteq> [] \<and> list_all local_char local \<and> rest \<noteq> [] \<and> domain_matches (tl rest))"

definition ValidateEmail :: "unicode \<Rightarrow> string \<Rightarrow> string option" where
  "ValidateEmail u email0 =
     (let email = SanitizeEmail u email0;
          domain = drop 1 (dropWhile (\<lambda>c. c \<noteq> CHR ''@'') email)
      in if email = '''' then Some ''email is required''
         else if 254 < length email then Some ''email must be at most 254 characters''
         else if \<not> email_regex email then Some ''invalid email format''
         else if str_contains email ''..'' then Some ''email cannot contain consecutive dots''
         else if length (filter (\<lambda>c. c = CHR ''@'') email) \<noteq> 1 then Some ''invalid email format''
         else if take 1 domain = ''-'' \<or> (domain \<noteq> [] \<and> last domain = CHR ''-'') then Some ''invalid domain format''
         else None)"

section \<open>Passwords\<close>

record password_policy =
  pp_min_length :: nat
  pp_uppercase :: bool
  pp_lowercase :: bool
  pp_number :: bool
  pp_special :: bool
  pp_common :: bool
  pp_email :: bool

definition DefaultPasswordPolicy :: password_policy where
  "DefaultPasswordPolicy =
     \<lparr>pp_min_length = 8, pp_uppercase = True, pp_lowercase = True, pp_number = True, pp_special = False,
      pp_common = True, pp_email = True\<rparr>"

definition commonPasswords :: "string list" where
  "commonPasswords =
     [''password'', ''123456'', ''12345678'', ''qwerty'', ''abc123'', ''monkey'', ''1234567'', ''letmein'',
      ''trustno1'', ''dragon'', ''baseball'', ''iloveyou'', ''sunshine'', ''ashley'', ''bailey'', ''shadow'',
      ''123123'', ''654321'', ''superman'', ''qazwsx'', ''michael'', ''football'', ''password1'',
      ''password123'', ''welcome'', ''jesus'', ''ninja'', ''mustang'', ''password1234'', ''admin'',
      ''admin123'', ''root'', ''toor'', ''pass'', ''test'', ''guest'', ''changeme'', ''123456789'',
      ''1234567890'', ''000000'', ''111111'', ''121212'', ''123321'', ''666666'', ''696969'', ''7777777'',
      ''888888'']"

definition isCommonPassword :: "unicode \<Rightarrow> string \<Rightarrow> bool" where
  "isCommonPassword u p \<longleftrightarrow> ToLower u p \<in> set commonPasswords"

definition special_rune :: "unicode \<Rightarrow> nat \<Rightarrow> bool" where
  "special_rune u n \<longleftrightarrow> \<not> uc_letter u n \<and> \<not> uc_number u n"

definition ValidatePasswordWithPolicy :: "unicode \<Rightarrow> string \<Rightarrow> string \<Rightarrow> password_policy \<Rightarrow> string option" where
  "ValidatePasswordWithPolicy u password email policy =
     (let rs = runes password; username = takeWhile (\<lambda>c. c \<noteq> CHR ''@'') (ToLower u email) in
      if length password < pp_min_length policy then Some ''password must be at least 8 characters''
      else if pp_uppercase policy \<and> \<not> list_ex (uc_upper u) rs
      then Some ''password must contain at least one uppercase letter''
      else if pp_lowercase policy \<and> \<not> list_ex (uc_lower u) rs
      then Some ''password must contain at least one lowercase letter''
      else if pp_number policy \<and> \<not> list_ex (uc_number u) rs
      then Some ''password must contain at least one number''
      else if pp_special policy \<and> \<not> list_ex (special_rune u) rs
      then Some ''password must contain at least one special character''
      else if pp_common policy \<and> isCommonPassword u password then Some ''password is too common''
      else if pp_email policy \<and> email \<noteq> '''' \<and> 3 \<le> length username \<and> str_contains (ToLower u password) username
      then Some ''password cannot contain your email address''
      else None)"

definition ValidatePassword :: "unicode \<Rightarrow> string \<Rightarrow> string \<Rightarrow> string option" where
  "ValidatePassword u password email = ValidatePasswordWithPolicy u password email DefaultPasswordPolicy"

text \<open>The classes of the switch of \<open>PasswordStrength\<close>: the first case that holds.\<close>

definition class_upper :: "unicode \<Rightarrow> nat \<Rightarrow> bool" where "class_upper u n \<longleftrightarrow> uc_upper u n"
definition class_lower :: "unicode \<Rightarrow> nat \<Rightarrow> bool" where "class_lower u n \<longleftrightarrow> \<not> uc_upper u n \<and> uc_lower u n"
definition class_number :: "unicode \<Rightarrow> nat \<Rightarrow> bool" where
  "class_number u n \<longleftrightarrow> \<not> uc_upper u n \<and> \<not> uc_lower u n \<and> uc_number u n"
definition class_special :: "unicode \<Rightarrow> nat \<Rightarrow> bool" where
  "class_special u n \<longleftrightarrow> \<not> uc_upper u n \<and> \<not> uc_lower u n \<and> \<not> uc_number u n \<and> special_rune u n"

definition PasswordStrength :: "unicode \<Rightarrow> string \<Rightarrow> nat" where
  "PasswordStrength u password =
     (let rs = runes password; n = length password;
          variety = of_bool (list_ex (class_upper u) rs) + of_bool (list_ex (class_lower u) rs) +
            of_bool (list_ex (class_number u) rs) + of_bool (list_ex (class_special u) rs);
          strength = of_bool (8 \<le> n) + of_bool (12 \<le> n) + of_bool (16 \<le> n) +
            of_bool (3 \<le> (variety :: nat)) + of_bool (4 \<le> variety)
      in if 4 < strength then 4 else strength)"

section \<open>Sanitised addresses\<close>

lemma allowed_rune_ascii: "allowed_rune n \<Longrightarrow> n < 0x80 \<and> \<not> rune_upper n \<and> n \<notin> {9, 10, 11, 12, 13, 32}"
  by (auto simp: allowed_rune_def rune_lower_def rune_digit_def rune_upper_def)

definition clean_email :: "string \<Rightarrow> bool" where
  "clean_email = list_all (\<lambda>c. allowed_rune (byte_of c))"

lemma allowed_byte: "allowed_rune n \<Longrightarrow> byte_of (char_of n) = n"
  using allowed_rune_ascii [of n] by (simp add: byte_char_of)

lemma sanitize_is_clean: "clean_email (SanitizeEmail u s)"
proof -
  let ?ns = "filter allowed_rune (map (uc_to_lower u) (trim_runes u (runes s)))"
  have "list_all (\<lambda>n. n < 0x80) ?ns" by (auto simp: list_all_iff dest: allowed_rune_ascii)
  then have "SanitizeEmail u s = map char_of ?ns" by (simp add: SanitizeEmail_def text_of_ascii_runes)
  then show ?thesis by (auto simp: clean_email_def list_all_iff allowed_byte)
qed

lemma clean_sanitize:
  assumes "ascii_tables u" and "clean_email s"
  shows "SanitizeEmail u s = s"
proof -
  have asc: "list_all (\<lambda>n. n < 0x80 \<and> allowed_rune n) (map byte_of s)"
    using assms(2) by (auto simp: clean_email_def list_all_iff dest: allowed_rune_ascii)
  then have "ascii s" by (auto simp: ascii_def list_all_iff)
  then have rs: "runes s = map byte_of s" by (rule runes_ascii)
  have "list_all (\<lambda>n. \<not> uc_space u n) (map byte_of s)"
    using asc assms(1) by (auto simp: list_all_iff ascii_tables_def dest: allowed_rune_ascii)
  then have trim: "trim_runes u (runes s) = map byte_of s" by (simp add: rs trim_runes_none)
  have "map (uc_to_lower u) (map byte_of s) = map byte_of s"
    using asc assms(1) by (auto simp: list_all_iff ascii_tables_def dest: allowed_rune_ascii intro!: map_idI)
  moreover have "filter allowed_rune (map byte_of s) = map byte_of s"
    using asc by (simp add: list_all_iff filter_id_conv)
  ultimately have "SanitizeEmail u s = text_of_runes (map byte_of s)"
    unfolding SanitizeEmail_def trim by argo
  also have "\<dots> = map char_of (map byte_of s)" using asc by (intro text_of_ascii_runes) (auto simp: list_all_iff)
  also have "\<dots> = s" by (simp add: byte_of_def comp_def)
  finally show ?thesis .
qed

text \<open>sanitising an address twice is sanitising it once, and the result has only the characters
  a-z, 0-9 and @ . - _ +: in particular no capital letter, so two spellings that differ in case
  become the same address.\<close>

theorem sanitized_email_stable:
  assumes "ascii_tables u"
  shows "SanitizeEmail u (SanitizeEmail u s) = SanitizeEmail u s \<and>
    list_all (\<lambda>c. allowed_rune (byte_of c) \<and> \<not> rune_upper (byte_of c)) (SanitizeEmail u s)"
  using clean_sanitize [OF assms sanitize_is_clean] sanitize_is_clean [of u s]
  by (auto simp: clean_email_def list_all_iff dest: allowed_rune_ascii)

theorem sanitized_email_stable_witness:
  "SanitizeEmail plain_unicode (SanitizeEmail plain_unicode '' Ana%x@B.Com '') = SanitizeEmail plain_unicode '' Ana%x@B.Com ''"
  using sanitized_email_stable [OF ascii_tables_plain, of "'' Ana%x@B.Com ''"] by blast

section \<open>Accepted addresses\<close>

lemma domain_matches_iff:
  "domain_matches d \<longleftrightarrow> (\<exists>labels tld. d = labels @ ''.'' @ tld \<and> labels \<noteq> [] \<and> list_all domain_char labels \<and>
     2 \<le> length tld \<and> list_all alpha_char tld)" (is "?l \<longleftrightarrow> ?r")
proof
  assume ?l
  then obtain i where i: "i < length d" "d ! i = CHR ''.''" "0 < i" "list_all domain_char (take i d)"
    "2 \<le> length (drop (Suc i) d)" "list_all alpha_char (drop (Suc i) d)"
    by (auto simp: domain_matches_def list_ex_iff)
  have "d = take i d @ ''.'' @ drop (Suc i) d" using id_take_nth_drop [OF i(1)] i(2) by simp
  moreover have "take i d \<noteq> []" using i(1,3) by auto
  ultimately show ?r using i(4-6) by blast
next
  assume ?r
  then obtain labels tld where d: "d = labels @ ''.'' @ tld" "labels \<noteq> []" "list_all domain_char labels"
    "2 \<le> length tld" "list_all alpha_char tld" by blast
  then have "length labels \<in> set [0..<length d]" by simp
  with d show ?l unfolding domain_matches_def list_ex_iff by (intro bexI [of _ "length labels"]) simp_all
qed

lemma email_regex_iff:
  "email_regex e \<longleftrightarrow> (\<exists>name labels tld. e = name @ ''@'' @ labels @ ''.'' @ tld \<and>
     name \<noteq> [] \<and> list_all local_char name \<and> labels \<noteq> [] \<and> list_all domain_char labels \<and>
     2 \<le> length tld \<and> list_all alpha_char tld)" (is "?l \<longleftrightarrow> ?r")
proof
  let ?n = "takeWhile (\<lambda>c. c \<noteq> CHR ''@'') e" and ?d = "dropWhile (\<lambda>c. c \<noteq> CHR ''@'') e"
  assume ?l
  then have l: "?n \<noteq> []" "list_all local_char ?n" "?d \<noteq> []" "domain_matches (tl ?d)"
    by (simp_all add: email_regex_def Let_def)
  obtain labels tld where d: "tl ?d = labels @ ''.'' @ tld" "labels \<noteq> []" "list_all domain_char labels"
    "2 \<le> length tld" "list_all alpha_char tld" using l(4) unfolding domain_matches_iff by blast
  have "hd ?d = CHR ''@''" using hd_dropWhile [OF l(3)] by simp
  then have "?d = CHR ''@'' # tl ?d" using l(3) by (metis list.collapse)
  then have "e = ?n @ ''@'' @ labels @ ''.'' @ tld" using d(1) by (metis append_Cons append_Nil takeWhile_dropWhile_id)
  with l(1,2) d(2-) show ?r by blast
next
  assume ?r
  then obtain name labels tld where e: "e = name @ ''@'' @ labels @ ''.'' @ tld" "name \<noteq> []"
    "list_all local_char name" "labels \<noteq> []" "list_all domain_char labels"
    "2 \<le> length tld" "list_all alpha_char tld" by blast
  have at: "\<forall>c\<in>set name. c \<noteq> CHR ''@''"
    using e(3) by (auto simp: list_all_iff local_char_def Let_def byte_of_def rune_upper_def rune_lower_def rune_digit_def)
  then have "takeWhile (\<lambda>c. c \<noteq> CHR ''@'') e = name" "dropWhile (\<lambda>c. c \<noteq> CHR ''@'') e = ''@'' @ labels @ ''.'' @ tld"
    by (simp_all add: e(1) takeWhile_append2 dropWhile_append2)
  moreover have "domain_matches (labels @ ''.'' @ tld)" using e(4-) unfolding domain_matches_iff by blast
  ultimately show ?l using e(2,3) by (simp add: email_regex_def Let_def)
qed

section \<open>Accepted passwords\<close>

definition disjoint_classes :: "unicode \<Rightarrow> bool" where
  "disjoint_classes u \<longleftrightarrow> (\<forall>n. \<not> (uc_upper u n \<and> uc_lower u n) \<and> \<not> (uc_upper u n \<and> uc_number u n) \<and>
     \<not> (uc_lower u n \<and> uc_number u n))"

lemma list_ex_mono: "list_ex P xs \<Longrightarrow> (\<And>x. P x \<Longrightarrow> Q x) \<Longrightarrow> list_ex Q xs"
  by (auto simp: list_ex_iff)

text \<open>the strength of a password is between 0 and 4, and a password the default policy accepts is not
  in the list of common ones, has at least eight bytes and a strength of at least two.\<close>

theorem accepted_password_strength:
  assumes "disjoint_classes u" and "ValidatePassword u p email = None"
  shows "2 \<le> PasswordStrength u p \<and> PasswordStrength u p \<le> 4 \<and> 8 \<le> length p \<and> \<not> isCommonPassword u p"
proof -
  have ok: "8 \<le> length p" "list_ex (uc_upper u) (runes p)" "list_ex (uc_lower u) (runes p)"
    "list_ex (uc_number u) (runes p)" "\<not> isCommonPassword u p"
    using assms(2)
    by (auto simp: ValidatePassword_def ValidatePasswordWithPolicy_def DefaultPasswordPolicy_def Let_def
        split: if_splits)
  have "list_ex (class_upper u) (runes p)" using ok(2) by (rule list_ex_mono) (simp add: class_upper_def)
  moreover have "list_ex (class_lower u) (runes p)"
    using ok(3) by (rule list_ex_mono) (use assms(1) in \<open>auto simp: class_lower_def disjoint_classes_def\<close>)
  moreover have "list_ex (class_number u) (runes p)"
    using ok(4) by (rule list_ex_mono) (use assms(1) in \<open>auto simp: class_number_def disjoint_classes_def\<close>)
  ultimately have "2 \<le> PasswordStrength u p" using ok(1) by (simp add: PasswordStrength_def Let_def)
  moreover have "PasswordStrength u p \<le> 4" by (simp add: PasswordStrength_def Let_def)
  ultimately show ?thesis using ok(1,5) by blast
qed

lemma disjoint_classes_plain: "disjoint_classes plain_unicode"
  by (simp add: disjoint_classes_def plain_unicode_def rune_upper_def rune_lower_def rune_digit_def)

theorem accepted_password_strength_witness: "2 \<le> PasswordStrength plain_unicode ''Correct1''"
proof -
  have rs: "runes ''Correct1'' = [67, 111, 114, 114, 101, 99, 116, 49]"
    by (subst runes_ascii) (simp_all add: ascii_def byte_of_def)
  have low: "ToLower plain_unicode ''Correct1'' = ''correct1''"
    unfolding ToLower_def rs
    by (simp add: plain_unicode_def rune_upper_def text_of_runes_def utf8_encode_def char_of_def bit_0)
  have "ValidatePassword plain_unicode ''Correct1'' '''' = None"
    unfolding ValidatePassword_def ValidatePasswordWithPolicy_def DefaultPasswordPolicy_def Let_def rs
      isCommonPassword_def low commonPasswords_def
    by (simp add: plain_unicode_def rune_upper_def rune_lower_def rune_digit_def)
  then show ?thesis using accepted_password_strength [OF disjoint_classes_plain] by blast
qed

end
