(* ===== verification/User_Queries.thy ===== *)
theory User_Queries
  imports Job_Queries
begin

text \<open>
  The statements on users, email verifications and password resets
  (\<open>internal/db/core.sql.go\<close>). \<open>users\<close> has \<open>UNIQUE(tenant_id, email)\<close> and references tenants
  and roles; the key of \<open>email_verifications\<close> is the email, the key of \<open>password_resets\<close> is the
  hash of the token, so one email may have several resets.
\<close>

section \<open>Users\<close>

definition GetUserByEmail :: "string \<Rightarrow> string \<Rightarrow> user query" where
  "GetUserByEmail tenant email =
     run (\<lambda>s. (case find (\<lambda>u. u_tenant u = tenant \<and> u_email u = email) (t_users s) of
                 None \<Rightarrow> Inl NoRows | Some u \<Rightarrow> Inr u, s))"

definition GetUserByID :: "int \<Rightarrow> user query" where
  "GetUserByID i =
     run (\<lambda>s. (case find (\<lambda>u. u_id u = i) (t_users s) of None \<Rightarrow> Inl NoRows | Some u \<Rightarrow> Inr u, s))"

text \<open>The uniqueness of a row is checked when it is inserted, the references at the end of the statement.\<close>

definition insert_user :: "user \<Rightarrow> user query" where
  "insert_user u s =
     (if find (\<lambda>v. u_tenant v = u_tenant u \<and> u_email v = u_email u) (t_users s) \<noteq> None
      then (Inl (UniqueViolation ''users.tenant_id, users.email''), s)
      else if u_tenant u \<notin> set (t_tenants s) \<or> u_role_id u \<notin> set (t_roles s)
      then (Inl ForeignKeyViolation, s)
      else (Inr u, s\<lparr>t_users := t_users s @ [u], seq_users := seq_users s + 1\<rparr>))"

definition CreateUser :: "string \<Rightarrow> string \<Rightarrow> string \<Rightarrow> string \<Rightarrow> user query" where
  "CreateUser tenant email hash role =
     run (\<lambda>s. insert_user
       \<lparr>u_id = seq_users s, u_tenant = tenant, u_email = email, u_password_hash = hash, u_role_id = role,
        u_is_verified = False, u_avatar_url = None, u_created_at = Some (clock s), u_provider = None,
        u_provider_id = None\<rparr> s)"

definition CreateUserWithOAuth ::
  "string \<Rightarrow> string \<Rightarrow> string option \<Rightarrow> string option \<Rightarrow> string \<Rightarrow> string \<Rightarrow> bool \<Rightarrow> string option \<Rightarrow> user query" where
  "CreateUserWithOAuth tenant email provider provider_id hash role verified avatar =
     run (\<lambda>s. insert_user
       \<lparr>u_id = seq_users s, u_tenant = tenant, u_email = email, u_password_hash = hash, u_role_id = role,
        u_is_verified = verified, u_avatar_url = avatar, u_created_at = Some (clock s),
        u_provider = provider, u_provider_id = provider_id\<rparr> s)"

text \<open>Two updates select by the email alone: they reach the users of every tenant.\<close>

definition UpdateUserPassword :: "string \<Rightarrow> string \<Rightarrow> unit query" where
  "UpdateUserPassword hash email =
     run (\<lambda>s. (Inr (), s\<lparr>t_users := update_where (\<lambda>u. u_email u = email)
                (\<lambda>u. u\<lparr>u_password_hash := hash\<rparr>) (t_users s)\<rparr>))"

definition VerifyUser :: "string \<Rightarrow> unit query" where
  "VerifyUser email =
     run (\<lambda>s. (Inr (), s\<lparr>t_users := update_where (\<lambda>u. u_email u = email)
                (\<lambda>u. u\<lparr>u_is_verified := True\<rparr>) (t_users s)\<rparr>))"

definition UpdateUserAvatar :: "string option \<Rightarrow> int \<Rightarrow> unit query" where
  "UpdateUserAvatar url i =
     run (\<lambda>s. (Inr (), s\<lparr>t_users := update_where (\<lambda>u. u_id u = i)
                (\<lambda>u. u\<lparr>u_avatar_url := url\<rparr>) (t_users s)\<rparr>))"

definition GetUserByProvider :: "string \<Rightarrow> string option \<Rightarrow> string option \<Rightarrow> user query" where
  "GetUserByProvider tenant provider provider_id =
     run (\<lambda>s. (case find (\<lambda>u. u_tenant u = tenant \<and> sql_eq (u_provider u) provider \<and>
                              sql_eq (u_provider_id u) provider_id) (t_users s) of
                 None \<Rightarrow> Inl NoRows | Some u \<Rightarrow> Inr u, s))"

definition UpdateUserWithOAuth ::
  "string option \<Rightarrow> string option \<Rightarrow> string option \<Rightarrow> bool \<Rightarrow> string \<Rightarrow> string \<Rightarrow> user query" where
  "UpdateUserWithOAuth provider provider_id avatar verified tenant email =
     run (\<lambda>s. let p = (\<lambda>u. u_tenant u = tenant \<and> u_email u = email);
                  f = (\<lambda>u. u\<lparr>u_provider := provider, u_provider_id := provider_id, u_avatar_url := avatar,
                             u_is_verified := verified\<rparr>)
              in (case find p (t_users s) of None \<Rightarrow> Inl NoRows | Some u \<Rightarrow> Inr (f u),
                  s\<lparr>t_users := update_where p f (t_users s)\<rparr>))"

text \<open>\<open>LIKE\<close>: case-insensitive for ASCII letters, \<open>%\<close> stands for any text and \<open>_\<close> for one character.\<close>

definition like_fold :: "char \<Rightarrow> nat" where
  "like_fold c = (let n = of_char c in if 65 \<le> n \<and> n \<le> 90 then n + 32 else n)"

fun sql_like :: "string \<Rightarrow> string \<Rightarrow> bool" where
  "sql_like [] v = (v = [])"
| "sql_like (p # ps) [] = (p = CHR ''%'' \<and> sql_like ps [])"
| "sql_like (p # ps) (c # cs) =
     (if p = CHR ''%'' then sql_like ps (c # cs) \<or> sql_like (p # ps) cs
      else (p = CHR ''_'' \<or> like_fold p = like_fold c) \<and> sql_like ps cs)"

definition ListUsersPaginated :: "string \<Rightarrow> string \<Rightarrow> int \<Rightarrow> int \<Rightarrow> user list query" where
  "ListUsersPaginated tenant search limit offset =
     run (\<lambda>s. (Inr (sql_page limit offset
            (sort_key (\<lambda>u. case u_created_at u of None \<Rightarrow> (1 :: int, 0) | Some t \<Rightarrow> (0, - t))
              (filter (\<lambda>u. u_tenant u = tenant \<and>
                 (sql_like (''%'' @ search @ ''%'') (u_email u) \<or> search = '''')) (t_users s)))), s))"

definition CountUsers :: "string \<Rightarrow> int query" where
  "CountUsers tenant = run (\<lambda>s. (Inr (int (length (filter (\<lambda>u. u_tenant u = tenant) (t_users s)))), s))"

section \<open>Email verifications\<close>

definition UpsertEmailVerification :: "string \<Rightarrow> string \<Rightarrow> instant \<Rightarrow> unit query" where
  "UpsertEmailVerification email token expires =
     run (\<lambda>s. (Inr (),
       if find (\<lambda>v. ev_email v = email) (t_email_verifications s) \<noteq> None
       then s\<lparr>t_email_verifications := update_where (\<lambda>v. ev_email v = email)
              (\<lambda>v. v\<lparr>ev_token := token, ev_expires_at := expires\<rparr>) (t_email_verifications s)\<rparr>
       else s\<lparr>t_email_verifications := t_email_verifications s @
              [\<lparr>ev_email = email, ev_token = token, ev_expires_at = expires, ev_created_at = Some (clock s)\<rparr>]\<rparr>))"

definition GetEmailVerificationByToken :: "string \<Rightarrow> email_verification query" where
  "GetEmailVerificationByToken token =
     run (\<lambda>s. (case find (\<lambda>v. ev_token v = token) (t_email_verifications s) of
                 None \<Rightarrow> Inl NoRows | Some v \<Rightarrow> Inr v, s))"

definition DeleteEmailVerification :: "string \<Rightarrow> unit query" where
  "DeleteEmailVerification email =
     run (\<lambda>s. (Inr (), s\<lparr>t_email_verifications := filter (\<lambda>v. ev_email v \<noteq> email) (t_email_verifications s)\<rparr>))"

section \<open>Password resets\<close>

definition UpsertPasswordReset :: "string \<Rightarrow> string \<Rightarrow> instant \<Rightarrow> unit query" where
  "UpsertPasswordReset email hash expires =
     run (\<lambda>s. (Inr (),
       if find (\<lambda>r. pr_token_hash r = hash) (t_password_resets s) \<noteq> None
       then s\<lparr>t_password_resets := update_where (\<lambda>r. pr_token_hash r = hash)
              (\<lambda>r. r\<lparr>pr_email := email, pr_expires_at := expires\<rparr>) (t_password_resets s)\<rparr>
       else s\<lparr>t_password_resets := t_password_resets s @
              [\<lparr>pr_email = email, pr_token_hash = hash, pr_expires_at = expires, pr_created_at = Some (clock s)\<rparr>]\<rparr>))"

definition GetPasswordResetByToken :: "string \<Rightarrow> password_reset query" where
  "GetPasswordResetByToken hash =
     run (\<lambda>s. (case find (\<lambda>r. pr_token_hash r = hash) (t_password_resets s) of
                 None \<Rightarrow> Inl NoRows | Some r \<Rightarrow> Inr r, s))"

definition DeletePasswordReset :: "string \<Rightarrow> unit query" where
  "DeletePasswordReset email =
     run (\<lambda>s. (Inr (), s\<lparr>t_password_resets := filter (\<lambda>r. pr_email r \<noteq> email) (t_password_resets s)\<rparr>))"

section \<open>The invariant of the users\<close>

text \<open>
  Ids are unique and below the counter, a tenant has one user per email, and every user has an
  existing tenant and role.
\<close>

definition users_wf :: "db \<Rightarrow> bool" where
  "users_wf s \<longleftrightarrow>
     keyed u_id (t_users s) \<and> list_all (\<lambda>u. u_id u < seq_users s) (t_users s) \<and>
     keyed (\<lambda>u. (u_tenant u, u_email u)) (t_users s) \<and>
     list_all (\<lambda>u. u_tenant u \<in> set (t_tenants s) \<and> u_role_id u \<in> set (t_roles s)) (t_users s) \<and>
     keyed ev_email (t_email_verifications s) \<and> keyed pr_token_hash (t_password_resets s)"

lemma users_wf_fault_blind: "fault_blind users_wf"
  by (simp add: fault_blind_def users_wf_def)

lemma users_wf_insert:
  assumes "users_wf s" and "u_id u = seq_users s"
  shows "users_wf (snd (insert_user u s))"
  using assms
  by (auto simp: insert_user_def users_wf_def keyed_def list_all_iff find_None_iff2 find_None_iff)

lemma users_wf_update:
  assumes "users_wf s" and "\<And>u. u_id (f u) = u_id u \<and> u_tenant (f u) = u_tenant u \<and>
    u_email (f u) = u_email u \<and> u_role_id (f u) = u_role_id u"
  shows "users_wf (s\<lparr>t_users := update_where p f (t_users s)\<rparr>)"
  using assms(1) unfolding users_wf_def
  by (auto simp: assms(2) intro!: keyed_update_where list_all_update_where)

lemma keyed_filter_list: "keyed k rs \<Longrightarrow> keyed k (filter p rs)"
  by (simp add: keyed_def distinct_map_filter)

lemma keyed_append_one: "keyed k rs \<Longrightarrow> k r \<notin> k ` set rs \<Longrightarrow> keyed k (rs @ [r])"
  by (simp add: keyed_def)

text \<open>Every statement of this theory keeps the invariant.\<close>

lemma users_wf_statements:
  assumes "users_wf s"
  shows "users_wf (snd (CreateUser tenant email hash role s))"
    and "users_wf (snd (CreateUserWithOAuth tenant email prov pid hash role verified avatar s))"
    and "users_wf (snd (UpdateUserPassword hash email s))"
    and "users_wf (snd (VerifyUser email s))"
    and "users_wf (snd (UpdateUserAvatar url i s))"
    and "users_wf (snd (UpdateUserWithOAuth prov pid avatar verified tenant email s))"
    and "users_wf (snd (UpsertEmailVerification email token expires s))"
    and "users_wf (snd (DeleteEmailVerification email s))"
    and "users_wf (snd (UpsertPasswordReset email hash expires s))"
    and "users_wf (snd (DeletePasswordReset email s))"
    and "users_wf (snd (GetUserByEmail tenant email s))"
    and "users_wf (snd (GetUserByProvider tenant prov pid s))"
    and "users_wf (snd (GetPasswordResetByToken hash s))"
    and "users_wf (snd (GetEmailVerificationByToken token s))"
proof -
  note run = run_preserves [OF users_wf_fault_blind _ assms]
  show "users_wf (snd (CreateUser tenant email hash role s))"
    "users_wf (snd (CreateUserWithOAuth tenant email prov pid hash role verified avatar s))"
    unfolding CreateUser_def CreateUserWithOAuth_def by (rule run, rule users_wf_insert, simp_all)+
  show "users_wf (snd (UpdateUserPassword hash email s))" "users_wf (snd (VerifyUser email s))"
    "users_wf (snd (UpdateUserAvatar url i s))"
    "users_wf (snd (UpdateUserWithOAuth prov pid avatar verified tenant email s))"
    unfolding UpdateUserPassword_def VerifyUser_def UpdateUserAvatar_def UpdateUserWithOAuth_def Let_def
    by (rule run, simp, rule users_wf_update, simp_all)+
  show "users_wf (snd (UpsertEmailVerification email token expires s))"
    unfolding UpsertEmailVerification_def
    by (rule run) (auto simp: users_wf_def find_None_iff intro!: keyed_update_where keyed_append_one)
  show "users_wf (snd (UpsertPasswordReset email hash expires s))"
    unfolding UpsertPasswordReset_def
    by (rule run) (auto simp: users_wf_def find_None_iff intro!: keyed_update_where keyed_append_one)
  show "users_wf (snd (DeleteEmailVerification email s))" "users_wf (snd (DeletePasswordReset email s))"
    unfolding DeleteEmailVerification_def DeletePasswordReset_def
    by (rule run, simp add: users_wf_def keyed_filter_list)+
  show "users_wf (snd (GetUserByEmail tenant email s))" "users_wf (snd (GetUserByProvider tenant prov pid s))"
    "users_wf (snd (GetPasswordResetByToken hash s))" "users_wf (snd (GetEmailVerificationByToken token s))"
    unfolding GetUserByEmail_def GetUserByProvider_def GetPasswordResetByToken_def GetEmailVerificationByToken_def
    by (rule run, simp)+
qed

text \<open>The tables the invariant is about.\<close>

definition user_tables ::
  "db \<Rightarrow> user list \<times> int \<times> string list \<times> string list \<times> email_verification list \<times> password_reset list" where
  "user_tables s =
     (t_users s, seq_users s, t_tenants s, t_roles s, t_email_verifications s, t_password_resets s)"

lemma users_wf_tables: "user_tables s' = user_tables s \<Longrightarrow> users_wf s' = users_wf s"
  by (simp add: user_tables_def users_wf_def)

end
