(* ===== verification/Auth.thy ===== *)
theory Auth
  imports Validation User_Queries Job_Repository
begin

text \<open>
  Registration, login, password reset and email verification: \<open>internal/features/auth/service.go\<close>
  over the repositories of \<open>repository.go\<close>. The random source, SHA-256 and bcrypt are a record
  of functions; bcrypt draws its salt, so it acts on a world \<open>'w\<close>. An error is its text.
\<close>

record 'w auth_lib =
  al_unicode :: unicode
  al_rand :: "'w \<Rightarrow> string option \<times> 'w"
  al_sha256 :: "string \<Rightarrow> string"
  al_bcrypt :: "string \<Rightarrow> 'w \<Rightarrow> string option \<times> 'w"
  al_compare :: "string \<Rightarrow> string \<Rightarrow> bool"

text \<open>
  What the documentation of bcrypt promises: a password of at most 72 bytes is hashed, a longer
  one is refused, and a hash matches the password it was made of. The empty string is no hash.
\<close>

definition bcrypt_ok :: "'w auth_lib \<Rightarrow> bool" where
  "bcrypt_ok lib \<longleftrightarrow>
     (\<forall>p w. (length p \<le> 72 \<longrightarrow> (\<exists>h w'. al_bcrypt lib p w = (Some h, w') \<and> al_compare lib h p)) \<and>
            (72 < length p \<longrightarrow> (\<exists>w'. al_bcrypt lib p w = (None, w')))) \<and>
     (\<forall>p. \<not> al_compare lib '''' p)"

text \<open>\<open>hex.EncodeToString\<close>.\<close>

definition hex_encode :: "string \<Rightarrow> string" where
  "hex_encode s = concat (map (\<lambda>c. [hex_digit (of_char c div 16), hex_digit (of_char c mod 16)]) s)"

section \<open>Repositories\<close>

definition auth_Create :: "string \<Rightarrow> string \<Rightarrow> string \<Rightarrow> string \<Rightarrow> user query" where
  "auth_Create tenant email hash role = CreateUser tenant email hash role"

definition auth_GetByEmail :: "string \<Rightarrow> string \<Rightarrow> user query" where
  "auth_GetByEmail tenant email = GetUserByEmail tenant email"

definition auth_GetByID :: "int \<Rightarrow> user query" where
  "auth_GetByID i = GetUserByID i"

definition auth_UpdatePassword :: "string \<Rightarrow> string \<Rightarrow> unit query" where
  "auth_UpdatePassword email hash = UpdateUserPassword hash email"

definition auth_UpdateAvatar :: "int \<Rightarrow> string \<Rightarrow> unit query" where
  "auth_UpdateAvatar i url = UpdateUserAvatar (Some url) i"

definition auth_Verify :: "string \<Rightarrow> unit query" where
  "auth_Verify email = VerifyUser email"

definition auth_GetByProvider :: "string \<Rightarrow> string \<Rightarrow> string \<Rightarrow> user query" where
  "auth_GetByProvider tenant provider provider_id = GetUserByProvider tenant (Some provider) (Some provider_id)"

definition auth_UpdateWithOAuth :: "string \<Rightarrow> string \<Rightarrow> string \<Rightarrow> string \<Rightarrow> string \<Rightarrow> bool \<Rightarrow> user query" where
  "auth_UpdateWithOAuth tenant email provider provider_id avatar verified =
     UpdateUserWithOAuth (Some provider) (Some provider_id) (Some avatar) verified tenant email"

definition auth_CreateWithOAuth ::
  "string \<Rightarrow> string \<Rightarrow> string \<Rightarrow> string \<Rightarrow> string \<Rightarrow> string \<Rightarrow> bool \<Rightarrow> string \<Rightarrow> user query" where
  "auth_CreateWithOAuth tenant email provider provider_id hash role verified avatar =
     CreateUserWithOAuth tenant email (Some provider) (Some provider_id) hash role verified (Some avatar)"

definition verif_Upsert :: "string \<Rightarrow> string \<Rightarrow> instant \<Rightarrow> unit query" where
  "verif_Upsert email token expires = UpsertEmailVerification email token expires"

definition verif_GetByToken :: "string \<Rightarrow> email_verification query" where
  "verif_GetByToken token = GetEmailVerificationByToken token"

definition verif_Delete :: "string \<Rightarrow> unit query" where
  "verif_Delete email = DeleteEmailVerification email"

definition reset_Upsert :: "string \<Rightarrow> string \<Rightarrow> instant \<Rightarrow> unit query" where
  "reset_Upsert email hash expires = UpsertPasswordReset email hash expires"

definition reset_GetByToken :: "string \<Rightarrow> password_reset query" where
  "reset_GetByToken hash = GetPasswordResetByToken hash"

definition reset_Delete :: "string \<Rightarrow> unit query" where
  "reset_Delete email = DeletePasswordReset email"

lemmas auth_repo_defs = auth_Create_def auth_GetByEmail_def auth_GetByID_def auth_UpdatePassword_def
  auth_UpdateAvatar_def auth_Verify_def auth_GetByProvider_def auth_UpdateWithOAuth_def
  auth_CreateWithOAuth_def verif_Upsert_def verif_GetByToken_def verif_Delete_def reset_Upsert_def
  reset_GetByToken_def reset_Delete_def

section \<open>The service\<close>

definition hashWithPepper :: "'w auth_lib \<Rightarrow> string \<Rightarrow> string \<Rightarrow> 'w \<Rightarrow> string \<times> 'w" where
  "hashWithPepper lib password pepper w =
     (case al_bcrypt lib (password @ pepper) w of
        (Some h, w') \<Rightarrow> (h, w') | (None, w') \<Rightarrow> ('''', w'))"

definition compareHashWithPepper :: "'w auth_lib \<Rightarrow> string \<Rightarrow> string \<Rightarrow> string \<Rightarrow> bool" where
  "compareHashWithPepper lib hash password pepper = al_compare lib hash (password @ pepper)"

definition default_tenant :: "string \<Rightarrow> string" where
  "default_tenant t = (if t = '''' then ''default'' else t)"

definition random_token :: "'w auth_lib \<Rightarrow> 'w \<Rightarrow> string option \<times> 'w" where
  "random_token lib w = (case al_rand lib w of (b, w') \<Rightarrow> (map_option hex_encode b, w'))"

definition Register ::
  "'w auth_lib \<Rightarrow> string \<Rightarrow> string \<Rightarrow> string \<Rightarrow> string \<Rightarrow> 'w \<times> db \<Rightarrow> (string + unit) \<times> 'w \<times> db" where
  "Register lib pepper email0 password tenant0 = (\<lambda>(w, s).
     let u = al_unicode lib; email = SanitizeEmail u email0; tenant = default_tenant tenant0 in
     case ValidateEmail u email of
       Some e \<Rightarrow> (Inl (''invalid email: '' @ e), w, s)
     | None \<Rightarrow>
     (case ValidatePassword u password email of
       Some e \<Rightarrow> (Inl (''weak password: '' @ e), w, s)
     | None \<Rightarrow>
     (case auth_GetByEmail tenant email s of
       (Inr _, s1) \<Rightarrow> (Inl ''email already in use'', w, s1)
     | (Inl _, s1) \<Rightarrow>
     (case hashWithPepper lib password pepper w of (hash, w1) \<Rightarrow>
     (case auth_Create tenant email hash ''user'' s1 of
       (Inl e, s2) \<Rightarrow> (Inl (dberr_text e), w1, s2)
     | (Inr _, s2) \<Rightarrow>
     (case random_token lib w1 of
       (None, w2) \<Rightarrow> (Inl ''rand'', w2, s2)
     | (Some token, w2) \<Rightarrow>
     (case verif_Upsert email token (clock s2 + 24 * hour) s2 of
       (Inl e, s3) \<Rightarrow> (Inl (dberr_text e), w2, s3)
     | (Inr _, s3) \<Rightarrow>
         (Inr (), w2, snd (auth_Enqueue ''send_verification_email'' (email @ ''|'' @ token) tenant s3)))))))))"

definition Login :: "'w auth_lib \<Rightarrow> string \<Rightarrow> string \<Rightarrow> string \<Rightarrow> string \<Rightarrow> db \<Rightarrow> (string + user) \<times> db" where
  "Login lib pepper email0 password tenant0 s =
     (let email = SanitizeEmail (al_unicode lib) email0 in
      case auth_GetByEmail (default_tenant tenant0) email s of
        (Inl _, s1) \<Rightarrow> (Inl ''invalid credentials'', s1)
      | (Inr u, s1) \<Rightarrow>
          if compareHashWithPepper lib (u_password_hash u) password pepper then (Inr u, s1)
          else (Inl ''invalid credentials'', s1))"

definition token_hash :: "'w auth_lib \<Rightarrow> string \<Rightarrow> string" where
  "token_hash lib token = hex_encode (al_sha256 lib token)"

definition ForgotPassword ::
  "'w auth_lib \<Rightarrow> string \<Rightarrow> string \<Rightarrow> 'w \<times> db \<Rightarrow> (string + unit) \<times> 'w \<times> db" where
  "ForgotPassword lib email0 tenant0 = (\<lambda>(w, s).
     let email = SanitizeEmail (al_unicode lib) email0; tenant = default_tenant tenant0 in
     case auth_GetByEmail tenant email s of
       (Inl _, s1) \<Rightarrow> (Inr (), w, s1)
     | (Inr _, s1) \<Rightarrow>
     (case random_token lib w of
       (None, w1) \<Rightarrow> (Inl ''rand'', w1, s1)
     | (Some token, w1) \<Rightarrow>
     (case reset_Upsert email (token_hash lib token) (clock s1 + hour) s1 of
       (Inl e, s2) \<Rightarrow> (Inl (dberr_text e), w1, s2)
     | (Inr _, s2) \<Rightarrow>
         (Inr (), w1, snd (auth_Enqueue ''send_password_reset_email'' (email @ ''|'' @ token) tenant s2)))))"

definition ResetPassword ::
  "'w auth_lib \<Rightarrow> string \<Rightarrow> string \<Rightarrow> string \<Rightarrow> 'w \<times> db \<Rightarrow> (string + unit) \<times> 'w \<times> db" where
  "ResetPassword lib pepper token password = (\<lambda>(w, s).
     case reset_GetByToken (token_hash lib token) s of
       (Inl _, s1) \<Rightarrow> (Inl ''invalid token'', w, s1)
     | (Inr r, s1) \<Rightarrow>
         if pr_expires_at r < clock s1 then (Inl ''token expired'', w, s1)
         else case hashWithPepper lib password pepper w of (hash, w1) \<Rightarrow>
           (case auth_UpdatePassword (pr_email r) hash s1 of
              (Inl e, s2) \<Rightarrow> (Inl (dberr_text e), w1, s2)
            | (Inr _, s2) \<Rightarrow> (Inr (), w1, snd (reset_Delete (pr_email r) s2))))"

definition VerifyEmail :: "string \<Rightarrow> db \<Rightarrow> (string + unit) \<times> db" where
  "VerifyEmail token s =
     (case verif_GetByToken token s of
        (Inl _, s1) \<Rightarrow> (Inl ''invalid token'', s1)
      | (Inr v, s1) \<Rightarrow>
          if ev_expires_at v < clock s1 then (Inl ''token expired'', s1)
          else case auth_Verify (ev_email v) s1 of
            (Inl e, s2) \<Rightarrow> (Inl (dberr_text e), s2)
          | (Inr _, s2) \<Rightarrow> (Inr (), snd (verif_Delete (ev_email v) s2)))"

text \<open>The \<open>Validate\<close> methods of the inputs, which the HTTP form handlers do not call.\<close>

definition RegisterInput_Validate :: "unicode \<Rightarrow> string \<Rightarrow> string \<Rightarrow> string option" where
  "RegisterInput_Validate u email password =
     (let e = SanitizeEmail u email in
      case ValidateEmail u e of Some t \<Rightarrow> Some t | None \<Rightarrow> ValidatePassword u password e)"

definition LoginInput_Validate :: "unicode \<Rightarrow> string \<Rightarrow> string \<Rightarrow> string option" where
  "LoginInput_Validate u email password =
     (if SanitizeEmail u email = '''' then Some ''email is required''
      else if password = '''' then Some ''password is required'' else None)"

definition ForgotPasswordInput_Validate :: "unicode \<Rightarrow> string \<Rightarrow> string option" where
  "ForgotPasswordInput_Validate u email =
     (if SanitizeEmail u email = '''' then Some ''email is required'' else None)"

definition ResetPasswordInput_Validate :: "unicode \<Rightarrow> string \<Rightarrow> string \<Rightarrow> string option" where
  "ResetPasswordInput_Validate u token password =
     (if token = '''' then Some ''token is required'' else ValidatePassword u password '''')"

section \<open>Registration and login\<close>

lemma GetUserByEmail_no_faults:
  "faults s = [] \<Longrightarrow> GetUserByEmail tenant email s =
     (case find (\<lambda>u. u_tenant u = tenant \<and> u_email u = email) (t_users s) of
        None \<Rightarrow> Inl NoRows | Some u \<Rightarrow> Inr u, s)"
  by (simp add: GetUserByEmail_def run_no_faults)

lemma auth_Enqueue_user_tables: "user_tables (snd (auth_Enqueue ty payload tenant s)) = user_tables s"
proof -
  have "user_tables (snd (CreateJob a b c d e s)) = user_tables s" for a b c d e s
    unfolding CreateJob_def by (rule run_frame) (auto simp: fault_blind_def insert_job_def user_tables_def)
  then have "user_tables s' = user_tables s" if "CreateJob a b c d e s = (r, s')" for a b c d e r s s'
    using that by (metis snd_conv)
  then show ?thesis
    unfolding auth_Enqueue_def
    by (intro transaction_frame) (auto simp: fault_blind_def user_tables_def split: prod.split sum.split)
qed

lemma auth_Enqueue_users: "t_users (snd (auth_Enqueue ty payload tenant s)) = t_users s"
  using auth_Enqueue_user_tables [of ty payload tenant s] by (simp add: user_tables_def)

lemma Register_Inr:
  assumes "Register lib pepper email0 password tenant0 (w, s) = (Inr (), w', s')" and "faults s = []"
  obtains hash w1 u where "hashWithPepper lib password pepper w = (hash, w1)"
    and "t_users s' = t_users s @ [u]"
    and "find (\<lambda>v. u_tenant v = default_tenant tenant0 \<and> u_email v = SanitizeEmail (al_unicode lib) email0) (t_users s) = None"
    and "u_tenant u = default_tenant tenant0" and "u_email u = SanitizeEmail (al_unicode lib) email0"
    and "u_password_hash u = hash" and "u_role_id u = ''user''" and "\<not> u_is_verified u"
proof -
  let ?email = "SanitizeEmail (al_unicode lib) email0" and ?tenant = "default_tenant tenant0"
  obtain hash w1 where h: "hashWithPepper lib password pepper w = (hash, w1)" by force
  let ?u = "\<lparr>u_id = seq_users s, u_tenant = ?tenant, u_email = ?email, u_password_hash = hash,
    u_role_id = ''user'', u_is_verified = False, u_avatar_url = None, u_created_at = Some (clock s),
    u_provider = None, u_provider_id = None\<rparr>"
  have none: "find (\<lambda>v. u_tenant v = ?tenant \<and> u_email v = ?email) (t_users s) = None"
    using assms by (auto simp: Register_def Let_def auth_GetByEmail_def GetUserByEmail_no_faults
        split: option.splits)
  have get: "auth_GetByEmail ?tenant ?email s = (Inl NoRows, s)"
    by (simp add: auth_GetByEmail_def GetUserByEmail_no_faults assms(2) none)
  have create: "auth_Create ?tenant ?email hash ''user'' s = insert_user ?u s"
    by (simp add: auth_Create_def CreateUser_def run_no_faults assms(2))
  from assms(1) get h create obtain s2 where ins: "insert_user ?u s = (Inr ?u, s2)"
    by (auto simp: Register_def Let_def insert_user_def split: option.splits if_splits)
  have users: "t_users (snd (verif_Upsert email token expires s2)) = t_users s2" for email token expires
    unfolding verif_Upsert_def UpsertEmailVerification_def by (rule run_frame) (auto simp: fault_blind_def)
  have "t_users s' = t_users s2"
    using assms(1) get h create ins users
    by (auto simp: Register_def Let_def split: option.splits prod.splits sum.splits)
      (metis auth_Enqueue_users snd_conv)+
  with ins have "t_users s' = t_users s @ [?u]" by (auto simp: insert_user_def split: if_splits)
  then show thesis using h none by (intro that [of hash w1 ?u]) simp_all
qed

lemma hash_short:
  assumes "bcrypt_ok lib" and "length (p @ pepper) \<le> 72" and "hashWithPepper lib p pepper w = (h, w1)"
  shows "al_compare lib h (p @ pepper)"
proof -
  obtain h' w' where "al_bcrypt lib (p @ pepper) w = (Some h', w')" "al_compare lib h' (p @ pepper)"
    using assms(1,2) unfolding bcrypt_ok_def by blast
  with assms(3) show ?thesis by (simp add: hashWithPepper_def)
qed

lemma hash_long:
  assumes "bcrypt_ok lib" and "72 < length (p @ pepper)" and "hashWithPepper lib p pepper w = (h, w1)"
  shows "\<not> al_compare lib h q"
proof -
  obtain w' where "al_bcrypt lib (p @ pepper) w = (None, w')"
    using assms(1,2) unfolding bcrypt_ok_def by blast
  with assms(1,3) show ?thesis by (simp add: hashWithPepper_def bcrypt_ok_def)
qed

text \<open>C22: after a registration, a login in the same tenant with any spelling of the address that sanitises to the
  same, and the same password, succeeds and returns the new user, as long as password and pepper
  have at most 72 bytes together. When they have more, bcrypt refuses, the error is dropped, the
  registration still succeeds, and no password at all can log in.\<close>

theorem register_then_login:
  assumes "bcrypt_ok lib" and "faults s = []"
    and "Register lib pepper email password tenant (w, s) = (Inr (), w', s')"
    and "SanitizeEmail (al_unicode lib) email' = SanitizeEmail (al_unicode lib) email"
    and "faults s1 = []" and "t_users s1 = t_users s'"
  shows "if length (password @ pepper) \<le> 72
    then \<exists>u. fst (Login lib pepper email' password tenant s1) = Inr u \<and> u \<notin> set (t_users s) \<and>
      u_role_id u = ''user''
    else fst (Login lib pepper email' other tenant s1) = Inl ''invalid credentials''"
proof -
  from assms(3,2) obtain hash w1 u where u: "hashWithPepper lib password pepper w = (hash, w1)"
    "t_users s' = t_users s @ [u]"
    "find (\<lambda>v. u_tenant v = default_tenant tenant \<and> u_email v = SanitizeEmail (al_unicode lib) email) (t_users s) = None"
    "u_tenant u = default_tenant tenant" "u_email u = SanitizeEmail (al_unicode lib) email"
    "u_password_hash u = hash" "u_role_id u = ''user''"
    by (rule Register_Inr)
  have "find (\<lambda>v. u_tenant v = default_tenant tenant \<and> u_email v = SanitizeEmail (al_unicode lib) email') (t_users s1) = Some u"
    using u(2-5) assms(4,6) by (simp add: find_append)
  then have login: "fst (Login lib pepper email' p tenant s1) =
      (if al_compare lib hash (p @ pepper) then Inr u else Inl ''invalid credentials'')" for p
    using assms(5) u(6) by (simp add: Login_def Let_def auth_GetByEmail_def GetUserByEmail_no_faults
        compareHashWithPepper_def)
  have "u \<notin> set (t_users s)" using u(3-5) by (auto simp: find_None_iff)
  with login u(7) hash_short [OF assms(1) _ u(1)] hash_long [OF assms(1) _ u(1)] show ?thesis by simp
qed

section \<open>Password reset\<close>

lemma ResetPassword_Inr:
  assumes "faults s = []" and "ResetPassword lib pepper token password (w, s) = (Inr (), w1, s1)"
  shows "\<exists>r hash. r \<in> set (t_password_resets s) \<and> pr_token_hash r = token_hash lib token \<and>
    clock s \<le> pr_expires_at r \<and> hashWithPepper lib password pepper w = (hash, w1) \<and>
    t_users s1 = update_where (\<lambda>u. u_email u = pr_email r) (\<lambda>u. u\<lparr>u_password_hash := hash\<rparr>) (t_users s) \<and>
    t_password_resets s1 = filter (\<lambda>r'. pr_email r' \<noteq> pr_email r) (t_password_resets s)"
proof -
  obtain r where r: "find (\<lambda>r. pr_token_hash r = token_hash lib token) (t_password_resets s) = Some r"
    using assms by (auto simp: ResetPassword_def reset_GetByToken_def GetPasswordResetByToken_def run_no_faults
        split: option.splits)
  obtain hash w' where h: "hashWithPepper lib password pepper w = (hash, w')" by force
  let ?s2 = "s\<lparr>t_users := update_where (\<lambda>u. u_email u = pr_email r) (\<lambda>u. u\<lparr>u_password_hash := hash\<rparr>) (t_users s)\<rparr>"
  have "\<not> pr_expires_at r < clock s" "w1 = w'"
    "s1 = ?s2\<lparr>t_password_resets := filter (\<lambda>r'. pr_email r' \<noteq> pr_email r) (t_password_resets s)\<rparr>"
    using assms r h
    by (auto simp: ResetPassword_def reset_GetByToken_def GetPasswordResetByToken_def auth_UpdatePassword_def
        UpdateUserPassword_def reset_Delete_def DeletePasswordReset_def run_no_faults split: if_splits)
  with r h find_Some_in [OF r] show ?thesis by (intro exI [of _ r] exI [of _ hash]) auto
qed

text \<open>C23: a successful reset used a stored, unexpired token and uses it up: the same token is refused
  from then on and changes nothing. It changes the password hash of every user with the address of
  the token, whatever the tenant, and of no other user.\<close>

theorem reset_token_single_use:
  assumes "faults s = []" and "keyed pr_token_hash (t_password_resets s)"
    and "ResetPassword lib pepper token password (w, s) = (Inr (), w1, s1)"
    and "faults s2 = []" and "t_password_resets s2 = t_password_resets s1"
  shows "(\<exists>r hash. r \<in> set (t_password_resets s) \<and> pr_token_hash r = token_hash lib token \<and>
      clock s \<le> pr_expires_at r \<and>
      t_users s1 = update_where (\<lambda>u. u_email u = pr_email r) (\<lambda>u. u\<lparr>u_password_hash := hash\<rparr>) (t_users s)) \<and>
    ResetPassword lib pepper token password' (w2, s2) = (Inl ''invalid token'', w2, s2)"
proof -
  from ResetPassword_Inr [OF assms(1,3)] obtain r hash where
    r: "r \<in> set (t_password_resets s)" "pr_token_hash r = token_hash lib token" "clock s \<le> pr_expires_at r"
    and users: "t_users s1 = update_where (\<lambda>u. u_email u = pr_email r) (\<lambda>u. u\<lparr>u_password_hash := hash\<rparr>) (t_users s)"
    and resets: "t_password_resets s1 = filter (\<lambda>r'. pr_email r' \<noteq> pr_email r) (t_password_resets s)"
    by blast
  have "find (\<lambda>r. pr_token_hash r = token_hash lib token) (t_password_resets s2) = None"
    unfolding find_None_iff_all assms(5) resets using keyed_unique [OF assms(2) r(1)] r(2) by fastforce
  then show ?thesis
    using assms(4) r users
    by (auto simp: ResetPassword_def reset_GetByToken_def GetPasswordResetByToken_def run_no_faults)
qed

section \<open>The invariant of the users\<close>

text \<open>An operation that keeps the invariant, and the sequencing of two of them.\<close>

definition keeps_users :: "(db \<Rightarrow> 'a \<times> db) \<Rightarrow> bool" where
  "keeps_users q \<longleftrightarrow> (\<forall>s r s'. users_wf s \<longrightarrow> q s = (r, s') \<longrightarrow> users_wf s')"

lemma keeps_usersI: "(\<And>s. users_wf s \<Longrightarrow> users_wf (snd (q s))) \<Longrightarrow> keeps_users q"
  unfolding keeps_users_def by (metis snd_conv)

lemma keeps_usersD: "keeps_users q \<Longrightarrow> q s = (r, s') \<Longrightarrow> users_wf s \<Longrightarrow> users_wf s'"
  unfolding keeps_users_def by blast

lemma keeps_users_repo [intro]:
  "keeps_users (auth_GetByEmail tenant email)" "keeps_users (auth_Create tenant email hash role)"
  "keeps_users (auth_UpdatePassword email hash)" "keeps_users (auth_Verify email)"
  "keeps_users (auth_UpdateAvatar i url)"
  "keeps_users (verif_Upsert email token expires)" "keeps_users (verif_GetByToken token)"
  "keeps_users (verif_Delete email)" "keeps_users (reset_Upsert email hash expires)"
  "keeps_users (reset_GetByToken hash)" "keeps_users (reset_Delete email)"
  "keeps_users (auth_Enqueue ty payload tenant)"
  by (rule keeps_usersI, simp add: auth_repo_defs users_wf_statements auth_Enqueue_user_tables [THEN users_wf_tables])+

lemmas keeps_users_dest = keeps_users_repo [THEN keeps_usersD]

lemma Register_keeps: "Register lib pepper email password tenant (w, s) = (r, w', s') \<Longrightarrow> users_wf s \<Longrightarrow> users_wf s'"
  unfolding Register_def Let_def
  by (auto split: option.splits prod.splits sum.splits dest!: keeps_users_dest
      simp: auth_Enqueue_user_tables [THEN users_wf_tables])

lemma ForgotPassword_keeps:
  "ForgotPassword lib email tenant (w, s) = (r, w', s') \<Longrightarrow> users_wf s \<Longrightarrow> users_wf s'"
  unfolding ForgotPassword_def Let_def
  by (auto split: option.splits prod.splits sum.splits dest!: keeps_users_dest
      simp: auth_Enqueue_user_tables [THEN users_wf_tables])

lemma ResetPassword_keeps:
  "ResetPassword lib pepper token password (w, s) = (r, w', s') \<Longrightarrow> users_wf s \<Longrightarrow> users_wf s'"
  unfolding ResetPassword_def
  by (auto split: prod.splits sum.splits if_splits dest!: keeps_users_dest
      simp: reset_Delete_def users_wf_statements)

lemma Login_keeps: "Login lib pepper email password tenant s = (r, s') \<Longrightarrow> users_wf s \<Longrightarrow> users_wf s'"
  unfolding Login_def Let_def by (auto split: prod.splits sum.splits if_splits dest!: keeps_users_dest)

lemma VerifyEmail_keeps: "VerifyEmail token s = (r, s') \<Longrightarrow> users_wf s \<Longrightarrow> users_wf s'"
  unfolding VerifyEmail_def
  by (auto split: prod.splits sum.splits if_splits dest!: keeps_users_dest simp: verif_Delete_def users_wf_statements)

section \<open>An example\<close>

definition demo_auth :: "unit auth_lib" where
  "demo_auth =
     \<lparr>al_unicode = plain_unicode, al_rand = (\<lambda>w. (Some ''ab'', w)), al_sha256 = (\<lambda>t. t),
      al_bcrypt = (\<lambda>p w. (if length p \<le> 72 then Some (CHR ''$'' # p) else None, w)),
      al_compare = (\<lambda>h p. h = CHR ''$'' # p)\<rparr>"

lemma bcrypt_ok_demo: "bcrypt_ok demo_auth"
  by (simp add: bcrypt_ok_def demo_auth_def)

lemma demo_sanitize:
  "SanitizeEmail plain_unicode ''ana@b.co'' = ''ana@b.co''" "SanitizeEmail plain_unicode '' Ana@B.co'' = ''ana@b.co''"
proof -
  show a: "SanitizeEmail plain_unicode ''ana@b.co'' = ''ana@b.co''"
    by (rule clean_sanitize [OF ascii_tables_plain])
      (simp add: clean_email_def byte_of_def allowed_rune_def rune_lower_def)
  have rs: "runes '' Ana@B.co'' = [32, 65, 110, 97, 64, 66, 46, 99, 111]"
    by (subst runes_ascii) (simp_all add: ascii_def byte_of_def)
  show "SanitizeEmail plain_unicode '' Ana@B.co'' = ''ana@b.co''"
    unfolding SanitizeEmail_def rs
    by (simp add: plain_unicode_def trim_runes_def rune_upper_def rune_lower_def rune_digit_def allowed_rune_def
        text_of_runes_def utf8_encode_def char_of_def bit_0)
qed

lemma demo_email_ok: "ValidateEmail plain_unicode ''ana@b.co'' = None"
proof -
  have "email_regex ''ana@b.co''"
    unfolding email_regex_iff
    by (rule exI [of _ "''ana''"], rule exI [of _ "''b''"], rule exI [of _ "''co''"])
      (simp add: local_char_def domain_char_def alpha_char_def byte_of_def rune_lower_def)
  then show ?thesis
    unfolding ValidateEmail_def Let_def demo_sanitize(1)
    by (simp add: str_contains_def upt_rec)
qed

lemma demo_password_ok: "ValidatePassword plain_unicode ''Correct1'' ''ana@b.co'' = None"
proof -
  have rs: "runes ''Correct1'' = [67, 111, 114, 114, 101, 99, 116, 49]" "runes ''ana@b.co'' = [97, 110, 97, 64, 98, 46, 99, 111]"
    by (subst runes_ascii; simp add: ascii_def byte_of_def)+
  have low: "ToLower plain_unicode ''Correct1'' = ''correct1''" "ToLower plain_unicode ''ana@b.co'' = ''ana@b.co''"
    unfolding ToLower_def rs
    by (simp_all add: plain_unicode_def rune_upper_def text_of_runes_def utf8_encode_def char_of_def bit_0)
  show ?thesis
    unfolding ValidatePassword_def ValidatePasswordWithPolicy_def DefaultPasswordPolicy_def Let_def rs
      isCommonPassword_def low commonPasswords_def
    by (simp add: plain_unicode_def rune_upper_def rune_lower_def rune_digit_def str_contains_def upt_rec)
qed

definition registered :: db where
  "registered = snd (snd (Register demo_auth ''pep'' '' Ana@B.co'' ''Correct1'' '''' ((), migrated_db 50)))"

lemma registered_ok:
  "\<exists>w'. Register demo_auth ''pep'' '' Ana@B.co'' ''Correct1'' '''' ((), migrated_db 50) = (Inr (), w', registered)"
proof -
  have lib: "al_unicode demo_auth = plain_unicode" by (simp add: demo_auth_def)
  have hash: "hashWithPepper demo_auth ''Correct1'' ''pep'' () = (''$Correct1pep'', ())"
    by (simp add: hashWithPepper_def demo_auth_def)
  have token: "random_token demo_auth () = (Some ''6162'', ())"
    by (simp add: random_token_def demo_auth_def hex_encode_def hex_digit_def char_of_def bit_0)
  have "fst (Register demo_auth ''pep'' '' Ana@B.co'' ''Correct1'' '''' ((), migrated_db 50)) = Inr ()"
    by (simp add: Register_def Let_def lib demo_sanitize demo_email_ok demo_password_ok hash token default_tenant_def
        auth_GetByEmail_def GetUserByEmail_no_faults auth_Create_def CreateUser_def run_no_faults migrated_db_def
        insert_user_def verif_Upsert_def UpsertEmailVerification_def)
  then show ?thesis unfolding registered_def by (metis prod.collapse)
qed

theorem register_then_login_witness:
  "\<exists>u. fst (Login demo_auth ''pep'' ''ana@b.co'' ''Correct1'' '''' (registered\<lparr>faults := []\<rparr>)) = Inr u \<and>
    u_role_id u = ''user''"
proof -
  obtain w' where "Register demo_auth ''pep'' '' Ana@B.co'' ''Correct1'' '''' ((), migrated_db 50) = (Inr (), w', registered)"
    using registered_ok by blast
  moreover have "SanitizeEmail (al_unicode demo_auth) ''ana@b.co'' = SanitizeEmail (al_unicode demo_auth) '' Ana@B.co''"
    by (simp add: demo_auth_def demo_sanitize)
  moreover have "faults (migrated_db 50) = []" by (simp add: migrated_db_def)
  ultimately show ?thesis
    using register_then_login [OF bcrypt_ok_demo, of "migrated_db 50" "''pep''" "'' Ana@B.co''" "''Correct1''" "''''" "()" w'
        registered "''ana@b.co''" "registered\<lparr>faults := []\<rparr>"] by auto
qed

text \<open>A stored reset for the address, an hour to go.\<close>

definition with_reset :: db where
  "with_reset = (migrated_db 50)\<lparr>t_password_resets :=
     [\<lparr>pr_email = ''ana@b.co'', pr_token_hash = token_hash demo_auth ''t1'', pr_expires_at = 60, pr_created_at = None\<rparr>]\<rparr>"

theorem reset_token_single_use_witness:
  "\<exists>s1. ResetPassword demo_auth ''pep'' ''t1'' ''New1'' ((), with_reset) = (Inr (), (), s1) \<and>
     ResetPassword demo_auth ''pep'' ''t1'' ''New2'' ((), s1) = (Inl ''invalid token'', (), s1)"
proof -
  let ?r = "ResetPassword demo_auth ''pep'' ''t1'' ''New1'' ((), with_reset)"
  have ok: "?r = (Inr (), (), snd (snd ?r))" and nf: "faults (snd (snd ?r)) = []"
    by (simp_all add: ResetPassword_def reset_GetByToken_def GetPasswordResetByToken_def run_no_faults with_reset_def
        migrated_db_def auth_UpdatePassword_def UpdateUserPassword_def reset_Delete_def DeletePasswordReset_def
        hashWithPepper_def demo_auth_def)
  have "faults with_reset = []" "keyed pr_token_hash (t_password_resets with_reset)"
    by (simp_all add: with_reset_def migrated_db_def keyed_def)
  from reset_token_single_use [OF this ok nf refl] ok show ?thesis by blast
qed

end
