(* ===== verification/Go_Text.thy ===== *)
theory Go_Text
  imports Unicode
begin

text \<open>
  The functions of \<open>strings\<close>, \<open>strconv\<close> and \<open>encoding/base32\<close> that several components share, on
  the bytes of Go strings, and the lemmas about them: joining and splitting are inverse, digits
  and their value are inverse, base 32 decodes what it encoded.
\<close>

section \<open>Splitting and joining\<close>

definition has_prefix :: "string \<Rightarrow> string \<Rightarrow> bool" where
  "has_prefix s p \<longleftrightarrow> take (length p) s = p"

text \<open>\<open>strings.Split\<close> at a separator of one byte, \<open>strings.Join\<close>, and \<open>ReplaceAll\<close> of a byte by nothing.\<close>

fun split_at :: "char \<Rightarrow> string \<Rightarrow> string list" where
  "split_at c [] = [[]]"
| "split_at c (x # xs) =
     (if x = c then [] # split_at c xs else (x # hd (split_at c xs)) # tl (split_at c xs))"

fun join :: "string \<Rightarrow> string list \<Rightarrow> string" where
  "join sep [] = []"
| "join sep [x] = x"
| "join sep (x # y # ys) = x @ sep @ join sep (y # ys)"

definition remove_char :: "char \<Rightarrow> string \<Rightarrow> string" where
  "remove_char c = filter (\<lambda>x. x \<noteq> c)"

lemma split_at_nonempty [simp]: "split_at c s \<noteq> []"
  by (induction s) auto

lemma join_split_at: "join [c] (split_at c s) = s"
proof (induction s)
  case (Cons x s)
  then show ?case by (cases "split_at c s") (cases "tl (split_at c s)"; auto)+
qed simp

lemma split_at_no_sep: "c \<notin> set s \<Longrightarrow> split_at c s = [s]"
  by (induction s) auto

lemma split_at_append: "c \<notin> set s \<Longrightarrow> split_at c (s @ c # r) = s # split_at c r"
  by (induction s) auto

lemma split_at_parts: "p \<in> set (split_at c s) \<Longrightarrow> c \<notin> set p"
proof (induction s arbitrary: p)
  case (Cons x s)
  then show ?case by (cases "split_at c s") (auto split: if_splits)
qed simp

lemma split_join:
  "ps \<noteq> [] \<Longrightarrow> (\<And>p. p \<in> set ps \<Longrightarrow> c \<notin> set p) \<Longrightarrow> split_at c (join [c] ps) = ps"
  by (induction ps rule: induct_list012) (auto simp: split_at_no_sep split_at_append)

lemma remove_char_append [simp]: "remove_char c (s @ t) = remove_char c s @ remove_char c t"
  by (simp add: remove_char_def)

lemma remove_char_none: "c \<notin> set s \<Longrightarrow> remove_char c s = s"
  by (induction s) (auto simp: remove_char_def)

lemma remove_char_set: "c \<notin> set (remove_char c s)"
  by (simp add: remove_char_def)

lemma remove_char_idem [simp]: "remove_char c (remove_char c s) = remove_char c s"
  by (simp add: remove_char_def)

text \<open>Splitting with the current part in an accumulator, for evaluation.\<close>

fun split_acc :: "char \<Rightarrow> string \<Rightarrow> string \<Rightarrow> string list" where
  "split_acc c acc [] = [rev acc]"
| "split_acc c acc (x # xs) = (if x = c then rev acc # split_acc c [] xs else split_acc c (x # acc) xs)"

lemma split_acc_split_at: "split_acc c acc xs = (rev acc @ hd (split_at c xs)) # tl (split_at c xs)"
  by (induction xs arbitrary: acc) simp_all

lemma split_at_eval [code]: "split_at c xs = split_acc c [] xs"
  by (simp add: split_acc_split_at)

lemma remove_char_join: "remove_char c (join [c] ps) = concat (map (remove_char c) ps)"
  by (induction ps rule: induct_list012) (auto simp: remove_char_def)

text \<open>Groups of \<open>n\<close>, as a loop \<open>for i := 0; i < len(s); i += n\<close> slices them.\<close>

function chunks :: "nat \<Rightarrow> 'a list \<Rightarrow> 'a list list" where
  "chunks n xs = (if xs = [] \<or> n = 0 then [] else take n xs # chunks n (drop n xs))"
  by pat_completeness auto
termination by (relation "measure (\<lambda>(n, xs). length xs)") auto

declare chunks.simps [simp del]

lemma concat_chunks: "0 < n \<Longrightarrow> concat (chunks n xs) = xs"
proof (induction n xs rule: chunks.induct)
  case (1 n xs)
  then show ?case by (cases "xs = []") (subst chunks.simps; simp)+
qed

lemma chunks_length: "p \<in> set (chunks n xs) \<Longrightarrow> p \<noteq> [] \<and> length p \<le> n"
proof (induction n xs rule: chunks.induct)
  case (1 n xs)
  from "1.prems" have "xs \<noteq> [] \<and> n \<noteq> 0" by (subst (asm) chunks.simps) (auto split: if_splits)
  with "1.IH" "1.prems" show ?case by (subst (asm) (2) chunks.simps) auto
qed

lemma chunks_subset: "p \<in> set (chunks n xs) \<Longrightarrow> set p \<subseteq> set xs"
proof (induction n xs rule: chunks.induct)
  case (1 n xs)
  from "1.prems" have "xs \<noteq> [] \<and> n \<noteq> 0" by (subst (asm) chunks.simps) (auto split: if_splits)
  with "1.IH" "1.prems" show ?case
    by (subst (asm) (2) chunks.simps) (auto dest: in_set_takeD in_set_dropD)
qed

lemma chunks_append: "length xs = n \<Longrightarrow> 0 < n \<Longrightarrow> chunks n (xs @ ys) = xs # chunks n ys"
  by (subst chunks.simps) auto

section \<open>Digits to a base\<close>

definition digits_to_nat :: "nat \<Rightarrow> nat list \<Rightarrow> nat" where
  "digits_to_nat b = foldl (\<lambda>n d. n * b + d) 0"

primrec nat_to_digits :: "nat \<Rightarrow> nat \<Rightarrow> nat \<Rightarrow> nat list" where
  "nat_to_digits b 0 n = []"
| "nat_to_digits b (Suc k) n = nat_to_digits b k (n div b) @ [n mod b]"

lemma digits_to_nat_snoc [simp]: "digits_to_nat b (ds @ [d]) = digits_to_nat b ds * b + d"
  by (simp add: digits_to_nat_def)

lemma digits_to_nat_Nil [simp]: "digits_to_nat b [] = 0"
  by (simp add: digits_to_nat_def)

lemma length_nat_to_digits [simp]: "length (nat_to_digits b k n) = k"
  by (induction k arbitrary: n) auto

lemma digits_of_value: "n < b ^ k \<Longrightarrow> digits_to_nat b (nat_to_digits b k n) = n"
proof (induction k arbitrary: n)
  case (Suc k)
  then have "n div b < b ^ k"
    by (simp add: less_mult_imp_div_less mult.commute)
  with Suc.IH show ?case by simp
qed simp

lemma value_of_digits: "list_all (\<lambda>d. d < b) ds \<Longrightarrow> nat_to_digits b (length ds) (digits_to_nat b ds) = ds"
  by (induction ds rule: rev_induct) auto

lemma digits_to_nat_less: "list_all (\<lambda>d. d < b) ds \<Longrightarrow> digits_to_nat b ds < b ^ length ds"
proof (induction ds rule: rev_induct)
  case (snoc d ds)
  then have "digits_to_nat b ds + 1 \<le> b ^ length ds" "d < b" by auto
  then have "(digits_to_nat b ds + 1) * b \<le> b ^ length ds * b" by (intro mult_right_mono) auto
  with \<open>d < b\<close> show ?case by (simp add: algebra_simps)
qed simp

lemma nat_to_digits_less: "0 < b \<Longrightarrow> list_all (\<lambda>d. d < b) (nat_to_digits b k n)"
  by (induction k arbitrary: n) auto

section \<open>Base 32\<close>

text \<open>
  \<open>base32.StdEncoding\<close> on quanta of five bytes and eight characters. A last quantum of fewer
  bytes is filled with zeros, and only the characters its bytes reach are written, then padding.
\<close>

definition b32_char :: "nat \<Rightarrow> char" where
  "b32_char n = (if n < 26 then char_of (65 + n) else char_of (24 + n))"

definition b32_value :: "char \<Rightarrow> nat option" where
  "b32_value c =
     (if 65 \<le> byte_of c \<and> byte_of c \<le> 90 then Some (byte_of c - 65)
      else if 50 \<le> byte_of c \<and> byte_of c \<le> 55 then Some (byte_of c - 24) else None)"

definition b32_quantum :: "string \<Rightarrow> string" where
  "b32_quantum bs =
     (let n = digits_to_nat 256 (map byte_of bs @ replicate (5 - length bs) 0);
          k = (8 * length bs + 4) div 5
      in take k (map b32_char (nat_to_digits 32 8 n)) @ replicate (8 - k) (CHR ''=''))"

definition base32_encode :: "string \<Rightarrow> string" where
  "base32_encode bs = concat (map b32_quantum (chunks 5 bs))"

definition b32_decode_quantum :: "string \<Rightarrow> string option" where
  "b32_decode_quantum cs =
     (let ds = takeWhile (\<lambda>c. c \<noteq> CHR ''='') cs; k = length ds in
      if length cs = 8 \<and> k \<in> {2, 4, 5, 7, 8} \<and> list_all (\<lambda>c. c = CHR ''='') (drop k cs) \<and>
         list_all (\<lambda>c. b32_value c \<noteq> None) ds
      then Some (take (k * 5 div 8) (map char_of
             (nat_to_digits 256 5 (digits_to_nat 32 (map (the \<circ> b32_value) ds @ replicate (8 - k) 0)))))
      else None)"

fun b32_decode_quanta :: "string list \<Rightarrow> string option" where
  "b32_decode_quanta [] = Some []"
| "b32_decode_quanta [q] = b32_decode_quantum q"
| "b32_decode_quanta (q # r # qs) =
     (if CHR ''='' \<in> set q then None
      else case b32_decode_quantum q of
        None \<Rightarrow> None
      | Some bs \<Rightarrow> map_option (\<lambda>cs. bs @ cs) (b32_decode_quanta (r # qs)))"

definition base32_decode :: "string \<Rightarrow> string option" where
  "base32_decode s = b32_decode_quanta (chunks 8 (filter (\<lambda>c. c \<noteq> CHR 0x0A \<and> c \<noteq> CHR 0x0D) s))"

lemma b32_value_char: "n < 32 \<Longrightarrow> b32_value (b32_char n) = Some n"
  by (auto simp: b32_value_def b32_char_def byte_of_def)

lemma b32_char_not_pad: "n < 32 \<Longrightarrow> b32_char n \<noteq> CHR ''=''"
  using b32_value_char [of n] by (auto simp: b32_value_def byte_of_def)

definition b32_letter :: "char \<Rightarrow> bool" where
  "b32_letter c \<longleftrightarrow> b32_value c \<noteq> None"

lemma b32_letter_char: "n < 32 \<Longrightarrow> b32_letter (b32_char n)"
  by (simp add: b32_letter_def b32_value_char)

lemma b32_letter_plain: "b32_letter c \<Longrightarrow> c \<noteq> CHR ''='' \<and> c \<noteq> CHR '' '' \<and> c \<noteq> CHR ''-'' \<and>
    c \<noteq> CHR 0x0A \<and> c \<noteq> CHR 0x0D \<and> byte_of c < 0x80 \<and> \<not> rune_lower (byte_of c)"
  by (auto simp: b32_letter_def b32_value_def byte_of_def rune_lower_def split: if_splits)

lemma full_quantum:
  assumes "length bs = 5"
  shows "b32_quantum bs = map b32_char (nat_to_digits 32 8 (digits_to_nat 256 (map byte_of bs)))"
  using assms by (simp add: b32_quantum_def)

lemma byte_of_256: "byte_of c < 256"
  by (simp add: byte_of_def)

lemma decode_full_quantum:
  assumes "length bs = 5"
  shows "b32_decode_quantum (b32_quantum bs) = Some bs"
proof -
  define v where "v = digits_to_nat 256 (map byte_of bs)"
  define ds where "ds = nat_to_digits 32 8 v"
  have bytes: "list_all (\<lambda>d. d < 256) (map byte_of bs)" by (simp add: list_all_iff byte_of_256)
  from digits_to_nat_less [OF bytes] assms have "v < 256 ^ 5" by (simp add: v_def)
  then have v: "v < 32 ^ 8" by simp
  have small: "list_all (\<lambda>d. d < 32) ds" by (simp add: ds_def nat_to_digits_less)
  have len: "length ds = 8" unfolding ds_def by (rule length_nat_to_digits)
  have whole: "takeWhile (\<lambda>c. c \<noteq> CHR ''='') (map b32_char ds) = map b32_char ds"
    using small by (auto simp: takeWhile_eq_all_conv list_all_iff b32_char_not_pad)
  have undo: "map (the \<circ> b32_value) (map b32_char ds) = ds"
    using small by (auto simp: list_all_iff b32_value_char intro!: map_idI)
  have known: "list_all (\<lambda>c. b32_value c \<noteq> None) (map b32_char ds)"
    using small by (auto simp: list_all_iff b32_value_char)
  have "nat_to_digits 256 5 v = map byte_of bs"
    using value_of_digits [OF bytes] assms by (simp add: v_def)
  moreover have "map char_of (map byte_of bs) = bs" by (simp add: byte_of_def comp_def)
  moreover have "digits_to_nat 32 ds = v" unfolding ds_def by (rule digits_of_value) (rule v)
  ultimately have "map char_of (nat_to_digits 256 5 (digits_to_nat 32 ds)) = bs" by simp
  moreover have "b32_quantum bs = map b32_char ds"
    unfolding full_quantum [OF assms] ds_def v_def ..
  ultimately show ?thesis
    using len undo known assms
    unfolding b32_decode_quantum_def Let_def
    by (simp only: whole length_map) (simp del: nat_to_digits.simps map_map)
qed

lemma b32_quantum_letters: "length bs = 5 \<Longrightarrow> list_all b32_letter (b32_quantum bs)"
  using nat_to_digits_less [of 32 8] by (simp add: full_quantum list_all_iff b32_letter_char)

lemma chunks_concat_uniform:
  "list_all (\<lambda>q. length q = n) qs \<Longrightarrow> 0 < n \<Longrightarrow> chunks n (concat qs) = qs"
proof (induction qs)
  case Nil
  then show ?case by (subst chunks.simps) simp
next
  case (Cons q qs)
  then show ?case by (simp add: chunks_append)
qed

lemma chunks_in_nonempty: "q \<in> set (chunks n xs) \<Longrightarrow> xs \<noteq> [] \<and> n \<noteq> 0"
  by (subst (asm) chunks.simps) (auto split: if_splits)

lemma chunks_uniform: "length xs mod n = 0 \<Longrightarrow> q \<in> set (chunks n xs) \<Longrightarrow> length q = n"
proof (induction n xs rule: chunks.induct)
  case (1 n xs)
  from "1.prems"(2) have ne: "xs \<noteq> [] \<and> n \<noteq> 0" by (rule chunks_in_nonempty)
  then have "n \<le> length xs" using "1.prems"(1) by (cases "length xs < n") auto
  moreover have "(length xs - n) mod n = 0" using "1.prems"(1) calculation by (simp add: le_mod_geq)
  moreover have "q = take n xs \<or> q \<in> set (chunks n (drop n xs))"
    using "1.prems"(2) ne by (simp add: chunks.simps [of n xs])
  ultimately show ?case
    using "1.IH" ne by (auto simp: min_def)
qed

lemma decode_full_quanta:
  "list_all (\<lambda>bs. length bs = 5) qs \<Longrightarrow> b32_decode_quanta (map b32_quantum qs) = Some (concat qs)"
proof (induction qs rule: induct_list012)
  case (3 q r qs)
  then have "CHR ''='' \<notin> set (b32_quantum q)"
    using b32_quantum_letters [of q] b32_letter_plain by (auto simp: list_all_iff)
  with 3 show ?case by (simp add: decode_full_quantum)
qed (auto simp: decode_full_quantum)

lemma base32_letters:
  assumes "length bs mod 5 = 0"
  shows "list_all b32_letter (base32_encode bs)"
proof -
  have "list_all (\<lambda>q. length q = 5) (chunks 5 bs)"
    using chunks_uniform [OF assms] by (simp add: list_all_iff)
  then show ?thesis using b32_quantum_letters by (auto simp: base32_encode_def list_all_iff)
qed

lemma base32_roundtrip:
  assumes "length bs mod 5 = 0"
  shows "base32_decode (base32_encode bs) = Some bs"
proof -
  let ?qs = "chunks 5 bs"
  have five: "list_all (\<lambda>q. length q = 5) ?qs"
    using chunks_uniform [OF assms] by (simp add: list_all_iff)
  have letters: "list_all b32_letter (base32_encode bs)" by (rule base32_letters) (rule assms)
  have eight: "list_all (\<lambda>q. length q = 8) (map b32_quantum ?qs)"
    using five by (auto simp: list_all_iff full_quantum simp del: nat_to_digits.simps)
  have "filter (\<lambda>c. c \<noteq> CHR 0x0A \<and> c \<noteq> CHR 0x0D) (base32_encode bs) = base32_encode bs"
    using letters b32_letter_plain by (auto simp: list_all_iff intro!: filter_True)
  then show ?thesis
    using decode_full_quanta [OF five] chunks_concat_uniform [OF eight]
    by (simp add: base32_decode_def base32_encode_def concat_chunks)
qed

section \<open>Base 64\<close>

text \<open>\<open>encoding/base64\<close> with padding; the alphabet is an argument.\<close>

fun base64_with :: "(nat \<Rightarrow> char) \<Rightarrow> string \<Rightarrow> string" where
  "base64_with ch [] = []"
| "base64_with ch [a] = (let n = byte_of a * 16 in [ch (n div 64), ch (n mod 64), CHR ''='', CHR ''=''])"
| "base64_with ch [a, b] =
     (let n = (byte_of a * 256 + byte_of b) * 4
      in [ch (n div 4096), ch (n div 64 mod 64), ch (n mod 64), CHR ''=''])"
| "base64_with ch (a # b # c # cs) =
     (let n = byte_of a * 65536 + byte_of b * 256 + byte_of c
      in [ch (n div 262144), ch (n div 4096 mod 64), ch (n div 64 mod 64), ch (n mod 64)] @ base64_with ch cs)"

definition b64_std_char :: "nat \<Rightarrow> char" where
  "b64_std_char n =
     (if n < 26 then char_of (65 + n) else if n < 52 then char_of (71 + n)
      else if n < 62 then char_of (n - 4) else if n = 62 then CHR ''+'' else CHR ''/'')"

definition base64_std :: "string \<Rightarrow> string" where
  "base64_std = base64_with b64_std_char"

section \<open>Reading and wrapping integers\<close>

definition max_int64 :: int where "max_int64 = 9223372036854775807"

definition wrap64 :: "int \<Rightarrow> int" where
  "wrap64 i = (i + 2 ^ 63) mod 2 ^ 64 - 2 ^ 63"

lemma wrap64_small: "- (2 ^ 63) \<le> i \<Longrightarrow> i < 2 ^ 63 \<Longrightarrow> wrap64 i = i"
  by (simp add: wrap64_def)

text \<open>
  \<open>strconv.Atoi\<close> and \<open>ParseInt(s, 10, 64)\<close>: an optional sign and digits. \<open>Inl\<close> is the value that
  comes with an error, 0 for a syntax error and the nearest bound for a number out of range.
\<close>

definition parse_int :: "string \<Rightarrow> int + int" where
  "parse_int s =
     (let (neg, ds) = (case s of c # r \<Rightarrow> if c = CHR ''-'' then (True, r) else if c = CHR ''+'' then (False, r) else (False, s)
                       | [] \<Rightarrow> (False, []));
          n = int (digits_value ds); v = (if neg then - n else n)
      in if ds = [] \<or> \<not> list_all is_digit ds then Inl 0
         else if max_int64 < v then Inl max_int64
         else if v < - max_int64 - 1 then Inl (- max_int64 - 1)
         else Inr v)"

definition atoi :: "string \<Rightarrow> int" where
  "atoi s = (case parse_int s of Inl v \<Rightarrow> v | Inr v \<Rightarrow> v)"

lemma parse_int_string_of_int:
  assumes "- max_int64 - 1 \<le> i" and "i \<le> max_int64"
  shows "parse_int (string_of_int i) = Inr i"
proof (cases "i < 0")
  case True
  then show ?thesis
    using assms by (simp add: parse_int_def string_of_int_def string_of_nat_all_digits)
next
  case False
  have sgn: "c \<noteq> CHR ''-'' \<and> c \<noteq> CHR ''+''" if "is_digit c" for c
    using that by (auto simp: is_digit_def)
  obtain c r where cr: "string_of_nat (nat i) = c # r"
    by (cases "string_of_nat (nat i)") auto
  with string_of_nat_all_digits [of "nat i"] have "is_digit c" by simp
  then show ?thesis
    using False assms sgn [of c] cr string_of_nat_all_digits [of "nat i"] digits_value_string_of_nat [of "nat i"]
    by (simp add: parse_int_def string_of_int_def)
qed

lemma parse_int_range: "parse_int s = Inr i \<Longrightarrow> - max_int64 - 1 \<le> i \<and> i \<le> max_int64"
  by (auto simp: parse_int_def Let_def max_int64_def split: list.splits if_splits prod.splits)

lemma atoi_range: "- max_int64 - 1 \<le> atoi s \<and> atoi s \<le> max_int64"
  by (auto simp: atoi_def parse_int_def Let_def max_int64_def split: list.splits if_splits prod.splits sum.splits)

end
