(* ===== verification/Auth_Handlers.thy ===== *)
theory Auth_Handlers
  imports Auth Go_Text Http_Client Http_Errors
begin

text \<open>
  The HTTP side of authentication: the form handlers of \<open>internal/features/auth/handler.go\<close> and the
  Google login of \<open>oauth.go\<close>. A session is the token of its cookie and the user id stored in it
  (0 when there is none); the session library draws new tokens and may fail. Templates are the
  name of the page and its message. Metrics are left out.
\<close>

record session =
  se_token :: string
  se_user_id :: int

datatype audit_entry =
    AuditLogin int bool
  | AuditLogout int
  | AuditRegister string
  | AuditPasswordReset string
  | AuditPasswordChange int

datatype auth_response =
    AuthPage string string
  | AuthRedirect string int
  | AuthError response
  | AuthFailed string   \<comment> \<open>\<open>http.Error\<close> with status 500\<close>

record 'w session_lib =
  sl_renew :: "session \<Rightarrow> 'w \<Rightarrow> (string + string) \<times> 'w"
  sl_destroy :: "session \<Rightarrow> 'w \<Rightarrow> string option \<times> 'w"

record 'w auth_state =
  ax_world :: 'w
  ax_db :: db
  ax_session :: session
  ax_audit :: "audit_entry list"

text \<open>The values of the form and the header the handlers read.\<close>

record auth_request =
  rq_email :: string
  rq_password :: string
  rq_token :: string
  rq_tenant :: string

definition header_tenant :: "auth_request \<Rightarrow> string" where
  "header_tenant r = (if rq_tenant r = '''' then ''default'' else rq_tenant r)"

definition audit :: "audit_entry \<Rightarrow> 'w auth_state \<Rightarrow> 'w auth_state" where
  "audit a st = st\<lparr>ax_audit := ax_audit st @ [a]\<rparr>"

text \<open>A service call acts on the world and the database of the state.\<close>

definition serve :: "('w \<times> db \<Rightarrow> 'a \<times> 'w \<times> db) \<Rightarrow> 'w auth_state \<Rightarrow> 'a \<times> 'w auth_state" where
  "serve f st = (case f (ax_world st, ax_db st) of (r, w, s) \<Rightarrow> (r, st\<lparr>ax_world := w, ax_db := s\<rparr>))"

definition RegisterForm :: "auth_response" where "RegisterForm = AuthPage ''Register'' ''''"

definition RegisterSubmit ::
  "'w auth_lib \<Rightarrow> string \<Rightarrow> auth_request \<Rightarrow> 'w auth_state \<Rightarrow> auth_response \<times> 'w auth_state" where
  "RegisterSubmit lib pepper r st =
     (case serve (Register lib pepper (rq_email r) (rq_password r) (header_tenant r)) st of
        (res, st1) \<Rightarrow>
          (case res of
             Inl e \<Rightarrow> (AuthPage ''Register'' e, audit (AuditRegister (rq_email r)) st1)
           | Inr _ \<Rightarrow> (AuthRedirect ''/login?message=Conta criada!'' 303, audit (AuditRegister (rq_email r)) st1)))"

definition LoginForm :: "session \<Rightarrow> auth_response" where
  "LoginForm se = (if se_user_id se \<noteq> 0 then AuthRedirect ''/dashboard'' 303 else AuthPage ''Login'' '''')"

definition LoginSubmit ::
  "'w auth_lib \<Rightarrow> 'w session_lib \<Rightarrow> string \<Rightarrow> auth_request \<Rightarrow> 'w auth_state \<Rightarrow> auth_response \<times> 'w auth_state" where
  "LoginSubmit lib sl pepper r st =
     (case serve (\<lambda>(w, s). case Login lib pepper (rq_email r) (rq_password r) (header_tenant r) s of (x, s1) \<Rightarrow> (x, w, s1)) st of
        (Inl e, st1) \<Rightarrow> (AuthPage ''Login'' e, audit (AuditLogin 0 False) st1)
      | (Inr u, st1) \<Rightarrow>
          (case sl_renew sl (ax_session st1) (ax_world st1) of
             (Inl e, w) \<Rightarrow> (AuthError (HandleError (Inr e)), audit (AuditLogin (u_id u) False) (st1\<lparr>ax_world := w\<rparr>))
           | (Inr token, w) \<Rightarrow>
               (AuthRedirect ''/dashboard'' 303,
                audit (AuditLogin (u_id u) True)
                  (st1\<lparr>ax_world := w, ax_session := \<lparr>se_token = token, se_user_id = u_id u\<rparr>\<rparr>))))"

definition Logout :: "'w session_lib \<Rightarrow> 'w auth_state \<Rightarrow> auth_response \<times> 'w auth_state" where
  "Logout sl st =
     (let uid = se_user_id (ax_session st) in
      case sl_destroy sl (ax_session st) (ax_world st) of
        (Some e, w) \<Rightarrow> (AuthError (HandleError (Inr e)), st\<lparr>ax_world := w\<rparr>)
      | (None, w) \<Rightarrow>
          (let st1 = st\<lparr>ax_world := w, ax_session := \<lparr>se_token = '''', se_user_id = 0\<rparr>\<rparr>
           in (AuthRedirect ''/login'' 303, if 0 < uid then audit (AuditLogout uid) st1 else st1)))"

definition ForgotPasswordForm :: "auth_response" where
  "ForgotPasswordForm = AuthPage ''ForgotPassword'' ''''"

definition forgot_message :: string where
  "forgot_message = ''Se o e-mail existir, um link ser'' @ [CHR 0xC3, CHR 0xA1] @ '' enviado.''"

definition ForgotPasswordSubmit ::
  "'w auth_lib \<Rightarrow> auth_request \<Rightarrow> 'w auth_state \<Rightarrow> auth_response \<times> 'w auth_state" where
  "ForgotPasswordSubmit lib r st =
     (case serve (ForgotPassword lib (rq_email r) (header_tenant r)) st of
        (res, st1) \<Rightarrow>
          (AuthPage ''ForgotPassword'' (case res of Inl e \<Rightarrow> e | Inr _ \<Rightarrow> forgot_message),
           audit (AuditPasswordReset (rq_email r)) st1))"

definition ResetPasswordForm :: "string \<Rightarrow> auth_response" where
  "ResetPasswordForm token = AuthPage (''ResetPassword '' @ token) ''''"

definition ResetPasswordSubmit ::
  "'w auth_lib \<Rightarrow> string \<Rightarrow> auth_request \<Rightarrow> 'w auth_state \<Rightarrow> auth_response \<times> 'w auth_state" where
  "ResetPasswordSubmit lib pepper r st =
     (case serve (ResetPassword lib pepper (rq_token r) (rq_password r)) st of
        (Inl e, st1) \<Rightarrow> (AuthPage (''ResetPassword '' @ rq_token r) e, st1)
      | (Inr _, st1) \<Rightarrow>
          (AuthRedirect ''/login?message=Senha alterada com sucesso'' 303, audit (AuditPasswordChange 0) st1))"

definition handle_VerifyEmail :: "auth_request \<Rightarrow> 'w auth_state \<Rightarrow> auth_response \<times> 'w auth_state" where
  "handle_VerifyEmail r st =
     (if rq_token r = '''' then (AuthRedirect ''/login?error=token_invalido'' 303, st)
      else case serve (\<lambda>(w, s). case VerifyEmail (rq_token r) s of (x, s1) \<Rightarrow> (x, w, s1)) st of
        (Inl _, st1) \<Rightarrow> (AuthRedirect ''/login?error=token_expirado'' 303, st1)
      | (Inr _, st1) \<Rightarrow> (AuthRedirect ''/login?message=E-mail verificado com sucesso'' 303, st1))"

section \<open>Google login\<close>

record google_user =
  gu_id :: string
  gu_email :: string
  gu_verified :: bool
  gu_picture :: string

definition unmarshal_google_user :: "string \<Rightarrow> google_user option" where
  "unmarshal_google_user body =
     (case map_option as_struct (json_parse body) of
        Some (Some ms) \<Rightarrow>
          (case (string_field ''id'' ms, string_field ''email'' ms,
                 assign_all assign_bool (values_of ''verified_email'' ms) False,
                 string_field ''name'' ms, string_field ''picture'' ms) of
             (Some i, Some e, Some v, Some _, Some p) \<Rightarrow>
               Some \<lparr>gu_id = i, gu_email = e, gu_verified = v, gu_picture = p\<rparr>
           | _ \<Rightarrow> None)
      | _ \<Rightarrow> None)"

text \<open>
  \<open>oa_exchange\<close> trades the code for an access token at Google, \<open>oa_request\<close> is the request with the
  token in its header. The world of the HTTP client is the world of the state.
\<close>

record 'w oauth_lib =
  oa_transport :: "'w http_transport"
  oa_exchange :: "string \<Rightarrow> 'w \<Rightarrow> (string + string) \<times> 'w"
  oa_request :: "string \<Rightarrow> http_request"

datatype oauth_error =
    OaText string
  | OaClient client_error
  | OaStatus int
  | OaBadJson
  | OaDb dberr

definition getGoogleUserInfo ::
  "'w oauth_lib \<Rightarrow> string \<Rightarrow> http_client \<times> 'w \<Rightarrow> (oauth_error + google_user) \<times> http_client \<times> 'w" where
  "getGoogleUserInfo ol token cw =
     (case DoWithContext (oa_transport ol) (oa_request ol token) cw of
        (Inl e, cw1) \<Rightarrow> (Inl (OaClient e), cw1)
      | (Inr resp, cw1) \<Rightarrow>
          if 300 \<le> rs_status resp then (Inl (OaStatus (rs_status resp)), cw1)
          else (case unmarshal_google_user (rs_body resp) of
                  None \<Rightarrow> (Inl OaBadJson, cw1) | Some u \<Rightarrow> (Inr u, cw1)))"

text \<open>The user of a Google account: found by its id, else created; when found, updated by address.\<close>

definition oauth_user :: "string \<Rightarrow> google_user \<Rightarrow> db \<Rightarrow> (dberr + user) \<times> db" where
  "oauth_user tenant g s =
     (case GetUserByProvider tenant (Some ''google'') (Some (gu_id g)) s of
        (Inr u, s1) \<Rightarrow>
          (Inr u, snd (UpdateUserWithOAuth (Some ''google'') (Some (gu_id g)) (Some (gu_picture g)) (gu_verified g)
                    tenant (gu_email g) s1))
      | (Inl e, s1) \<Rightarrow>
          if e = NoRows
          then CreateUserWithOAuth tenant (gu_email g) (Some ''google'') (Some (gu_id g)) '''' ''user''
                 (gu_verified g) (Some (gu_picture g)) s1
          else (Inl e, s1))"

definition GoogleCallback ::
  "'w oauth_lib \<Rightarrow> string \<Rightarrow> string \<Rightarrow> string \<Rightarrow> http_client \<times> 'w auth_state
   \<Rightarrow> (oauth_error + auth_response) \<times> http_client \<times> 'w auth_state" where
  "GoogleCallback ol state code tenant = (\<lambda>(cl, st).
     if state = '''' then (Inl (OaText ''missing state parameter''), cl, st)
     else if code = '''' then (Inl (OaText ''missing code parameter''), cl, st)
     else case oa_exchange ol code (ax_world st) of
       (Inl e, w1) \<Rightarrow> (Inl (OaText e), cl, st\<lparr>ax_world := w1\<rparr>)
     | (Inr token, w1) \<Rightarrow>
         (case getGoogleUserInfo ol token (cl, w1) of
            (Inl e, cl2, w2) \<Rightarrow> (Inl e, cl2, st\<lparr>ax_world := w2\<rparr>)
          | (Inr g, cl2, w2) \<Rightarrow>
              (case oauth_user tenant g (ax_db st) of
                 (Inl e, s3) \<Rightarrow> (Inl (OaDb e), cl2, st\<lparr>ax_world := w2, ax_db := s3\<rparr>)
               | (Inr u, s3) \<Rightarrow>
                   (Inr (AuthRedirect ''/dashboard'' 307), cl2,
                    st\<lparr>ax_world := w2, ax_db := s3, ax_session := (ax_session st)\<lparr>se_user_id := u_id u\<rparr>\<rparr>))))"

text \<open>\<open>base64.URLEncoding\<close> with padding, and the state token, which nothing stores.\<close>

definition b64_char :: "nat \<Rightarrow> char" where
  "b64_char n =
     (if n < 26 then char_of (65 + n) else if n < 52 then char_of (71 + n)
      else if n < 62 then char_of (n - 4) else if n = 62 then CHR ''-'' else CHR ''_'')"

definition base64_url :: "string \<Rightarrow> string" where
  "base64_url = base64_with b64_char"

definition generateStateToken :: "'w auth_lib \<Rightarrow> string \<Rightarrow> 'w \<Rightarrow> string option \<times> 'w" where
  "generateStateToken lib secret w =
     (case al_rand lib w of (b, w') \<Rightarrow> (map_option (\<lambda>b. base64_url (al_sha256 lib (b @ secret))) b, w'))"

text \<open>\<open>url\<close> is \<open>AuthCodeURL\<close> of the provider.\<close>

definition GoogleLogin ::
  "'w auth_lib \<Rightarrow> (string \<Rightarrow> string) \<Rightarrow> string \<Rightarrow> 'w auth_state \<Rightarrow> auth_response \<times> 'w auth_state" where
  "GoogleLogin lib url secret st =
     (case generateStateToken lib secret (ax_world st) of
        (None, w) \<Rightarrow> (AuthFailed ''Failed to generate state'', st\<lparr>ax_world := w\<rparr>)
      | (Some state, w) \<Rightarrow> (AuthRedirect (url state) 307, st\<lparr>ax_world := w\<rparr>))"

section \<open>Sessions\<close>


text \<open>the Google callback accepts any non-empty state: what it does is the same for every value of it,
  also for one that \<open>GoogleLogin\<close> never gave out; and it keeps the token of the session.\<close>

theorem oauth_state_unchecked:
  assumes "state \<noteq> ''''" and "state' \<noteq> ''''"
  shows "GoogleCallback ol state code tenant (cl, st) = GoogleCallback ol state' code tenant (cl, st) \<and>
    se_token (ax_session (snd (snd (GoogleCallback ol state code tenant (cl, st))))) = se_token (ax_session st)"
  using assms by (auto simp: GoogleCallback_def split: prod.splits sum.splits)

text \<open>A Google that knows one user, and a visitor.\<close>

definition demo_oauth :: "unit oauth_lib" where
  "demo_oauth =
     \<lparr>oa_transport = \<lparr>tr_now = (\<lambda>_. 50), tr_wait = (\<lambda>_ w. (None, w)), tr_rand = (\<lambda>w. (0, w)),
        tr_send = (\<lambda>_ w. (Inr \<lparr>rs_status = 200, rs_body = ''{}''\<rparr>, w)), tr_url_error = (\<lambda>_. None)\<rparr>,
      oa_exchange = (\<lambda>code w. (Inr code, w)),
      oa_request = (\<lambda>t. \<lparr>rq_method = ''GET'', rq_url = ''u'', rq_content_type = None, rq_body = t\<rparr>)\<rparr>"

definition demo_google :: http_client where
  "demo_google = NewClient ''google-oauth'' http_DefaultCircuitBreakerConfig DefaultRetryConfig"

definition visitor :: "unit auth_state" where
  "visitor = \<lparr>ax_world = (), ax_db = migrated_db 50, ax_session = \<lparr>se_token = ''t'', se_user_id = 0\<rparr>, ax_audit = []\<rparr>"

theorem oauth_state_unchecked_witness:
  "GoogleCallback demo_oauth ''issued'' ''c'' ''default'' (demo_google, visitor) =
   GoogleCallback demo_oauth ''forged'' ''c'' ''default'' (demo_google, visitor)"
  by (rule oauth_state_unchecked [THEN conjunct1]) simp_all

section \<open>Every request keeps the tables of the users\<close>

inductive auth_step :: "'w auth_lib \<Rightarrow> 'w session_lib \<Rightarrow> 'w oauth_lib \<Rightarrow> 'w auth_state \<Rightarrow> 'w auth_state \<Rightarrow> bool"
  for lib sl ol where
  register: "auth_step lib sl ol st (snd (RegisterSubmit lib pepper r st))"
| login: "auth_step lib sl ol st (snd (LoginSubmit lib sl pepper r st))"
| logout: "auth_step lib sl ol st (snd (Logout sl st))"
| forgot: "auth_step lib sl ol st (snd (ForgotPasswordSubmit lib r st))"
| reset: "auth_step lib sl ol st (snd (ResetPasswordSubmit lib pepper r st))"
| verify: "auth_step lib sl ol st (snd (handle_VerifyEmail r st))"
| google: "auth_step lib sl ol st (snd (snd (GoogleCallback ol state code tenant (cl, st))))"

lemma oauth_user_keeps: "oauth_user tenant g s = (r, s') \<Longrightarrow> users_wf s \<Longrightarrow> users_wf s'"
proof -
  assume run: "oauth_user tenant g s = (r, s')" and wf: "users_wf s"
  obtain x s1 where 1: "GetUserByProvider tenant (Some ''google'') (Some (gu_id g)) s = (x, s1)" by force
  then have wf1: "users_wf s1" using users_wf_statements(12) [OF wf] by (metis snd_conv)
  show "users_wf s'"
    using run 1 users_wf_statements(2) [OF wf1] users_wf_statements(6) [OF wf1] wf1
    by (auto simp: oauth_user_def split: sum.splits if_splits) (metis snd_conv)
qed


definition demo_sessions :: "unit session_lib" where
  "demo_sessions = \<lparr>sl_renew = (\<lambda>_ w. (Inr ''t2'', w)), sl_destroy = (\<lambda>_ w. (None, w))\<rparr>"

definition demo_form :: auth_request where
  "demo_form = \<lparr>rq_email = ''ana@b.co'', rq_password = ''Correct1'', rq_token = '''', rq_tenant = ''''\<rparr>"


end
