(* ===== verification/Auth_Mails.thy ===== *)
theory Auth_Mails
  imports Processor Auth
begin

text \<open>
  The mails of the authentication pages, from the service that enqueues them
  (\<open>internal/features/auth/service.go\<close>) to the worker that should send them
  (\<open>internal/features/jobs/worker/processor.go\<close>). The service writes \<open>address|token\<close> as the
  payload, the handlers read a JSON object.
\<close>

section \<open>A parser never passes a bar\<close>

abbreviation (input) bar :: char where "bar \<equiv> CHR ''|''"

lemma bar_dropWhile: "bar \<in> set cs \<Longrightarrow> \<not> p bar \<Longrightarrow> bar \<in> set (dropWhile p cs)"
  by (induction cs) auto

lemma bar_drop_takeWhile: "bar \<in> set cs \<Longrightarrow> \<not> p bar \<Longrightarrow> bar \<in> set (drop (length (takeWhile p cs)) cs)"
  using bar_dropWhile [of cs p] by (simp add: dropWhile_eq_drop)

lemma bar_skip_space: "bar \<in> set cs \<Longrightarrow> bar \<in> set (skip_space cs)"
  by (simp add: skip_space_def bar_dropWhile is_space_def)

lemma bar_no_digit: "\<not> is_digit bar"
  by (simp add: is_digit_def)

lemma bar_fraction: "parse_fraction cs = Some (f, r) \<Longrightarrow> bar \<in> set cs \<Longrightarrow> bar \<in> set r"
  by (auto simp: parse_fraction_def Let_def bar_no_digit split: list.splits if_splits intro!: bar_dropWhile)

lemma bar_exponent: "parse_exponent cs = Some (e, r) \<Longrightarrow> bar \<in> set cs \<Longrightarrow> bar \<in> set r"
  by (auto simp: parse_exponent_def Let_def bar_no_digit split: list.splits if_splits prod.splits intro!: bar_dropWhile)

lemma bar_number: "parse_number cs = Some (v, r) \<Longrightarrow> bar \<in> set cs \<Longrightarrow> bar \<in> set r"
proof -
  assume run: "parse_number cs = Some (v, r)" and mem: "bar \<in> set cs"
  obtain neg r0 where r0: "(case cs of c # r \<Rightarrow> if c = CHR ''-'' then (True, r) else (False, cs) | [] \<Rightarrow> (False, [])) = (neg, r0)"
    by force
  with mem have m0: "bar \<in> set r0" by (auto split: list.splits if_splits)
  define ds where "ds = (case r0 of c # r' \<Rightarrow> if c = CHR ''0'' then ''0'' else takeWhile is_digit r0 | [] \<Rightarrow> [])"
  have m1: "bar \<in> set (drop (length ds) r0)"
    using m0 bar_drop_takeWhile [OF m0, of is_digit] by (auto simp: ds_def bar_no_digit split: list.splits)
  obtain fr r2 ex r3 where "parse_fraction (drop (length ds) r0) = Some (fr, r2)" "parse_exponent r2 = Some (ex, r3)" "r = r3"
    using run unfolding parse_number_def r0 Let_def prod.case ds_def [symmetric]
    by (auto split: if_splits option.splits prod.splits)
  with m1 show ?thesis using bar_fraction bar_exponent by metis
qed

lemma bar_literal: "literal w v cs = Some (x, r) \<Longrightarrow> bar \<in> set cs \<Longrightarrow> bar \<notin> set w \<Longrightarrow> bar \<in> set r"
  unfolding literal_def by (metis append_take_drop_id option.distinct(1) option.inject prod.inject set_append Un_iff)

text \<open>A document that starts like a number or a literal and has a bar somewhere is no JSON.\<close>

lemma bar_no_json:
  assumes "bar \<in> set (c # cs)" and "\<not> is_space c" and "c \<notin> {CHR 0x22, CHR ''['', CHR ''{''}"
  shows "json_parse (c # cs) = None"
proof -
  have head: "skip_space (c # cs) = c # cs" using assms(2) by (simp add: skip_space_def)
  have "bar \<in> set r" if "parse_value (Suc n) (c # cs) = Some (v, r)" for n v r
    using that assms(1,3) bar_number [of "c # cs" v r]
      bar_literal [of "''true''" "JBool True" "c # cs" v r] bar_literal [of "''false''" "JBool False" "c # cs" v r]
      bar_literal [of "''null''" JNull "c # cs" v r]
    by (simp add: head split: if_splits)
  then have "skip_space r \<noteq> []" if "parse_value (Suc n) (c # cs) = Some (v, r)" for n v r
    using that bar_skip_space by (metis empty_iff empty_set)
  then show ?thesis
    unfolding json_parse_def by (auto split: option.split simp del: parse_value.simps)
qed

lemma clean_no_json:
  assumes "clean_email e" and "e \<noteq> ''''"
  shows "json_parse (e @ ''|'' @ t) = None"
proof -
  obtain c cs where e: "e = c # cs" using assms(2) by (cases e) auto
  then have c: "allowed_rune (byte_of c)" using assms(1) by (simp add: clean_email_def)
  have "\<not> is_space c" and "c \<notin> {CHR 0x22, CHR ''['', CHR ''{''}"
    using c by (auto simp: is_space_def allowed_rune_def rune_lower_def rune_digit_def byte_of_def)
  then show ?thesis unfolding e by (simp add: bar_no_json)
qed

section \<open>The mails\<close>

lemma bad_payload_handlers:
  assumes "json_parse (j_payload j) = None"
    and "j_type j \<in> {''send_verification_email'', ''send_password_reset_email''}"
  shows "run_handler env j st = (Some (env_json_error env (j_payload j)), st)"
  using assms by (auto simp: run_handler_def handleSendVerificationEmail_def handleSendPasswordResetEmail_def
      payload_fields_def)

lemma auth_Enqueue_new_jobs:
  assumes "j \<in> set (t_jobs (snd (auth_Enqueue ty payload tenant s)))" and "j \<notin> set (t_jobs s)"
  shows "j_type j = ty \<and> j_payload j = payload"
proof -
  obtain r s' where rs: "auth_Enqueue ty payload tenant s = (r, s')" by force
  have "t_jobs s' = t_jobs s \<or> (\<exists>j. t_jobs s' = t_jobs s @ [j] \<and> j_type j = ty \<and> j_payload j = payload)"
    using rs [unfolded auth_Enqueue_def]
  proof (cases rule: transaction_cases)
    case (aborted e)
    then have "t_jobs s' = t_jobs (s\<lparr>clock := clock s', faults := faults s'\<rparr>)" by metis
    then show ?thesis by simp
  next
    case (committed v fs fs' s2)
    obtain x t where c: "CreateJob (null_string tenant) ty payload (Some (clock s)) None (s\<lparr>faults := fs\<rparr>) = (x, t)"
      by force
    with committed(1) have x: "\<exists>y. x = Inr y" and t: "t = s2" by (auto split: sum.splits)
    from c [unfolded CreateJob_def] have "\<exists>j. t_jobs t = t_jobs s @ [j] \<and> j_type j = ty \<and> j_payload j = payload"
    proof (cases rule: run_cases)
      case (executed fs2)
      with x show ?thesis by (auto simp: insert_job_def new_job_def split: if_splits)
    next
      case (failed e fs2)
      with x show ?thesis by simp
    qed
    with t committed(3) show ?thesis by simp
  qed
  with rs assms show ?thesis by auto
qed

text \<open>C12: no verification mail is ever sent: every job a registration adds to the queue has the payload
  \<open>address|token\<close>, which is not JSON, so whenever a worker runs it the handler fails before it reaches
  the mail server, whatever the address and the token.\<close>

theorem verification_mail_never_sent:
  assumes "Register lib pepper email password tenant (w, s) = (r, w', s')"
    and "j \<in> set (t_jobs s')" and "j \<notin> set (t_jobs s)"
  shows "run_handler env j st = (Some (env_json_error env (j_payload j)), st)"
proof -
  let ?e = "SanitizeEmail (al_unicode lib) email"
  have frames: "t_jobs (snd (auth_GetByEmail t e s)) = t_jobs s" "t_jobs (snd (auth_Create t e h role s)) = t_jobs s"
    "t_jobs (snd (verif_Upsert e tok x s)) = t_jobs s" for t e h role tok x s
    unfolding auth_repo_defs GetUserByEmail_def CreateUser_def UpsertEmailVerification_def
    by (rule run_frame; auto simp: fault_blind_def insert_user_def)+
  have jobs: "t_jobs s1 = t_jobs s" if "auth_GetByEmail t e s = (x, s1)" for t e s x s1
    using that frames(1) by (metis snd_conv)
  have jobs2: "t_jobs s1 = t_jobs s" if "auth_Create t e h role s = (x, s1)" for t e h role s x s1
    using that frames(2) by (metis snd_conv)
  have jobs3: "t_jobs s1 = t_jobs s" if "verif_Upsert e tok x s = (y, s1)" for e tok x s y s1
    using that frames(3) by (metis snd_conv)
  have "\<exists>token s3. ValidateEmail (al_unicode lib) ?e = None \<and> t_jobs s3 = t_jobs s \<and>
      s' = snd (auth_Enqueue ''send_verification_email'' (?e @ ''|'' @ token) (default_tenant tenant) s3)"
    using assms jobs jobs2 jobs3
    by (auto simp: Register_def Let_def split: option.splits prod.splits sum.splits) metis
  then obtain token s3 where ok: "ValidateEmail (al_unicode lib) ?e = None" and s3: "t_jobs s3 = t_jobs s"
    and s': "s' = snd (auth_Enqueue ''send_verification_email'' (?e @ ''|'' @ token) (default_tenant tenant) s3)"
    by blast
  have j: "j_type j = ''send_verification_email''" "j_payload j = ?e @ ''|'' @ token"
    using auth_Enqueue_new_jobs assms(2,3) s3 s' by metis+
  have "?e \<noteq> ''''"
  proof
    assume "?e = ''''"
    moreover have "SanitizeEmail (al_unicode lib) '''' = ''''"
      by (simp add: SanitizeEmail_def trim_runes_def text_of_runes_def)
    ultimately have "SanitizeEmail (al_unicode lib) ?e = ''''" by metis
    with ok show False by (simp add: ValidateEmail_def Let_def)
  qed
  then have "json_parse (j_payload j) = None" unfolding j using sanitize_is_clean by (rule clean_no_json [rotated])
  with j(1) show ?thesis by (simp add: bad_payload_handlers)
qed

lemma registered_job: "length (t_jobs registered) = 1"
proof -
  have lib: "al_unicode demo_auth = plain_unicode" by (simp add: demo_auth_def)
  have hash: "hashWithPepper demo_auth ''Correct1'' ''pep'' () = (''$Correct1pep'', ())"
    by (simp add: hashWithPepper_def demo_auth_def)
  have token: "random_token demo_auth () = (Some ''6162'', ())"
    by (simp add: random_token_def demo_auth_def hex_encode_def hex_digit_def char_of_def bit_0)
  show ?thesis
    unfolding registered_def
    by (simp add: Register_def Let_def lib demo_sanitize demo_email_ok demo_password_ok hash token default_tenant_def
        auth_GetByEmail_def GetUserByEmail_no_faults auth_Create_def CreateUser_def run_no_faults migrated_db_def
        insert_user_def verif_Upsert_def UpsertEmailVerification_def auth_Enqueue_def transaction_def
        CreateJob_def insert_job_def new_job_def null_string_def)
qed

theorem verification_mail_never_sent_witness:
  "\<exists>j. t_jobs registered = [j] \<and> run_handler demo_env j demo_worker = (Some ''bad payload'', demo_worker)"
proof -
  obtain j where j: "t_jobs registered = [j]" using registered_job by (auto simp: length_Suc_conv)
  obtain w' where "Register demo_auth ''pep'' '' Ana@B.co'' ''Correct1'' '''' ((), migrated_db 50) = (Inr (), w', registered)"
    using registered_ok by blast
  from verification_mail_never_sent [OF this, of j demo_env demo_worker] j show ?thesis
    by (simp add: migrated_db_def demo_env_def)
qed

end
