(* ===== verification/Two_Factor.thy ===== *)
theory Two_Factor
  imports Go_Text Http_Errors
begin

text \<open>
  Two-factor authentication (\<open>internal/platform/security/twofactor\<close>): the service over a
  repository, the TOTP functions and the handlers. The repository is an interface the program
  leaves open, so it is a record of functions on a store; \<open>lawful_repo\<close> says what the service
  relies on. The TOTP algorithm and the QR image are third-party code: \<open>tl_generate\<close> draws the
  n-th key, \<open>tl_validate code secret t skew\<close> is \<open>totp.ValidateCustom\<close> with six digits, a period of
  30 seconds and SHA-1, which \<open>totp.Validate\<close> calls with skew 1, \<open>tl_png\<close> renders a key and
  \<open>tl_decode_error\<close> is the text of the decoder's error.
\<close>

record totp_secret =
  ts_Secret :: string
  ts_Issuer :: string
  ts_AccountName :: string
  ts_QRCodeURL :: string
  ts_Base32 :: string
  ts_CreatedAt :: instant

record totp_key =
  tk_Secret :: string
  tk_URL :: string

record 'r tf_repo =
  tr_GetTOTPSecret :: "string \<Rightarrow> 'r \<Rightarrow> string + totp_secret option"
  tr_SaveTOTPSecret :: "string \<Rightarrow> totp_secret \<Rightarrow> 'r \<Rightarrow> string option \<times> 'r"
  tr_GetBackupCodes :: "string \<Rightarrow> 'r \<Rightarrow> string + string list"
  tr_SaveBackupCodes :: "string \<Rightarrow> string list \<Rightarrow> 'r \<Rightarrow> string option \<times> 'r"
  tr_Is2FAEnabled :: "string \<Rightarrow> 'r \<Rightarrow> string + bool"
  tr_Enable2FA :: "string \<Rightarrow> 'r \<Rightarrow> string option \<times> 'r"
  tr_Disable2FA :: "string \<Rightarrow> 'r \<Rightarrow> string option \<times> 'r"

record tf_lib =
  tl_unicode :: unicode
  tl_clock :: "nat \<Rightarrow> instant"
  tl_generate :: "nat \<Rightarrow> string \<Rightarrow> string \<Rightarrow> string + totp_key"
  tl_validate :: "string \<Rightarrow> string \<Rightarrow> instant \<Rightarrow> nat \<Rightarrow> bool"
  tl_decode_error :: "string \<Rightarrow> string"
  tl_png :: "totp_key \<Rightarrow> string + string"

text \<open>How often the clock was read and keys were drawn, and the store.\<close>

record 'r tf_state =
  tf_reads :: nat
  tf_draws :: nat
  tf_store :: 'r

definition time_now :: "tf_lib \<Rightarrow> 'r tf_state \<Rightarrow> instant \<times> 'r tf_state" where
  "time_now lib st = (tl_clock lib (tf_reads st), st\<lparr>tf_reads := tf_reads st + 1\<rparr>)"

section \<open>Codes\<close>

definition ValidateCode :: "tf_lib \<Rightarrow> string \<Rightarrow> string \<Rightarrow> 'r tf_state \<Rightarrow> bool \<times> 'r tf_state" where
  "ValidateCode lib secret code st =
     (let c = remove_char (CHR '' '') code in
      if length c \<noteq> 6 then (False, st)
      else case time_now lib st of (t, st') \<Rightarrow> (tl_validate lib c secret t 1, st'))"

definition ValidateCodeWithDrift ::
  "tf_lib \<Rightarrow> string \<Rightarrow> string \<Rightarrow> nat \<Rightarrow> 'r tf_state \<Rightarrow> bool \<times> 'r tf_state" where
  "ValidateCodeWithDrift lib secret code periods st =
     (let c = remove_char (CHR '' '') code in
      if length c \<noteq> 6 then (False, st)
      else case time_now lib st of (t, st') \<Rightarrow> (tl_validate lib c secret t periods, st'))"

text \<open>
  \<open>randomReader\<close>: byte \<open>i\<close> of a read is byte \<open>i mod 8\<close> of one reading of the clock, and each
  code reads six bytes, of which the eight characters kept show five.
\<close>

definition random_byte :: "instant \<Rightarrow> nat \<Rightarrow> char" where
  "random_byte t i = char_of (nat (t div 2 ^ (8 * (i mod 8)) mod 256))"

definition random_read :: "tf_lib \<Rightarrow> nat \<Rightarrow> nat \<Rightarrow> string" where
  "random_read lib reads n = map (\<lambda>i. random_byte (tl_clock lib (reads + i)) i) [0..<n]"

definition backup_code :: "tf_lib \<Rightarrow> nat \<Rightarrow> string" where
  "backup_code lib reads =
     ToUpper (tl_unicode lib) (take 8 (base32_encode (random_read lib reads 6)))"

definition GenerateBackupCodes :: "tf_lib \<Rightarrow> int \<Rightarrow> 'r tf_state \<Rightarrow> (string + string list) \<times> 'r tf_state" where
  "GenerateBackupCodes lib count st =
     (if count \<le> 0 then (Inl ''count must be positive'', st)
      else (Inr (map (\<lambda>i. backup_code lib (tf_reads st + 6 * i)) [0..<nat count]),
            st\<lparr>tf_reads := tf_reads st + 6 * nat count\<rparr>))"

definition normal_code :: "tf_lib \<Rightarrow> string \<Rightarrow> string" where
  "normal_code lib code = ToUpper (tl_unicode lib) (remove_char (CHR ''-'') code)"

definition VerifyBackupCode :: "tf_lib \<Rightarrow> string \<Rightarrow> string list \<Rightarrow> bool" where
  "VerifyBackupCode lib code codes \<longleftrightarrow> list_ex (\<lambda>c. normal_code lib code = c) codes"

definition ConsumeBackupCode :: "tf_lib \<Rightarrow> string \<Rightarrow> string list \<Rightarrow> string list" where
  "ConsumeBackupCode lib code codes = filter (\<lambda>c. normal_code lib code \<noteq> c) codes"

definition FormatSecret :: "tf_lib \<Rightarrow> string \<Rightarrow> string" where
  "FormatSecret lib secret =
     join '' '' (chunks 4 (ToUpper (tl_unicode lib) (remove_char (CHR '' '') secret)))"

text \<open>\<open>now%30\<close> truncates, and the subtraction is of unsigned 64-bit numbers.\<close>

definition GetTimeRemaining :: "instant \<Rightarrow> int" where
  "GetTimeRemaining t =
     (let now = t div second in (30 - (if 0 \<le> now then now mod 30 else - (- now mod 30))) mod 2 ^ 64)"

definition GenerateSecret ::
  "tf_lib \<Rightarrow> string \<Rightarrow> string \<Rightarrow> 'r tf_state \<Rightarrow> (string + totp_secret) \<times> 'r tf_state" where
  "GenerateSecret lib issuer account st =
     (let st1 = st\<lparr>tf_draws := tf_draws st + 1\<rparr> in
      case tl_generate lib (tf_draws st) issuer account of
        Inl e \<Rightarrow> (Inl (''failed to generate TOTP secret: '' @ e), st1)
      | Inr key \<Rightarrow>
          (case base32_decode (tk_Secret key) of
             None \<Rightarrow> (Inl (''failed to decode secret: '' @ tl_decode_error lib (tk_Secret key)), st1)
           | Some bs \<Rightarrow>
               (case time_now lib st1 of (t, st2) \<Rightarrow>
                  (Inr \<lparr>ts_Secret = tk_Secret key, ts_Issuer = issuer, ts_AccountName = account,
                        ts_QRCodeURL = tk_URL key, ts_Base32 = base32_encode bs, ts_CreatedAt = t\<rparr>, st2))))"

text \<open>The picture is of a key drawn for it.\<close>

definition GenerateQRCode ::
  "tf_lib \<Rightarrow> totp_secret \<Rightarrow> 'r tf_state \<Rightarrow> (string + string) \<times> 'r tf_state" where
  "GenerateQRCode lib s st =
     (let st1 = st\<lparr>tf_draws := tf_draws st + 1\<rparr> in
      case tl_generate lib (tf_draws st) (ts_Issuer s) (ts_AccountName s) of
        Inl e \<Rightarrow> (Inl (''failed to generate key for QR code: '' @ e), st1)
      | Inr key \<Rightarrow>
          (case tl_png lib key of
             Inl e \<Rightarrow> (Inl (''failed to generate QR code image: '' @ e), st1)
           | Inr png \<Rightarrow> (Inr png, st1)))"

definition GenerateQRCodeBase64 ::
  "tf_lib \<Rightarrow> totp_secret \<Rightarrow> 'r tf_state \<Rightarrow> (string + string) \<times> 'r tf_state" where
  "GenerateQRCodeBase64 lib s st =
     (case GenerateQRCode lib s st of
        (Inl e, st') \<Rightarrow> (Inl e, st')
      | (Inr png, st') \<Rightarrow> (Inr (''data:image/png;base64,'' @ base64_std png), st'))"

section \<open>The service\<close>

text \<open>A call of the repository that writes.\<close>

definition on_store ::
  "('r \<Rightarrow> string option \<times> 'r) \<Rightarrow> 'r tf_state \<Rightarrow> string option \<times> 'r tf_state" where
  "on_store f st = (case f (tf_store st) of (e, r) \<Rightarrow> (e, st\<lparr>tf_store := r\<rparr>))"

definition Setup2FA ::
  "tf_lib \<Rightarrow> 'r tf_repo \<Rightarrow> string \<Rightarrow> string \<Rightarrow> string \<Rightarrow> 'r tf_state \<Rightarrow> (string + totp_secret) \<times> 'r tf_state" where
  "Setup2FA lib repo issuer uid email st =
     (case tr_Is2FAEnabled repo uid (tf_store st) of
        Inl e \<Rightarrow> (Inl (''failed to check 2FA status: '' @ e), st)
      | Inr True \<Rightarrow> (Inl ''2FA already enabled for this user'', st)
      | Inr False \<Rightarrow>
          (case GenerateSecret lib issuer email st of
             (Inl e, st1) \<Rightarrow> (Inl (''failed to generate TOTP secret: '' @ e), st1)
           | (Inr s, st1) \<Rightarrow>
               (case on_store (tr_SaveTOTPSecret repo uid s) st1 of
                  (Some e, st2) \<Rightarrow> (Inl (''failed to save TOTP secret: '' @ e), st2)
                | (None, st2) \<Rightarrow>
                    (case GenerateBackupCodes lib 10 st2 of
                       (Inl e, st3) \<Rightarrow> (Inl (''failed to generate backup codes: '' @ e), st3)
                     | (Inr codes, st3) \<Rightarrow>
                         (case on_store (tr_SaveBackupCodes repo uid codes) st3 of
                            (Some e, st4) \<Rightarrow> (Inl (''failed to save backup codes: '' @ e), st4)
                          | (None, st4) \<Rightarrow> (Inr s, st4))))))"

definition Enable2FA ::
  "tf_lib \<Rightarrow> 'r tf_repo \<Rightarrow> string \<Rightarrow> string \<Rightarrow> 'r tf_state \<Rightarrow> string option \<times> 'r tf_state" where
  "Enable2FA lib repo uid code st =
     (case tr_GetTOTPSecret repo uid (tf_store st) of
        Inl e \<Rightarrow> (Some (''failed to get TOTP secret: '' @ e), st)
      | Inr None \<Rightarrow> (Some ''TOTP secret not found. Please setup 2FA first'', st)
      | Inr (Some s) \<Rightarrow>
          (case ValidateCode lib (ts_Secret s) code st of
             (False, st1) \<Rightarrow> (Some ''invalid TOTP code'', st1)
           | (True, st1) \<Rightarrow>
               (case on_store (tr_Enable2FA repo uid) st1 of
                  (Some e, st2) \<Rightarrow> (Some (''failed to enable 2FA: '' @ e), st2)
                | (None, st2) \<Rightarrow> (None, st2))))"

text \<open>The common end of \<open>Disable2FA\<close>; and the call itself, which reads a secret that may be nil.\<close>

definition finish_disable ::
  "'r tf_repo \<Rightarrow> string \<Rightarrow> bool \<Rightarrow> 'r tf_state \<Rightarrow> string option \<times> 'r tf_state" where
  "finish_disable repo uid valid st =
     (if \<not> valid then (Some ''invalid code'', st)
      else case on_store (tr_Disable2FA repo uid) st of
        (Some e, st') \<Rightarrow> (Some (''failed to disable 2FA: '' @ e), st')
      | (None, st') \<Rightarrow> (None, st'))"

definition Disable2FA ::
  "tf_lib \<Rightarrow> 'r tf_repo \<Rightarrow> string \<Rightarrow> string \<Rightarrow> bool \<Rightarrow> 'r tf_state \<Rightarrow> string option go_result \<times> 'r tf_state" where
  "Disable2FA lib repo uid code backup st =
     (case tr_Is2FAEnabled repo uid (tf_store st) of
        Inl e \<Rightarrow> (Returns (Some (''failed to check 2FA status: '' @ e)), st)
      | Inr False \<Rightarrow> (Returns (Some ''2FA is not enabled''), st)
      | Inr True \<Rightarrow>
          (case tr_GetTOTPSecret repo uid (tf_store st) of
             Inl e \<Rightarrow> (Returns (Some (''failed to get TOTP secret: '' @ e)), st)
           | Inr secret \<Rightarrow>
               if backup then
                 (case tr_GetBackupCodes repo uid (tf_store st) of
                    Inl e \<Rightarrow> (Returns (Some (''failed to get backup codes: '' @ e)), st)
                  | Inr codes \<Rightarrow>
                      if VerifyBackupCode lib code codes then
                        (case on_store (tr_SaveBackupCodes repo uid (ConsumeBackupCode lib code codes)) st of
                           (Some e, st1) \<Rightarrow> (Returns (Some (''failed to update backup codes: '' @ e)), st1)
                         | (None, st1) \<Rightarrow> apfst Returns (finish_disable repo uid True st1))
                      else apfst Returns (finish_disable repo uid False st))
               else
                 (case secret of
                    None \<Rightarrow> (Panics, st)
                  | Some s \<Rightarrow>
                      (case ValidateCode lib (ts_Secret s) code st of
                         (valid, st1) \<Rightarrow> apfst Returns (finish_disable repo uid valid st1)))))"

definition Verify2FA ::
  "tf_lib \<Rightarrow> 'r tf_repo \<Rightarrow> string \<Rightarrow> string \<Rightarrow> 'r tf_state \<Rightarrow> string option \<times> 'r tf_state" where
  "Verify2FA lib repo uid code st =
     (case tr_Is2FAEnabled repo uid (tf_store st) of
        Inl e \<Rightarrow> (Some (''failed to check 2FA status: '' @ e), st)
      | Inr False \<Rightarrow> (None, st)
      | Inr True \<Rightarrow>
          (case tr_GetTOTPSecret repo uid (tf_store st) of
             Inl e \<Rightarrow> (Some (''failed to get TOTP secret: '' @ e), st)
           | Inr None \<Rightarrow> (Some ''TOTP secret not found'', st)
           | Inr (Some s) \<Rightarrow>
               (case ValidateCodeWithDrift lib (ts_Secret s) code 1 st of
                  (True, st1) \<Rightarrow> (None, st1)
                | (False, st1) \<Rightarrow>
                    (case tr_GetBackupCodes repo uid (tf_store st1) of
                       Inl e \<Rightarrow> (Some ''invalid TOTP code'', st1)
                     | Inr codes \<Rightarrow>
                         if \<not> VerifyBackupCode lib code codes then (Some ''invalid code'', st1)
                         else case on_store (tr_SaveBackupCodes repo uid (ConsumeBackupCode lib code codes)) st1 of
                           (Some e, st2) \<Rightarrow> (Some (''failed to update backup codes: '' @ e), st2)
                         | (None, st2) \<Rightarrow> (None, st2)))))"

definition RegenerateBackupCodes ::
  "tf_lib \<Rightarrow> 'r tf_repo \<Rightarrow> string \<Rightarrow> 'r tf_state \<Rightarrow> (string + string list) \<times> 'r tf_state" where
  "RegenerateBackupCodes lib repo uid st =
     (case tr_Is2FAEnabled repo uid (tf_store st) of
        Inl e \<Rightarrow> (Inl (''failed to check 2FA status: '' @ e), st)
      | Inr False \<Rightarrow> (Inl ''2FA is not enabled'', st)
      | Inr True \<Rightarrow>
          (case GenerateBackupCodes lib 10 st of
             (Inl e, st1) \<Rightarrow> (Inl (''failed to generate backup codes: '' @ e), st1)
           | (Inr codes, st1) \<Rightarrow>
               (case on_store (tr_SaveBackupCodes repo uid codes) st1 of
                  (Some e, st2) \<Rightarrow> (Inl (''failed to save backup codes: '' @ e), st2)
                | (None, st2) \<Rightarrow> (Inr codes, st2))))"

text \<open>The status map: \<open>enabled\<close>, and the number of codes when it is on and they can be read.\<close>

definition Get2FAStatus :: "'r tf_repo \<Rightarrow> string \<Rightarrow> 'r \<Rightarrow> string + (string \<times> json) list" where
  "Get2FAStatus repo uid r =
     (case tr_Is2FAEnabled repo uid r of
        Inl e \<Rightarrow> Inl (''failed to check 2FA status: '' @ e)
      | Inr enabled \<Rightarrow>
          Inr ((if enabled then (case tr_GetBackupCodes repo uid r of
                  Inr codes \<Rightarrow> [(''backup_codes_remaining'', JInt (int (length codes)))] | Inl _ \<Rightarrow> []) else []) @
               [(''enabled'', JBool enabled)]))"

definition GetQRCodeData ::
  "tf_lib \<Rightarrow> 'r tf_repo \<Rightarrow> string \<Rightarrow> 'r tf_state \<Rightarrow> (string + (string \<times> string) list) \<times> 'r tf_state" where
  "GetQRCodeData lib repo uid st =
     (case tr_GetTOTPSecret repo uid (tf_store st) of
        Inl e \<Rightarrow> (Inl (''failed to get TOTP secret: '' @ e), st)
      | Inr None \<Rightarrow> (Inl ''TOTP secret not found'', st)
      | Inr (Some s) \<Rightarrow>
          (case GenerateQRCodeBase64 lib s st of
             (Inl e, st1) \<Rightarrow> (Inl (''failed to generate QR code: '' @ e), st1)
           | (Inr qr, st1) \<Rightarrow>
               (Inr [(''account_name'', ts_AccountName s), (''issuer'', ts_Issuer s),
                     (''qr_code_base64'', qr), (''secret'', FormatSecret lib (ts_Secret s))], st1)))"

text \<open>\<open>b\<close> is what the random source yields.\<close>

definition GenerateSecureSecret :: "tf_lib \<Rightarrow> string option \<Rightarrow> string option" where
  "GenerateSecureSecret lib b = map_option (\<lambda>b. ToUpper (tl_unicode lib) (base32_encode b)) b"

section \<open>The handlers\<close>

text \<open>
  The user of a request is the string \<open>user_id\<close> of its context; the assertion panics without
  one. A response body ends with the newline of the encoder.
\<close>

definition json_response :: "json \<Rightarrow> response" where
  "json_response v = \<lparr>rp_status = 200, rp_body = json_print v @ [CHR 0x0A]\<rparr>"

definition message_body :: "string \<Rightarrow> json" where
  "message_body msg = JObj [(''message'', JStr msg)]"

definition handle_Setup2FA ::
  "tf_lib \<Rightarrow> 'r tf_repo \<Rightarrow> string \<Rightarrow> string option \<Rightarrow> string option \<Rightarrow> 'r tf_state \<Rightarrow> response go_result \<times> 'r tf_state" where
  "handle_Setup2FA lib repo issuer uid email st =
     (case (uid, email) of
        (Some u, Some e) \<Rightarrow>
          (case Setup2FA lib repo issuer u e st of
             (Inl err, st1) \<Rightarrow> (Returns (http_error err 400), st1)
           | (Inr s, st1) \<Rightarrow>
               (case GenerateQRCodeBase64 lib s st1 of
                  (Inl err, st2) \<Rightarrow> (Returns (http_error err 500), st2)
                | (Inr qr, st2) \<Rightarrow>
                    (Returns (json_response (JObj
                       [(''account_name'', JStr (ts_AccountName s)), (''issuer'', JStr (ts_Issuer s)),
                        (''message'', JStr ''Scan the QR code with your authenticator app''),
                        (''qr_code_base64'', JStr qr), (''secret'', JStr (FormatSecret lib (ts_Secret s)))])), st2)))
      | _ \<Rightarrow> (Panics, st))"

definition handle_Enable2FA ::
  "tf_lib \<Rightarrow> 'r tf_repo \<Rightarrow> string option \<Rightarrow> string \<Rightarrow> 'r tf_state \<Rightarrow> response go_result \<times> 'r tf_state" where
  "handle_Enable2FA lib repo uid body st =
     (case uid of
        None \<Rightarrow> (Panics, st)
      | Some u \<Rightarrow>
          (case Option.bind (decode_struct body) (string_field ''code'') of
             None \<Rightarrow> (Returns (http_error ''Invalid request'' 400), st)
           | Some code \<Rightarrow>
               (case Enable2FA lib repo u code st of
                  (Some err, st1) \<Rightarrow> (Returns (http_error err 400), st1)
                | (None, st1) \<Rightarrow> (Returns (json_response (message_body ''2FA enabled successfully'')), st1))))"

definition handle_Disable2FA ::
  "tf_lib \<Rightarrow> 'r tf_repo \<Rightarrow> string option \<Rightarrow> string \<Rightarrow> 'r tf_state \<Rightarrow> response go_result \<times> 'r tf_state" where
  "handle_Disable2FA lib repo uid body st =
     (case uid of
        None \<Rightarrow> (Panics, st)
      | Some u \<Rightarrow>
          (case (Option.bind (decode_struct body) (string_field ''code''),
                 Option.bind (decode_struct body) (bool_field ''use_backup'')) of
             (Some code, Some backup) \<Rightarrow>
               (case Disable2FA lib repo u code backup st of
                  (Panics, st1) \<Rightarrow> (Panics, st1)
                | (Returns (Some err), st1) \<Rightarrow> (Returns (http_error err 400), st1)
                | (Returns None, st1) \<Rightarrow> (Returns (json_response (message_body ''2FA disabled successfully'')), st1))
           | _ \<Rightarrow> (Returns (http_error ''Invalid request'' 400), st)))"

definition handle_RegenerateBackupCodes ::
  "tf_lib \<Rightarrow> 'r tf_repo \<Rightarrow> string option \<Rightarrow> 'r tf_state \<Rightarrow> response go_result \<times> 'r tf_state" where
  "handle_RegenerateBackupCodes lib repo uid st =
     (case uid of
        None \<Rightarrow> (Panics, st)
      | Some u \<Rightarrow>
          (case RegenerateBackupCodes lib repo u st of
             (Inl err, st1) \<Rightarrow> (Returns (http_error err 400), st1)
           | (Inr codes, st1) \<Rightarrow>
               (Returns (json_response (JObj [(''codes'', JArr (map JStr codes)),
                  (''message'', JStr ''Backup codes regenerated. Store them in a safe place!'')])), st1)))"

definition handle_GetStatus ::
  "'r tf_repo \<Rightarrow> string option \<Rightarrow> 'r tf_state \<Rightarrow> response go_result" where
  "handle_GetStatus repo uid st =
     (case uid of
        None \<Rightarrow> Panics
      | Some u \<Rightarrow>
          (case Get2FAStatus repo u (tf_store st) of
             Inl err \<Rightarrow> Returns (http_error err 500)
           | Inr ms \<Rightarrow> Returns (json_response (JObj ms))))"

section \<open>A lawful repository\<close>

text \<open>
  What is saved is read back, and a write of one user's codes, secret or switch leaves the other
  entries alone. An error leaves the store as it was.
\<close>

definition lawful_repo :: "'r tf_repo \<Rightarrow> bool" where
  "lawful_repo repo \<longleftrightarrow>
     (\<forall>u cs r r'. tr_SaveBackupCodes repo u cs r = (None, r') \<longrightarrow>
        tr_GetBackupCodes repo u r' = Inr cs \<and> tr_GetTOTPSecret repo u r' = tr_GetTOTPSecret repo u r \<and>
        tr_Is2FAEnabled repo u r' = tr_Is2FAEnabled repo u r) \<and>
     (\<forall>u r r'. tr_Enable2FA repo u r = (None, r') \<longrightarrow>
        tr_Is2FAEnabled repo u r' = Inr True \<and> tr_GetTOTPSecret repo u r' = tr_GetTOTPSecret repo u r \<and>
        tr_GetBackupCodes repo u r' = tr_GetBackupCodes repo u r) \<and>
     (\<forall>u s r r'. tr_SaveTOTPSecret repo u s r = (None, r') \<longrightarrow>
        tr_GetTOTPSecret repo u r' = Inr (Some s) \<and> tr_Is2FAEnabled repo u r' = tr_Is2FAEnabled repo u r)"

lemma lawful_codes:
  "lawful_repo repo \<Longrightarrow> tr_SaveBackupCodes repo u cs r = (None, r') \<Longrightarrow>
     tr_GetBackupCodes repo u r' = Inr cs \<and> tr_GetTOTPSecret repo u r' = tr_GetTOTPSecret repo u r \<and>
     tr_Is2FAEnabled repo u r' = tr_Is2FAEnabled repo u r"
  unfolding lawful_repo_def by blast

lemma lawful_enable:
  "lawful_repo repo \<Longrightarrow> tr_Enable2FA repo u r = (None, r') \<Longrightarrow>
     tr_Is2FAEnabled repo u r' = Inr True \<and> tr_GetTOTPSecret repo u r' = tr_GetTOTPSecret repo u r \<and>
     tr_GetBackupCodes repo u r' = tr_GetBackupCodes repo u r"
  unfolding lawful_repo_def by blast

lemma lawful_secret:
  "lawful_repo repo \<Longrightarrow> tr_SaveTOTPSecret repo u s r = (None, r') \<Longrightarrow>
     tr_GetTOTPSecret repo u r' = Inr (Some s) \<and> tr_Is2FAEnabled repo u r' = tr_Is2FAEnabled repo u r"
  unfolding lawful_repo_def by blast

text \<open>A repository in memory: the secret, the codes and the switch of each user.\<close>

type_synonym tf_memory = "string \<Rightarrow> totp_secret option \<times> string list \<times> bool"

definition memory_repo :: "tf_memory tf_repo" where
  "memory_repo =
     \<lparr>tr_GetTOTPSecret = (\<lambda>u r. Inr (fst (r u))),
      tr_SaveTOTPSecret = (\<lambda>u s r. (None, r(u := (Some s, snd (r u))))),
      tr_GetBackupCodes = (\<lambda>u r. Inr (fst (snd (r u)))),
      tr_SaveBackupCodes = (\<lambda>u cs r. (None, r(u := (fst (r u), cs, snd (snd (r u)))))),
      tr_Is2FAEnabled = (\<lambda>u r. Inr (snd (snd (r u)))),
      tr_Enable2FA = (\<lambda>u r. (None, r(u := (fst (r u), fst (snd (r u)), True)))),
      tr_Disable2FA = (\<lambda>u r. (None, r(u := (fst (r u), fst (snd (r u)), False))))\<rparr>"

lemma lawful_memory_repo: "lawful_repo memory_repo"
  by (auto simp: lawful_repo_def memory_repo_def)

lemma on_store_None:
  "on_store f st = (None, st') \<longleftrightarrow> (\<exists>r. f (tf_store st) = (None, r) \<and> st' = st\<lparr>tf_store := r\<rparr>)"
  by (auto simp: on_store_def split: prod.split)


section \<open>What the service promises\<close>

lemma to_upper_ascii:
  assumes "ascii_tables u" and "list_all (\<lambda>c. byte_of c < 0x80 \<and> \<not> rune_lower (byte_of c)) s"
  shows "ToUpper u s = s"
proof -
  have asc: "ascii s" using assms(2) by (simp add: ascii_def list_all_iff)
  have same: "map (uc_to_upper u) (map byte_of s) = map byte_of s"
    using assms by (auto simp: ascii_tables_def list_all_iff)
  have "text_of_runes (map byte_of s) = s"
    using asc by (subst text_of_ascii_runes) (auto simp: ascii_def list_all_iff byte_of_def comp_def)
  then show ?thesis by (simp add: ToUpper_def runes_ascii [OF asc] same del: map_map)
qed

lemma to_upper_b32: "ascii_tables u \<Longrightarrow> list_all b32_letter s \<Longrightarrow> ToUpper u s = s"
  by (rule to_upper_ascii) (auto simp: list_all_iff dest: b32_letter_plain)

lemma consumed_code_rejected: "\<not> VerifyBackupCode lib code (ConsumeBackupCode lib code codes)"
  by (auto simp: VerifyBackupCode_def ConsumeBackupCode_def list_ex_iff)

lemma drift_long_code:
  "length (remove_char (CHR '' '') code) \<noteq> 6 \<Longrightarrow> ValidateCodeWithDrift lib s code p st = (False, st)"
  by (simp add: ValidateCodeWithDrift_def)

lemma verify_backup_success:
  assumes lawful: "lawful_repo repo" and on: "tr_Is2FAEnabled repo u (tf_store st) = Inr True"
    and long: "length (remove_char (CHR '' '') code) \<noteq> 6"
    and ok: "fst (Verify2FA lib repo u code st) = None"
  obtains codes s where "tr_GetBackupCodes repo u (tf_store st) = Inr codes"
    and "tr_GetTOTPSecret repo u (tf_store st) = Inr (Some s)"
    and "VerifyBackupCode lib code codes"
    and "tr_GetBackupCodes repo u (tf_store (snd (Verify2FA lib repo u code st))) =
           Inr (ConsumeBackupCode lib code codes)"
    and "tr_GetTOTPSecret repo u (tf_store (snd (Verify2FA lib repo u code st))) = Inr (Some s)"
    and "tr_Is2FAEnabled repo u (tf_store (snd (Verify2FA lib repo u code st))) = Inr True"
proof -
  obtain s where s: "tr_GetTOTPSecret repo u (tf_store st) = Inr (Some s)"
    using ok on by (cases "tr_GetTOTPSecret repo u (tf_store st)")
      (auto simp: Verify2FA_def split: option.splits)
  obtain codes where codes: "tr_GetBackupCodes repo u (tf_store st) = Inr codes"
    using ok on s long by (cases "tr_GetBackupCodes repo u (tf_store st)")
      (auto simp: Verify2FA_def drift_long_code)
  have valid: "VerifyBackupCode lib code codes"
    using ok on s codes long by (auto simp: Verify2FA_def drift_long_code split: if_splits)
  obtain r where save: "tr_SaveBackupCodes repo u (ConsumeBackupCode lib code codes) (tf_store st) = (None, r)"
    using ok on s codes long valid
    by (cases "tr_SaveBackupCodes repo u (ConsumeBackupCode lib code codes) (tf_store st)")
      (auto simp: Verify2FA_def drift_long_code on_store_def split: option.splits)
  have st': "tf_store (snd (Verify2FA lib repo u code st)) = r"
    using on s codes long valid save by (simp add: Verify2FA_def drift_long_code on_store_def)
  show thesis
    using lawful_codes [OF lawful save] codes s valid on st' by (intro that) auto
qed

text \<open>A backup code works once. If a code that cannot be a TOTP code verifies, the codes left are
  those different from it, and verifying it again fails.\<close>

theorem backup_code_single_use:
  assumes lawful: "lawful_repo repo" and on: "tr_Is2FAEnabled repo u (tf_store st) = Inr True"
    and long: "length (remove_char (CHR '' '') code) \<noteq> 6"
    and ok: "fst (Verify2FA lib repo u code st) = None"
  shows "tr_GetBackupCodes repo u (tf_store (snd (Verify2FA lib repo u code st))) =
           map_sum id (filter (\<lambda>c. c \<noteq> normal_code lib code)) (tr_GetBackupCodes repo u (tf_store st)) \<and>
         fst (Verify2FA lib repo u code (snd (Verify2FA lib repo u code st))) = Some ''invalid code''"
proof -
  let ?st = "snd (Verify2FA lib repo u code st)"
  obtain codes s where codes: "tr_GetBackupCodes repo u (tf_store st) = Inr codes"
    and left: "tr_GetBackupCodes repo u (tf_store ?st) = Inr (ConsumeBackupCode lib code codes)"
    and s: "tr_GetTOTPSecret repo u (tf_store ?st) = Inr (Some s)"
    and on': "tr_Is2FAEnabled repo u (tf_store ?st) = Inr True"
    by (rule verify_backup_success [OF assms])
  have "fst (Verify2FA lib repo u code ?st) = Some ''invalid code''"
    unfolding Verify2FA_def [of lib repo u code ?st] on' s
    by (simp add: drift_long_code [OF long] left consumed_code_rejected)
  moreover have "ConsumeBackupCode lib code codes = filter (\<lambda>c. c \<noteq> normal_code lib code) codes"
    unfolding ConsumeBackupCode_def by (rule filter_cong) auto
  ultimately show ?thesis by (simp add: codes left)
qed

definition demo_tf_lib :: tf_lib where
  "demo_tf_lib =
     \<lparr>tl_unicode = plain_unicode, tl_clock = (\<lambda>k. 1700000000 * second + int k),
      tl_generate = (\<lambda>k i a. Inr \<lparr>tk_Secret = base32_encode (replicate 5 (char_of (k mod 256))), tk_URL = ''otpauth''\<rparr>),
      tl_validate = (\<lambda>c s t k. c = ''123456''), tl_decode_error = (\<lambda>s. ''illegal base32 data''),
      tl_png = (\<lambda>k. Inr (tk_Secret k))\<rparr>"

definition demo_tf_state :: "tf_memory tf_state" where
  "demo_tf_state =
     \<lparr>tf_reads = 0, tf_draws = 0,
      tf_store = (\<lambda>u. (Some \<lparr>ts_Secret = ''AAAAAAAA'', ts_Issuer = ''goth'', ts_AccountName = ''ana'', ts_QRCodeURL = '''',
         ts_Base32 = ''AAAAAAAA'', ts_CreatedAt = 0\<rparr>, [''ABCDEFGH'', ''ABCDEFG2''], True))\<rparr>"

lemma normal_code_demo: "normal_code demo_tf_lib ''ABCD-EFGH'' = ''ABCDEFGH''"
proof -
  have dash: "remove_char (CHR ''-'') ''ABCD-EFGH'' = ''ABCDEFGH''" by (simp add: remove_char_def)
  have "list_all b32_letter ''ABCDEFGH''" by (simp add: b32_letter_def b32_value_def byte_of_def)
  then show ?thesis
    unfolding normal_code_def dash by (simp add: demo_tf_lib_def to_upper_b32 [OF ascii_tables_plain])
qed

theorem backup_code_single_use_witness:
  "fst (Verify2FA demo_tf_lib memory_repo ''ana'' ''ABCD-EFGH''
          (snd (Verify2FA demo_tf_lib memory_repo ''ana'' ''ABCD-EFGH'' demo_tf_state))) = Some ''invalid code'' \<and>
   tr_GetBackupCodes memory_repo ''ana''
     (tf_store (snd (Verify2FA demo_tf_lib memory_repo ''ana'' ''ABCD-EFGH'' demo_tf_state))) = Inr [''ABCDEFG2'']"
proof -
  have long: "length (remove_char (CHR '' '') ''ABCD-EFGH'') \<noteq> 6" by (simp add: remove_char_def)
  have on: "tr_Is2FAEnabled memory_repo ''ana'' (tf_store demo_tf_state) = Inr True"
    by (simp add: memory_repo_def demo_tf_state_def)
  have "fst (Verify2FA demo_tf_lib memory_repo ''ana'' ''ABCD-EFGH'' demo_tf_state) = None"
    unfolding Verify2FA_def drift_long_code [OF long]
    by (simp add: memory_repo_def demo_tf_state_def on_store_def VerifyBackupCode_def
        normal_code_demo drift_long_code [OF long])
  moreover have "tr_GetBackupCodes memory_repo ''ana'' (tf_store demo_tf_state) = Inr [''ABCDEFGH'', ''ABCDEFG2'']"
    by (simp add: memory_repo_def demo_tf_state_def)
  ultimately show ?thesis
    using backup_code_single_use [OF lawful_memory_repo on long] by (simp add: normal_code_demo)
qed


text \<open>The characters of a backup code.\<close>

lemma chunks_six: "length bs = 6 \<Longrightarrow> chunks 5 bs = [take 5 bs, drop 5 bs]"
  by (subst chunks.simps) (auto simp: chunks.simps [of 5 "drop 5 bs"] chunks.simps [of 5 "[]"])

lemma first_quantum:
  assumes "length bs = 6"
  shows "take 8 (base32_encode bs) = b32_quantum (take 5 bs)"
proof -
  have "length (b32_quantum (take 5 bs)) = 8"
    using assms by (simp add: full_quantum del: nat_to_digits.simps)
  then show ?thesis by (simp add: base32_encode_def chunks_six [OF assms])
qed

lemma nat_to_digits_low: "nat_to_digits b k (m * b ^ k + n) = nat_to_digits b k n"
proof (induction k arbitrary: n)
  case (Suc k)
  show ?case
  proof (cases "b = 0")
    case False
    then have "(m * b ^ Suc k + n) div b = m * b ^ k + n div b"
      by (simp add: div_add1_eq algebra_simps)
    moreover have "m * b ^ Suc k + n = (m * b ^ k) * b + n" by simp
    then have "(m * b ^ Suc k + n) mod b = n mod b" by (simp only: mod_mult_self3)
    ultimately show ?thesis using Suc.IH by simp
  qed simp
qed simp

lemma nat_to_digits_split: "nat_to_digits b (j + k) n = nat_to_digits b j (n div b ^ k) @ nat_to_digits b k n"
proof (induction k arbitrary: n)
  case (Suc k)
  have "n div b div b ^ k = n div b ^ Suc k" by (simp add: div_mult2_eq)
  then show ?case using Suc.IH [of "n div b"] by simp
qed simp

definition window_suffix :: "int \<Rightarrow> string" where
  "window_suffix w = map b32_char (nat_to_digits 32 3 (nat (w mod 256) * 256 + nat (w div 256 mod 256)))"

lemma random_read_length [simp]: "length (random_read lib n k) = k"
  by (simp add: random_read_def)

lemma random_read_five:
  "take 5 (random_read lib n 6) = map (\<lambda>i. random_byte (tl_clock lib (n + i)) i) [0, 1, 2, 3, 4]"
  by (simp add: random_read_def upt_rec numeral_eq_Suc)

lemma byte_of_random: "byte_of (random_byte t i) = nat (t div 2 ^ (8 * (i mod 8)) mod 256)"
proof -
  have "nat (t div 2 ^ (8 * (i mod 8)) mod 256) < 256" by (simp add: nat_less_iff)
  then show ?thesis unfolding random_byte_def by (rule byte_char_of)
qed

lemma backup_code_plain:
  assumes "ascii_tables (tl_unicode lib)"
  shows "backup_code lib n = b32_quantum (take 5 (random_read lib n 6))"
  using to_upper_b32 [OF assms b32_quantum_letters [of "take 5 (random_read lib n 6)"]]
  by (simp add: backup_code_def first_quantum)

lemma backup_code_suffix:
  assumes tables: "ascii_tables (tl_unicode lib)" and window: "\<And>k. tl_clock lib k div 2 ^ 24 = w"
  shows "length (backup_code lib n) = 8 \<and> drop 5 (backup_code lib n) = window_suffix w"
proof -
  let ?b = "\<lambda>i. byte_of (random_byte (tl_clock lib (n + i)) i)"
  let ?h = "(?b 0 * 256 + ?b 1) * 256 + ?b 2"
  have bytes: "map byte_of (take 5 (random_read lib n 6)) = [?b 0, ?b 1, ?b 2, ?b 3, ?b 4]"
    by (simp add: random_read_five)
  have num: "digits_to_nat 256 (map byte_of (take 5 (random_read lib n 6))) =
      (?h * 2) * 32 ^ 3 + (?b 3 * 256 + ?b 4)"
    unfolding bytes by (simp add: digits_to_nat_def)
  have b3: "?b 3 = nat (w mod 256)"
    using window [of "n + 3"] by (simp add: byte_of_random)
  have "tl_clock lib (n + 4) div 2 ^ 32 = tl_clock lib (n + 4) div (2 ^ 24 * 2 ^ 8)" by simp
  also have "\<dots> = w div 256" using window [of "n + 4"] by (subst zdiv_zmult2_eq) auto
  finally have b4: "?b 4 = nat (w div 256 mod 256)" by (simp add: byte_of_random)
  have five: "length (take 5 (random_read lib n 6)) = 5" by simp
  have "nat_to_digits 32 8 N = nat_to_digits 32 5 (N div 32 ^ 3) @ nat_to_digits 32 3 N" for N
    using nat_to_digits_split [of 32 5 3 N] by simp
  then have "backup_code lib n = map b32_char (nat_to_digits 32 5 (((?h * 2) * 32 ^ 3 + (?b 3 * 256 + ?b 4)) div 32 ^ 3)) @
      map b32_char (nat_to_digits 32 3 (?b 3 * 256 + ?b 4))"
    unfolding backup_code_plain [OF tables] full_quantum [OF five] num
    by (simp only: map_append nat_to_digits_low)
  then show ?thesis
    by (simp only: b3 b4 window_suffix_def length_append length_map length_nat_to_digits) simp
qed

text \<open>Backup codes come from the clock. Codes generated within one window of \<open>2^24\<close> nanoseconds
  (about 17 milliseconds) have eight characters of which the last three are the same in all.\<close>

theorem backup_codes_share_suffix:
  assumes tables: "ascii_tables (tl_unicode lib)" and window: "\<And>k. tl_clock lib k div 2 ^ 24 = w"
    and gen: "fst (GenerateBackupCodes lib n st) = Inr codes"
  shows "length codes = nat n \<and> list_all (\<lambda>c. length c = 8 \<and> drop 5 c = window_suffix w) codes"
  using gen backup_code_suffix [OF tables window]
  by (auto simp: GenerateBackupCodes_def list_all_iff split: if_splits)

text \<open>A clock that stands still for the time of the call.\<close>

definition still_lib :: tf_lib where
  "still_lib = demo_tf_lib\<lparr>tl_clock := (\<lambda>k. 1700000000123456789)\<rparr>"

theorem backup_codes_share_suffix_witness:
  "length (map (\<lambda>i. backup_code still_lib (6 * i)) [0..<2]) = 2 \<and>
   list_all (\<lambda>c. length c = 8 \<and> drop 5 c = window_suffix 101327896125)
     (map (\<lambda>i. backup_code still_lib (6 * i)) [0..<2])"
  using backup_codes_share_suffix [of still_lib 101327896125 2 demo_tf_state
      "map (\<lambda>i. backup_code still_lib (6 * i)) [0..<2]"] ascii_tables_plain
  by (simp add: still_lib_def demo_tf_lib_def GenerateBackupCodes_def demo_tf_state_def)


section \<open>Enrolment\<close>

lemma GenerateSecret_Inr:
  assumes "GenerateSecret lib issuer account st = (Inr s, st')"
  obtains k bs where "tl_generate lib (tf_draws st) issuer account = Inr k" "ts_Secret s = tk_Secret k"
    "base32_decode (tk_Secret k) = Some bs" "ts_Base32 s = base32_encode bs"
    "ts_Issuer s = issuer" "ts_AccountName s = account"
    "tf_draws st' = Suc (tf_draws st)" "tf_store st' = tf_store st"
  using assms
  by (auto simp: GenerateSecret_def Let_def time_now_def split: sum.splits option.splits)

lemma GenerateBackupCodes_frame:
  "tf_draws (snd (GenerateBackupCodes lib n st)) = tf_draws st \<and>
   tf_store (snd (GenerateBackupCodes lib n st)) = tf_store st"
  by (simp add: GenerateBackupCodes_def)

lemma Setup2FA_Inr:
  assumes lawful: "lawful_repo repo" and set_up: "Setup2FA lib repo issuer u email st = (Inr s, st')"
  obtains k where "tl_generate lib (tf_draws st) issuer email = Inr k" "ts_Secret s = tk_Secret k"
    "ts_Issuer s = issuer" "ts_AccountName s = email" "tf_draws st' = Suc (tf_draws st)"
    "tr_GetTOTPSecret repo u (tf_store st') = Inr (Some s)"
    "tr_Is2FAEnabled repo u (tf_store st') = Inr False"
proof -
  have off: "tr_Is2FAEnabled repo u (tf_store st) = Inr False"
    using set_up by (auto simp: Setup2FA_def split: sum.splits bool.splits)
  obtain st1 where gen: "GenerateSecret lib issuer email st = (Inr s, st1)"
    using set_up off
    by (auto simp: Setup2FA_def split: sum.splits option.splits prod.splits)
  obtain k where k: "tl_generate lib (tf_draws st) issuer email = Inr k" "ts_Secret s = tk_Secret k"
    "ts_Issuer s = issuer" "ts_AccountName s = email"
    and st1: "tf_draws st1 = Suc (tf_draws st)" "tf_store st1 = tf_store st"
    by (rule GenerateSecret_Inr [OF gen]) auto
  obtain st2 where save: "on_store (tr_SaveTOTPSecret repo u s) st1 = (None, st2)"
    using set_up off gen by (auto simp: Setup2FA_def split: sum.splits option.splits prod.splits)
  obtain codes st3 where codes: "GenerateBackupCodes lib 10 st2 = (Inr codes, st3)"
    by (simp add: GenerateBackupCodes_def)
  have save2: "on_store (tr_SaveBackupCodes repo u codes) st3 = (None, st')"
    using set_up off gen save codes
    by (auto simp: Setup2FA_def split: sum.splits option.splits prod.splits)
  have st3: "tf_draws st3 = tf_draws st2" "tf_store st3 = tf_store st2"
    using GenerateBackupCodes_frame [of lib 10 st2] codes by auto
  from save obtain r2 where r2: "tr_SaveTOTPSecret repo u s (tf_store st1) = (None, r2)"
    "st2 = st1\<lparr>tf_store := r2\<rparr>" by (auto simp: on_store_None)
  from save2 obtain r3 where r3: "tr_SaveBackupCodes repo u codes (tf_store st3) = (None, r3)"
    "st' = st3\<lparr>tf_store := r3\<rparr>" by (auto simp: on_store_None)
  show thesis
    using k st1 st3 r2 r3 off lawful_secret [OF lawful r2(1)] lawful_codes [OF lawful r3(1)]
    by (intro that) auto
qed

text \<open>What \<open>Setup2FA\<close> stores is the secret of the key it drew, and the factor is not yet asked for; the
  QR code shown with it is the picture of the next key drawn, another secret.\<close>

theorem setup_shows_another_key:
  assumes "lawful_repo repo" and "Setup2FA lib repo issuer u email st = (Inr s, st')"
    and "fst (GenerateQRCode lib s st') = Inr png"
  shows "\<exists>k k'. tl_generate lib (tf_draws st) issuer email = Inr k \<and>
       tl_generate lib (Suc (tf_draws st)) issuer email = Inr k' \<and>
       tr_GetTOTPSecret repo u (tf_store st') = Inr (Some s) \<and> ts_Secret s = tk_Secret k \<and>
       tl_png lib k' = Inr png \<and> fst (Verify2FA lib repo u code st') = None"
  by (rule Setup2FA_Inr [OF assms(1,2)])
    (use assms(3) in \<open>auto simp: GenerateQRCode_def Let_def Verify2FA_def split: sum.splits\<close>)

definition empty_tf_state :: "tf_memory tf_state" where
  "empty_tf_state = \<lparr>tf_reads = 0, tf_draws = 0, tf_store = (\<lambda>u. (None, [], False))\<rparr>"

lemma demo_key: "tl_generate demo_tf_lib n i a =
    Inr \<lparr>tk_Secret = base32_encode (replicate 5 (char_of (n mod 256))), tk_URL = ''otpauth''\<rparr>"
  by (simp add: demo_tf_lib_def)

lemma demo_setup:
  "\<exists>s st'. Setup2FA demo_tf_lib memory_repo ''goth'' ''ana'' ''ana@x.io'' empty_tf_state = (Inr s, st')"
proof -
  have "base32_decode (base32_encode (replicate 5 (char_of (0 mod 256 :: nat)))) = Some (replicate 5 (char_of (0 mod 256 :: nat)))"
    by (rule base32_roundtrip) simp
  then show ?thesis
    by (simp add: Setup2FA_def GenerateSecret_def demo_key time_now_def on_store_def
        memory_repo_def empty_tf_state_def GenerateBackupCodes_def)
qed

theorem setup_shows_another_key_witness:
  "fst (Verify2FA demo_tf_lib memory_repo ''ana'' ''000000''
          (snd (Setup2FA demo_tf_lib memory_repo ''goth'' ''ana'' ''ana@x.io'' empty_tf_state))) = None"
proof -
  obtain s st' where set_up:
    "Setup2FA demo_tf_lib memory_repo ''goth'' ''ana'' ''ana@x.io'' empty_tf_state = (Inr s, st')"
    using demo_setup by blast
  have "\<exists>png. fst (GenerateQRCode demo_tf_lib s st') = Inr png"
    by (simp add: GenerateQRCode_def Let_def demo_tf_lib_def)
  then obtain png where "fst (GenerateQRCode demo_tf_lib s st') = Inr png" by blast
  from setup_shows_another_key [OF lawful_memory_repo set_up this] set_up show ?thesis by auto
qed

text \<open>The secret a new key is stored with is the key's own in both of its fields, and it is formatted
  for reading so that removing the blanks gives it back.\<close>

theorem stored_secret_readable:
  assumes tables: "ascii_tables (tl_unicode lib)"
    and key: "tl_generate lib (tf_draws st) issuer email = Inr k"
    and canonical: "tk_Secret k = base32_encode bs" "length bs mod 5 = 0"
  shows "\<exists>s. fst (GenerateSecret lib issuer email st) = Inr s \<and> ts_Secret s = tk_Secret k \<and>
      ts_Base32 s = tk_Secret k \<and> remove_char (CHR '' '') (FormatSecret lib (ts_Secret s)) = tk_Secret k"
proof -
  have letters: "list_all b32_letter (tk_Secret k)" using base32_letters canonical by simp
  then have none: "CHR '' '' \<notin> set (tk_Secret k)" by (auto simp: list_all_iff dest: b32_letter_plain)
  have parts: "map (remove_char (CHR '' '')) (chunks 4 (tk_Secret k)) = chunks 4 (tk_Secret k)"
    using none chunks_subset [of _ 4 "tk_Secret k"] by (intro map_idI remove_char_none) auto
  have "remove_char (CHR '' '') (FormatSecret lib (tk_Secret k)) = tk_Secret k"
    by (simp add: FormatSecret_def remove_char_none [OF none] to_upper_b32 [OF tables letters]
        remove_char_join parts concat_chunks)
  moreover have "base32_decode (tk_Secret k) = Some bs" using base32_roundtrip canonical by simp
  ultimately show ?thesis
    using canonical by (simp add: GenerateSecret_def key time_now_def)
qed

theorem stored_secret_readable_witness:
  "\<exists>s. fst (GenerateSecret demo_tf_lib ''goth'' ''ana@x.io'' empty_tf_state) = Inr s \<and>
     ts_Base32 s = ts_Secret s"
  using stored_secret_readable [of demo_tf_lib empty_tf_state "''goth''" "''ana@x.io''" _ "replicate 5 (char_of (0 mod 256 :: nat))",
      OF _ demo_key] ascii_tables_plain
  by (auto simp: demo_tf_lib_def empty_tf_state_def)

lemma time_remaining_bounds:
  "0 \<le> t \<Longrightarrow> 1 \<le> GetTimeRemaining t \<and> GetTimeRemaining t \<le> 30"
  by (auto simp: GetTimeRemaining_def Let_def second_def pos_imp_zdiv_nonneg_iff)

lemma disable_without_secret_panics:
  "tr_Is2FAEnabled repo u (tf_store st) = Inr True \<Longrightarrow> tr_GetTOTPSecret repo u (tf_store st) = Inr None \<Longrightarrow>
     Disable2FA lib repo u code False st = (Panics, st)"
  by (simp add: Disable2FA_def)


end
