(* ===== verification/Admin.thy ===== *)
theory Admin
  imports Go_Text Http_Errors Job_Queue
begin

text \<open>
  The administration of dead letters (\<open>internal/features/admin/handler.go\<close>) over the statements of
  the job tables: a handler takes what it reads of the request and the database to a response and
  the database. \<open>time_text\<close> is \<open>time.Time.String\<close>. The last section shows that every handler is a
  run of the steps of the job tables, so what these keep the handlers keep.
\<close>

section \<open>Responses\<close>

definition db_error :: "dberr \<Rightarrow> response" where
  "db_error e = HandleError (Inr (dberr_text e))"

definition bad_id :: response where
  "bad_id = HandleError (Inl (NewValidationError ''invalid ID'' []))"

definition no_such_job :: response where
  "no_such_job = HandleError (Inl (NewNotFoundError ''job''))"

text \<open>
  A \<open>json.RawMessage\<close>: the encoder checks it, drops white space outside strings and escapes the
  HTML characters; an empty one is left out. \<open>sql.NullString\<close> is a struct of two fields.
\<close>

fun json_compact :: "bool \<Rightarrow> string \<Rightarrow> string" where
  "json_compact quoted [] = []"
| "json_compact quoted (c # cs) =
     (if quoted then
        (if c = CHR 0x5C then (case cs of d # ds \<Rightarrow> c # d # json_compact True ds | [] \<Rightarrow> [c])
         else if c = CHR 0x22 then c # json_compact False cs
         else (if c \<in> set ''<>&'' then unicode_escape (of_char c) else [c]) @ json_compact True cs)
      else if is_space c then json_compact False cs
      else c # json_compact (c = CHR 0x22) cs)"

definition null_string_json :: "string option \<Rightarrow> json" where
  "null_string_json v =
     (case v of None \<Rightarrow> JObj [(''String'', JStr ''''), (''Valid'', JBool False)]
      | Some t \<Rightarrow> JObj [(''String'', JStr t), (''Valid'', JBool True)])"

definition dlq_job :: "(instant \<Rightarrow> string) \<Rightarrow> dead_letter_job \<Rightarrow> json" where
  "dlq_job time_text d =
     JObj ([(''id'', JInt (dl_id d)), (''job_id'', JInt (dl_job_id d)), (''original_type'', JStr (dl_type d)),
            (''error_message'', JStr (dl_error d)), (''attempt_count'', JInt (dl_attempt_count d)),
            (''failed_at'', JStr (time_text (dl_failed_at d))), (''tenant_id'', null_string_json (dl_tenant d))] @
           (if dl_metadata d = '''' then [] else [(''metadata'', JReal (json_compact False (dl_metadata d)))]))"

definition encodable :: "dead_letter_job \<Rightarrow> bool" where
  "encodable d \<longleftrightarrow> dl_metadata d = '''' \<or> json_parse (dl_metadata d) \<noteq> None"

text \<open>The encoder fails before it writes, and the handler then answers 500.\<close>

definition encoded :: "bool \<Rightarrow> json \<Rightarrow> response" where
  "encoded ok v =
     (if ok then \<lparr>rp_status = 200, rp_body = json_print v @ [CHR 0x0A]\<rparr>
      else HandleError (Inr ''json: error calling MarshalJSON for type json.RawMessage''))"

section \<open>Dead letters\<close>

text \<open>The page and the limit of a listing; \<open>(page - 1) * limit\<close> wraps around.\<close>

definition dlq_page :: "string \<Rightarrow> int" where
  "dlq_page q = (let p = atoi q in if p \<le> 0 then 1 else p)"

definition dlq_limit :: "string \<Rightarrow> int" where
  "dlq_limit q = (let l = (if atoi q \<le> 0 then 50 else atoi q) in if 100 < l then 100 else l)"

definition listDLQ :: "(instant \<Rightarrow> string) \<Rightarrow> string \<Rightarrow> string \<Rightarrow> db \<Rightarrow> response \<times> db" where
  "listDLQ time_text page_q limit_q s =
     (let page = dlq_page page_q; limit = dlq_limit limit_q; offset = wrap64 ((page - 1) * limit) in
      case GetDeadLetterJobs limit offset s of
        (Inl e, s1) \<Rightarrow> (db_error e, s1)
      | (Inr jobs, s1) \<Rightarrow>
          (case GetDeadLetterJobCount s1 of
             (Inl e, s2) \<Rightarrow> (db_error e, s2)
           | (Inr n, s2) \<Rightarrow>
               (encoded (list_all encodable jobs)
                  (JObj [(''jobs'', JArr (map (dlq_job time_text) jobs)), (''total'', JInt n),
                         (''page'', JInt page), (''limit'', JInt limit)]), s2)))"

definition getDLQJob :: "(instant \<Rightarrow> string) \<Rightarrow> string \<Rightarrow> db \<Rightarrow> response \<times> db" where
  "getDLQJob time_text id_text s =
     (case parse_int id_text of
        Inl _ \<Rightarrow> (bad_id, s)
      | Inr i \<Rightarrow>
          (case GetDeadLetterJobs 100 0 s of
             (Inl e, s1) \<Rightarrow> (db_error e, s1)
           | (Inr jobs, s1) \<Rightarrow>
               (case find (\<lambda>d. dl_id d = i) jobs of
                  None \<Rightarrow> (no_such_job, s1)
                | Some d \<Rightarrow> (encoded (encodable d) (dlq_job time_text d), s1))))"

definition requeue :: "dead_letter_job \<Rightarrow> job query" where
  "requeue d =
     RetryDeadLetterJob (dl_tenant d) (dl_type d) (dl_payload d) (Some (dl_failed_at d)) (Some 0) (Some 300)"

definition status_message :: "string \<Rightarrow> response" where
  "status_message msg = encoded True (JObj [(''message'', JStr msg), (''status'', JStr ''success'')])"

definition retryDLQJob :: "string \<Rightarrow> db \<Rightarrow> response \<times> db" where
  "retryDLQJob id_text s =
     (case parse_int id_text of
        Inl _ \<Rightarrow> (bad_id, s)
      | Inr i \<Rightarrow>
          (case GetDeadLetterJobs 1 0 s of
             (Inl e, s1) \<Rightarrow> (db_error e, s1)
           | (Inr jobs, s1) \<Rightarrow>
               (case find (\<lambda>d. dl_id d = i) jobs of
                  None \<Rightarrow> (no_such_job, s1)
                | Some d \<Rightarrow>
                    (case requeue d s1 of
                       (Inl e, s2) \<Rightarrow> (db_error e, s2)
                     | (Inr _, s2) \<Rightarrow>
                         (case DeleteDeadLetterJob i s2 of
                            (Inl e, s3) \<Rightarrow> (db_error e, s3)
                          | (Inr _, s3) \<Rightarrow> (status_message ''Job requeued'', s3))))))"

definition deleteDLQJob :: "string \<Rightarrow> db \<Rightarrow> response \<times> db" where
  "deleteDLQJob id_text s =
     (case parse_int id_text of
        Inl _ \<Rightarrow> (bad_id, s)
      | Inr i \<Rightarrow>
          (case DeleteDeadLetterJob i s of
             (Inl e, s1) \<Rightarrow> (db_error e, s1)
           | (Inr _, s1) \<Rightarrow> (status_message ''Job deleted'', s1)))"

text \<open>The loop of \<open>retryAllDLQ\<close>, with its two counters.\<close>

fun retry_each :: "dead_letter_job list \<Rightarrow> nat \<Rightarrow> nat \<Rightarrow> db \<Rightarrow> (nat \<times> nat) \<times> db" where
  "retry_each [] retried failed s = ((retried, failed), s)"
| "retry_each (d # ds) retried failed s =
     (case requeue d s of
        (Inl _, s1) \<Rightarrow> retry_each ds retried (failed + 1) s1
      | (Inr _, s1) \<Rightarrow> retry_each ds (retried + 1) failed (ignore_error (DeleteDeadLetterJob (dl_id d)) s1))"

definition retryAllDLQ :: "db \<Rightarrow> response \<times> db" where
  "retryAllDLQ s =
     (case GetDeadLetterJobs 1000 0 s of
        (Inl e, s1) \<Rightarrow> (db_error e, s1)
      | (Inr jobs, s1) \<Rightarrow>
          (case retry_each jobs 0 0 s1 of
             ((retried, failed), s2) \<Rightarrow>
               (encoded True (JObj [(''failed'', JInt (int failed)), (''retried'', JInt (int retried)),
                  (''status'', JStr ''success'')]), s2)))"

section \<open>Workers and breakers\<close>

definition getWorkerStats :: "db \<Rightarrow> response \<times> db" where
  "getWorkerStats s =
     (case GetPendingJobCount s of (r, s1) \<Rightarrow>
        (encoded True (JObj [(''active_workers'', JInt 0), (''pending_jobs'', JInt (case r of Inr n \<Rightarrow> n | Inl _ \<Rightarrow> 0)),
           (''processing_jobs'', JInt 0), (''circuit_breakers'', JNull)]), s1))"

definition getCircuitBreakers :: "db \<Rightarrow> response \<times> db" where
  "getCircuitBreakers s =
     (case ListCircuitBreakerStates s of
        (Inl e, s1) \<Rightarrow> (db_error e, s1)
      | (Inr rows, s1) \<Rightarrow>
          (encoded True (JArr (map (\<lambda>b. JObj [(''job_type'', JStr (br_job_type b)), (''state'', JStr (br_state b)),
             (''failures'', JInt (br_failure_count b))]) rows)), s1))"

section \<open>What a requeue does\<close>

definition requeued :: "dead_letter_job \<Rightarrow> job \<Rightarrow> bool" where
  "requeued d j \<longleftrightarrow>
     j_type j = dl_type d \<and> j_payload j = dl_payload d \<and> j_tenant j = dl_tenant d \<and>
     j_status j = Pending \<and> j_attempt_count j = Some 0 \<and> j_run_at j = Some (dl_failed_at d) \<and>
     j_next_retry_at j = None"

lemma requeue_cases:
  obtains (failed) e where "fst (requeue d s) = Inl e" and "t_jobs (snd (requeue d s)) = t_jobs s"
      and "t_dead_letters (snd (requeue d s)) = t_dead_letters s" and "seq_jobs (snd (requeue d s)) = seq_jobs s"
    | (inserted) j where "fst (requeue d s) = Inr j" and "requeued d j" and "j_id j = seq_jobs s"
      and "t_jobs (snd (requeue d s)) = t_jobs s @ [j]"
      and "t_dead_letters (snd (requeue d s)) = t_dead_letters s"
      and "seq_jobs (snd (requeue d s)) = seq_jobs s + 1"
proof -
  obtain r s' where rs: "requeue d s = (r, s')" by (cases "requeue d s")
  from rs [unfolded requeue_def RetryDeadLetterJob_def] show thesis
  proof (cases rule: run_cases)
    case (executed fs)
    then show thesis
      using rs failed inserted
      by (auto simp: insert_job_def new_job_def requeued_def split: if_splits)
  next
    case (failed e fs)
    with rs that(1) show thesis by auto
  qed
qed

lemma delete_cases:
  obtains (failed) e where "fst (DeleteDeadLetterJob i s) = Inl e" and "t_jobs (snd (DeleteDeadLetterJob i s)) = t_jobs s"
      and "t_dead_letters (snd (DeleteDeadLetterJob i s)) = t_dead_letters s"
      and "seq_jobs (snd (DeleteDeadLetterJob i s)) = seq_jobs s"
    | (deleted) "fst (DeleteDeadLetterJob i s) = Inr ()" and "t_jobs (snd (DeleteDeadLetterJob i s)) = t_jobs s"
      and "t_dead_letters (snd (DeleteDeadLetterJob i s)) = filter (\<lambda>d. dl_id d \<noteq> i) (t_dead_letters s)"
      and "seq_jobs (snd (DeleteDeadLetterJob i s)) = seq_jobs s"
proof -
  obtain r s' where rs: "DeleteDeadLetterJob i s = (r, s')" by (cases "DeleteDeadLetterJob i s")
  from rs [unfolded DeleteDeadLetterJob_def] show thesis
    by (cases rule: run_cases) (use rs that in auto)
qed


text \<open>A dead letter of an earlier state is still there, or a job with a number from \<open>n\<close> on carries it.\<close>

definition dead_or_requeued :: "int \<Rightarrow> dead_letter_job \<Rightarrow> db \<Rightarrow> bool" where
  "dead_or_requeued n d s \<longleftrightarrow>
     d \<in> set (t_dead_letters s) \<or> (\<exists>j\<in>set (t_jobs s). n \<le> j_id j \<and> requeued d j)"

lemma requeue_keeps:
  "dead_or_requeued n d s \<Longrightarrow> dead_or_requeued n d (snd (requeue e s)) \<and> seq_jobs s \<le> seq_jobs (snd (requeue e s))"
  by (cases rule: requeue_cases [of e s]) (auto simp: dead_or_requeued_def)

lemma requeue_then_delete_keeps:
  assumes "dead_or_requeued n d s" and "n \<le> seq_jobs s" and "dl_id e = dl_id d \<Longrightarrow> e = d"
    and "fst (requeue e s) = Inr j"
  shows "dead_or_requeued n d (snd (DeleteDeadLetterJob (dl_id e) (snd (requeue e s)))) \<and>
      seq_jobs s \<le> seq_jobs (snd (DeleteDeadLetterJob (dl_id e) (snd (requeue e s))))"
proof (cases rule: requeue_cases [of e s])
  case ins: (inserted j)
  show ?thesis
    by (cases rule: delete_cases [of "dl_id e" "snd (requeue e s)"])
      (use assms ins in \<open>auto simp: dead_or_requeued_def\<close>)
qed (use assms in simp)

lemma retry_each_keeps:
  "dead_or_requeued n d s \<Longrightarrow> n \<le> seq_jobs s \<Longrightarrow> (\<And>e. e \<in> set ds \<Longrightarrow> dl_id e = dl_id d \<Longrightarrow> e = d) \<Longrightarrow>
     dead_or_requeued n d (snd (retry_each ds r f s))"
proof (induction ds arbitrary: r f s)
  case (Cons e ds)
  show ?case
  proof (cases "fst (requeue e s)")
    case (Inl err)
    then have eq: "requeue e s = (Inl err, snd (requeue e s))" by (cases "requeue e s") simp
    have step: "retry_each (e # ds) r f s = retry_each ds r (f + 1) (snd (requeue e s))"
      by (subst retry_each.simps, subst eq) simp
    show ?thesis
      unfolding step using requeue_keeps [OF Cons.prems(1), of e] Cons.prems by (intro Cons.IH) auto
  next
    case (Inr j)
    then have eq: "requeue e s = (Inr j, snd (requeue e s))" by (cases "requeue e s") simp
    have step: "retry_each (e # ds) r f s =
        retry_each ds (r + 1) f (snd (DeleteDeadLetterJob (dl_id e) (snd (requeue e s))))"
      by (subst retry_each.simps, subst eq) simp
    show ?thesis
      unfolding step
    proof (rule Cons.IH)
      have same: "dl_id e = dl_id d \<Longrightarrow> e = d" using Cons.prems(3) by simp
      note kept = requeue_then_delete_keeps [OF Cons.prems(1,2) same Inr]
      then show "dead_or_requeued n d (snd (DeleteDeadLetterJob (dl_id e) (snd (requeue e s))))" by blast
      show "n \<le> seq_jobs (snd (DeleteDeadLetterJob (dl_id e) (snd (requeue e s))))"
        using kept Cons.prems(2) by linarith
    qed (use Cons.prems(3) in simp)
  qed
qed simp

lemma listed_dead_letters:
  obtains (listed) fs where "GetDeadLetterJobs l k s =
        (Inr (sql_page l k (sort_key (\<lambda>d. - dl_failed_at d) (t_dead_letters s))), s\<lparr>faults := fs\<rparr>)"
    | (failed) e fs where "GetDeadLetterJobs l k s = (Inl e, s\<lparr>faults := fs\<rparr>)"
proof -
  obtain r s' where rs: "GetDeadLetterJobs l k s = (r, s')" by (cases "GetDeadLetterJobs l k s")
  from rs [unfolded GetDeadLetterJobs_def] show thesis
  proof (cases rule: run_cases)
    case (executed fs)
    then have "r = Inr (sql_page l k (sort_key (\<lambda>d. - dl_failed_at d) (t_dead_letters s)))"
      and "s' = s\<lparr>faults := fs\<rparr>" by simp_all
    with rs show thesis by (intro listed [of fs]) simp
  next
    case (failed e fs)
    with rs show thesis by (intro that(2) [of e fs]) simp
  qed
qed

lemma sql_page_subset: "set (sql_page l k xs) \<subseteq> set xs"
  by (auto simp: sql_page_def Let_def dest: in_set_takeD in_set_dropD)

lemma dead_or_requeued_faults [simp]: "dead_or_requeued n d (s\<lparr>faults := fs\<rparr>) = dead_or_requeued n d s"
  by (simp add: dead_or_requeued_def)

lemma retryAll_keeps:
  assumes wf: "jobs_wf s" and d: "d \<in> set (t_dead_letters s)"
  shows "dead_or_requeued (seq_jobs s) d (snd (retryAllDLQ s))"
proof (cases rule: listed_dead_letters [of 1000 0 s])
  case (listed fs)
  let ?ds = "sql_page 1000 0 (sort_key (\<lambda>d. - dl_failed_at d) (t_dead_letters s))"
  have "e = d" if "e \<in> set ?ds" and "dl_id e = dl_id d" for e
    using that d wf sql_page_subset [of 1000 0 "sort_key (\<lambda>d. - dl_failed_at d) (t_dead_letters s)"]
    by (intro keyed_unique [of dl_id "t_dead_letters s"]) (auto simp: jobs_wf_def)
  then have "dead_or_requeued (seq_jobs s) d (snd (retry_each ?ds 0 0 (s\<lparr>faults := fs\<rparr>)))"
    using d by (intro retry_each_keeps) (auto simp: dead_or_requeued_def)
  moreover have "snd (retryAllDLQ s) = snd (retry_each ?ds 0 0 (s\<lparr>faults := fs\<rparr>))"
    by (simp add: retryAllDLQ_def listed split: prod.split)
  ultimately show ?thesis by simp
next
  case (failed e fs)
  with d show ?thesis by (simp add: retryAllDLQ_def dead_or_requeued_def)
qed

lemma retry_cases:
  obtains (quiet) fs where "snd (retryDLQJob t s) = s\<lparr>faults := fs\<rparr>"
    | (refused) e fs where "e \<in> set (t_dead_letters s)"
        and "snd (retryDLQJob t s) = snd (requeue e (s\<lparr>faults := fs\<rparr>))"
    | (moved) e fs j where "e \<in> set (t_dead_letters s)" and "fst (requeue e (s\<lparr>faults := fs\<rparr>)) = Inr j"
        and "snd (retryDLQJob t s) = snd (DeleteDeadLetterJob (dl_id e) (snd (requeue e (s\<lparr>faults := fs\<rparr>))))"
proof -
  show thesis
  proof (cases "parse_int t")
    case (Inl v)
    then show thesis by (intro quiet [of "faults s"]) (simp add: retryDLQJob_def)
  next
    case (Inr i)
    show thesis
    proof (cases rule: listed_dead_letters [of 1 0 s])
      case (failed e fs)
      then show thesis using Inr by (intro quiet [of fs]) (simp add: retryDLQJob_def)
    next
      case (listed fs)
      let ?ds = "sql_page 1 0 (sort_key (\<lambda>d. - dl_failed_at d) (t_dead_letters s))"
      show thesis
      proof (cases "find (\<lambda>d. dl_id d = i) ?ds")
        case None
        then show thesis using Inr listed by (intro quiet [of fs]) (simp add: retryDLQJob_def)
      next
        case (Some e)
        then have e: "e \<in> set (t_dead_letters s)" "dl_id e = i"
          using find_Some_in [OF Some] sql_page_subset [of 1 0 "sort_key (\<lambda>d. - dl_failed_at d) (t_dead_letters s)"]
          by auto
        show thesis
        proof (cases "fst (requeue e (s\<lparr>faults := fs\<rparr>))")
          case (Inl err)
          with Some Inr listed e show thesis
            by (intro refused [of e fs]) (auto simp: retryDLQJob_def split: prod.split sum.split)
        next
          case ok: (Inr j)
          with Some Inr listed e show thesis
            by (intro moved [of e fs j]) (auto simp: retryDLQJob_def split: prod.split sum.split)
        qed
      qed
    qed
  qed
qed

lemma retry_keeps:
  assumes wf: "jobs_wf s" and d: "d \<in> set (t_dead_letters s)"
  shows "dead_or_requeued (seq_jobs s) d (snd (retryDLQJob t s))"
proof (cases rule: retry_cases [of t s])
  case (quiet fs)
  with d show ?thesis by (simp add: dead_or_requeued_def)
next
  case (refused e fs)
  have "dead_or_requeued (seq_jobs s) d (s\<lparr>faults := fs\<rparr>)" using d by (simp add: dead_or_requeued_def)
  from requeue_keeps [OF this, of e] refused(2) show ?thesis by simp
next
  case (moved e fs j)
  have same: "dl_id e = dl_id d \<Longrightarrow> e = d"
    using wf d moved(1) by (auto simp: jobs_wf_def intro: keyed_unique)
  have "dead_or_requeued (seq_jobs s) d (s\<lparr>faults := fs\<rparr>)" using d by (simp add: dead_or_requeued_def)
  from requeue_then_delete_keeps [OF this _ same moved(2)] moved(3) show ?thesis by simp
qed


section \<open>What administration promises\<close>

lemma quiet_step: "job_steps s (s\<lparr>faults := fs\<rparr>)"
  by (intro r_into_rtranclp job_step.elsewhere) (simp add: same_job_tables_def)

lemma requeue_step: "job_steps s (snd (requeue d s))"
  unfolding requeue_def by (intro r_into_rtranclp job_step.retry_dead)

lemma delete_step: "job_steps s (snd (DeleteDeadLetterJob i s))"
  by (intro r_into_rtranclp job_step.drop_dead)

lemma run_reads: "(\<And>t. snd (q t) = t) \<Longrightarrow> \<exists>fs. snd (run q s) = s\<lparr>faults := fs\<rparr>"
proof -
  assume reads: "\<And>t. snd (q t) = t"
  show ?thesis
  proof (cases "faults s")
    case Nil
    then have "snd (run q s) = s\<lparr>faults := faults s\<rparr>" by (simp add: run_def reads)
    then show ?thesis ..
  next
    case (Cons f fs)
    then have "snd (run q s) = s\<lparr>faults := fs\<rparr>" by (cases f) (simp_all add: run_def reads)
    then show ?thesis ..
  qed
qed

lemma read_step: "(\<And>t. snd (q t) = t) \<Longrightarrow> job_steps s (snd (run q s))"
  using run_reads [of q s] quiet_step by metis

lemma retry_each_steps: "job_steps s (snd (retry_each ds r f s))"
proof (induction ds arbitrary: r f s)
  case (Cons d ds)
  obtain x s1 where q: "requeue d s = (x, s1)" by (cases "requeue d s")
  with requeue_step [of s d] have s1: "job_steps s s1" by simp
  show ?case
  proof (cases x)
    case (Inl e)
    with q s1 Cons.IH [of s1 r "f + 1"] show ?thesis by simp
  next
    case (Inr j)
    from s1 delete_step have "job_steps s (snd (DeleteDeadLetterJob (dl_id d) s1))" by (rule rtranclp_trans)
    with q Inr Cons.IH [of "snd (DeleteDeadLetterJob (dl_id d) s1)" "r + 1" f] show ?thesis
      by simp
  qed
qed simp

lemma listed_step:
  "GetDeadLetterJobs l k s = (r, s1) \<Longrightarrow> job_steps s s1"
  using read_step [of "\<lambda>s. (Inr (sql_page l k (sort_key (\<lambda>d. - dl_failed_at d) (t_dead_letters s))), s)" s]
  by (simp add: GetDeadLetterJobs_def)

lemma counted_step: "GetDeadLetterJobCount s = (r, s1) \<Longrightarrow> job_steps s s1"
  using read_step [of "\<lambda>s. (Inr (int (length (t_dead_letters s))), s)" s]
  by (simp add: GetDeadLetterJobCount_def)

lemma retryAll_steps: "job_steps s (snd (retryAllDLQ s))"
proof -
  obtain r s1 where g: "GetDeadLetterJobs 1000 0 s = (r, s1)" by (cases "GetDeadLetterJobs 1000 0 s")
  note s1 = listed_step [OF g]
  show ?thesis
  proof (cases r)
    case (Inl e)
    with g s1 show ?thesis by (simp add: retryAllDLQ_def)
  next
    case (Inr ds)
    then have "snd (retryAllDLQ s) = snd (retry_each ds 0 0 s1)"
      using g by (simp add: retryAllDLQ_def split: prod.split)
    with s1 retry_each_steps [of s1 ds 0 0] show ?thesis by simp
  qed
qed

lemma retry_steps: "job_steps s (snd (retryDLQJob t s))"
proof (cases rule: retry_cases [of t s])
  case (quiet fs)
  then show ?thesis by (simp add: quiet_step)
next
  case (refused e fs)
  then show ?thesis using quiet_step requeue_step by (metis rtranclp_trans)
next
  case (moved e fs j)
  then show ?thesis using quiet_step requeue_step delete_step by (metis rtranclp_trans)
qed

text \<open>Every page of the administration of dead letters is a run of the statements of the job tables, so
  it keeps their invariant and everything the steps of the queue keep.\<close>

theorem admin_pages_are_job_steps:
  "job_steps s (snd (listDLQ tt page limit s)) \<and> job_steps s (snd (getDLQJob tt i s)) \<and>
   job_steps s (snd (retryDLQJob i s)) \<and> job_steps s (snd (deleteDLQJob i s)) \<and> job_steps s (snd (retryAllDLQ s))"
proof (intro conjI)
  show "job_steps s (snd (listDLQ tt page limit s))"
    by (auto simp: listDLQ_def Let_def dest!: listed_step counted_step split: prod.split sum.split
        intro: rtranclp_trans)
  show "job_steps s (snd (getDLQJob tt i s))"
    by (auto simp: getDLQJob_def dest!: listed_step split: prod.split sum.split option.split)
  show "job_steps s (snd (deleteDLQJob i s))"
    using delete_step by (auto simp: deleteDLQJob_def split: prod.split sum.split) (metis snd_conv)+
qed (rule retry_steps retryAll_steps)+

text \<open>C9: Retrying loses no dead letter, whatever statements fail: afterwards each is still a dead letter, or
  a new pending job has its type, payload and tenant.\<close>

theorem no_dead_letter_lost:
  assumes "jobs_wf s" and "d \<in> set (t_dead_letters s)"
  shows "dead_or_requeued (seq_jobs s) d (snd (retryAllDLQ s)) \<and>
         dead_or_requeued (seq_jobs s) d (snd (retryDLQJob t s))"
  using retryAll_keeps [OF assms] retry_keeps [OF assms] by blast


lemma GetDeadLetterJobs_no_faults:
  "faults s = [] \<Longrightarrow> GetDeadLetterJobs l k s = (Inr (sql_page l k (sort_key (\<lambda>d. - dl_failed_at d) (t_dead_letters s))), s)"
  by (simp add: GetDeadLetterJobs_def run_no_faults)

text \<open>Only the newest dead letter can be retried by its number: for one that failed before another the
  page answers 404 and changes nothing.\<close>

theorem retry_reaches_only_newest:
  assumes wf: "jobs_wf s" and ok: "faults s = []" and i: "parse_int t = Inr (dl_id d)"
    and d: "d \<in> set (t_dead_letters s)" and e: "e \<in> set (t_dead_letters s)" "dl_failed_at d < dl_failed_at e"
  shows "retryDLQJob t s = (no_such_job, s) \<and> rp_status no_such_job = 404"
proof -
  let ?ds = "sort_key (\<lambda>d. - dl_failed_at d) (t_dead_letters s)"
  have set_ds: "set ?ds = set (t_dead_letters s)" by simp
  obtain f fs where ds: "?ds = f # fs" using d set_ds by (cases ?ds) (auto simp del: set_sort)
  have "sorted (map (\<lambda>d. - dl_failed_at d) ?ds)" by simp
  then have "dl_failed_at e \<le> dl_failed_at f"
    using e(1) set_ds unfolding ds by (auto simp: sorted_wrt_map)
  with e(2) have "f \<noteq> d" by auto
  moreover have "f \<in> set (t_dead_letters s)" using set_ds unfolding ds by auto
  ultimately have "dl_id f \<noteq> dl_id d"
    using wf d keyed_unique [of dl_id "t_dead_letters s" f d] by (auto simp: jobs_wf_def)
  then have "find (\<lambda>x. dl_id x = dl_id d) (sql_page 1 0 ?ds) = None"
    unfolding ds by (simp add: sql_page_def)
  then have "retryDLQJob t s = (no_such_job, s)"
    by (simp add: retryDLQJob_def i GetDeadLetterJobs_no_faults [OF ok])
  then show ?thesis by (simp add: no_such_job_def)
qed

text \<open>The queue empties when no statement fails and the tenants are known.\<close>

lemma requeue_ok:
  assumes "faults s = []" and "case dl_tenant d of None \<Rightarrow> True | Some t \<Rightarrow> t \<in> set (t_tenants s)"
  obtains j where "requeue d s = (Inr j, s\<lparr>t_jobs := t_jobs s @ [j], seq_jobs := seq_jobs s + 1\<rparr>)"
    and "requeued d j" and "j_id j = seq_jobs s"
  using assms that
  by (auto simp: requeue_def RetryDeadLetterJob_def run_no_faults insert_job_def new_job_def requeued_def
      split: option.splits)

lemma DeleteDeadLetterJob_no_faults:
  "faults s = [] \<Longrightarrow> DeleteDeadLetterJob i s = (Inr (), s\<lparr>t_dead_letters := filter (\<lambda>d. dl_id d \<noteq> i) (t_dead_letters s)\<rparr>)"
  by (simp add: DeleteDeadLetterJob_def run_no_faults)

lemma retry_each_all:
  assumes "faults s = []" and "\<And>d. d \<in> set ds \<Longrightarrow> case dl_tenant d of None \<Rightarrow> True | Some t \<Rightarrow> t \<in> set (t_tenants s)"
  shows "\<exists>js s'. retry_each ds r f s = ((r + length ds, f), s') \<and> list_all2 requeued ds js \<and>
      t_jobs s' = t_jobs s @ js \<and> t_dead_letters s' = filter (\<lambda>d. dl_id d \<notin> dl_id ` set ds) (t_dead_letters s)"
  using assms
proof (induction ds arbitrary: r s)
  case (Cons d ds)
  obtain j where j: "requeue d s = (Inr j, s\<lparr>t_jobs := t_jobs s @ [j], seq_jobs := seq_jobs s + 1\<rparr>)" "requeued d j"
    using requeue_ok [of s d] Cons.prems by auto
  define s1 where "s1 = s\<lparr>t_jobs := t_jobs s @ [j], seq_jobs := seq_jobs s + 1,
      t_dead_letters := filter (\<lambda>e. dl_id e \<noteq> dl_id d) (t_dead_letters s)\<rparr>"
  have step: "retry_each (d # ds) r f s = retry_each ds (r + 1) f s1"
    using Cons.prems(1) by (simp add: j(1) DeleteDeadLetterJob_no_faults s1_def)
  have "\<exists>js s'. retry_each ds (r + 1) f s1 = ((r + 1 + length ds, f), s') \<and> list_all2 requeued ds js \<and>
      t_jobs s' = t_jobs s1 @ js \<and> t_dead_letters s' = filter (\<lambda>d. dl_id d \<notin> dl_id ` set ds) (t_dead_letters s1)"
  proof (rule Cons.IH)
    have "t_tenants s1 = t_tenants s" by (simp add: s1_def)
    then show "case dl_tenant x of None \<Rightarrow> True | Some t \<Rightarrow> t \<in> set (t_tenants s1)" if "x \<in> set ds" for x
      using Cons.prems(2) that by (metis list.set_intros(2))
  qed (simp add: s1_def Cons.prems(1))
  then obtain js s' where ih: "retry_each ds (r + 1) f s1 = ((r + 1 + length ds, f), s')"
    "list_all2 requeued ds js" "t_jobs s' = t_jobs s1 @ js"
    "t_dead_letters s' = filter (\<lambda>d. dl_id d \<notin> dl_id ` set ds) (t_dead_letters s1)" by blast
  show ?case
    unfolding step ih(1)
    using ih(2-) j(2) by (intro exI [of _ "j # js"] exI [of _ s']) (auto simp: s1_def filter_filter intro: filter_cong)
qed simp

text \<open>With at most a thousand dead letters of known tenants and no failing statement, retrying all empties
  the queue: one new pending job per dead letter, newest first, due since the failure.\<close>

theorem retry_all_empties_queue:
  assumes ok: "faults s = []" and few: "length (t_dead_letters s) \<le> 1000"
    and tenants: "list_all (\<lambda>d. case dl_tenant d of None \<Rightarrow> True | Some t \<Rightarrow> t \<in> set (t_tenants s)) (t_dead_letters s)"
  shows "t_dead_letters (snd (retryAllDLQ s)) = [] \<and>
      (\<exists>js. t_jobs (snd (retryAllDLQ s)) = t_jobs s @ js \<and>
         list_all2 requeued (sort_key (\<lambda>d. - dl_failed_at d) (t_dead_letters s)) js)"
proof -
  let ?ds = "sort_key (\<lambda>d. - dl_failed_at d) (t_dead_letters s)"
  have page: "sql_page 1000 0 ?ds = ?ds" using few by (simp add: sql_page_def)
  obtain js s' where r: "retry_each ?ds 0 0 s = ((0 + length ?ds, 0), s')" "list_all2 requeued ?ds js"
    "t_jobs s' = t_jobs s @ js" "t_dead_letters s' = filter (\<lambda>d. dl_id d \<notin> dl_id ` set ?ds) (t_dead_letters s)"
    using retry_each_all [OF ok, of ?ds 0 0] tenants by (auto simp: list_all_iff)
  have "snd (retryAllDLQ s) = s'"
    by (simp add: retryAllDLQ_def GetDeadLetterJobs_no_faults [OF ok] page r(1))
  with r show ?thesis by auto
qed


text \<open>Two dead letters, the second the newer.\<close>

definition dead_letter :: "int \<Rightarrow> instant \<Rightarrow> dead_letter_job" where
  "dead_letter i t =
     \<lparr>dl_id = i, dl_job_id = 1, dl_type = ''send_email'', dl_payload = ''{}'', dl_error = ''boom'', dl_attempt_count = 3,
      dl_failed_at = t, dl_tenant = None, dl_metadata = ''{}''\<rparr>"

definition two_dead :: db where
  "two_dead = (snd (CreateJob None ''send_email'' ''{}'' (Some 50) None (migrated_db 50)))
     \<lparr>t_dead_letters := [dead_letter 1 60, dead_letter 2 70], seq_dead_letters := 3\<rparr>"

lemma two_dead_ok: "jobs_wf two_dead" "faults two_dead = []"
    "t_dead_letters two_dead = [dead_letter 1 60, dead_letter 2 70]"
  by (simp_all add: two_dead_def jobs_wf_def job_rows_ok_def keyed_def dead_letter_def CreateJob_def run_def
      migrated_db_def insert_job_def new_job_def tenant_ok_def attempts_ok_def)

lemma parse_one: "parse_int ''1'' = Inr 1"
  by (simp add: parse_int_def digits_value_def digit_value_def is_digit_def max_int64_def)

theorem retry_reaches_only_newest_witness: "fst (retryDLQJob ''1'' two_dead) = no_such_job"
  using retry_reaches_only_newest [of two_dead "''1''" "dead_letter 1 60" "dead_letter 2 70"] two_dead_ok parse_one
  by (simp add: dead_letter_def)

theorem no_dead_letter_lost_witness:
  "dead_or_requeued (seq_jobs two_dead) (dead_letter 1 60) (snd (retryAllDLQ two_dead))"
  using no_dead_letter_lost [of two_dead "dead_letter 1 60" "''1''"] two_dead_ok by simp

theorem retry_all_empties_queue_witness: "t_dead_letters (snd (retryAllDLQ two_dead)) = []"
  using retry_all_empties_queue [of two_dead] two_dead_ok by (simp add: dead_letter_def)

end
