(* ===== verification/Middleware.thy ===== *)
theory Middleware
  imports Go_Text Http_Errors User_Queries
begin

text \<open>
  The request pipeline (\<open>internal/platform/http/middleware\<close>): requests, the values a context carries,
  the response writer, and each middleware as a function from handlers to handlers. A handler takes
  a request, its context and a writer with the server's state, and says whether it panicked.

  The session library and nosurf are third-party. \<open>las\<close> is \<open>LoadAndSave\<close>, \<open>nosurf exempt ok bad\<close>
  is the CSRF handler around \<open>ok\<close> with its failure handler; \<open>saves_quietly\<close> and \<open>checks_tokens\<close> are what their
  documentation says of them.
\<close>

record request =
  rq_method :: string
  rq_path :: string
  rq_host :: string
  rq_remote :: string
  rq_header :: "string \<Rightarrow> string"
  rq_cookie :: "string \<Rightarrow> string option"
  rq_body :: string

record ctx =
  cx_tenant :: "string option"
  cx_locale :: "string option"
  cx_request_id :: "string option"
  cx_nonce :: "string option"
  cx_csrf :: "string option"
  cx_user :: "user option"
  cx_user_id :: "string option"
  cx_user_roles :: "string list"

text \<open>
  \<open>http.ResponseWriter\<close>: the first \<open>WriteHeader\<close> counts and freezes the headers; a write without one
  writes 200.
\<close>

record writer =
  w_status :: "int option"
  w_headers :: "string \<rightharpoonup> string"
  w_body :: string

definition fresh_writer :: writer where
  "fresh_writer = \<lparr>w_status = None, w_headers = Map.empty, w_body = ''''\<rparr>"

definition set_header :: "string \<Rightarrow> string \<Rightarrow> writer \<Rightarrow> writer" where
  "set_header k v w = (if w_status w = None then w\<lparr>w_headers := (w_headers w)(k \<mapsto> v)\<rparr> else w)"

definition write_header :: "int \<Rightarrow> writer \<Rightarrow> writer" where
  "write_header code w = (if w_status w = None then w\<lparr>w_status := Some code\<rparr> else w)"

definition write_body :: "string \<Rightarrow> writer \<Rightarrow> writer" where
  "write_body b w = (let w' = write_header 200 w in w'\<lparr>w_body := w_body w' @ b\<rparr>)"

text \<open>\<open>http.Error\<close> and \<open>http.Redirect\<close> (whose small HTML body is left out).\<close>

definition write_error :: "string \<Rightarrow> int \<Rightarrow> writer \<Rightarrow> writer" where
  "write_error msg code w =
     write_body (msg @ [CHR 0x0A]) (write_header code
       (set_header ''X-Content-Type-Options'' ''nosniff'' (set_header ''Content-Type'' ''text/plain; charset=utf-8'' w)))"

definition write_redirect :: "string \<Rightarrow> int \<Rightarrow> writer \<Rightarrow> writer" where
  "write_redirect url code w = write_header code (set_header ''Location'' url w)"

type_synonym 's handler = "request \<Rightarrow> ctx \<Rightarrow> writer \<times> 's \<Rightarrow> bool \<times> writer \<times> 's"

definition headers_first :: "(writer \<Rightarrow> writer) \<Rightarrow> 's handler \<Rightarrow> 's handler" where
  "headers_first f h rq cx ws = h rq cx (apfst f ws)"

section \<open>Recovery, request id, locale\<close>

definition Recovery :: "'s handler \<Rightarrow> 's handler" where
  "Recovery h rq cx ws =
     (case h rq cx ws of
        (True, w, s) \<Rightarrow> (False, write_body ''Internal Server Error'' (write_header 500 w), s)
      | r \<Rightarrow> r)"

text \<open>\<open>uuid\<close> is the identifier \<open>uuid.New\<close> would draw for this request.\<close>

definition RequestID :: "(request \<Rightarrow> string) \<Rightarrow> 's handler \<Rightarrow> 's handler" where
  "RequestID uuid h rq cx ws =
     (let rid = (if rq_header rq ''X-Request-ID'' = '''' then uuid rq else rq_header rq ''X-Request-ID'')
      in h rq (cx\<lparr>cx_request_id := Some rid\<rparr>) (apfst (set_header ''X-Request-ID'' rid) ws))"

definition GetRequestID :: "ctx \<Rightarrow> string" where
  "GetRequestID cx = (case cx_request_id cx of Some i \<Rightarrow> i | None \<Rightarrow> '''')"

definition Locale :: "'s handler \<Rightarrow> 's handler" where
  "Locale h rq cx ws =
     (let locale = (case rq_cookie rq ''lang'' of
          Some v \<Rightarrow> v
        | None \<Rightarrow> if has_prefix (rq_header rq ''Accept-Language'') ''en'' then ''en'' else ''pt'')
      in h rq (cx\<lparr>cx_locale := Some locale\<rparr>) ws)"

section \<open>Tenants\<close>

definition extractTenantID :: "unicode \<Rightarrow> request \<Rightarrow> string" where
  "extractTenantID u rq =
     (if rq_header rq ''X-Tenant-ID'' \<noteq> '''' then TrimSpace u (rq_header rq ''X-Tenant-ID'')
      else
        let host = (if CHR '':'' \<in> set (rq_host rq) then hd (split_at (CHR '':'') (rq_host rq)) else rq_host rq);
            parts = split_at (CHR ''.'') host; n = length parts;
            local = (2 \<le> n \<and> (parts ! 0 = ''localhost'' \<or> parts ! (n - 2) = ''localhost''));
            sub = join ''.'' (take (n - 2) parts)
        in if 2 \<le> n \<and> \<not> local \<and> 3 \<le> n \<and> sub \<noteq> '''' \<and> sub \<noteq> ''www'' then sub
           else if has_prefix (rq_path rq) ''/tenant/'' then hd (split_at (CHR ''/'') (drop 8 (rq_path rq)))
           else '''')"

definition TenantExtractor :: "unicode \<Rightarrow> string \<Rightarrow> 's handler \<Rightarrow> 's handler" where
  "TenantExtractor u default_tenant h rq cx ws =
     (let t = extractTenantID u rq
      in h rq (cx\<lparr>cx_tenant := Some (if t = '''' then default_tenant else t)\<rparr>) ws)"

definition GetTenantID :: "ctx \<Rightarrow> string" where
  "GetTenantID cx = (case cx_tenant cx of Some t \<Rightarrow> t | None \<Rightarrow> ''default'')"

section \<open>Cross-origin requests\<close>

record cors_config =
  cc_origins :: "string list"
  cc_methods :: "string list"
  cc_headers :: "string list"
  cc_exposed :: "string list"
  cc_credentials :: bool
  cc_max_age :: int

definition parseCommaList :: "unicode \<Rightarrow> string \<Rightarrow> string list" where
  "parseCommaList u s =
     (if s = '''' then [] else filter (\<lambda>t. t \<noteq> '''') (map (TrimSpace u) (split_at (CHR '','') s)))"

definition NewCORSConfigFromStrings ::
  "unicode \<Rightarrow> string \<Rightarrow> string \<Rightarrow> string \<Rightarrow> string \<Rightarrow> bool \<Rightarrow> int \<Rightarrow> cors_config" where
  "NewCORSConfigFromStrings u origins methods headers exposed credentials age =
     \<lparr>cc_origins = parseCommaList u origins, cc_methods = parseCommaList u methods,
      cc_headers = parseCommaList u headers, cc_exposed = parseCommaList u exposed,
      cc_credentials = credentials, cc_max_age = age\<rparr>"

definition defaultCORSConfig :: cors_config where
  "defaultCORSConfig =
     \<lparr>cc_origins = [''http://localhost:8080'', ''http://localhost:3000''],
      cc_methods = [''GET'', ''POST'', ''PUT'', ''DELETE'', ''OPTIONS'', ''PATCH''],
      cc_headers = [''Content-Type'', ''Authorization'', ''X-Requested-With'', ''X-CSRF-Token''],
      cc_exposed = [''Content-Length'', ''X-CSRF-Token''], cc_credentials = True, cc_max_age = 3600\<rparr>"

definition isOriginAllowed :: "unicode \<Rightarrow> cors_config \<Rightarrow> string \<Rightarrow> bool" where
  "isOriginAllowed u cfg origin \<longleftrightarrow>
     ''*'' \<in> set (map (ToLower u) (cc_origins cfg)) \<or> ToLower u origin \<in> set (map (ToLower u) (cc_origins cfg))"

definition expose_header :: "cors_config \<Rightarrow> writer \<Rightarrow> writer" where
  "expose_header cfg w =
     (let e = join '', '' (cc_exposed cfg) in if e = '''' then w else set_header ''Access-Control-Expose-Headers'' e w)"

definition CORS :: "unicode \<Rightarrow> cors_config \<Rightarrow> 's handler \<Rightarrow> 's handler" where
  "CORS u cfg h rq cx ws =
     (let origin = rq_header rq ''Origin''; ok = isOriginAllowed u cfg origin in
      if rq_method rq = ''OPTIONS'' then
        (False, apfst (\<lambda>w.
           if \<not> ok then write_header 403 w
           else write_header 204 (expose_header cfg
             (set_header ''Access-Control-Max-Age'' (string_of_int (cc_max_age cfg))
             (set_header ''Access-Control-Allow-Credentials'' (if cc_credentials cfg then ''true'' else ''false'')
             (set_header ''Access-Control-Allow-Headers'' (join '', '' (cc_headers cfg))
             (set_header ''Access-Control-Allow-Methods'' (join '', '' (cc_methods cfg))
             (set_header ''Access-Control-Allow-Origin'' origin w))))))) ws)
      else
        h rq cx (apfst (\<lambda>w.
           if \<not> ok then w
           else (if cc_credentials cfg then set_header ''Access-Control-Allow-Credentials'' ''true'' else id)
             (expose_header cfg (set_header ''Access-Control-Allow-Origin'' origin w))) ws))"

section \<open>Security headers\<close>

record csp_config =
  csp_script :: "string list"
  csp_style :: "string list"
  csp_img :: "string list"
  csp_connect :: "string list"
  csp_font :: "string list"
  csp_object :: "string list"
  csp_media :: "string list"
  csp_frame :: "string list"
  csp_default :: "string list"
  csp_base :: "string list"
  csp_form :: "string list"
  csp_ancestors :: "string list"
  csp_upgrade :: bool
  csp_block :: bool
  csp_report_uri :: string
  csp_report_to :: string

definition DefaultCSPConfig :: csp_config where
  "DefaultCSPConfig =
     \<lparr>csp_script = [[CHR 0x27] @ ''self'' @ [CHR 0x27], [CHR 0x27] @ ''unsafe-inline'' @ [CHR 0x27],
         [CHR 0x27] @ ''unsafe-eval'' @ [CHR 0x27], ''https://cdn.jsdelivr.net'', ''https://unpkg.com''],
      csp_style = [[CHR 0x27] @ ''self'' @ [CHR 0x27], [CHR 0x27] @ ''unsafe-inline'' @ [CHR 0x27], ''https://fonts.googleapis.com''],
      csp_img = [[CHR 0x27] @ ''self'' @ [CHR 0x27], ''data:'', ''https:'', ''blob:''],
      csp_connect = [[CHR 0x27] @ ''self'' @ [CHR 0x27], ''https://*.googleapis.com'', ''https://unpkg.com''],
      csp_font = [[CHR 0x27] @ ''self'' @ [CHR 0x27], ''https://fonts.gstatic.com''],
      csp_object = [[CHR 0x27] @ ''none'' @ [CHR 0x27]], csp_media = [[CHR 0x27] @ ''self'' @ [CHR 0x27]],
      csp_frame = [[CHR 0x27] @ ''self'' @ [CHR 0x27]], csp_default = [[CHR 0x27] @ ''self'' @ [CHR 0x27]],
      csp_base = [[CHR 0x27] @ ''self'' @ [CHR 0x27]], csp_form = [[CHR 0x27] @ ''self'' @ [CHR 0x27]],
      csp_ancestors = [[CHR 0x27] @ ''none'' @ [CHR 0x27]], csp_upgrade = True, csp_block = True,
      csp_report_uri = '''', csp_report_to = ''''\<rparr>"

definition unsafe_inline :: string where
  "unsafe_inline = [CHR 0x27] @ ''unsafe-inline'' @ [CHR 0x27]"

text \<open>One directive per list that is not empty, in the order of the code.\<close>

definition csp_directive :: "string \<Rightarrow> string list \<Rightarrow> string list" where
  "csp_directive name srcs = (if srcs = [] then [] else [name @ '' '' @ join '' '' srcs])"

definition csp_parts :: "csp_config \<Rightarrow> string list \<Rightarrow> string list" where
  "csp_parts cfg script =
     csp_directive ''default-src'' (csp_default cfg) @ csp_directive ''script-src'' script @
     csp_directive ''style-src'' (csp_style cfg) @ csp_directive ''img-src'' (csp_img cfg) @
     csp_directive ''connect-src'' (csp_connect cfg) @ csp_directive ''font-src'' (csp_font cfg) @
     csp_directive ''object-src'' (csp_object cfg) @ csp_directive ''media-src'' (csp_media cfg) @
     csp_directive ''frame-src'' (csp_frame cfg) @ csp_directive ''base-uri'' (csp_base cfg) @
     csp_directive ''form-action'' (csp_form cfg) @ csp_directive ''frame-ancestors'' (csp_ancestors cfg) @
     (if csp_upgrade cfg then [''upgrade-insecure-requests''] else []) @
     (if csp_block cfg then [''block-all-mixed-content''] else []) @
     (if csp_report_uri cfg = '''' then [] else [''report-uri '' @ csp_report_uri cfg]) @
     (if csp_report_to cfg = '''' then [] else [''report-to '' @ csp_report_to cfg])"

definition nonce_sources :: "string \<Rightarrow> string list \<Rightarrow> string list" where
  "nonce_sources nonce =
     map (\<lambda>src. if src = unsafe_inline \<and> nonce \<noteq> '''' then [CHR 0x27] @ ''nonce-'' @ nonce @ [CHR 0x27] else src)"

definition BuildCSPHeaderWithNonce :: "csp_config \<Rightarrow> string \<Rightarrow> string" where
  "BuildCSPHeaderWithNonce cfg nonce = join ''; '' (csp_parts cfg (nonce_sources nonce (csp_script cfg)))"

definition BuildCSPHeader :: "csp_config \<Rightarrow> string" where
  "BuildCSPHeader cfg = join ''; '' (csp_parts cfg (csp_script cfg))"

text \<open>\<open>random\<close> is what the random source yields for this request, if it does not fail.\<close>

definition generateNonce :: "string option \<Rightarrow> string option" where
  "generateNonce random = map_option base64_std random"

definition csp_for :: "bool \<Rightarrow> csp_config" where
  "csp_for is_prod =
     (let d = DefaultCSPConfig; dev = ''http://localhost:*'' in
      if is_prod then d
      else d\<lparr>csp_script := csp_script d @ [dev], csp_style := csp_style d @ [dev],
             csp_connect := csp_connect d @ [dev, ''ws://localhost:*'']\<rparr>)"

definition security_headers :: "bool \<Rightarrow> string \<Rightarrow> writer \<Rightarrow> writer" where
  "security_headers is_prod csp w =
     (if is_prod then set_header ''Strict-Transport-Security'' ''max-age=31536000; includeSubDomains; preload'' else id)
       (set_header ''Permissions-Policy''
         ''geolocation=(), microphone=(), camera=(), payment=(), usb=(), magnetometer=(), gyroscope=(), accelerometer=()''
       (set_header ''Content-Security-Policy'' csp
       (set_header ''X-XSS-Protection'' ''1; mode=block''
       (set_header ''Referrer-Policy'' ''strict-origin-when-cross-origin''
       (set_header ''X-Content-Type-Options'' ''nosniff''
       (set_header ''X-Frame-Options'' ''DENY'' w))))))"

definition SecurityHeaders :: "(request \<Rightarrow> string option) \<Rightarrow> bool \<Rightarrow> 's handler \<Rightarrow> 's handler" where
  "SecurityHeaders random is_prod h rq cx ws =
     (let nonce = (case generateNonce (random rq) of None \<Rightarrow> '''' | Some n \<Rightarrow> n);
          cx' = (if nonce = '''' then cx else cx\<lparr>cx_nonce := Some nonce\<rparr>);
          csp = (if nonce \<noteq> '''' \<and> is_prod then BuildCSPHeaderWithNonce (csp_for is_prod) nonce
                 else BuildCSPHeader (csp_for is_prod))
      in h rq cx' (apfst (security_headers is_prod csp) ws))"

definition GetCSPNonce :: "ctx \<Rightarrow> string" where
  "GetCSPNonce cx = (case cx_nonce cx of Some n \<Rightarrow> n | None \<Rightarrow> '''')"

section \<open>Cross-site request forgery\<close>

text \<open>
  \<open>app_env\<close> is the variable \<open>APP_ENV\<close>; \<open>token\<close> is the token nosurf issued to the request. Without
  \<open>ExemptFunc\<close> no request is exempt.
\<close>

definition csrf_exempt :: "string \<Rightarrow> request \<Rightarrow> bool" where
  "csrf_exempt app_env rq \<longleftrightarrow>
     app_env = ''dev'' \<and> rq_header rq ''Referer'' = '''' \<and>
     (str_contains (rq_host rq) ''localhost'' \<or> str_contains (rq_host rq) ''127.0.0.1'')"

definition csrf_failure :: "'s handler" where
  "csrf_failure rq cx ws = (False, apfst (write_error ''CSRF token validation failed'' 400) ws)"

type_synonym 's csrf_library = "(request \<Rightarrow> bool) \<Rightarrow> 's handler \<Rightarrow> 's handler \<Rightarrow> 's handler"

definition CSRFHandler :: "'s csrf_library \<Rightarrow> (request \<Rightarrow> string) \<Rightarrow> string \<Rightarrow> 's handler \<Rightarrow> 's handler" where
  "CSRFHandler nosurf token app_env h =
     nosurf (csrf_exempt app_env) (\<lambda>rq cx. h rq (cx\<lparr>cx_csrf := Some (token rq)\<rparr>)) csrf_failure"

definition safe_method :: "string \<Rightarrow> bool" where
  "safe_method m \<longleftrightarrow> m \<in> set [''GET'', ''HEAD'', ''OPTIONS'', ''TRACE'']"

text \<open>
  nosurf may set headers first. It passes on safe and exempt requests, and hands a request of another
  method without the cookie \<open>csrf_token\<close> to the failure handler.
\<close>

definition adds_headers :: "writer \<Rightarrow> writer \<Rightarrow> bool" where
  "adds_headers w w' \<longleftrightarrow> (\<exists>hd. w' = w\<lparr>w_headers := hd\<rparr>)"

definition checks_tokens :: "'s csrf_library \<Rightarrow> bool" where
  "checks_tokens nosurf \<longleftrightarrow>
     (\<forall>exempt ok bad rq cx w s.
        (safe_method (rq_method rq) \<or> exempt rq \<longrightarrow>
           (\<exists>w'. adds_headers w w' \<and> nosurf exempt ok bad rq cx (w, s) = ok rq cx (w', s))) \<and>
        (\<not> safe_method (rq_method rq) \<and> \<not> exempt rq \<and> rq_cookie rq ''csrf_token'' = None \<longrightarrow>
           (\<exists>w'. adds_headers w w' \<and> nosurf exempt ok bad rq cx (w, s) = bad rq cx (w', s))))"

text \<open>\<open>LoadAndSave\<close> adds headers to what the handler answered; sessions are part of the state.\<close>

type_synonym 's session_wrapper = "'s handler \<Rightarrow> 's handler"

definition saves_quietly :: "'s session_wrapper \<Rightarrow> bool" where
  "saves_quietly las \<longleftrightarrow>
     (\<forall>h rq cx ws. \<exists>hd. las h rq cx ws =
        (case h rq cx ws of (p, w, s) \<Rightarrow> (p, w\<lparr>w_headers := hd\<rparr>, s)))"


section \<open>Signed-in users\<close>

text \<open>
  What the pages share: the database and the \<open>user_id\<close> of the session, 0 when it has none. \<open>load\<close>
  finds the user of an id, in the cache or by \<open>GetUserByID\<close>; \<open>sm.Destroy\<close> empties the session.
\<close>

record site =
  si_db :: db
  si_user_id :: int

definition redirectLogin :: "request \<Rightarrow> writer \<Rightarrow> writer" where
  "redirectLogin rq w =
     (if rq_header rq ''HX-Request'' \<noteq> '''' then set_header ''HX-Redirect'' ''/login'' w
      else write_redirect ''/login'' 303 w)"

definition RequireAuthWithCache ::
  "(int \<Rightarrow> 'a site_scheme \<Rightarrow> (dberr + user) \<times> 'a site_scheme) \<Rightarrow> 'a site_scheme handler \<Rightarrow> 'a site_scheme handler" where
  "RequireAuthWithCache load h rq cx ws =
     (case ws of (w, s) \<Rightarrow>
        if si_user_id s = 0 then (False, redirectLogin rq w, s)
        else case load (si_user_id s) s of
          (Inl e, s1) \<Rightarrow> (False, redirectLogin rq w, s1\<lparr>si_user_id := 0\<rparr>)
        | (Inr u, s1) \<Rightarrow> h rq (cx\<lparr>cx_user := Some u\<rparr>) (w, s1))"

definition load_user :: "int \<Rightarrow> 'a site_scheme \<Rightarrow> (dberr + user) \<times> 'a site_scheme" where
  "load_user i s = (case GetUserByID i (si_db s) of (r, d) \<Rightarrow> (r, s\<lparr>si_db := d\<rparr>))"

definition RequireAuth :: "site handler \<Rightarrow> site handler" where
  "RequireAuth = RequireAuthWithCache load_user"

definition GetUser :: "ctx \<Rightarrow> user option" where
  "GetUser cx = cx_user cx"

section \<open>The pipeline\<close>

text \<open>
  The chain of \<open>server.go\<close> around the routes, \<open>mux\<close>. Tracing, Logger and AddLoggerToContext write
  records and leave request and response alone.
\<close>

record 's surroundings =
  sr_unicode :: unicode
  sr_uuid :: "request \<Rightarrow> string"
  sr_random :: "request \<Rightarrow> string option"
  sr_token :: "request \<Rightarrow> string"
  sr_sessions :: "'s session_wrapper"
  sr_nosurf :: "'s csrf_library"
  sr_env :: string
  sr_app_env :: string
  sr_cors :: cors_config

definition server_handler :: "'s surroundings \<Rightarrow> 's handler \<Rightarrow> 's handler" where
  "server_handler sr mux =
     Recovery (TenantExtractor (sr_unicode sr) ''default'' (Locale (sr_sessions sr (RequestID (sr_uuid sr)
       (CORS (sr_unicode sr) (sr_cors sr) (SecurityHeaders (sr_random sr) (sr_env sr = ''prod'')
         (CSRFHandler (sr_nosurf sr) (sr_token sr) (sr_app_env sr) mux)))))))"

definition no_context :: ctx where
  "no_context = \<lparr>cx_tenant = None, cx_locale = None, cx_request_id = None, cx_nonce = None, cx_csrf = None, cx_user = None,
     cx_user_id = None, cx_user_roles = []\<rparr>"

definition serve_request :: "'s surroundings \<Rightarrow> 's handler \<Rightarrow> request \<Rightarrow> 's \<Rightarrow> writer \<times> 's" where
  "serve_request sr mux rq s = snd (server_handler sr mux rq no_context (fresh_writer, s))"

text \<open>A handler that returns without writing answers 200.\<close>

definition answered :: "writer \<Rightarrow> int" where
  "answered w = (case w_status w of None \<Rightarrow> 200 | Some c \<Rightarrow> c)"


end
