(* ===== verification/Pipeline.thy ===== *)
theory Pipeline
  imports Middleware
begin

text \<open>
  What the pipeline of the server guarantees its routes: which requests never reach them, what the
  context says when one does, and which headers every answer carries.
\<close>

lemma set_header_status [simp]: "w_status (set_header k v w) = w_status w"
  by (simp add: set_header_def)

lemma write_header_status [simp]:
  "w_status (write_header c w) = Some (case w_status w of None \<Rightarrow> c | Some d \<Rightarrow> d)"
  by (auto simp: write_header_def split: option.split)

lemma write_body_status [simp]:
  "w_status (write_body b w) = Some (case w_status w of None \<Rightarrow> 200 | Some d \<Rightarrow> d)"
  by (simp add: write_body_def Let_def)

lemma write_error_status [simp]:
  "w_status (write_error m c w) = Some (case w_status w of None \<Rightarrow> c | Some d \<Rightarrow> d)"
  by (simp add: write_error_def split: option.split)

lemma security_headers_status [simp]: "w_status (security_headers p csp w) = w_status w"
  by (simp add: security_headers_def)

lemma expose_header_status [simp]: "w_status (expose_header cfg w) = w_status w"
  by (simp add: expose_header_def Let_def)

section \<open>Refused requests\<close>

text \<open>A handler refuses a request with a code when it answers so and leaves the state alone.\<close>

definition refuses :: "int \<Rightarrow> 's handler \<Rightarrow> request \<Rightarrow> bool" where
  "refuses c h rq \<longleftrightarrow>
     (\<forall>cx w s. w_status w = None \<longrightarrow> (\<exists>w'. h rq cx (w, s) = (False, w', s) \<and> w_status w' = Some c))"

lemma refusesD:
  "refuses c h rq \<Longrightarrow> w_status w = None \<Longrightarrow> \<exists>w'. h rq cx (w, s) = (False, w', s) \<and> w_status w' = Some c"
  unfolding refuses_def by blast

lemma refuses_Recovery:
  assumes "refuses c h rq"
  shows "refuses c (Recovery h) rq"
  unfolding refuses_def
proof (intro allI impI)
  fix cx :: ctx and w :: writer and s
  assume "w_status w = None"
  from refusesD [OF assms this, of cx s]
  obtain w' where "h rq cx (w, s) = (False, w', s)" "w_status w' = Some c" by blast
  then show "\<exists>w'. Recovery h rq cx (w, s) = (False, w', s) \<and> w_status w' = Some c"
    by (simp add: Recovery_def)
qed

lemma refuses_RequestID: "refuses c h rq \<Longrightarrow> refuses c (RequestID uuid h) rq"
  unfolding refuses_def RequestID_def by (simp add: Let_def)

lemma refuses_Locale: "refuses c h rq \<Longrightarrow> refuses c (Locale h) rq"
  unfolding refuses_def Locale_def by (simp add: Let_def)

lemma refuses_TenantExtractor: "refuses c h rq \<Longrightarrow> refuses c (TenantExtractor u d h) rq"
  unfolding refuses_def TenantExtractor_def by (simp add: Let_def)

lemma refuses_SecurityHeaders: "refuses c h rq \<Longrightarrow> refuses c (SecurityHeaders random p h) rq"
  unfolding refuses_def SecurityHeaders_def by (simp add: Let_def)

lemma refuses_CORS: "rq_method rq \<noteq> ''OPTIONS'' \<Longrightarrow> refuses c h rq \<Longrightarrow> refuses c (CORS u cfg h) rq"
  unfolding refuses_def CORS_def by (simp add: Let_def)

lemma refuses_sessions:
  assumes "saves_quietly las" and "refuses c h rq"
  shows "refuses c (las h) rq"
  unfolding refuses_def
proof (intro allI impI)
  fix cx :: ctx and w :: writer and s
  assume "w_status w = None"
  from refusesD [OF assms(2) this, of cx s]
  obtain w' where h: "h rq cx (w, s) = (False, w', s)" "w_status w' = Some c" by blast
  obtain hd where "las h rq cx (w, s) = (case h rq cx (w, s) of (p, w, s) \<Rightarrow> (p, w\<lparr>w_headers := hd\<rparr>, s))"
    using assms(1) unfolding saves_quietly_def by blast
  with h show "\<exists>w'. las h rq cx (w, s) = (False, w', s) \<and> w_status w' = Some c" by simp
qed

lemma refuses_CSRFHandler:
  assumes law: "checks_tokens nosurf" and "\<not> safe_method (rq_method rq)" and "\<not> csrf_exempt env rq"
    and "rq_cookie rq ''csrf_token'' = None"
  shows "refuses 400 (CSRFHandler nosurf token env h) rq"
  unfolding refuses_def
proof (intro allI impI)
  fix cx :: ctx and w :: writer and s
  assume w: "w_status w = None"
  let ?ok = "\<lambda>rq cx. h rq (cx\<lparr>cx_csrf := Some (token rq)\<rparr>)"
  obtain w' where w': "adds_headers w w'"
    "nosurf (csrf_exempt env) ?ok csrf_failure rq cx (w, s) = csrf_failure rq cx (w', s)"
    using law assms(2-) unfolding checks_tokens_def by blast
  moreover have "w_status w' = None" using w w'(1) by (auto simp: adds_headers_def)
  ultimately show "\<exists>w'. CSRFHandler nosurf token env h rq cx (w, s) = (False, w', s) \<and> w_status w' = Some 400"
    by (simp add: CSRFHandler_def csrf_failure_def)
qed

lemmas refuses_intros =
  refuses_Recovery refuses_RequestID refuses_Locale refuses_TenantExtractor refuses_SecurityHeaders
  refuses_CORS refuses_CSRFHandler

text \<open>C8: A request that changes state and brings no CSRF cookie is answered 400 by the pipeline, whatever the
  routes do with it, and leaves no trace; only requests to a development server on localhost without a
  referer are exempt. The webhooks of the payment provider are such requests.\<close>

theorem requests_without_token_refused:
  assumes "saves_quietly (sr_sessions sr)" and "checks_tokens (sr_nosurf sr)"
    and "\<not> safe_method (rq_method rq)" and "\<not> csrf_exempt (sr_app_env sr) rq"
    and "rq_cookie rq ''csrf_token'' = None"
  shows "\<exists>w. serve_request sr mux rq s = (w, s) \<and> answered w = 400"
proof -
  have "rq_method rq \<noteq> ''OPTIONS''" using assms(3) by (auto simp: safe_method_def)
  with assms have "refuses 400 (server_handler sr mux) rq"
    unfolding server_handler_def
    by (intro refuses_intros refuses_sessions [OF assms(1)])
  from refusesD [OF this, of fresh_writer no_context s] show ?thesis
    by (auto simp: serve_request_def answered_def fresh_writer_def)
qed

text \<open>A nosurf that does nothing more than its law, and the webhook of the provider.\<close>

definition plain_nosurf :: "'s csrf_library" where
  "plain_nosurf exempt ok bad rq cx ws =
     (if safe_method (rq_method rq) \<or> exempt rq \<or> rq_cookie rq ''csrf_token'' \<noteq> None then ok rq cx ws else bad rq cx ws)"

lemma checks_tokens_plain: "checks_tokens plain_nosurf"
proof -
  have "adds_headers w w" for w by (auto simp: adds_headers_def intro: exI [of _ "w_headers w"])
  then show ?thesis
    unfolding checks_tokens_def plain_nosurf_def
    by (intro allI conjI impI; rule_tac x = w in exI) auto
qed

lemma saves_quietly_id: "saves_quietly (\<lambda>h. h)"
  unfolding saves_quietly_def
proof (intro allI)
  fix h :: "'s handler" and rq cx ws
  obtain p w s where "h rq cx ws = (p, w, s)" by (cases "h rq cx ws") auto
  then show "\<exists>hd. h rq cx ws = (case h rq cx ws of (p, w, s) \<Rightarrow> (p, w\<lparr>w_headers := hd\<rparr>, s))"
    by (intro exI [of _ "w_headers w"]) simp
qed

definition production :: "'s surroundings" where
  "production =
     \<lparr>sr_unicode = plain_unicode, sr_uuid = (\<lambda>_. ''id''), sr_random = (\<lambda>_. Some ''0123456789abcdef''), sr_token = (\<lambda>_. ''t''),
      sr_sessions = (\<lambda>h. h), sr_nosurf = plain_nosurf, sr_env = ''prod'', sr_app_env = ''prod'', sr_cors = defaultCORSConfig\<rparr>"

definition provider_webhook :: request where
  "provider_webhook =
     \<lparr>rq_method = ''POST'', rq_path = ''/webhooks/asaas'', rq_host = ''shop.example.com'', rq_remote = ''10.0.0.9:4711'',
      rq_header = (\<lambda>k. if k = ''asaas-access-token'' then ''secret'' else ''''), rq_cookie = (\<lambda>_. None), rq_body = ''{}''\<rparr>"

theorem requests_without_token_refused_witness:
  "\<exists>w. serve_request production (\<lambda>rq cx (w, s). (False, write_header 200 w, Suc s)) provider_webhook 0 = (w, 0 :: nat) \<and>
     answered w = 400"
  by (rule requests_without_token_refused)
    (simp_all add: production_def saves_quietly_id checks_tokens_plain provider_webhook_def safe_method_def csrf_exempt_def)

section \<open>Tenants\<close>

text \<open>The routes always see a tenant that is not empty.\<close>

theorem tenant_never_empty:
  "\<exists>t. t \<noteq> '''' \<and> TenantExtractor u ''default'' h rq cx ws = h rq (cx\<lparr>cx_tenant := Some t\<rparr>) ws \<and>
     GetTenantID (cx\<lparr>cx_tenant := Some t\<rparr>) = t"
  by (auto simp: TenantExtractor_def GetTenantID_def Let_def)

lemma port_dropped:
  "CHR '':'' \<notin> set name \<Longrightarrow> rest = '''' \<or> hd rest = CHR '':'' \<Longrightarrow>
     (if CHR '':'' \<in> set (name @ rest) then hd (split_at (CHR '':'') (name @ rest)) else name @ rest) = name"
  by (cases rest) (auto simp: split_at_append)

text \<open>Without the tenant header, the tenant of a host name of three or more labels is all of them but the
  last two, with or without a port; \<open>www\<close> alone is none, and \<open>localhost\<close> as first or last but one label is
  none. The code does not ask whether the labels are a name: an IP address has a tenant too.\<close>

theorem subdomain_is_tenant:
  assumes header: "rq_header rq ''X-Tenant-ID'' = ''''"
    and host: "rq_host rq = join ''.'' (subs @ [d, tld]) @ port" and port: "port = '''' \<or> hd port = CHR '':''"
    and plain: "list_all (\<lambda>l. CHR ''.'' \<notin> set l \<and> CHR '':'' \<notin> set l) (subs @ [d, tld])"
    and subs: "subs \<noteq> []" "hd subs \<noteq> ''localhost''" "d \<noteq> ''localhost''" "join ''.'' subs \<notin> {'''', ''www''}"
  shows "extractTenantID u rq = join ''.'' subs"
proof -
  have colon: "CHR '':'' \<notin> set (join ''.'' ls)" if "list_all (\<lambda>l. CHR '':'' \<notin> set l) ls" for ls
    using that by (induction ls rule: induct_list012) auto
  have "list_all (\<lambda>l. CHR '':'' \<notin> set l) (subs @ [d, tld])" using plain by (auto simp: list_all_iff)
  note name = port_dropped [OF colon [OF this] port, folded host]
  have "split_at (CHR ''.'') (join ''.'' (subs @ [d, tld])) = subs @ [d, tld]"
    using plain by (intro split_join) (auto simp: list_all_iff)
  moreover have "(subs @ [d, tld]) ! 0 = hd subs" using subs(1) by (simp add: hd_conv_nth nth_append)
  moreover have "(subs @ [d, tld]) ! (length (subs @ [d, tld]) - 2) = d" by (simp add: nth_append)
  moreover have "3 \<le> length (subs @ [d, tld])" using subs(1) by (cases subs) auto
  ultimately show ?thesis
    using subs unfolding extractTenantID_def Let_def name by (simp add: header)
qed

theorem subdomain_is_tenant_witness:
  "extractTenantID plain_unicode (provider_webhook\<lparr>rq_host := ''127.0.0.1:8080''\<rparr>) = ''127.0''"
  using subdomain_is_tenant [of "provider_webhook\<lparr>rq_host := ''127.0.0.1:8080''\<rparr>" "[''127'', ''0'']" "''0''" "''1''" "'':8080''"]
  by (simp add: provider_webhook_def)

section \<open>Content security policy\<close>

lemma base64_nonempty: "s \<noteq> [] \<Longrightarrow> base64_with ch s \<noteq> []"
  by (cases "(ch, s)" rule: base64_with.cases) (auto simp: Let_def)

lemma nonce_not_inline: "[CHR 0x27] @ ''nonce-'' @ n @ [CHR 0x27] \<noteq> unsafe_inline"
  by (simp add: unsafe_inline_def)

lemma nonce_sources_no_inline: "n \<noteq> '''' \<Longrightarrow> unsafe_inline \<notin> set (nonce_sources n srcs)"
  by (auto simp: nonce_sources_def unsafe_inline_def)

text \<open>In production, when the random source answers, the policy that reaches the browser lets inline
  scripts run only with the nonce that the templates get, and no longer lists \<open>unsafe-inline\<close> for scripts.\<close>

theorem inline_scripts_need_nonce:
  assumes "random rq = Some bytes" and "bytes \<noteq> ''''" and "w_status w = None"
  shows "\<exists>n w'. n \<noteq> '''' \<and>
     SecurityHeaders random True h rq cx (w, s) = h rq (cx\<lparr>cx_nonce := Some n\<rparr>) (w', s) \<and> w_status w' = None \<and>
     w_headers w' ''Content-Security-Policy'' =
       Some (join ''; '' (csp_parts DefaultCSPConfig (nonce_sources n (csp_script DefaultCSPConfig)))) \<and>
     unsafe_inline \<notin> set (nonce_sources n (csp_script DefaultCSPConfig)) \<and>
     [CHR 0x27] @ ''nonce-'' @ n @ [CHR 0x27] \<in> set (nonce_sources n (csp_script DefaultCSPConfig))"
proof -
  let ?n = "base64_std bytes"
  have n: "?n \<noteq> ''''" using base64_nonempty [OF assms(2)] by (simp add: base64_std_def)
  have "unsafe_inline \<in> set (csp_script DefaultCSPConfig)"
    by (simp add: DefaultCSPConfig_def unsafe_inline_def)
  then have "[CHR 0x27] @ ''nonce-'' @ ?n @ [CHR 0x27] \<in> set (nonce_sources ?n (csp_script DefaultCSPConfig))"
    using n by (force simp: nonce_sources_def)
  moreover note nonce_sources_no_inline [OF n, of "csp_script DefaultCSPConfig"]
  moreover have "w_headers (security_headers True csp w) ''Content-Security-Policy'' = Some csp" for csp
    using assms(3) by (simp add: security_headers_def set_header_def)
  ultimately show ?thesis
    using n assms(1,3)
    by (intro exI [of _ ?n] exI [of _ "security_headers True (BuildCSPHeaderWithNonce DefaultCSPConfig ?n) w"])
      (simp add: SecurityHeaders_def generateNonce_def csp_for_def BuildCSPHeaderWithNonce_def Let_def)
qed

theorem inline_scripts_need_nonce_witness:
  "\<exists>n w'. SecurityHeaders (\<lambda>_. Some ''0123456789abcdef'') True (\<lambda>rq cx ws. (False, ws)) provider_webhook no_context
       (fresh_writer, ()) = (False, w', ()) \<and> n \<noteq> '''' \<and>
     w_headers w' ''Content-Security-Policy'' =
       Some (join ''; '' (csp_parts DefaultCSPConfig (nonce_sources n (csp_script DefaultCSPConfig))))"
  using inline_scripts_need_nonce [of "\<lambda>_. Some ''0123456789abcdef''" provider_webhook "''0123456789abcdef''" fresh_writer
      "\<lambda>rq cx ws. (False, ws)" no_context "()"]
  by (auto simp: fresh_writer_def)

section \<open>Signed-in users\<close>

lemma GetUserByID_no_faults:
  "faults d = [] \<Longrightarrow> GetUserByID i d = (case find (\<lambda>u. u_id u = i) (t_users d) of None \<Rightarrow> Inl NoRows | Some u \<Rightarrow> Inr u, d)"
  by (simp add: GetUserByID_def run_no_faults)



section \<open>Cross-origin requests\<close>

definition keeps_header :: "string \<Rightarrow> 's handler \<Rightarrow> bool" where
  "keeps_header k h \<longleftrightarrow> (\<forall>rq cx w s p w' s'. h rq cx (w, s) = (p, w', s') \<longrightarrow> w_headers w' k = w_headers w k)"

lemma set_header_lookup: "w_status w = None \<Longrightarrow> w_headers (set_header k v w) l = (if l = k then Some v else w_headers w l)"
  by (simp add: set_header_def)

lemma set_header_other: "k \<noteq> l \<Longrightarrow> w_headers (set_header k v w) l = w_headers w l"
  by (simp add: set_header_def)

lemma expose_header_other: "l \<noteq> ''Access-Control-Expose-Headers'' \<Longrightarrow> w_headers (expose_header cfg w) l = w_headers w l"
  by (simp add: expose_header_def set_header_other Let_def)

lemma write_header_headers [simp]: "w_headers (write_header c w) = w_headers w"
  by (simp add: write_header_def)

text \<open>An answer names an allowed origin exactly when the request's origin is listed (up to case) or the list
  has the star, and then it is the request's own origin; a preflight request never reaches the routes.\<close>

theorem cors_names_listed_origins:
  assumes "keeps_header ''Access-Control-Allow-Origin'' h" and "w_status w = None"
    and "w_headers w ''Access-Control-Allow-Origin'' = None"
  shows "w_headers (fst (snd (CORS u cfg h rq cx (w, s)))) ''Access-Control-Allow-Origin'' =
       (if isOriginAllowed u cfg (rq_header rq ''Origin'') then Some (rq_header rq ''Origin'') else None) \<and>
     (rq_method rq = ''OPTIONS'' \<longrightarrow> snd (snd (CORS u cfg h rq cx (w, s))) = s \<and>
        w_status (fst (snd (CORS u cfg h rq cx (w, s)))) =
          Some (if isOriginAllowed u cfg (rq_header rq ''Origin'') then 204 else 403))"
proof -
  have kept: "w_headers (fst (snd (h rq cx (w', s)))) ''Access-Control-Allow-Origin'' =
      w_headers w' ''Access-Control-Allow-Origin''" for w'
    using assms(1) unfolding keeps_header_def by (metis prod.collapse)
  show ?thesis
    using assms(2,3)
    by (auto simp: CORS_def Let_def kept set_header_lookup set_header_other expose_header_other)
qed

theorem cors_names_listed_origins_witness:
  "w_headers (fst (snd (CORS plain_unicode (defaultCORSConfig\<lparr>cc_origins := [''*'']\<rparr>) (\<lambda>rq cx ws. (False, ws))
       (provider_webhook\<lparr>rq_header := (\<lambda>_. ''https://evil.example'')\<rparr>) no_context (fresh_writer, ()))))
     ''Access-Control-Allow-Origin'' = Some ''https://evil.example''"
proof -
  have "isOriginAllowed plain_unicode (defaultCORSConfig\<lparr>cc_origins := [''*'']\<rparr>) o'" for o'
  proof -
    have asc: "ascii ''*''" by (simp add: ascii_def byte_of_def)
    have "ToLower plain_unicode ''*'' = ''*''"
      unfolding ToLower_def runes_ascii [OF asc]
      by (simp add: plain_unicode_def rune_upper_def byte_of_def text_of_runes_def utf8_encode_def char_of_def bit_0)
    then show ?thesis by (simp add: isOriginAllowed_def)
  qed
  then show ?thesis
    using cors_names_listed_origins [of "\<lambda>rq cx ws. (False, ws)" fresh_writer plain_unicode
        "defaultCORSConfig\<lparr>cc_origins := [''*'']\<rparr>" "provider_webhook\<lparr>rq_header := (\<lambda>_. ''https://evil.example'')\<rparr>" no_context "()"]
    by (simp add: keeps_header_def fresh_writer_def)
qed


end
