(* ===== verification/Request_Guards.thy ===== *)
theory Request_Guards
  imports Pipeline
begin

text \<open>
  Middleware around single routes: the rate limiter of the authentication pages, the session timeout,
  the validation of parsed inputs and the sanitiser of bodies. The last three are written but not
  installed by the server. The token bucket (\<open>golang.org/x/time/rate\<close>) and the HTML policies
  (\<open>bluemonday\<close>) are third-party: \<open>lm_new\<close> makes a bucket, \<open>lm_allow\<close> asks it at an instant, and
  \<open>first_request_passes\<close> is all that is assumed of it.
\<close>

section \<open>Rate limits\<close>

record rate_limit_config =
  rl_rps :: rat
  rl_burst :: int

definition DefaultRateLimitConfigs :: "(string \<times> rate_limit_config) list" where
  "DefaultRateLimitConfigs =
     [(''/login'', \<lparr>rl_rps = 1 / 10, rl_burst = 3\<rparr>), (''/register'', \<lparr>rl_rps = 1 / 20, rl_burst = 2\<rparr>),
      (''/forgot-password'', \<lparr>rl_rps = 1 / 10, rl_burst = 3\<rparr>), (''/reset-password'', \<lparr>rl_rps = 1 / 10, rl_burst = 3\<rparr>)]"

record 'l limiter_lib =
  lm_new :: "rate_limit_config \<Rightarrow> 'l"
  lm_allow :: "instant \<Rightarrow> 'l \<Rightarrow> bool \<times> 'l"

definition first_request_passes :: "'l limiter_lib \<Rightarrow> bool" where
  "first_request_passes lib \<longleftrightarrow> (\<forall>cfg t. 1 \<le> rl_burst cfg \<longrightarrow> fst (lm_allow lib t (lm_new lib cfg)))"

text \<open>The buckets by path and key, beside the state of the routes; \<open>now\<close> reads the clock.\<close>

type_synonym 'l limiters = "string \<Rightarrow> string \<Rightarrow> 'l option"

definition limit_key :: "request \<Rightarrow> ctx \<Rightarrow> string" where
  "limit_key rq cx =
     (let uid = (case cx_user cx of Some u \<Rightarrow> u_id u | None \<Rightarrow> 0)
      in if 0 < uid then ''user:'' @ string_of_int uid else rq_remote rq)"

definition getLimiter :: "'l limiter_lib \<Rightarrow> rate_limit_config \<Rightarrow> string \<Rightarrow> string \<Rightarrow> 'l limiters \<Rightarrow> 'l" where
  "getLimiter lib cfg path key ls = (case ls path key of Some l \<Rightarrow> l | None \<Rightarrow> lm_new lib cfg)"

definition store_limiter :: "string \<Rightarrow> string \<Rightarrow> 'l option \<Rightarrow> 'l limiters \<Rightarrow> 'l limiters" where
  "store_limiter path key l ls = ls(path := (ls path)(key := l))"

text \<open>Ten minutes after a bucket was made it is dropped.\<close>

definition drop_limiter :: "string \<Rightarrow> string \<Rightarrow> 'l limiters \<Rightarrow> 'l limiters" where
  "drop_limiter path key = store_limiter path key None"

definition rate_limited :: "rate_limit_config \<Rightarrow> writer \<Rightarrow> writer" where
  "rate_limited cfg w =
     write_body ([CHR ''{''] @ print_string ''error'' @ '':'' @ print_string ''rate_limit_exceeded'' @ '','' @
         print_string ''message'' @ '':'' @ print_string ''Too many requests. Please try again later.'' @ [CHR ''}''])
       (write_header 429 (set_header ''X-RateLimit-Remaining'' ''0''
         (set_header ''X-RateLimit-Limit'' (string_of_int (rl_burst cfg)) (set_header ''Retry-After'' ''60''
           (set_header ''Content-Type'' ''application/json'' w)))))"

definition RateLimitMiddleware ::
  "'l limiter_lib \<Rightarrow> ('s \<Rightarrow> instant) \<Rightarrow> (string \<times> rate_limit_config) list \<Rightarrow>
   ('l limiters \<times> 's) handler \<Rightarrow> ('l limiters \<times> 's) handler" where
  "RateLimitMiddleware lib now cfgs h rq cx ws =
     (case map_of cfgs (rq_path rq) of
        None \<Rightarrow> h rq cx ws
      | Some cfg \<Rightarrow>
          (case ws of (w, ls, s) \<Rightarrow>
             let key = limit_key rq cx in
             case lm_allow lib (now s) (getLimiter lib cfg (rq_path rq) key ls) of
               (ok, l) \<Rightarrow>
                 let ls' = store_limiter (rq_path rq) key (Some l) ls in
                 if ok then
                   h rq cx (set_header ''X-RateLimit-Remaining'' (string_of_int (rl_burst cfg - 1))
                     (set_header ''X-RateLimit-Limit'' (string_of_int (rl_burst cfg)) w), ls', s)
                 else (False, rate_limited cfg w, ls', s)))"

text \<open>Requests one after the other, each on a fresh writer; the visitors are not signed in.\<close>

fun serve_all :: "'s handler \<Rightarrow> request list \<Rightarrow> 's \<Rightarrow> writer list \<times> 's" where
  "serve_all h [] s = ([], s)"
| "serve_all h (rq # rqs) s =
     (case h rq no_context (fresh_writer, s) of
        (_, w, s1) \<Rightarrow> (case serve_all h rqs s1 of (ws, s2) \<Rightarrow> (w # ws, s2)))"

lemma limit_key_visitor [simp]: "limit_key rq no_context = rq_remote rq"
  by (simp add: limit_key_def no_context_def)

lemma fresh_key_passes:
  assumes "first_request_passes lib" and "map_of cfgs (rq_path rq) = Some cfg" and "1 \<le> rl_burst cfg"
    and "ls (rq_path rq) (rq_remote rq) = None"
  shows "\<exists>w l. RateLimitMiddleware lib now cfgs h rq no_context (fresh_writer, ls, s) =
      h rq no_context (w, store_limiter (rq_path rq) (rq_remote rq) (Some l) ls, s) \<and> w_status w = None"
proof -
  obtain ok l where allow: "lm_allow lib (now s) (lm_new lib cfg) = (ok, l)" by fastforce
  moreover have ok using assms(1,3) allow unfolding first_request_passes_def by (metis fst_conv)
  ultimately show ?thesis
    using assms(2,4)
    by (intro exI [of _ "set_header ''X-RateLimit-Remaining'' (string_of_int (rl_burst cfg - 1))
        (set_header ''X-RateLimit-Limit'' (string_of_int (rl_burst cfg)) fresh_writer)"] exI [of _ l])
      (simp add: RateLimitMiddleware_def getLimiter_def fresh_writer_def)
qed

text \<open>A page that accepts and counts.\<close>

definition counting_page :: "('l limiters \<times> nat) handler" where
  "counting_page rq cx ws = (case ws of (w, ls, n) \<Rightarrow> (False, write_header 200 w, ls, Suc n))"

text \<open>C27: The limiter of a path counts connections, not clients: its key is the remote address with its port, so
  requests that each come from a new port all reach the page, however many there are.\<close>

theorem new_connections_never_limited:
  assumes lib: "first_request_passes lib" and cfg: "map_of cfgs path = Some cfg" "1 \<le> rl_burst cfg"
    and paths: "list_all (\<lambda>rq. rq_path rq = path) rqs" and ports: "distinct (map rq_remote rqs)"
    and fresh: "list_all (\<lambda>rq. ls path (rq_remote rq) = None) rqs"
  shows "snd (snd (serve_all (RateLimitMiddleware lib now cfgs counting_page) rqs (ls, n))) = n + length rqs \<and>
     list_all (\<lambda>w. w_status w = Some 200) (fst (serve_all (RateLimitMiddleware lib now cfgs counting_page) rqs (ls, n)))"
  using paths ports fresh
proof (induction rqs arbitrary: ls n)
  case (Cons rq rqs)
  then have known: "map_of cfgs (rq_path rq) = Some cfg" "ls (rq_path rq) (rq_remote rq) = None" using cfg(1) by auto
  note passes = fresh_key_passes [where ls = ls and h = counting_page and s = n and now = now, OF lib known(1) cfg(2) known(2)]
  from passes obtain w l where step: "RateLimitMiddleware lib now cfgs counting_page rq no_context (fresh_writer, ls, n) =
      counting_page rq no_context (w, store_limiter (rq_path rq) (rq_remote rq) (Some l) ls, n)" "w_status w = None"
    by blast
  let ?ls = "store_limiter (rq_path rq) (rq_remote rq) (Some l) ls"
  have "list_all (\<lambda>rq. ?ls path (rq_remote rq) = None) rqs"
    using Cons.prems by (auto simp: list_all_iff store_limiter_def rev_image_eqI)
  then have ih: "snd (snd (serve_all (RateLimitMiddleware lib now cfgs counting_page) rqs (?ls, Suc n))) = Suc n + length rqs"
    "list_all (\<lambda>w. w_status w = Some 200) (fst (serve_all (RateLimitMiddleware lib now cfgs counting_page) rqs (?ls, Suc n)))"
    using Cons.IH [of ?ls "Suc n"] Cons.prems by auto
  have "RateLimitMiddleware lib now cfgs counting_page rq no_context (fresh_writer, ls, n) =
      (False, write_header 200 w, ?ls, Suc n)"
    unfolding step(1) by (simp add: counting_page_def)
  with ih step(2) show ?case by (auto split: prod.split)
qed simp

text \<open>A bucket that lets a fixed number of requests through.\<close>

definition counted_bucket :: "int limiter_lib" where
  "counted_bucket = \<lparr>lm_new = rl_burst, lm_allow = (\<lambda>t n. (0 < n, n - 1))\<rparr>"

definition from_port :: "string \<Rightarrow> request" where
  "from_port p = provider_webhook\<lparr>rq_path := ''/login'', rq_remote := ''10.0.0.9:'' @ p\<rparr>"

theorem new_connections_never_limited_witness:
  "snd (snd (serve_all (RateLimitMiddleware counted_bucket (\<lambda>_. 0) DefaultRateLimitConfigs counting_page)
      (map from_port [''1'', ''2'', ''3'', ''4'', ''5'']) (\<lambda>_ _. None, 0))) = 5"
  using new_connections_never_limited [of counted_bucket DefaultRateLimitConfigs "''/login''"
      "\<lparr>rl_rps = 1 / 10, rl_burst = 3\<rparr>" "map from_port [''1'', ''2'', ''3'', ''4'', ''5'']" "\<lambda>_ _. None" "\<lambda>_. 0" 0]
  by (simp add: first_request_passes_def counted_bucket_def DefaultRateLimitConfigs_def from_port_def)

text \<open>A request the bucket refuses is answered 429 and does not reach the page.\<close>

lemma refused_by_bucket:
  assumes "map_of cfgs (rq_path rq) = Some cfg"
    and "\<not> fst (lm_allow lib (now s) (getLimiter lib cfg (rq_path rq) (limit_key rq cx) ls))"
  shows "\<exists>ls'. RateLimitMiddleware lib now cfgs h rq cx (w, ls, s) = (False, rate_limited cfg w, ls', s)"
  using assms by (auto simp: RateLimitMiddleware_def Let_def split: prod.split)

section \<open>Session timeout\<close>

text \<open>
  The session keeps the instant \<open>last_activity\<close>, \<open>None\<close> when it has none. \<open>destroyed\<close> is the error of
  \<open>Destroy\<close>, if it fails; otherwise the session is empty afterwards.
\<close>

record timeout_config =
  to_timeout :: duration
  to_warning :: duration
  to_extend :: bool
  to_skip :: "string list"

definition DefaultSessionTimeoutConfig :: timeout_config where
  "DefaultSessionTimeoutConfig =
     \<lparr>to_timeout = 30 * minute, to_warning = 5 * minute, to_extend = True,
      to_skip = [''/health'', ''/ready'', ''/metrics'', ''/static/'', ''/assets/'']\<rparr>"

record timed_session =
  tm_now :: instant
  tm_last :: "instant option"

definition skips :: "timeout_config \<Rightarrow> string \<Rightarrow> bool" where
  "skips cfg path \<longleftrightarrow> list_ex (\<lambda>p. p \<noteq> '''' \<and> has_prefix path p) (to_skip cfg)"

definition SessionTimeout :: "string option \<Rightarrow> timeout_config \<Rightarrow> timed_session handler \<Rightarrow> timed_session handler" where
  "SessionTimeout destroyed cfg h rq cx ws =
     (if skips cfg (rq_path rq) then h rq cx ws
      else case ws of (w, s) \<Rightarrow>
        (case tm_last s of
           None \<Rightarrow> h rq cx (w, s\<lparr>tm_last := Some (tm_now s)\<rparr>)
         | Some t \<Rightarrow>
             let idle = time_sub (tm_now s) t in
             if to_timeout cfg < idle then
               (case destroyed of
                  Some _ \<Rightarrow> (False, write_error ''Session error'' 500 w, s)
                | None \<Rightarrow> (False, write_redirect ''/login?timeout=1'' 307 w, s\<lparr>tm_last := None\<rparr>))
             else
               let w' = (if to_timeout cfg - to_warning cfg < idle
                         then set_header ''X-Session-Remaining'' (string_of_int ((to_timeout cfg - idle) div second))
                                (set_header ''X-Session-Warning'' ''true'' w)
                         else w);
                   s' = (if to_extend cfg then s\<lparr>tm_last := Some (tm_now s)\<rparr> else s)
               in h rq cx (w', s')))"

definition GetSessionWarning :: "duration \<Rightarrow> timed_session \<Rightarrow> bool" where
  "GetSessionWarning threshold s =
     (case tm_last s of None \<Rightarrow> False | Some t \<Rightarrow> threshold < time_sub (tm_now s) t)"

definition GetSessionRemainingSeconds :: "duration \<Rightarrow> timed_session \<Rightarrow> int" where
  "GetSessionRemainingSeconds timeout s =
     (case tm_last s of
        None \<Rightarrow> timeout div second
      | Some t \<Rightarrow>
          let remaining = timeout - time_sub (tm_now s) t in if remaining < 0 then 0 else remaining div second)"

text \<open>With the default configuration a request more than thirty minutes after the last one ends the session
  without reaching its page; an earlier one reaches it and renews the session, and from the twenty-fifth minute
  on its answer tells how many seconds, at most 300, were left.\<close>

theorem idle_session_ends:
  assumes "tm_last s = Some t" and "t \<le> tm_now s" and "\<not> skips DefaultSessionTimeoutConfig (rq_path rq)"
  shows "(30 * minute < tm_now s - t \<longrightarrow>
       SessionTimeout None DefaultSessionTimeoutConfig h rq cx (w, s) =
         (False, write_redirect ''/login?timeout=1'' 307 w, s\<lparr>tm_last := None\<rparr>)) \<and>
     (tm_now s - t \<le> 30 * minute \<longrightarrow>
       (\<exists>w'. SessionTimeout None DefaultSessionTimeoutConfig h rq cx (w, s) = h rq cx (w', s\<lparr>tm_last := Some (tm_now s)\<rparr>) \<and>
          (25 * minute < tm_now s - t \<and> w_status w = None \<longrightarrow>
             (\<exists>n. w_headers w' ''X-Session-Remaining'' = Some (string_of_int n) \<and> 0 \<le> n \<and> n \<le> 300))))"
proof (intro conjI impI)
  let ?idle = "time_sub (tm_now s) t"
  assume late: "30 * minute < tm_now s - t"
  then have "30 * minute < ?idle"
    by (intro time_sub_beyond) (auto simp: time_units max_duration_def)
  then show "SessionTimeout None DefaultSessionTimeoutConfig h rq cx (w, s) =
         (False, write_redirect ''/login?timeout=1'' 307 w, s\<lparr>tm_last := None\<rparr>)"
    using assms(1,3) by (simp add: SessionTimeout_def DefaultSessionTimeoutConfig_def Let_def)
next
  let ?idle = "time_sub (tm_now s) t"
  assume soon: "tm_now s - t \<le> 30 * minute"
  have idle: "?idle = tm_now s - t"
    using assms(2) soon by (simp add: time_sub_def max_duration_def time_units)
  let ?n = "(30 * minute - (tm_now s - t)) div second"
  let ?w = "if 25 * minute < tm_now s - t
            then set_header ''X-Session-Remaining'' (string_of_int ?n) (set_header ''X-Session-Warning'' ''true'' w) else w"
  have "SessionTimeout None DefaultSessionTimeoutConfig h rq cx (w, s) = h rq cx (?w, s\<lparr>tm_last := Some (tm_now s)\<rparr>)"
    using assms(1,3) soon idle
    by (simp add: SessionTimeout_def DefaultSessionTimeoutConfig_def Let_def time_units)
  moreover have "0 \<le> ?n" using soon by (simp add: second_def pos_imp_zdiv_nonneg_iff)
  moreover have "?n \<le> 300" if "25 * minute < tm_now s - t" using that by (simp add: time_units)
  ultimately show "\<exists>w'. SessionTimeout None DefaultSessionTimeoutConfig h rq cx (w, s) = h rq cx (w', s\<lparr>tm_last := Some (tm_now s)\<rparr>) \<and>
          (25 * minute < tm_now s - t \<and> w_status w = None \<longrightarrow>
             (\<exists>n. w_headers w' ''X-Session-Remaining'' = Some (string_of_int n) \<and> 0 \<le> n \<and> n \<le> 300))"
    by (intro exI [of _ ?w]) (auto simp: set_header_lookup intro!: exI [of _ ?n])
qed

theorem idle_session_ends_witness:
  "SessionTimeout None DefaultSessionTimeoutConfig (\<lambda>rq cx ws. (False, ws)) provider_webhook no_context
     (fresh_writer, \<lparr>tm_now = 3600 * second, tm_last = Some 0\<rparr>) =
   (False, write_redirect ''/login?timeout=1'' 307 fresh_writer, \<lparr>tm_now = 3600 * second, tm_last = None\<rparr>)"
  using idle_session_ends [of "\<lparr>tm_now = 3600 * second, tm_last = Some 0\<rparr>" 0 provider_webhook
      "\<lambda>rq cx ws. (False, ws)" no_context fresh_writer]
  by (simp add: time_units skips_def DefaultSessionTimeoutConfig_def provider_webhook_def has_prefix_def)

section \<open>Sanitising bodies\<close>

text \<open>\<open>strings.ReplaceAll\<close> of a pattern that is not empty.\<close>

function replace_all :: "string \<Rightarrow> string \<Rightarrow> string \<Rightarrow> string" where
  "replace_all p r [] = []"
| "replace_all p r (c # cs) =
     (if p \<noteq> '''' \<and> has_prefix (c # cs) p then r @ replace_all p r (drop (length p) (c # cs))
      else c # replace_all p r cs)"
  by pat_completeness auto
termination by (relation "measure (\<lambda>(p, r, s). length s)") auto

record sanitize_config =
  sc_enabled :: bool
  sc_max :: int
  sc_skip :: "string list"
  sc_html :: bool
  sc_strip :: bool

definition DefaultSanitizeConfig :: sanitize_config where
  "DefaultSanitizeConfig =
     \<lparr>sc_enabled = True, sc_max = 1048576, sc_skip = [''/assets/'', ''/storage/'', ''/metrics'', ''/health''],
      sc_html = True, sc_strip = False\<rparr>"

text \<open>The two policies and the order in which Go visits a map.\<close>

record html_lib =
  hl_unicode :: unicode
  hl_html :: "string \<Rightarrow> string"
  hl_strip :: "string \<Rightarrow> string"
  hl_order :: "(string \<times> string list) list \<Rightarrow> (string \<times> string list) list"

definition decode_value :: "string \<Rightarrow> string" where
  "decode_value v =
     fold (\<lambda>(p, r). replace_all p r)
       [(''+'', '' ''), (''%20'', '' ''), (''%40'', ''@''), (''%2F'', ''/''), (''%3A'', '':''), (''%3D'', ''=''),
        (''%26'', ''&''), (''%3F'', ''?''), (''%25'', ''%'')] v"

definition add_value :: "string \<Rightarrow> string \<Rightarrow> (string \<times> string list) list \<Rightarrow> (string \<times> string list) list" where
  "add_value k v vs =
     (if k \<in> fst ` set vs then map (\<lambda>(l, xs). if l = k then (l, xs @ [v]) else (l, xs)) vs else vs @ [(k, [v])])"

definition parseQuery :: "string \<Rightarrow> (string \<times> string list) list" where
  "parseQuery q =
     fold (\<lambda>pair. if pair = '''' then id
                 else add_value (takeWhile (\<lambda>c. c \<noteq> CHR ''='') pair)
                        (decode_value (drop 1 (dropWhile (\<lambda>c. c \<noteq> CHR ''='') pair))))
       (split_at (CHR ''&'') q) []"

definition encodeFormValues :: "(string \<times> string list) list \<Rightarrow> string" where
  "encodeFormValues vs = join ''&'' (concat (map (\<lambda>(k, xs). map (\<lambda>v. k @ ''='' @ v) xs) vs))"

definition sanitize_value :: "html_lib \<Rightarrow> sanitize_config \<Rightarrow> string \<Rightarrow> string" where
  "sanitize_value lib cfg v =
     (if sc_strip cfg then hl_strip lib v else if sc_html cfg then hl_html lib v else TrimSpace (hl_unicode lib) v)"

definition sanitizeJSON :: "html_lib \<Rightarrow> sanitize_config \<Rightarrow> string \<Rightarrow> string" where
  "sanitizeJSON lib cfg body =
     (let t = TrimSpace (hl_unicode lib) body in
      if \<not> has_prefix t [CHR ''{''] \<and> \<not> has_prefix t ''['' then body
      else if sc_strip cfg then hl_strip lib t else if sc_html cfg then hl_html lib t else t)"

definition Sanitize :: "html_lib \<Rightarrow> sanitize_config \<Rightarrow> 's handler \<Rightarrow> 's handler" where
  "Sanitize lib cfg0 h rq cx ws =
     (if \<not> sc_enabled cfg0 then h rq cx ws
      else
        let cfg = (if sc_max cfg0 = 0 then cfg0\<lparr>sc_max := 1048576\<rparr> else cfg0);
            ct = rq_header rq ''Content-Type'';
            form = str_contains ct ''application/x-www-form-urlencoded'' \<or> str_contains ct ''multipart/form-data'';
            is_json = str_contains ct ''application/json'' in
        if list_ex (has_prefix (rq_path rq)) (sc_skip cfg) \<or> rq_method rq \<notin> set [''POST'', ''PUT'', ''PATCH''] \<or>
           \<not> form \<and> \<not> is_json
        then h rq cx ws
        else if sc_max cfg < int (length (rq_body rq)) then (False, apfst (write_error ''Bad request'' 400) ws)
        else h (rq\<lparr>rq_body :=
               if form then encodeFormValues (hl_order lib
                    (map (\<lambda>(k, xs). (k, map (sanitize_value lib cfg) xs)) (parseQuery (rq_body rq))))
               else sanitizeJSON lib cfg (rq_body rq)\<rparr>) cx ws)"

text \<open>The sanitiser decodes values and does not encode them again, so one field can become two.\<close>

lemma field_becomes_two: "encodeFormValues (parseQuery ''q=a%26admin=1'') = ''q=a&admin=1''"
  by (simp add: parseQuery_def encodeFormValues_def decode_value_def add_value_def has_prefix_def)

section \<open>Validating inputs\<close>

text \<open>What an input's \<open>Validate\<close> returns: a list of field errors, or another error with its text.\<close>

datatype input_error = FieldErrors "(string \<times> string) list" | OtherError string

definition validation_error_body :: "input_error \<Rightarrow> string" where
  "validation_error_body e =
     (case e of
        FieldErrors fs \<Rightarrow> json_print (JArr (map (\<lambda>(f, m). JObj [(''field'', JStr f), (''message'', JStr m)]) fs))
      | OtherError t \<Rightarrow> json_print (JObj [(''error'', JStr ''validation_error''), (''message'', JStr t)]) @ [CHR 0x0A])"

definition ValidateInput :: "(ctx \<Rightarrow> input_error option) \<Rightarrow> 's handler \<Rightarrow> 's handler" where
  "ValidateInput validate h rq cx ws =
     (case validate cx of
        None \<Rightarrow> h rq cx ws
      | Some e \<Rightarrow> (False, apfst (\<lambda>w. write_body (validation_error_body e) (write_header 400
            (set_header ''X-Request-ID'' (GetRequestID cx) (set_header ''Content-Type'' ''application/json'' w)))) ws))"

end
