(* ===== verification/Rbac.thy ===== *)
theory Rbac
  imports Pipeline
begin

text \<open>
  Access control (\<open>internal/platform/security/rbac\<close>): the wrapper of casbin and its middleware. Casbin is
  third-party, so it is a record of functions on a state. \<open>lawful_casbin\<close> states its documented
  behaviour over two views of that state, the policy rules and the role links; the model text of
  \<open>NewEnforcerWithModel\<close>, which casbin interprets, is \<open>model_matches\<close> and \<open>model_allows\<close>.
\<close>

type_synonym rule = "string list"

record 'e casbin =
  cb_Enforce :: "'e \<Rightarrow> string \<Rightarrow> string \<Rightarrow> string \<Rightarrow> string + bool"
  cb_HasPolicy :: "'e \<Rightarrow> rule \<Rightarrow> string + bool"
  cb_AddPolicy :: "rule \<Rightarrow> 'e \<Rightarrow> (string + bool) \<times> 'e"
  cb_RemovePolicy :: "rule \<Rightarrow> 'e \<Rightarrow> (string + bool) \<times> 'e"
  cb_AddGroupingPolicy :: "string \<Rightarrow> string \<Rightarrow> 'e \<Rightarrow> (string + bool) \<times> 'e"
  cb_RemoveGroupingPolicy :: "string \<Rightarrow> string \<Rightarrow> 'e \<Rightarrow> (string + bool) \<times> 'e"
  cb_GetImplicitRoles :: "'e \<Rightarrow> string \<Rightarrow> string + string list"
  cb_GetFilteredPolicy :: "'e \<Rightarrow> string \<Rightarrow> string + rule list"
  cb_GetImplicitPermissions :: "'e \<Rightarrow> string \<Rightarrow> string + rule list"
  cb_ClearPolicy :: "'e \<Rightarrow> 'e"

section \<open>The enforcer\<close>

definition CheckPermission :: "'e casbin \<Rightarrow> string \<Rightarrow> string \<Rightarrow> string \<Rightarrow> 'e \<Rightarrow> bool" where
  "CheckPermission cb user resource action e =
     (case cb_Enforce cb e user resource action of Inl _ \<Rightarrow> False | Inr allowed \<Rightarrow> allowed)"

definition AddRole :: "'e casbin \<Rightarrow> string \<Rightarrow> string \<Rightarrow> 'e \<Rightarrow> string option \<times> 'e" where
  "AddRole cb user role e =
     (case cb_AddGroupingPolicy cb user role e of (Inl err, e') \<Rightarrow> (Some err, e') | (Inr _, e') \<Rightarrow> (None, e'))"

definition RemoveRole :: "'e casbin \<Rightarrow> string \<Rightarrow> string \<Rightarrow> 'e \<Rightarrow> string option \<times> 'e" where
  "RemoveRole cb user role e =
     (case cb_RemoveGroupingPolicy cb user role e of (Inl err, e') \<Rightarrow> (Some err, e') | (Inr _, e') \<Rightarrow> (None, e'))"

definition AddPermission :: "'e casbin \<Rightarrow> string \<Rightarrow> string \<Rightarrow> string \<Rightarrow> 'e \<Rightarrow> string option \<times> 'e" where
  "AddPermission cb role resource action e =
     (case cb_AddPolicy cb [role, resource, action] e of (Inl err, e') \<Rightarrow> (Some err, e') | (Inr _, e') \<Rightarrow> (None, e'))"

definition RemovePermission :: "'e casbin \<Rightarrow> string \<Rightarrow> string \<Rightarrow> string \<Rightarrow> 'e \<Rightarrow> string option \<times> 'e" where
  "RemovePermission cb role resource action e =
     (case cb_RemovePolicy cb [role, resource, action] e of (Inl err, e') \<Rightarrow> (Some err, e') | (Inr _, e') \<Rightarrow> (None, e'))"

definition GetRoles :: "'e casbin \<Rightarrow> string \<Rightarrow> 'e \<Rightarrow> string + string list" where
  "GetRoles cb user e = cb_GetImplicitRoles cb e user"

definition GetPermissions :: "'e casbin \<Rightarrow> string \<Rightarrow> 'e \<Rightarrow> string + rule list" where
  "GetPermissions cb role e = cb_GetFilteredPolicy cb e role"

definition GetUserPermissions :: "'e casbin \<Rightarrow> string \<Rightarrow> 'e \<Rightarrow> string + rule list" where
  "GetUserPermissions cb user e = cb_GetImplicitPermissions cb e user"

definition HasRole :: "'e casbin \<Rightarrow> string \<Rightarrow> string \<Rightarrow> 'e \<Rightarrow> bool" where
  "HasRole cb user role e =
     list_ex (\<lambda>r. r = role) (case cb_GetImplicitRoles cb e user of Inl _ \<Rightarrow> [] | Inr roles \<Rightarrow> roles)"

definition IsAdmin :: "'e casbin \<Rightarrow> string \<Rightarrow> 'e \<Rightarrow> bool" where
  "IsAdmin cb user e = HasRole cb user ''admin'' e"

definition CanView :: "'e casbin \<Rightarrow> string \<Rightarrow> string \<Rightarrow> 'e \<Rightarrow> bool" where
  "CanView cb user resource = CheckPermission cb user resource ''view''"

definition CanCreate :: "'e casbin \<Rightarrow> string \<Rightarrow> string \<Rightarrow> 'e \<Rightarrow> bool" where
  "CanCreate cb user resource = CheckPermission cb user resource ''create''"

definition CanEdit :: "'e casbin \<Rightarrow> string \<Rightarrow> string \<Rightarrow> 'e \<Rightarrow> bool" where
  "CanEdit cb user resource = CheckPermission cb user resource ''edit''"

definition CanDelete :: "'e casbin \<Rightarrow> string \<Rightarrow> string \<Rightarrow> 'e \<Rightarrow> bool" where
  "CanDelete cb user resource = CheckPermission cb user resource ''delete''"

text \<open>The default rules, and the loop that adds those that are missing and stops at an error.\<close>

definition adminPermissions :: "rule list" where
  "adminPermissions =
     [[''admin'', ''*'', ''view''], [''admin'', ''*'', ''create''], [''admin'', ''*'', ''edit''], [''admin'', ''*'', ''delete'']]"

definition userPermissions :: "rule list" where
  "userPermissions =
     [[''user'', ''dashboard'', ''view''], [''user'', ''profile'', ''view''], [''user'', ''profile'', ''edit''],
      [''user'', ''settings'', ''view''], [''user'', ''settings'', ''edit'']]"

definition billingPermissions :: "rule list" where
  "billingPermissions =
     [[''billing'', ''billing'', ''view''], [''billing'', ''billing'', ''edit''], [''billing'', ''invoices'', ''view''],
      [''billing'', ''payments'', ''view''], [''billing'', ''payments'', ''create'']]"

definition moderatorPermissions :: "rule list" where
  "moderatorPermissions =
     [[''moderator'', ''content'', ''view''], [''moderator'', ''content'', ''edit''], [''moderator'', ''content'', ''delete''],
      [''moderator'', ''reports'', ''view''], [''moderator'', ''reports'', ''edit'']]"

fun add_missing :: "'e casbin \<Rightarrow> rule list \<Rightarrow> 'e \<Rightarrow> string option \<times> 'e" where
  "add_missing cb [] e = (None, e)"
| "add_missing cb (p # ps) e =
     (case cb_HasPolicy cb e p of
        Inr True \<Rightarrow> add_missing cb ps e
      | _ \<Rightarrow> (case cb_AddPolicy cb p e of
               (Inl err, e') \<Rightarrow> (Some err, e')
             | (Inr _, e') \<Rightarrow> add_missing cb ps e'))"

definition InitializeDefaultRoles :: "'e casbin \<Rightarrow> 'e \<Rightarrow> string option \<times> 'e" where
  "InitializeDefaultRoles cb e =
     (case add_missing cb adminPermissions e of
        (Some err, e1) \<Rightarrow> (Some err, e1)
      | (None, e1) \<Rightarrow>
          (case add_missing cb userPermissions e1 of
             (Some err, e2) \<Rightarrow> (Some err, e2)
           | (None, e2) \<Rightarrow>
               (case add_missing cb billingPermissions e2 of
                  (Some err, e3) \<Rightarrow> (Some err, e3)
                | (None, e3) \<Rightarrow> add_missing cb moderatorPermissions e3)))"

definition default_rules :: "rule list" where
  "default_rules = adminPermissions @ userPermissions @ billingPermissions @ moderatorPermissions"

lemma add_missing_append:
  "add_missing cb (ps @ qs) e =
     (case add_missing cb ps e of (Some err, e') \<Rightarrow> (Some err, e') | (None, e') \<Rightarrow> add_missing cb qs e')"
  by (induction ps arbitrary: e) (auto split: sum.split bool.split prod.split option.split)

lemma InitializeDefaultRoles_all: "InitializeDefaultRoles cb e = add_missing cb default_rules e"
  unfolding InitializeDefaultRoles_def default_rules_def
  by (simp add: add_missing_append split: prod.split option.split)

section \<open>The model\<close>

text \<open>
  The matcher of the model text. \<open>g r p\<close> is casbin's role relation, the reflexive transitive closure
  of the links; a request is allowed when some rule matches.
\<close>

fun model_matches :: "(string \<Rightarrow> string \<Rightarrow> bool) \<Rightarrow> string \<Rightarrow> string \<Rightarrow> string \<Rightarrow> rule \<Rightarrow> bool" where
  "model_matches g sub obj act [psub, pobj, pact] =
     ((g sub psub \<or> sub = psub) \<and> (obj = pobj \<or> obj = psub) \<and> act = pact)"
| "model_matches g sub obj act _ = False"

definition model_allows :: "(string \<Rightarrow> string \<Rightarrow> bool) \<Rightarrow> rule list \<Rightarrow> string \<Rightarrow> string \<Rightarrow> string \<Rightarrow> bool" where
  "model_allows g rules sub obj act \<longleftrightarrow> list_ex (model_matches g sub obj act) rules"

definition role_link :: "(string \<times> string) list \<Rightarrow> string \<Rightarrow> string \<Rightarrow> bool" where
  "role_link links a b \<longleftrightarrow> (a, b) \<in> (set links)\<^sup>*"

text \<open>
  What casbin documents: it decides by the model, has the rules that were loaded or added, adds a rule
  it lacks at the end (unless the adapter fails), and lists the roles a user reaches.
\<close>

definition lawful_casbin :: "'e casbin \<Rightarrow> ('e \<Rightarrow> rule list) \<Rightarrow> ('e \<Rightarrow> (string \<times> string) list) \<Rightarrow> bool" where
  "lawful_casbin cb rules links \<longleftrightarrow>
     (\<forall>e s ob a. cb_Enforce cb e s ob a = Inr (model_allows (role_link (links e)) (rules e) s ob a)) \<and>
     (\<forall>e p. cb_HasPolicy cb e p = Inr (p \<in> set (rules e))) \<and>
     (\<forall>e e' p b. p \<notin> set (rules e) \<longrightarrow> cb_AddPolicy cb p e = (Inr b, e') \<longrightarrow> rules e' = rules e @ [p] \<and> links e' = links e) \<and>
     (\<forall>e u. \<exists>rs. cb_GetImplicitRoles cb e u = Inr rs \<and> set rs = {r. r \<noteq> u \<and> role_link (links e) u r})"

lemma lawful_enforce: "lawful_casbin cb rules links \<Longrightarrow>
    CheckPermission cb u r a e = model_allows (role_link (links e)) (rules e) u r a"
  unfolding lawful_casbin_def CheckPermission_def by simp

lemma lawful_add: "lawful_casbin cb rules links \<Longrightarrow> p \<notin> set (rules e) \<Longrightarrow> cb_AddPolicy cb p e = (Inr b, e') \<Longrightarrow>
    rules e' = rules e @ [p] \<and> links e' = links e"
  unfolding lawful_casbin_def by blast

lemma lawful_has: "lawful_casbin cb rules links \<Longrightarrow> cb_HasPolicy cb e p = Inr (p \<in> set (rules e))"
  unfolding lawful_casbin_def by blast

lemma add_missing_rules:
  assumes law: "lawful_casbin cb rules links" and "fst (add_missing cb ps e) = None"
  shows "set (rules (snd (add_missing cb ps e))) = set (rules e) \<union> set ps \<and>
    links (snd (add_missing cb ps e)) = links e"
  using assms(2)
proof (induction ps arbitrary: e)
  case (Cons p ps)
  show ?case
  proof (cases "p \<in> set (rules e)")
    case True
    then have "add_missing cb (p # ps) e = add_missing cb ps e" by (simp add: lawful_has [OF law])
    with Cons True show ?thesis by auto
  next
    case False
    obtain r e' where add: "cb_AddPolicy cb p e = (r, e')" by (cases "cb_AddPolicy cb p e")
    then obtain b where b: "r = Inr b"
      using Cons.prems False by (cases r) (auto simp: lawful_has [OF law])
    from lawful_add [OF law False add [unfolded b]] have "rules e' = rules e @ [p]" "links e' = links e" by auto
    moreover have "add_missing cb (p # ps) e = add_missing cb ps e'"
      using False add b by (simp add: lawful_has [OF law])
    ultimately show ?thesis using Cons.IH [of e'] Cons.prems by auto
  qed
qed simp

section \<open>Middleware\<close>

text \<open>\<open>enf\<close> is the enforcer within the state of the routes.\<close>

definition unauthorized :: "writer \<Rightarrow> writer" where
  "unauthorized = write_error ''Unauthorized'' 401"

definition forbidden :: "writer \<Rightarrow> writer" where
  "forbidden = write_error ''Forbidden'' 403"

definition guarded :: "(string \<Rightarrow> 's \<Rightarrow> bool) \<Rightarrow> 's handler \<Rightarrow> 's handler" where
  "guarded ok h rq cx ws =
     (case cx_user_id cx of
        None \<Rightarrow> (False, apfst unauthorized ws)
      | Some u \<Rightarrow> if \<not> ok u (snd ws) then (False, apfst forbidden ws) else h rq cx ws)"

definition RequirePermission :: "'e casbin \<Rightarrow> ('s \<Rightarrow> 'e) \<Rightarrow> string \<Rightarrow> string \<Rightarrow> 's handler \<Rightarrow> 's handler" where
  "RequirePermission cb enf resource action = guarded (\<lambda>u s. CheckPermission cb u resource action (enf s))"

definition RequireRole :: "'e casbin \<Rightarrow> ('s \<Rightarrow> 'e) \<Rightarrow> string \<Rightarrow> 's handler \<Rightarrow> 's handler" where
  "RequireRole cb enf role = guarded (\<lambda>u s. HasRole cb u role (enf s))"

definition RequireAnyRole :: "'e casbin \<Rightarrow> ('s \<Rightarrow> 'e) \<Rightarrow> string list \<Rightarrow> 's handler \<Rightarrow> 's handler" where
  "RequireAnyRole cb enf roles = guarded (\<lambda>u s. list_ex (\<lambda>r. HasRole cb u r (enf s)) roles)"

definition AdminOnly :: "'e casbin \<Rightarrow> ('s \<Rightarrow> 'e) \<Rightarrow> 's handler \<Rightarrow> 's handler" where
  "AdminOnly cb enf = RequireRole cb enf ''admin''"

definition WithUser :: "'e casbin \<Rightarrow> ('s \<Rightarrow> 'e) \<Rightarrow> (request \<Rightarrow> string) \<Rightarrow> 's handler \<Rightarrow> 's handler" where
  "WithUser cb enf getUserID h rq cx ws =
     (let u = getUserID rq in
      if u = '''' then h rq cx ws
      else h rq (cx\<lparr>cx_user_id := Some u,
             cx_user_roles := (case GetRoles cb u (enf (snd ws)) of Inl _ \<Rightarrow> [] | Inr rs \<Rightarrow> rs)\<rparr>) ws)"

definition ExtractUserFromSession :: "request \<Rightarrow> string" where
  "ExtractUserFromSession rq = (case rq_cookie rq ''session_id'' of None \<Rightarrow> '''' | Some v \<Rightarrow> v)"

definition ExtractUserFromHeader :: "string \<Rightarrow> request \<Rightarrow> string" where
  "ExtractUserFromHeader name rq = rq_header rq name"

text \<open>The token is never read: every way through returns the empty string.\<close>

definition ExtractUserFromJWT :: "request \<Rightarrow> string" where
  "ExtractUserFromJWT rq =
     (let auth = rq_header rq ''Authorization''; parts = split_at (CHR '' '') auth in
      if auth = '''' then ''''
      else if length parts \<noteq> 2 \<or> hd parts \<noteq> ''Bearer'' then '''' else '''')"

definition HasPermissionHandler :: "'e casbin \<Rightarrow> ('s \<Rightarrow> 'e) \<Rightarrow> string \<Rightarrow> string \<Rightarrow> 's handler" where
  "HasPermissionHandler cb enf resource action =
     RequirePermission cb enf resource action (\<lambda>rq cx ws. (False, apfst (write_header 200) ws))"

text \<open>The body is put together by hand, without the brackets of a list and without escapes.\<close>

definition permission_entry :: "rule \<Rightarrow> string" where
  "permission_entry p =
     (let (r, a) = (if 3 \<le> length p then (p ! 1, p ! 2) else ('''', '''')); q = [CHR 0x22] in
      [CHR ''{''] @ q @ ''resource'' @ q @ '':'' @ q @ r @ q @ '','' @ q @ ''action'' @ q @ '':'' @ q @ a @ q @ [CHR ''}''])"

definition permissions_body :: "rule list \<Rightarrow> string" where
  "permissions_body ps =
     [CHR ''{'', CHR 0x22] @ ''permissions'' @ [CHR 0x22, CHR '':''] @ join '','' (map permission_entry ps) @ [CHR ''}'']"

definition GetPermissionsHandler :: "'e casbin \<Rightarrow> ('s \<Rightarrow> 'e) \<Rightarrow> 's handler" where
  "GetPermissionsHandler cb enf rq cx ws =
     (case cx_user_id cx of
        None \<Rightarrow> (False, apfst unauthorized ws)
      | Some u \<Rightarrow>
          (case GetUserPermissions cb u (enf (snd ws)) of
             Inl err \<Rightarrow> (False, apfst (write_error err 500) ws)
           | Inr ps \<Rightarrow> (False, apfst (\<lambda>w. write_body (permissions_body ps) (set_header ''Content-Type'' ''application/json'' w)) ws)))"

section \<open>What access control promises\<close>

text \<open>A page behind a permission runs exactly when the request names a user and the model allows it;
  without a user it is answered 401, otherwise 403, and neither touches the state.\<close>

theorem permission_guards_page:
  assumes "lawful_casbin cb rules links"
  shows "RequirePermission cb enf resource action h rq cx (w, s) =
     (case cx_user_id cx of
        None \<Rightarrow> (False, unauthorized w, s)
      | Some u \<Rightarrow> if model_allows (role_link (links (enf s))) (rules (enf s)) u resource action
                  then h rq cx (w, s) else (False, forbidden w, s))"
  by (auto simp: RequirePermission_def guarded_def lawful_enforce [OF assms] split: option.split)

text \<open>The policy the server loads, \<open>storage/rbac/policy.csv\<close>.\<close>

definition policy_file :: "rule list" where
  "policy_file = [''admin'', ''*'', ''*''] # userPermissions @ billingPermissions @ moderatorPermissions"

text \<open>C31: With the policy the server loads and the default roles, a user whose only role is \<open>admin\<close> may do
  nothing but what names the resource \<open>*\<close> or \<open>admin\<close>: the star is compared as a name.\<close>

theorem admin_is_denied:
  assumes law: "lawful_casbin cb rules links" and loaded: "set (rules e) = set policy_file"
    and init: "fst (InitializeDefaultRoles cb e) = None"
    and only: "\<And>r. role_link (links e) u r \<longleftrightarrow> r = u \<or> r = ''admin''"
    and user: "u \<notin> {''user'', ''billing'', ''moderator''}"
  shows "CheckPermission cb u resource action (snd (InitializeDefaultRoles cb e)) \<longleftrightarrow>
     resource \<in> {''*'', ''admin''} \<and> action \<in> {''view'', ''create'', ''edit'', ''delete'', ''*''}"
proof -
  let ?e = "snd (InitializeDefaultRoles cb e)"
  note after = add_missing_rules [OF law, of default_rules e, folded InitializeDefaultRoles_all, OF init]
  have "set (rules ?e) = insert [''admin'', ''*'', ''*''] (set default_rules)"
    using after loaded by (auto simp: policy_file_def default_rules_def)
  moreover have "role_link (links ?e) u r \<longleftrightarrow> r = u \<or> r = ''admin''" for r
    using after only by simp
  moreover have "u \<noteq> ''user''" "u \<noteq> ''billing''" "u \<noteq> ''moderator''" using user by auto
  ultimately show ?thesis
    unfolding lawful_enforce [OF law] model_allows_def list_ex_iff
    by (simp add: default_rules_def adminPermissions_def userPermissions_def billingPermissions_def
        moderatorPermissions_def) auto
qed

text \<open>Setting up the default roles again after it succeeded changes nothing.\<close>

theorem default_roles_idempotent:
  assumes law: "lawful_casbin cb rules links" and init: "fst (InitializeDefaultRoles cb e) = None"
  shows "InitializeDefaultRoles cb (snd (InitializeDefaultRoles cb e)) = (None, snd (InitializeDefaultRoles cb e))"
proof -
  have present: "add_missing cb ps e' = (None, e')" if "set ps \<subseteq> set (rules e')" for ps e'
    using that by (induction ps) (auto simp: lawful_has [OF law])
  show ?thesis
    unfolding InitializeDefaultRoles_all
    by (rule present)
      (use add_missing_rules [OF law, of default_rules e] init in \<open>simp add: InitializeDefaultRoles_all\<close>)
qed

section \<open>An engine in memory\<close>

definition memory_casbin :: "(rule list \<times> (string \<times> string) list) casbin" where
  "memory_casbin =
     \<lparr>cb_Enforce = (\<lambda>e s ob a. Inr (model_allows (role_link (snd e)) (fst e) s ob a)),
      cb_HasPolicy = (\<lambda>e p. Inr (p \<in> set (fst e))),
      cb_AddPolicy = (\<lambda>p e. if p \<in> set (fst e) then (Inr False, e) else (Inr True, (fst e @ [p], snd e))),
      cb_RemovePolicy = (\<lambda>p e. (Inr (p \<in> set (fst e)), (removeAll p (fst e), snd e))),
      cb_AddGroupingPolicy = (\<lambda>u r e. (Inr True, (fst e, (u, r) # snd e))),
      cb_RemoveGroupingPolicy = (\<lambda>u r e. (Inr True, (fst e, removeAll (u, r) (snd e)))),
      cb_GetImplicitRoles = (\<lambda>e u. Inr (filter (\<lambda>r. r \<noteq> u \<and> role_link (snd e) u r) (remdups (map snd (snd e))))),
      cb_GetFilteredPolicy = (\<lambda>e r. Inr (filter (\<lambda>p. hd p = r) (fst e))),
      cb_GetImplicitPermissions = (\<lambda>e u. Inr (filter (\<lambda>p. role_link (snd e) u (hd p)) (fst e))),
      cb_ClearPolicy = (\<lambda>e. ([], []))\<rparr>"

lemma role_link_target: "role_link links u r \<Longrightarrow> r = u \<or> r \<in> snd ` set links"
  unfolding role_link_def by (erule rtranclE) (auto simp: rev_image_eqI)

lemma lawful_memory_casbin: "lawful_casbin memory_casbin fst snd"
  unfolding lawful_casbin_def memory_casbin_def
  by (auto dest: role_link_target split: if_splits)

lemma memory_has: "cb_HasPolicy memory_casbin e p = Inr (p \<in> set (fst e))"
  by (simp add: memory_casbin_def)

lemma memory_add: "cb_AddPolicy memory_casbin p e =
    (if p \<in> set (fst e) then (Inr False, e) else (Inr True, (fst e @ [p], snd e)))"
  by (simp add: memory_casbin_def)

definition office :: "rule list \<times> (string \<times> string) list" where
  "office = (policy_file, [(''ana'', ''admin'')])"

lemma office_ready: "fst (InitializeDefaultRoles memory_casbin office) = None"
proof -
  have "fst (add_missing memory_casbin ps e) = None" for ps e
  proof (induction ps arbitrary: e)
    case (Cons p ps)
    then show ?case by (cases "p \<in> set (fst e)") (simp_all add: memory_has memory_add)
  qed simp
  then show ?thesis by (simp add: InitializeDefaultRoles_all)
qed

lemma office_link: "role_link (snd office) ''ana'' r \<longleftrightarrow> r = ''ana'' \<or> r = ''admin''"
proof
  assume "role_link (snd office) ''ana'' r"
  from role_link_target [OF this] show "r = ''ana'' \<or> r = ''admin''" by (auto simp: office_def)
next
  assume "r = ''ana'' \<or> r = ''admin''"
  then show "role_link (snd office) ''ana'' r" by (auto simp: role_link_def office_def)
qed

theorem admin_is_denied_witness:
  "\<not> CheckPermission memory_casbin ''ana'' ''dashboard'' ''view'' (snd (InitializeDefaultRoles memory_casbin office))"
  using admin_is_denied [OF lawful_memory_casbin _ office_ready office_link] by (simp add: office_def)

theorem default_roles_idempotent_witness:
  "fst (InitializeDefaultRoles memory_casbin (snd (InitializeDefaultRoles memory_casbin office))) = None"
  using default_roles_idempotent [OF lawful_memory_casbin office_ready] by simp

theorem permission_guards_page_witness:
  "RequirePermission memory_casbin id ''billing'' ''view'' (\<lambda>rq cx ws. (False, ws)) provider_webhook no_context
     (fresh_writer, office) = (False, unauthorized fresh_writer, office)"
  using permission_guards_page [OF lawful_memory_casbin, of id] by (simp add: no_context_def)

end
