(* ===== verification/Feature_Flags.thy ===== *)
theory Feature_Flags
  imports Go_Text Http_Errors Database "HOL-Library.Char_ord" "HOL-Library.List_Lexorder"
begin

text \<open>
  Feature flags (\<open>internal/platform/featureflags\<close>): the repository over the table of
  \<open>feature_flags.sql\<close>, the manager with its cache, and the handlers. A cache entry is a weak pointer
  to the flag that was read, so it stays until it is replaced, deleted or collected (\<open>collect\<close>).
\<close>

record feature_flag =
  fl_ID :: int
  fl_Name :: string
  fl_Description :: string
  fl_Enabled :: bool
  fl_Metadata :: string
  fl_TenantID :: string
  fl_CreatedAt :: instant
  fl_UpdatedAt :: instant

record flag_input =
  fi_Name :: string
  fi_Description :: string
  fi_Enabled :: bool
  fi_Metadata :: string
  fi_TenantID :: string

section \<open>The repository\<close>

text \<open>\<open>Scan\<close> into strings and times that cannot be NULL: the first NULL column is an error.\<close>

definition scan_flag :: "flag_row \<Rightarrow> dberr + feature_flag" where
  "scan_flag r =
     (case (ff_description r, ff_metadata r, ff_created_at r, ff_updated_at r) of
        (Some d, Some m, Some c, Some u) \<Rightarrow>
          Inr \<lparr>fl_ID = ff_id r, fl_Name = ff_name r, fl_Description = d, fl_Enabled = ff_enabled r, fl_Metadata = m,
               fl_TenantID = ff_tenant r, fl_CreatedAt = c, fl_UpdatedAt = u\<rparr>
      | (None, _, _, _) \<Rightarrow> Inl (ScanError ''description'')
      | (_, None, _, _) \<Rightarrow> Inl (ScanError ''metadata'')
      | (_, _, None, _) \<Rightarrow> Inl (ScanError ''created_at'')
      | _ \<Rightarrow> Inl (ScanError ''updated_at''))"

text \<open>The loop over the rows stops at the first error.\<close>

fun scan_all :: "flag_row list \<Rightarrow> dberr + feature_flag list" where
  "scan_all [] = Inr []"
| "scan_all (r # rs) =
     (case scan_flag r of
        Inl e \<Rightarrow> Inl e
      | Inr f \<Rightarrow> (case scan_all rs of Inl e \<Rightarrow> Inl e | Inr fs \<Rightarrow> Inr (f # fs)))"

definition visible_to :: "string \<Rightarrow> flag_row \<Rightarrow> bool" where
  "visible_to tenant r \<longleftrightarrow> ff_tenant r = tenant \<or> ff_tenant r = ''global''"

definition repo_GetAll :: "string \<Rightarrow> feature_flag list query" where
  "repo_GetAll tenant =
     run (\<lambda>s. (scan_all (sort_key ff_name (filter (visible_to tenant) (t_flags s))), s))"

text \<open>\<open>QueryRow\<close>: no row is \<open>Inr None\<close>.\<close>

definition scan_row :: "flag_row option \<Rightarrow> dberr + feature_flag option" where
  "scan_row r = (case r of None \<Rightarrow> Inr None | Some r \<Rightarrow> map_sum id Some (scan_flag r))"

definition repo_GetByName :: "string \<Rightarrow> string \<Rightarrow> feature_flag option query" where
  "repo_GetByName name tenant =
     run (\<lambda>s. (scan_row (find (\<lambda>r. ff_name r = name \<and> visible_to tenant r) (t_flags s)), s))"

definition repo_GetByID :: "int \<Rightarrow> feature_flag option query" where
  "repo_GetByID i = run (\<lambda>s. (scan_row (find (\<lambda>r. ff_id r = i) (t_flags s)), s))"

definition repo_IsEnabled :: "string \<Rightarrow> string \<Rightarrow> bool query" where
  "repo_IsEnabled name tenant s =
     (case repo_GetByName name tenant s of
        (Inl e, s1) \<Rightarrow> (Inl e, s1)
      | (Inr f, s1) \<Rightarrow> (Inr (case f of None \<Rightarrow> False | Some f \<Rightarrow> fl_Enabled f), s1))"

definition repo_CreateFlag :: "flag_input \<Rightarrow> feature_flag query" where
  "repo_CreateFlag i =
     run (\<lambda>s. if fi_Name i \<in> ff_name ` set (t_flags s) then (Inl (UniqueViolation ''feature_flags.name''), s)
              else (Inr \<lparr>fl_ID = seq_flags s, fl_Name = fi_Name i, fl_Description = fi_Description i, fl_Enabled = fi_Enabled i,
                         fl_Metadata = fi_Metadata i, fl_TenantID = fi_TenantID i, fl_CreatedAt = clock s, fl_UpdatedAt = clock s\<rparr>,
                    s\<lparr>t_flags := t_flags s @
                        [\<lparr>ff_id = seq_flags s, ff_name = fi_Name i, ff_description = Some (fi_Description i), ff_enabled = fi_Enabled i,
                          ff_metadata = Some (fi_Metadata i), ff_tenant = fi_TenantID i, ff_created_at = Some (clock s),
                          ff_updated_at = Some (clock s)\<rparr>],
                      seq_flags := seq_flags s + 1\<rparr>))"

definition repo_UpdateFlag :: "int \<Rightarrow> flag_input \<Rightarrow> feature_flag option query" where
  "repo_UpdateFlag i inp s =
     (case run (\<lambda>s.
        if (\<exists>r\<in>set (t_flags s). ff_id r = i) \<and> (\<exists>r\<in>set (t_flags s). ff_id r \<noteq> i \<and> ff_name r = fi_Name inp)
        then (Inl (UniqueViolation ''feature_flags.name''), s)
        else (Inr (), s\<lparr>t_flags := update_where (\<lambda>r. ff_id r = i)
               (\<lambda>r. r\<lparr>ff_name := fi_Name inp, ff_description := Some (fi_Description inp), ff_enabled := fi_Enabled inp,
                       ff_metadata := Some (fi_Metadata inp), ff_updated_at := Some (clock s)\<rparr>) (t_flags s)\<rparr>)) s of
        (Inl e, s1) \<Rightarrow> (Inl e, s1)
      | (Inr _, s1) \<Rightarrow> repo_GetByID i s1)"

text \<open>\<open>Toggle\<close> reads \<open>flag.Enabled\<close> without asking whether there is a flag.\<close>

definition repo_Toggle :: "int \<Rightarrow> db \<Rightarrow> (dberr + feature_flag option) go_result \<times> db" where
  "repo_Toggle i s =
     (case repo_GetByID i s of
        (Inl e, s1) \<Rightarrow> (Returns (Inl e), s1)
      | (Inr None, s1) \<Rightarrow> (Panics, s1)
      | (Inr (Some f), s1) \<Rightarrow>
          (case run (\<lambda>s. (Inr (), s\<lparr>t_flags := update_where (\<lambda>r. ff_id r = i)
                 (\<lambda>r. r\<lparr>ff_enabled := \<not> fl_Enabled f, ff_updated_at := Some (clock s)\<rparr>) (t_flags s)\<rparr>)) s1 of
             (Inl e, s2) \<Rightarrow> (Returns (Inl e), s2)
           | (Inr _, s2) \<Rightarrow> apfst Returns (repo_GetByID i s2)))"

definition repo_DeleteFlag :: "int \<Rightarrow> unit query" where
  "repo_DeleteFlag i = run (\<lambda>s. (Inr (), s\<lparr>t_flags := filter (\<lambda>r. ff_id r \<noteq> i) (t_flags s)\<rparr>))"

section \<open>The manager\<close>

text \<open>The cache, what was told to the listeners, and the database.\<close>

record flags =
  fm_cache :: "string \<rightharpoonup> feature_flag"
  fm_notified :: "(string \<times> bool) list"
  fm_db :: db

definition makeKey :: "string \<Rightarrow> string \<Rightarrow> string" where
  "makeKey name tenant = name @ '':'' @ tenant"

definition invalidateCache :: "string \<Rightarrow> string \<Rightarrow> flags \<Rightarrow> flags" where
  "invalidateCache name tenant m = m\<lparr>fm_cache := (fm_cache m)(makeKey name tenant := None)\<rparr>"

definition setToCache :: "string \<Rightarrow> feature_flag \<Rightarrow> flags \<Rightarrow> flags" where
  "setToCache k f m = m\<lparr>fm_cache := (fm_cache m)(k \<mapsto> f)\<rparr>"

definition notifyListeners :: "string \<Rightarrow> bool \<Rightarrow> flags \<Rightarrow> flags" where
  "notifyListeners name enabled m = m\<lparr>fm_notified := fm_notified m @ [(name, enabled)]\<rparr>"

text \<open>The collector may take any of the flags only the cache points to.\<close>

definition collect :: "string set \<Rightarrow> flags \<Rightarrow> flags" where
  "collect gone m = m\<lparr>fm_cache := fm_cache m |` (- gone)\<rparr>"

definition on_db :: "'a query \<Rightarrow> flags \<Rightarrow> (dberr + 'a) \<times> flags" where
  "on_db q m = (case q (fm_db m) of (r, d) \<Rightarrow> (r, m\<lparr>fm_db := d\<rparr>))"

definition IsEnabled :: "string \<Rightarrow> string \<Rightarrow> flags \<Rightarrow> bool \<times> flags" where
  "IsEnabled name tenant m =
     (case fm_cache m (makeKey name tenant) of
        Some f \<Rightarrow> (fl_Enabled f, m)
      | None \<Rightarrow>
          (case on_db (repo_GetByName name tenant) m of
             (Inl e, m1) \<Rightarrow> (False, m1)
           | (Inr None, m1) \<Rightarrow> (False, m1)
           | (Inr (Some f), m1) \<Rightarrow> (fl_Enabled f, setToCache (makeKey name tenant) f m1)))"

definition flag_metadata :: "feature_flag \<Rightarrow> (string \<times> json) list option" where
  "flag_metadata f =
     (if fl_Metadata f = '''' then None
      else case json_parse (fl_Metadata f) of Some (JObj ms) \<Rightarrow> Some ms | _ \<Rightarrow> None)"

definition GetMetadata :: "string \<Rightarrow> string \<Rightarrow> flags \<Rightarrow> (string \<times> json) list option \<times> flags" where
  "GetMetadata name tenant m =
     (case fm_cache m (makeKey name tenant) of
        Some f \<Rightarrow> (flag_metadata f, m)
      | None \<Rightarrow>
          (case on_db (repo_GetByName name tenant) m of
             (Inr (Some f), m1) \<Rightarrow> (flag_metadata f, setToCache (makeKey name tenant) f m1)
           | (_, m1) \<Rightarrow> (None, m1)))"

definition GetMetadataValue :: "string \<Rightarrow> string \<Rightarrow> string \<Rightarrow> flags \<Rightarrow> json option \<times> flags" where
  "GetMetadataValue name tenant k m =
     (case GetMetadata name tenant m of
        (None, m1) \<Rightarrow> (None, m1) | (Some ms, m1) \<Rightarrow> (map_of (rev ms) k, m1))"

text \<open>\<open>Enable\<close> and \<open>Disable\<close> differ in the value they set.\<close>

definition set_enabled :: "bool \<Rightarrow> string \<Rightarrow> string \<Rightarrow> flags \<Rightarrow> dberr option go_result \<times> flags" where
  "set_enabled v name tenant m =
     (case on_db (repo_GetByName name tenant) m of
        (Inl e, m1) \<Rightarrow> (Returns (Some e), m1)
      | (Inr None, m1) \<Rightarrow>
          (case on_db (repo_CreateFlag \<lparr>fi_Name = name, fi_Description = '''', fi_Enabled = v, fi_Metadata = '''', fi_TenantID = tenant\<rparr>) m1 of
             (Inl e, m2) \<Rightarrow> (Returns (Some e), m2) | (Inr _, m2) \<Rightarrow> (Returns None, m2))
      | (Inr (Some f), m1) \<Rightarrow>
          if fl_Enabled f = v then (Returns None, m1)
          else (case repo_Toggle (fl_ID f) (fm_db m1) of
             (Panics, d) \<Rightarrow> (Panics, m1\<lparr>fm_db := d\<rparr>)
           | (Returns (Inl e), d) \<Rightarrow> (Returns (Some e), m1\<lparr>fm_db := d\<rparr>)
           | (Returns (Inr _), d) \<Rightarrow>
               (Returns None, invalidateCache name tenant (notifyListeners name v (m1\<lparr>fm_db := d\<rparr>)))))"

definition Enable :: "string \<Rightarrow> string \<Rightarrow> flags \<Rightarrow> dberr option go_result \<times> flags" where
  "Enable = set_enabled True"

definition Disable :: "string \<Rightarrow> string \<Rightarrow> flags \<Rightarrow> dberr option go_result \<times> flags" where
  "Disable = set_enabled False"

definition manager_GetAll :: "string \<Rightarrow> flags \<Rightarrow> (dberr + feature_flag list) \<times> flags" where
  "manager_GetAll tenant = on_db (repo_GetAll tenant)"

definition manager_Create :: "flag_input \<Rightarrow> flags \<Rightarrow> (dberr + feature_flag) \<times> flags" where
  "manager_Create i m =
     (case on_db (repo_CreateFlag i) m of
        (Inl e, m1) \<Rightarrow> (Inl e, m1) | (Inr f, m1) \<Rightarrow> (Inr f, invalidateCache (fi_Name i) (fi_TenantID i) m1))"

definition manager_Update :: "int \<Rightarrow> flag_input \<Rightarrow> flags \<Rightarrow> (dberr + feature_flag option) \<times> flags" where
  "manager_Update i inp m =
     (case on_db (repo_UpdateFlag i inp) m of
        (Inl e, m1) \<Rightarrow> (Inl e, m1) | (Inr f, m1) \<Rightarrow> (Inr f, invalidateCache (fi_Name inp) (fi_TenantID inp) m1))"

definition manager_Delete :: "int \<Rightarrow> flags \<Rightarrow> dberr option \<times> flags" where
  "manager_Delete i m =
     (case on_db (repo_GetByID i) m of
        (Inl e, m1) \<Rightarrow> (Some e, m1)
      | (Inr f, m1) \<Rightarrow>
          (case on_db (repo_DeleteFlag i) (case f of None \<Rightarrow> m1 | Some f \<Rightarrow> invalidateCache (fl_Name f) (fl_TenantID f) m1) of
             (Inl e, m2) \<Rightarrow> (Some e, m2) | (Inr _, m2) \<Rightarrow> (None, m2)))"

definition Refresh :: "string \<Rightarrow> string \<Rightarrow> flags \<Rightarrow> dberr option \<times> flags" where
  "Refresh name tenant m =
     (case on_db (repo_GetByName name tenant) m of
        (Inl e, m1) \<Rightarrow> (Some e, m1)
      | (Inr None, m1) \<Rightarrow> (None, invalidateCache name tenant m1)
      | (Inr (Some f), m1) \<Rightarrow> (None, setToCache (makeKey name tenant) f m1))"

definition RefreshAll :: "string \<Rightarrow> flags \<Rightarrow> dberr option \<times> flags" where
  "RefreshAll tenant m =
     (case on_db (repo_GetAll tenant) m of
        (Inl e, m1) \<Rightarrow> (Some e, m1)
      | (Inr fs, m1) \<Rightarrow>
          (None, fold (\<lambda>f. setToCache (makeKey (fl_Name f) (fl_TenantID f)) f) fs (m1\<lparr>fm_cache := Map.empty\<rparr>)))"

definition manager_Toggle :: "int \<Rightarrow> flags \<Rightarrow> (dberr + feature_flag option) go_result \<times> flags" where
  "manager_Toggle i m =
     (case repo_Toggle i (fm_db m) of
        (Panics, d) \<Rightarrow> (Panics, m\<lparr>fm_db := d\<rparr>)
      | (Returns (Inl e), d) \<Rightarrow> (Returns (Inl e), m\<lparr>fm_db := d\<rparr>)
      | (Returns (Inr None), d) \<Rightarrow> (Returns (Inr None), m\<lparr>fm_db := d\<rparr>)
      | (Returns (Inr (Some f)), d) \<Rightarrow>
          (Returns (Inr (Some f)),
           notifyListeners (fl_Name f) (fl_Enabled f) (invalidateCache (fl_Name f) (fl_TenantID f) (m\<lparr>fm_db := d\<rparr>))))"

section \<open>The handlers\<close>

text \<open>\<open>time_json\<close> is the JSON text of a time. A response is its status and body.\<close>

definition flag_json :: "(instant \<Rightarrow> string) \<Rightarrow> feature_flag \<Rightarrow> json" where
  "flag_json time_json f =
     JObj ([(''id'', JInt (fl_ID f)), (''name'', JStr (fl_Name f)), (''description'', JStr (fl_Description f)),
            (''enabled'', JBool (fl_Enabled f))] @
           (if fl_Metadata f = '''' then [] else [(''metadata'', JStr (fl_Metadata f))]) @
           [(''tenant_id'', JStr (fl_TenantID f)), (''created_at'', JStr (time_json (fl_CreatedAt f))),
            (''updated_at'', JStr (time_json (fl_UpdatedAt f)))])"

definition flag_tenant :: "string \<Rightarrow> string" where
  "flag_tenant header = (if header = '''' then ''default'' else header)"

definition decode_input :: "string \<Rightarrow> flag_input option" where
  "decode_input body =
     (case decode_struct body of
        None \<Rightarrow> None
      | Some ms \<Rightarrow>
          (case (string_field ''name'' ms, string_field ''description'' ms, bool_field ''enabled'' ms,
                 string_field ''metadata'' ms, string_field ''tenant_id'' ms) of
             (Some n, Some d, Some e, Some md, Some t) \<Rightarrow>
               Some \<lparr>fi_Name = n, fi_Description = d, fi_Enabled = e, fi_Metadata = md, fi_TenantID = t\<rparr>
           | _ \<Rightarrow> None))"

definition listFlags :: "(instant \<Rightarrow> string) \<Rightarrow> string \<Rightarrow> flags \<Rightarrow> response \<times> flags" where
  "listFlags tj header m =
     (case manager_GetAll (flag_tenant header) m of
        (Inl e, m1) \<Rightarrow> (respondError ''Failed to list feature flags'' 500, m1)
      | (Inr fs, m1) \<Rightarrow> (respondJSON (JArr (map (flag_json tj) fs)) 200, m1))"

definition getFlag :: "(instant \<Rightarrow> string) \<Rightarrow> string \<Rightarrow> string \<Rightarrow> flags \<Rightarrow> response \<times> flags" where
  "getFlag tj name header m =
     (case manager_GetAll (flag_tenant header) m of
        (Inl e, m1) \<Rightarrow> (respondError ''Failed to get feature flag'' 500, m1)
      | (Inr fs, m1) \<Rightarrow>
          (case find (\<lambda>f. fl_Name f = name) fs of
             None \<Rightarrow> (respondError ''Feature flag not found'' 404, m1)
           | Some f \<Rightarrow> (respondJSON (flag_json tj f) 200, m1)))"

definition createFlag :: "(instant \<Rightarrow> string) \<Rightarrow> string \<Rightarrow> flags \<Rightarrow> response \<times> flags" where
  "createFlag tj body m =
     (case decode_input body of
        None \<Rightarrow> (respondError ''Invalid request body'' 400, m)
      | Some i \<Rightarrow>
          if fi_Name i = '''' then (respondError ''Name is required'' 400, m)
          else (case manager_Create (i\<lparr>fi_TenantID := flag_tenant (fi_TenantID i)\<rparr>) m of
             (Inl e, m1) \<Rightarrow> (respondError ''Failed to create feature flag'' 500, m1)
           | (Inr f, m1) \<Rightarrow> (respondJSON (flag_json tj f) 201, m1)))"

definition updateFlag :: "(instant \<Rightarrow> string) \<Rightarrow> string \<Rightarrow> string \<Rightarrow> flags \<Rightarrow> response \<times> flags" where
  "updateFlag tj id_text body m =
     (case parse_int id_text of
        Inl _ \<Rightarrow> (respondError ''Invalid ID'' 400, m)
      | Inr i \<Rightarrow>
          (case decode_input body of
             None \<Rightarrow> (respondError ''Invalid request body'' 400, m)
           | Some inp \<Rightarrow>
               (case manager_Update i inp m of
                  (Inl e, m1) \<Rightarrow> (respondError ''Failed to update feature flag'' 500, m1)
                | (Inr None, m1) \<Rightarrow> (respondError ''Feature flag not found'' 404, m1)
                | (Inr (Some f), m1) \<Rightarrow> (respondJSON (flag_json tj f) 200, m1))))"

definition deleteFlag :: "string \<Rightarrow> flags \<Rightarrow> response \<times> flags" where
  "deleteFlag id_text m =
     (case parse_int id_text of
        Inl _ \<Rightarrow> (respondError ''Invalid ID'' 400, m)
      | Inr i \<Rightarrow>
          (case manager_Delete i m of
             (Some e, m1) \<Rightarrow> (respondError ''Failed to delete feature flag'' 500, m1)
           | (None, m1) \<Rightarrow> (status_only 204, m1)))"

definition toggleFlag :: "(instant \<Rightarrow> string) \<Rightarrow> string \<Rightarrow> flags \<Rightarrow> response go_result \<times> flags" where
  "toggleFlag tj id_text m =
     (case parse_int id_text of
        Inl _ \<Rightarrow> (Returns (respondError ''Invalid ID'' 400), m)
      | Inr i \<Rightarrow>
          (case manager_Toggle i m of
             (Panics, m1) \<Rightarrow> (Panics, m1)
           | (Returns (Inl e), m1) \<Rightarrow> (Returns (respondError ''Failed to toggle feature flag'' 500), m1)
           | (Returns (Inr None), m1) \<Rightarrow> (Returns (respondError ''Feature flag not found'' 404), m1)
           | (Returns (Inr (Some f)), m1) \<Rightarrow> (Returns (respondJSON (flag_json tj f) 200), m1)))"

definition checkFlag :: "string \<Rightarrow> string \<Rightarrow> flags \<Rightarrow> response \<times> flags" where
  "checkFlag name header m =
     (case IsEnabled name (flag_tenant header) m of
        (b, m1) \<Rightarrow> (respondJSON (JObj [(''enabled'', JBool b), (''name'', JStr name)]) 200, m1))"

section \<open>The table\<close>

definition flags_wf :: "db \<Rightarrow> bool" where
  "flags_wf s \<longleftrightarrow> keyed ff_id (t_flags s) \<and> keyed ff_name (t_flags s) \<and> (\<forall>r\<in>set (t_flags s). ff_id r < seq_flags s)"

lemma flags_wf_blind [simp]: "fault_blind flags_wf"
  by (simp add: fault_blind_def flags_wf_def)

lemma flags_wf_run: "(\<And>s. flags_wf s \<Longrightarrow> flags_wf (snd (q s))) \<Longrightarrow> flags_wf s \<Longrightarrow> flags_wf (snd (run q s))"
  by (rule run_preserves) simp_all

lemma flags_wf_read: "(\<And>t. snd (q t) = t) \<Longrightarrow> flags_wf s \<Longrightarrow> flags_wf (snd (run q s))"
  by (rule flags_wf_run) auto

lemma flags_wf_GetByID: "flags_wf s \<Longrightarrow> flags_wf (snd (repo_GetByID i s))"
  unfolding repo_GetByID_def by (rule flags_wf_read) auto

lemma flags_wf_GetByName: "flags_wf s \<Longrightarrow> flags_wf (snd (repo_GetByName n t s))"
  unfolding repo_GetByName_def by (rule flags_wf_read) auto

lemma flags_wf_CreateFlag: "flags_wf s \<Longrightarrow> flags_wf (snd (repo_CreateFlag i s))"
  unfolding repo_CreateFlag_def
proof (rule run_preserves)
  fix s assume "flags_wf s"
  then show "flags_wf (snd (if fi_Name i \<in> ff_name ` set (t_flags s) then (Inl (UniqueViolation ''feature_flags.name''), s)
              else (Inr \<lparr>fl_ID = seq_flags s, fl_Name = fi_Name i, fl_Description = fi_Description i, fl_Enabled = fi_Enabled i,
                         fl_Metadata = fi_Metadata i, fl_TenantID = fi_TenantID i, fl_CreatedAt = clock s, fl_UpdatedAt = clock s\<rparr>,
                    s\<lparr>t_flags := t_flags s @
                        [\<lparr>ff_id = seq_flags s, ff_name = fi_Name i, ff_description = Some (fi_Description i), ff_enabled = fi_Enabled i,
                          ff_metadata = Some (fi_Metadata i), ff_tenant = fi_TenantID i, ff_created_at = Some (clock s),
                          ff_updated_at = Some (clock s)\<rparr>],
                      seq_flags := seq_flags s + 1\<rparr>)))"
    by (auto simp: flags_wf_def intro!: keyed_append_fresh)
qed simp_all

lemma keyed_set_name:
  assumes "keyed ff_id rs" and "keyed ff_name rs" and "\<forall>r\<in>set rs. ff_id r \<noteq> i \<longrightarrow> ff_name r \<noteq> n"
    and "\<And>r. ff_name (f r) = n" and "\<And>r. ff_id (f r) = ff_id r"
  shows "keyed ff_name (update_where (\<lambda>r. ff_id r = i) f rs)"
  using assms
proof (induction rs)
  case (Cons r rs)
  then have ih: "keyed ff_name (update_where (\<lambda>r. ff_id r = i) f rs)" by (auto simp: keyed_def)
  show ?case
  proof (cases "ff_id r = i")
    case True
    then have "update_where (\<lambda>r. ff_id r = i) f rs = rs"
      using Cons.prems(1) by (intro update_where_none) (auto simp: keyed_def rev_image_eqI)
    moreover have "n \<notin> ff_name ` set rs"
    proof
      assume "n \<in> ff_name ` set rs"
      then obtain x where x: "x \<in> set rs" "ff_name x = n" by auto
      then have "ff_id x \<noteq> ff_id r" using Cons.prems(1) by (auto simp: keyed_def rev_image_eqI)
      with x True Cons.prems(3) show False by auto
    qed
    ultimately show ?thesis using Cons.prems True by (auto simp: keyed_def)
  next
    case False
    have "ff_name r \<notin> ff_name ` set (update_where (\<lambda>r. ff_id r = i) f rs)"
      using Cons.prems False by (auto simp: set_update_where keyed_def)
    with ih False show ?thesis by (simp add: keyed_def)
  qed
qed (simp add: keyed_def)


lemma flags_wf_update:
  assumes "flags_wf s" and "\<And>r. ff_id (f r) = ff_id r" and "\<And>r. ff_name (f r) = ff_name r"
  shows "flags_wf (s\<lparr>t_flags := update_where p f (t_flags s)\<rparr>)"
  using assms by (auto simp: flags_wf_def set_update_where intro!: keyed_update_where)

lemma flags_wf_UpdateFlag:
  assumes wf: "flags_wf s"
  shows "flags_wf (snd (repo_UpdateFlag i inp s))"
proof -
  let ?q = "\<lambda>s. if (\<exists>r\<in>set (t_flags s). ff_id r = i) \<and> (\<exists>r\<in>set (t_flags s). ff_id r \<noteq> i \<and> ff_name r = fi_Name inp)
        then (Inl (UniqueViolation ''feature_flags.name''), s)
        else (Inr (), s\<lparr>t_flags := update_where (\<lambda>r. ff_id r = i)
               (\<lambda>r. r\<lparr>ff_name := fi_Name inp, ff_description := Some (fi_Description inp), ff_enabled := fi_Enabled inp,
                       ff_metadata := Some (fi_Metadata inp), ff_updated_at := Some (clock s)\<rparr>) (t_flags s)\<rparr>)"
  have "flags_wf (snd (?q s))" if wf: "flags_wf s" for s
  proof (cases "\<exists>r\<in>set (t_flags s). ff_id r = i")
    case False
    then have "update_where (\<lambda>r. ff_id r = i) f (t_flags s) = t_flags s" for f
      by (intro update_where_none) auto
    with wf show ?thesis by (simp add: flags_wf_def)
  next
    case True
    let ?f = "\<lambda>r. r\<lparr>ff_name := fi_Name inp, ff_description := Some (fi_Description inp), ff_enabled := fi_Enabled inp,
                       ff_metadata := Some (fi_Metadata inp), ff_updated_at := Some (clock s)\<rparr>"
    show ?thesis
    proof (cases "\<exists>r\<in>set (t_flags s). ff_id r \<noteq> i \<and> ff_name r = fi_Name inp")
      case False
      then have "keyed ff_name (update_where (\<lambda>r. ff_id r = i) ?f (t_flags s))"
        using wf by (intro keyed_set_name [where n = "fi_Name inp"]) (auto simp: flags_wf_def)
      moreover have "keyed ff_id (update_where (\<lambda>r. ff_id r = i) ?f (t_flags s))"
        using wf by (intro keyed_update_where) (auto simp: flags_wf_def)
      ultimately show ?thesis using False wf by (auto simp: flags_wf_def set_update_where)
    qed (use wf True in simp)
  qed
  then have "flags_wf (snd (run ?q s))" using wf by (rule flags_wf_run)
  then show ?thesis
    unfolding repo_UpdateFlag_def by (auto split: prod.split sum.split intro: flags_wf_GetByID)
qed

lemma flags_wf_Toggle:
  assumes "flags_wf s"
  shows "flags_wf (snd (repo_Toggle i s))"
proof -
  let ?set = "\<lambda>b s. (Inr (), s\<lparr>t_flags := update_where (\<lambda>r. ff_id r = i)
                 (\<lambda>r. r\<lparr>ff_enabled := b, ff_updated_at := Some (clock s)\<rparr>) (t_flags s)\<rparr>)"
  have toggled: "flags_wf (snd (run (?set b) s))" if "flags_wf s" for s b
    using _ that by (rule flags_wf_run) (simp add: flags_wf_update)
  obtain r s1 where read: "repo_GetByID i s = (r, s1)" by (cases "repo_GetByID i s")
  have wf1: "flags_wf s1" using flags_wf_GetByID [OF assms, of i] read by simp
  show ?thesis
  proof (cases r)
    case (Inr x)
    show ?thesis
    proof (cases x)
      case (Some f)
      obtain w s2 where written: "run (?set (\<not> fl_Enabled f)) s1 = (w, s2)"
        by (cases "run (?set (\<not> fl_Enabled f)) s1")
      have "flags_wf s2" using toggled [OF wf1, of "\<not> fl_Enabled f"] written by simp
      then show ?thesis
        unfolding repo_Toggle_def read Inr Some prod.case sum.case option.case written
        by (cases w) (simp_all add: flags_wf_GetByID)
    qed (simp add: repo_Toggle_def read Inr wf1)
  qed (simp add: repo_Toggle_def read wf1)
qed

lemma flags_wf_DeleteFlag: "flags_wf s \<Longrightarrow> flags_wf (snd (repo_DeleteFlag i s))"
  unfolding repo_DeleteFlag_def by (rule flags_wf_run) (auto simp: flags_wf_def keyed_filter)

section \<open>What flags promise\<close>

lemma find_only:
  "r \<in> set rs \<Longrightarrow> P r \<Longrightarrow> (\<And>q. q \<in> set rs \<Longrightarrow> P q \<Longrightarrow> q = r) \<Longrightarrow> find P rs = Some r"
proof (induction rs)
  case (Cons x rs)
  show ?case
  proof (cases "P x")
    case True
    with Cons.prems(3) [of x] show ?thesis by simp
  next
    case False
    with Cons.prems(1,2) have "r \<in> set rs" by auto
    from Cons.IH [OF this Cons.prems(2)] Cons.prems(3) False show ?thesis by (metis find.simps(2) list.set_intros(2))
  qed
qed simp

lemma find_flag:
  assumes "flags_wf s" and "r \<in> set (t_flags s)" and "visible_to tenant r"
  shows "find (\<lambda>q. ff_name q = ff_name r \<and> visible_to tenant q) (t_flags s) = Some r"
proof (rule find_only)
  fix q assume "q \<in> set (t_flags s)" and "ff_name q = ff_name r \<and> visible_to tenant q"
  then show "q = r" using assms by (intro keyed_unique [of ff_name "t_flags s"]) (simp_all add: flags_wf_def)
qed (use assms in simp_all)

lemma scan_all_Inl: "r \<in> set rs \<Longrightarrow> scan_flag r = Inl e \<Longrightarrow> \<exists>e'. scan_all rs = Inl e'"
  by (induction rs) (auto split: sum.split)

text \<open>A flag whose metadata is NULL, as those of the migration are, reads as off, switched on or not, and makes
  every listing of a tenant that sees it fail.\<close>

theorem null_metadata_hides_flags:
  assumes wf: "flags_wf (fm_db m)" and ok: "faults (fm_db m) = []" and r: "r \<in> set (t_flags (fm_db m))"
    and vis: "visible_to tenant r" and null: "ff_metadata r = None" and cold: "fm_cache m (makeKey (ff_name r) tenant) = None"
  shows "IsEnabled (ff_name r) tenant m = (False, m) \<and> (\<exists>e. manager_GetAll tenant m = (Inl e, m))"
proof -
  obtain e where e: "scan_flag r = Inl e"
    using null by (cases "ff_description r"; cases "ff_created_at r") (auto simp: scan_flag_def)
  then have "repo_GetByName (ff_name r) tenant (fm_db m) = (Inl e, fm_db m)"
    by (simp add: repo_GetByName_def run_no_faults [OF ok] find_flag [OF wf r vis] scan_row_def)
  then have "IsEnabled (ff_name r) tenant m = (False, m)"
    by (simp add: IsEnabled_def cold on_db_def)
  moreover have "r \<in> set (sort_key ff_name (filter (visible_to tenant) (t_flags (fm_db m))))"
    using r vis by simp
  from scan_all_Inl [OF this e] have "\<exists>e. manager_GetAll tenant m = (Inl e, m)"
    by (auto simp: manager_GetAll_def on_db_def repo_GetAll_def run_no_faults [OF ok])
  ultimately show ?thesis by blast
qed

definition fresh_flags :: flags where
  "fresh_flags = \<lparr>fm_cache = Map.empty, fm_notified = [], fm_db = migrated_db 50\<rparr>"

lemma fresh_flags_ok: "flags_wf (fm_db fresh_flags)" "faults (fm_db fresh_flags) = []"
    "fm_cache fresh_flags k = None" "t_flags (fm_db fresh_flags) = seeded_flags 50"
  by (simp_all add: fresh_flags_def migrated_db_def flags_wf_def seeded_flags_def seed_flag_def keyed_def)

theorem null_metadata_hides_flags_witness:
  "\<not> fst (IsEnabled ''oauth_google'' ''default'' fresh_flags) \<and>
   rp_status (fst (listFlags (\<lambda>_. '''') '''' fresh_flags)) = 500 \<and>
   find (\<lambda>r. ff_name r = ''oauth_google'') (t_flags (fm_db fresh_flags)) = Some (seed_flag 50 6 ''oauth_google'' ''Enable Google OAuth login'' True)"
proof -
  let ?r = "seed_flag 50 6 ''oauth_google'' ''Enable Google OAuth login'' True"
  have "IsEnabled (ff_name ?r) ''default'' fresh_flags = (False, fresh_flags) \<and>
      (\<exists>e. manager_GetAll ''default'' fresh_flags = (Inl e, fresh_flags))"
    using fresh_flags_ok by (intro null_metadata_hides_flags) (auto simp: seeded_flags_def seed_flag_def visible_to_def)
  then show ?thesis
    using fresh_flags_ok(4)
    by (auto simp: listFlags_def flag_tenant_def respondError_def respondJSON_def seeded_flags_def seed_flag_def)
qed


text \<open>Switching a flag that all tenants share is not seen by a tenant that has it in its cache: the handler drops
  the entry of the tenant ''global'', while the entry is under the tenant that asked.\<close>

theorem global_toggle_leaves_stale_cache:
  assumes hit: "fm_cache m (makeKey n tenant) = Some f" and other: "tenant \<noteq> ''global''"
    and toggled: "manager_Toggle i m = (Returns (Inr (Some g)), m1)" and global: "fl_Name g = n" "fl_TenantID g = ''global''"
  shows "IsEnabled n tenant m1 = (fl_Enabled f, m1)"
proof -
  have "fm_cache m1 (makeKey n tenant) = fm_cache m (makeKey n tenant)"
    using toggled global other
    by (auto simp: manager_Toggle_def notifyListeners_def invalidateCache_def makeKey_def
        split: prod.splits go_result.splits sum.splits option.splits)
  then show ?thesis by (simp add: IsEnabled_def hit)
qed

lemma run_flag_ok:
  "faults s = [] \<Longrightarrow> flags_wf s \<Longrightarrow> r \<in> set (t_flags s) \<Longrightarrow> repo_GetByID (ff_id r) s = (map_sum id Some (scan_flag r), s)"
  by (simp add: repo_GetByID_def run_no_faults scan_row_def flags_wf_def keyed_find)


definition shared_flag :: "flags \<Rightarrow> flags" where
  "shared_flag m = snd (IsEnabled ''beta'' ''default''
     (snd (manager_Create \<lparr>fi_Name = ''beta'', fi_Description = '''', fi_Enabled = False, fi_Metadata = ''{}'', fi_TenantID = ''global''\<rparr> m)))"

theorem global_toggle_leaves_stale_cache_witness:
  "\<not> fst (IsEnabled ''beta'' ''default'' (snd (manager_Toggle 9 (shared_flag fresh_flags)))) \<and>
   fst (IsEnabled ''beta'' ''other'' (snd (manager_Toggle 9 (shared_flag fresh_flags))))"
proof -
  let ?m = "shared_flag fresh_flags"
  have cached: "map_option fl_Enabled (fm_cache ?m (makeKey ''beta'' ''default'')) = Some False"
    by code_simp
  then obtain f where f: "fm_cache ?m (makeKey ''beta'' ''default'') = Some f" "\<not> fl_Enabled f" by auto
  have "(case fst (manager_Toggle 9 ?m) of Returns (Inr (Some g)) \<Rightarrow> fl_Name g = ''beta'' \<and> fl_TenantID g = ''global'' | _ \<Rightarrow> False)"
    by code_simp
  then obtain g where g: "fst (manager_Toggle 9 ?m) = Returns (Inr (Some g))" "fl_Name g = ''beta''" "fl_TenantID g = ''global''"
    by (auto split: go_result.splits sum.splits option.splits)
  then have "manager_Toggle 9 ?m = (Returns (Inr (Some g)), snd (manager_Toggle 9 ?m))"
    by (metis prod.collapse)
  from global_toggle_leaves_stale_cache [OF f(1) _ this g(2,3)] f(2)
  have "\<not> fst (IsEnabled ''beta'' ''default'' (snd (manager_Toggle 9 ?m)))" by simp
  moreover have "fst (IsEnabled ''beta'' ''other'' (snd (manager_Toggle 9 ?m)))" by code_simp
  ultimately show ?thesis by simp
qed

section \<open>Enabling\<close>

lemma IsEnabled_row:
  assumes "faults (fm_db m) = []" and "fm_cache m (makeKey n tenant) = None"
    and "find (\<lambda>r. ff_name r = n \<and> visible_to tenant r) (t_flags (fm_db m)) = Some r" and "scan_flag r = Inr f"
  shows "fst (IsEnabled n tenant m) = fl_Enabled f"
  using assms by (simp add: IsEnabled_def on_db_def repo_GetByName_def run_no_faults scan_row_def)


lemma scan_flag_Inr:
  "scan_flag r = Inr f \<Longrightarrow> fl_ID f = ff_id r \<and> fl_Enabled f = ff_enabled r \<and>
     (\<exists>g. scan_flag (r\<lparr>ff_enabled := b, ff_updated_at := Some c\<rparr>) = Inr g \<and> fl_Enabled g = b)"
  by (auto simp: scan_flag_def split: option.splits)

lemma toggle_row:
  assumes ok: "faults s = []" and wf: "flags_wf s" and r: "r \<in> set (t_flags s)" and f: "scan_flag r = Inr f"
  shows "repo_Toggle (ff_id r) s =
     (Returns (map_sum id Some (scan_flag (r\<lparr>ff_enabled := \<not> ff_enabled r, ff_updated_at := Some (clock s)\<rparr>))),
      s\<lparr>t_flags := update_where (\<lambda>q. ff_id q = ff_id r)
           (\<lambda>q. q\<lparr>ff_enabled := \<not> ff_enabled r, ff_updated_at := Some (clock s)\<rparr>) (t_flags s)\<rparr>)"
proof -
  have found: "find (\<lambda>q. ff_id q = ff_id r) (t_flags s) = Some r"
    using wf r by (simp add: flags_wf_def keyed_find)
  have "fl_Enabled f = ff_enabled r" using scan_flag_Inr [OF f] by simp
  then show ?thesis
    by (simp add: repo_Toggle_def repo_GetByID_def run_no_faults ok found f scan_row_def find_update_where)
qed

text \<open>After \<open>Enable\<close> or \<open>Disable\<close> returned no error, a tenant whose entry is not cached reads the value set: whether
  the flag was created, switched or already had it.\<close>

theorem set_enabled_takes_effect:
  assumes ok: "faults (fm_db m) = []" and wf: "flags_wf (fm_db m)" and cold: "fm_cache m (makeKey n tenant) = None"
    and set: "set_enabled v n tenant m = (Returns None, m1)"
  shows "fst (IsEnabled n tenant m1) = v"
proof (cases "find (\<lambda>r. ff_name r = n \<and> visible_to tenant r) (t_flags (fm_db m))")
  case None
  with set show ?thesis
    by (auto simp: set_enabled_def IsEnabled_def on_db_def repo_GetByName_def repo_CreateFlag_def run_no_faults ok cold
        find_append visible_to_def scan_flag_def scan_row_def split: if_splits)
next
  case (Some r)
  then have r: "r \<in> set (t_flags (fm_db m))" and n: "ff_name r = n" and vis: "visible_to tenant r"
    by (auto simp: find_Some_iff in_set_conv_nth)
  have get: "repo_GetByName n tenant (fm_db m) = (map_sum id Some (scan_flag r), fm_db m)"
    using Some by (simp add: repo_GetByName_def run_no_faults ok scan_row_def)
  with set obtain f where f: "scan_flag r = Inr f"
    by (cases "scan_flag r") (auto simp: set_enabled_def on_db_def)
  from scan_flag_Inr [OF f] have id: "fl_ID f = ff_id r" and en: "fl_Enabled f = ff_enabled r" by simp_all
  show ?thesis
  proof (cases "ff_enabled r = v")
    case True
    with set get f en have "m1 = m" by (simp add: set_enabled_def on_db_def)
    with IsEnabled_row [OF ok cold Some f] en True show ?thesis by simp
  next
    case False
    let ?f = "\<lambda>q. q\<lparr>ff_enabled := \<not> ff_enabled r, ff_updated_at := Some (clock (fm_db m))\<rparr>"
    from scan_flag_Inr [OF f] obtain g where g: "scan_flag (?f r) = Inr g" "fl_Enabled g = (\<not> ff_enabled r)" by blast
    from set have m1: "m1 = invalidateCache n tenant (notifyListeners n v
        (m\<lparr>fm_db := (fm_db m)\<lparr>t_flags := update_where (\<lambda>q. ff_id q = ff_id r) ?f (t_flags (fm_db m))\<rparr>\<rparr>))"
      using False by (simp add: set_enabled_def on_db_def get f en id toggle_row [OF ok wf r f] g)
    have "find (\<lambda>r. ff_name r = n \<and> visible_to tenant r) (t_flags (fm_db m1)) = Some (?f r)"
      using Some by (simp add: m1 invalidateCache_def notifyListeners_def find_update_where visible_to_def)
    then have "fst (IsEnabled n tenant m1) = fl_Enabled g"
      using ok g(1) by (intro IsEnabled_row) (simp_all add: m1 invalidateCache_def notifyListeners_def)
    with g(2) False show ?thesis by simp
  qed
qed

theorem set_enabled_takes_effect_witness:
  "fst (IsEnabled ''beta'' ''t'' (snd (Enable ''beta'' ''t'' fresh_flags)))"
proof -
  have "fst (Enable ''beta'' ''t'' fresh_flags) = Returns None" by code_simp
  then have "set_enabled True ''beta'' ''t'' fresh_flags = (Returns None, snd (Enable ''beta'' ''t'' fresh_flags))"
    by (metis Enable_def prod.collapse)
  from set_enabled_takes_effect [OF fresh_flags_ok(2,1) _ this] show ?thesis by (simp add: fresh_flags_ok)
qed

text \<open>Switching an id that no flag has panics, where the handler means to answer 404; nothing is changed.\<close>

theorem toggle_of_missing_flag_panics:
  assumes "faults (fm_db m) = []" and "i \<notin> ff_id ` set (t_flags (fm_db m))" and "parse_int text = Inr i"
  shows "toggleFlag tj text m = (Panics, m)"
proof -
  have "find (\<lambda>r. ff_id r = i) (t_flags (fm_db m)) = None" using assms(2) by (auto simp: find_None_iff)
  then have "repo_Toggle i (fm_db m) = (Panics, fm_db m)"
    by (simp add: repo_Toggle_def repo_GetByID_def run_no_faults assms(1) scan_row_def)
  then show ?thesis by (simp add: toggleFlag_def manager_Toggle_def assms(3))
qed

theorem toggle_of_missing_flag_panics_witness:
  "toggleFlag (\<lambda>_. '''') ''99'' fresh_flags = (Panics, fresh_flags)"
  by (rule toggle_of_missing_flag_panics [where i = 99])
    (simp_all add: fresh_flags_ok seeded_flags_def seed_flag_def, code_simp)

end
