(* ===== verification/Go_Sync.thy ===== *)
theory Go_Sync
  imports Goth_Prelude
begin

text \<open>
  Goroutines over shared memory and the mutexes of \<open>sync.RWMutex\<close>. A goroutine is its local
  variables and the instructions it has left; a step lets one goroutine execute one instruction or
  starts a goroutine. \<open>RLock\<close> may pass a waiting writer, which \<open>sync\<close> does not allow: the steps are
  a superset of those of the program, so what no step does the program does not do.
\<close>

section \<open>Machine\<close>

datatype ('m, 's, 'l) instr =
    Lock 'm
  | Unlock 'm
  | RLock 'm
  | RUnlock 'm
  | Do "'l \<times> 's \<Rightarrow> 'l \<times> 's"

text \<open>The operation a goroutine runs, its local variables, and the instructions it has left.\<close>

record ('op, 'm, 's, 'l) routine =
  r_op :: 'op
  r_local :: 'l
  r_code :: "('m, 's, 'l) instr list"

record ('op, 'm, 's, 'l) world =
  w_shared :: 's
  w_writing :: "'m \<Rightarrow> bool"
  w_readers :: "'m \<Rightarrow> nat"
  w_routines :: "('op, 'm, 's, 'l) routine list"

text \<open>The instruction of goroutine \<open>i\<close>; \<open>None\<close> when it has none left or has to wait.\<close>

definition run_routine :: "nat \<Rightarrow> ('op, 'm, 's, 'l) world \<Rightarrow> ('op, 'm, 's, 'l) world option" where
  "run_routine i w =
     (if length (w_routines w) \<le> i then None
      else let r = w_routines w ! i in
        (case r_code r of
           [] \<Rightarrow> None
         | c # cs \<Rightarrow>
             (case c of
                Lock m \<Rightarrow>
                  if w_writing w m \<or> 0 < w_readers w m then None
                  else Some (w\<lparr>w_writing := (w_writing w)(m := True), w_routines := (w_routines w)[i := r\<lparr>r_code := cs\<rparr>]\<rparr>)
              | Unlock m \<Rightarrow>
                  Some (w\<lparr>w_writing := (w_writing w)(m := False), w_routines := (w_routines w)[i := r\<lparr>r_code := cs\<rparr>]\<rparr>)
              | RLock m \<Rightarrow>
                  if w_writing w m then None
                  else Some (w\<lparr>w_readers := (w_readers w)(m := w_readers w m + 1), w_routines := (w_routines w)[i := r\<lparr>r_code := cs\<rparr>]\<rparr>)
              | RUnlock m \<Rightarrow>
                  Some (w\<lparr>w_readers := (w_readers w)(m := w_readers w m - 1), w_routines := (w_routines w)[i := r\<lparr>r_code := cs\<rparr>]\<rparr>)
              | Do f \<Rightarrow>
                  (case f (r_local r, w_shared w) of (l, s) \<Rightarrow>
                    Some (w\<lparr>w_shared := s, w_routines := (w_routines w)[i := r\<lparr>r_local := l, r_code := cs\<rparr>]\<rparr>)))))"

definition start_routine :: "'op \<Rightarrow> 'l \<Rightarrow> ('m, 's, 'l) instr list \<Rightarrow> ('op, 'm, 's, 'l) world \<Rightarrow> ('op, 'm, 's, 'l) world" where
  "start_routine op l code w = w\<lparr>w_routines := w_routines w @ [\<lparr>r_op = op, r_local = l, r_code = code\<rparr>]\<rparr>"

definition idle :: "'s \<Rightarrow> ('op, 'm, 's, 'l) world" where
  "idle s = \<lparr>w_shared = s, w_writing = \<lambda>_. False, w_readers = \<lambda>_. 0, w_routines = []\<rparr>"

text \<open>A goroutine that no other disturbs: what it has computed when it ends, or \<open>None\<close> when it waits for ever.\<close>

fun run_alone :: "nat \<Rightarrow> nat \<Rightarrow> ('op, 'm, 's, 'l) world \<Rightarrow> ('l \<times> 's) option" where
  "run_alone i fuel w =
     (case r_code (w_routines w ! i) of
        [] \<Rightarrow> Some (r_local (w_routines w ! i), w_shared w)
      | _ \<Rightarrow> (case fuel of
          0 \<Rightarrow> None
        | Suc n \<Rightarrow> (case run_routine i w of None \<Rightarrow> None | Some w' \<Rightarrow> run_alone i n w')))"

declare run_alone.simps [simp del]

text \<open>Each instruction of the code is executed once, so its length is fuel enough.\<close>

definition call_alone :: "'l \<Rightarrow> ('m, 's, 'l) instr list \<Rightarrow> 's \<Rightarrow> ('l \<times> 's) option" where
  "call_alone l code s = run_alone 0 (length code) (start_routine () l code (idle s))"

section \<open>Locks and the code that is left\<close>

text \<open>How many write locks on \<open>m\<close> the rest of a goroutine still gives back, net of those it takes.\<close>

fun write_debt :: "'m \<Rightarrow> ('m, 's, 'l) instr list \<Rightarrow> int" where
  "write_debt m [] = 0"
| "write_debt m (c # cs) = write_debt m cs +
     (case c of Lock m' \<Rightarrow> if m' = m then -1 else 0 | Unlock m' \<Rightarrow> if m' = m then 1 else 0 | _ \<Rightarrow> 0)"

fun read_debt :: "'m \<Rightarrow> ('m, 's, 'l) instr list \<Rightarrow> int" where
  "read_debt m [] = 0"
| "read_debt m (c # cs) = read_debt m cs +
     (case c of RLock m' \<Rightarrow> if m' = m then -1 else 0 | RUnlock m' \<Rightarrow> if m' = m then 1 else 0 | _ \<Rightarrow> 0)"

fun pays :: "'m \<Rightarrow> ('m, 's, 'l) instr list \<Rightarrow> bool" where
  "pays m [] = True"
| "pays m (c # cs) \<longleftrightarrow> pays m cs \<and> 0 \<le> write_debt m (c # cs) \<and> 0 \<le> read_debt m (c # cs)"

text \<open>Code that gives back exactly the locks it takes.\<close>

definition balanced :: "'m \<Rightarrow> ('m, 's, 'l) instr list \<Rightarrow> bool" where
  "balanced m cs \<longleftrightarrow> pays m cs \<and> write_debt m cs = 0 \<and> read_debt m cs = 0"

lemma pays_debts: "pays m cs \<Longrightarrow> 0 \<le> write_debt m cs \<and> 0 \<le> read_debt m cs"
  by (cases cs) auto

definition routines_write_debt :: "'m \<Rightarrow> ('op, 'm, 's, 'l) routine list \<Rightarrow> int" where
  "routines_write_debt m rs = sum_list (map (\<lambda>r. write_debt m (r_code r)) rs)"

definition routines_read_debt :: "'m \<Rightarrow> ('op, 'm, 's, 'l) routine list \<Rightarrow> int" where
  "routines_read_debt m rs = sum_list (map (\<lambda>r. read_debt m (r_code r)) rs)"

lemma sum_list_update_at:
  "i < length xs \<Longrightarrow> sum_list (map f (xs[i := x])) = sum_list (map f xs) + f x - (f (xs ! i) :: int)"
  by (induction xs arbitrary: i) (auto split: nat.split)

text \<open>Who holds a lock owes it: a write lock is owed by one goroutine, and then nobody reads.\<close>

definition locks_owed :: "('op, 'm, 's, 'l) world \<Rightarrow> bool" where
  "locks_owed w \<longleftrightarrow>
     (\<forall>m. routines_write_debt m (w_routines w) = (if w_writing w m then 1 else 0) \<and>
          routines_read_debt m (w_routines w) = int (w_readers w m) \<and>
          (w_writing w m \<longrightarrow> w_readers w m = 0) \<and>
          (\<forall>r\<in>set (w_routines w). pays m (r_code r)))"

lemma locks_owed_idle: "locks_owed (idle s)"
  by (simp add: locks_owed_def idle_def routines_write_debt_def routines_read_debt_def)

lemma locks_owed_start:
  "locks_owed w \<Longrightarrow> (\<And>m. balanced m code) \<Longrightarrow> locks_owed (start_routine op l code w)"
  by (auto simp: locks_owed_def start_routine_def routines_write_debt_def routines_read_debt_def balanced_def)

lemma member_debt_le:
  assumes "\<And>r. r \<in> set rs \<Longrightarrow> (0::int) \<le> f r" and "r \<in> set rs"
  shows "f r \<le> sum_list (map f rs)"
  using assms
proof (induction rs)
  case (Cons x rs)
  have "0 \<le> sum_list (map f rs)" using Cons.prems(1) by (intro sum_list_nonneg) auto
  with Cons show ?case by fastforce
qed simp

lemma locks_owed_writer:
  assumes "locks_owed w" and "r \<in> set (w_routines w)"
  shows "write_debt m (r_code r) \<le> (if w_writing w m then 1 else 0)" and "read_debt m (r_code r) \<le> int (w_readers w m)"
proof -
  have nonneg: "0 \<le> write_debt m (r_code r) \<and> 0 \<le> read_debt m (r_code r)" if "r \<in> set (w_routines w)" for r
    using assms(1) that by (intro pays_debts) (simp add: locks_owed_def)
  show "write_debt m (r_code r) \<le> (if w_writing w m then 1 else 0)"
    using member_debt_le [of "w_routines w" "\<lambda>r. write_debt m (r_code r)" r] nonneg assms
    by (simp add: locks_owed_def routines_write_debt_def)
  show "read_debt m (r_code r) \<le> int (w_readers w m)"
    using member_debt_le [of "w_routines w" "\<lambda>r. read_debt m (r_code r)" r] nonneg assms
    by (simp add: locks_owed_def routines_read_debt_def)
qed

text \<open>What an instruction does to the locks and the shared state.\<close>

definition effect :: "('m, 's, 'l) instr \<Rightarrow> 'l \<Rightarrow> ('op, 'm, 's, 'l) world \<Rightarrow> 'l \<Rightarrow> ('op, 'm, 's, 'l) world \<Rightarrow> bool" where
  "effect c l w l' w' \<longleftrightarrow>
     (case c of
        Lock m \<Rightarrow> \<not> w_writing w m \<and> w_readers w m = 0 \<and> w_writing w' = (w_writing w)(m := True) \<and>
          w_readers w' = w_readers w \<and> w_shared w' = w_shared w \<and> l' = l
      | Unlock m \<Rightarrow> w_writing w' = (w_writing w)(m := False) \<and> w_readers w' = w_readers w \<and> w_shared w' = w_shared w \<and> l' = l
      | RLock m \<Rightarrow> \<not> w_writing w m \<and> w_readers w' = (w_readers w)(m := w_readers w m + 1) \<and>
          w_writing w' = w_writing w \<and> w_shared w' = w_shared w \<and> l' = l
      | RUnlock m \<Rightarrow> w_readers w' = (w_readers w)(m := w_readers w m - 1) \<and>
          w_writing w' = w_writing w \<and> w_shared w' = w_shared w \<and> l' = l
      | Do f \<Rightarrow> f (l, w_shared w) = (l', w_shared w') \<and> w_writing w' = w_writing w \<and> w_readers w' = w_readers w)"

lemma run_routine_cases:
  assumes "run_routine i w = Some w'"
  obtains c cs r' where "i < length (w_routines w)" and "r_code (w_routines w ! i) = c # cs"
    and "w_routines w' = (w_routines w)[i := r']" and "r_code r' = cs" and "r_op r' = r_op (w_routines w ! i)"
    and "effect c (r_local (w_routines w ! i)) w (r_local r') w'"
proof -
  from assms obtain c cs where at: "i < length (w_routines w)" "r_code (w_routines w ! i) = c # cs"
    by (auto simp: run_routine_def Let_def split: if_splits list.splits)
  have "\<exists>r'. w_routines w' = (w_routines w)[i := r'] \<and> r_code r' = cs \<and> r_op r' = r_op (w_routines w ! i) \<and>
      effect c (r_local (w_routines w ! i)) w (r_local r') w'"
    using assms at
    by (cases c) (auto simp: run_routine_def effect_def Let_def split: if_splits prod.splits intro!: exI)
  with at that show thesis by blast
qed

lemma routines_debt_update:
  assumes "i < length rs" and "r_code (rs ! i) = c # cs" and "r_code r' = cs"
  shows "routines_write_debt m (rs[i := r']) = routines_write_debt m rs + write_debt m cs - write_debt m (c # cs)"
    and "routines_read_debt m (rs[i := r']) = routines_read_debt m rs + read_debt m cs - read_debt m (c # cs)"
  using assms by (simp_all add: routines_write_debt_def routines_read_debt_def sum_list_update_at)

lemma locks_owed_run:
  assumes "locks_owed w" and "run_routine i w = Some w'"
  shows "locks_owed w'"
proof -
  from assms(2) obtain c cs r' where at: "i < length (w_routines w)" "r_code (w_routines w ! i) = c # cs" "r_code r' = cs"
    and w': "w_routines w' = (w_routines w)[i := r']"
    and eff: "effect c (r_local (w_routines w ! i)) w (r_local r') w'"
    by (rule run_routine_cases)
  let ?r = "w_routines w ! i"
  have r: "?r \<in> set (w_routines w)" using at(1) by simp
  have pays: "pays m (c # cs)" for m using assms(1) r at(2) unfolding locks_owed_def by metis
  have wd: "write_debt m (c # cs) \<le> (if w_writing w m then 1 else 0)" for m
    using locks_owed_writer(1) [OF assms(1) r, of m] at(2) by simp
  have rd: "read_debt m (c # cs) \<le> int (w_readers w m)" for m
    using locks_owed_writer(2) [OF assms(1) r, of m] at(2) by simp
  show ?thesis
    unfolding locks_owed_def
  proof (intro allI conjI)
    fix m
    have old: "routines_write_debt m (w_routines w) = (if w_writing w m then 1 else 0)"
      "routines_read_debt m (w_routines w) = int (w_readers w m)" "w_writing w m \<longrightarrow> w_readers w m = 0"
      using assms(1) by (auto simp: locks_owed_def)
    have nonneg: "0 \<le> write_debt m cs" "0 \<le> read_debt m cs" using pays [of m] pays_debts [of m cs] by auto
    show "routines_write_debt m (w_routines w') = (if w_writing w' m then 1 else 0)"
      unfolding w' routines_debt_update [OF at] old
      using eff wd [of m] nonneg by (cases c) (auto simp: effect_def split: if_splits)
    show "routines_read_debt m (w_routines w') = int (w_readers w' m)"
      unfolding w' routines_debt_update [OF at] old
      using eff rd [of m] nonneg by (cases c) (auto simp: effect_def split: if_splits)
    show "w_writing w' m \<longrightarrow> w_readers w' m = 0"
      using eff old(3) by (cases c) (auto simp: effect_def split: if_splits)
    have "pays m cs" using pays [of m] by simp
    then show "\<forall>r\<in>set (w_routines w'). pays m (r_code r)"
      using assms(1) at(3) set_update_subset_insert [of "w_routines w" i r']
      by (auto simp: w' locks_owed_def)
  qed
qed

section \<open>Programs whose operations balance their locks\<close>

inductive steps :: "('op \<Rightarrow> 'l) \<Rightarrow> ('op \<Rightarrow> ('m, 's, 'l) instr list) \<Rightarrow> ('op, 'm, 's, 'l) world \<Rightarrow> ('op, 'm, 's, 'l) world \<Rightarrow> bool"
  for entry code w where
  steps_refl: "steps entry code w w"
| steps_start: "steps entry code w w' \<Longrightarrow> steps entry code w (start_routine op (entry op) (code op) w')"
| steps_run: "steps entry code w w' \<Longrightarrow> run_routine i w' = Some w'' \<Longrightarrow> steps entry code w w''"

text \<open>The lock a goroutine asks for next.\<close>

definition asks_for :: "'m \<Rightarrow> ('m, 's, 'l) instr list \<Rightarrow> bool" where
  "asks_for m cs \<longleftrightarrow> (\<exists>cs'. cs = Lock m # cs' \<or> cs = RLock m # cs')"

lemma asks_for_code [code]:
  "asks_for m cs = (case cs of Lock m' # _ \<Rightarrow> m' = m | RLock m' # _ \<Rightarrow> m' = m | _ \<Rightarrow> False)"
  by (auto simp: asks_for_def split: list.splits instr.splits)

locale lock_discipline =
  fixes entry :: "'op \<Rightarrow> 'l" and code :: "'op \<Rightarrow> ('m, 's, 'l) instr list"
  assumes balanced_code: "balanced m (code op)"
begin

lemma locks_owed_steps: "steps entry code w w' \<Longrightarrow> locks_owed w \<Longrightarrow> locks_owed w'"
proof (induction rule: steps.induct)
  case (steps_start w' op)
  then show ?case by (simp add: locks_owed_start balanced_code)
next
  case (steps_run w' i w'')
  then show ?case by (metis locks_owed_run)
qed

lemma locks_owed_reachable: "steps entry code (idle s) w \<Longrightarrow> locks_owed w"
  by (rule locks_owed_steps [OF _ locks_owed_idle])

text \<open>Two goroutines that both still owe a write lock are the same.\<close>

lemma mutual_exclusion:
  assumes "steps entry code (idle s) w" and "i < length (w_routines w)" "j < length (w_routines w)"
    and "0 < write_debt m (r_code (w_routines w ! i))" "0 < write_debt m (r_code (w_routines w ! j))"
  shows "i = j"
proof (rule ccontr)
  assume ne: "i \<noteq> j"
  have owed: "locks_owed w" by (rule locks_owed_reachable [OF assms(1)])
  have nonneg: "0 \<le> write_debt m (r_code r)" if "r \<in> set (w_routines w)" for r
    using owed that pays_debts [of m "r_code r"] by (simp add: locks_owed_def)
  let ?r = "(w_routines w ! i)\<lparr>r_code := []\<rparr>"
  let ?rs = "(w_routines w)[i := ?r]"
  have "routines_write_debt m ?rs = routines_write_debt m (w_routines w) - write_debt m (r_code (w_routines w ! i))"
    using assms(2) by (simp add: routines_write_debt_def sum_list_update_at)
  moreover have "routines_write_debt m (w_routines w) \<le> 1" using owed by (simp add: locks_owed_def)
  moreover have "w_routines w ! j \<in> set ?rs"
    using assms(3) ne by (metis length_list_update nth_list_update_neq nth_mem)
  moreover have "0 \<le> write_debt m (r_code r)" if "r \<in> set ?rs" for r
    using that nonneg set_update_subset_insert [of "w_routines w" i ?r] by auto
  ultimately show False
    using assms(4,5) member_debt_le [of ?rs "\<lambda>r. write_debt m (r_code r)" "w_routines w ! j"]
    by (simp add: routines_write_debt_def)
qed

text \<open>A goroutine that asks for a lock it already has to give back waits for ever, and with it whoever asks for the lock.\<close>

lemma self_deadlock_step:
  assumes "locks_owed w" and "i < length (w_routines w)" and "r_code (w_routines w ! i) = Lock m # cs"
    and "0 < write_debt m (Lock m # cs)"
  shows "w_writing w m" and "asks_for m (r_code (w_routines w ! j)) \<Longrightarrow> run_routine j w = None"
proof -
  have "w_routines w ! i \<in> set (w_routines w)" using assms(2) by simp
  from locks_owed_writer(1) [OF assms(1) this, of m] assms(3,4) show "w_writing w m" by (auto split: if_splits)
  then show "asks_for m (r_code (w_routines w ! j)) \<Longrightarrow> run_routine j w = None"
    by (auto simp: run_routine_def Let_def asks_for_def)
qed

lemma self_deadlock:
  assumes "steps entry code w w'" and "locks_owed w" and "i < length (w_routines w)"
    and "r_code (w_routines w ! i) = Lock m # cs" and "0 < write_debt m (Lock m # cs)"
  shows "length (w_routines w) \<le> length (w_routines w') \<and>
     (\<forall>j<length (w_routines w). asks_for m (r_code (w_routines w ! j)) \<longrightarrow> w_routines w' ! j = w_routines w ! j) \<and>
     (\<forall>j<length (w_routines w'). length (w_routines w) \<le> j \<longrightarrow> asks_for m (code (r_op (w_routines w' ! j))) \<longrightarrow>
        r_code (w_routines w' ! j) = code (r_op (w_routines w' ! j)))"
  using assms(1)
proof (induction rule: steps.induct)
  case (steps_start w' op)
  then show ?case by (auto simp: start_routine_def nth_append less_Suc_eq)
next
  case (steps_run w' k w'')
  have owed: "locks_owed w'" using steps_run.hyps(1) assms(2) by (rule locks_owed_steps)
  have i: "i < length (w_routines w')" "w_routines w' ! i = w_routines w ! i"
    using steps_run.IH assms(3,4) by (auto simp: asks_for_def)
  have stuck: "run_routine j w' = None" if "asks_for m (r_code (w_routines w' ! j))" for j
    using self_deadlock_step(2) [OF owed i(1) _ assms(5) that] i(2) assms(4) by simp
  from steps_run.hyps(2) obtain r' where k: "k < length (w_routines w')" and w'': "w_routines w'' = (w_routines w')[k := r']"
    and op: "r_op r' = r_op (w_routines w' ! k)" and moves: "\<not> asks_for m (r_code (w_routines w' ! k))"
    using stuck [of k] by (auto elim: run_routine_cases)
  show ?case
  proof (intro conjI allI impI)
    show "length (w_routines w) \<le> length (w_routines w'')" using steps_run.IH w'' by simp
    fix j assume "j < length (w_routines w)" and "asks_for m (r_code (w_routines w ! j))"
    with steps_run.IH have same: "w_routines w' ! j = w_routines w ! j" by blast
    with moves \<open>asks_for m (r_code (w_routines w ! j))\<close> have "k \<noteq> j" by auto
    with w'' same show "w_routines w'' ! j = w_routines w ! j" by simp
  next
    fix j assume j: "j < length (w_routines w'')" "length (w_routines w) \<le> j"
      and asks: "asks_for m (code (r_op (w_routines w'' ! j)))"
    have same_op: "r_op (w_routines w'' ! j) = r_op (w_routines w' ! j)"
      using w'' op k by (simp add: nth_list_update)
    with steps_run.IH j asks w'' have code: "r_code (w_routines w' ! j) = code (r_op (w_routines w' ! j))" by simp
    with moves asks same_op have "k \<noteq> j" by auto
    with w'' code show "r_code (w_routines w'' ! j) = code (r_op (w_routines w'' ! j))" by simp
  qed
qed auto

end

end
