(* ===== verification/Secrets.thy ===== *)
theory Secrets
  imports Go_Sync Http_Errors "HOL-Library.AList"
begin

text \<open>
  The secrets manager and its API (\<open>internal/platform/secrets\<close>): every operation as the
  instructions of a goroutine over the two mutexes of the manager, the debounce of the file watcher, and
  the handlers. \<open>m.secrets\<close> is an association list whose order carries nothing; the environment of
  the process does not change, as nothing sets it after start-up.
\<close>

section \<open>The manager\<close>

datatype secrets_mutex = Mu | Listener_Mu

text \<open>Listeners are numbered; \<open>ms_told\<close> lists the goroutines \<open>go listener(secretType, newValue)\<close>.\<close>

record secrets =
  ms_env :: "string \<Rightarrow> string"
  ms_secrets :: "(string \<times> string) list"
  ms_listeners :: "nat list"
  ms_told :: "(nat \<times> string \<times> string) list"
  ms_watcher :: bool

text \<open>The constants of \<open>SecretType\<close> and the variable each is read from.\<close>

definition secret_vars :: "(string \<times> string) list" where
  "secret_vars =
     [(''session_secret'', ''SESSION_SECRET''), (''password_pepper'', ''PASSWORD_PEPPER''),
      (''smtp_user'', ''SMTP_USER''), (''smtp_pass'', ''SMTP_PASS''),
      (''google_client_id'', ''GOOGLE_CLIENT_ID''), (''google_client_secret'', ''GOOGLE_CLIENT_SECRET''),
      (''asaas_api_key'', ''ASAAS_API_KEY''), (''asaas_webhook_token'', ''ASAAS_WEBHOOK_TOKEN''),
      (''asaas_hmac_secret'', ''ASAAS_HMAC_SECRET'')]"

definition GetAllTypes :: "string list" where
  "GetAllTypes = map fst secret_vars"

text \<open>A missing key reads as the empty string.\<close>

definition secret :: "string \<Rightarrow> secrets \<Rightarrow> string" where
  "secret t s = (case map_of (ms_secrets s) t of None \<Rightarrow> '''' | Some v \<Rightarrow> v)"

record secrets_status =
  st_watcher_enabled :: bool
  st_secrets_loaded :: int
  st_missing_secrets :: "string list"

datatype secrets_op =
    ManualReload
  | Get string
  | GetSMTPCredentials
  | GetGoogleOAuthCredentials
  | GetAsaasCredentials
  | RegisterListener nat
  | Validate string
  | RotateSecret string string
  | GetStatus string

datatype secrets_result =
    Nothing
  | Texts "string list"
  | Error_or_nil "string option"
  | Status secrets_status

record secrets_locals =
  lc_old :: "(string \<times> string) list"
  lc_result :: secrets_result

text \<open>The bodies between the locks.\<close>

definition loadSecrets :: "secrets \<Rightarrow> secrets" where
  "loadSecrets s = s\<lparr>ms_secrets := fold (\<lambda>(t, var) m. AList.update t (ms_env s var) m) secret_vars (ms_secrets s)\<rparr>"

definition tell :: "string \<Rightarrow> string \<Rightarrow> secrets \<Rightarrow> secrets" where
  "tell t v s = s\<lparr>ms_told := ms_told s @ map (\<lambda>n. (n, t, v)) (ms_listeners s)\<rparr>"

definition tell_changes :: "(string \<times> string) list \<Rightarrow> secrets \<Rightarrow> secrets" where
  "tell_changes old s =
     fold (\<lambda>(t, v) s. if (case map_of old t of None \<Rightarrow> '''' | Some w \<Rightarrow> w) \<noteq> v then tell t v s else s) (ms_secrets s) s"

definition protected_env :: "string \<Rightarrow> bool" where
  "protected_env env \<longleftrightarrow> env = ''prod'' \<or> env = ''staging''"

fun join_spaces :: "string list \<Rightarrow> string" where
  "join_spaces [] = ''''"
| "join_spaces [x] = x"
| "join_spaces (x # xs) = x @ '' '' @ join_spaces xs"

definition validate_body :: "string \<Rightarrow> secrets \<Rightarrow> string option" where
  "validate_body env s =
     (let missing = (if protected_env env
                     then (if secret ''session_secret'' s = '''' then [''SESSION_SECRET''] else []) @
                          (if secret ''password_pepper'' s = '''' then [''PASSWORD_PEPPER''] else [])
                     else [])
      in if missing = [] then None else Some (''missing required secrets: ['' @ join_spaces missing @ '']''))"

definition status_body :: "string \<Rightarrow> secrets \<Rightarrow> secrets_status" where
  "status_body env s =
     \<lparr>st_watcher_enabled = ms_watcher s, st_secrets_loaded = int (length (ms_secrets s)),
      st_missing_secrets =
        (if protected_env env
         then (if secret ''session_secret'' s = '''' then [''session_secret''] else []) @
              (if secret ''password_pepper'' s = '''' then [''password_pepper''] else [])
         else [])\<rparr>"

section \<open>The operations\<close>

type_synonym secrets_instr = "(secrets_mutex, secrets, secrets_locals) instr"

definition answer :: "(secrets \<Rightarrow> secrets_result) \<Rightarrow> secrets_instr" where
  "answer f = Do (\<lambda>(l, s). (l\<lparr>lc_result := f s\<rparr>, s))"

definition change :: "(secrets_locals \<Rightarrow> secrets \<Rightarrow> secrets) \<Rightarrow> secrets_instr" where
  "change f = Do (\<lambda>(l, s). (l, f l s))"

text \<open>A method that locks \<open>m.mu\<close> for reading and computes its result.\<close>

definition reading :: "(secrets \<Rightarrow> secrets_result) \<Rightarrow> secrets_instr list" where
  "reading f = [RLock Mu, answer f, RUnlock Mu]"

text \<open>\<open>reloadSecrets\<close> holds \<open>m.mu\<close> when it calls \<open>loadSecrets\<close>, which locks it again.\<close>

definition load_code :: "secrets_instr list" where
  "load_code = [Lock Mu, change (\<lambda>l. loadSecrets), Unlock Mu]"

definition reload_code :: "secrets_instr list" where
  "reload_code =
     [Lock Mu, Do (\<lambda>(l, s). (l\<lparr>lc_old := ms_secrets s\<rparr>, s))] @ load_code @
     [Unlock Mu, RLock Listener_Mu, change (\<lambda>l. tell_changes (lc_old l)), RUnlock Listener_Mu]"

fun secrets_code :: "secrets_op \<Rightarrow> secrets_instr list" where
  "secrets_code ManualReload = reload_code"
| "secrets_code (Get t) = reading (\<lambda>s. Texts [secret t s])"
| "secrets_code GetSMTPCredentials = reading (\<lambda>s. Texts [secret ''smtp_user'' s, secret ''smtp_pass'' s])"
| "secrets_code GetGoogleOAuthCredentials =
     reading (\<lambda>s. Texts [secret ''google_client_id'' s, secret ''google_client_secret'' s])"
| "secrets_code GetAsaasCredentials =
     reading (\<lambda>s. Texts [secret ''asaas_api_key'' s, secret ''asaas_webhook_token'' s, secret ''asaas_hmac_secret'' s])"
| "secrets_code (RegisterListener n) =
     [Lock Listener_Mu, change (\<lambda>l s. s\<lparr>ms_listeners := ms_listeners s @ [n]\<rparr>), Unlock Listener_Mu]"
| "secrets_code (Validate env) = reading (\<lambda>s. Error_or_nil (validate_body env s))"
| "secrets_code (RotateSecret t v) =
     [Lock Mu, change (\<lambda>l s. s\<lparr>ms_secrets := AList.update t v (ms_secrets s)\<rparr>), Unlock Mu,
      RLock Listener_Mu, change (\<lambda>l. tell t v), RUnlock Listener_Mu]"
| "secrets_code (GetStatus env) = reading (\<lambda>s. Status (status_body env s))"

definition secrets_entry :: "secrets_op \<Rightarrow> secrets_locals" where
  "secrets_entry op = \<lparr>lc_old = [], lc_result = Nothing\<rparr>"

definition GetSessionSecret :: secrets_op where
  "GetSessionSecret = Get ''session_secret''"

definition GetPasswordPepper :: secrets_op where
  "GetPasswordPepper = Get ''password_pepper''"

text \<open>A call that no other goroutine disturbs; \<open>None\<close> when it waits for ever.\<close>

definition call_secrets :: "secrets_op \<Rightarrow> secrets \<Rightarrow> (secrets_result \<times> secrets) option" where
  "call_secrets op s = map_option (apfst lc_result) (call_alone (secrets_entry op) (secrets_code op) s)"

text \<open>\<open>NewManager\<close>: \<open>created\<close> and \<open>added\<close> say whether \<open>fsnotify\<close> gave a watcher and took the file. The
  watcher is kept even if it did not take the file.\<close>

definition NewManager :: "(string \<Rightarrow> string) \<Rightarrow> bool \<Rightarrow> secrets" where
  "NewManager env created =
     (loadSecrets \<lparr>ms_env = env, ms_secrets = [], ms_listeners = [], ms_told = [], ms_watcher = False\<rparr>)
       \<lparr>ms_watcher := created\<rparr>"

section \<open>The file watcher\<close>

datatype watch_event = File_Written | File_Otherwise | Watcher_Error

text \<open>\<open>watchLoop\<close>: the times at which \<open>reloadSecrets\<close> is started, for the events with their times; \<open>timer\<close> is when the
  pending \<open>time.AfterFunc\<close> fires. It fires even after the loop has ended.\<close>

fun watchLoop :: "instant option \<Rightarrow> (instant \<times> watch_event) list \<Rightarrow> instant list" where
  "watchLoop timer [] = (case timer of None \<Rightarrow> [] | Some t \<Rightarrow> [t])"
| "watchLoop timer ((now, ev) # evs) =
     (case timer of
        Some t \<Rightarrow>
          if t \<le> now then t # (if ev = File_Written then watchLoop (Some (now + 500 * millisecond)) evs else watchLoop None evs)
          else if ev = File_Written then watchLoop (Some (now + 500 * millisecond)) evs else watchLoop timer evs
      | None \<Rightarrow> if ev = File_Written then watchLoop (Some (now + 500 * millisecond)) evs else watchLoop None evs)"

section \<open>The handlers\<close>

text \<open>\<open>LastReload\<close> is never set; \<open>omitempty\<close> does not leave out a struct.\<close>

definition status_json :: "secrets_status \<Rightarrow> json" where
  "status_json st =
     JObj ([(''watcher_enabled'', JBool (st_watcher_enabled st)), (''secrets_loaded'', JInt (st_secrets_loaded st)),
            (''last_reload'', JStr ''0001-01-01T00:00:00Z'')] @
           (if st_missing_secrets st = [] then [] else [(''missing_secrets'', JArr (map JStr (st_missing_secrets st)))]))"

definition getStatus :: "string \<Rightarrow> secrets \<Rightarrow> (response \<times> secrets) option" where
  "getStatus env s =
     (case call_secrets (GetStatus env) s of
        Some (Status st, s1) \<Rightarrow> Some (respondJSON (status_json st) 200, s1)
      | _ \<Rightarrow> None)"

text \<open>\<open>loadSecrets\<close> returns no error, so the branch that answers 500 is not reached.\<close>

definition reloadSecrets_handler :: "secrets \<Rightarrow> (response \<times> secrets) option" where
  "reloadSecrets_handler s =
     (case call_secrets ManualReload s of
        None \<Rightarrow> None
      | Some (_, s1) \<Rightarrow> Some (respondJSON (JObj [(''message'', JStr ''Secrets reloaded successfully'')]) 200, s1))"

definition rotateSecret :: "string \<Rightarrow> secrets \<Rightarrow> (response \<times> secrets) option" where
  "rotateSecret body s =
     (case decode_struct body of
        None \<Rightarrow> Some (respondError ''Invalid request body'' 400, s)
      | Some ms \<Rightarrow>
          (case (string_field ''type'' ms, string_field ''value'' ms) of
             (Some t, Some v) \<Rightarrow>
               if t = '''' then Some (respondError ''Secret type is required'' 400, s)
               else if v = '''' then Some (respondError ''Secret value is required'' 400, s)
               else if t \<notin> set GetAllTypes then Some (respondError ''Invalid secret type'' 400, s)
               else (case call_secrets (RotateSecret t v) s of
                  None \<Rightarrow> None
                | Some (_, s1) \<Rightarrow>
                    Some (respondJSON (JObj [(''message'', JStr ''Secret rotated successfully (in-memory only, update .env to persist)''),
                            (''type'', JStr t)]) 200, s1))
           | _ \<Rightarrow> Some (respondError ''Invalid request body'' 400, s)))"

section \<open>Locks\<close>

lemma balanced_secrets_code: "balanced m (secrets_code op)"
  by (cases op; cases m) (simp_all add: balanced_def reading_def reload_code_def load_code_def answer_def change_def)

interpretation sec: lock_discipline secrets_entry secrets_code
  by unfold_locales (rule balanced_secrets_code)

section \<open>Calls that nobody disturbs\<close>

lemmas run_step = call_alone_def run_alone.simps run_routine_def start_routine_def idle_def Let_def

lemma call_reading: "call_alone l (reading f) s = Some (l\<lparr>lc_result := f s\<rparr>, s)"
  by (simp add: run_step reading_def answer_def)

lemma call_Get: "call_secrets (Get t) s = Some (Texts [secret t s], s)"
  by (simp add: call_secrets_def call_reading)

lemma call_GetStatus: "call_secrets (GetStatus env) s = Some (Status (status_body env s), s)"
  by (simp add: call_secrets_def call_reading)

lemma call_Validate: "call_secrets (Validate env) s = Some (Error_or_nil (validate_body env s), s)"
  by (simp add: call_secrets_def call_reading)

lemma call_RotateSecret:
  "call_secrets (RotateSecret t v) s =
     Some (Nothing, tell t v (s\<lparr>ms_secrets := AList.update t v (ms_secrets s)\<rparr>))"
  by (simp add: call_secrets_def run_step change_def secrets_entry_def)

lemma call_ManualReload: "call_secrets ManualReload s = None"
  by (simp add: call_secrets_def run_step reload_code_def load_code_def change_def)

lemma secret_update: "secret t (s\<lparr>ms_secrets := AList.update t' v (ms_secrets s)\<rparr>) = (if t = t' then v else secret t s)"
  by (simp add: secret_def update_conv)

lemma secret_tell [simp]: "secret t (tell t' v s) = secret t s"
  by (simp add: secret_def tell_def)

section \<open>What the manager promises\<close>

lemma reload_code_suffixes:
  assumes "steps secrets_entry secrets_code (idle s) w" and "r \<in> set (w_routines w)" and "r_op r = ManualReload"
  shows "\<exists>k\<le>2. r_code r = drop k reload_code"
  using assms
proof (induction arbitrary: r rule: steps.induct)
  case steps_refl
  then show ?case by (simp add: idle_def)
next
  case (steps_start w op)
  then show ?case by (auto simp: start_routine_def intro: exI [of _ "0::nat"])
next
  case (steps_run w i w')
  from steps_run.hyps(2) obtain c cs r' where i: "i < length (w_routines w)" and c: "r_code (w_routines w ! i) = c # cs"
    and w': "w_routines w' = (w_routines w)[i := r']" and cs: "r_code r' = cs" and op: "r_op r' = r_op (w_routines w ! i)"
    by (rule run_routine_cases)
  show ?case
  proof (cases "r = r'")
    case True
    then have reload: "r_op (w_routines w ! i) = ManualReload" using op steps_run.prems(2) by simp
    with steps_run.IH i obtain k where k: "k \<le> 2" "r_code (w_routines w ! i) = drop k reload_code"
      by (meson nth_mem)
    have "k \<noteq> 2"
    proof
      assume "k = 2"
      with k have at: "r_code (w_routines w ! i) = Lock Mu # drop 3 reload_code"
        by (simp add: reload_code_def load_code_def)
      have owed: "locks_owed w" by (rule sec.locks_owed_reachable [OF steps_run.hyps(1)])
      have "run_routine i w = None"
        using at by (intro sec.self_deadlock_step(2) [OF owed i at]) (auto simp: reload_code_def load_code_def change_def asks_for_def)
      with steps_run.hyps(2) show False by simp
    qed
    with k(1) have "k = 0 \<or> k = 1" by auto
    then have "cs = drop (Suc k) reload_code" using k(2) c by (auto simp: reload_code_def load_code_def)
    with \<open>k = 0 \<or> k = 1\<close> cs True show ?thesis by (intro exI [of _ "Suc k"]) auto
  next
    case False
    then have "r \<in> set (w_routines w)" using steps_run.prems(1) w' set_update_subset_insert [of "w_routines w" i r'] by auto
    with steps_run.IH steps_run.prems(2) show ?thesis by blast
  qed
qed

text \<open>C5: A reload never returns, whatever else happens: it stops at the latest where \<open>loadSecrets\<close> locks the mutex that
  \<open>reloadSecrets\<close> holds, with the environment unread and no listener told.\<close>

theorem reload_never_returns:
  assumes "steps secrets_entry secrets_code (idle s) w" and "r \<in> set (w_routines w)" and "r_op r = ManualReload"
  shows "r_code r \<noteq> [] \<and> length (r_code r) \<ge> length (secrets_code ManualReload) - 2"
proof -
  from reload_code_suffixes [OF assms] obtain k where "k \<le> 2" "r_code r = drop k reload_code" by blast
  then show ?thesis by (auto simp: reload_code_def load_code_def)
qed

text \<open>Once a reload waits there, no operation that reads or writes secrets and is called afterwards executes its first
  instruction: every later request for a secret hangs.\<close>

theorem reload_hangs_the_manager:
  assumes reach: "steps secrets_entry secrets_code (idle s) w" and i: "i < length (w_routines w)"
    and waits: "r_code (w_routines w ! i) = drop 2 (secrets_code ManualReload)"
    and later: "steps secrets_entry secrets_code w w'" and j: "length (w_routines w) \<le> j" "j < length (w_routines w')"
    and op: "\<not> (\<exists>n. r_op (w_routines w' ! j) = RegisterListener n)"
  shows "r_code (w_routines w' ! j) = secrets_code (r_op (w_routines w' ! j))"
proof -
  have "asks_for Mu (secrets_code (r_op (w_routines w' ! j)))"
    using op by (cases "r_op (w_routines w' ! j)") (auto simp: asks_for_def reading_def reload_code_def)
  moreover have at: "r_code (w_routines w ! i) = Lock Mu # drop 3 reload_code"
    using waits by (simp add: reload_code_def load_code_def)
  have "0 < write_debt Mu (Lock Mu # drop 3 reload_code)"
    by (simp add: reload_code_def load_code_def change_def)
  ultimately show ?thesis
    using sec.self_deadlock [OF later sec.locks_owed_reachable [OF reach] i at] j by blast
qed

definition reloading :: "secrets \<Rightarrow> (secrets_op, secrets_mutex, secrets, secrets_locals) world" where
  "reloading s =
     (let w = start_routine ManualReload (secrets_entry ManualReload) (secrets_code ManualReload) (idle s)
      in case run_routine 0 w of None \<Rightarrow> w | Some w1 \<Rightarrow> (case run_routine 0 w1 of None \<Rightarrow> w1 | Some w2 \<Rightarrow> w2))"

lemma reloading_reached: "steps secrets_entry secrets_code (idle s) (reloading s)"
proof -
  let ?w = "start_routine ManualReload (secrets_entry ManualReload) (secrets_code ManualReload) (idle s)"
  have start: "steps secrets_entry secrets_code (idle s) ?w" by (intro steps_start steps_refl)
  show ?thesis
  proof (cases "run_routine 0 ?w")
    case None
    with start show ?thesis unfolding reloading_def Let_def by (simp del: secrets_code.simps)
  next
    case (Some w1)
    have w1: "steps secrets_entry secrets_code (idle s) w1" by (rule steps_run [OF start Some])
    show ?thesis
    proof (cases "run_routine 0 w1")
      case None
      with Some w1 show ?thesis unfolding reloading_def Let_def by (simp del: secrets_code.simps)
    next
      case (Some w2)
      with steps_run [OF w1 Some] \<open>run_routine 0 ?w = Some w1\<close> show ?thesis
        unfolding reloading_def Let_def by (simp del: secrets_code.simps)
    qed
  qed
qed

lemma reloading_waits:
  "w_routines (reloading s) =
     [\<lparr>r_op = ManualReload, r_local = \<lparr>lc_old = ms_secrets s, lc_result = Nothing\<rparr>, r_code = drop 2 (secrets_code ManualReload)\<rparr>]"
  by (simp add: reloading_def run_step reload_code_def load_code_def secrets_entry_def)

definition plain_env :: "string \<Rightarrow> string" where
  "plain_env var = (if var = ''SESSION_SECRET'' then ''s3cr3t'' else '''')"

theorem reload_never_returns_witness:
  "r_code (w_routines (reloading (NewManager plain_env True)) ! 0) \<noteq> []"
  using reload_never_returns [OF reloading_reached [of "NewManager plain_env True"], of "w_routines (reloading (NewManager plain_env True)) ! 0"]
  by (simp add: reloading_waits)

theorem reload_hangs_the_manager_witness:
  "r_code (w_routines (start_routine (Get ''session_secret'') (secrets_entry (Get ''session_secret''))
      (secrets_code (Get ''session_secret'')) (reloading (NewManager plain_env True))) ! 1) =
   secrets_code (Get ''session_secret'')"
proof -
  let ?w = "reloading (NewManager plain_env True)"
  let ?w' = "start_routine (Get ''session_secret'') (secrets_entry (Get ''session_secret'')) (secrets_code (Get ''session_secret'')) ?w"
  have "steps secrets_entry secrets_code ?w ?w'" by (intro steps_start steps_refl)
  from reload_hangs_the_manager [OF reloading_reached _ _ this, of 0 1]
  show ?thesis by (simp add: reloading_waits start_routine_def)
qed

text \<open>The keys of the map are the constants of \<open>SecretType\<close>, so the number the status shows never changes.\<close>

lemma map_fst_update_mem: "k \<in> fst ` set m \<Longrightarrow> map fst (AList.update k v m) = map fst m"
  by (induction m) auto

lemma NewManager_types: "map fst (ms_secrets (NewManager env created)) = GetAllTypes"
  by (simp add: NewManager_def loadSecrets_def secret_vars_def GetAllTypes_def)

text \<open>What the rotate handler changes is exactly the secret it names: it answers 200 only for one of the known types, the
  next read gives the new value, every other secret reads as before and the set of types stays.\<close>

theorem rotated_secret_is_served:
  assumes "rotateSecret body s = Some (resp, s')" and "map fst (ms_secrets s) = GetAllTypes"
  shows "map fst (ms_secrets s') = GetAllTypes \<and>
    (if rp_status resp = 200
     then \<exists>t\<in>set GetAllTypes. \<exists>v. v \<noteq> '''' \<and> call_secrets (Get t) s' = Some (Texts [v], s') \<and>
            (\<forall>t'. t' \<noteq> t \<longrightarrow> secret t' s' = secret t' s)
     else s' = s \<and> rp_status resp = 400)"
proof (cases "rp_status resp = 200")
  case True
  with assms(1) obtain ms t v where "decode_struct body = Some ms" and t: "t \<in> set GetAllTypes" and v: "v \<noteq> ''''"
    and s': "s' = tell t v (s\<lparr>ms_secrets := AList.update t v (ms_secrets s)\<rparr>)"
    by (auto simp: rotateSecret_def respondError_def respondJSON_def call_RotateSecret split: option.splits if_splits)
  have "map fst (ms_secrets s') = map fst (ms_secrets s)"
    using t assms(2) by (simp add: s' tell_def map_fst_update_mem flip: set_map)
  moreover have "call_secrets (Get t) s' = Some (Texts [v], s')" by (simp add: call_Get s' secret_update)
  moreover have "\<forall>t'. t' \<noteq> t \<longrightarrow> secret t' s' = secret t' s" by (simp add: s' secret_update)
  ultimately show ?thesis using t v True assms(2) by auto
next
  case False
  with assms show ?thesis
    by (auto simp: rotateSecret_def respondError_def respondJSON_def call_RotateSecret split: option.splits if_splits)
qed

theorem rotated_secret_is_served_witness:
  "(case rotateSecret ''{\"type\":\"smtp_user\",\"value\":\"bob\"}'' (NewManager plain_env True) of
      Some (resp, s') \<Rightarrow> rp_status resp = 200 \<and> map fst (ms_secrets s') = GetAllTypes \<and> secret ''smtp_user'' s' = ''bob''
    | None \<Rightarrow> False)"
proof -
  have run: "map_option (\<lambda>(resp, s'). (rp_status resp, secret ''smtp_user'' s'))
      (rotateSecret ''{\"type\":\"smtp_user\",\"value\":\"bob\"}'' (NewManager plain_env True)) = Some (200, ''bob'')"
    by code_simp
  then obtain resp s' where r: "rotateSecret ''{\"type\":\"smtp_user\",\"value\":\"bob\"}'' (NewManager plain_env True) = Some (resp, s')"
    "rp_status resp = 200" "secret ''smtp_user'' s' = ''bob''" by auto
  from rotated_secret_is_served [OF r(1) NewManager_types] r show ?thesis by simp
qed

text \<open>Writes to the file, each less than half a second after the one before, start one reload, half a second after the
  last.\<close>

theorem burst_reloads_once:
  assumes "evs \<noteq> []" and "list_all (\<lambda>(t, ev). ev = File_Written) evs"
    and "successively (\<lambda>a b. fst b < fst a + 500 * millisecond) evs" and "timer = None \<or> timer = Some t \<and> fst (hd evs) < t"
  shows "watchLoop timer evs = [fst (last evs) + 500 * millisecond]"
  using assms
proof (induction evs arbitrary: timer t)
  case (Cons e es)
  obtain now where e: "e = (now, File_Written)" using Cons.prems(2) by (cases e) simp
  have first: "watchLoop timer (e # es) = watchLoop (Some (now + 500 * millisecond)) es"
    using Cons.prems(4) by (auto simp: e)
  show ?case
  proof (cases es)
    case Nil
    then show ?thesis unfolding first by (simp add: e)
  next
    case (Cons e' es')
    then have "watchLoop (Some (now + 500 * millisecond)) es = [fst (last es) + 500 * millisecond]"
      using Cons.prems e by (intro Cons.IH [of _ "now + 500 * millisecond"]) auto
    with Cons first show ?thesis by simp
  qed
qed simp

theorem burst_reloads_once_witness:
  "watchLoop None [(0, File_Written), (100 * millisecond, File_Written)] = [600 * millisecond]"
  using burst_reloads_once [of "[(0, File_Written), (100 * millisecond, File_Written)]" None 0]
  by (simp add: millisecond_def)

end
