(* ===== verification/Sse.thy ===== *)
theory Sse
  imports Http_Errors "HOL-Library.AList" "HOL-Library.Sublist"
begin

text \<open>
  Server-sent events (\<open>internal/features/sse\<close>): the broker's loop and the handlers that stream to the
  clients, as a transition system. Each handler makes one channel, so channels are numbered by their handler; a send over an
  unbuffered channel is one step of both sides.
\<close>

section \<open>Broker and handlers\<close>

text \<open>Where a handler is: sending to \<open>NewClient\<close>, in its loop, sending to \<open>Closing\<close>, in \<open>for range messageChan\<close>, or done.\<close>

datatype sse_pc = Registering | Streaming | Unregistering | Draining | Returned

record sse_handler =
  h_user :: int
  h_pc :: sse_pc
  h_cancelled :: bool
  h_buf :: "string list"
  h_closed :: bool
  h_written :: "string list"

text \<open>\<open>sse_log\<close> keeps the messages the broker took, with their addressee.\<close>

record sse =
  sse_users :: "(int \<times> nat list) list"
  sse_running :: bool
  sse_handlers :: "sse_handler list"
  sse_log :: "(int \<times> string) list"

definition users_of :: "int \<Rightarrow> (int \<times> nat list) list \<Rightarrow> nat list" where
  "users_of u us = (case map_of us u of None \<Rightarrow> [] | Some cs \<Rightarrow> cs)"

definition add_client :: "int \<Rightarrow> nat \<Rightarrow> (int \<times> nat list) list \<Rightarrow> (int \<times> nat list) list" where
  "add_client u c us = AList.update u (users_of u us @ [c]) us"

definition remove_client :: "int \<Rightarrow> nat \<Rightarrow> (int \<times> nat list) list \<Rightarrow> (int \<times> nat list) list" where
  "remove_client u c us =
     (let cs = remove1 c (users_of u us) in if cs = [] then AList.delete u us else AList.update u cs us)"

definition sse_message :: "string \<Rightarrow> string \<Rightarrow> string" where
  "sse_message event data = event @ [CHR 0x0A] @ ''data: '' @ data @ [CHR 0x0A, CHR 0x0A]"

text \<open>The channels hold ten messages; a send that would block is dropped.\<close>

definition offer :: "string \<Rightarrow> sse_handler \<Rightarrow> sse_handler" where
  "offer msg h = (if length (h_buf h) < 10 then h\<lparr>h_buf := h_buf h @ [msg]\<rparr> else h)"

definition targets :: "int \<Rightarrow> (int \<times> nat list) list \<Rightarrow> nat list" where
  "targets u us = (if u = 0 then concat (map snd us) else users_of u us)"

definition deliver :: "int \<Rightarrow> string \<Rightarrow> sse \<Rightarrow> sse" where
  "deliver u msg s =
     s\<lparr>sse_handlers := fold (\<lambda>c hs. hs[c := offer msg (hs ! c)]) (targets u (sse_users s)) (sse_handlers s),
       sse_log := sse_log s @ [(u, msg)]\<rparr>"

text \<open>\<open>Ctx.Done()\<close>: every channel the broker knows is closed and the loop ends.\<close>

definition stop_broker :: "sse \<Rightarrow> sse" where
  "stop_broker s =
     s\<lparr>sse_handlers := fold (\<lambda>c hs. hs[c := (hs ! c)\<lparr>h_closed := True\<rparr>]) (concat (map snd (sse_users s))) (sse_handlers s),
       sse_users := [], sse_running := False\<rparr>"

text \<open>Who may open a stream: the user of the context, else the one of the session, if the response writer can be
  flushed.\<close>

definition sse_user :: "int option \<Rightarrow> int \<Rightarrow> bool \<Rightarrow> app_error + int" where
  "sse_user context_user session_user flusher =
     (case (case context_user of Some u \<Rightarrow> Some u | None \<Rightarrow> if session_user = 0 then None else Some session_user) of
        None \<Rightarrow> Inl (NewUnauthorizedError '''')
      | Some u \<Rightarrow> if flusher then Inr u else Inl (NewInternalError ''streaming unsupported'' None))"

definition open_stream :: "int \<Rightarrow> sse \<Rightarrow> sse" where
  "open_stream u s =
     s\<lparr>sse_handlers := sse_handlers s @
         [\<lparr>h_user = u, h_pc = Registering, h_cancelled = False, h_buf = [], h_closed = False, h_written = []\<rparr>]\<rparr>"

definition set_handler :: "nat \<Rightarrow> (sse_handler \<Rightarrow> sse_handler) \<Rightarrow> sse \<Rightarrow> sse" where
  "set_handler i f s = s\<lparr>sse_handlers := (sse_handlers s)[i := f (sse_handlers s ! i)]\<rparr>"

text \<open>One step of handler \<open>i\<close> on its own or with the broker; \<open>None\<close> when it has to wait. The loop of \<open>ServeHTTP\<close> receives from a
  closed channel at once, the empty string.\<close>

definition handler_step :: "nat \<Rightarrow> sse \<Rightarrow> sse option" where
  "handler_step i s =
     (if length (sse_handlers s) \<le> i then None
      else let h = sse_handlers s ! i in
        (case h_pc h of
           Registering \<Rightarrow>
             if sse_running s
             then Some ((set_handler i (\<lambda>h. h\<lparr>h_pc := Streaming\<rparr>) s)\<lparr>sse_users := add_client (h_user h) i (sse_users s)\<rparr>)
             else None
         | Streaming \<Rightarrow>
             (case h_buf h of
                msg # rest \<Rightarrow> Some (set_handler i (\<lambda>h. h\<lparr>h_buf := rest, h_written := h_written h @ [msg]\<rparr>) s)
              | [] \<Rightarrow> if h_closed h then Some (set_handler i (\<lambda>h. h\<lparr>h_written := h_written h @ ['''']\<rparr>) s) else None)
         | Unregistering \<Rightarrow>
             if sse_running s
             then Some ((set_handler i (\<lambda>h. h\<lparr>h_pc := Draining\<rparr>) s)\<lparr>sse_users := remove_client (h_user h) i (sse_users s)\<rparr>)
             else None
         | Draining \<Rightarrow>
             (case h_buf h of
                msg # rest \<Rightarrow> Some (set_handler i (\<lambda>h. h\<lparr>h_buf := rest\<rparr>) s)
              | [] \<Rightarrow> if h_closed h then Some (set_handler i (\<lambda>h. h\<lparr>h_pc := Returned\<rparr>) s) else None)
         | Returned \<Rightarrow> None))"

text \<open>The loop of \<open>ServeHTTP\<close> may take \<open>r.Context().Done()\<close> once the client is gone.\<close>

definition handler_leave :: "nat \<Rightarrow> sse \<Rightarrow> sse option" where
  "handler_leave i s =
     (if i < length (sse_handlers s) \<and> h_pc (sse_handlers s ! i) = Streaming \<and> h_cancelled (sse_handlers s ! i)
      then Some (set_handler i (\<lambda>h. h\<lparr>h_pc := Unregistering\<rparr>) s) else None)"

definition NewBroker :: sse where
  "NewBroker = \<lparr>sse_users = [], sse_running = True, sse_handlers = [], sse_log = []\<rparr>"

inductive sse_reach :: "sse \<Rightarrow> bool" where
  reach_new: "sse_reach NewBroker"
| reach_open: "sse_reach s \<Longrightarrow> sse_user cu su flusher = Inr u \<Longrightarrow> sse_reach (open_stream u s)"
| reach_step: "sse_reach s \<Longrightarrow> handler_step i s = Some s' \<Longrightarrow> sse_reach s'"
| reach_leave: "sse_reach s \<Longrightarrow> handler_leave i s = Some s' \<Longrightarrow> sse_reach s'"
| reach_gone: "sse_reach s \<Longrightarrow> i < length (sse_handlers s) \<Longrightarrow> sse_reach (set_handler i (\<lambda>h. h\<lparr>h_cancelled := True\<rparr>) s)"
| reach_send: "sse_reach s \<Longrightarrow> sse_running s \<Longrightarrow> sse_reach (deliver u (sse_message event text) s)"
| reach_stop: "sse_reach s \<Longrightarrow> sse_running s \<Longrightarrow> sse_reach (stop_broker s)"

section \<open>The tables\<close>

lemma users_of_add: "users_of v (add_client u c us) = (if v = u then users_of u us @ [c] else users_of v us)"
  by (simp add: users_of_def add_client_def update_conv)

lemma users_of_remove: "users_of v (remove_client u c us) = (if v = u then remove1 c (users_of u us) else users_of v us)"
  by (simp add: users_of_def remove_client_def Let_def update_conv delete_conv)

lemma distinct_add: "distinct (map fst us) \<Longrightarrow> distinct (map fst (add_client u c us))"
  by (simp add: add_client_def distinct_update)

lemma distinct_remove: "distinct (map fst us) \<Longrightarrow> distinct (map fst (remove_client u c us))"
  by (simp add: remove_client_def Let_def distinct_update distinct_delete)

lemma users_of_entry: "distinct (map fst us) \<Longrightarrow> (u, cs) \<in> set us \<Longrightarrow> users_of u us = cs"
  by (simp add: users_of_def)

lemma users_of_Nil [simp]: "users_of u [] = []"
  by (simp add: users_of_def)

lemma set_all_channels: "distinct (map fst us) \<Longrightarrow> set (concat (map snd us)) = (\<Union>u. set (users_of u us))"
proof (intro set_eqI iffI)
  fix c assume d: "distinct (map fst us)" and "c \<in> set (concat (map snd us))"
  then obtain u cs where "(u, cs) \<in> set us" "c \<in> set cs" by auto
  then show "c \<in> (\<Union>u. set (users_of u us))" using users_of_entry [OF d] by blast
next
  fix c assume "c \<in> (\<Union>u. set (users_of u us))"
  then obtain u where "c \<in> set (users_of u us)" by blast
  then obtain cs where "map_of us u = Some cs" "c \<in> set cs" by (cases "map_of us u") (auto simp: users_of_def)
  then show "c \<in> set (concat (map snd us))" by (force dest: map_of_SomeD)
qed

lemma distinct_all_channels:
  "distinct (map fst us) \<Longrightarrow> (\<And>u. distinct (users_of u us)) \<Longrightarrow>
   (\<And>u v. u \<noteq> v \<Longrightarrow> set (users_of u us) \<inter> set (users_of v us) = {}) \<Longrightarrow> distinct (concat (map snd us))"
proof (induction us)
  case (Cons e us)
  obtain u cs where e: "e = (u, cs)" by force
  have fresh: "u \<notin> fst ` set us" and d: "distinct (map fst us)" using Cons.prems(1) e by auto
  have rest: "users_of v us = (if v = u then [] else users_of v (e # us))" for v
    using fresh by (auto simp: users_of_def e map_of_eq_None_iff [symmetric] split: option.split)
  have "distinct (concat (map snd us))"
    using Cons.prems(2,3) by (intro Cons.IH d) (auto simp: rest split: if_splits)
  moreover have cs: "cs = users_of u (e # us)" by (simp add: users_of_def e)
  then have "distinct cs" using Cons.prems(2) by simp
  moreover have "set cs \<inter> set (concat (map snd us)) = {}"
  proof -
    have "\<forall>v. v \<noteq> u \<longrightarrow> (\<forall>x\<in>set cs. x \<notin> set (users_of v (e # us)))" using Cons.prems(3) cs by (metis disjoint_iff)
    then show ?thesis unfolding set_all_channels [OF d] rest by (auto split: if_splits)
  qed
  ultimately show ?case by (simp add: e)
qed simp

section \<open>Invariant\<close>

definition addressed :: "int \<Rightarrow> (int \<times> string) list \<Rightarrow> string list" where
  "addressed u sent = map snd (filter (\<lambda>(v, msg). v = 0 \<or> v = u) sent)"

text \<open>A channel is in the table under its handler's user, once, from the registration to the end of the registration; while
  the loop runs no channel is closed; and what a client got is, in order, part of what was sent to its user.\<close>

definition handler_inv :: "(int \<times> nat list) list \<Rightarrow> bool \<Rightarrow> (int \<times> string) list \<Rightarrow> nat \<Rightarrow> sse_handler \<Rightarrow> bool" where
  "handler_inv us running sent i h \<longleftrightarrow>
     (\<forall>u. i \<in> set (users_of u us) \<longrightarrow> u = h_user h) \<and>
     (running \<longrightarrow> \<not> h_closed h \<and> (i \<in> set (users_of (h_user h) us) \<longleftrightarrow> h_pc h = Streaming \<or> h_pc h = Unregistering)) \<and>
     (h_pc h = Draining \<longrightarrow> \<not> h_closed h) \<and> h_pc h \<noteq> Returned \<and>
     length (h_buf h) \<le> 10 \<and>
     subseq (filter (\<lambda>m. m \<noteq> '''') (h_written h) @ h_buf h) (addressed (h_user h) sent)"

definition sse_inv :: "sse \<Rightarrow> bool" where
  "sse_inv s \<longleftrightarrow>
     distinct (map fst (sse_users s)) \<and>
     (\<forall>u c. c \<in> set (users_of u (sse_users s)) \<longrightarrow> c < length (sse_handlers s)) \<and>
     (\<not> sse_running s \<longrightarrow> sse_users s = []) \<and>
     (\<forall>u. distinct (users_of u (sse_users s))) \<and>
     (\<forall>m\<in>snd ` set (sse_log s). m \<noteq> '''') \<and>
     (\<forall>i<length (sse_handlers s). handler_inv (sse_users s) (sse_running s) (sse_log s) i (sse_handlers s ! i))"


lemma handler_inv_cong:
  "(\<And>u. i \<in> set (users_of u us') \<longleftrightarrow> i \<in> set (users_of u us)) \<Longrightarrow> handler_inv us' r sent i h = handler_inv us r sent i h"
  by (simp add: handler_inv_def)

lemma sse_inv_update:
  assumes inv: "sse_inv s" and i: "i < length (sse_handlers s)" and d: "distinct (map fst us)"
    and same: "\<And>u c. c \<noteq> i \<Longrightarrow> c \<in> set (users_of u us) \<longleftrightarrow> c \<in> set (users_of u (sse_users s))"
    and du: "\<And>u. distinct (users_of u us)" and stopped: "\<not> sse_running s \<Longrightarrow> us = []"
    and h: "handler_inv us (sse_running s) (sse_log s) i h"
  shows "sse_inv (s\<lparr>sse_handlers := (sse_handlers s)[i := h], sse_users := us\<rparr>)"
proof -
  have "c < length (sse_handlers s)" if "c \<in> set (users_of u us)" for u c
    using inv i same [of c u] that by (cases "c = i") (auto simp: sse_inv_def)
  moreover have "handler_inv us (sse_running s) (sse_log s) j ((sse_handlers s)[i := h] ! j)"
    if "j < length (sse_handlers s)" for j
  proof (cases "j = i")
    case True
    then show ?thesis using h i by simp
  next
    case False
    then show ?thesis
      using inv that by (simp add: sse_inv_def handler_inv_cong [of j us "sse_users s"] same)
  qed
  ultimately show ?thesis using inv d du stopped by (simp add: sse_inv_def)
qed

lemma sse_inv_set_handler:
  assumes inv: "sse_inv s" and i: "i < length (sse_handlers s)"
    and h: "handler_inv (sse_users s) (sse_running s) (sse_log s) i (f (sse_handlers s ! i))"
  shows "sse_inv (set_handler i f s)"
proof -
  have "sse_inv (s\<lparr>sse_handlers := (sse_handlers s)[i := f (sse_handlers s ! i)], sse_users := sse_users s\<rparr>)"
    using inv by (intro sse_inv_update inv i h) (auto simp: sse_inv_def)
  then show ?thesis by (simp add: set_handler_def)
qed

lemma sse_inv_handler: "sse_inv s \<Longrightarrow> i < length (sse_handlers s) \<Longrightarrow>
    handler_inv (sse_users s) (sse_running s) (sse_log s) i (sse_handlers s ! i)"
  by (simp add: sse_inv_def)

lemma subseq_drop_mid: "subseq (xs @ y # ys) zs \<Longrightarrow> subseq (xs @ ys) zs"
  by (metis list_emb_Cons list_emb_append_mono subseq_order.order_refl subseq_order.order_trans)

lemma sse_inv_handler_step:
  assumes inv: "sse_inv s" and st: "handler_step i s = Some s'"
  shows "sse_inv s'"
proof -
  have i: "i < length (sse_handlers s)" using st by (auto simp: handler_step_def split: if_splits)
  let ?h = "sse_handlers s ! i" and ?us = "sse_users s"
  have h: "handler_inv ?us (sse_running s) (sse_log s) i ?h" by (rule sse_inv_handler [OF inv i])
  have d: "distinct (map fst ?us)" and du: "\<And>u. distinct (users_of u ?us)" using inv by (auto simp: sse_inv_def)
  show ?thesis
  proof (cases "h_pc ?h")
    case Registering
    with st i have run: "sse_running s" and s': "s' = s\<lparr>sse_handlers := (sse_handlers s)[i := ?h\<lparr>h_pc := Streaming\<rparr>],
        sse_users := add_client (h_user ?h) i ?us\<rparr>"
      by (auto simp: handler_step_def Let_def set_handler_def split: if_splits)
    have fresh: "i \<notin> set (users_of u ?us)" for u using h run Registering by (auto simp: handler_inv_def)
    show ?thesis
      unfolding s'
    proof (rule sse_inv_update [OF inv i])
      show "handler_inv (add_client (h_user ?h) i ?us) (sse_running s) (sse_log s) i (?h\<lparr>h_pc := Streaming\<rparr>)"
        using h run fresh by (auto simp: handler_inv_def users_of_add split: if_splits)
    qed (use d du run fresh in \<open>auto simp: users_of_add distinct_add split: if_splits\<close>)
  next
    case Streaming
    show ?thesis
    proof (cases "h_buf ?h")
      case Nil
      with st i Streaming have s': "s' = set_handler i (\<lambda>h. h\<lparr>h_written := h_written h @ ['''']\<rparr>) s"
        by (auto simp: handler_step_def Let_def split: if_splits)
      show ?thesis unfolding s' using h by (intro sse_inv_set_handler [OF inv i]) (simp add: handler_inv_def)
    next
      case (Cons msg rest)
      with st i Streaming have s': "s' = set_handler i (\<lambda>h. h\<lparr>h_buf := rest, h_written := h_written h @ [msg]\<rparr>) s"
        by (auto simp: handler_step_def Let_def split: if_splits)
      have "subseq (filter (\<lambda>m. m \<noteq> '''') (h_written ?h) @ msg # rest) (addressed (h_user ?h) (sse_log s))"
        using h Cons by (simp add: handler_inv_def)
      then have "subseq (filter (\<lambda>m. m \<noteq> '''') (h_written ?h @ [msg]) @ rest) (addressed (h_user ?h) (sse_log s))"
        by (auto dest: subseq_drop_mid)
      with h Cons show ?thesis unfolding s' by (intro sse_inv_set_handler [OF inv i]) (simp add: handler_inv_def)
    qed
  next
    case Unregistering
    with st i have run: "sse_running s" and s': "s' = s\<lparr>sse_handlers := (sse_handlers s)[i := ?h\<lparr>h_pc := Draining\<rparr>],
        sse_users := remove_client (h_user ?h) i ?us\<rparr>"
      by (auto simp: handler_step_def Let_def set_handler_def split: if_splits)
    have only: "i \<in> set (users_of u ?us) \<Longrightarrow> u = h_user ?h" for u using h by (auto simp: handler_inv_def)
    show ?thesis
      unfolding s'
    proof (rule sse_inv_update [OF inv i])
      show "handler_inv (remove_client (h_user ?h) i ?us) (sse_running s) (sse_log s) i (?h\<lparr>h_pc := Draining\<rparr>)"
        using h run du only by (auto simp: handler_inv_def users_of_remove split: if_splits)
    qed (use d du run in \<open>auto simp: users_of_remove distinct_remove split: if_splits\<close>)
  next
    case Draining
    then have open_: "\<not> h_closed ?h" using h by (simp add: handler_inv_def)
    with st i Draining obtain msg rest where buf: "h_buf ?h = msg # rest" and s': "s' = set_handler i (\<lambda>h. h\<lparr>h_buf := rest\<rparr>) s"
      by (auto simp: handler_step_def Let_def split: if_splits list.splits)
    with h show ?thesis
      unfolding s' by (intro sse_inv_set_handler [OF inv i]) (auto simp: handler_inv_def dest: subseq_drop_mid)
  next
    case Returned
    with h show ?thesis by (simp add: handler_inv_def)
  qed
qed


lemma distinct_targets: "sse_inv s \<Longrightarrow> distinct (targets u (sse_users s))"
proof -
  assume inv: "sse_inv s"
  have disj: "set (users_of u (sse_users s)) \<inter> set (users_of v (sse_users s)) = {}" if "u \<noteq> v" for u v
    using inv that unfolding sse_inv_def handler_inv_def by (metis disjoint_iff)
  then show ?thesis using inv by (auto simp: targets_def sse_inv_def intro!: distinct_all_channels)
qed

lemma targets_user: "sse_inv s \<Longrightarrow> i \<in> set (targets u (sse_users s)) \<Longrightarrow>
    i < length (sse_handlers s) \<and> i \<in> set (users_of (h_user (sse_handlers s ! i)) (sse_users s)) \<and> (u = 0 \<or> u = h_user (sse_handlers s ! i))"
proof -
  assume inv: "sse_inv s" and i: "i \<in> set (targets u (sse_users s))"
  then obtain v where v: "i \<in> set (users_of v (sse_users s))" and u: "u = 0 \<or> u = v"
    using set_all_channels [of "sse_users s"] by (auto simp: targets_def sse_inv_def split: if_splits)
  have "i < length (sse_handlers s)" and "v = h_user (sse_handlers s ! i)"
    using inv v unfolding sse_inv_def handler_inv_def by metis+
  with u v show ?thesis by blast
qed

lemma addressed_snoc: "addressed u (sent @ [(v, msg)]) = addressed u sent @ (if v = 0 \<or> v = u then [msg] else [])"
  by (simp add: addressed_def)

lemma nth_deliver:
  assumes "sse_inv s" and "i < length (sse_handlers s)"
  shows "length (sse_handlers (deliver u msg s)) = length (sse_handlers s)"
    and "sse_handlers (deliver u msg s) ! i =
      (if i \<in> set (targets u (sse_users s)) then offer msg (sse_handlers s ! i) else sse_handlers s ! i)"
  using fold_update_distinct [OF distinct_targets [OF assms(1)], of "offer msg" u "sse_handlers s"] assms(2)
  by (simp_all add: deliver_def)

lemma length_deliver [simp]: "length (sse_handlers (deliver u msg s)) = length (sse_handlers s)"
proof -
  have "length (fold (\<lambda>c hs. hs[c := f (hs ! c)]) cs hs) = length hs" for cs and f :: "sse_handler \<Rightarrow> sse_handler" and hs
    by (induction cs arbitrary: hs) auto
  then show ?thesis by (simp add: deliver_def)
qed

lemma sse_inv_deliver:
  assumes inv: "sse_inv s" and msg: "msg \<noteq> ''''"
  shows "sse_inv (deliver u msg s)"
proof -
  have "handler_inv (sse_users s) (sse_running s) (sse_log s @ [(u, msg)]) i (sse_handlers (deliver u msg s) ! i)"
    if i: "i < length (sse_handlers s)" for i
  proof -
    let ?h = "sse_handlers s ! i"
    have h: "handler_inv (sse_users s) (sse_running s) (sse_log s) i ?h" by (rule sse_inv_handler [OF inv i])
    then have longer: "subseq (filter (\<lambda>m. m \<noteq> '''') (h_written ?h) @ h_buf ?h) (addressed (h_user ?h) (sse_log s @ [(u, msg)]))"
      by (auto simp: handler_inv_def addressed_snoc intro: list_emb_append2 subseq_order.order_trans)
    show ?thesis
    proof (cases "i \<in> set (targets u (sse_users s)) \<and> length (h_buf ?h) < 10")
      case True
      then have "u = 0 \<or> u = h_user ?h" using targets_user [OF inv] by blast
      moreover have "subseq ((filter (\<lambda>m. m \<noteq> []) (h_written ?h) @ h_buf ?h) @ [msg]) (addressed (h_user ?h) (sse_log s) @ [msg])"
        using h by (simp only: subseq_append handler_inv_def)
      ultimately have "subseq (filter (\<lambda>m. m \<noteq> []) (h_written ?h) @ h_buf ?h @ [msg]) (addressed (h_user ?h) (sse_log s @ [(u, msg)]))"
        by (simp add: addressed_snoc)
      with True h show ?thesis by (simp add: nth_deliver [OF inv i] offer_def handler_inv_def)
    next
      case False
      then have "sse_handlers (deliver u msg s) ! i = ?h" by (auto simp: nth_deliver [OF inv i] offer_def)
      with h longer show ?thesis by (simp add: handler_inv_def)
    qed
  qed
  moreover have "sse_users (deliver u msg s) = sse_users s" "sse_running (deliver u msg s) = sse_running s"
    "sse_log (deliver u msg s) = sse_log s @ [(u, msg)]" by (simp_all add: deliver_def)
  ultimately show ?thesis using inv msg by (simp add: sse_inv_def)
qed

lemma sse_inv_stop: "sse_inv s \<Longrightarrow> sse_running s \<Longrightarrow> sse_inv (stop_broker s)"
proof -
  assume inv: "sse_inv s" and run: "sse_running s"
  let ?cs = "concat (map snd (sse_users s))"
  have cs: "?cs = targets 0 (sse_users s)" by (simp add: targets_def)
  have fold: "length (sse_handlers (stop_broker s)) = length (sse_handlers s) \<and>
      (\<forall>i<length (sse_handlers s). sse_handlers (stop_broker s) ! i =
         (if i \<in> set ?cs then (sse_handlers s ! i)\<lparr>h_closed := True\<rparr> else sse_handlers s ! i))"
    using fold_update_distinct [OF distinct_targets [OF inv, of 0], of "\<lambda>h. h\<lparr>h_closed := True\<rparr>" "sse_handlers s"]
    by (simp add: stop_broker_def cs)
  have "handler_inv [] False (sse_log s) i (sse_handlers (stop_broker s) ! i)" if i: "i < length (sse_handlers s)" for i
  proof -
    have h: "handler_inv (sse_users s) (sse_running s) (sse_log s) i (sse_handlers s ! i)" by (rule sse_inv_handler [OF inv i])
    show ?thesis
    proof (cases "i \<in> set ?cs")
      case True
      then have "i \<in> set (users_of (h_user (sse_handlers s ! i)) (sse_users s))" using targets_user [OF inv, of i 0] cs by simp
      then have "h_pc (sse_handlers s ! i) \<noteq> Draining" using h run unfolding handler_inv_def by (metis sse_pc.distinct(11) sse_pc.distinct(15))
      moreover have "sse_handlers (stop_broker s) ! i = (sse_handlers s ! i)\<lparr>h_closed := True\<rparr>" using fold i True by simp
      ultimately show ?thesis using h by (simp add: handler_inv_def)
    next
      case False
      then have "sse_handlers (stop_broker s) ! i = sse_handlers s ! i" using fold i by simp
      then show ?thesis using h by (simp add: handler_inv_def)
    qed
  qed
  with fold inv show ?thesis by (auto simp: sse_inv_def stop_broker_def)
qed

lemma sse_inv_open: "sse_inv s \<Longrightarrow> sse_inv (open_stream u s)"
proof -
  assume inv: "sse_inv s"
  then have "length (sse_handlers s) \<notin> set (users_of v (sse_users s))" for v by (auto simp: sse_inv_def)
  with inv show ?thesis by (auto simp: sse_inv_def open_stream_def nth_append less_Suc_eq handler_inv_def)
qed

lemma sse_message_nonempty [simp]: "sse_message event text \<noteq> ''''"
  by (simp add: sse_message_def)

lemma sse_reach_inv: "sse_reach s \<Longrightarrow> sse_inv s"
proof (induction rule: sse_reach.induct)
  case reach_new
  show ?case by (simp add: sse_inv_def NewBroker_def)
next
  case (reach_leave s i s')
  then have i: "i < length (sse_handlers s)" and pc: "h_pc (sse_handlers s ! i) = Streaming"
    and s': "s' = set_handler i (\<lambda>h. h\<lparr>h_pc := Unregistering\<rparr>) s"
    by (auto simp: handler_leave_def split: if_splits)
  show ?case
    unfolding s' using sse_inv_handler [OF reach_leave.IH i] pc
    by (intro sse_inv_set_handler [OF reach_leave.IH i]) (simp add: handler_inv_def)
next
  case (reach_gone s i)
  show ?case
    using sse_inv_handler [OF reach_gone.IH reach_gone.hyps(2)]
    by (intro sse_inv_set_handler [OF reach_gone.IH reach_gone.hyps(2)]) (simp add: handler_inv_def)
qed (simp_all add: sse_inv_open sse_inv_handler_step sse_inv_deliver sse_inv_stop)


section \<open>What the broker promises\<close>

text \<open>C26: No stream handler ever returns, however its client leaves and the broker stops: after unregistering it drains a
  channel that nobody closes, and once the broker has stopped it cannot even unregister.\<close>

theorem stream_handler_never_returns:
  assumes "sse_reach s" and "i < length (sse_handlers s)"
  shows "h_pc (sse_handlers s ! i) \<noteq> Returned \<and>
    (h_pc (sse_handlers s ! i) = Draining \<and> h_buf (sse_handlers s ! i) = [] \<longrightarrow> handler_step i s = None)"
  using sse_inv_handler [OF sse_reach_inv [OF assms(1)] assms(2)]
  by (auto simp: handler_inv_def handler_step_def Let_def)

text \<open>C30: What a stream has written and still holds is, in the order of sending, a part of the messages sent to its user or to
  all, so nobody sees a message addressed to another user; and it never holds more than ten.\<close>

theorem stream_gets_only_its_messages:
  assumes "sse_reach s" and "i < length (sse_handlers s)"
  shows "subseq (filter (\<lambda>m. m \<noteq> '''') (h_written (sse_handlers s ! i)) @ h_buf (sse_handlers s ! i))
           (addressed (h_user (sse_handlers s ! i)) (sse_log s)) \<and> length (h_buf (sse_handlers s ! i)) \<le> 10"
  using sse_inv_handler [OF sse_reach_inv [OF assms(1)] assms(2)] by (simp add: handler_inv_def)

text \<open>A message to a user, or to all, is put into every stream of the user that is registered and has room; the other
  streams keep what they have.\<close>

theorem message_reaches_every_stream:
  assumes "sse_reach s" and "sse_running s" and i: "i < length (sse_handlers s)"
    and pc: "h_pc (sse_handlers s ! i) = Streaming"
  shows "sse_handlers (deliver u msg s) ! i =
    (if (u = 0 \<or> u = h_user (sse_handlers s ! i)) \<and> length (h_buf (sse_handlers s ! i)) < 10
     then (sse_handlers s ! i)\<lparr>h_buf := h_buf (sse_handlers s ! i) @ [msg]\<rparr> else sse_handlers s ! i)"
proof -
  have inv: "sse_inv s" by (rule sse_reach_inv [OF assms(1)])
  have h: "i \<in> set (users_of (h_user (sse_handlers s ! i)) (sse_users s))"
    using sse_inv_handler [OF inv i] pc assms(2) unfolding handler_inv_def by blast
  have "i \<in> set (targets u (sse_users s)) \<longleftrightarrow> u = 0 \<or> u = h_user (sse_handlers s ! i)"
  proof
    assume "i \<in> set (targets u (sse_users s))"
    then show "u = 0 \<or> u = h_user (sse_handlers s ! i)" using targets_user [OF inv] by blast
  next
    assume "u = 0 \<or> u = h_user (sse_handlers s ! i)"
    then show "i \<in> set (targets u (sse_users s))"
      using h set_all_channels [of "sse_users s"] inv unfolding targets_def sse_inv_def by auto
  qed
  then show ?thesis by (simp add: nth_deliver [OF inv i] offer_def)
qed

definition then_step :: "nat \<Rightarrow> sse \<Rightarrow> sse" where
  "then_step i s = (case handler_step i s of None \<Rightarrow> s | Some s' \<Rightarrow> s')"

definition then_leave :: "nat \<Rightarrow> sse \<Rightarrow> sse" where
  "then_leave i s = (case handler_leave i (set_handler i (\<lambda>h. h\<lparr>h_cancelled := True\<rparr>) s) of None \<Rightarrow> s | Some s' \<Rightarrow> s')"

lemma reach_then_step: "sse_reach s \<Longrightarrow> sse_reach (then_step i s)"
  by (auto simp: then_step_def split: option.split intro: reach_step)

lemma reach_then_leave: "sse_reach s \<Longrightarrow> i < length (sse_handlers s) \<Longrightarrow> sse_reach (then_leave i s)"
  by (auto simp: then_leave_def split: option.split intro: reach_leave reach_gone)

text \<open>A client of user 7 opens a stream, gets a message and leaves.\<close>

definition one_stream :: sse where
  "one_stream = then_step 0 (open_stream 7 NewBroker)"

definition left_stream :: sse where
  "left_stream = then_step 0 (then_leave 0 (then_step 0 (deliver 7 (sse_message ''job_completed'' ''send_email'') one_stream)))"

lemma one_stream_reached: "sse_reach one_stream"
  unfolding one_stream_def
  by (intro reach_then_step reach_open [of _ "Some 7" 0 True] reach_new) (simp add: sse_user_def)

lemma one_stream_state: "sse_running one_stream" "length (sse_handlers one_stream) = 1"
    "h_pc (sse_handlers one_stream ! 0) = Streaming" "h_buf (sse_handlers one_stream ! 0) = []" "h_user (sse_handlers one_stream ! 0) = 7"
  by (simp_all add: one_stream_def then_step_def handler_step_def open_stream_def NewBroker_def set_handler_def)

lemma left_stream_reached: "sse_reach left_stream"
proof -
  have written: "sse_reach (then_step 0 (deliver 7 (sse_message ''job_completed'' ''send_email'') one_stream))"
    by (intro reach_then_step reach_send one_stream_reached one_stream_state(1))
  moreover have "length (sse_handlers (then_step i s)) = length (sse_handlers s)" for i s
    by (auto simp: then_step_def handler_step_def Let_def set_handler_def split: option.split sse_pc.split list.split)
  ultimately show ?thesis
    unfolding left_stream_def using one_stream_state(2) by (intro reach_then_step [OF reach_then_leave [OF written]]) simp
qed

lemma left_stream_state: "length (sse_handlers left_stream) = 1" "h_pc (sse_handlers left_stream ! 0) = Draining"
    "h_buf (sse_handlers left_stream ! 0) = []"
    "h_written (sse_handlers left_stream ! 0) = [sse_message ''job_completed'' ''send_email'']"
  by code_simp+

theorem stream_handler_never_returns_witness:
  "handler_step 0 left_stream = None"
  using stream_handler_never_returns [OF left_stream_reached, of 0] by (simp add: left_stream_state)

theorem stream_gets_only_its_messages_witness:
  "subseq [sse_message ''job_completed'' ''send_email''] (addressed 7 (sse_log left_stream))"
proof -
  have "h_user (sse_handlers left_stream ! 0) = 7" by code_simp
  with stream_gets_only_its_messages [OF left_stream_reached, of 0] show ?thesis
    by (simp add: left_stream_state sse_message_def)
qed

theorem message_reaches_every_stream_witness:
  "h_buf (sse_handlers (deliver 7 ''hello'' one_stream) ! 0) = [''hello''] \<and> h_buf (sse_handlers (deliver 8 ''hello'' one_stream) ! 0) = []"
  using message_reaches_every_stream [OF one_stream_reached one_stream_state(1), of 0] by (simp add: one_stream_state)

end
