(* ===== verification/Hub.thy ===== *)
theory Hub
  imports Json
begin

text \<open>
  The WebSocket hub (\<open>internal/platform/websocket\<close>): the loop of \<open>Run\<close> and the pumps of the
  clients as a transition system over numbered clients. Closing a closed channel and sending on one panic.
\<close>

section \<open>Hub and clients\<close>

text \<open>Where \<open>Handler\<close> is with a client: sending to \<open>register\<close>, reading, sending to \<open>unregister\<close>, or done with it.\<close>

datatype ws_pc = Joining | Reading | Leaving | Gone

record ws_client =
  wc_pc :: ws_pc
  wc_send :: "string list"
  wc_closed :: bool
  wc_frames :: "string list"

record hub =
  hub_clients :: "nat list"
  hub_queue :: "string list"
  hub_conns :: "ws_client list"
  hub_panicked :: bool

definition NewHub :: hub where
  "NewHub = \<lparr>hub_clients = [], hub_queue = [], hub_conns = [], hub_panicked = False\<rparr>"

definition NewClient :: ws_client where
  "NewClient = \<lparr>wc_pc = Joining, wc_send = [], wc_closed = False, wc_frames = []\<rparr>"

definition set_conn :: "nat \<Rightarrow> (ws_client \<Rightarrow> ws_client) \<Rightarrow> hub \<Rightarrow> hub" where
  "set_conn i f s = s\<lparr>hub_conns := (hub_conns s)[i := f (hub_conns s ! i)]\<rparr>"

definition close_send :: "nat \<Rightarrow> hub \<Rightarrow> hub" where
  "close_send i s =
     (if wc_closed (hub_conns s ! i) then s\<lparr>hub_panicked := True\<rparr> else set_conn i (\<lambda>c. c\<lparr>wc_closed := True\<rparr>) s)"

section \<open>The loop\<close>

definition hub_register :: "nat \<Rightarrow> hub \<Rightarrow> hub" where
  "hub_register i s = s\<lparr>hub_clients := List.insert i (hub_clients s)\<rparr>"

definition hub_unregister :: "nat \<Rightarrow> hub \<Rightarrow> hub" where
  "hub_unregister i s =
     (if i \<in> set (hub_clients s) then close_send i (s\<lparr>hub_clients := removeAll i (hub_clients s)\<rparr>) else s)"

text \<open>A message for one client: the send buffer holds 256; a client whose buffer is full is closed and dropped.\<close>

definition hub_send :: "string \<Rightarrow> nat \<Rightarrow> hub \<Rightarrow> hub" where
  "hub_send msg i s =
     (let c = hub_conns s ! i in
      if wc_closed c then s\<lparr>hub_panicked := True\<rparr>
      else if length (wc_send c) < 256 then set_conn i (\<lambda>c. c\<lparr>wc_send := wc_send c @ [msg]\<rparr>) s
      else (close_send i s)\<lparr>hub_clients := removeAll i (hub_clients s)\<rparr>)"

definition hub_broadcast :: "string \<Rightarrow> hub \<Rightarrow> hub" where
  "hub_broadcast msg s = fold (hub_send msg) (hub_clients s) s"

text \<open>\<open>Broadcast\<close> waits while 256 messages are queued.\<close>

definition Broadcast :: "string \<Rightarrow> hub \<Rightarrow> hub option" where
  "Broadcast msg s = (if length (hub_queue s) < 256 then Some (s\<lparr>hub_queue := hub_queue s @ [msg]\<rparr>) else None)"

definition BroadcastJSON :: "json \<Rightarrow> hub \<Rightarrow> hub option" where
  "BroadcastJSON v = Broadcast (json_print v)"

definition BroadcastMessage :: "string \<Rightarrow> json \<Rightarrow> hub \<Rightarrow> hub option" where
  "BroadcastMessage ty v = BroadcastJSON (JObj [(''data'', v), (''type'', JStr ty)])"

definition ClientCount :: "hub \<Rightarrow> int" where
  "ClientCount s = int (length (hub_clients s))"

section \<open>A client\<close>

text \<open>\<open>Send\<close>: a full buffer unregisters the client. A send on the closed channel panics, in a \<open>select\<close> too.\<close>

definition client_Send :: "string \<Rightarrow> nat \<Rightarrow> hub \<Rightarrow> hub" where
  "client_Send msg i s =
     (let c = hub_conns s ! i in
      if wc_closed c then s\<lparr>hub_panicked := True\<rparr>
      else if length (wc_send c) < 256 then set_conn i (\<lambda>c. c\<lparr>wc_send := wc_send c @ [msg]\<rparr>) s
      else hub_unregister i s)"

definition SendJSON :: "json \<Rightarrow> nat \<Rightarrow> hub \<Rightarrow> hub" where
  "SendJSON v = client_Send (json_print v)"

text \<open>One turn of \<open>WritePump\<close>: all that waits goes into one frame, a line for each message.\<close>

definition write_frame :: "nat \<Rightarrow> hub \<Rightarrow> hub option" where
  "write_frame i s =
     (case wc_send (hub_conns s ! i) of
        [] \<Rightarrow> None
      | msg # rest \<Rightarrow>
          Some (set_conn i (\<lambda>c. c\<lparr>wc_send := [], wc_frames := wc_frames c @ [msg @ concat (map (\<lambda>m. CHR 0x0A # m) rest)]\<rparr>) s))"

text \<open>The steps of the program: a connection comes, the loop takes what \<open>select\<close> gives it, a client that reads broadcasts
  what it read, writes a frame, or leaves. A panic ends the process. The server's handler never calls \<open>Send\<close>.\<close>

inductive hub_step :: "hub \<Rightarrow> hub \<Rightarrow> bool" where
  ws_connect: "hub_step s (s\<lparr>hub_conns := hub_conns s @ [NewClient]\<rparr>)"
| ws_join: "i < length (hub_conns s) \<Longrightarrow> wc_pc (hub_conns s ! i) = Joining \<Longrightarrow>
    hub_step s (hub_register i (set_conn i (\<lambda>c. c\<lparr>wc_pc := Reading\<rparr>) s))"
| ws_message: "i < length (hub_conns s) \<Longrightarrow> wc_pc (hub_conns s ! i) = Reading \<Longrightarrow> Broadcast msg s = Some s' \<Longrightarrow> hub_step s s'"
| ws_error: "i < length (hub_conns s) \<Longrightarrow> wc_pc (hub_conns s ! i) = Reading \<Longrightarrow>
    hub_step s (set_conn i (\<lambda>c. c\<lparr>wc_pc := Leaving\<rparr>) s)"
| ws_leave: "i < length (hub_conns s) \<Longrightarrow> wc_pc (hub_conns s ! i) = Leaving \<Longrightarrow>
    hub_step s (hub_unregister i (set_conn i (\<lambda>c. c\<lparr>wc_pc := Gone\<rparr>) s))"
| ws_forward: "hub_queue s = msg # q \<Longrightarrow> hub_step s (hub_broadcast msg (s\<lparr>hub_queue := q\<rparr>))"
| ws_write: "i < length (hub_conns s) \<Longrightarrow> write_frame i s = Some s' \<Longrightarrow> hub_step s s'"

inductive hub_reach :: "hub \<Rightarrow> bool" where
  hub_reach_new: "hub_reach NewHub"
| hub_reach_step: "hub_reach s \<Longrightarrow> \<not> hub_panicked s \<Longrightarrow> hub_step s s' \<Longrightarrow> hub_reach s'"

section \<open>Invariant\<close>

text \<open>The clients in the map are those whose channel is open and who have registered.\<close>

definition hub_inv :: "hub \<Rightarrow> bool" where
  "hub_inv s \<longleftrightarrow>
     \<not> hub_panicked s \<and> distinct (hub_clients s) \<and>
     (\<forall>i\<in>set (hub_clients s). i < length (hub_conns s) \<and> \<not> wc_closed (hub_conns s ! i) \<and> wc_pc (hub_conns s ! i) \<in> {Reading, Leaving}) \<and>
     (\<forall>i<length (hub_conns s). wc_pc (hub_conns s ! i) = Joining \<longrightarrow> \<not> wc_closed (hub_conns s ! i)) \<and>
     (\<forall>c\<in>set (hub_conns s). length (wc_send c) \<le> 256)"

lemmas hub_defs = set_conn_def close_send_def hub_register_def hub_unregister_def hub_send_def Let_def

lemma hub_send_open:
  assumes "i < length (hub_conns s)" and "\<not> wc_closed (hub_conns s ! i)"
  shows "hub_send msg i s =
    (if length (wc_send (hub_conns s ! i)) < 256
     then s\<lparr>hub_conns := (hub_conns s)[i := (hub_conns s ! i)\<lparr>wc_send := wc_send (hub_conns s ! i) @ [msg]\<rparr>]\<rparr>
     else s\<lparr>hub_conns := (hub_conns s)[i := (hub_conns s ! i)\<lparr>wc_closed := True\<rparr>], hub_clients := removeAll i (hub_clients s)\<rparr>)"
  using assms by (simp add: hub_defs)

text \<open>What a broadcast does to one client.\<close>

definition ws_full :: "ws_client \<Rightarrow> bool" where
  "ws_full c \<longleftrightarrow> 256 \<le> length (wc_send c)"

definition ws_receive :: "string \<Rightarrow> ws_client \<Rightarrow> ws_client" where
  "ws_receive msg c = (if ws_full c then c\<lparr>wc_closed := True\<rparr> else c\<lparr>wc_send := wc_send c @ [msg]\<rparr>)"

lemma removeAll_filter: "removeAll i xs = filter (\<lambda>j. j \<noteq> i) xs"
  by (induction xs) auto

lemma fold_hub_send:
  assumes "distinct cs" and "\<forall>i\<in>set cs. i < length (hub_conns s) \<and> \<not> wc_closed (hub_conns s ! i)"
  shows "fold (hub_send msg) cs s =
    s\<lparr>hub_conns := fold (\<lambda>i conns. conns[i := ws_receive msg (conns ! i)]) cs (hub_conns s),
      hub_clients := filter (\<lambda>i. \<not> (i \<in> set cs \<and> ws_full (hub_conns s ! i))) (hub_clients s)\<rparr>"
  using assms
proof (induction cs arbitrary: s)
  case (Cons i cs)
  let ?s = "hub_send msg i s"
  have s1: "?s = s\<lparr>hub_conns := (hub_conns s)[i := ws_receive msg (hub_conns s ! i)],
      hub_clients := filter (\<lambda>j. \<not> (j = i \<and> ws_full (hub_conns s ! i))) (hub_clients s)\<rparr>"
    using Cons.prems by (auto simp: hub_send_open ws_receive_def ws_full_def removeAll_filter intro!: filter_cong)
  have same: "hub_conns ?s ! j = hub_conns s ! j" if "j \<in> set cs" for j
    using that Cons.prems(1) by (cases "j = i") (auto simp: s1)
  have "fold (hub_send msg) cs ?s =
    ?s\<lparr>hub_conns := fold (\<lambda>i conns. conns[i := ws_receive msg (conns ! i)]) cs (hub_conns ?s),
      hub_clients := filter (\<lambda>i. \<not> (i \<in> set cs \<and> ws_full (hub_conns ?s ! i))) (hub_clients ?s)\<rparr>"
    using Cons.prems same by (intro Cons.IH) (auto simp: s1)
  also have "filter (\<lambda>i. \<not> (i \<in> set cs \<and> ws_full (hub_conns ?s ! i))) (hub_clients ?s) =
      filter (\<lambda>j. \<not> (j \<in> set (i # cs) \<and> ws_full (hub_conns s ! j))) (hub_clients s)"
    using same by (auto simp: s1 intro!: filter_cong)
  finally show ?case by (simp add: s1)
qed simp

lemma hub_broadcast_inv:
  assumes "hub_inv s"
  shows "hub_panicked (hub_broadcast msg s) = hub_panicked s" and "hub_queue (hub_broadcast msg s) = hub_queue s"
    and "length (hub_conns (hub_broadcast msg s)) = length (hub_conns s)"
    and "i < length (hub_conns s) \<Longrightarrow> hub_conns (hub_broadcast msg s) ! i =
      (if i \<in> set (hub_clients s) then ws_receive msg (hub_conns s ! i) else hub_conns s ! i)"
    and "hub_clients (hub_broadcast msg s) = filter (\<lambda>i. \<not> ws_full (hub_conns s ! i)) (hub_clients s)"
proof -
  have open_: "\<forall>i\<in>set (hub_clients s). i < length (hub_conns s) \<and> \<not> wc_closed (hub_conns s ! i)" and d: "distinct (hub_clients s)"
    using assms by (auto simp: hub_inv_def)
  have eq: "hub_broadcast msg s =
    s\<lparr>hub_conns := fold (\<lambda>i conns. conns[i := ws_receive msg (conns ! i)]) (hub_clients s) (hub_conns s),
      hub_clients := filter (\<lambda>i. \<not> (i \<in> set (hub_clients s) \<and> ws_full (hub_conns s ! i))) (hub_clients s)\<rparr>"
    unfolding hub_broadcast_def by (rule fold_hub_send [OF d open_])
  show "hub_panicked (hub_broadcast msg s) = hub_panicked s" "hub_queue (hub_broadcast msg s) = hub_queue s"
    "length (hub_conns (hub_broadcast msg s)) = length (hub_conns s)"
    "i < length (hub_conns s) \<Longrightarrow> hub_conns (hub_broadcast msg s) ! i =
      (if i \<in> set (hub_clients s) then ws_receive msg (hub_conns s ! i) else hub_conns s ! i)"
    using fold_update_distinct [OF d, of "ws_receive msg" "hub_conns s"] by (simp_all add: eq)
  show "hub_clients (hub_broadcast msg s) = filter (\<lambda>i. \<not> ws_full (hub_conns s ! i)) (hub_clients s)"
    by (auto simp: eq intro!: filter_cong)
qed

lemma hub_inv_step:
  assumes inv: "hub_inv s" and st: "hub_step s s'"
  shows "hub_inv s'"
  using st
proof cases
  case ws_connect
  with inv show ?thesis by (auto simp: hub_inv_def NewClient_def nth_append)
next
  case (ws_join i)
  then show ?thesis
    using inv by (auto simp: hub_inv_def hub_register_def set_conn_def nth_list_update dest!: set_update_subset_insert [THEN subsetD])
next
  case (ws_message i msg)
  then show ?thesis using inv by (auto simp: hub_inv_def Broadcast_def split: if_splits)
next
  case (ws_error i)
  then show ?thesis
    using inv by (auto simp: hub_inv_def set_conn_def nth_list_update dest!: set_update_subset_insert [THEN subsetD])
next
  case (ws_leave i)
  then show ?thesis
    using inv by (auto simp: hub_inv_def hub_unregister_def close_send_def set_conn_def nth_list_update distinct_removeAll
        dest!: set_update_subset_insert [THEN subsetD])
next
  case (ws_forward msg q)
  let ?s = "s\<lparr>hub_queue := q\<rparr>"
  have inv': "hub_inv ?s" using inv by (simp add: hub_inv_def)
  note b = hub_broadcast_inv [OF inv', where msg = msg]
  have "length (wc_send c) \<le> 256" if "c \<in> set (hub_conns (hub_broadcast msg ?s))" for c
  proof -
    from that obtain i where "i < length (hub_conns s)" "c = hub_conns (hub_broadcast msg ?s) ! i"
      using b(3) by (auto simp: in_set_conv_nth)
    then show ?thesis using b(4) [where i = i] inv by (auto simp: hub_inv_def ws_receive_def ws_full_def split: if_splits)
  qed
  then show ?thesis
    unfolding ws_forward using b inv by (auto simp: hub_inv_def ws_receive_def split: if_splits)
next
  case (ws_write i)
  then show ?thesis
    using inv by (auto simp: hub_inv_def write_frame_def set_conn_def nth_list_update split: list.splits if_splits
        dest!: set_update_subset_insert [THEN subsetD])
qed

lemma hub_reach_inv: "hub_reach s \<Longrightarrow> hub_inv s"
  by (induction rule: hub_reach.induct) (auto simp: hub_inv_step, simp add: hub_inv_def NewHub_def)

section \<open>What the hub promises\<close>

text \<open>However connections come, read, write and go, the hub never closes a channel twice and never sends on a closed one,
  no send buffer holds more than 256 messages, and the clients it counts are open connections.\<close>

theorem hub_never_panics:
  assumes "hub_reach s"
  shows "\<not> hub_panicked s \<and> (\<forall>c\<in>set (hub_conns s). length (wc_send c) \<le> 256) \<and>
     ClientCount s = int (card {i \<in> set (hub_clients s). i < length (hub_conns s) \<and> \<not> wc_closed (hub_conns s ! i)})"
proof -
  have inv: "hub_inv s" by (rule hub_reach_inv [OF assms])
  then have "{i \<in> set (hub_clients s). i < length (hub_conns s) \<and> \<not> wc_closed (hub_conns s ! i)} = set (hub_clients s)"
    by (auto simp: hub_inv_def)
  with inv show ?thesis by (simp add: hub_inv_def ClientCount_def distinct_card)
qed

text \<open>A message the loop forwards is added to the buffer of every client in the map that has room; one whose buffer is full
  is closed and leaves the map, and no other connection changes.\<close>

theorem slow_clients_are_dropped:
  assumes "hub_reach s" and "hub_queue s = msg # q" and "i < length (hub_conns s)"
  shows "let s' = hub_broadcast msg (s\<lparr>hub_queue := q\<rparr>); c = hub_conns s ! i in
     hub_queue s' = q \<and>
     (if i \<notin> set (hub_clients s) then hub_conns s' ! i = c \<and> i \<notin> set (hub_clients s')
      else if length (wc_send c) < 256
      then hub_conns s' ! i = c\<lparr>wc_send := wc_send c @ [msg]\<rparr> \<and> i \<in> set (hub_clients s')
      else hub_conns s' ! i = c\<lparr>wc_closed := True\<rparr> \<and> i \<notin> set (hub_clients s'))"
proof -
  have "hub_inv (s\<lparr>hub_queue := q\<rparr>)" using hub_reach_inv [OF assms(1)] by (simp add: hub_inv_def)
  from hub_broadcast_inv(2,4,5) [OF this, where msg = msg] assms(3) show ?thesis
    by (auto simp: Let_def ws_receive_def ws_full_def)
qed

text \<open>A client connects, joins and sends a line.\<close>

definition one_client :: hub where
  "one_client = (case Broadcast ''hi'' (hub_register 0 (set_conn 0 (\<lambda>c. c\<lparr>wc_pc := Reading\<rparr>) (NewHub\<lparr>hub_conns := [NewClient]\<rparr>))) of
     Some s \<Rightarrow> s | None \<Rightarrow> NewHub)"

lemma one_client_state:
  "hub_conns one_client = [NewClient\<lparr>wc_pc := Reading\<rparr>]" "hub_queue one_client = [''hi'']" "hub_clients one_client = [0]"
  by (simp_all add: one_client_def Broadcast_def hub_register_def set_conn_def NewHub_def)

lemma one_client_reached: "hub_reach one_client"
proof -
  let ?a = "NewHub\<lparr>hub_conns := [NewClient]\<rparr>"
  let ?b = "hub_register 0 (set_conn 0 (\<lambda>c. c\<lparr>wc_pc := Reading\<rparr>) ?a)"
  have "hub_reach ?a"
    using hub_reach_step [OF hub_reach_new _ ws_connect] by (simp add: NewHub_def)
  then have b: "hub_reach ?b"
    by (rule hub_reach_step) (simp_all add: NewHub_def NewClient_def ws_join)
  then show ?thesis
    by (rule hub_reach_step)
      (auto simp: one_client_def Broadcast_def NewHub_def NewClient_def hub_register_def set_conn_def intro!: ws_message [of 0 _ "''hi''"])
qed

theorem hub_never_panics_witness: "\<not> hub_panicked one_client \<and> ClientCount one_client = 1"
  using hub_never_panics [OF one_client_reached] by (simp add: one_client_state ClientCount_def)

theorem slow_clients_are_dropped_witness:
  "wc_send (hub_conns (hub_broadcast ''hi'' (one_client\<lparr>hub_queue := []\<rparr>)) ! 0) = [''hi'']"
  using slow_clients_are_dropped [OF one_client_reached, of "''hi''" "[]" 0]
  by (simp add: one_client_state NewClient_def Let_def)

end
