(* ===== verification/Config.thy ===== *)
theory Config
  imports Go_Text
begin

text \<open>
  The configuration (\<open>internal/platform/config/config.go\<close>) and its file \<open>config.yaml\<close>. The process
  environment is a map, the decoded file a parameter, and so are the random bytes.
\<close>

section \<open>The file\<close>

record server_config =
  sv_Port :: string
  sv_ReadTimeout :: int
  sv_WriteTimeout :: int
  sv_ReadHeaderTimeout :: int
  sv_IdleTimeout :: int

record database_config =
  dc_URL :: string
  dc_MaxOpenConns :: int
  dc_MaxIdleConns :: int
  dc_ConnMaxLifetime :: int

record logging_config =
  lg_Level :: string
  lg_Format :: string

record session_config =
  ss_Secret :: string
  ss_LifetimeHours :: int

record smtp_config =
  sm_Host :: string
  sm_Port :: string
  sm_From :: string

record workers_config =
  wk_Count :: int
  wk_CPUMultiplier :: rat
  wk_MinWorkers :: int
  wk_MaxWorkers :: int

record cors_settings =
  cr_AllowedOrigins :: string
  cr_AllowedMethods :: string
  cr_AllowedHeaders :: string
  cr_ExposedHeaders :: string
  cr_AllowCredentials :: bool
  cr_MaxAge :: int

record environment_config =
  ec_Server :: server_config
  ec_Database :: database_config
  ec_Logging :: logging_config
  ec_Session :: session_config
  ec_SMTP :: smtp_config
  ec_Workers :: workers_config
  ec_CORS :: cors_settings

record defaults_config =
  df_AppURL :: string
  df_AsaasEnvironment :: string

text \<open>\<open>os.ReadFile\<close> and \<open>yaml.Unmarshal\<close>: no readable file, one that does not parse, or its environments and defaults.\<close>

datatype config_file =
    No_File
  | Bad_Yaml string
  | Yaml "string \<rightharpoonup> environment_config" defaults_config

section \<open>Defaults\<close>

definition no_cors :: cors_settings where
  "no_cors = \<lparr>cr_AllowedOrigins = '''', cr_AllowedMethods = '''', cr_AllowedHeaders = '''', cr_ExposedHeaders = '''',
     cr_AllowCredentials = False, cr_MaxAge = 0\<rparr>"

definition default_environment :: "int \<Rightarrow> string \<Rightarrow> string \<Rightarrow> int \<Rightarrow> smtp_config \<Rightarrow> int \<Rightarrow> environment_config" where
  "default_environment timeout url level hours smtp workers =
     \<lparr>ec_Server = \<lparr>sv_Port = ''8080'', sv_ReadTimeout = timeout, sv_WriteTimeout = timeout, sv_ReadHeaderTimeout = 0, sv_IdleTimeout = 0\<rparr>,
      ec_Database = \<lparr>dc_URL = url, dc_MaxOpenConns = 0, dc_MaxIdleConns = 0, dc_ConnMaxLifetime = 0\<rparr>,
      ec_Logging = \<lparr>lg_Level = level, lg_Format = ''json''\<rparr>,
      ec_Session = \<lparr>ss_Secret = '''', ss_LifetimeHours = hours\<rparr>,
      ec_SMTP = smtp,
      ec_Workers = \<lparr>wk_Count = workers, wk_CPUMultiplier = 0, wk_MinWorkers = 0, wk_MaxWorkers = 0\<rparr>,
      ec_CORS = no_cors\<rparr>"

definition getDefaultConfig :: "string \<Rightarrow> environment_config" where
  "getDefaultConfig env =
     (if env = ''staging'' then
        default_environment 60 ''/data/goth.db?_journal_mode=WAL&_busy_timeout=5000'' ''info'' 168
          \<lparr>sm_Host = ''${SMTP_HOST}'', sm_Port = ''${SMTP_PORT}'', sm_From = ''noreply@staging.goth.com''\<rparr> 2
      else if env = ''prod'' then
        default_environment 60 ''/data/goth.db?_journal_mode=WAL&_busy_timeout=5000'' ''warn'' 720
          \<lparr>sm_Host = ''${SMTP_HOST}'', sm_Port = ''${SMTP_PORT}'', sm_From = ''noreply@goth.com''\<rparr> 5
      else
        default_environment 30 ''./goth.db?_journal_mode=WAL&_busy_timeout=5000'' ''debug'' 24
          \<lparr>sm_Host = ''localhost'', sm_Port = ''1025'', sm_From = ''noreply@localhost''\<rparr> 3)"

definition getDefaults :: defaults_config where
  "getDefaults = \<lparr>df_AppURL = ''http://localhost:8080'', df_AsaasEnvironment = ''sandbox''\<rparr>"

definition loadYAMLConfig :: "config_file \<Rightarrow> string \<Rightarrow> string + environment_config \<times> defaults_config" where
  "loadYAMLConfig file env =
     (case file of
        No_File \<Rightarrow> Inr (getDefaultConfig env, getDefaults)
      | Bad_Yaml e \<Rightarrow> Inl (''falha ao parsear config.yaml: '' @ e)
      | Yaml envs defaults \<Rightarrow>
          (case envs env of
             None \<Rightarrow> Inr (getDefaultConfig env, getDefaults)
           | Some c \<Rightarrow> Inr (c, defaults)))"

section \<open>The environment\<close>

type_synonym environ = "string \<rightharpoonup> string"

definition Getenv :: "environ \<Rightarrow> string \<Rightarrow> string" where
  "Getenv env k = (case env k of None \<Rightarrow> '''' | Some v \<Rightarrow> v)"

definition getEnv :: "environ \<Rightarrow> string \<Rightarrow> string \<Rightarrow> string" where
  "getEnv env k fallback = (case env k of None \<Rightarrow> fallback | Some v \<Rightarrow> v)"

definition placeholder :: "string \<Rightarrow> bool" where
  "placeholder v \<longleftrightarrow> has_prefix v ''${'' \<and> v \<noteq> '''' \<and> last v = CHR ''}''"

definition resolveEnvVar :: "environ \<Rightarrow> string \<Rightarrow> string \<Rightarrow> string" where
  "resolveEnvVar env v fallback =
     (let found = (if placeholder v then Getenv env (butlast (drop 2 v)) else '''')
      in if found \<noteq> '''' then found else if v \<noteq> '''' then v else fallback)"

text \<open>The hexadecimal text of 32 random bytes, or \<open>None\<close> when there are none.\<close>

definition generateSecureSecret :: "string option \<Rightarrow> string" where
  "generateSecureSecret random =
     (case random of None \<Rightarrow> ''fallback-secret-change-in-production'' | Some hex \<Rightarrow> hex)"

section \<open>Loading\<close>

record config =
  cf_Port :: string
  cf_DatabaseURL :: string
  cf_SMTPHost :: string
  cf_SMTPPort :: string
  cf_SMTPUser :: string
  cf_SMTPPass :: string
  cf_SMTPFrom :: string
  cf_SessionSecret :: string
  cf_Env :: string
  cf_AsaasAPIKey :: string
  cf_AsaasEnvironment :: string
  cf_AsaasWebhookToken :: string
  cf_AsaasHmacSecret :: string
  cf_GoogleClientID :: string
  cf_GoogleClientSecret :: string
  cf_AppURL :: string
  cf_ReadTimeout :: int
  cf_WriteTimeout :: int
  cf_ReadHeaderTimeout :: int
  cf_IdleTimeout :: int
  cf_LogLevel :: string
  cf_PasswordPepper :: string
  cf_OtelEndpoint :: string
  cf_OtelProtocol :: string
  cf_OtelServiceName :: string
  cf_MaxOpenConns :: int
  cf_MaxIdleConns :: int
  cf_ConnMaxLifetime :: int
  cf_WorkerCount :: int
  cf_CPUMultiplier :: rat
  cf_MinWorkers :: int
  cf_MaxWorkers :: int
  cf_CORSAllowedOrigins :: string
  cf_CORSAllowedMethods :: string
  cf_CORSAllowedHeaders :: string
  cf_CORSExposedHeaders :: string
  cf_CORSAllowCredentials :: bool
  cf_CORSMaxAge :: int

definition if_zero :: "'a :: zero \<Rightarrow> 'a \<Rightarrow> 'a" where
  "if_zero v d = (if v = 0 then d else v)"

text \<open>The literal of \<open>Load\<close> with the defaults set after it.\<close>

definition read_config :: "environ \<Rightarrow> string \<Rightarrow> environment_config \<Rightarrow> defaults_config \<Rightarrow> config" where
  "read_config env app_env y d =
     \<lparr>cf_Port = getEnv env ''PORT'' (sv_Port (ec_Server y)),
      cf_DatabaseURL = getEnv env ''DATABASE_URL'' (dc_URL (ec_Database y)),
      cf_SMTPHost = resolveEnvVar env (sm_Host (ec_SMTP y)) ''localhost'',
      cf_SMTPPort = resolveEnvVar env (sm_Port (ec_SMTP y)) ''1025'',
      cf_SMTPUser = Getenv env ''SMTP_USER'',
      cf_SMTPPass = Getenv env ''SMTP_PASS'',
      cf_SMTPFrom = getEnv env ''SMTP_FROM'' (sm_From (ec_SMTP y)),
      cf_SessionSecret = Getenv env ''SESSION_SECRET'',
      cf_Env = app_env,
      cf_AsaasAPIKey = Getenv env ''ASAAS_API_KEY'',
      cf_AsaasEnvironment = getEnv env ''ASAAS_ENVIRONMENT'' (df_AppURL d),
      cf_AsaasWebhookToken = Getenv env ''ASAAS_WEBHOOK_TOKEN'',
      cf_AsaasHmacSecret = Getenv env ''ASAAS_HMAC_SECRET'',
      cf_GoogleClientID = Getenv env ''GOOGLE_CLIENT_ID'',
      cf_GoogleClientSecret = Getenv env ''GOOGLE_CLIENT_SECRET'',
      cf_AppURL = getEnv env ''APP_URL'' (df_AppURL d),
      cf_ReadTimeout = if_zero (sv_ReadTimeout (ec_Server y)) 30,
      cf_WriteTimeout = if_zero (sv_WriteTimeout (ec_Server y)) 30,
      cf_ReadHeaderTimeout = if_zero (sv_ReadHeaderTimeout (ec_Server y)) 10,
      cf_IdleTimeout = if_zero (sv_IdleTimeout (ec_Server y)) 120,
      cf_LogLevel = lg_Level (ec_Logging y),
      cf_PasswordPepper = Getenv env ''PASSWORD_PEPPER'',
      cf_OtelEndpoint = Getenv env ''OTEL_EXPORTER_OTLP_ENDPOINT'',
      cf_OtelProtocol = Getenv env ''OTEL_EXPORTER_OTLP_PROTOCOL'',
      cf_OtelServiceName = Getenv env ''OTEL_SERVICE_NAME'',
      cf_MaxOpenConns = if_zero (dc_MaxOpenConns (ec_Database y)) 50,
      cf_MaxIdleConns = if_zero (dc_MaxIdleConns (ec_Database y)) 10,
      cf_ConnMaxLifetime = if_zero (dc_ConnMaxLifetime (ec_Database y)) 300,
      cf_WorkerCount = if_zero (wk_Count (ec_Workers y)) 3,
      cf_CPUMultiplier = if_zero (wk_CPUMultiplier (ec_Workers y)) 4,
      cf_MinWorkers = if_zero (wk_MinWorkers (ec_Workers y)) 2,
      cf_MaxWorkers = if_zero (wk_MaxWorkers (ec_Workers y)) (-1),
      cf_CORSAllowedOrigins = resolveEnvVar env (cr_AllowedOrigins (ec_CORS y)) ''http://localhost:8080,http://localhost:3000'',
      cf_CORSAllowedMethods = cr_AllowedMethods (ec_CORS y),
      cf_CORSAllowedHeaders = cr_AllowedHeaders (ec_CORS y),
      cf_CORSExposedHeaders = cr_ExposedHeaders (ec_CORS y),
      cf_CORSAllowCredentials = cr_AllowCredentials (ec_CORS y),
      cf_CORSMaxAge = cr_MaxAge (ec_CORS y)\<rparr>"

text \<open>The checks at the end of \<open>Load\<close>; the messages are given without their accents.\<close>

definition check_config :: "string option \<Rightarrow> config \<Rightarrow> string + config" where
  "check_config random c =
     (if cf_Env c = ''prod'' \<or> cf_Env c = ''staging''
      then if cf_SMTPPass c = '''' then Inl ''producao: SMTP_PASS e obrigatorio''
           else if cf_SMTPUser c = '''' then Inl ''producao: SMTP_USER e obrigatorio''
           else if cf_SessionSecret c = '''' then Inl ''producao: SESSION_SECRET e obrigatorio''
           else if cf_PasswordPepper c = '''' then Inl ''producao: PASSWORD_PEPPER e obrigatorio''
           else if cf_AsaasWebhookToken c = '''' then Inl ''producao: ASAAS_WEBHOOK_TOKEN e obrigatorio''
           else Inr c
      else Inr (c\<lparr>cf_SessionSecret := (if cf_SessionSecret c = '''' then generateSecureSecret random else cf_SessionSecret c),
                  cf_PasswordPepper := (if cf_PasswordPepper c = '''' then ''dev-pepper-change-in-production''
                                        else cf_PasswordPepper c)\<rparr>))"

definition Load :: "environ \<Rightarrow> config_file \<Rightarrow> string option \<Rightarrow> string + config" where
  "Load env file random =
     (let app_env = getEnv env ''APP_ENV'' ''dev''
      in case loadYAMLConfig file app_env of
           Inl e \<Rightarrow> Inl (''falha ao carregar config.yaml: '' @ e)
         | Inr (y, d) \<Rightarrow> check_config random (read_config env app_env y d))"

text \<open>The payment API that \<open>NewAsaasClientImpl\<close> of \<open>internal/features/billing/handler.go\<close> takes.\<close>

definition asaas_base_url :: "string \<Rightarrow> string" where
  "asaas_base_url environment =
     (if environment = ''sandbox'' then ''https://sandbox.asaas.com/api/v3'' else ''https://www.asaas.com/api/v3'')"

section \<open>The file of the repository\<close>

definition shipped_cors :: "string \<Rightarrow> cors_settings" where
  "shipped_cors origins =
     \<lparr>cr_AllowedOrigins = origins, cr_AllowedMethods = ''GET,POST,PUT,DELETE,OPTIONS,PATCH'',
      cr_AllowedHeaders = ''Content-Type,Authorization,X-Requested-With,X-CSRF-Token'',
      cr_ExposedHeaders = ''Content-Length,X-CSRF-Token'', cr_AllowCredentials = True, cr_MaxAge = 3600\<rparr>"

definition shipped_workers :: workers_config where
  "shipped_workers = \<lparr>wk_Count = 0, wk_CPUMultiplier = 4, wk_MinWorkers = 2, wk_MaxWorkers = 0\<rparr>"

definition shipped_dev :: environment_config where
  "shipped_dev =
     \<lparr>ec_Server = \<lparr>sv_Port = ''8080'', sv_ReadTimeout = 30, sv_WriteTimeout = 30, sv_ReadHeaderTimeout = 10, sv_IdleTimeout = 120\<rparr>,
      ec_Database = \<lparr>dc_URL = ''./goth.db?_journal_mode=WAL&_busy_timeout=5000'', dc_MaxOpenConns = 50, dc_MaxIdleConns = 10,
                     dc_ConnMaxLifetime = 300\<rparr>,
      ec_Logging = \<lparr>lg_Level = ''debug'', lg_Format = ''json''\<rparr>,
      ec_Session = \<lparr>ss_Secret = ''${SESSION_SECRET:-dev-secret-keep-it-simple-but-not-safe}'', ss_LifetimeHours = 24\<rparr>,
      ec_SMTP = \<lparr>sm_Host = ''${SMTP_HOST:-localhost}'', sm_Port = ''${SMTP_PORT:-1025}'', sm_From = ''noreply@localhost''\<rparr>,
      ec_Workers = shipped_workers,
      ec_CORS = shipped_cors ''${CORS_ALLOWED_ORIGINS:http://localhost:8080,http://localhost:3000}''\<rparr>"

definition shipped_prod :: environment_config where
  "shipped_prod =
     \<lparr>ec_Server = \<lparr>sv_Port = ''8080'', sv_ReadTimeout = 60, sv_WriteTimeout = 60, sv_ReadHeaderTimeout = 15, sv_IdleTimeout = 120\<rparr>,
      ec_Database = \<lparr>dc_URL = ''/data/goth.db?_journal_mode=WAL&_busy_timeout=5000'', dc_MaxOpenConns = 50, dc_MaxIdleConns = 20,
                     dc_ConnMaxLifetime = 600\<rparr>,
      ec_Logging = \<lparr>lg_Level = ''warn'', lg_Format = ''json''\<rparr>,
      ec_Session = \<lparr>ss_Secret = ''${SESSION_SECRET}'', ss_LifetimeHours = 720\<rparr>,
      ec_SMTP = \<lparr>sm_Host = ''${SMTP_HOST}'', sm_Port = ''${SMTP_PORT}'', sm_From = ''noreply@goth.com''\<rparr>,
      ec_Workers = shipped_workers,
      ec_CORS = shipped_cors ''${CORS_ALLOWED_ORIGINS:https://goth.com}''\<rparr>"

text \<open>Staging differs from production in the values a deployment sets and is left out.\<close>

definition shipped_config :: config_file where
  "shipped_config = Yaml [''dev'' \<mapsto> shipped_dev, ''prod'' \<mapsto> shipped_prod]
     \<lparr>df_AppURL = ''http://localhost:8080'', df_AsaasEnvironment = ''sandbox''\<rparr>"

section \<open>What loading promises\<close>

lemma Load_cases:
  assumes "Load env file random = Inr c"
  obtains y d where "loadYAMLConfig file (getEnv env ''APP_ENV'' ''dev'') = Inr (y, d)"
    and "check_config random (read_config env (getEnv env ''APP_ENV'' ''dev'') y d) = Inr c"
  using assms by (auto simp: Load_def Let_def split: sum.splits)

lemma check_config_shape:
  assumes "check_config random c0 = Inr c"
  shows "\<exists>u v. c = c0\<lparr>cf_SessionSecret := u, cf_PasswordPepper := v\<rparr>"
proof (cases "cf_Env c0 = ''prod'' \<or> cf_Env c0 = ''staging''")
  case True
  with assms have "c = c0\<lparr>cf_SessionSecret := cf_SessionSecret c0, cf_PasswordPepper := cf_PasswordPepper c0\<rparr>"
    by (simp add: check_config_def split: if_splits)
  then show ?thesis by blast
next
  case False
  with assms show ?thesis by (auto simp: check_config_def)
qed

lemma check_config_protected:
  "check_config random c0 = Inr c \<Longrightarrow> cf_Env c0 = ''prod'' \<or> cf_Env c0 = ''staging'' \<Longrightarrow>
    c = c0 \<and> cf_SMTPPass c0 \<noteq> '''' \<and> cf_SMTPUser c0 \<noteq> '''' \<and> cf_SessionSecret c0 \<noteq> '''' \<and> cf_PasswordPepper c0 \<noteq> '''' \<and>
    cf_AsaasWebhookToken c0 \<noteq> ''''"
  by (simp add: check_config_def split: if_splits)

lemma check_config_secrets:
  assumes "check_config random c0 = Inr c" and "random \<noteq> Some ''''"
  shows "cf_SessionSecret c \<noteq> '''' \<and> cf_PasswordPepper c \<noteq> ''''"
proof (cases "cf_Env c0 = ''prod'' \<or> cf_Env c0 = ''staging''")
  case True
  from check_config_protected [OF assms(1) this] show ?thesis by simp
next
  case False
  have "generateSecureSecret random \<noteq> ''''" using assms(2) by (auto simp: generateSecureSecret_def split: option.splits)
  with False assms(1) show ?thesis by (auto simp: check_config_def split: if_splits)
qed

lemma read_config_fields:
  "cf_Env (read_config env e y d) = e" "cf_SMTPUser (read_config env e y d) = Getenv env ''SMTP_USER''"
  "cf_SMTPPass (read_config env e y d) = Getenv env ''SMTP_PASS''"
  "cf_SessionSecret (read_config env e y d) = Getenv env ''SESSION_SECRET''"
  "cf_PasswordPepper (read_config env e y d) = Getenv env ''PASSWORD_PEPPER''"
  "cf_AsaasWebhookToken (read_config env e y d) = Getenv env ''ASAAS_WEBHOOK_TOKEN''"
  "cf_AsaasEnvironment (read_config env e y d) = getEnv env ''ASAAS_ENVIRONMENT'' (df_AppURL d)"
  "cf_SMTPHost (read_config env e y d) = resolveEnvVar env (sm_Host (ec_SMTP y)) ''localhost''"
  "cf_CORSAllowedOrigins (read_config env e y d) =
     resolveEnvVar env (cr_AllowedOrigins (ec_CORS y)) ''http://localhost:8080,http://localhost:3000''"
  by (simp_all add: read_config_def)

lemma if_zero_neq [simp]: "d \<noteq> 0 \<Longrightarrow> if_zero v d \<noteq> 0"
  by (simp add: if_zero_def)

definition has_numbers :: "config \<Rightarrow> bool" where
  "has_numbers c \<longleftrightarrow>
     0 \<notin> {cf_ReadTimeout c, cf_WriteTimeout c, cf_ReadHeaderTimeout c, cf_IdleTimeout c, cf_MaxOpenConns c, cf_MaxIdleConns c,
          cf_ConnMaxLifetime c, cf_WorkerCount c, cf_MinWorkers c, cf_MaxWorkers c} \<and> cf_CPUMultiplier c \<noteq> 0"

lemma read_config_numbers: "has_numbers (read_config env e y d)"
  unfolding has_numbers_def insert_iff de_Morgan_disj empty_iff eq_commute [of 0]
  by (intro conjI) (simp_all add: read_config_def)

lemma has_numbers_update: "has_numbers (c\<lparr>cf_SessionSecret := u, cf_PasswordPepper := v\<rparr>) = has_numbers c"
  by (simp add: has_numbers_def)

text \<open>A configuration that loads is complete: its timeouts, pool sizes and worker numbers are not zero, its session secret
  and pepper are not empty, and in production and staging the mail and webhook credentials are there too and all come from
  the environment.\<close>

theorem loaded_config_complete:
  assumes load: "Load env file random = Inr c" and "random \<noteq> Some ''''"
  shows "has_numbers c \<and> cf_SessionSecret c \<noteq> '''' \<and> cf_PasswordPepper c \<noteq> '''' \<and>
    (cf_Env c = ''prod'' \<or> cf_Env c = ''staging'' \<longrightarrow>
       cf_SessionSecret c = Getenv env ''SESSION_SECRET'' \<and> cf_PasswordPepper c = Getenv env ''PASSWORD_PEPPER'' \<and>
       cf_SMTPUser c = Getenv env ''SMTP_USER'' \<and> cf_SMTPUser c \<noteq> '''' \<and>
       cf_SMTPPass c = Getenv env ''SMTP_PASS'' \<and> cf_SMTPPass c \<noteq> '''' \<and>
       cf_AsaasWebhookToken c = Getenv env ''ASAAS_WEBHOOK_TOKEN'' \<and> cf_AsaasWebhookToken c \<noteq> '''')"
proof -
  let ?app = "getEnv env ''APP_ENV'' ''dev''"
  from load obtain y d where check: "check_config random (read_config env ?app y d) = Inr c"
    by (rule Load_cases)
  let ?c = "read_config env ?app y d"
  from check_config_shape [OF check] obtain u v
    where c: "c = ?c\<lparr>cf_SessionSecret := u, cf_PasswordPepper := v\<rparr>" by blast
  have env: "cf_Env c = cf_Env ?c" by (simp add: c)
  show ?thesis
  proof (intro conjI impI)
    show "has_numbers c" unfolding c has_numbers_update by (rule read_config_numbers)
    assume "cf_Env c = ''prod'' \<or> cf_Env c = ''staging''"
    from check_config_protected [OF check this [unfolded env]] have c: "c = ?c" and
      p: "cf_SMTPPass ?c \<noteq> ''''" "cf_SMTPUser ?c \<noteq> ''''" "cf_AsaasWebhookToken ?c \<noteq> ''''" by blast+
    show "cf_SMTPPass c \<noteq> ''''" "cf_SMTPUser c \<noteq> ''''" "cf_AsaasWebhookToken c \<noteq> ''''" unfolding c by (fact p)+
    show "cf_SessionSecret c = Getenv env ''SESSION_SECRET''" "cf_PasswordPepper c = Getenv env ''PASSWORD_PEPPER''"
      "cf_SMTPUser c = Getenv env ''SMTP_USER''" "cf_SMTPPass c = Getenv env ''SMTP_PASS''"
      "cf_AsaasWebhookToken c = Getenv env ''ASAAS_WEBHOOK_TOKEN''"
      unfolding c by (rule read_config_fields)+
  qed (use check_config_secrets [OF check assms(2)] in blast)+
qed

text \<open>The placeholders of the shipped file carry a default after a colon, which \<open>resolveEnvVar\<close> takes for part of the name:
  whatever SMTP_HOST and CORS_ALLOWED_ORIGINS are set to, the mail host and the allowed origins are the placeholders themselves.\<close>

theorem shipped_placeholders_stay:
  assumes "Load env shipped_config random = Inr c" and "getEnv env ''APP_ENV'' ''dev'' = ''dev''"
    and "env ''SMTP_HOST:-localhost'' = None" and "env ''CORS_ALLOWED_ORIGINS:http://localhost:8080,http://localhost:3000'' = None"
  shows "cf_SMTPHost c = ''${SMTP_HOST:-localhost}'' \<and>
    cf_CORSAllowedOrigins c = ''${CORS_ALLOWED_ORIGINS:http://localhost:8080,http://localhost:3000}''"
proof -
  from assms(1) obtain y d where y: "loadYAMLConfig shipped_config (getEnv env ''APP_ENV'' ''dev'') = Inr (y, d)"
    and c: "check_config random (read_config env (getEnv env ''APP_ENV'' ''dev'') y d) = Inr c"
    by (rule Load_cases)
  have "y = shipped_dev" using y assms(2) by (simp add: loadYAMLConfig_def shipped_config_def)
  moreover have "resolveEnvVar env ''${SMTP_HOST:-localhost}'' ''localhost'' = ''${SMTP_HOST:-localhost}''"
    using assms(3) by (simp add: resolveEnvVar_def Getenv_def)
  moreover have "resolveEnvVar env ''${CORS_ALLOWED_ORIGINS:http://localhost:8080,http://localhost:3000}'' f =
      ''${CORS_ALLOWED_ORIGINS:http://localhost:8080,http://localhost:3000}'' " for f
    using assms(4) by (simp add: resolveEnvVar_def Getenv_def)
  moreover have "cf_SMTPHost c = cf_SMTPHost (read_config env (getEnv env ''APP_ENV'' ''dev'') y d)"
    "cf_CORSAllowedOrigins c = cf_CORSAllowedOrigins (read_config env (getEnv env ''APP_ENV'' ''dev'') y d)"
    using check_config_shape [OF c] by auto
  ultimately show ?thesis by (simp add: read_config_fields shipped_dev_def shipped_cors_def)
qed

text \<open>Without ASAAS_ENVIRONMENT the payment environment is the URL of the application, which is not the sandbox: the client is
  made for the production API, in development too, although the defaults name the sandbox.\<close>

theorem payments_default_to_production:
  assumes "Load env file random = Inr c" and "env ''ASAAS_ENVIRONMENT'' = None"
    and "case file of Yaml envs d \<Rightarrow> df_AppURL d \<noteq> ''sandbox'' | _ \<Rightarrow> True"
  shows "asaas_base_url (cf_AsaasEnvironment c) = ''https://www.asaas.com/api/v3''"
proof -
  from assms(1) obtain y d where y: "loadYAMLConfig file (getEnv env ''APP_ENV'' ''dev'') = Inr (y, d)"
    and c: "check_config random (read_config env (getEnv env ''APP_ENV'' ''dev'') y d) = Inr c"
    by (rule Load_cases)
  have "df_AppURL d \<noteq> ''sandbox''"
    using y assms(3) by (auto simp: loadYAMLConfig_def getDefaults_def split: config_file.splits option.splits)
  moreover have "cf_AsaasEnvironment c = cf_AsaasEnvironment (read_config env (getEnv env ''APP_ENV'' ''dev'') y d)"
    using check_config_shape [OF c] by auto
  ultimately show ?thesis using assms(2) by (simp add: asaas_base_url_def read_config_fields getEnv_def)
qed

text \<open>A production environment with what \<open>Load\<close> asks for, and an empty one.\<close>

definition prod_env :: environ where
  "prod_env = [''APP_ENV'' \<mapsto> ''prod'', ''SMTP_USER'' \<mapsto> ''u'', ''SMTP_PASS'' \<mapsto> ''p'', ''SESSION_SECRET'' \<mapsto> ''s'',
     ''PASSWORD_PEPPER'' \<mapsto> ''q'', ''ASAAS_WEBHOOK_TOKEN'' \<mapsto> ''t'']"

definition loaded_config :: "environ \<Rightarrow> config" where
  "loaded_config env = projr (Load env shipped_config (Some ''00''))"

lemma loads_prod: "Load prod_env shipped_config (Some ''00'') = Inr (loaded_config prod_env)"
  by (simp add: loaded_config_def Load_def loadYAMLConfig_def shipped_config_def check_config_def read_config_fields
      prod_env_def getEnv_def Getenv_def Let_def)

lemma loads_dev: "Load Map.empty shipped_config (Some ''00'') = Inr (loaded_config Map.empty)"
  by (simp add: loaded_config_def Load_def loadYAMLConfig_def shipped_config_def check_config_def read_config_fields getEnv_def Getenv_def Let_def)

theorem loaded_config_complete_witness:
  "cf_SMTPPass (loaded_config prod_env) \<noteq> '''' \<and> cf_SessionSecret (loaded_config prod_env) = ''s''"
proof -
  from loads_prod obtain y d where "check_config (Some ''00'') (read_config prod_env (getEnv prod_env ''APP_ENV'' ''dev'') y d) =
      Inr (loaded_config prod_env)" by (rule Load_cases)
  from check_config_shape [OF this] have "cf_Env (loaded_config prod_env) = ''prod''"
    by (auto simp: read_config_fields getEnv_def prod_env_def)
  moreover have "Getenv prod_env ''SESSION_SECRET'' = ''s''" by (simp add: Getenv_def prod_env_def)
  ultimately show ?thesis using loaded_config_complete [OF loads_prod] by (simp add: Getenv_def prod_env_def)
qed

theorem shipped_placeholders_stay_witness: "cf_SMTPHost (loaded_config Map.empty) = ''${SMTP_HOST:-localhost}''"
  using shipped_placeholders_stay [OF loads_dev] by (simp add: getEnv_def)

theorem payments_default_to_production_witness:
  "asaas_base_url (cf_AsaasEnvironment (loaded_config Map.empty)) = ''https://www.asaas.com/api/v3''"
  using payments_default_to_production [OF loads_dev] by (simp add: shipped_config_def)

end
