(* ===== verification/Go_Path.thy ===== *)
theory Go_Path
  imports Go_Text
begin

text \<open>
  The functions of \<open>path/filepath\<close> on Unix that the program calls: \<open>Clean\<close>, \<open>Join\<close>, \<open>IsLocal\<close>, \<open>Ext\<close> and
  \<open>Base\<close>.
\<close>

abbreviation slash :: char where
  "slash \<equiv> CHR ''/''"

definition is_abs :: "string \<Rightarrow> bool" where
  "is_abs p \<longleftrightarrow> has_prefix p ''/''"

fun clean_parts :: "bool \<Rightarrow> string list \<Rightarrow> string list \<Rightarrow> string list" where
  "clean_parts rooted acc [] = rev acc"
| "clean_parts rooted acc (p # ps) =
     (if p = '''' \<or> p = ''.'' then clean_parts rooted acc ps
      else if p = ''..'' then
        (case acc of
           [] \<Rightarrow> clean_parts rooted (if rooted then [] else [p]) ps
         | a # as \<Rightarrow> clean_parts rooted (if a = ''..'' then p # acc else as) ps)
      else clean_parts rooted (p # acc) ps)"

definition path_clean :: "string \<Rightarrow> string" where
  "path_clean p =
     (let body = join ''/'' (clean_parts (is_abs p) [] (split_at slash p))
      in if is_abs p then slash # body else if body = '''' then ''.'' else body)"

definition path_join :: "string list \<Rightarrow> string" where
  "path_join ps = (case filter (\<lambda>p. p \<noteq> '''') ps of [] \<Rightarrow> '''' | qs \<Rightarrow> path_clean (join ''/'' qs))"

definition is_local :: "string \<Rightarrow> bool" where
  "is_local p \<longleftrightarrow>
     \<not> is_abs p \<and> p \<noteq> '''' \<and>
     (let q = (if ''.'' \<in> set (split_at slash p) \<or> ''..'' \<in> set (split_at slash p) then path_clean p else p)
      in q \<noteq> ''..'' \<and> \<not> has_prefix q ''../'')"

definition path_ext :: "string \<Rightarrow> string" where
  "path_ext p =
     (let base = takeWhile (\<lambda>c. c \<noteq> slash) (rev p)
      in if CHR ''.'' \<in> set base then CHR ''.'' # rev (takeWhile (\<lambda>c. c \<noteq> CHR ''.'') base) else '''')"

definition path_base :: "string \<Rightarrow> string" where
  "path_base p =
     (if p = '''' then ''.''
      else let stripped = dropWhile (\<lambda>c. c = slash) (rev p); base = rev (takeWhile (\<lambda>c. c \<noteq> slash) stripped)
           in if base = '''' then ''/'' else base)"

lemma is_abs_Cons [simp]: "is_abs (c # p) \<longleftrightarrow> c = slash" "\<not> is_abs ''''"
  by (auto simp: is_abs_def has_prefix_def)

lemma is_abs_clean [simp]: "is_abs p \<Longrightarrow> is_abs (path_clean p)"
  by (simp add: path_clean_def Let_def)

lemma abs_not_local: "is_abs p \<Longrightarrow> \<not> is_local p"
  by (simp add: is_local_def)

text \<open>A part that \<open>Clean\<close> keeps.\<close>

definition plain_part :: "string \<Rightarrow> bool" where
  "plain_part p \<longleftrightarrow> p \<noteq> '''' \<and> p \<noteq> ''.'' \<and> p \<noteq> ''..'' \<and> slash \<notin> set p"

lemma clean_parts_plain: "list_all plain_part ps \<Longrightarrow> clean_parts r acc ps = rev acc @ ps"
  by (induction ps arbitrary: acc) (auto simp: plain_part_def)

lemma join_eq_Nil: "join sep ps = '''' \<Longrightarrow> sep \<noteq> '''' \<Longrightarrow> ps = [] \<or> ps = ['''']"
  by (induction ps rule: induct_list012) auto

lemma join_hd_not_abs: "ps \<noteq> [] \<Longrightarrow> list_all plain_part ps \<Longrightarrow> \<not> is_abs (join ''/'' ps)"
proof (induction ps rule: induct_list012)
  case (2 p)
  then show ?case by (cases p) (auto simp: plain_part_def)
next
  case (3 p q ps)
  then show ?case by (cases p) (auto simp: plain_part_def)
qed simp

lemma path_clean_plain:
  assumes "ps \<noteq> []" and "list_all plain_part ps"
  shows "path_clean (join ''/'' ps) = join ''/'' ps"
proof -
  have "split_at slash (join ''/'' ps) = ps"
    using assms by (intro split_join) (auto simp: list_all_iff plain_part_def)
  moreover have "join ''/'' ps \<noteq> ''''"
    using assms join_eq_Nil [of "''/''" ps] by (auto simp: plain_part_def)
  ultimately show ?thesis
    using join_hd_not_abs [OF assms] clean_parts_plain [OF assms(2)] by (simp add: path_clean_def)
qed

lemma path_base_plain:
  assumes p: "plain_part p"
  shows "path_base p = p"
proof -
  have "slash \<notin> set (rev p)" using p by (simp add: plain_part_def)
  then have strip: "dropWhile (\<lambda>c. c = slash) (rev p) = rev p" and base: "takeWhile (\<lambda>c. c \<noteq> slash) (rev p) = rev p"
    by (cases "rev p"; auto)+
  show ?thesis unfolding path_base_def strip Let_def base using p by (simp add: plain_part_def)
qed

end
