(* ===== verification/Log_Level.thy ===== *)
theory Log_Level
  imports Go_Path Http_Errors
begin

text \<open>
  The level of the log at run time (\<open>internal/platform/logging\<close>): the level in memory, the file it is saved in,
  and the handlers that read and set it.
\<close>

section \<open>Levels\<close>

definition level_debug :: int where "level_debug = -4"
definition level_info :: int where "level_info = 0"
definition level_warn :: int where "level_warn = 4"
definition level_error :: int where "level_error = 8"

lemmas levels = level_debug_def level_info_def level_warn_def level_error_def

definition ParseLevel :: "string \<Rightarrow> int" where
  "ParseLevel s =
     (if s = ''debug'' then level_debug
      else if s = ''info'' then level_info
      else if s = ''warn'' \<or> s = ''warning'' then level_warn
      else if s = ''error'' then level_error
      else level_info)"

definition parseLogLevel :: "unicode \<Rightarrow> string \<Rightarrow> int" where
  "parseLogLevel u s = ParseLevel (ToLower u s)"

definition AtomicLevel_String :: "int \<Rightarrow> string" where
  "AtomicLevel_String level =
     (if level = level_debug then ''debug''
      else if level = level_info then ''info''
      else if level = level_warn then ''warn''
      else if level = level_error then ''error''
      else ''unknown'')"

definition level_Enabled :: "int \<Rightarrow> int \<Rightarrow> bool" where
  "level_Enabled current level \<longleftrightarrow> current \<le> level"

text \<open>\<open>slog.Level.String\<close> at the four levels that can be set.\<close>

definition slog_String :: "int \<Rightarrow> string" where
  "slog_String level =
     (if level = level_debug then ''DEBUG''
      else if level = level_info then ''INFO''
      else if level = level_warn then ''WARN''
      else ''ERROR'')"

section \<open>The level and its file\<close>

text \<open>\<open>ll_level\<close> is \<open>globalAtomicLevel\<close>, \<open>None\<close> for nil; \<open>ll_file\<close> is what the file at \<open>ll_path\<close> holds; \<open>ll_writable\<close> says
  whether \<open>os.WriteFile\<close> succeeds.\<close>

record log_level =
  ll_level :: "int option"
  ll_path :: string
  ll_file :: "string option"
  ll_writable :: bool

definition saveLevelToFile :: "string \<Rightarrow> log_level \<Rightarrow> bool \<times> log_level" where
  "saveLevelToFile level s =
     (if ll_writable s then (True, s\<lparr>ll_file := Some level\<rparr>) else (False, s))"

definition loadLevelFromFile :: "log_level \<Rightarrow> bool \<times> log_level" where
  "loadLevelFromFile s =
     (if \<not> is_local (path_clean (ll_path s)) then (False, s)
      else case ll_file s of
             None \<Rightarrow> (False, s)
           | Some data \<Rightarrow>
               (True, case ll_level s of None \<Rightarrow> s | Some _ \<Rightarrow> s\<lparr>ll_level := Some (ParseLevel data)\<rparr>))"

text \<open>\<open>cwd\<close> is what \<open>os.Getwd\<close> returns, \<open>None\<close> for an error; the result says whether there was no error.\<close>

definition InitDynamicLogging :: "string option \<Rightarrow> string \<Rightarrow> log_level \<Rightarrow> bool \<times> log_level" where
  "InitDynamicLogging cwd level s =
     (let s1 = s\<lparr>ll_level := Some (ParseLevel level),
                 ll_path := path_join [case cwd of None \<Rightarrow> ''.'' | Some d \<Rightarrow> d, ''.log_level'']\<rparr>
      in case loadLevelFromFile s1 of
           (True, s2) \<Rightarrow> (True, s2)
         | (False, s2) \<Rightarrow> saveLevelToFile level s2)"

definition GetGlobalLevel :: "log_level \<Rightarrow> int" where
  "GetGlobalLevel s = (case ll_level s of None \<Rightarrow> level_info | Some l \<Rightarrow> l)"

definition SetGlobalLevel :: "string \<Rightarrow> log_level \<Rightarrow> bool \<times> log_level" where
  "SetGlobalLevel level s =
     (case ll_level s of
        None \<Rightarrow> (True, s)
      | Some _ \<Rightarrow> saveLevelToFile level (s\<lparr>ll_level := Some (ParseLevel level)\<rparr>))"

section \<open>The handlers\<close>

definition getLevel :: "log_level \<Rightarrow> response" where
  "getLevel s = respondJSON (JObj [(''level'', JStr (slog_String (GetGlobalLevel s)))]) 200"

definition validLevels :: "string list" where
  "validLevels = [''debug'', ''info'', ''warn'', ''warning'', ''error'']"

text \<open>\<open>why\<close> is the text of the error of \<open>os.WriteFile\<close>.\<close>

definition setLevel :: "string \<Rightarrow> string \<Rightarrow> log_level \<Rightarrow> response \<times> log_level" where
  "setLevel why body s =
     (case decode_struct body of
        None \<Rightarrow> (respondError ''Invalid request body'' 400, s)
      | Some ms \<Rightarrow>
          (case string_field ''level'' ms of
             None \<Rightarrow> (respondError ''Invalid request body'' 400, s)
           | Some level \<Rightarrow>
               if level \<notin> set validLevels
               then (respondError ''Invalid level. Must be one of: debug, info, warn, error'' 400, s)
               else (case SetGlobalLevel level s of
                  (True, s1) \<Rightarrow> (respondJSON (JObj [(''level'', JStr level)]) 200, s1)
                | (False, s1) \<Rightarrow> (respondError (''Failed to set log level: '' @ why) 500, s1))))"

section \<open>What the level promises\<close>

lemma String_ParseLevel: "level \<in> {level_debug, level_info, level_warn, level_error} \<Longrightarrow> ParseLevel (AtomicLevel_String level) = level"
  by (auto simp: ParseLevel_def AtomicLevel_String_def levels)

lemma is_abs_append: "is_abs p \<Longrightarrow> is_abs (p @ q)"
  by (cases p) simp_all

lemma init_absolute:
  assumes "is_abs d"
  shows "InitDynamicLogging (Some d) level s =
    saveLevelToFile level (s\<lparr>ll_level := Some (ParseLevel level), ll_path := path_join [d, ''.log_level'']\<rparr>)"
proof -
  have "is_abs (path_join [d, ''.log_level''])"
    using assms by (cases d) (simp_all add: path_join_def is_abs_append)
  then have "\<not> is_local (path_clean (path_join [d, ''.log_level'']))" by (intro abs_not_local is_abs_clean)
  then show ?thesis by (simp add: InitDynamicLogging_def Let_def loadLevelFromFile_def)
qed

text \<open>A level set at run time does not survive a restart: the path of the file is absolute, which \<open>loadLevelFromFile\<close>
  refuses as not local, so the start-up takes the configured level and writes it over the saved one.\<close>

theorem saved_level_is_lost:
  assumes "is_abs cwd" and "SetGlobalLevel chosen s = (True, s1)" and "ll_level s \<noteq> None" and "ll_writable s"
  shows "ll_file s1 = Some chosen \<and> GetGlobalLevel s1 = ParseLevel chosen \<and>
    (case InitDynamicLogging (Some cwd) configured (s1\<lparr>ll_level := None\<rparr>) of
       (ok, s2) \<Rightarrow> ok \<and> GetGlobalLevel s2 = ParseLevel configured \<and> ll_file s2 = Some configured)"
  using assms
  by (auto simp: SetGlobalLevel_def saveLevelToFile_def GetGlobalLevel_def init_absolute split: option.splits)

theorem saved_level_is_lost_witness:
  "(let s = \<lparr>ll_level = Some level_info, ll_path = '''', ll_file = None, ll_writable = True\<rparr>
    in GetGlobalLevel (snd (InitDynamicLogging (Some ''/app'') ''warn'' ((snd (SetGlobalLevel ''debug'' s))\<lparr>ll_level := None\<rparr>))) = level_warn)"
proof -
  let ?s = "\<lparr>ll_level = Some level_info, ll_path = '''', ll_file = None, ll_writable = True\<rparr>"
  have "SetGlobalLevel ''debug'' ?s = (True, snd (SetGlobalLevel ''debug'' ?s))"
    by (simp add: SetGlobalLevel_def saveLevelToFile_def)
  from saved_level_is_lost [of "''/app''", OF _ this, of "''warn''"] show ?thesis
    by (auto simp: Let_def ParseLevel_def split: prod.splits)
qed

end
