(* ===== verification/User_Pages.thy ===== *)
theory User_Pages
  imports Go_Path Middleware
begin

text \<open>
  The pages of a signed-in user (\<open>internal/features/user\<close>) with the upload of an avatar, and the two
  pagination types (\<open>internal/db/paging.go\<close>, \<open>internal/view/pagination.go\<close>). A rendered page is the
  template's name with its arguments.
\<close>

section \<open>Pagination\<close>

record pagination =
  pg_CurrentPage :: int
  pg_TotalItems :: int
  pg_PerPage :: int

definition NewPagination :: "int \<Rightarrow> int \<Rightarrow> int \<Rightarrow> pagination" where
  "NewPagination page total_items per_page =
     \<lparr>pg_CurrentPage = (if page < 1 then 1 else page), pg_TotalItems = total_items,
      pg_PerPage = (if per_page < 1 then 10 else per_page)\<rparr>"

text \<open>The quotient of floats is exact enough for counts below \<open>2 ^ 53\<close>; it is computed over the rationals here.\<close>

definition view_TotalPages :: "pagination \<Rightarrow> int" where
  "view_TotalPages p = \<lceil>rat_of_int (pg_TotalItems p) / rat_of_int (pg_PerPage p)\<rceil>"

definition HasPrevious :: "pagination \<Rightarrow> bool" where
  "HasPrevious p \<longleftrightarrow> 1 < pg_CurrentPage p"

definition HasNext :: "pagination \<Rightarrow> bool" where
  "HasNext p \<longleftrightarrow> pg_CurrentPage p < view_TotalPages p"

definition PreviousPage :: "pagination \<Rightarrow> int" where
  "PreviousPage p = (if HasPrevious p then pg_CurrentPage p - 1 else 1)"

definition NextPage :: "pagination \<Rightarrow> int" where
  "NextPage p = (if HasNext p then pg_CurrentPage p + 1 else view_TotalPages p)"

text \<open>\<open>PagingParams\<close> and \<open>PagedResult\<close>.\<close>

definition paging_Limit :: "int \<Rightarrow> int" where
  "paging_Limit per_page = (if per_page < 1 then 10 else per_page)"

definition paging_Offset :: "int \<Rightarrow> int \<Rightarrow> int" where
  "paging_Offset page per_page = ((if page < 1 then 1 else page) - 1) * paging_Limit per_page"

text \<open>Go's \<open>/\<close> truncates; for counts and page sizes that are not negative it is \<open>div\<close>.\<close>

definition go_div :: "int \<Rightarrow> int \<Rightarrow> int" where
  "go_div a b = (if (0 \<le> a) = (0 < b) then \<bar>a\<bar> div \<bar>b\<bar> else - (\<bar>a\<bar> div \<bar>b\<bar>))"

definition db_TotalPages :: "int \<Rightarrow> int \<Rightarrow> int" where
  "db_TotalPages total_items per_page = (if per_page = 0 then 0 else go_div (total_items + per_page - 1) per_page)"

section \<open>The repository\<close>

record list_params =
  lp_TenantID :: string
  lp_Search :: string
  lp_Page :: int
  lp_PerPage :: int

text \<open>\<open>Column2\<close> and \<open>Column3\<close> are the search text, NULL when it is empty: \<open>ListUsersPaginated\<close> takes the text.\<close>

definition ListPaginated :: "list_params \<Rightarrow> (user list \<times> int) query" where
  "ListPaginated p s =
     (case ListUsersPaginated (lp_TenantID p) (lp_Search p) (lp_PerPage p) ((lp_Page p - 1) * lp_PerPage p) s of
        (Inl e, s1) \<Rightarrow> (Inl e, s1)
      | (Inr users, s1) \<Rightarrow>
          (case CountUsers (lp_TenantID p) s1 of
             (Inl e, s2) \<Rightarrow> (Inl e, s2)
           | (Inr n, s2) \<Rightarrow> (Inr (users, n), s2)))"

definition repo_UpdateAvatar :: "int \<Rightarrow> string \<Rightarrow> unit query" where
  "repo_UpdateAvatar i url = UpdateUserAvatar (Some url) i"

section \<open>The handlers\<close>

datatype user_page =
    Dashboard_Page user "user list" pagination
  | Profile_Page user
  | Settings_Page user
  | Notifications_Page user

datatype page_result =
    Redirect string
  | Rendered user_page
  | Failed response

definition Dashboard :: "user option \<Rightarrow> string \<Rightarrow> db \<Rightarrow> page_result \<times> db" where
  "Dashboard cu search s =
     (case cu of
        None \<Rightarrow> (Redirect ''/login'', s)
      | Some u \<Rightarrow>
          (case ListPaginated \<lparr>lp_TenantID = ''default'', lp_Search = search, lp_Page = 1, lp_PerPage = 10\<rparr> s of
             (Inl e, s1) \<Rightarrow> (Rendered (Dashboard_Page u [u] (NewPagination 1 1 10)), s1)
           | (Inr (users, n), s1) \<Rightarrow> (Rendered (Dashboard_Page u users (NewPagination 1 n 10)), s1)))"

text \<open>The form's name and bio are read and dropped.\<close>

definition Profile :: "user option \<Rightarrow> string \<Rightarrow> page_result" where
  "Profile cu method =
     (case cu of
        None \<Rightarrow> Redirect ''/login''
      | Some u \<Rightarrow> if method = ''POST'' then Redirect ''/profile'' else Rendered (Profile_Page u))"

definition Settings :: "user option \<Rightarrow> page_result" where
  "Settings cu = (case cu of None \<Rightarrow> Redirect ''/login'' | Some u \<Rightarrow> Rendered (Settings_Page u))"

definition Notifications :: "user option \<Rightarrow> page_result" where
  "Notifications cu = (case cu of None \<Rightarrow> Redirect ''/login'' | Some u \<Rightarrow> Rendered (Notifications_Page u))"

text \<open>An uploaded file: its name, its size, and its bytes unless they cannot be read. \<open>disk\<close> holds the files; the two
  errors are what \<open>os.MkdirAll\<close> and \<open>os.WriteFile\<close> return.\<close>

record upload =
  up_Filename :: string
  up_Size :: int
  up_Data :: "string option"

record disk =
  dk_files :: "string \<rightharpoonup> string"
  dk_mkdir_error :: "string option"
  dk_write_error :: "string option"

definition avatar_dir :: string where
  "avatar_dir = ''storage/avatars''"

definition avatar_exts :: "string list" where
  "avatar_exts = [''.jpg'', ''.jpeg'', ''.png'', ''.gif'']"

definition avatar_name :: "int \<Rightarrow> string \<Rightarrow> string" where
  "avatar_name i ext = path_base (string_of_int i @ ext)"

definition AvatarUpload :: "user option \<Rightarrow> upload option \<Rightarrow> disk \<times> db \<Rightarrow> page_result \<times> disk \<times> db" where
  "AvatarUpload cu form ds =
     (case ds of (d, s) \<Rightarrow>
      case cu of
        None \<Rightarrow> (Redirect ''/login'', d, s)
      | Some u \<Rightarrow>
      (case form of
        None \<Rightarrow> (Failed (HandleError (Inl (NewValidationError ''failed to read avatar file'' []))), d, s)
      | Some f \<Rightarrow>
          if 2 * 1024 * 1024 < up_Size f
          then (Failed (HandleError (Inl (NewValidationError ''file too large (max 2MB)'' []))), d, s)
          else if path_ext (up_Filename f) \<notin> set avatar_exts
          then (Failed (HandleError (Inl (NewValidationError ''invalid file type'' []))), d, s)
          else (case up_Data f of
            None \<Rightarrow> (Failed (HandleError (Inl (NewValidationError ''failed to read file data'' []))), d, s)
          | Some bytes \<Rightarrow>
              (case dk_mkdir_error d of
                Some e \<Rightarrow> (Failed (HandleError (Inr (''failed to create avatar directory: '' @ e))), d, s)
              | None \<Rightarrow>
                  let filename = avatar_name (u_id u) (path_ext (up_Filename f));
                      cleanPath = path_clean (path_join [avatar_dir, filename])
                  in if \<not> has_prefix cleanPath avatar_dir
                     then (Failed (HandleError (Inl (NewValidationError ''invalid file path'' []))), d, s)
                     else (case dk_write_error d of
                       Some e \<Rightarrow> (Failed (HandleError (Inr (''failed to save avatar file: '' @ e))), d, s)
                     | None \<Rightarrow>
                         let d1 = d\<lparr>dk_files := (dk_files d)(cleanPath \<mapsto> bytes)\<rparr>
                         in (case repo_UpdateAvatar (u_id u) (''/storage/avatars/'' @ filename) s of
                               (Inl e, s1) \<Rightarrow> (Failed (HandleError (Inr (dberr_text e))), d1, s1)
                             | (Inr _, s1) \<Rightarrow> (Redirect ''/dashboard'', d1, s1)))))))"

section \<open>What pagination promises\<close>

lemma ceiling_div:
  assumes "0 < b"
  shows "\<lceil>rat_of_int a / rat_of_int b\<rceil> = (a + b - 1) div b"
proof -
  let ?q = "a div b" and ?r = "a mod b"
  have a: "a = ?r + b * ?q" by simp
  have r: "0 \<le> ?r" "?r < b" using assms by simp_all
  have "(a + b - 1) div b = (if ?r = 0 then ?q else ?q + 1)"
  proof (cases "?r = 0")
    case True
    have "(a + b - 1) div b = ((b - 1) + b * ?q) div b" using a True by (simp add: algebra_simps)
    also have "\<dots> = ?q + (b - 1) div b" using assms by (intro div_mult_self2) simp
    also have "\<dots> = ?q" using assms by (simp add: div_pos_pos_trivial)
    finally show ?thesis using True by simp
  next
    case False
    have "(a + b - 1) div b = ((?r - 1) + b * (?q + 1)) div b" using a by (simp add: algebra_simps)
    also have "\<dots> = (?q + 1) + (?r - 1) div b" using assms by (intro div_mult_self2) simp
    also have "\<dots> = ?q + 1" using r False by (simp add: div_pos_pos_trivial)
    finally show ?thesis using False by simp
  qed
  then show ?thesis using assms by (simp add: ceiling_divide_eq_div zdiv_zminus1_eq_if)
qed

text \<open>The two ways of counting pages agree: the rounded-up quotient of \<open>view.Pagination\<close> and the integer division of
  \<open>db.PagedResult\<close>, and the neighbours of a page that exists exist.\<close>

theorem page_counts_agree:
  assumes "0 \<le> n" and "1 \<le> k"
  shows "view_TotalPages (NewPagination page n k) = db_TotalPages n k \<and>
    (let p = NewPagination page n k in pg_CurrentPage p \<le> view_TotalPages p \<longrightarrow>
       1 \<le> PreviousPage p \<and> PreviousPage p \<le> pg_CurrentPage p \<and> pg_CurrentPage p \<le> NextPage p \<and> NextPage p \<le> view_TotalPages p)"
  using assms ceiling_div [of k n]
  by (auto simp: view_TotalPages_def NewPagination_def db_TotalPages_def go_div_def Let_def PreviousPage_def NextPage_def
      HasPrevious_def HasNext_def)

theorem page_counts_agree_witness: "view_TotalPages (NewPagination 2 21 10) = 3 \<and> NextPage (NewPagination 2 21 10) = 3"
proof -
  have "view_TotalPages (NewPagination 2 21 10) = db_TotalPages 21 10" using page_counts_agree [of 21 10 2] by simp
  then have "view_TotalPages (NewPagination 2 21 10) = 3" by (simp add: db_TotalPages_def go_div_def)
  then show ?thesis by (simp add: NextPage_def HasNext_def NewPagination_def)
qed

text \<open>Whole pages of a list, one after another.\<close>

lemma pages_take:
  assumes "0 < k"
  shows "concat (map (\<lambda>i. take k (drop (i * k) xs)) [0..<n]) = take (n * k) xs"
proof (induction n)
  case (Suc n)
  have "take (n * k) xs @ take k (drop (n * k) xs) = take (Suc n * k) xs" using take_add [of "n * k" k xs] by (simp add: add.commute)
  with Suc show ?case by simp
qed simp

text \<open>The pages that \<open>PagingParams\<close> cuts out, from the first to the last that \<open>PagedResult\<close> counts, are the whole list: no
  item is lost and none is shown twice.\<close>

theorem pages_cover_the_list:
  assumes "1 \<le> k"
  shows "concat (map (\<lambda>i. sql_page (paging_Limit k) (paging_Offset (int i + 1) k) xs)
      [0..<nat (db_TotalPages (int (length xs)) k)]) = xs"
proof -
  define m where "m = nat k"
  have k: "k = int m" "0 < m" using assms by (simp_all add: m_def)
  have page: "sql_page (paging_Limit k) (paging_Offset (int i + 1) k) xs = take m (drop (i * m) xs)" for i
    using assms k by (simp add: sql_page_def paging_Limit_def paging_Offset_def nat_mult_distrib)
  have "length xs \<le> nat (db_TotalPages (int (length xs)) k) * m"
  proof -
    have "int (length xs) \<le> (int (length xs) + k - 1) div k * k"
      using assms by (smt (verit) div_mult_mod_eq pos_mod_bound)
    then have "int (length xs) \<le> int (nat (db_TotalPages (int (length xs)) k) * m)"
      using assms k by (simp add: db_TotalPages_def go_div_def pos_imp_zdiv_nonneg_iff)
    then show ?thesis by (simp only: of_nat_le_iff)
  qed
  then show ?thesis by (simp add: page pages_take [OF k(2)])
qed

theorem pages_cover_the_list_witness:
  "concat (map (\<lambda>i. sql_page (paging_Limit 2) (paging_Offset (int i + 1) 2) ''abcde'') [0..<nat (db_TotalPages (int (length ''abcde'')) 2)]) = ''abcde''"
  by (rule pages_cover_the_list) simp

section \<open>What the pages promise\<close>

lemma string_of_int_chars: "c \<in> set (string_of_int i) \<Longrightarrow> is_digit c \<or> c = CHR ''-''"
  by (auto simp: string_of_int_def dest: string_of_nat_digits split: if_splits)

lemma string_of_int_no_sep [simp]: "slash \<notin> set (string_of_int i)" "CHR ''.'' \<notin> set (string_of_int i)"
  using string_of_int_chars [of slash i] string_of_int_chars [of "CHR ''.''" i] by (auto simp: is_digit_def)

lemma string_of_int_nonempty [simp]: "string_of_int i \<noteq> ''''"
  by (simp add: string_of_int_def)

lemma avatar_plain: "ext \<in> set avatar_exts \<Longrightarrow> plain_part (string_of_int i @ ext)"
proof -
  assume ext: "ext \<in> set avatar_exts"
  then have "3 < length (string_of_int i @ ext)" and "slash \<notin> set ext" by (auto simp: avatar_exts_def)
  then have "string_of_int i @ ext \<noteq> ''.''" "string_of_int i @ ext \<noteq> ''..''" by (metis One_nat_def list.size(3,4) add.right_neutral add_Suc_right less_numeral_extra(3) not_less_eq numeral_3_eq_3 less_Suc_eq)+
  with \<open>slash \<notin> set ext\<close> show ?thesis by (simp add: plain_part_def)
qed

lemma avatar_path:
  assumes "ext \<in> set avatar_exts"
  shows "avatar_name i ext = string_of_int i @ ext"
    and "path_clean (path_join [avatar_dir, avatar_name i ext]) = ''storage/avatars/'' @ string_of_int i @ ext"
    and "has_prefix (path_clean (path_join [avatar_dir, avatar_name i ext])) avatar_dir"
proof -
  let ?f = "string_of_int i @ ext" and ?ps = "[''storage'', ''avatars'', string_of_int i @ ext]"
  have f: "plain_part ?f" by (rule avatar_plain [OF assms])
  then show name: "avatar_name i ext = ?f" by (simp add: avatar_name_def path_base_plain)
  have plain: "list_all plain_part ?ps" using f by (simp add: plain_part_def)
  have "path_join [avatar_dir, ?f] = path_clean (join ''/'' ?ps)"
    using f by (simp add: path_join_def avatar_dir_def)
  also have "\<dots> = join ''/'' ?ps" by (rule path_clean_plain [OF _ plain]) simp
  finally have "path_clean (path_join [avatar_dir, ?f]) = join ''/'' ?ps"
    using path_clean_plain [OF _ plain] by simp
  then show path: "path_clean (path_join [avatar_dir, avatar_name i ext]) = ''storage/avatars/'' @ ?f"
    by (simp add: name)
  show "has_prefix (path_clean (path_join [avatar_dir, avatar_name i ext])) avatar_dir"
    unfolding path by (simp add: has_prefix_def avatar_dir_def)
qed

text \<open>Whatever the name of an uploaded file, the only file that can change is the user's own in the avatar directory, with
  one of the four extensions; an upload that succeeds was small enough and has stored its bytes there and its address with
  the user; and one that is refused before the write changes nothing.\<close>

theorem avatar_stays_in_directory:
  assumes "AvatarUpload (Some u) (Some f) (d, s) = (r, d', s')"
  shows "(dk_files d' = dk_files d \<and> s' = s \<and> r \<noteq> Redirect ''/dashboard'' \<or>
     (\<exists>ext bytes. ext \<in> set avatar_exts \<and> up_Data f = Some bytes \<and> up_Size f \<le> 2 * 1024 * 1024 \<and>
        dk_files d' = (dk_files d)(''storage/avatars/'' @ string_of_int (u_id u) @ ext \<mapsto> bytes) \<and>
        (r = Redirect ''/dashboard'' \<longrightarrow>
           repo_UpdateAvatar (u_id u) (''/storage/avatars/'' @ string_of_int (u_id u) @ ext) s = (Inr (), s'))))"
proof (cases "2 * 1024 * 1024 < up_Size f \<or> path_ext (up_Filename f) \<notin> set avatar_exts \<or> up_Data f = None \<or> dk_mkdir_error d \<noteq> None \<or>
    dk_write_error d \<noteq> None")
  case True
  with assms show ?thesis
    using avatar_path(3) [of "path_ext (up_Filename f)" "u_id u"]
    by (auto simp: AvatarUpload_def Let_def split: option.splits if_splits)
next
  case False
  let ?ext = "path_ext (up_Filename f)"
  from False obtain bytes where bytes: "up_Data f = Some bytes" and ext: "?ext \<in> set avatar_exts" by auto
  note path = avatar_path [OF ext, of "u_id u"]
  obtain q s1 where upd: "repo_UpdateAvatar (u_id u) (''/storage/avatars/'' @ string_of_int (u_id u) @ ?ext) s = (q, s1)"
    by (cases "repo_UpdateAvatar (u_id u) (''/storage/avatars/'' @ string_of_int (u_id u) @ ?ext) s")
  have "dk_files d' = (dk_files d)(''storage/avatars/'' @ string_of_int (u_id u) @ ?ext \<mapsto> bytes) \<and>
      (r = Redirect ''/dashboard'' \<longrightarrow> q = Inr () \<and> s' = s1)"
    using assms False bytes path upd by (cases q) (auto simp: AvatarUpload_def Let_def)
  with False bytes ext upd show ?thesis by (intro disjI2 exI [of _ ?ext] exI [of _ bytes]) auto
qed

lemma ListUsersPaginated_tenant:
  assumes "ListUsersPaginated tenant search l k s = (Inr users, s')" and "v \<in> set users"
  shows "u_tenant v = tenant"
proof -
  have "set (sql_page l k (sort_key f (filter p xs))) \<subseteq> {x \<in> set xs. p x}" for f :: "user \<Rightarrow> int \<times> int" and p xs
    by (auto simp: sql_page_def Let_def dest!: in_set_takeD in_set_dropD split: if_splits)
  then show ?thesis
    using assms unfolding ListUsersPaginated_def by (auto elim!: run_cases split: if_splits)
qed

text \<open>The dashboard lists users of the tenant \<open>default\<close>, whatever tenant the user who asks belongs to.\<close>

theorem dashboard_shows_default_tenant:
  assumes "Dashboard (Some u) search s = (Rendered (Dashboard_Page v us p), s')" and "w \<in> set us"
  shows "v = u \<and> (u_tenant w = ''default'' \<or> us = [u])"
  using assms by (auto simp: Dashboard_def ListPaginated_def split: prod.splits sum.splits dest: ListUsersPaginated_tenant)

definition tenant_user :: "int \<Rightarrow> string \<Rightarrow> string \<Rightarrow> user" where
  "tenant_user i tenant email =
     \<lparr>u_id = i, u_tenant = tenant, u_email = email, u_password_hash = '''', u_role_id = ''user'', u_is_verified = True,
      u_avatar_url = None, u_created_at = None, u_provider = None, u_provider_id = None\<rparr>"

definition two_tenants :: db where
  "two_tenants = (migrated_db 0)\<lparr>t_users := [tenant_user 1 ''default'' ''ana@x.io'', tenant_user 2 ''acme'' ''bob@x.io'']\<rparr>"

lemma two_tenants_dashboard:
  "fst (Dashboard (Some (tenant_user 2 ''acme'' ''bob@x.io'')) '''' two_tenants) =
     Rendered (Dashboard_Page (tenant_user 2 ''acme'' ''bob@x.io'') [tenant_user 1 ''default'' ''ana@x.io''] (NewPagination 1 1 10))"
proof -
  have "faults two_tenants = []" by (simp add: two_tenants_def migrated_db_def)
  then show ?thesis
    by (simp add: Dashboard_def ListPaginated_def ListUsersPaginated_def CountUsers_def run_no_faults sql_page_def
        two_tenants_def tenant_user_def)
qed

theorem dashboard_shows_default_tenant_witness:
  "u_tenant (tenant_user 1 ''default'' ''ana@x.io'') = ''default'' \<and> u_tenant (tenant_user 2 ''acme'' ''bob@x.io'') = ''acme''"
proof -
  let ?u = "tenant_user 2 ''acme'' ''bob@x.io''"
  obtain s' where "Dashboard (Some ?u) '''' two_tenants =
      (Rendered (Dashboard_Page ?u [tenant_user 1 ''default'' ''ana@x.io''] (NewPagination 1 1 10)), s')"
    using two_tenants_dashboard by (metis prod.collapse)
  from dashboard_shows_default_tenant [OF this, of "tenant_user 1 ''default'' ''ana@x.io''"] show ?thesis
    by (simp add: tenant_user_def)
qed

definition empty_disk :: disk where
  "empty_disk = \<lparr>dk_files = Map.empty, dk_mkdir_error = None, dk_write_error = None\<rparr>"

theorem avatar_stays_in_directory_witness:
  "dk_files (fst (snd (AvatarUpload (Some (tenant_user 2 ''acme'' ''bob@x.io''))
      (Some \<lparr>up_Filename = ''../../etc/me.png'', up_Size = 3, up_Data = Some ''abc''\<rparr>) (empty_disk, two_tenants)))) =
    [''storage/avatars/2.png'' \<mapsto> ''abc'']"
proof -
  let ?u = "tenant_user 2 ''acme'' ''bob@x.io''" and ?f = "\<lparr>up_Filename = ''../../etc/me.png'', up_Size = 3, up_Data = Some ''abc''\<rparr>"
  obtain r d' s' where run: "AvatarUpload (Some ?u) (Some ?f) (empty_disk, two_tenants) = (r, d', s')"
    by (metis prod_cases3)
  have id: "u_id ?u = 2" "string_of_int 2 = ''2''"
    by (simp_all add: tenant_user_def string_of_int_def string_of_nat.simps char_of_def, simp add: bit_0)
  have ext: "path_ext ''../../etc/me.png'' = ''.png''" "''.png'' \<in> set avatar_exts" by (simp_all add: path_ext_def avatar_exts_def)
  have ok: "faults two_tenants = []" by (simp add: two_tenants_def migrated_db_def)
  have "fst (AvatarUpload (Some ?u) (Some ?f) (empty_disk, two_tenants)) = Redirect ''/dashboard'' \<and>
      dk_files (fst (snd (AvatarUpload (Some ?u) (Some ?f) (empty_disk, two_tenants)))) ''storage/avatars/2.png'' = Some ''abc''"
    using ext(2) avatar_path(2,3) [OF ext(2), of 2]
    by (simp add: AvatarUpload_def Let_def ext(1) id repo_UpdateAvatar_def UpdateUserAvatar_def run_no_faults ok empty_disk_def)
  with run have "r = Redirect ''/dashboard''" "dk_files d' ''storage/avatars/2.png'' = Some ''abc''" by simp_all
  with avatar_stays_in_directory [OF run] obtain ext bytes where "ext \<in> set avatar_exts"
      "dk_files d' = Map.empty(''storage/avatars/'' @ ''2'' @ ext \<mapsto> bytes)" "up_Data ?f = Some bytes"
    by (auto simp: id empty_disk_def)
  with \<open>dk_files d' ''storage/avatars/2.png'' = Some ''abc''\<close> show ?thesis
    unfolding run by (auto split: if_splits)
qed

end
