(* ===== verification/Health.thy ===== *)
theory Health
  imports Database Http_Errors
begin

text \<open>
  The health checks (\<open>internal/platform/http/health.go\<close>). What the machine answers, a ping of the
  database and \<open>statfs\<close> of the data directory, is a parameter. \<open>Ready\<close> gives its status, its header and
  the checks; the body is these as indented JSON.
\<close>

section \<open>Checks\<close>

record check =
  ck_Name :: string
  ck_Status :: string
  ck_Detail :: string

text \<open>\<open>COUNT(*)\<close> of the jobs that meet a condition.\<close>

definition count_jobs :: "(db \<Rightarrow> job \<Rightarrow> bool) \<Rightarrow> int query" where
  "count_jobs p = run (\<lambda>s. (Inr (int (length (filter (p s) (t_jobs s)))), s))"

text \<open>\<open>_ = row.Scan(&n)\<close>: an error leaves the 0 the variable has.\<close>

definition count_or_zero :: "(db \<Rightarrow> job \<Rightarrow> bool) \<Rightarrow> db \<Rightarrow> int \<times> db" where
  "count_or_zero p s = (case count_jobs p s of (Inl _, s1) \<Rightarrow> (0, s1) | (Inr n, s1) \<Rightarrow> (n, s1))"

text \<open>\<open>db_conn\<close> is \<open>None\<close> when \<open>dbConn\<close> is nil, else whether the ping succeeds.\<close>

definition checkDatabase :: "bool option \<Rightarrow> db \<Rightarrow> check \<times> db" where
  "checkDatabase db_conn s =
     (case db_conn of
        None \<Rightarrow> (\<lparr>ck_Name = ''database'', ck_Status = ''error'', ck_Detail = ''database connection not initialized''\<rparr>, s)
      | Some False \<Rightarrow> (\<lparr>ck_Name = ''database'', ck_Status = ''error'', ck_Detail = ''database unreachable''\<rparr>, s)
      | Some True \<Rightarrow>
          (case count_or_zero (\<lambda>_ j. j_status j = Failed) s of
             (failed, s1) \<Rightarrow>
          (case count_or_zero (\<lambda>_ j. j_status j = Pending) s1 of
             (pending, s2) \<Rightarrow>
               (if 50 < failed
                then \<lparr>ck_Name = ''database'', ck_Status = ''warning'', ck_Detail = ''connected, but high failed jobs count''\<rparr>
                else if 1000 < pending
                then \<lparr>ck_Name = ''database'', ck_Status = ''warning'', ck_Detail = ''connected, but high pending jobs count''\<rparr>
                else \<lparr>ck_Name = ''database'', ck_Status = ''ok'', ck_Detail = ''connected''\<rparr>, s2))))"

definition last_digit :: "nat \<Rightarrow> string" where
  "last_digit n = [char_of (48 + n mod 10)]"

definition mbToReadable :: "nat \<Rightarrow> string" where
  "mbToReadable mb = last_digit mb @ ''MB free''"

definition gbToReadable :: "nat \<Rightarrow> string" where
  "gbToReadable gb = last_digit gb @ ''GB free''"

definition freeSpaceReadable :: "nat \<Rightarrow> string" where
  "freeSpaceReadable bytes =
     (let mb = bytes div (1024 * 1024) in if 1024 \<le> mb then gbToReadable (mb div 1024) else mbToReadable mb)"

text \<open>\<open>statfs\<close> gives the free blocks and their size; the product is an \<open>uint64\<close>.\<close>

definition checkDiskSpace :: "(nat \<times> nat) option \<Rightarrow> check" where
  "checkDiskSpace stat =
     (case stat of
        None \<Rightarrow> \<lparr>ck_Name = ''disk_space'', ck_Status = ''warning'', ck_Detail = ''unable to check disk space''\<rparr>
      | Some (bavail, bsize) \<Rightarrow>
          (let free = bavail * bsize mod 2 ^ 64
           in if free < 100 * 1024 * 1024
              then \<lparr>ck_Name = ''disk_space'', ck_Status = ''error'', ck_Detail = ''less than 100MB free''\<rparr>
              else if free < 500 * 1024 * 1024
              then \<lparr>ck_Name = ''disk_space'', ck_Status = ''warning'', ck_Detail = ''less than 500MB free''\<rparr>
              else \<lparr>ck_Name = ''disk_space'', ck_Status = ''ok'', ck_Detail = freeSpaceReadable free\<rparr>))"

text \<open>A job being processed for more than five minutes. SQLite compares the times as text; both are in UTC.\<close>

definition stale_job :: "db \<Rightarrow> job \<Rightarrow> bool" where
  "stale_job s j \<longleftrightarrow>
     j_status j = Processing \<and> (case j_started_at j of None \<Rightarrow> False | Some t \<Rightarrow> t < clock s - 5 * minute)"

definition waiting_job :: "db \<Rightarrow> job \<Rightarrow> bool" where
  "waiting_job s j \<longleftrightarrow> j_status j = Pending \<and> j_next_retry_at j = None"

definition checkWorkerStatus :: "bool option \<Rightarrow> db \<Rightarrow> check \<times> db" where
  "checkWorkerStatus db_conn s =
     (case db_conn of
        None \<Rightarrow> (\<lparr>ck_Name = ''worker'', ck_Status = ''warning'', ck_Detail = ''database connection not available''\<rparr>, s)
      | Some _ \<Rightarrow>
          (case count_jobs waiting_job s of
             (Inl _, s1) \<Rightarrow> (\<lparr>ck_Name = ''worker'', ck_Status = ''warning'', ck_Detail = ''unable to query pending jobs''\<rparr>, s1)
           | (Inr pending, s1) \<Rightarrow>
          (case count_jobs stale_job s1 of
             (Inl _, s2) \<Rightarrow> (\<lparr>ck_Name = ''worker'', ck_Status = ''warning'', ck_Detail = ''unable to query stale jobs''\<rparr>, s2)
           | (Inr stale, s2) \<Rightarrow>
               (if 0 < stale
                then \<lparr>ck_Name = ''worker'', ck_Status = ''warning'', ck_Detail = string_of_int stale @ '' stale jobs detected''\<rparr>
                else if 500 < pending
                then \<lparr>ck_Name = ''worker'', ck_Status = ''warning'', ck_Detail = string_of_int pending @ '' pending jobs''\<rparr>
                else \<lparr>ck_Name = ''worker'', ck_Status = ''ok'',
                      ck_Detail = string_of_int pending @ '' pending, '' @ string_of_int stale @ '' stale''\<rparr>, s2))))"

definition checkSMTP :: check where
  "checkSMTP = \<lparr>ck_Name = ''smtp'', ck_Status = ''ok'', ck_Detail = ''configured''\<rparr>"

definition performChecks :: "bool option \<Rightarrow> (nat \<times> nat) option \<Rightarrow> db \<Rightarrow> check list \<times> db" where
  "performChecks db_conn stat s =
     (case checkDatabase db_conn s of
        (c1, s1) \<Rightarrow> (case checkWorkerStatus db_conn s1 of
           (c3, s2) \<Rightarrow> ([c1, checkDiskSpace stat, c3, checkSMTP], s2)))"

section \<open>The handlers\<close>

definition Health :: response where
  "Health = \<lparr>rp_status = 200, rp_body = ''OK''\<rparr>"

definition health_status :: "check list \<Rightarrow> string" where
  "health_status checks =
     (if \<exists>c\<in>set checks. ck_Status c = ''error'' then ''not_ready''
      else if \<exists>c\<in>set checks. ck_Status c = ''warning'' then ''degraded'' else ''ready'')"

definition Ready :: "bool option \<Rightarrow> (nat \<times> nat) option \<Rightarrow> db \<Rightarrow> (int \<times> string \<times> check list) \<times> db" where
  "Ready db_conn stat s =
     (case performChecks db_conn stat s of
        (checks, s1) \<Rightarrow>
          (let status = health_status checks
           in ((if status = ''not_ready'' then 503 else 200, status, checks), s1)))"

section \<open>What the checks promise\<close>

lemma checkDatabase_error: "ck_Status (fst (checkDatabase conn s)) = ''error'' \<longleftrightarrow> conn \<noteq> Some True"
  by (auto simp: checkDatabase_def split: option.split bool.split prod.split)

lemma checkWorker_no_error: "ck_Status (fst (checkWorkerStatus conn s)) \<noteq> ''error''"
  by (auto simp: checkWorkerStatus_def split: option.split prod.split sum.split)

lemma checkDisk_error: "ck_Status (checkDiskSpace stat) = ''error'' \<longleftrightarrow>
    (\<exists>a b. stat = Some (a, b) \<and> a * b mod 2 ^ 64 < 100 * 1024 * 1024)"
  by (auto simp: checkDiskSpace_def Let_def split: option.split)

text \<open>The service reports itself not ready, with status 503, exactly when there is no database that answers a ping or less
  than 100 MB are free. Jobs that pile up, fail or hang never take it out of service.\<close>

theorem not_ready_iff:
  "fst (fst (Ready conn stat s)) = 503 \<longleftrightarrow>
     conn \<noteq> Some True \<or> (\<exists>a b. stat = Some (a, b) \<and> a * b mod 2 ^ 64 < 100 * 1024 * 1024)"
proof -
  obtain c1 s1 c3 s2 where c1: "checkDatabase conn s = (c1, s1)" and c3: "checkWorkerStatus conn s1 = (c3, s2)"
    by (metis prod.collapse)
  have "ck_Status c1 = ''error'' \<longleftrightarrow> conn \<noteq> Some True" using checkDatabase_error [of conn s] c1 by simp
  moreover have "ck_Status c3 \<noteq> ''error''" using checkWorker_no_error [of conn s1] c3 by simp
  ultimately show ?thesis
    by (auto simp: Ready_def performChecks_def c1 c3 health_status_def Let_def checkDisk_error checkSMTP_def)
qed

text \<open>The free space the check shows is only its last digit: two amounts that differ by ten times 1 GB read the same.\<close>

theorem free_space_loses_digits:
  assumes "1024 * 1024 * 1024 \<le> bytes"
  shows "freeSpaceReadable (bytes + 10 * (1024 * 1024 * 1024)) = freeSpaceReadable bytes"
proof -
  let ?M = "1024 * 1024 :: nat"
  have "(bytes + 10 * (1024 * 1024 * 1024)) div ?M = bytes div ?M + 10 * 1024"
    using div_mult_self2 [of ?M bytes "10 * 1024"] by simp
  moreover have "1024 \<le> bytes div ?M" using assms by (simp add: less_eq_div_iff_mult_less_eq)
  moreover have "(bytes div ?M + 10 * 1024) div 1024 = bytes div ?M div 1024 + 10"
    using div_mult_self2 [of 1024 "bytes div ?M" 10] by simp
  ultimately show ?thesis by (simp add: freeSpaceReadable_def Let_def gbToReadable_def last_digit_def)
qed

theorem free_space_loses_digits_witness:
  "freeSpaceReadable (12 * (1024 * 1024 * 1024)) = freeSpaceReadable (2 * (1024 * 1024 * 1024))"
  using free_space_loses_digits [of "2 * (1024 * 1024 * 1024)"] by simp

end
