(* ===== verification/Json_Roundtrip.thy ===== *)
theory Json_Roundtrip
  imports Json "HOL-Library.Char_ord"
begin

text \<open>
  What \<open>json.Marshal\<close> prints \<open>json.Unmarshal\<close> reads back, for values without a real number: strings, numbers
  and documents in turn.
\<close>

section \<open>Strings\<close>

lemma hex_value_digit:
  assumes "n < 16"
  shows "hex_value (hex_digit n) = Some n"
proof -
  have low: "hex_value (hex_digit n) = Some n" if "n < 10" for n
    using that by (simp add: hex_digit_def hex_value_def is_digit_def digit_value_def)
  have high: "hex_value (hex_digit n) = Some n" if "n \<in> {10, 11, 12, 13, 14, 15}" for n
    using that by (elim insertE) (simp_all add: hex_digit_def hex_value_def is_digit_def digit_value_def char_of_def bit_0)
  have "n < 10 \<or> n \<in> {10, 11, 12, 13, 14, 15}" using assms by auto
  then show ?thesis using low high by blast
qed

lemma parse_unicode_escape:
  assumes "n < 256"
  shows "parse_hex4 (drop 2 (unicode_escape n @ r)) = Some (n, r)"
proof -
  have "hex_value (CHR ''0'') = Some 0" by (simp add: hex_value_def is_digit_def digit_value_def)
  moreover have "n div 16 < 16" "n mod 16 < 16" using assms by auto
  ultimately show ?thesis by (simp add: unicode_escape_def hex_value_digit)
qed

lemma escape_char_step:
  "parse_string (Suc n) (escape_char c @ r) = map_option (\<lambda>(s, r'). (c # s, r')) (parse_string n r)"
proof (cases "of_char c < (32::nat) \<and> c \<notin> {CHR 0x08, CHR 0x0C, CHR 0x0A, CHR 0x0D, CHR 0x09} \<or> c \<in> set ''<>&''")
  case True
  have small: "of_char c < (128::nat)" using True by auto
  have esc: "escape_char c = unicode_escape (of_char c)"
  proof -
    have "c \<noteq> CHR 0x22" "c \<noteq> CHR 0x5C" "c \<noteq> CHR 0x08" "c \<noteq> CHR 0x0C" "c \<noteq> CHR 0x0A" "c \<noteq> CHR 0x0D" "c \<noteq> CHR 0x09"
      by (rule notI; use True in simp)+
    moreover have "of_char c < (32::nat) \<or> c \<in> set ''<>&''" using True by blast
    ultimately show ?thesis unfolding escape_char_def by (simp only: if_False if_True simp_thms)
  qed
  have "parse_hex4 (CHR ''0'' # CHR ''0'' # hex_digit (of_char c div 16) # hex_digit (of_char c mod 16) # r) = Some (of_char c, r)"
    using parse_unicode_escape [of "of_char c" r] small by (simp add: unicode_escape_def)
  moreover have "\<not> surrogate (of_char c)" using small by (simp add: surrogate_def)
  moreover have "utf8_encode (of_char c) = [c]" using small by (simp add: utf8_encode_def)
  ultimately show ?thesis by (simp add: esc unicode_escape_def)
next
  case False
  then show ?thesis by (auto simp: escape_char_def simple_escape_def)
qed

lemma parse_string_escaped:
  "length s < n \<Longrightarrow> parse_string n (concat (map escape_char s) @ CHR 0x22 # r) = Some (s, r)"
proof (induction s arbitrary: n)
  case Nil
  then show ?case by (cases n) simp_all
next
  case (Cons c s)
  then obtain m where n: "n = Suc m" "length s < m" by (cases n) auto
  have "parse_string n (concat (map escape_char (c # s)) @ CHR 0x22 # r) =
      parse_string (Suc m) (escape_char c @ (concat (map escape_char s) @ CHR 0x22 # r))"
    by (simp add: n(1))
  then show ?case by (simp add: escape_char_step Cons.IH n(2) del: parse_string.simps)
qed

lemma length_escaped: "length s \<le> length (concat (map escape_char s))"
proof (induction s)
  case (Cons c s)
  have "1 \<le> length (escape_char c)" by (simp add: escape_char_def unicode_escape_def)
  with Cons show ?case by simp
qed simp

section \<open>Numbers\<close>

text \<open>What may follow a value inside a document.\<close>

definition ends_value :: "string \<Rightarrow> bool" where
  "ends_value r \<longleftrightarrow> r = '''' \<or> hd r \<in> set '',}]''"

lemma ends_value_simps [simp]:
  "ends_value []" "ends_value (CHR '','' # r)" "ends_value (CHR ''}'' # r)" "ends_value (CHR '']'' # r)"
  by (simp_all add: ends_value_def)

lemma takeWhile_digits:
  assumes "ends_value r"
  shows "takeWhile is_digit (string_of_nat n @ r) = string_of_nat n"
proof -
  have "takeWhile is_digit r = ''''" using assms by (cases r) (auto simp: ends_value_def is_digit_def)
  then show ?thesis using string_of_nat_all_digits [of n] by (simp add: list_all_iff takeWhile_append2)
qed

lemma string_of_nat_head: "0 < n \<Longrightarrow> hd (string_of_nat n) \<noteq> CHR ''0''"
proof (induction n rule: string_of_nat.induct)
  case (1 n)
  show ?case
  proof (cases "n < 10")
    case True
    with "1.prems" have "of_char (char_of (48 + n)) \<noteq> (of_char (CHR ''0'') :: nat)" by simp
    then have "char_of (48 + n) \<noteq> CHR ''0''" by metis
    with True show ?thesis by (subst string_of_nat.simps) simp
  next
    case False
    then have "hd (string_of_nat (n div 10)) \<noteq> CHR ''0''" using "1.IH" by simp
    with False show ?thesis by (subst string_of_nat.simps) (simp add: hd_append)
  qed
qed

lemma string_of_nat_0: "string_of_nat 0 = ''0''"
  by (subst string_of_nat.simps) code_simp

lemma parse_digits:
  assumes "ends_value r"
  shows "(case string_of_nat n @ r of c # r' \<Rightarrow> if c = CHR ''0'' then ''0'' else takeWhile is_digit (string_of_nat n @ r) | [] \<Rightarrow> [])
    = string_of_nat n"
proof (cases "n = 0")
  case False
  obtain c cs where c: "string_of_nat n = c # cs" by (cases "string_of_nat n") simp_all
  with False have "c \<noteq> CHR ''0''" using string_of_nat_head [of n] by simp
  then show ?thesis using takeWhile_digits [OF assms, of n] by (simp add: c)
qed (simp add: string_of_nat_0)

lemma parse_rest: "ends_value r \<Longrightarrow> parse_fraction r = Some ('''', r) \<and> parse_exponent r = Some ('''', r)"
  by (cases r) (auto simp: ends_value_def parse_fraction_def parse_exponent_def)

lemma parse_number_printed:
  assumes "ends_value r"
  shows "parse_number (string_of_int i @ r) = Some (JInt i, r)"
proof -
  have nat: "c \<noteq> CHR ''-''" if "string_of_nat n = c # cs" for n c cs
    using string_of_nat_digits [of c n] that by (auto simp: is_digit_def)
  show ?thesis
  proof (cases "i < 0")
    case True
    then show ?thesis
      using parse_digits [OF assms, of "nat (- i)"] parse_rest [OF assms]
      by (simp add: string_of_int_def parse_number_def Let_def)
  next
    case False
    obtain c cs where c: "string_of_nat (nat i) = c # cs" by (cases "string_of_nat (nat i)") simp_all
    with nat have sign: "(case string_of_nat (nat i) @ r of c # r' \<Rightarrow> if c = CHR ''-'' then (True, r') else (False, string_of_nat (nat i) @ r)
        | [] \<Rightarrow> (False, [])) = (False, string_of_nat (nat i) @ r)" by simp
    show ?thesis
      using False parse_digits [OF assms, of "nat i"] parse_rest [OF assms]
      unfolding string_of_int_def parse_number_def Let_def
      by (simp add: sign)
  qed
qed

section \<open>Documents\<close>

text \<open>Values whose numbers are integers.\<close>

fun integral :: "json \<Rightarrow> bool" where
  "integral (JReal t) = False"
| "integral (JArr vs) = (\<forall>v\<in>set vs. integral v)"
| "integral (JObj ms) = (\<forall>m\<in>set ms. integral (snd m))"
| "integral _ = True"

definition value_start :: "char \<Rightarrow> bool" where
  "value_start c \<longleftrightarrow> is_digit c \<or> c \<in> set ''-tfn[{'' \<or> c = CHR 0x22"

lemma print_head: "integral v \<Longrightarrow> \<exists>c cs. json_print v = c # cs \<and> value_start c"
proof (cases v)
  case (JInt i)
  show ?thesis
  proof (cases "i < 0")
    case True
    then show ?thesis by (simp add: JInt string_of_int_def value_start_def)
  next
    case False
    obtain c cs where c: "string_of_nat (nat i) = c # cs" by (cases "string_of_nat (nat i)") simp_all
    then have "is_digit c" using string_of_nat_digits [of c "nat i"] by simp
    with c False show ?thesis by (simp add: JInt string_of_int_def value_start_def)
  qed
qed (simp_all add: value_start_def print_string_def)

lemma value_start_no_space: "value_start c \<Longrightarrow> skip_space (c # cs) = c # cs"
  by (auto simp: value_start_def skip_space_def is_space_def is_digit_def)

lemma ends_no_space: "ends_value r \<Longrightarrow> skip_space r = r"
  by (cases r) (auto simp: ends_value_def skip_space_def is_space_def)

lemma skip_printed: "integral v \<Longrightarrow> skip_space (json_print v @ r) = json_print v @ r"
  using print_head [of v] value_start_no_space by auto

lemma commas_Cons: "commas (x # xs) = x @ (if xs = [] then [] else CHR '','' # commas xs)"
  by (cases xs) simp_all

lemma parse_elements_printed:
  assumes "\<And>v n r. v \<in> set vs \<Longrightarrow> ends_value r \<Longrightarrow> length (json_print v) \<le> n \<Longrightarrow> parse_value n (json_print v @ r) = Some (v, r)"
    and "vs \<noteq> []" and "length (commas (map json_print vs)) < n"
  shows "parse_elements n (commas (map json_print vs) @ CHR '']'' # r) = Some (vs, r)"
  using assms
proof (induction vs arbitrary: n)
  case (Cons v vs)
  from Cons.prems(3) obtain m where n: "n = Suc m" by (cases n) auto
  have v: "parse_value m (json_print v @ r') = Some (v, r')" if "ends_value r'" for r'
    using Cons.prems(1) [of v r' m] Cons.prems(3) that by (simp add: n commas_Cons)
  show ?case
  proof (cases "vs = []")
    case True
    then show ?thesis using v [of "CHR '']'' # r"] by (simp add: n skip_space_def is_space_def)
  next
    case False
    have rest: "parse_elements m (commas (map json_print vs) @ CHR '']'' # r) = Some (vs, r)"
      using Cons.prems False by (intro Cons.IH) (auto simp: n commas_Cons)
    show ?thesis
      using False v [of "CHR '','' # commas (map json_print vs) @ CHR '']'' # r"] rest
      by (simp add: n commas_Cons skip_space_def is_space_def)
  qed
qed simp

definition print_member :: "string \<times> json \<Rightarrow> string" where
  "print_member = (\<lambda>(k, v). print_string k @ CHR '':'' # json_print v)"

lemma parse_members_printed:
  assumes "\<And>m n r. m \<in> set ms \<Longrightarrow> ends_value r \<Longrightarrow> length (json_print (snd m)) \<le> n \<Longrightarrow>
      parse_value n (json_print (snd m) @ r) = Some (snd m, r)"
    and "ms \<noteq> []" and "length (commas (map print_member ms)) < n"
  shows "parse_members n (commas (map print_member ms) @ CHR ''}'' # r) = Some (ms, r)"
  using assms
proof (induction ms arbitrary: n)
  case (Cons m ms)
  from Cons.prems(3) obtain n' where n: "n = Suc n'" by (cases n) auto
  obtain k v where m: "m = (k, v)" by force
  have key: "parse_string (Suc (length (concat (map escape_char k) @ CHR 0x22 # x))) (concat (map escape_char k) @ CHR 0x22 # x) = Some (k, x)" for x
    using length_escaped [of k] by (intro parse_string_escaped) simp
  have v: "parse_value n' (json_print v @ r') = Some (v, r')" if "ends_value r'" for r'
    using Cons.prems(1) [of m r' n'] Cons.prems(3) that by (simp add: n m commas_Cons print_member_def)
  show ?case
  proof (cases "ms = []")
    case True
    then show ?thesis
      using v [of "CHR ''}'' # r"] key [of "CHR '':'' # json_print v @ CHR ''}'' # r"]
      by (simp add: n m print_member_def print_string_def skip_space_def is_space_def)
  next
    case False
    have rest: "parse_members n' (commas (map print_member ms) @ CHR ''}'' # r) = Some (ms, r)"
      using Cons.prems False by (intro Cons.IH) (auto simp: n commas_Cons)
    show ?thesis
      using False v [of "CHR '','' # commas (map print_member ms) @ CHR ''}'' # r"] rest
        key [of "CHR '':'' # json_print v @ CHR '','' # commas (map print_member ms) @ CHR ''}'' # r"]
      by (simp add: n m commas_Cons print_member_def print_string_def skip_space_def is_space_def)
  qed
qed simp


lemma json_print_obj: "json_print (JObj ms) = ''{'' @ commas (map print_member ms) @ ''}''"
  by (simp add: print_member_def)

lemma print_member_head: "\<exists>cs. commas (map print_member (m # ms)) = CHR 0x22 # cs"
  by (cases m) (simp add: commas_Cons print_member_def print_string_def)

lemma integral_snds: "integral (JObj ms) \<Longrightarrow> m \<in> set ms \<Longrightarrow> integral (snd m)"
  by simp

lemma parse_value_printed:
  "integral v \<Longrightarrow> ends_value r \<Longrightarrow> length (json_print v) \<le> n \<Longrightarrow> parse_value n (json_print v @ r) = Some (v, r)"
proof (induction v arbitrary: n r)
  case (JInt i)
  then obtain m where n: "n = Suc m" using print_head [of "JInt i"] by (cases n) auto
  obtain c cs where c: "string_of_int i = c # cs" "c = CHR ''-'' \<or> is_digit c"
  proof (cases "i < 0")
    case False
    obtain c cs where "string_of_nat (nat i) = c # cs" by (cases "string_of_nat (nat i)") simp_all
    moreover from this have "is_digit c" using string_of_nat_digits [of c "nat i"] by simp
    ultimately show thesis using False that by (simp add: string_of_int_def)
  qed (simp add: string_of_int_def that)
  have "parse_number (c # cs @ r) = Some (JInt i, r)"
    using parse_number_printed [OF JInt.prems(2), of i] c(1) by simp
  moreover have "skip_space (c # cs @ r) = c # cs @ r"
    using c(2) by (intro value_start_no_space) (auto simp: value_start_def)
  moreover have "c \<notin> {CHR 0x22, CHR ''['', CHR ''{'', CHR ''t'', CHR ''f'', CHR ''n''}"
    using c(2) by (auto simp: is_digit_def)
  ultimately show ?case using c(1) by (simp add: n)
next
  case (JStr s)
  then obtain m where n: "n = Suc m" by (cases n) (simp_all add: print_string_def)
  have "parse_string (Suc (length (concat (map escape_char s) @ CHR 0x22 # r))) (concat (map escape_char s) @ CHR 0x22 # r) = Some (s, r)"
    using length_escaped [of s] by (intro parse_string_escaped) simp
  then show ?case by (simp add: n print_string_def skip_space_def is_space_def)
next
  case (JArr vs)
  then obtain m where n: "n = Suc m" by (cases n) auto
  show ?case
  proof (cases "vs = []")
    case True
    then show ?thesis by (simp add: n skip_space_def is_space_def)
  next
    case False
    then obtain v ws where vs: "vs = v # ws" by (cases vs) auto
    have elements: "parse_elements m (commas (map json_print vs) @ CHR '']'' # r) = Some (vs, r)"
      using JArr False by (intro parse_elements_printed) (auto simp: n)
    obtain c cs where c: "commas (map json_print vs) = c # cs" "value_start c"
      using print_head [of v] JArr.prems(1) by (auto simp: vs commas_Cons)
    then have "c \<noteq> CHR '']''" by (auto simp: value_start_def is_digit_def)
    then show ?thesis
      using elements c value_start_no_space [OF c(2)] by (simp add: n, simp add: skip_space_def is_space_def)
  qed
next
  case (JObj ms)
  then obtain m where n: "n = Suc m" by (cases n) auto
  show ?case
  proof (cases "ms = []")
    case True
    then show ?thesis by (simp add: n skip_space_def is_space_def)
  next
    case False
    have ih: "parse_value k (json_print (snd x) @ r') = Some (snd x, r')"
      if "x \<in> set ms" "ends_value r'" "length (json_print (snd x)) \<le> k" for x k r'
      using JObj.IH [of x "snd x"] JObj.prems(1) that by (cases x) auto
    have len: "length (commas (map print_member ms)) < m"
      using JObj.prems(3) unfolding json_print_obj by (simp add: n)
    have members: "parse_members m (commas (map print_member ms) @ CHR ''}'' # r) = Some (ms, r)"
      by (rule parse_members_printed [OF ih False len])
    obtain m0 ms0 where "ms = m0 # ms0" using False by (cases ms) auto
    then obtain cs where c: "commas (map print_member ms) = CHR 0x22 # cs"
      using print_member_head [of m0 ms0] by auto
    show ?thesis
      unfolding json_print_obj using members by (simp add: n c, simp add: skip_space_def is_space_def)
  qed
next
  case JNull
  then obtain m where "n = Suc m" by (cases n) auto
  then show ?case by (simp add: literal_def skip_space_def is_space_def)
next
  case (JBool b)
  then obtain m where "n = Suc m" by (cases n) (auto split: if_splits)
  then show ?case by (cases b) (simp_all add: literal_def skip_space_def is_space_def)
next
  case (JReal x)
  then show ?case by simp
qed

lemma json_roundtrip: "integral v \<Longrightarrow> json_parse (json_print v) = Some v"
  using parse_value_printed [of v "[]" "2 * length (json_print v) + 2"]
  by (simp add: json_parse_def skip_space_def)

end
