(* ===== verification/Audit_Log.thy ===== *)
theory Audit_Log
  imports Database Json_Roundtrip Auth_Handlers
begin

text \<open>
  The audit log (\<open>internal/platform/observability/audit/audit.go\<close>): the table \<open>audit_log\<close>, the repository over it,
  and the loggers. The table stands beside the database record; its foreign keys point into it. The details of
  an event, a map from names to values, are a list of members sorted by name; the values a map can hold that
  JSON has no text for are left out.
\<close>

section \<open>Events\<close>

datatype action =
    ActionLogin | ActionLogout | ActionRegister | ActionPasswordReset | ActionPasswordChange
  | ActionEmailVerification | ActionProfileUpdate | ActionAvatarUpload
  | ActionPaymentCreated | ActionPaymentCompleted | ActionPaymentFailed
  | ActionSubscriptionCreated | ActionSubscriptionCanceled | ActionAdminAction

fun action_text :: "action \<Rightarrow> string" where
  "action_text ActionLogin = ''auth.login''"
| "action_text ActionLogout = ''auth.logout''"
| "action_text ActionRegister = ''auth.register''"
| "action_text ActionPasswordReset = ''auth.password_reset''"
| "action_text ActionPasswordChange = ''auth.password_change''"
| "action_text ActionEmailVerification = ''auth.email_verification''"
| "action_text ActionProfileUpdate = ''user.profile_update''"
| "action_text ActionAvatarUpload = ''user.avatar_upload''"
| "action_text ActionPaymentCreated = ''billing.payment_created''"
| "action_text ActionPaymentCompleted = ''billing.payment_completed''"
| "action_text ActionPaymentFailed = ''billing.payment_failed''"
| "action_text ActionSubscriptionCreated = ''billing.subscription_created''"
| "action_text ActionSubscriptionCanceled = ''billing.subscription_canceled''"
| "action_text ActionAdminAction = ''admin.action''"

type_synonym details = "(string \<times> json) list"

record event =
  ev_id :: int
  ev_user :: "int option"
  ev_action :: string
  ev_resource :: string
  ev_details :: details
  ev_ip :: string
  ev_agent :: string
  ev_tenant :: string
  ev_request :: string
  ev_at :: instant

record audit_row =
  al_id :: int
  al_user :: "int option"
  al_action :: string
  al_resource :: string
  al_details :: string
  al_ip :: string
  al_agent :: string
  al_tenant :: string
  al_request :: string
  al_at :: instant

record audit_log =
  au_db :: db
  au_rows :: "audit_row list"
  au_next :: int

section \<open>The repository\<close>

definition details_json :: "details \<Rightarrow> string" where
  "details_json ds = (if ds = [] then ''{}'' else json_print (JObj ds))"

definition event_row :: "int \<Rightarrow> event \<Rightarrow> audit_row" where
  "event_row i e =
     \<lparr>al_id = i, al_user = ev_user e, al_action = ev_action e, al_resource = ev_resource e,
      al_details = details_json (ev_details e), al_ip = ev_ip e, al_agent = ev_agent e,
      al_tenant = ev_tenant e, al_request = ev_request e, al_at = ev_at e\<rparr>"

text \<open>The two foreign keys of the table: a user, when there is one, and the tenant.\<close>

definition parents_exist :: "event \<Rightarrow> db \<Rightarrow> bool" where
  "parents_exist e s \<longleftrightarrow>
     (case ev_user e of None \<Rightarrow> True | Some i \<Rightarrow> i \<in> set (map u_id (t_users s))) \<and> ev_tenant e \<in> set (t_tenants s)"

definition Log :: "event \<Rightarrow> audit_log \<Rightarrow> (dberr + unit) \<times> audit_log" where
  "Log e a =
     (case run (\<lambda>s. (if parents_exist e s then Inr () else Inl ForeignKeyViolation, s)) (au_db a) of
        (Inl err, s) \<Rightarrow> (Inl err, a\<lparr>au_db := s\<rparr>)
      | (Inr _, s) \<Rightarrow>
          (Inr (), a\<lparr>au_db := s, au_rows := au_rows a @ [event_row (au_next a) e], au_next := au_next a + 1\<rparr>))"

text \<open>A row of the result; text that is no JSON object leaves the details nil. Numbers keep their text, whereas
  \<open>Unmarshal\<close> into \<open>any\<close> makes them \<open>float64\<close>: integers up to \<open>2 ^ 53\<close> are exact.\<close>

definition scan_event :: "audit_row \<Rightarrow> event" where
  "scan_event r =
     \<lparr>ev_id = al_id r, ev_user = al_user r, ev_action = al_action r, ev_resource = al_resource r,
      ev_details =
        (if al_details r \<noteq> '''' \<and> al_details r \<noteq> ''{}''
         then case json_parse (al_details r) of Some (JObj ds) \<Rightarrow> ds | _ \<Rightarrow> []
         else []),
      ev_ip = al_ip r, ev_agent = al_agent r, ev_tenant = al_tenant r, ev_request = al_request r, ev_at = al_at r\<rparr>"

definition newest_events :: "(audit_row \<Rightarrow> bool) \<Rightarrow> int \<Rightarrow> audit_log \<Rightarrow> (dberr + event list) \<times> audit_log" where
  "newest_events p limit a =
     (case run (\<lambda>s. (Inr (), s)) (au_db a) of
        (Inl err, s) \<Rightarrow> (Inl err, a\<lparr>au_db := s\<rparr>)
      | (Inr _, s) \<Rightarrow>
          (Inr (map scan_event
                 (take (nat (if limit \<le> 0 then 100 else limit)) (sort_key (\<lambda>r. - al_at r) (filter p (au_rows a))))),
           a\<lparr>au_db := s\<rparr>))"

definition GetByUserID :: "int \<Rightarrow> int \<Rightarrow> audit_log \<Rightarrow> (dberr + event list) \<times> audit_log" where
  "GetByUserID uid = newest_events (\<lambda>r. al_user r = Some uid)"

definition GetByAction :: "string \<Rightarrow> int \<Rightarrow> audit_log \<Rightarrow> (dberr + event list) \<times> audit_log" where
  "GetByAction action = newest_events (\<lambda>r. al_action r = action)"

section \<open>The loggers\<close>

definition LogAction :: "action \<Rightarrow> int \<Rightarrow> details \<Rightarrow> audit_log \<Rightarrow> audit_log" where
  "LogAction action uid ds a =
     snd (Log \<lparr>ev_id = 0, ev_user = (if 0 < uid then Some uid else None), ev_action = action_text action,
               ev_resource = '''', ev_details = ds, ev_ip = '''', ev_agent = '''', ev_tenant = '''',
               ev_request = '''', ev_at = clock (au_db a)\<rparr> a)"

definition LogActionWithRequest ::
  "action \<Rightarrow> int \<Rightarrow> string \<Rightarrow> string \<Rightarrow> string \<Rightarrow> string \<Rightarrow> details \<Rightarrow> audit_log \<Rightarrow> audit_log" where
  "LogActionWithRequest action uid ip agent tenant request ds a =
     snd (Log \<lparr>ev_id = 0, ev_user = (if 0 < uid then Some uid else None), ev_action = action_text action,
               ev_resource = '''', ev_details = ds, ev_ip = ip, ev_agent = agent, ev_tenant = tenant,
               ev_request = request, ev_at = clock (au_db a)\<rparr> a)"

definition LogLogin :: "int \<Rightarrow> bool \<Rightarrow> string \<Rightarrow> string \<Rightarrow> audit_log \<Rightarrow> audit_log" where
  "LogLogin uid success ip agent =
     LogActionWithRequest ActionLogin uid ip agent ''default'' '''' [(''success'', JBool success)]"

definition LogLogout :: "int \<Rightarrow> string \<Rightarrow> string \<Rightarrow> audit_log \<Rightarrow> audit_log" where
  "LogLogout uid ip agent = LogActionWithRequest ActionLogout uid ip agent ''default'' '''' []"

definition LogRegister :: "string \<Rightarrow> string \<Rightarrow> string \<Rightarrow> audit_log \<Rightarrow> audit_log" where
  "LogRegister email ip agent =
     LogActionWithRequest ActionRegister 0 ip agent ''default'' '''' [(''email'', JStr email)]"

definition LogPasswordReset :: "string \<Rightarrow> string \<Rightarrow> string \<Rightarrow> audit_log \<Rightarrow> audit_log" where
  "LogPasswordReset email ip agent =
     LogActionWithRequest ActionPasswordReset 0 ip agent ''default'' '''' [(''email'', JStr email)]"

definition LogPasswordChange :: "int \<Rightarrow> string \<Rightarrow> string \<Rightarrow> audit_log \<Rightarrow> audit_log" where
  "LogPasswordChange uid ip agent = LogActionWithRequest ActionPasswordChange uid ip agent ''default'' '''' []"

text \<open>What the authentication handlers hand over, from the address and the agent of the request.\<close>

fun log_entry :: "string \<Rightarrow> string \<Rightarrow> audit_entry \<Rightarrow> audit_log \<Rightarrow> audit_log" where
  "log_entry ip agent (AuditLogin uid ok) = LogLogin uid ok ip agent"
| "log_entry ip agent (AuditLogout uid) = LogLogout uid ip agent"
| "log_entry ip agent (AuditRegister email) = LogRegister email ip agent"
| "log_entry ip agent (AuditPasswordReset email) = LogPasswordReset email ip agent"
| "log_entry ip agent (AuditPasswordChange uid) = LogPasswordChange uid ip agent"

section \<open>Reading back what was logged\<close>

lemma scan_event_row:
  assumes "integral (JObj (ev_details e))"
  shows "scan_event (event_row i e) = e\<lparr>ev_id := i\<rparr>"
proof (cases "ev_details e = []")
  case False
  then have not_empty: "json_print (JObj (ev_details e)) \<noteq> ''{}''"
    using json_roundtrip [OF assms] json_roundtrip [of "JObj []"] by auto
  have "json_print (JObj (ev_details e)) \<noteq> ''''" by simp
  with False not_empty json_roundtrip [OF assms] show ?thesis
    by (simp add: scan_event_def event_row_def details_json_def del: json_print.simps integral.simps)
qed (simp add: scan_event_def event_row_def details_json_def)

lemma sort_key_latest: "(\<And>y. y \<in> set xs \<Longrightarrow> f x < f y) \<Longrightarrow> sort_key f (xs @ [x]) = x # sort_key f xs"
proof (induction xs)
  case (Cons y xs)
  then have "sort_key f (xs @ [x]) = x # sort_key f xs" "f x < f y" by simp_all
  then show ?case by (simp add: not_le [symmetric])
qed simp

lemma Log_result:
  assumes "Log e a = (Inr (), a1)"
  shows "au_rows a1 = au_rows a @ [event_row (au_next a) e]"
  using assms by (auto simp: Log_def split: prod.splits sum.splits)

lemma newest_no_faults:
  "faults (au_db a) = [] \<Longrightarrow> newest_events p limit a =
     (Inr (map scan_event
        (take (nat (if limit \<le> 0 then 100 else limit)) (sort_key (\<lambda>r. - al_at r) (filter p (au_rows a))))), a)"
  by (simp add: newest_events_def run_no_faults)

text \<open>An event that was logged for a user, later than every event before it, is the first of the user's events
  that are read, whatever the limit is, with the details, the address and every other field it was logged with.\<close>

theorem logged_event_is_read_back:
  assumes "Log e a = (Inr (), a1)" and "ev_user e = Some uid" and "integral (JObj (ev_details e))"
    and "\<And>r. r \<in> set (au_rows a) \<Longrightarrow> al_at r < ev_at e" and "faults (au_db a1) = []"
  shows "\<exists>es. GetByUserID uid limit a1 = (Inr (e\<lparr>ev_id := au_next a\<rparr> # es), a1)"
proof -
  let ?p = "\<lambda>r. al_user r = Some uid"
  let ?row = "event_row (au_next a) e"
  have "?p ?row" using assms(2) by (simp add: event_row_def)
  then have "filter ?p (au_rows a1) = filter ?p (au_rows a) @ [?row]"
    using Log_result [OF assms(1)] by simp
  then have sorted: "sort_key (\<lambda>r. - al_at r) (filter ?p (au_rows a1)) = ?row # sort_key (\<lambda>r. - al_at r) (filter ?p (au_rows a))"
    using assms(4) sort_key_latest [of "filter ?p (au_rows a)" "\<lambda>r. - al_at r" ?row] by (auto simp: event_row_def)
  obtain n where n: "nat (if limit \<le> 0 then 100 else limit) = Suc n"
    by (cases "nat (if limit \<le> 0 then 100 else limit)") (auto split: if_splits)
  show ?thesis
    unfolding GetByUserID_def newest_no_faults [OF assms(5)] sorted n
    by (simp add: scan_event_row [OF assms(3)] del: integral.simps)
qed

definition avatar_change :: event where
  "avatar_change =
     \<lparr>ev_id = 0, ev_user = None, ev_action = action_text ActionAvatarUpload, ev_resource = ''avatar'',
      ev_details = [(''bytes'', JInt 4096), (''name'', JStr ''a<b'')], ev_ip = ''10.0.0.1'', ev_agent = ''curl'',
      ev_tenant = ''default'', ev_request = ''r1'', ev_at = 7\<rparr>"

definition audited_user :: user where
  "audited_user = \<lparr>u_id = 1, u_tenant = ''default'', u_email = ''a@b.c'', u_password_hash = ''h'', u_role_id = ''user'',
     u_is_verified = True, u_avatar_url = None, u_created_at = None, u_provider = None, u_provider_id = None\<rparr>"

definition empty_log :: audit_log where
  "empty_log = \<lparr>au_db = (migrated_db 5)\<lparr>t_users := [audited_user]\<rparr>, au_rows = [], au_next = 1\<rparr>"

lemma avatar_change_logged: "\<exists>a1. Log (avatar_change\<lparr>ev_user := Some 1\<rparr>) empty_log = (Inr (), a1) \<and> faults (au_db a1) = []"
  by (simp add: Log_def empty_log_def run_def migrated_db_def parents_exist_def avatar_change_def audited_user_def)

theorem logged_event_is_read_back_witness:
  "\<exists>a1 es. Log (avatar_change\<lparr>ev_user := Some 1\<rparr>) empty_log = (Inr (), a1) \<and>
     GetByUserID 1 0 a1 = (Inr (avatar_change\<lparr>ev_user := Some 1, ev_id := 1\<rparr> # es), a1)"
proof -
  let ?e = "avatar_change\<lparr>ev_user := Some 1\<rparr>"
  obtain a1 where a1: "Log ?e empty_log = (Inr (), a1)" "faults (au_db a1) = []"
    using avatar_change_logged by blast
  have "\<exists>es. GetByUserID 1 0 a1 = (Inr (?e\<lparr>ev_id := au_next empty_log\<rparr> # es), a1)"
    using a1 by (intro logged_event_is_read_back) (simp_all add: avatar_change_def empty_log_def)
  with a1(1) show ?thesis by (simp add: empty_log_def)
qed

section \<open>Events without a user\<close>

text \<open>A user id that is not positive is stored as NULL, so the event belongs to nobody.\<close>

lemma anonymous_event_hidden:
  assumes "uid \<le> 0" and "faults (au_db a) = []"
  shows "fst (GetByUserID u limit (LogActionWithRequest action uid ip agent tenant request ds a)) = fst (GetByUserID u limit a)"
  using assms
  by (simp add: LogActionWithRequest_def GetByUserID_def newest_no_faults Log_def run_no_faults event_row_def)

lemmas auth_loggers = LogLogin_def LogLogout_def LogRegister_def LogPasswordReset_def LogPasswordChange_def

text \<open>\<open>LogAction\<close> leaves the tenant empty, which the foreign key refuses; the error is dropped.\<close>

lemma LogAction_stores_nothing:
  assumes "'''' \<notin> set (t_tenants (au_db a))"
  shows "au_rows (LogAction action uid ds a) = au_rows a"
  using assms by (auto simp: LogAction_def Log_def run_def parents_exist_def split: list.splits option.splits prod.splits)

text \<open>Failed logins, registrations, reset requests and changed passwords belong to no user in the audit log: what the login
  handler records of a failed login and what the reset handler records of a changed password leaves the events that
  are read for any user as they were.\<close>

theorem failed_logins_belong_to_nobody:
  assumes "faults (au_db a) = []"
    and "fst (LoginSubmit lib sl pepper r st) = AuthPage page message"
  shows "ax_audit (snd (LoginSubmit lib sl pepper r st)) = ax_audit st @ [AuditLogin 0 False] \<and>
    fst (GetByUserID u limit (log_entry ip agent (AuditLogin 0 False) a)) = fst (GetByUserID u limit a) \<and>
    set (drop (length (ax_audit st)) (ax_audit (snd (ResetPasswordSubmit lib pepper r st)))) \<subseteq> {AuditPasswordChange 0} \<and>
    fst (GetByUserID u limit (log_entry ip agent (AuditPasswordChange 0) a)) = fst (GetByUserID u limit a)"
proof -
  have "ax_audit (snd (LoginSubmit lib sl pepper r st)) = ax_audit st @ [AuditLogin 0 False]"
    using assms(2) by (auto simp: LoginSubmit_def serve_def audit_def split: prod.splits sum.splits)
  moreover have "set (drop (length (ax_audit st)) (ax_audit (snd (ResetPasswordSubmit lib pepper r st)))) \<subseteq> {AuditPasswordChange 0}"
    by (auto simp: ResetPasswordSubmit_def serve_def audit_def split: prod.splits sum.splits)
  ultimately show ?thesis
    using assms(1) by (simp add: auth_loggers anonymous_event_hidden)
qed


theorem failed_logins_belong_to_nobody_witness:
  "fst (GetByUserID 1 10 (log_entry ''10.0.0.1'' ''curl'' (AuditLogin 0 False) empty_log)) = fst (GetByUserID 1 10 empty_log)"
proof -
  obtain message where "fst (LoginSubmit demo_auth demo_sessions ''pep'' demo_form visitor) = AuthPage ''Login'' message"
    by (simp add: LoginSubmit_def serve_def Login_def visitor_def migrated_db_def run_def demo_form_def GetUserByEmail_def header_tenant_def auth_GetByEmail_def Let_def)
  then show ?thesis
    using failed_logins_belong_to_nobody [of empty_log demo_auth demo_sessions "''pep''" demo_form visitor "''Login''" message 1 10 "''10.0.0.1''" "''curl''"]
    by (simp add: empty_log_def migrated_db_def)
qed

end
