(* ===== verification/Console.thy ===== *)
theory Console
  imports Config Auth
begin

text \<open>
  The command line (\<open>cmd/api/main.go\<close>, \<open>internal/cmd/db.go\<close>, \<open>user.go\<close>) and the seeder (\<open>internal/db/seeder.go\<close>).
  The migration library and the web server are parameters: what each does to the database and the error it may return.
  \<open>sql.Open\<close> of a registered driver only notes the data source and does not fail. What is printed is left out.
\<close>

section \<open>The commands\<close>

text \<open>A process: the library of the authentication, the environment, the file of settings, the random bytes \<open>Load\<close> draws,
  and the two parameters.\<close>

record 'w process =
  ps_lib :: "'w auth_lib"
  ps_env :: environ
  ps_file :: config_file
  ps_random :: "string option"
  ps_migrate :: "db \<Rightarrow> string option \<times> db"
  ps_server :: "'w \<times> db \<Rightarrow> string option \<times> 'w \<times> db"

definition with_pragmas :: "string \<Rightarrow> string" where
  "with_pragmas dsn =
     dsn @ (if CHR ''?'' \<in> set dsn then ''&'' else ''?'') @ ''_journal_mode=WAL&_busy_timeout=5000&_synchronous=NORMAL''"

definition initDB :: "'w process \<Rightarrow> string + string" where
  "initDB ps =
     (case Load (ps_env ps) (ps_file ps) (ps_random ps) of
        Inl e \<Rightarrow> Inl (''failed to load config: '' @ e)
      | Inr c \<Rightarrow> Inr (with_pragmas (cf_DatabaseURL c)))"

text \<open>\<open>INSERT OR IGNORE\<close> of a tenant or a role.\<close>

definition seed_tenant :: "unit query" where
  "seed_tenant = run (\<lambda>s. (Inr (), if ''default'' \<in> set (t_tenants s) then s else s\<lparr>t_tenants := t_tenants s @ [''default'']\<rparr>))"

definition seed_role :: "unit query" where
  "seed_role = run (\<lambda>s. (Inr (), if ''admin'' \<in> set (t_roles s) then s else s\<lparr>t_roles := t_roles s @ [''admin'']\<rparr>))"

definition seed_pepper :: "environ \<Rightarrow> string" where
  "seed_pepper env =
     (let pepper = Getenv env ''PASSWORD_PEPPER'' in if pepper = '''' then ''default-pepper-for-development-only'' else pepper)"

text \<open>An error of \<open>CreateUser\<close>, taken for a user that exists, is dropped.\<close>

definition Seed :: "'w auth_lib \<Rightarrow> environ \<Rightarrow> 'w \<times> db \<Rightarrow> (string + unit) \<times> 'w \<times> db" where
  "Seed lib env = (\<lambda>(w, s).
     case seed_tenant s of
       (Inl e, s1) \<Rightarrow> (Inl (''failed to seed tenant: '' @ dberr_text e), w, s1)
     | (Inr _, s1) \<Rightarrow>
     (case seed_role s1 of
       (Inl e, s2) \<Rightarrow> (Inl (''failed to seed role: '' @ dberr_text e), w, s2)
     | (Inr _, s2) \<Rightarrow>
     (case al_bcrypt lib (''admin123'' @ seed_pepper env) w of (h, w1) \<Rightarrow>
       (Inr (), w1, snd (CreateUser ''default'' ''admin@admin.com'' (case h of None \<Rightarrow> '''' | Some t \<Rightarrow> t) ''admin'' s2)))))"

definition RunMigrate :: "'w process \<Rightarrow> 'w \<times> db \<Rightarrow> (string + unit) \<times> 'w \<times> db" where
  "RunMigrate ps = (\<lambda>(w, s).
     case initDB ps of
       Inl e \<Rightarrow> (Inl (''failed to initialize database: '' @ e), w, s)
     | Inr _ \<Rightarrow>
     (case ps_migrate ps s of
       (Some e, s1) \<Rightarrow> (Inl (''failed to run migrations: '' @ e), w, s1)
     | (None, s1) \<Rightarrow> (Inr (), w, s1)))"

definition RunSeed :: "'w process \<Rightarrow> 'w \<times> db \<Rightarrow> (string + unit) \<times> 'w \<times> db" where
  "RunSeed ps = (\<lambda>(w, s).
     case initDB ps of
       Inl e \<Rightarrow> (Inl (''failed to initialize database: '' @ e), w, s)
     | Inr _ \<Rightarrow>
     (case ps_migrate ps s of
       (Some e, s1) \<Rightarrow> (Inl (''failed to run migrations: '' @ e), w, s1)
     | (None, s1) \<Rightarrow>
     (case Seed (ps_lib ps) (ps_env ps) (w, s1) of
       (Inl e, ws) \<Rightarrow> (Inl (''failed to seed database: '' @ e), ws)
     | (Inr _, ws) \<Rightarrow> (Inr (), ws))))"

text \<open>\<open>args\<close> is \<open>os.Args\<close>; too few of them end the process with code 1, which is \<open>Inl (Inr ())\<close>.\<close>

definition RunCreateUser :: "'w process \<Rightarrow> string list \<Rightarrow> 'w \<times> db \<Rightarrow> ((string + unit) + unit) \<times> 'w \<times> db" where
  "RunCreateUser ps args = (\<lambda>(w, s).
     if length args < 4 then (Inl (Inr ()), w, s)
     else let email = args ! 2; password = args ! 3 in
     (case initDB ps of
       Inl e \<Rightarrow> (Inl (Inl (''failed to initialize database: '' @ e)), w, s)
     | Inr _ \<Rightarrow>
     (case al_bcrypt (ps_lib ps) password w of
       (None, w1) \<Rightarrow> (Inl (Inl ''failed to hash password''), w1, s)
     | (Some hash, w1) \<Rightarrow>
     (case CreateUser ''default'' email hash ''user'' s of
       (Inl e, s1) \<Rightarrow> (Inl (Inl (''failed to create user: '' @ dberr_text e)), w1, s1)
     | (Inr _, s1) \<Rightarrow> (Inr (), w1, s1)))))"

text \<open>The exit code of the process.\<close>

definition main :: "'w process \<Rightarrow> string list \<Rightarrow> 'w \<times> db \<Rightarrow> int \<times> 'w \<times> db" where
  "main ps args ws =
     (let serve = (case ps_server ps ws of (Some _, ws1) \<Rightarrow> (1, ws1) | (None, ws1) \<Rightarrow> (0, ws1)) in
      if length args < 2 then serve
      else if args ! 1 = ''server'' then serve
      else if args ! 1 = ''seed'' then (case RunSeed ps ws of (Inl _, ws1) \<Rightarrow> (1, ws1) | (Inr _, ws1) \<Rightarrow> (0, ws1))
      else if args ! 1 = ''migrate'' then (case RunMigrate ps ws of (Inl _, ws1) \<Rightarrow> (1, ws1) | (Inr _, ws1) \<Rightarrow> (0, ws1))
      else if args ! 1 = ''create-user'' then (case RunCreateUser ps args ws of (Inl _, ws1) \<Rightarrow> (1, ws1) | (Inr _, ws1) \<Rightarrow> (0, ws1))
      else if args ! 1 = ''help'' then (0, ws)
      else (1, ws))"

section \<open>Accounts made on the command line\<close>

text \<open>What the documentation of bcrypt promises of a wrong password: a hash matches no text of at most 72 bytes other than
  the one it was made of. Texts with a zero byte, which bcrypt repeats with its terminator, are left out; an environment
  variable and an argument of a process have none.\<close>

definition bcrypt_distinguishes :: "'w auth_lib \<Rightarrow> bool" where
  "bcrypt_distinguishes lib \<longleftrightarrow>
     (\<forall>p q w h w'. al_bcrypt lib p w = (Some h, w') \<and> CHR 0x00 \<notin> set p \<and> CHR 0x00 \<notin> set q \<and> length q \<le> 72 \<and>
        al_compare lib h q \<longrightarrow> q = p)"

lemma bcrypt_distinguishesD:
  "bcrypt_distinguishes lib \<Longrightarrow> al_bcrypt lib p w = (Some h, w') \<Longrightarrow> CHR 0x00 \<notin> set p \<Longrightarrow> CHR 0x00 \<notin> set q \<Longrightarrow>
     length q \<le> 72 \<Longrightarrow> al_compare lib h q \<Longrightarrow> q = p"
  unfolding bcrypt_distinguishes_def by blast

lemma pepper_of_config:
  assumes "Load env file random = Inr c"
  shows "cf_PasswordPepper c =
    (if Getenv env ''PASSWORD_PEPPER'' = '''' then ''dev-pepper-change-in-production'' else Getenv env ''PASSWORD_PEPPER'')"
proof -
  from assms obtain y d where check: "check_config random (read_config env (getEnv env ''APP_ENV'' ''dev'') y d) = Inr c"
    by (rule Load_cases)
  then show ?thesis
    by (auto simp: check_config_def read_config_fields split: if_splits)
qed

lemma pepper_no_zero: "Load env file random = Inr c \<Longrightarrow> CHR 0x00 \<notin> set (Getenv env ''PASSWORD_PEPPER'') \<Longrightarrow> CHR 0x00 \<notin> set (cf_PasswordPepper c)"
  by (simp add: pepper_of_config)

text \<open>Logging in to the account a row was just added for.\<close>

lemma login_to_new_user:
  assumes "faults s = []" and "t_users s = us @ [u]" and "u_tenant u = ''default''" and "u_email u = SanitizeEmail (al_unicode lib) email"
    and "find (\<lambda>v. u_tenant v = u_tenant u \<and> u_email v = u_email u) us = None"
  shows "fst (Login lib pepper email p '''' s) =
    (if al_compare lib (u_password_hash u) (p @ pepper) then Inr u else Inl ''invalid credentials'')"
proof -
  have "find (\<lambda>v. u_tenant v = ''default'' \<and> u_email v = SanitizeEmail (al_unicode lib) email) (t_users s) = Some u"
    using assms(2-5) by (simp add: find_append)
  then show ?thesis
    using assms(1) by (simp add: Login_def Let_def default_tenant_def auth_GetByEmail_def GetUserByEmail_no_faults compareHashWithPepper_def)
qed

lemma CreateUser_added:
  assumes "faults s = []" and "CreateUser tenant email hash role s = (Inr u, s')"
  shows "t_users s' = t_users s @ [u] \<and> faults s' = [] \<and> u_tenant u = tenant \<and> u_email u = email \<and> u_password_hash u = hash \<and>
    u_role_id u = role \<and> find (\<lambda>v. u_tenant v = tenant \<and> u_email v = email) (t_users s) = None"
  using assms by (auto simp: CreateUser_def run_no_faults insert_user_def split: if_splits)


lemma seed_steps:
  assumes "faults s = []"
  obtains s2 where "faults s2 = []" and "t_users s2 = t_users s" and "''default'' \<in> set (t_tenants s2)" and "''admin'' \<in> set (t_roles s2)"
    and "\<And>w. Seed lib env (w, s) = (case al_bcrypt lib (''admin123'' @ seed_pepper env) w of (h, w1) \<Rightarrow>
      (Inr (), w1, snd (CreateUser ''default'' ''admin@admin.com'' (case h of None \<Rightarrow> '''' | Some t \<Rightarrow> t) ''admin'' s2)))"
proof -
  define s1 where "s1 = snd (seed_tenant s)"
  define s2 where "s2 = snd (seed_role s1)"
  have 1: "seed_tenant s = (Inr (), s1)" "faults s1 = []" "t_users s1 = t_users s" "''default'' \<in> set (t_tenants s1)"
    using assms by (simp_all add: s1_def seed_tenant_def run_no_faults)
  have 2: "seed_role s1 = (Inr (), s2)" "faults s2 = []" "t_users s2 = t_users s" "''default'' \<in> set (t_tenants s2)" "''admin'' \<in> set (t_roles s2)"
    using 1 by (simp_all add: s2_def seed_role_def run_no_faults)
  show thesis
    by (rule that [OF 2(2-5)]) (simp add: Seed_def 1(1) 2(1))
qed

text \<open>The administrator the seeder makes can log in with the printed password exactly when PASSWORD_PEPPER is set: without it
  the seeder and the configuration fall back to different peppers.\<close>

theorem seeded_admin_needs_pepper:
  assumes "bcrypt_ok lib" and "bcrypt_distinguishes lib" and "Load env file random = Inr c" and "faults s = []"
    and "find (\<lambda>v. u_tenant v = ''default'' \<and> u_email v = ''admin@admin.com'') (t_users s) = None"
    and "Seed lib env (w, s) = (r, w', s')" and "CHR 0x00 \<notin> set (Getenv env ''PASSWORD_PEPPER'')"
    and "length (''admin123'' @ seed_pepper env) \<le> 72" and "SanitizeEmail (al_unicode lib) typed = ''admin@admin.com''"
  shows "r = Inr () \<and> (if Getenv env ''PASSWORD_PEPPER'' = ''''
    then fst (Login lib (cf_PasswordPepper c) typed ''admin123'' '''' s') = Inl ''invalid credentials''
    else \<exists>u. fst (Login lib (cf_PasswordPepper c) typed ''admin123'' '''' s') = Inr u \<and> u_role_id u = ''admin'')"
proof -
  obtain s2 where s2: "faults s2 = []" "t_users s2 = t_users s" "''default'' \<in> set (t_tenants s2)" "''admin'' \<in> set (t_roles s2)"
    and seed: "\<And>w. Seed lib env (w, s) = (case al_bcrypt lib (''admin123'' @ seed_pepper env) w of (h, w1) \<Rightarrow>
      (Inr (), w1, snd (CreateUser ''default'' ''admin@admin.com'' (case h of None \<Rightarrow> '''' | Some t \<Rightarrow> t) ''admin'' s2)))"
    using seed_steps [OF assms(4)] by metis
  obtain h w1 where h: "al_bcrypt lib (''admin123'' @ seed_pepper env) w = (Some h, w1)" "al_compare lib h (''admin123'' @ seed_pepper env)"
    using assms(1,8) unfolding bcrypt_ok_def by blast
  have "\<exists>u. CreateUser ''default'' ''admin@admin.com'' h ''admin'' s2 = (Inr u, s')"
    using assms(6) s2 assms(5) unfolding seed h(1) by (auto simp: CreateUser_def run_no_faults insert_user_def)
  then obtain u where u: "CreateUser ''default'' ''admin@admin.com'' h ''admin'' s2 = (Inr u, s')" by blast
  have login: "fst (Login lib (cf_PasswordPepper c) typed ''admin123'' '''' s') =
      (if al_compare lib h (''admin123'' @ cf_PasswordPepper c) then Inr u else Inl ''invalid credentials'')"
    using CreateUser_added [OF s2(1) u] s2(2) assms(9) by (simp add: login_to_new_user)
  have r: "r = Inr ()" using assms(6) unfolding seed h(1) by simp
  show ?thesis
  proof (cases "Getenv env ''PASSWORD_PEPPER'' = ''''")
    case True
    then have pepper: "seed_pepper env = ''default-pepper-for-development-only''" "cf_PasswordPepper c = ''dev-pepper-change-in-production''"
      using pepper_of_config [OF assms(3)] by (simp_all add: seed_pepper_def)
    have "\<not> al_compare lib h (''admin123'' @ cf_PasswordPepper c)"
    proof
      assume "al_compare lib h (''admin123'' @ cf_PasswordPepper c)"
      from bcrypt_distinguishesD [OF assms(2) h(1) _ _ _ this] show False unfolding pepper by simp
    qed
    with True login r show ?thesis by simp
  next
    case False
    then have "cf_PasswordPepper c = seed_pepper env"
      using pepper_of_config [OF assms(3)] by (simp add: seed_pepper_def)
    with False login r h(2) CreateUser_added [OF s2(1) u] show ?thesis by auto
  qed
qed

section \<open>An example\<close>

lemma distinguishes_demo: "bcrypt_distinguishes demo_auth"
  by (simp add: bcrypt_distinguishes_def demo_auth_def)

definition console :: "unit process" where
  "console = \<lparr>ps_lib = demo_auth, ps_env = Map.empty, ps_file = shipped_config, ps_random = Some ''00'',
     ps_migrate = (\<lambda>s. (None, s)), ps_server = (\<lambda>ws. (None, ws))\<rparr>"

lemma dev_pepper: "cf_PasswordPepper (loaded_config Map.empty) = ''dev-pepper-change-in-production''"
  using pepper_of_config [OF loads_dev] by (simp add: Getenv_def)

definition new_user_args :: "string list" where
  "new_user_args = [''goth'', ''create-user'', ''ana@b.co'', ''Correct1'']"

lemma console_adds_user: "\<exists>s'. RunCreateUser console new_user_args ((), migrated_db 50) = (Inr (), (), s')"
  using loads_dev
  by (simp add: RunCreateUser_def console_def new_user_args_def initDB_def demo_auth_def CreateUser_def run_no_faults migrated_db_def
      insert_user_def Let_def)


lemma admin_sanitized: "SanitizeEmail plain_unicode ''admin@admin.com'' = ''admin@admin.com''"
  by (rule clean_sanitize [OF ascii_tables_plain])
    (simp add: clean_email_def byte_of_def allowed_rune_def rune_lower_def)

theorem seeded_admin_needs_pepper_witness:
  "fst (Login demo_auth (cf_PasswordPepper (loaded_config Map.empty)) ''admin@admin.com'' ''admin123'' ''''
     (snd (snd (Seed demo_auth Map.empty ((), migrated_db 50))))) = Inl ''invalid credentials'' \<and>
   (\<exists>u. fst (Login demo_auth (cf_PasswordPepper (loaded_config prod_env)) ''admin@admin.com'' ''admin123'' ''''
     (snd (snd (Seed demo_auth prod_env ((), migrated_db 50))))) = Inr u \<and> u_role_id u = ''admin'')"
proof -
  have facts: "faults (migrated_db 50) = []" "t_users (migrated_db 50) = []" "al_unicode demo_auth = plain_unicode"
    by (simp_all add: migrated_db_def demo_auth_def)
  have run: "Seed demo_auth env ((), migrated_db 50) =
      (fst (Seed demo_auth env ((), migrated_db 50)), (), snd (snd (Seed demo_auth env ((), migrated_db 50))))" for env
    by (simp add: prod_eq_iff)
  show ?thesis
    using seeded_admin_needs_pepper [OF bcrypt_ok_demo distinguishes_demo loads_dev facts(1) _ run, of "''admin@admin.com''"]
      seeded_admin_needs_pepper [OF bcrypt_ok_demo distinguishes_demo loads_prod facts(1) _ run, of "''admin@admin.com''"]
    by (simp add: facts admin_sanitized Getenv_def prod_env_def seed_pepper_def)
qed

end
