(* ===== verification/Go_Mux.thy ===== *)
theory Go_Mux
  imports Go_Path
begin

text \<open>
  \<open>http.ServeMux\<close> of Go 1.22 and later, as the server uses it: patterns with a method and a path, no host. A table of
  routes is searched as the mux's tree is: at each segment a literal is tried before a wildcard and a wildcard before
  a trailing slash, with backtracking. Percent-encoded slashes in a path are left out.
\<close>

section \<open>Patterns\<close>

text \<open>\<open>Lit\<close> is a literal segment, \<open>Wild\<close> a \<open>{name}\<close>, \<open>Multi\<close> the end of a pattern with a trailing slash. The
  literal \<open>''/''\<close> stands for the slash at the end of a path.\<close>

datatype segment = Lit string | Wild | Multi

record 'e route =
  rt_method :: string
  rt_segs :: "segment list"
  rt_target :: 'e

definition parse_segment :: "string \<Rightarrow> segment" where
  "parse_segment p = (if has_prefix p ''{'' then Wild else Lit p)"

text \<open>The path of a pattern, which starts with a slash.\<close>

definition parse_path :: "string \<Rightarrow> segment list" where
  "parse_path p =
     (let parts = tl (split_at slash p)
      in if last parts = '''' then map parse_segment (butlast parts) @ [Multi] else map parse_segment parts)"

text \<open>The segments of a request's path.\<close>

definition path_segs :: "string \<Rightarrow> string list" where
  "path_segs p =
     (let parts = tl (split_at slash p) in if last parts = '''' then butlast parts @ [''/''] else parts)"

section \<open>Registration\<close>

datatype relationship = Equivalent | MoreGeneral | MoreSpecific | Disjoint | Overlaps

fun inverse_relationship :: "relationship \<Rightarrow> relationship" where
  "inverse_relationship MoreSpecific = MoreGeneral"
| "inverse_relationship MoreGeneral = MoreSpecific"
| "inverse_relationship r = r"

definition combine :: "relationship \<Rightarrow> relationship \<Rightarrow> relationship" where
  "combine r1 r2 =
     (case r1 of
        Equivalent \<Rightarrow> r2
      | Disjoint \<Rightarrow> Disjoint
      | Overlaps \<Rightarrow> if r2 = Disjoint then Disjoint else Overlaps
      | _ \<Rightarrow> if r2 = Equivalent then r1 else if r2 = inverse_relationship r1 then Overlaps else r2)"

fun compare_segment :: "segment \<Rightarrow> segment \<Rightarrow> relationship" where
  "compare_segment Multi Multi = Equivalent"
| "compare_segment Multi _ = MoreGeneral"
| "compare_segment _ Multi = MoreSpecific"
| "compare_segment Wild Wild = Equivalent"
| "compare_segment Wild (Lit s) = (if s = ''/'' then Disjoint else MoreGeneral)"
| "compare_segment (Lit s) Wild = (if s = ''/'' then Disjoint else MoreSpecific)"
| "compare_segment (Lit s) (Lit t) = (if s = t then Equivalent else Disjoint)"

definition ends_multi :: "segment list \<Rightarrow> bool" where
  "ends_multi ps \<longleftrightarrow> ps \<noteq> [] \<and> last ps = Multi"

text \<open>The loop of \<open>comparePaths\<close>; \<open>m1\<close> and \<open>m2\<close> say whether the whole patterns end in a trailing slash.\<close>

fun compare_loop :: "bool \<Rightarrow> bool \<Rightarrow> relationship \<Rightarrow> segment list \<Rightarrow> segment list \<Rightarrow> relationship" where
  "compare_loop m1 m2 rel [] [] = rel"
| "compare_loop m1 m2 rel [] (q # qs) = (if m1 then combine rel MoreGeneral else Disjoint)"
| "compare_loop m1 m2 rel (p # ps) [] = (if m2 then combine rel MoreSpecific else Disjoint)"
| "compare_loop m1 m2 rel (p # ps) (q # qs) =
     (let r = combine rel (compare_segment p q) in if r = Disjoint then Disjoint else compare_loop m1 m2 r ps qs)"

definition compare_paths :: "segment list \<Rightarrow> segment list \<Rightarrow> relationship" where
  "compare_paths ps qs =
     (if length ps \<noteq> length qs \<and> \<not> ends_multi ps \<and> \<not> ends_multi qs then Disjoint
      else compare_loop (ends_multi ps) (ends_multi qs) Equivalent ps qs)"

definition compare_methods :: "string \<Rightarrow> string \<Rightarrow> relationship" where
  "compare_methods m1 m2 =
     (if m1 = m2 then Equivalent
      else if m1 = '''' then MoreGeneral
      else if m2 = '''' then MoreSpecific
      else if m1 = ''GET'' \<and> m2 = ''HEAD'' then MoreGeneral
      else if m2 = ''GET'' \<and> m1 = ''HEAD'' then MoreSpecific
      else Disjoint)"

definition compare_routes :: "'e route \<Rightarrow> 'e route \<Rightarrow> relationship" where
  "compare_routes r1 r2 =
     (let m = compare_methods (rt_method r1) (rt_method r2)
      in if m = Disjoint then Disjoint else combine m (compare_paths (rt_segs r1) (rt_segs r2)))"

definition conflicts :: "'e route \<Rightarrow> 'e route \<Rightarrow> bool" where
  "conflicts r1 r2 \<longleftrightarrow> compare_routes r1 r2 \<in> {Equivalent, Overlaps}"

text \<open>\<open>Handle\<close> panics on a pattern that conflicts with one registered before.\<close>

primrec registers :: "'e route list \<Rightarrow> bool" where
  "registers [] = True"
| "registers (r # rs) = (list_all (\<lambda>r'. \<not> conflicts r r') rs \<and> registers rs)"

section \<open>Matching\<close>

text \<open>A pattern matches a path.\<close>

fun matches :: "segment list \<Rightarrow> string list \<Rightarrow> bool" where
  "matches [] ss = (ss = [])"
| "matches (p # ps) [] = False"
| "matches (Lit t # ps) (s # ss) = (s = t \<and> matches ps ss)"
| "matches (Wild # ps) (s # ss) = (s \<noteq> ''/'' \<and> matches ps ss)"
| "matches (Multi # ps) (s # ss) = (ps = [])"

text \<open>The subtree under a literal and under a wildcard: what is left of the patterns that start so.\<close>

fun under :: "segment \<Rightarrow> (segment list \<times> 'r) list \<Rightarrow> (segment list \<times> 'r) list" where
  "under p [] = []"
| "under p ((q # qs, r) # rs) = (if q = p then (qs, r) # under p rs else under p rs)"
| "under p (([], r) # rs) = under p rs"

definition ending :: "segment list \<Rightarrow> (segment list \<times> 'r) list \<Rightarrow> 'r option" where
  "ending ps rs = map_option snd (find (\<lambda>q. fst q = ps) rs)"

primrec tree_match :: "string list \<Rightarrow> (segment list \<times> 'r) list \<Rightarrow> 'r option" where
  "tree_match [] rs = ending [] rs"
| "tree_match (s # ss) rs =
     (case tree_match ss (under (Lit s) rs) of
        Some r \<Rightarrow> Some r
      | None \<Rightarrow>
          (case (if s = ''/'' then None else tree_match ss (under Wild rs)) of
             Some r \<Rightarrow> Some r
           | None \<Rightarrow> ending [Multi] rs))"

definition method_tree :: "string \<Rightarrow> 'e route list \<Rightarrow> (segment list \<times> 'e route) list" where
  "method_tree method rs = map (\<lambda>r. (rt_segs r, r)) (filter (\<lambda>r. rt_method r = method) rs)"

definition find_route :: "'e route list \<Rightarrow> string \<Rightarrow> string list \<Rightarrow> 'e route option" where
  "find_route rs method ss =
     (case tree_match ss (method_tree method rs) of
        Some r \<Rightarrow> Some r
      | None \<Rightarrow>
          (case (if method = ''HEAD'' then tree_match ss (method_tree ''GET'' rs) else None) of
             Some r \<Rightarrow> Some r
           | None \<Rightarrow> tree_match ss (method_tree '''' rs)))"

section \<open>Serving\<close>

datatype 'e mux_answer =
    Serve 'e
  | MovedTo string
  | MethodNotAllowed
  | NotFound

definition clean_url :: "string \<Rightarrow> string" where
  "clean_url p =
     (if p = '''' then ''/''
      else let q = (if hd p = slash then p else slash # p); c = path_clean q
           in if last q = slash \<and> c \<noteq> ''/'' then c @ ''/'' else c)"

definition exact_match :: "'e route option \<Rightarrow> string \<Rightarrow> bool" where
  "exact_match r path =
     (case r of
        None \<Rightarrow> False
      | Some r \<Rightarrow>
          \<not> ends_multi (rt_segs r) \<or>
          path \<noteq> '''' \<and> last path = slash \<and> length (rt_segs r) = length (filter (\<lambda>c. c = slash) path))"

text \<open>\<open>findHandler\<close> for the methods other than CONNECT; \<open>path\<close> is the path of the request's URL.\<close>

definition mux_answer :: "'e route list \<Rightarrow> string \<Rightarrow> string \<Rightarrow> 'e mux_answer" where
  "mux_answer rs method path =
     (let c = clean_url path; r = find_route rs method (path_segs c)
      in if \<not> exact_match r c \<and> last c \<noteq> slash \<and> exact_match (find_route rs method (path_segs (c @ ''/''))) (c @ ''/'')
         then MovedTo (c @ ''/'')
         else if c \<noteq> path then MovedTo c
         else case r of
           Some r \<Rightarrow> Serve (rt_target r)
         | None \<Rightarrow>
             if \<exists>r\<in>set rs. find_route rs (rt_method r) (path_segs c) \<noteq> None then MethodNotAllowed else NotFound)"

section \<open>The most specific pattern is found\<close>

lemma under_iff: "(qs, r) \<in> set (under p rs) \<longleftrightarrow> (p # qs, r) \<in> set rs"
  by (induction p rs rule: under.induct) auto

lemma ending_Some: "ending ps rs = Some r \<Longrightarrow> (ps, r) \<in> set rs"
  by (auto simp: ending_def dest!: find_Some_in)

lemma ending_None: "ending ps rs = None \<longleftrightarrow> (\<forall>r. (ps, r) \<notin> set rs)"
  by (auto simp: ending_def find_None_iff)

lemma matches_Cons:
  "matches ps (s # ss) \<longleftrightarrow>
     (\<exists>qs. ps = Lit s # qs \<and> matches qs ss) \<or> (\<exists>qs. ps = Wild # qs \<and> s \<noteq> ''/'' \<and> matches qs ss) \<or> ps = [Multi]"
  by (cases ps; cases "hd ps") auto

text \<open>At the first segment where two patterns differ, the first has the literal or, against a trailing slash, the wildcard.\<close>

fun rank :: "segment \<Rightarrow> nat" where
  "rank (Lit _) = 0" | "rank Wild = 1" | "rank Multi = 2"

fun precedes :: "segment list \<Rightarrow> segment list \<Rightarrow> bool" where
  "precedes [] qs = True"
| "precedes (p # ps) [] = False"
| "precedes (p # ps) (q # qs) = (rank p < rank q \<or> p = q \<and> precedes ps qs)"

lemma tree_match_complete: "tree_match ss rs = None \<Longrightarrow> (qs, r) \<in> set rs \<Longrightarrow> \<not> matches qs ss"
proof (induction ss arbitrary: rs qs)
  case Nil
  then show ?case by (cases qs) (auto simp: ending_None)
next
  case (Cons s ss)
  then have "tree_match ss (under (Lit s) rs) = None" "s \<noteq> ''/'' \<longrightarrow> tree_match ss (under Wild rs) = None" "ending [Multi] rs = None"
    by (auto split: option.splits if_splits)
  with Cons.IH Cons.prems(2) show ?case
    by (auto simp: matches_Cons under_iff ending_None)
qed

lemma tree_match_first:
  "tree_match ss rs = Some r \<Longrightarrow>
     \<exists>ps. (ps, r) \<in> set rs \<and> matches ps ss \<and> (\<forall>qs r'. (qs, r') \<in> set rs \<longrightarrow> matches qs ss \<longrightarrow> precedes ps qs)"
proof (induction ss arbitrary: rs)
  case Nil
  then show ?case by (auto dest: ending_Some)
next
  case (Cons s ss)
  show ?case
  proof (cases "tree_match ss (under (Lit s) rs)")
    case (Some r')
    with Cons.prems have r: "tree_match ss (under (Lit s) rs) = Some r" by simp
    from Cons.IH [OF r] obtain ps where "(ps, r) \<in> set (under (Lit s) rs)" "matches ps ss"
      "\<forall>qs r'. (qs, r') \<in> set (under (Lit s) rs) \<longrightarrow> matches qs ss \<longrightarrow> precedes ps qs" by blast
    then show ?thesis by (intro exI [of _ "Lit s # ps"]) (auto simp: under_iff matches_Cons)
  next
    case no_lit: None
    then have lit: "(Lit s # qs, r') \<in> set rs \<Longrightarrow> \<not> matches qs ss" for qs r'
      using tree_match_complete [OF no_lit] by (simp add: under_iff)
    show ?thesis
    proof (cases "if s = ''/'' then None else tree_match ss (under Wild rs)")
      case (Some r')
      with Cons.prems no_lit have r: "tree_match ss (under Wild rs) = Some r" and s: "s \<noteq> ''/''" by (auto split: if_splits)
      from Cons.IH [OF r] obtain ps where "(ps, r) \<in> set (under Wild rs)" "matches ps ss"
        "\<forall>qs r'. (qs, r') \<in> set (under Wild rs) \<longrightarrow> matches qs ss \<longrightarrow> precedes ps qs" by blast
      with s lit show ?thesis by (intro exI [of _ "Wild # ps"]) (auto simp: under_iff matches_Cons)
    next
      case no_wild: None
      then have wild: "(Wild # qs, r') \<in> set rs \<Longrightarrow> s = ''/'' \<or> \<not> matches qs ss" for qs r'
        using tree_match_complete [of ss "under Wild rs"] by (auto simp: under_iff split: if_splits)
      have "ending [Multi] rs = Some r" using Cons.prems no_lit no_wild by simp
      with lit wild show ?thesis by (intro exI [of _ "[Multi]"]) (auto simp: matches_Cons dest: ending_Some)
    qed
  qed
qed

text \<open>Patterns that match one path are comparable, and the one that precedes is not the more general.\<close>

lemma ends_multi_Cons: "p \<noteq> Multi \<Longrightarrow> ends_multi (p # ps) = ends_multi ps"
  by (auto simp: ends_multi_def)

lemma ends_multi_single [simp]: "ends_multi [Multi]"
  by (simp add: ends_multi_def)

lemmas rel_defs = combine_def Let_def

lemma compare_loop_meet:
  "matches ps ss \<Longrightarrow> matches qs ss \<Longrightarrow> rel \<in> {MoreSpecific, Overlaps} \<Longrightarrow>
     compare_loop (ends_multi ps) (ends_multi qs) rel ps qs \<in> {MoreSpecific, Overlaps}"
proof (induction ss arbitrary: ps qs rel)
  case Nil
  then show ?case by (cases ps; cases qs) auto
next
  case (Cons s ss)
  from Cons.prems(1) obtain p ps' where p: "ps = p # ps'" by (cases ps) auto
  from Cons.prems(2) obtain q qs' where q: "qs = q # qs'" by (cases qs) auto
  show ?case
  proof (cases "p = Multi \<or> q = Multi")
    case False
    then have m: "matches ps' ss" "matches qs' ss" "compare_segment p q \<in> {Equivalent, MoreGeneral, MoreSpecific}"
      using Cons.prems(1,2) by (cases p; cases q; auto simp: p q)+
    then have "combine rel (compare_segment p q) \<in> {MoreSpecific, Overlaps}"
      using Cons.prems(3) by (auto simp: rel_defs)
    with Cons.IH [OF m(1,2) this] False show ?thesis by (auto simp: p q ends_multi_Cons Let_def)
  next
    case True
    then have "p = Multi \<longrightarrow> ps' = []" "q = Multi \<longrightarrow> qs' = []" using Cons.prems(1,2) by (auto simp: p q)
    with True Cons.prems(3) show ?thesis
      by (cases p; cases q; cases ps'; cases qs') (auto simp: p q rel_defs)
  qed
qed

lemma compare_loop_first:
  "matches ps ss \<Longrightarrow> matches qs ss \<Longrightarrow> precedes ps qs \<Longrightarrow>
     compare_loop (ends_multi ps) (ends_multi qs) Equivalent ps qs \<in> {MoreSpecific, Overlaps} \<or> ps = qs"
proof (induction ss arbitrary: ps qs)
  case Nil
  then show ?case by (cases ps; cases qs) auto
next
  case (Cons s ss)
  from Cons.prems(1) obtain p ps' where p: "ps = p # ps'" by (cases ps) auto
  from Cons.prems(2) obtain q qs' where q: "qs = q # qs'" by (cases qs) auto
  consider (same) "p = q" "precedes ps' qs'" | (less) "rank p < rank q" using Cons.prems(3) by (auto simp: p q)
  then show ?case
  proof cases
    case same
    show ?thesis
    proof (cases "p = Multi")
      case True
      then show ?thesis using Cons.prems(1,2) same by (simp add: p q)
    next
      case False
      then have "matches ps' ss" "matches qs' ss" using Cons.prems(1,2) same by (cases p; auto simp: p q)+
      from Cons.IH [OF this same(2)] False same(1) show ?thesis
        by (cases p) (auto simp: p q ends_multi_Cons rel_defs)
    qed
  next
    case less
    then have p_multi: "p \<noteq> Multi" and c: "compare_segment p q = MoreSpecific"
      using Cons.prems(1,2) by (cases p; cases q; auto simp: p q)+
    show ?thesis
    proof (cases "q = Multi")
      case True
      then have "qs' = []" using Cons.prems(2) by (simp add: q)
      then show ?thesis using True c by (cases ps') (simp_all add: p q rel_defs)
    next
      case False
      then have "matches ps' ss" "matches qs' ss"
        using Cons.prems(1,2) p_multi by (cases p; cases q; auto simp: p q)+
      from compare_loop_meet [OF this, of MoreSpecific] False p_multi c show ?thesis
        by (auto simp: p q ends_multi_Cons rel_defs)
    qed
  qed
qed

lemma matches_length: "matches ps ss \<Longrightarrow> \<not> ends_multi ps \<Longrightarrow> length ps = length ss"
  by (induction ps ss rule: matches.induct) (auto simp: ends_multi_Cons)

lemma compare_paths_first:
  assumes "matches ps ss" and "matches qs ss" and "precedes ps qs"
  shows "compare_paths ps qs \<in> {MoreSpecific, Overlaps} \<or> ps = qs"
  using compare_loop_first [OF assms] matches_length [OF assms(1)] matches_length [OF assms(2)]
  by (auto simp: compare_paths_def)

text \<open>Comparing the other way round inverts the relation.\<close>

lemma combine_inverse: "combine (inverse_relationship a) (inverse_relationship b) = inverse_relationship (combine a b)"
  by (cases a; cases b) (simp_all add: combine_def)

lemma inverse_Disjoint [simp]: "inverse_relationship r = Disjoint \<longleftrightarrow> r = Disjoint"
  by (cases r) simp_all

lemma compare_segment_inverse: "compare_segment q p = inverse_relationship (compare_segment p q)"
  by (cases p; cases q) auto

lemma compare_loop_inverse:
  "compare_loop m2 m1 (inverse_relationship rel) qs ps = inverse_relationship (compare_loop m1 m2 rel ps qs)"
proof (induction m1 m2 rel ps qs rule: compare_loop.induct)
  case (2 m1 m2 rel q qs)
  then show ?case using combine_inverse [of rel MoreGeneral] by simp
next
  case (3 m1 m2 rel p ps)
  then show ?case using combine_inverse [of rel MoreSpecific] by simp
next
  case (4 m1 m2 rel p ps q qs)
  then show ?case by (simp add: Let_def compare_segment_inverse [of q p] combine_inverse)
qed simp_all

lemma compare_paths_inverse: "compare_paths qs ps = inverse_relationship (compare_paths ps qs)"
  using compare_loop_inverse [of "ends_multi qs" "ends_multi ps" Equivalent qs ps] by (auto simp: compare_paths_def)

lemma compare_methods_inverse: "compare_methods n m = inverse_relationship (compare_methods m n)"
  by (auto simp: compare_methods_def)

lemma compare_routes_inverse: "compare_routes r' r = inverse_relationship (compare_routes r r')"
  by (simp add: compare_routes_def Let_def compare_methods_inverse [of "rt_method r'"] compare_paths_inverse [of "rt_segs r'"] combine_inverse)

lemma conflicts_sym: "conflicts r r' = conflicts r' r"
  unfolding conflicts_def compare_routes_inverse [of r r'] by (cases "compare_routes r' r") simp_all

lemma registers_no_conflict: "registers rs \<Longrightarrow> r \<in> set rs \<Longrightarrow> r' \<in> set rs \<Longrightarrow> r = r' \<or> \<not> conflicts r r'"
  by (induction rs) (auto simp: list_all_iff conflicts_sym)

text \<open>What a mux with routes that do not conflict finds is a route that matches and is more specific than every other
  route of the method that matches.\<close>

lemma method_tree_iff: "(ps, r) \<in> set (method_tree m rs) \<longleftrightarrow> r \<in> set rs \<and> rt_method r = m \<and> ps = rt_segs r"
  by (auto simp: method_tree_def)

lemma tree_match_most_specific:
  assumes "registers rs" and "tree_match ss (method_tree m rs) = Some r"
  shows "r \<in> set rs \<and> rt_method r = m \<and> matches (rt_segs r) ss \<and>
    (\<forall>r'\<in>set rs. rt_method r' = m \<longrightarrow> matches (rt_segs r') ss \<longrightarrow> r' = r \<or> compare_routes r r' = MoreSpecific)"
proof -
  from tree_match_first [OF assms(2)] have r: "r \<in> set rs" "rt_method r = m" "matches (rt_segs r) ss"
    and first: "\<And>r'. r' \<in> set rs \<Longrightarrow> rt_method r' = m \<Longrightarrow> matches (rt_segs r') ss \<Longrightarrow> precedes (rt_segs r) (rt_segs r')"
    by (auto simp: method_tree_iff)
  have "r' = r \<or> compare_routes r r' = MoreSpecific" if "r' \<in> set rs" "rt_method r' = m" "matches (rt_segs r') ss" for r'
  proof -
    have "compare_routes r r' = compare_paths (rt_segs r) (rt_segs r')"
      using r(2) that(2) by (simp add: compare_routes_def compare_methods_def combine_def)
    moreover have "compare_paths ps ps = Equivalent" for ps
    proof -
      have "compare_loop m m Equivalent ps ps = Equivalent" for m
      proof (induction ps)
        case (Cons p ps)
        then show ?case by (cases p) (simp_all add: combine_def)
      qed simp
      then show ?thesis by (simp add: compare_paths_def)
    qed
    ultimately show ?thesis
      using compare_paths_first [OF r(3) that(3) first [OF that]] registers_no_conflict [OF assms(1) r(1) that(1)]
      by (auto simp: conflicts_def)
  qed
  with r show ?thesis by blast
qed

lemma find_route_most_specific:
  assumes "registers rs" and "find_route rs m ss = Some r" and "\<exists>r'\<in>set rs. rt_method r' = m \<and> matches (rt_segs r') ss"
  shows "r \<in> set rs \<and> rt_method r = m \<and> matches (rt_segs r) ss \<and>
    (\<forall>r'\<in>set rs. rt_method r' = m \<longrightarrow> matches (rt_segs r') ss \<longrightarrow> r' = r \<or> compare_routes r r' = MoreSpecific)"
proof -
  have "tree_match ss (method_tree m rs) \<noteq> None"
    using assms(3) tree_match_complete [of ss "method_tree m rs"] by (auto simp: method_tree_iff)
  with assms(2) have "tree_match ss (method_tree m rs) = Some r" by (auto simp: find_route_def)
  from tree_match_most_specific [OF assms(1) this] show ?thesis .
qed

section \<open>Clean paths\<close>

text \<open>A path of plain segments, and what the mux makes of it.\<close>

definition abs_path :: "string list \<Rightarrow> string" where
  "abs_path ps = concat (map (\<lambda>p. slash # p) ps)"

lemma abs_path_join: "ps \<noteq> [] \<Longrightarrow> abs_path ps = slash # join ''/'' ps"
  by (induction ps rule: induct_list012) (simp_all add: abs_path_def)

lemma abs_path_append: "abs_path (ps @ qs) = abs_path ps @ abs_path qs"
  by (simp add: abs_path_def)

lemma abs_path_Cons: "abs_path (p # ps) = slash # p @ abs_path ps"
  by (simp add: abs_path_def)

lemma split_abs_path:
  assumes "ps \<noteq> []" and "list_all plain_part ps"
  shows "split_at slash (abs_path ps) = '''' # ps"
proof -
  have "split_at slash (join ''/'' ps) = ps"
    using assms by (intro split_join) (auto simp: list_all_iff plain_part_def)
  then show ?thesis by (simp add: abs_path_join [OF assms(1)])
qed

lemma last_plain: "ps \<noteq> [] \<Longrightarrow> list_all plain_part ps \<Longrightarrow> last ps \<noteq> ''''"
  by (induction ps) (auto simp: plain_part_def)

lemma last_abs_path: "ps \<noteq> [] \<Longrightarrow> list_all plain_part ps \<Longrightarrow> last (abs_path ps) \<noteq> slash"
proof (induction ps rule: rev_induct)
  case (snoc p ps)
  then have p: "plain_part p" by simp
  then have "last (abs_path (ps @ [p])) = last p" "last p \<in> set p" by (simp_all add: abs_path_append abs_path_def plain_part_def)
  with p show ?case unfolding plain_part_def by metis
qed simp

lemma abs_path_eq_Nil [simp]: "abs_path ps = '''' \<longleftrightarrow> ps = []"
  by (cases ps) (simp_all add: abs_path_def)

lemma path_segs_abs [simp]: "ps \<noteq> [] \<Longrightarrow> list_all plain_part ps \<Longrightarrow> path_segs (abs_path ps) = ps"
  using last_plain by (simp add: path_segs_def split_abs_path)

lemma clean_abs_path [simp]:
  assumes "ps \<noteq> []" and "list_all plain_part ps"
  shows "clean_url (abs_path ps) = abs_path ps"
proof -
  have abs: "is_abs (abs_path ps)" "hd (abs_path ps) = slash" using assms(1) by (cases ps; simp add: abs_path_def)+
  have "clean_parts True [] ('''' # ps) = ps"
    using clean_parts_plain [OF assms(2), of True "[]"] by simp
  then have "path_clean (abs_path ps) = slash # join ''/'' ps"
    using abs(1) by (simp add: path_clean_def split_abs_path [OF assms])
  then show ?thesis
    using assms(1) abs(2) last_abs_path [OF assms] abs_path_join [OF assms(1)] by (simp add: clean_url_def)
qed

end
