(* ===== verification/Routes.thy ===== *)
theory Routes
  imports Go_Mux Middleware "HOL-Library.Sublist"
begin

text \<open>
  The routes of the server: what \<open>RunServer\<close> of \<open>internal/cmd/server.go\<close> and the \<open>RegisterRoutes\<close> methods give to the
  mux, in their order, with the guard each handler is wrapped in. A handler is named by its component and its method.
\<close>

section \<open>Endpoints\<close>

datatype endpoint =
    Files string
  | Metrics
  | Events
  | Websocket
  | Swagger
  | Sitemap
  | Robots
  | Page string
  | Api_Redirect
  | Flags_Api string
  | Log_Api string
  | Secrets_Api string
  | Admin_Api string
  | Billing string
  | OAuth string
  | Probe string
  | Auth_Page string
  | User_Page string
  | Two_Factor_Page string

datatype guard = Open | Rate_Limited | Signed_In

type_synonym server_route = "(guard \<times> endpoint) route"

definition handle :: "string \<Rightarrow> string \<Rightarrow> guard \<Rightarrow> endpoint \<Rightarrow> server_route" where
  "handle method path g e = \<lparr>rt_method = method, rt_segs = parse_path path, rt_target = (g, e)\<rparr>"

section \<open>The table\<close>

definition static_routes :: "server_route list" where
  "static_routes =
     [handle ''GET'' ''/assets/'' Open (Files ''web/static/assets/''),
      handle ''GET'' ''/storage/'' Open (Files ''storage/''),
      handle ''GET'' ''/static/'' Open (Files ''web/static/'')]"

definition system_routes :: "server_route list" where
  "system_routes =
     [handle ''GET'' ''/metrics'' Open Metrics,
      handle ''GET'' ''/events'' Open Events,
      handle ''GET'' ''/ws'' Open Websocket,
      handle ''GET'' ''/swagger/'' Open Swagger,
      handle ''GET'' ''/sitemap.xml'' Open Sitemap,
      handle ''GET'' ''/robots.txt'' Open Robots,
      handle ''GET'' ''/site.webmanifest'' Open (Files ''web/static/manifest.json''),
      handle ''GET'' ''/apple-touch-icon.png'' Open (Files ''web/static/apple-touch-icon.png''),
      handle ''GET'' ''/favicon.ico'' Open (Files ''web/static/favicon.ico''),
      handle ''GET'' ''/favicon.svg'' Open (Files ''web/static/favicon.svg'')]"

definition page_routes :: "server_route list" where
  "page_routes =
     [handle ''GET'' ''/'' Open (Page ''Landing''),
      handle ''GET'' ''/pricing'' Open (Page ''Pricing''),
      handle ''GET'' ''/about'' Open (Page ''About''),
      handle ''GET'' ''/contact'' Open (Page ''Contact''),
      handle ''GET'' ''/terms'' Open (Page ''Terms''),
      handle ''GET'' ''/privacy'' Open (Page ''Privacy''),
      handle ''GET'' ''/404'' Open (Page ''Error404''),
      handle ''GET'' ''/500'' Open (Page ''Error500''),
      handle ''GET'' ''/admin'' Open (Page ''Admin''),
      handle ''GET'' ''/admin/users'' Open (Page ''AdminUsers'')]"

definition api_redirect_routes :: "server_route list" where
  "api_redirect_routes =
     [handle ''GET'' ''/api/'' Open Api_Redirect,
      handle ''PUT'' ''/api/'' Open Api_Redirect,
      handle ''POST'' ''/api/'' Open Api_Redirect,
      handle ''DELETE'' ''/api/'' Open Api_Redirect]"

definition flag_routes :: "server_route list" where
  "flag_routes =
     [handle ''GET'' ''/api/v1/feature-flags'' Open (Flags_Api ''listFlags''),
      handle ''GET'' ''/api/v1/feature-flags/{name}'' Open (Flags_Api ''getFlag''),
      handle ''POST'' ''/api/v1/feature-flags'' Open (Flags_Api ''createFlag''),
      handle ''PUT'' ''/api/v1/feature-flags/{id}'' Open (Flags_Api ''updateFlag''),
      handle ''DELETE'' ''/api/v1/feature-flags/{id}'' Open (Flags_Api ''deleteFlag''),
      handle ''POST'' ''/api/v1/feature-flags/{id}/toggle'' Open (Flags_Api ''toggleFlag''),
      handle ''GET'' ''/api/v1/feature-flags/check/{name}'' Open (Flags_Api ''checkFlag'')]"

definition log_level_routes :: "server_route list" where
  "log_level_routes =
     [handle ''GET'' ''/api/v1/log-level'' Open (Log_Api ''getLevel''),
      handle ''PUT'' ''/api/v1/log-level'' Open (Log_Api ''setLevel'')]"

definition secret_routes :: "server_route list" where
  "secret_routes =
     [handle ''GET'' ''/api/v1/secrets/status'' Open (Secrets_Api ''getStatus''),
      handle ''POST'' ''/api/v1/secrets/reload'' Open (Secrets_Api ''reloadSecrets''),
      handle ''POST'' ''/api/v1/secrets/rotate'' Open (Secrets_Api ''rotateSecret'')]"

definition admin_routes :: "server_route list" where
  "admin_routes =
     [handle ''GET'' ''/admin/dlq'' Open (Admin_Api ''listDLQ''),
      handle ''GET'' ''/admin/dlq/{id}'' Open (Admin_Api ''getDLQJob''),
      handle ''POST'' ''/admin/dlq/{id}/retry'' Open (Admin_Api ''retryDLQJob''),
      handle ''DELETE'' ''/admin/dlq/{id}'' Open (Admin_Api ''deleteDLQJob''),
      handle ''POST'' ''/admin/dlq/retry-all'' Open (Admin_Api ''retryAllDLQ''),
      handle ''GET'' ''/admin/workers'' Open (Admin_Api ''getWorkerStats''),
      handle ''GET'' ''/admin/circuit-breakers'' Open (Admin_Api ''getCircuitBreakers'')]"

definition billing_routes :: "server_route list" where
  "billing_routes =
     [handle ''POST'' ''/checkout/subscribe'' Open (Billing ''Subscribe''),
      handle ''POST'' ''/webhooks/asaas'' Open (Billing ''Webhook'')]"

definition google_routes :: "server_route list" where
  "google_routes =
     [handle ''GET'' ''/auth/google'' Open (OAuth ''GoogleLogin''),
      handle ''GET'' ''/auth/google/callback'' Open (OAuth ''GoogleCallback'')]"

definition probe_routes :: "server_route list" where
  "probe_routes =
     [handle ''GET'' ''/health'' Open (Probe ''Health''),
      handle ''GET'' ''/ready'' Open (Probe ''Ready''),
      handle ''GET'' ''/healthz'' Open (Probe ''Health''),
      handle ''GET'' ''/readyz'' Open (Probe ''Ready'')]"

definition auth_routes :: "server_route list" where
  "auth_routes =
     [handle ''GET'' ''/register'' Open (Auth_Page ''RegisterForm''),
      handle ''POST'' ''/register'' Rate_Limited (Auth_Page ''RegisterSubmit''),
      handle ''GET'' ''/login'' Open (Auth_Page ''LoginForm''),
      handle ''POST'' ''/login'' Rate_Limited (Auth_Page ''LoginSubmit''),
      handle ''POST'' ''/logout'' Open (Auth_Page ''Logout''),
      handle ''GET'' ''/forgot-password'' Open (Auth_Page ''ForgotPasswordForm''),
      handle ''POST'' ''/forgot-password'' Rate_Limited (Auth_Page ''ForgotPasswordSubmit''),
      handle ''GET'' ''/reset-password'' Open (Auth_Page ''ResetPasswordForm''),
      handle ''POST'' ''/reset-password'' Rate_Limited (Auth_Page ''ResetPasswordSubmit''),
      handle ''GET'' ''/verify-email'' Open (Auth_Page ''VerifyEmail'')]"

definition user_routes :: "server_route list" where
  "user_routes =
     [handle ''GET'' ''/dashboard'' Signed_In (User_Page ''Dashboard''),
      handle ''GET'' ''/profile'' Signed_In (User_Page ''Profile''),
      handle ''POST'' ''/profile'' Signed_In (User_Page ''Profile''),
      handle ''GET'' ''/settings'' Signed_In (User_Page ''Settings''),
      handle ''GET'' ''/notifications'' Signed_In (User_Page ''Notifications''),
      handle ''POST'' ''/profile/avatar'' Signed_In (User_Page ''AvatarUpload'')]"

text \<open>What \<open>RegisterRoutes\<close> of the two-factor handler would register; the server never calls it.\<close>

definition two_factor_routes :: "server_route list" where
  "two_factor_routes =
     [handle ''GET'' ''/2fa/setup'' Open (Two_Factor_Page ''SetupPage''),
      handle ''POST'' ''/2fa/setup'' Open (Two_Factor_Page ''Setup2FA''),
      handle ''POST'' ''/2fa/enable'' Open (Two_Factor_Page ''Enable2FA''),
      handle ''POST'' ''/2fa/disable'' Open (Two_Factor_Page ''Disable2FA''),
      handle ''GET'' ''/2fa/backup-codes'' Open (Two_Factor_Page ''RegenerateBackupCodes''),
      handle ''GET'' ''/2fa/status'' Open (Two_Factor_Page ''GetStatus'')]"

text \<open>\<open>secrets\<close> says whether the secrets manager was made, \<open>google\<close> whether the Google client is configured.\<close>

definition server_routes :: "bool \<Rightarrow> bool \<Rightarrow> server_route list" where
  "server_routes secrets google =
     static_routes @ system_routes @ page_routes @ api_redirect_routes @ flag_routes @ log_level_routes @
     (if secrets then secret_routes else []) @ admin_routes @ billing_routes @ (if google then google_routes else []) @
     probe_routes @ auth_routes @ user_routes"

lemmas route_groups = static_routes_def system_routes_def page_routes_def api_redirect_routes_def flag_routes_def
  log_level_routes_def secret_routes_def admin_routes_def billing_routes_def google_routes_def probe_routes_def
  auth_routes_def user_routes_def

section \<open>The handler\<close>

definition api_redirect :: "string \<Rightarrow> string" where
  "api_redirect path = ''/api/v1'' @ drop (length ''/api'') path"

definition guarded :: "(site handler \<Rightarrow> site handler) \<Rightarrow> guard \<Rightarrow> site handler \<Rightarrow> site handler" where
  "guarded limiter g h = (case g of Open \<Rightarrow> h | Rate_Limited \<Rightarrow> limiter h | Signed_In \<Rightarrow> RequireAuth h)"

text \<open>\<open>hs\<close> gives the handler of every endpoint but the redirection, which is a part of the table's file.\<close>

definition server_mux ::
  "(site handler \<Rightarrow> site handler) \<Rightarrow> (endpoint \<Rightarrow> site handler) \<Rightarrow> server_route list \<Rightarrow> site handler" where
  "server_mux limiter hs rs rq cx ws =
     (case mux_answer rs (rq_method rq) (rq_path rq) of
        Serve (g, e) \<Rightarrow>
          if e = Api_Redirect then (False, write_redirect (api_redirect (rq_path rq)) 301 (fst ws), snd ws)
          else guarded limiter g (hs e) rq cx ws
      | MovedTo l \<Rightarrow> (False, write_redirect l 301 (fst ws), snd ws)
      | MethodNotAllowed \<Rightarrow> (False, write_error ''Method Not Allowed'' 405 (fst ws), snd ws)
      | NotFound \<Rightarrow> (False, write_error ''404 page not found'' 404 (fst ws), snd ws))"


section \<open>Registration\<close>

lemma registers_subseq: "subseq xs ys \<Longrightarrow> registers ys \<Longrightarrow> registers xs"
proof (induction rule: list_emb.induct)
  case (list_emb_Cons2 z y xs ys)
  moreover have "x \<in> set ys" if "x \<in> set xs" for x
    using list_emb_set [OF list_emb_Cons2(2) that] by blast
  ultimately show ?case by (auto simp: list_all_iff)
qed simp_all

lemma server_routes_subseq: "subseq (server_routes secrets google) (server_routes True True)"
  unfolding server_routes_def by (intro list_emb_append_mono subseq_order.order_refl) auto

lemma all_routes_register: "registers (server_routes True True @ two_factor_routes)"
  by code_simp

lemma routes_register: "registers (server_routes secrets google @ two_factor_routes)"
  by (rule registers_subseq [OF _ all_routes_register])
    (intro list_emb_append_mono server_routes_subseq subseq_order.order_refl)

lemma server_registers: "registers (server_routes secrets google)"
  by (rule registers_subseq [OF _ routes_register [of secrets google]]) (rule subseq_rev_drop_many, rule subseq_order.order_refl)

lemma server_route_cases:
  "r \<in> set (server_routes secrets google) \<Longrightarrow> r \<in> set (server_routes True True)"
  by (auto simp: server_routes_def split: if_splits)

text \<open>C32: No two routes of the server conflict, so registering them does not panic, with or without the secrets manager and the
  Google client, and with the two-factor handler too; and a request goes to a route of its method that matches its
  path and is more specific than every other such route, whatever the order of registration.\<close>

theorem served_route_is_most_specific:
  "registers (server_routes secrets google @ two_factor_routes) \<and>
   (case find_route (server_routes secrets google) m ss of
      None \<Rightarrow> \<forall>r\<in>set (server_routes secrets google). rt_method r = m \<longrightarrow> \<not> matches (rt_segs r) ss
    | Some r \<Rightarrow> r \<in> set (server_routes secrets google) \<and> matches (rt_segs r) ss \<and>
        (\<forall>r'\<in>set (server_routes secrets google). rt_method r' = m \<longrightarrow> matches (rt_segs r') ss \<longrightarrow>
           r' = r \<or> compare_routes r r' = MoreSpecific))"
proof -
  let ?rs = "server_routes secrets google"
  have none: "find_route ?rs m ss = None \<Longrightarrow> r \<in> set ?rs \<Longrightarrow> rt_method r = m \<Longrightarrow> \<not> matches (rt_segs r) ss" for r
    using tree_match_complete [of ss "method_tree m ?rs"] by (auto simp: find_route_def method_tree_iff split: option.splits if_splits)
  have methods: "rt_method r \<noteq> ''HEAD'' \<and> rt_method r \<noteq> ''''" if "r \<in> set ?rs" for r
  proof -
    have "list_all (\<lambda>r. rt_method r \<noteq> ''HEAD'' \<and> rt_method r \<noteq> '''') (server_routes True True)" by code_simp
    with server_route_cases [OF that] show ?thesis by (auto simp: list_all_iff)
  qed
  have some: "r \<in> set ?rs \<and> matches (rt_segs r) ss \<and>
      (\<forall>r'\<in>set ?rs. rt_method r' = m \<longrightarrow> matches (rt_segs r') ss \<longrightarrow> r' = r \<or> compare_routes r r' = MoreSpecific)"
    if r: "find_route ?rs m ss = Some r" for r
  proof (cases "\<exists>r'\<in>set ?rs. rt_method r' = m \<and> matches (rt_segs r') ss")
    case True
    from find_route_most_specific [OF server_registers r this] show ?thesis by blast
  next
    case False
    have "tree_match ss (method_tree m' ?rs) = Some r \<Longrightarrow> r \<in> set ?rs \<and> matches (rt_segs r) ss" for m'
      by (drule tree_match_first) (auto simp: method_tree_iff)
    with r False show ?thesis by (auto simp: find_route_def split: option.splits if_splits)
  qed
  from routes_register none some show ?thesis by (auto split: option.split)
qed

section \<open>Old API addresses\<close>

text \<open>What the tree of GET holds below \<open>/api\<close>.\<close>

definition api_tree :: "bool \<Rightarrow> bool \<Rightarrow> (segment list \<times> server_route) list" where
  "api_tree secrets google = under (Lit ''api'') (method_tree ''GET'' (server_routes secrets google))"

abbreviation api_route :: server_route where
  "api_route \<equiv> handle ''GET'' ''/api/'' Open Api_Redirect"

definition api_tree_facts :: "bool \<Rightarrow> bool \<Rightarrow> bool" where
  "api_tree_facts secrets google \<longleftrightarrow>
     (let t = api_tree secrets google; v = under (Lit ''v1'') t in
      under (Lit ''v1'') v = [] \<and> under Wild v = [] \<and> ending [Multi] v = None \<and> under Wild t = [] \<and> ending [Multi] t = Some api_route)"

lemma api_tree_facts: "api_tree_facts secrets google"
proof -
  have "api_tree_facts True True" "api_tree_facts True False" "api_tree_facts False True" "api_tree_facts False False" by code_simp+
  then show ?thesis by (cases secrets; cases google) simp_all
qed

lemma tree_match_Nil [simp]: "tree_match ss [] = None"
  by (induction ss) (simp_all add: ending_def)

lemma find_twice_v1: "find_route (server_routes secrets google) ''GET'' (''api'' # ''v1'' # ''v1'' # ss) = Some api_route"
proof -
  have "tree_match (''v1'' # ''v1'' # ss) (api_tree secrets google) = Some api_route"
    using api_tree_facts [of secrets google] by (simp add: api_tree_facts_def Let_def)
  then show ?thesis by (simp add: find_route_def api_tree_def)
qed

text \<open>The address a GET request is sent on to, if any, and following it.\<close>

definition next_location :: "server_route list \<Rightarrow> string \<Rightarrow> string option" where
  "next_location rs path =
     (case mux_answer rs ''GET'' path of
        Serve (g, e) \<Rightarrow> if e = Api_Redirect then Some (api_redirect path) else None
      | MovedTo l \<Rightarrow> Some l
      | _ \<Rightarrow> None)"

primrec follow :: "server_route list \<Rightarrow> nat \<Rightarrow> string \<Rightarrow> string option" where
  "follow rs 0 path = Some path"
| "follow rs (Suc n) path = (case next_location rs path of None \<Rightarrow> None | Some l \<Rightarrow> follow rs n l)"

lemma api_redirect_path: "api_redirect (abs_path (''api'' # ps)) = abs_path (''api'' # ''v1'' # ps)"
  by (simp add: api_redirect_def abs_path_Cons)

lemma path_segs_slash:
  assumes "ps \<noteq> []" and "list_all plain_part ps"
  shows "path_segs (abs_path ps @ ''/'') = ps @ [''/'']"
proof -
  have "split_at slash (p @ ''/'') = split_at slash p @ ['''']" for p
  proof (induction p)
    case (Cons c p)
    then show ?case by (cases "split_at slash p") auto
  qed simp
  then show ?thesis by (simp add: path_segs_def split_abs_path [OF assms])
qed

lemma count_slashes: "length ps \<le> length (filter (\<lambda>c. c = slash) (abs_path ps))"
  by (induction ps) (simp_all add: abs_path_def)

lemma plain_api [simp]: "plain_part ''api''" "plain_part ''v1''"
  by (simp_all add: plain_part_def)

lemma mux_twice_v1:
  assumes "list_all plain_part ps"
  shows "mux_answer (server_routes secrets google) ''GET'' (abs_path (''api'' # ''v1'' # ''v1'' # ps)) = Serve (Open, Api_Redirect)"
proof -
  let ?ps = "''api'' # ''v1'' # ''v1'' # ps"
  have plain: "?ps \<noteq> []" "list_all plain_part ?ps" using assms by simp_all
  have found: "find_route (server_routes secrets google) ''GET'' (path_segs (abs_path ?ps)) = Some api_route"
    "find_route (server_routes secrets google) ''GET'' (path_segs (abs_path ?ps @ ''/'')) = Some api_route"
    using path_segs_abs [OF plain] path_segs_slash [OF plain] find_twice_v1 by simp_all
  have "rt_segs api_route = [Lit ''api'', Multi]"
    by (simp add: handle_def parse_path_def split_at_eval parse_segment_def has_prefix_def del: split_at.simps)
  then have "\<not> exact_match (Some api_route) (abs_path ?ps @ ''/'')"
    using count_slashes [of ?ps] by (simp add: exact_match_def ends_multi_def)
  then show ?thesis
    using last_abs_path [OF plain] clean_abs_path [OF plain] found by (simp add: mux_answer_def Let_def handle_def)
qed

lemma follow_twice_v1:
  "list_all plain_part ps \<Longrightarrow>
     follow (server_routes secrets google) n (abs_path (''api'' # ''v1'' # ''v1'' # ps)) =
       Some (abs_path (''api'' # ''v1'' # ''v1'' # replicate n ''v1'' @ ps))"
proof (induction n arbitrary: ps)
  case (Suc n)
  have "next_location (server_routes secrets google) (abs_path (''api'' # ''v1'' # ''v1'' # ps)) =
      Some (abs_path (''api'' # ''v1'' # ''v1'' # ''v1'' # ps))"
    using Suc.prems by (simp add: next_location_def mux_twice_v1 api_redirect_path)
  moreover have "follow (server_routes secrets google) n (abs_path (''api'' # ''v1'' # ''v1'' # ''v1'' # ps)) =
      Some (abs_path (''api'' # ''v1'' # ''v1'' # replicate n ''v1'' @ ''v1'' # ps))"
    using Suc.IH [of "''v1'' # ps"] Suc.prems by simp
  moreover have "replicate n ''v1'' @ ''v1'' # ps = replicate (Suc n) ''v1'' @ ps"
    by (simp add: replicate_app_Cons_same)
  ultimately show ?case by (simp only: follow.simps option.case)
qed simp

text \<open>C10: A GET for an API address that does not exist is never answered: when neither \<open>/api/x\<close> nor \<open>/api/v1/x\<close> has a route,
  each redirection puts one more \<open>v1\<close> into the address and is redirected again, however often it is followed.\<close>

theorem unknown_api_address_never_settles:
  assumes "list_all plain_part ps"
    and "mux_answer (server_routes secrets google) ''GET'' (abs_path (''api'' # ps)) = Serve (Open, Api_Redirect)"
    and "mux_answer (server_routes secrets google) ''GET'' (abs_path (''api'' # ''v1'' # ps)) = Serve (Open, Api_Redirect)"
  shows "follow (server_routes secrets google) n (abs_path (''api'' # ps)) = Some (abs_path (''api'' # replicate n ''v1'' @ ps))"
proof -
  let ?rs = "server_routes secrets google"
  have 1: "next_location ?rs (abs_path (''api'' # ps)) = Some (abs_path (''api'' # ''v1'' # ps))"
    using assms(2) by (simp add: next_location_def api_redirect_path)
  have 2: "next_location ?rs (abs_path (''api'' # ''v1'' # ps)) = Some (abs_path (''api'' # ''v1'' # ''v1'' # ps))"
    using assms(3) by (simp add: next_location_def api_redirect_path)
  consider "n = 0" | "n = 1" | m where "n = Suc (Suc m)" by (cases n; cases "n - 1") auto
  then show ?thesis
    using 1 2 follow_twice_v1 [OF assms(1)] by cases simp_all
qed

theorem unknown_api_address_never_settles_witness:
  "follow (server_routes True True) 20 ''/api/users'' = Some (abs_path (''api'' # replicate 20 ''v1'' @ [''users'']))"
proof -
  have path: "abs_path [''api'', ''users''] = ''/api/users''" by (simp add: abs_path_def)
  have "mux_answer (server_routes True True) ''GET'' (abs_path [''api'', ''users'']) = Serve (Open, Api_Redirect)"
    "mux_answer (server_routes True True) ''GET'' (abs_path [''api'', ''v1'', ''users'']) = Serve (Open, Api_Redirect)"
    by code_simp+
  moreover have "list_all plain_part [''users'']" by (simp add: plain_part_def)
  ultimately show ?thesis
    using unknown_api_address_never_settles [of "[''users'']" True True 20] unfolding path by blast
qed

section \<open>Who may ask for what\<close>

lemma signed_in_routes: "filter (\<lambda>r. fst (rt_target r) = Signed_In) (server_routes secrets google) = user_routes"
proof -
  have "filter (\<lambda>r. fst (rt_target r) = Signed_In) (server_routes True True) = user_routes"
    "filter (\<lambda>r. fst (rt_target r) = Signed_In) (server_routes True False) = user_routes"
    "filter (\<lambda>r. fst (rt_target r) = Signed_In) (server_routes False True) = user_routes"
    "filter (\<lambda>r. fst (rt_target r) = Signed_In) (server_routes False False) = user_routes" by code_simp+
  then show ?thesis by (cases secrets; cases google) simp_all
qed

text \<open>Requests of the operators: the table's method, path and endpoint.\<close>

definition operator_requests :: "(string \<times> string \<times> endpoint) list" where
  "operator_requests =
     [(''GET'', ''/admin/users'', Page ''AdminUsers''),
      (''GET'', ''/admin/dlq'', Admin_Api ''listDLQ''),
      (''POST'', ''/admin/dlq/retry-all'', Admin_Api ''retryAllDLQ''),
      (''DELETE'', ''/admin/dlq/7'', Admin_Api ''deleteDLQJob''),
      (''POST'', ''/api/v1/feature-flags'', Flags_Api ''createFlag''),
      (''PUT'', ''/api/v1/log-level'', Log_Api ''setLevel''),
      (''POST'', ''/api/v1/secrets/rotate'', Secrets_Api ''rotateSecret'')]"

lemma operator_requests_open:
  "list_all (\<lambda>(m, p, e). mux_answer (server_routes True google) m p = Serve (Open, e)) operator_requests"
proof -
  have "list_all (\<lambda>(m, p, e). mux_answer (server_routes True True) m p = Serve (Open, e)) operator_requests"
    "list_all (\<lambda>(m, p, e). mux_answer (server_routes True False) m p = Serve (Open, e)) operator_requests"
    by code_simp+
  then show ?thesis by (cases google) simp_all
qed



section \<open>Addresses without a route\<close>

lemma clean_url_slash: "\<exists>p. clean_url path = slash # p"
  by (cases path) (auto simp: clean_url_def path_clean_def Let_def)

lemma path_segs_nonempty: "path_segs (slash # p) \<noteq> []"
  by (simp add: path_segs_def Let_def)

lemma landing_in_table: "handle ''GET'' ''/'' Open (Page ''Landing'') \<in> set (server_routes secrets google)"
  by (simp add: server_routes_def page_routes_def)

lemma landing_matches: "ss \<noteq> [] \<Longrightarrow> matches (rt_segs (handle ''GET'' ''/'' Open (Page ''Landing''))) ss"
  by (cases ss) (simp_all add: handle_def parse_path_def)

lemma get_always_found: "ss \<noteq> [] \<Longrightarrow> find_route (server_routes secrets google) ''GET'' ss \<noteq> None"
proof
  assume ss: "ss \<noteq> []" and none: "find_route (server_routes secrets google) ''GET'' ss = None"
  then have "tree_match ss (method_tree ''GET'' (server_routes secrets google)) = None"
    by (auto simp: find_route_def split: option.splits)
  moreover have "rt_method (handle ''GET'' ''/'' Open (Page ''Landing'')) = ''GET''" by (simp add: handle_def)
  then have "(rt_segs (handle ''GET'' ''/'' Open (Page ''Landing'')), handle ''GET'' ''/'' Open (Page ''Landing'')) \<in>
      set (method_tree ''GET'' (server_routes secrets google))"
    using landing_in_table by (simp add: method_tree_iff)
  ultimately have "\<not> matches (rt_segs (handle ''GET'' ''/'' Open (Page ''Landing''))) ss"
    by (rule tree_match_complete)
  with landing_matches [OF ss] show False by blast
qed

text \<open>The server never answers 404 on its own: since \<open>GET /\<close> matches every path, a GET is served or redirected, an unknown
  address with the landing page, and any other method gets at least 405. The 404 page appears at \<open>/404\<close> only.\<close>

theorem server_never_answers_404:
  "mux_answer (server_routes secrets google) m path \<noteq> NotFound \<and>
   mux_answer (server_routes secrets google) ''GET'' path \<noteq> MethodNotAllowed \<and>
   mux_answer (server_routes secrets google) ''GET'' ''/no-such-page'' = Serve (Open, Page ''Landing'')"
proof -
  let ?rs = "server_routes secrets google"
  obtain p where p: "clean_url path = slash # p" using clean_url_slash by blast
  have get: "find_route ?rs ''GET'' (path_segs (clean_url path)) \<noteq> None"
    unfolding p by (rule get_always_found) (rule path_segs_nonempty)
  then have "\<exists>r\<in>set ?rs. find_route ?rs (rt_method r) (path_segs (clean_url path)) \<noteq> None"
    using landing_in_table [of secrets google] by (intro bexI [of _ "handle ''GET'' ''/'' Open (Page ''Landing'')"]) (simp_all add: handle_def)
  then have "mux_answer ?rs m path \<noteq> NotFound" by (simp add: mux_answer_def Let_def split: option.split)
  moreover have "mux_answer ?rs ''GET'' path \<noteq> MethodNotAllowed"
    using get by (auto simp: mux_answer_def Let_def split: option.split)
  moreover have "mux_answer ?rs ''GET'' ''/no-such-page'' = Serve (Open, Page ''Landing'')"
  proof -
    have "mux_answer (server_routes True True) ''GET'' ''/no-such-page'' = Serve (Open, Page ''Landing'')"
      "mux_answer (server_routes True False) ''GET'' ''/no-such-page'' = Serve (Open, Page ''Landing'')"
      "mux_answer (server_routes False True) ''GET'' ''/no-such-page'' = Serve (Open, Page ''Landing'')"
      "mux_answer (server_routes False False) ''GET'' ''/no-such-page'' = Serve (Open, Page ''Landing'')" by code_simp+
    then show ?thesis by (cases secrets; cases google) simp_all
  qed
  ultimately show ?thesis by blast
qed

text \<open>No request reaches the two-factor handler.\<close>

lemma two_factor_unreachable: "mux_answer (server_routes secrets google) m path \<noteq> Serve (g, Two_Factor_Page x)"
proof
  assume "mux_answer (server_routes secrets google) m path = Serve (g, Two_Factor_Page x)"
  then obtain r where r: "find_route (server_routes secrets google) m (path_segs (clean_url path)) = Some r" "rt_target r = (g, Two_Factor_Page x)"
    by (auto simp: mux_answer_def Let_def split: option.splits if_splits)
  have "tree_match ss (method_tree m' (server_routes secrets google)) = Some r \<Longrightarrow> r \<in> set (server_routes secrets google)" for m' ss
    by (drule tree_match_first) (auto simp: method_tree_iff)
  then have "r \<in> set (server_routes True True)"
    using r(1) server_route_cases [of r secrets google] by (auto simp: find_route_def split: option.splits if_splits)
  moreover have "list_all (\<lambda>r. case snd (rt_target r) of Two_Factor_Page _ \<Rightarrow> False | _ \<Rightarrow> True) (server_routes True True)" by code_simp
  ultimately show False using r(2) by (auto simp: list_all_iff)
qed

theorem served_route_is_most_specific_witness:
  "find_route (server_routes True False) ''GET'' [''admin'', ''dlq'', ''7''] = Some (handle ''GET'' ''/admin/dlq/{id}'' Open (Admin_Api ''getDLQJob'')) \<and>
   compare_routes (handle ''GET'' ''/admin/dlq/{id}'' Open (Admin_Api ''getDLQJob'')) (handle ''GET'' ''/'' Open (Page ''Landing'')) = MoreSpecific"
proof -
  let ?l = "handle ''GET'' ''/'' Open (Page ''Landing'')" and ?d = "handle ''GET'' ''/admin/dlq/{id}'' Open (Admin_Api ''getDLQJob'')"
  have found: "find_route (server_routes True False) ''GET'' [''admin'', ''dlq'', ''7''] = Some ?d"
    by code_simp
  have "?l \<in> set (server_routes True False)" "rt_method ?l = ''GET''" "matches (rt_segs ?l) [''admin'', ''dlq'', ''7'']" "?l \<noteq> ?d"
    using landing_in_table by (simp_all add: handle_def parse_path_def)
  with found show ?thesis
    using served_route_is_most_specific [of True False "''GET''" "[''admin'', ''dlq'', ''7'']"] by auto
qed

end
