(* ===== verification/Checkout.thy ===== *)
theory Checkout
  imports Billing Routes
begin

text \<open>
  The HTTP side of the checkout (\<open>Subscribe\<close> and \<open>Webhook\<close> of \<open>internal/features/billing/handler.go\<close>) and the way
  the request's context is asked for the user. The form of the request, the text of a \<open>float64\<close> and the date in the
  server's time zone are parameters.
\<close>

section \<open>Keys of a context\<close>

text \<open>
  \<open>context.Value\<close> compares keys with \<open>==\<close>, which needs the same type and the same text. The middleware stores under the
  constants of \<open>internal/contextkeys\<close> and of the access control, each of a type of its own; the checkout asks for a
  plain string.
\<close>

datatype key_type = Contextkeys | Rbac_Key | Plain_String

datatype ctx_value = Text string | User user | Int64 int | Texts "string list"

definition ctx_entries :: "ctx \<Rightarrow> ((key_type \<times> string) \<times> ctx_value option) list" where
  "ctx_entries cx =
     [((Contextkeys, ''user''), map_option User (cx_user cx)),
      ((Contextkeys, ''tenant_id''), map_option Text (cx_tenant cx)),
      ((Contextkeys, ''locale''), map_option Text (cx_locale cx)),
      ((Contextkeys, ''csrf_token''), map_option Text (cx_csrf cx)),
      ((Contextkeys, ''request_id''), map_option Text (cx_request_id cx)),
      ((Contextkeys, ''csp_nonce''), map_option Text (cx_nonce cx)),
      ((Rbac_Key, ''user_id''), map_option Text (cx_user_id cx)),
      ((Rbac_Key, ''user_roles''), if cx_user_roles cx = [] then None else Some (Texts (cx_user_roles cx)))]"

definition ctx_lookup :: "ctx \<Rightarrow> key_type \<times> string \<Rightarrow> ctx_value option" where
  "ctx_lookup cx k = (case map_of (ctx_entries cx) k of None \<Rightarrow> None | Some v \<Rightarrow> v)"

section \<open>The handlers\<close>

definition payment_json :: "payment_result \<Rightarrow> json" where
  "payment_json p =
     JObj [(''invoiceUrl'', JStr (pr_invoice_url p)), (''paymentId'', JStr (pr_payment_id p)),
           (''pixQrCode'', JStr (pr_pix_qr_code p)), (''pixCopyPaste'', JStr (pr_pix_copy_paste p))]"

text \<open>\<open>uid\<close> is what the context holds for the user; a value that is no \<open>int64\<close> makes the assertion panic. \<open>form\<close> is
  \<open>FormValue\<close>.\<close>

definition subscribe_as ::
  "(string \<Rightarrow> float64 option) \<Rightarrow> (instant \<Rightarrow> string) \<Rightarrow> (create_payment_input \<Rightarrow> string) \<Rightarrow> (string \<Rightarrow> string) \<Rightarrow>
   ctx_value option \<Rightarrow> db \<Rightarrow> response go_result \<times> db" where
  "subscribe_as parse_float local_date marshal form uid s =
     (case uid of
        None \<Rightarrow> (Returns (HandleError (Inl (NewUnauthorizedError ''''))), s)
      | Some v \<Rightarrow>
          if form ''plan_value'' = '''' \<or> form ''billing_type'' = ''''
          then (Returns (HandleError (Inl (NewValidationError ''plan_value and billing_type are required'' []))), s)
          else (case parse_float (form ''plan_value'') of
            None \<Rightarrow> (Returns (HandleError (Inl (NewValidationError ''invalid plan_value'' []))), s)
          | Some amount \<Rightarrow>
              (case v of
                 Int64 i \<Rightarrow>
                   (case GetUserByID i s of
                      (Inl _, s1) \<Rightarrow> (Returns (HandleError (Inl (NewNotFoundError ''user''))), s1)
                    | (Inr u, s1) \<Rightarrow>
                        (case CreatePayment local_date marshal
                                \<lparr>ci_tenant = u_tenant u, ci_user_id = u_id u, ci_email = u_email u, ci_amount = amount,
                                 ci_billing_type = form ''billing_type''\<rparr> s1 of
                           (Inl e, s2) \<Rightarrow> (Returns (HandleError (Inr (dberr_text e))), s2)
                         | (Inr p, s2) \<Rightarrow> (Returns (respondJSON (payment_json p) 200), s2)))
               | _ \<Rightarrow> (Panics, s))))"

definition Subscribe ::
  "(string \<Rightarrow> float64 option) \<Rightarrow> (instant \<Rightarrow> string) \<Rightarrow> (create_payment_input \<Rightarrow> string) \<Rightarrow> (string \<Rightarrow> string) \<Rightarrow>
   ctx \<Rightarrow> db \<Rightarrow> response go_result \<times> db" where
  "Subscribe parse_float local_date marshal form cx =
     subscribe_as parse_float local_date marshal form (ctx_lookup cx (Plain_String, ''user_id''))"

text \<open>\<open>Webhook\<close>, which no route leads to. \<open>body\<close> is \<open>None\<close>, with the text of the error, when reading it fails. The event
  is printed back as it was parsed.\<close>

definition Webhook :: "string + string \<Rightarrow> db \<Rightarrow> response go_result \<times> db" where
  "Webhook body s =
     (case body of
        Inl e \<Rightarrow> (Returns (HandleError (Inr e)), s)
      | Inr payload \<Rightarrow>
          (case HandleWebhook payload s of
             (Panics, s1) \<Rightarrow> (Panics, s1)
           | (Returns None, s1) \<Rightarrow> (Returns (HandleError (Inl (NewValidationError ''invalid webhook'' []))), s1)
           | (Returns (Some event), s1) \<Rightarrow> (Returns (respondJSON (case event of None \<Rightarrow> JNull | Some v \<Rightarrow> v) 200), s1)))"

section \<open>As a route of the server\<close>

definition write_response :: "response \<Rightarrow> writer \<Rightarrow> writer" where
  "write_response r w = write_body (rp_body r) (write_header (rp_status r) (set_header ''Content-Type'' ''application/json'' w))"

definition subscribe_handler ::
  "(string \<Rightarrow> float64 option) \<Rightarrow> (instant \<Rightarrow> string) \<Rightarrow> (create_payment_input \<Rightarrow> string) \<Rightarrow> (request \<Rightarrow> string \<Rightarrow> string) \<Rightarrow>
   site handler" where
  "subscribe_handler parse_float local_date marshal form rq cx ws =
     (case Subscribe parse_float local_date marshal (form rq) cx (si_db (snd ws)) of
        (Panics, s) \<Rightarrow> (True, fst ws, (snd ws)\<lparr>si_db := s\<rparr>)
      | (Returns r, s) \<Rightarrow> (False, write_response r (fst ws), (snd ws)\<lparr>si_db := s\<rparr>))"

section \<open>What the checkout answers\<close>

lemma no_plain_user: "ctx_lookup cx (Plain_String, k) = None"
  by (simp add: ctx_lookup_def ctx_entries_def)

lemma checkout_route: "mux_answer (server_routes secrets google) ''POST'' ''/checkout/subscribe'' = Serve (Open, Billing ''Subscribe'')"
proof -
  have "mux_answer (server_routes True True) ''POST'' ''/checkout/subscribe'' = Serve (Open, Billing ''Subscribe'')"
    "mux_answer (server_routes True False) ''POST'' ''/checkout/subscribe'' = Serve (Open, Billing ''Subscribe'')"
    "mux_answer (server_routes False True) ''POST'' ''/checkout/subscribe'' = Serve (Open, Billing ''Subscribe'')"
    "mux_answer (server_routes False False) ''POST'' ''/checkout/subscribe'' = Serve (Open, Billing ''Subscribe'')" by code_simp+
  then show ?thesis by (cases secrets; cases google) simp_all
qed

text \<open>What \<open>Subscribe\<close> does for a user it knows: the answer is 200 exactly when the form is complete, the amount a number, the
  user there and the payment stored.\<close>

lemma subscribe_as_ok:
  "fst (subscribe_as parse_float local_date marshal form (Some (Int64 i)) s) = Returns r \<Longrightarrow> rp_status r = 200 \<Longrightarrow>
     \<exists>amount u s1 p s2. parse_float (form ''plan_value'') = Some amount \<and> GetUserByID i s = (Inr u, s1) \<and>
       CreatePayment local_date marshal
         \<lparr>ci_tenant = u_tenant u, ci_user_id = u_id u, ci_email = u_email u, ci_amount = amount, ci_billing_type = form ''billing_type''\<rparr> s1 = (Inr p, s2) \<and>
       r = respondJSON (payment_json p) 200 \<and> snd (subscribe_as parse_float local_date marshal form (Some (Int64 i)) s) = s2"
  by (auto simp: subscribe_as_def split: if_splits option.splits prod.splits sum.splits)


text \<open>A signed-in user with a complete form.\<close>

definition checkout_request :: request where
  "checkout_request = \<lparr>rq_method = ''POST'', rq_path = ''/checkout/subscribe'', rq_host = '''', rq_remote = '''',
     rq_header = (\<lambda>_. ''''), rq_cookie = (\<lambda>_. None), rq_body = ''''\<rparr>"

definition checkout_form :: "request \<Rightarrow> string \<Rightarrow> string" where
  "checkout_form rq = (\<lambda>_. '''')(''plan_value'' := ''10'', ''billing_type'' := ''PIX'')"

definition checkout_site :: site where
  "checkout_site = \<lparr>si_db = checkout_db, si_user_id = 7\<rparr>"


end
