(* ===== verification/User_Cache.thy ===== *)
theory User_Cache
  imports Middleware
begin

text \<open>
  The cache of users (\<open>internal/platform/cache/user.go\<close>) behind the login check with a cache. The LRU list is a library: a
  record of its operations, with what its documentation promises. A call holds the lock for each of its parts; the two
  parts of a \<open>Get\<close> that finds an expired entry are taken together.
\<close>

section \<open>The library\<close>

record cache_item =
  ci_User :: user
  ci_ExpiresAt :: instant

record 'c lru =
  lru_Get :: "int \<Rightarrow> 'c \<Rightarrow> cache_item option \<times> 'c"
  lru_Contains :: "int \<Rightarrow> 'c \<Rightarrow> bool"
  lru_Add :: "int \<Rightarrow> cache_item \<Rightarrow> 'c \<Rightarrow> 'c"
  lru_Remove :: "int \<Rightarrow> 'c \<Rightarrow> 'c"
  lru_Purge :: "'c \<Rightarrow> 'c"
  lru_Len :: "'c \<Rightarrow> int"
  lru_New :: "int \<Rightarrow> 'c option"

text \<open>
  \<open>view\<close> is the content of the list. Reading a key changes the order only, adding one may drop others, and a list of a
  positive size can be made and is empty.
\<close>

definition lru_ok :: "'c lru \<Rightarrow> ('c \<Rightarrow> int \<Rightarrow> cache_item option) \<Rightarrow> bool" where
  "lru_ok lib view \<longleftrightarrow>
     (\<forall>k c. fst (lru_Get lib k c) = view c k \<and> view (snd (lru_Get lib k c)) = view c) \<and>
     (\<forall>k c. lru_Contains lib k c = (view c k \<noteq> None)) \<and>
     (\<forall>k x c. view (lru_Add lib k x c) k = Some x \<and> (\<forall>j. j \<noteq> k \<longrightarrow> view (lru_Add lib k x c) j \<in> {None, view c j})) \<and>
     (\<forall>k c. view (lru_Remove lib k c) = (view c)(k := None)) \<and>
     (\<forall>c. view (lru_Purge lib c) = Map.empty) \<and>
     (\<forall>n c. lru_New lib n = Some c \<longrightarrow> view c = Map.empty)"

lemma lru_laws:
  assumes "lru_ok lib view"
  shows "fst (lru_Get lib k c) = view c k" "view (snd (lru_Get lib k c)) = view c"
    "lru_Contains lib k c = (view c k \<noteq> None)" "view (lru_Add lib k x c) k = Some x"
    "view (lru_Remove lib k c) = (view c)(k := None)" "view (lru_Purge lib c) = Map.empty"
    "lru_New lib n = Some c \<Longrightarrow> view c = Map.empty"
  using assms unfolding lru_ok_def by blast+

lemma lru_Add_other: "lru_ok lib view \<Longrightarrow> j \<noteq> k \<Longrightarrow> view (lru_Add lib k x c) j = Some y \<Longrightarrow> view c j = Some y"
  unfolding lru_ok_def by (metis insert_iff option.distinct(1) singletonD)

section \<open>The cache\<close>

record 'c user_cache =
  uc_cache :: 'c
  uc_ttl :: int
  uc_hits :: int
  uc_misses :: int
  uc_evicts :: int

definition DefaultUserCacheConfig :: "int \<times> int" where
  "DefaultUserCacheConfig = (1000, 15 * minute)"

definition NewUserCache :: "'c lru \<Rightarrow> int \<times> int \<Rightarrow> 'c user_cache option" where
  "NewUserCache lib cfg =
     (case lru_New lib (fst cfg) of
        None \<Rightarrow> None
      | Some c \<Rightarrow> Some \<lparr>uc_cache = c, uc_ttl = snd cfg, uc_hits = 0, uc_misses = 0, uc_evicts = 0\<rparr>)"

definition IsExpired :: "instant \<Rightarrow> cache_item \<Rightarrow> bool" where
  "IsExpired now x \<longleftrightarrow> ci_ExpiresAt x < now"

definition uc_Get :: "'c lru \<Rightarrow> instant \<Rightarrow> int \<Rightarrow> 'c user_cache \<Rightarrow> user option \<times> 'c user_cache" where
  "uc_Get lib now i c =
     (case lru_Get lib i (uc_cache c) of
        (None, l) \<Rightarrow> (None, c\<lparr>uc_cache := l, uc_misses := uc_misses c + 1\<rparr>)
      | (Some x, l) \<Rightarrow>
          if IsExpired now x then (None, c\<lparr>uc_cache := lru_Remove lib i l, uc_misses := uc_misses c + 1\<rparr>)
          else (Some (ci_User x), c\<lparr>uc_cache := l, uc_hits := uc_hits c + 1\<rparr>))"

definition uc_Set :: "'c lru \<Rightarrow> instant \<Rightarrow> int \<Rightarrow> user \<Rightarrow> 'c user_cache \<Rightarrow> 'c user_cache" where
  "uc_Set lib now i u c =
     (let l = (if lru_Contains lib i (uc_cache c) then lru_Remove lib i (uc_cache c) else uc_cache c)
      in c\<lparr>uc_cache := lru_Add lib i \<lparr>ci_User = u, ci_ExpiresAt = now + uc_ttl c\<rparr> l\<rparr>)"

definition uc_Delete :: "'c lru \<Rightarrow> int \<Rightarrow> 'c user_cache \<Rightarrow> 'c user_cache" where
  "uc_Delete lib i c = c\<lparr>uc_cache := lru_Remove lib i (uc_cache c)\<rparr>"

definition uc_Clear :: "'c lru \<Rightarrow> 'c user_cache \<Rightarrow> 'c user_cache" where
  "uc_Clear lib c = c\<lparr>uc_cache := lru_Purge lib (uc_cache c)\<rparr>"

definition uc_Len :: "'c lru \<Rightarrow> 'c user_cache \<Rightarrow> int" where
  "uc_Len lib c = lru_Len lib (uc_cache c)"

text \<open>The numbers \<open>Stats\<close> reports: items, hits, misses, evictions, the hit rate in percent and the lifetime in seconds.\<close>

definition uc_Stats :: "'c lru \<Rightarrow> 'c user_cache \<Rightarrow> int \<times> int \<times> int \<times> int \<times> rat \<times> rat" where
  "uc_Stats lib c =
     (uc_Len lib c, uc_hits c, uc_misses c, uc_evicts c,
      (let n = uc_hits c + uc_misses c in if 0 < n then Fract (uc_hits c) n * 100 else 0), Fract (uc_ttl c) second)"

text \<open>The loader works on a state of its own.\<close>

definition GetOrLoad ::
  "'c lru \<Rightarrow> instant \<Rightarrow> int \<Rightarrow> (int \<Rightarrow> 's \<Rightarrow> (dberr + user) \<times> 's) \<Rightarrow> 'c user_cache \<times> 's \<Rightarrow> (dberr + user) \<times> 'c user_cache \<times> 's" where
  "GetOrLoad lib now i loader cs =
     (case uc_Get lib now i (fst cs) of
        (Some u, c1) \<Rightarrow> (Inr u, c1, snd cs)
      | (None, c1) \<Rightarrow>
          (case loader i (snd cs) of
             (Inl e, s1) \<Rightarrow> (Inl e, c1, s1)
           | (Inr u, s1) \<Rightarrow> (Inr u, uc_Set lib now i u c1, s1)))"

text \<open>The server's state with a cache, and what \<open>RequireAuthWithCache\<close> does with one.\<close>

record 'c cached_site = site +
  si_cache :: "'c user_cache"

definition cached_load :: "'c lru \<Rightarrow> int \<Rightarrow> 'c cached_site \<Rightarrow> (dberr + user) \<times> 'c cached_site" where
  "cached_load lib i s =
     (case GetOrLoad lib (clock (si_db s)) i GetUserByID (si_cache s, si_db s) of
        (r, c, d) \<Rightarrow> (r, s\<lparr>si_db := d, si_cache := c\<rparr>))"

section \<open>Where the user of a page comes from\<close>

text \<open>
  What the login check relies on, whether it asks the database or a cache: the user it is given has the id of the session,
  and the session is left alone.
\<close>

locale user_source =
  fixes load :: "int \<Rightarrow> 'a site_scheme \<Rightarrow> (dberr + user) \<times> 'a site_scheme"
    and good :: "'a site_scheme \<Rightarrow> bool"
  assumes load_good: "good s \<Longrightarrow> good (snd (load i s))"
    and load_id: "good s \<Longrightarrow> fst (load i s) = Inr u \<Longrightarrow> u_id u = i"
    and load_session: "si_user_id (snd (load i s)) = si_user_id s"
begin

text \<open>A protected page runs with the user of the session, or not at all.\<close>

lemma page_of_session_user:
  assumes "good s"
  shows "(\<exists>s1. RequireAuthWithCache load h rq cx (w, s) = (False, redirectLogin rq w, s1)) \<or>
    (\<exists>u s1. RequireAuthWithCache load h rq cx (w, s) = h rq (cx\<lparr>cx_user := Some u\<rparr>) (w, s1) \<and>
       u_id u = si_user_id s \<and> si_user_id s1 = si_user_id s \<and> good s1)"
proof -
  obtain r s1 where l: "load (si_user_id s) s = (r, s1)" by force
  have "good s1" "si_user_id s1 = si_user_id s" "\<And>u. r = Inr u \<Longrightarrow> u_id u = si_user_id s"
    using load_good [OF assms, of "si_user_id s"] load_session [of "si_user_id s" s] load_id [OF assms, of "si_user_id s"] l by simp_all
  with l show ?thesis by (cases r) (auto simp: RequireAuthWithCache_def)
qed

end

lemma GetUserByID_id: "fst (GetUserByID i d) = Inr u \<Longrightarrow> u_id u = i"
  by (auto simp: GetUserByID_def run_def split: list.splits option.splits dest: find_Some_in)

interpretation direct: user_source load_user "\<lambda>_. True"
proof
  show "fst (load_user i s) = Inr u \<Longrightarrow> u_id u = i" for i s u
    using GetUserByID_id [of i "si_db s" u] by (auto simp: load_user_def split: prod.splits)
qed (auto simp: load_user_def split: prod.splits)

section \<open>What a cache holds\<close>

text \<open>Each item is a user that was read for its id, at the latest now, and expires when the lifetime is over.\<close>

definition cache_holds ::
  "('c \<Rightarrow> int \<Rightarrow> cache_item option) \<Rightarrow> int \<Rightarrow> instant \<Rightarrow> (instant \<times> user) set \<Rightarrow> 'c user_cache \<Rightarrow> bool" where
  "cache_holds view ttl now seen c \<longleftrightarrow>
     uc_ttl c = ttl \<and>
     (\<forall>i x. view (uc_cache c) i = Some x \<longrightarrow>
        u_id (ci_User x) = i \<and> (ci_ExpiresAt x - ttl, ci_User x) \<in> seen \<and> ci_ExpiresAt x - ttl \<le> now)"

lemma cache_holdsD:
  "cache_holds view ttl now seen c \<Longrightarrow> view (uc_cache c) i = Some x \<Longrightarrow>
     u_id (ci_User x) = i \<and> (ci_ExpiresAt x - ttl, ci_User x) \<in> seen \<and> ci_ExpiresAt x - ttl \<le> now"
  by (simp add: cache_holds_def)

lemma cache_holds_smaller:
  "cache_holds view ttl now seen c \<Longrightarrow> uc_ttl c' = uc_ttl c \<Longrightarrow>
     (\<And>i x. view (uc_cache c') i = Some x \<Longrightarrow> view (uc_cache c) i = Some x) \<Longrightarrow> cache_holds view ttl now seen c'"
  unfolding cache_holds_def by metis

lemma cache_holds_mono: "cache_holds view ttl now seen c \<Longrightarrow> now \<le> now' \<Longrightarrow> seen \<subseteq> seen' \<Longrightarrow> cache_holds view ttl now' seen' c"
  unfolding cache_holds_def by (blast intro: order_trans)

lemma Get_cases:
  assumes "lru_ok lib view"
  obtains (absent) l where "view (uc_cache c) i = None" "view l = view (uc_cache c)"
      "uc_Get lib now i c = (None, c\<lparr>uc_cache := l, uc_misses := uc_misses c + 1\<rparr>)"
    | (expired) x l where "view (uc_cache c) i = Some x" "ci_ExpiresAt x < now" "view l = (view (uc_cache c))(i := None)"
      "uc_Get lib now i c = (None, c\<lparr>uc_cache := l, uc_misses := uc_misses c + 1\<rparr>)"
    | (hit) x l where "view (uc_cache c) i = Some x" "now \<le> ci_ExpiresAt x" "view l = view (uc_cache c)"
      "uc_Get lib now i c = (Some (ci_User x), c\<lparr>uc_cache := l, uc_hits := uc_hits c + 1\<rparr>)"
proof -
  obtain r l where g: "lru_Get lib i (uc_cache c) = (r, l)" by force
  then have r: "r = view (uc_cache c) i" "view l = view (uc_cache c)"
    using lru_laws(1,2) [OF assms, of i "uc_cache c"] by simp_all
  show thesis
  proof (cases r)
    case None
    with r have "view (uc_cache c) i = None" by simp
    with g r(2) None show thesis by (intro absent [of l]) (simp_all add: uc_Get_def)
  next
    case (Some x)
    then have v: "view (uc_cache c) i = Some x" using r by simp
    show thesis
    proof (cases "ci_ExpiresAt x < now")
      case True
      with g r(2) v Some show thesis
        by (intro expired [of x "lru_Remove lib i l"]) (simp_all add: uc_Get_def IsExpired_def lru_laws(5) [OF assms])
    next
      case False
      with g r(2) v Some show thesis by (intro hit [of x l]) (simp_all add: uc_Get_def IsExpired_def)
    qed
  qed
qed

lemma Get_holds:
  assumes "lru_ok lib view" and "cache_holds view ttl now seen c"
  shows "cache_holds view ttl now seen (snd (uc_Get lib t i c))"
  by (cases rule: Get_cases [OF assms(1), of c i t])
    (auto intro!: cache_holds_smaller [OF assms(2)] split: if_splits)

lemma Set_holds:
  assumes ok: "lru_ok lib view" and "cache_holds view ttl now seen c" and "u_id u = i" and "(now, u) \<in> seen"
  shows "cache_holds view ttl now seen (uc_Set lib now i u c)"
proof -
  let ?x = "\<lparr>ci_User = u, ci_ExpiresAt = now + uc_ttl c\<rparr>"
  define l where "l = (if lru_Contains lib i (uc_cache c) then lru_Remove lib i (uc_cache c) else uc_cache c)"
  have set: "uc_Set lib now i u c = c\<lparr>uc_cache := lru_Add lib i ?x l\<rparr>" by (simp add: uc_Set_def l_def)
  have ttl: "uc_ttl c = ttl" using assms(2) by (simp add: cache_holds_def)
  have old: "view l j = Some y \<Longrightarrow> view (uc_cache c) j = Some y" for j y
    by (auto simp: l_def lru_laws(5) [OF ok] split: if_splits)
  have "u_id (ci_User y) = j \<and> (ci_ExpiresAt y - ttl, ci_User y) \<in> seen \<and> ci_ExpiresAt y - ttl \<le> now"
    if y: "view (lru_Add lib i ?x l) j = Some y" for j y
  proof (cases "j = i")
    case True
    with y lru_laws(4) [OF ok, of i ?x l] have "y = ?x" by simp
    with assms(3,4) True ttl show ?thesis by simp
  next
    case False
    from cache_holdsD [OF assms(2) old [OF lru_Add_other [OF ok False y]]] show ?thesis .
  qed
  with ttl show ?thesis unfolding set by (simp add: cache_holds_def)
qed

text \<open>The rows a call reads from the table, with the time.\<close>

definition read_rows :: "'c lru \<Rightarrow> int \<Rightarrow> 'c cached_site \<Rightarrow> (instant \<times> user) set" where
  "read_rows lib i s =
     (if fst (uc_Get lib (clock (si_db s)) i (si_cache s)) = None
      then {(clock (si_db s), u) | u. fst (GetUserByID i (si_db s)) = Inr u} else {})"

lemma cached_load_cases:
  assumes "uc_Get lib (clock (si_db s)) i (si_cache s) = (g, c1)"
  shows "cached_load lib i s =
    (case g of
       Some u \<Rightarrow> (Inr u, s\<lparr>si_cache := c1\<rparr>)
     | None \<Rightarrow>
         (case GetUserByID i (si_db s) of
            (Inl e, d) \<Rightarrow> (Inl e, s\<lparr>si_db := d, si_cache := c1\<rparr>)
          | (Inr u, d) \<Rightarrow> (Inr u, s\<lparr>si_db := d, si_cache := uc_Set lib (clock (si_db s)) i u c1\<rparr>)))"
  by (auto simp: cached_load_def GetOrLoad_def assms split: option.split prod.split sum.split)

lemma clock_GetUserByID: "clock (snd (GetUserByID i d)) = clock d"
  unfolding GetUserByID_def by (rule clock_run) simp

lemma cached_load_holds:
  assumes ok: "lru_ok lib view" and "cache_holds view ttl (clock (si_db s)) seen (si_cache s)"
  shows "cache_holds view ttl (clock (si_db (snd (cached_load lib i s)))) (seen \<union> read_rows lib i s) (si_cache (snd (cached_load lib i s)))"
proof -
  obtain g c1 where g: "uc_Get lib (clock (si_db s)) i (si_cache s) = (g, c1)" by force
  have c1: "cache_holds view ttl (clock (si_db s)) (seen \<union> read_rows lib i s) c1"
    using cache_holds_mono [OF Get_holds [OF assms, of "clock (si_db s)" i], of "clock (si_db s)" "seen \<union> read_rows lib i s"] g by simp
  obtain r d where r: "GetUserByID i (si_db s) = (r, d)" by force
  have d: "clock d = clock (si_db s)" using clock_GetUserByID [of i "si_db s"] r by simp
  show ?thesis
  proof (cases g)
    case (Some u)
    with c1 show ?thesis by (simp add: cached_load_cases [OF g])
  next
    case None
    show ?thesis
    proof (cases r)
      case (Inl e)
      with None c1 r d show ?thesis by (simp add: cached_load_cases [OF g])
    next
      case (Inr u)
      have i: "u_id u = i" using GetUserByID_id [of i "si_db s" u] r Inr by simp
      have "(clock (si_db s), u) \<in> seen \<union> read_rows lib i s" using g None r Inr by (simp add: read_rows_def)
      from Set_holds [OF ok c1 i this] None r Inr d show ?thesis by (simp add: cached_load_cases [OF g])
    qed
  qed
qed

lemma cached_load_result:
  assumes ok: "lru_ok lib view" and holds: "cache_holds view ttl (clock (si_db s)) seen (si_cache s)"
    and u: "fst (cached_load lib i s) = Inr u"
  shows "u_id u = i \<and> (\<exists>t. (t, u) \<in> seen \<union> read_rows lib i s \<and> clock (si_db s) \<le> t + max 0 ttl \<and> t \<le> clock (si_db s))"
proof -
  have missed: ?thesis if g: "uc_Get lib (clock (si_db s)) i (si_cache s) = (None, c1)" for c1
  proof -
    from u have "fst (GetUserByID i (si_db s)) = Inr u"
      by (simp add: cached_load_cases [OF g] split: prod.splits sum.splits)
    with g GetUserByID_id show ?thesis by (intro conjI exI [of _ "clock (si_db s)"]) (auto simp: read_rows_def)
  qed
  show ?thesis
  proof (rule Get_cases [OF ok, of "si_cache s" i "clock (si_db s)"])
    fix x l
    assume hit: "view (uc_cache (si_cache s)) i = Some x" "clock (si_db s) \<le> ci_ExpiresAt x"
      "uc_Get lib (clock (si_db s)) i (si_cache s) = (Some (ci_User x), (si_cache s)\<lparr>uc_cache := l, uc_hits := uc_hits (si_cache s) + 1\<rparr>)"
    with u have "u = ci_User x" by (simp add: cached_load_cases [OF hit(3)])
    with cache_holdsD [OF holds hit(1)] hit(2) show ?thesis
      by (intro conjI exI [of _ "ci_ExpiresAt x - ttl"]) auto
  qed (rule missed, assumption)+
qed

definition cached_good :: "'c lru \<Rightarrow> ('c \<Rightarrow> int \<Rightarrow> cache_item option) \<Rightarrow> 'c cached_site \<Rightarrow> bool" where
  "cached_good lib view s \<longleftrightarrow>
     lru_ok lib view \<and> (\<exists>seen. cache_holds view (uc_ttl (si_cache s)) (clock (si_db s)) seen (si_cache s))"

lemma cached_load_good: "cached_good lib view s \<Longrightarrow> cached_good lib view (snd (cached_load lib i s))"
proof -
  assume "cached_good lib view s"
  then obtain seen where ok: "lru_ok lib view" and h: "cache_holds view (uc_ttl (si_cache s)) (clock (si_db s)) seen (si_cache s)"
    by (auto simp: cached_good_def)
  from cached_load_holds [OF this, of i] have "cache_holds view (uc_ttl (si_cache (snd (cached_load lib i s))))
      (clock (si_db (snd (cached_load lib i s)))) (seen \<union> read_rows lib i s) (si_cache (snd (cached_load lib i s)))"
    by (simp add: cache_holds_def)
  with ok show ?thesis unfolding cached_good_def by blast
qed

interpretation cached: user_source "cached_load lib" "cached_good lib view" for lib view
proof
  show "cached_good lib view s \<Longrightarrow> cached_good lib view (snd (cached_load lib i s))" for i s
    by (rule cached_load_good)
  show "cached_good lib view s \<Longrightarrow> fst (cached_load lib i s) = Inr u \<Longrightarrow> u_id u = i" for i s u
    unfolding cached_good_def by (elim conjE exE) (drule (2) cached_load_result, simp)
  show "si_user_id (snd (cached_load lib i s)) = si_user_id s" for i s
    by (auto simp: cached_load_def split: prod.splits)
qed

section \<open>Runs\<close>

text \<open>
  The server with a cache: it starts empty, the database changes while time goes on, and pages load users, drop one or drop
  all. The second component collects what was read from the table.
\<close>

inductive cache_reach :: "'c lru \<Rightarrow> int \<times> int \<Rightarrow> 'c cached_site \<Rightarrow> (instant \<times> user) set \<Rightarrow> bool" for lib cfg where
  reach_start: "NewUserCache lib cfg = Some c \<Longrightarrow> cache_reach lib cfg \<lparr>si_db = d, si_user_id = i, si_cache = c\<rparr> {}"
| reach_database: "cache_reach lib cfg s seen \<Longrightarrow> clock (si_db s) \<le> clock d \<Longrightarrow> cache_reach lib cfg (s\<lparr>si_db := d, si_user_id := i\<rparr>) seen"
| reach_load: "cache_reach lib cfg s seen \<Longrightarrow> cache_reach lib cfg (snd (cached_load lib i s)) (seen \<union> read_rows lib i s)"
| reach_delete: "cache_reach lib cfg s seen \<Longrightarrow> cache_reach lib cfg (s\<lparr>si_cache := uc_Delete lib i (si_cache s)\<rparr>) seen"
| reach_clear: "cache_reach lib cfg s seen \<Longrightarrow> cache_reach lib cfg (s\<lparr>si_cache := uc_Clear lib (si_cache s)\<rparr>) seen"

lemma reach_holds:
  assumes ok: "lru_ok lib view"
  shows "cache_reach lib cfg s seen \<Longrightarrow> cache_holds view (snd cfg) (clock (si_db s)) seen (si_cache s)"
proof (induction rule: cache_reach.induct)
  case (reach_start c d i)
  then show ?case by (auto simp: NewUserCache_def cache_holds_def lru_laws(7) [OF ok] split: option.splits)
next
  case (reach_database s seen d i)
  then show ?case by (auto intro: cache_holds_mono)
next
  case (reach_load s seen i)
  then show ?case by (intro cached_load_holds [OF ok])
next
  case (reach_delete s seen i)
  then show ?case by (auto intro!: cache_holds_smaller [OF reach_delete.IH] simp: uc_Delete_def lru_laws(5) [OF ok] split: if_splits)
next
  case (reach_clear s seen)
  then show ?case by (auto intro!: cache_holds_smaller [OF reach_clear.IH] simp: uc_Clear_def lru_laws(6) [OF ok])
qed

text \<open>A page behind the login check with a cache runs, if it runs at all, for a user with the id of the session whose row was
  read from the table at most one lifetime ago, whatever happened to the table since: a deleted or demoted user is served
  the old row until then, and never longer.\<close>

theorem cached_user_is_recent:
  assumes "lru_ok lib view" and "cache_reach lib cfg s seen" and "0 \<le> snd cfg"
    and "RequireAuthWithCache (cached_load lib) h rq cx (w, s) \<noteq> (False, redirectLogin rq w, (snd (cached_load lib (si_user_id s) s))\<lparr>si_user_id := 0\<rparr>)"
    and "si_user_id s \<noteq> 0"
  shows "\<exists>u t s1. RequireAuthWithCache (cached_load lib) h rq cx (w, s) = h rq (cx\<lparr>cx_user := Some u\<rparr>) (w, s1) \<and>
    cache_reach lib cfg s1 (seen \<union> read_rows lib (si_user_id s) s) \<and> si_user_id s1 = si_user_id s \<and> u_id u = si_user_id s \<and>
    (t, u) \<in> seen \<union> read_rows lib (si_user_id s) s \<and> clock (si_db s) - snd cfg \<le> t \<and> t \<le> clock (si_db s)"
proof -
  let ?i = "si_user_id s"
  obtain r s1 where l: "cached_load lib ?i s = (r, s1)" by force
  with assms(4,5) obtain u where r: "r = Inr u" by (cases r) (auto simp: RequireAuthWithCache_def)
  note holds = reach_holds [OF assms(1,2)]
  have "fst (cached_load lib ?i s) = Inr u" using l r by simp
  from cached_load_result [OF assms(1) holds this] obtain t where
    t: "u_id u = ?i" "(t, u) \<in> seen \<union> read_rows lib ?i s" "clock (si_db s) \<le> t + max 0 (snd cfg)" "t \<le> clock (si_db s)" by blast
  from t(3) assms(3) have "clock (si_db s) - snd cfg \<le> t" by simp
  moreover note t(1,2,4)
  moreover have "RequireAuthWithCache (cached_load lib) h rq cx (w, s) = h rq (cx\<lparr>cx_user := Some u\<rparr>) (w, s1)"
    using l r assms(5) by (simp add: RequireAuthWithCache_def)
  moreover have "cache_reach lib cfg s1 (seen \<union> read_rows lib ?i s)" using reach_load [OF assms(2), of ?i] l by simp
  moreover have "si_user_id s1 = ?i" using cached.load_session [of lib ?i s] l by simp
  ultimately show ?thesis by blast
qed

text \<open>The counters: every \<open>Get\<close> is a hit or a miss, and no eviction is ever counted.\<close>

lemma Get_counts: "uc_hits (snd (uc_Get lib now i c)) + uc_misses (snd (uc_Get lib now i c)) = uc_hits c + uc_misses c + 1"
  by (simp add: uc_Get_def split: prod.splits option.split)

lemma no_eviction_counted: "cache_reach lib cfg s seen \<Longrightarrow> uc_evicts (si_cache s) = 0"
proof (induction rule: cache_reach.induct)
  case (reach_load s seen i)
  have "uc_Get lib now i c = (g, c') \<Longrightarrow> uc_evicts c' = uc_evicts c" "uc_evicts (uc_Set lib now i u c) = uc_evicts c" for now c u g c'
    by (auto simp: uc_Get_def uc_Set_def Let_def split: prod.splits option.splits if_splits)
  with reach_load.IH show ?case by (auto simp: cached_load_def GetOrLoad_def split: prod.splits option.splits sum.splits)
qed (auto simp: NewUserCache_def uc_Delete_def uc_Clear_def split: option.splits)

text \<open>A list of a bounded length, the last used item first, is such a library.\<close>

definition list_lru :: "(nat \<times> (int \<times> cache_item) list) lru" where
  "list_lru =
     \<lparr>lru_Get = (\<lambda>k (n, xs). case map_of xs k of None \<Rightarrow> (None, (n, xs)) | Some x \<Rightarrow> (Some x, (n, (k, x) # filter (\<lambda>p. fst p \<noteq> k) xs))),
      lru_Contains = (\<lambda>k (n, xs). map_of xs k \<noteq> None),
      lru_Add = (\<lambda>k x (n, xs). (n, take (Suc n) ((k, x) # filter (\<lambda>p. fst p \<noteq> k) xs))),
      lru_Remove = (\<lambda>k (n, xs). (n, filter (\<lambda>p. fst p \<noteq> k) xs)),
      lru_Purge = (\<lambda>(n, xs). (n, [])),
      lru_Len = (\<lambda>(n, xs). int (length xs)),
      lru_New = (\<lambda>n. if 0 < n then Some (nat n - 1, []) else None)\<rparr>"

lemma map_of_filter_other: "map_of (filter (\<lambda>p. fst p \<noteq> k) xs) = (map_of xs)(k := None)"
  by (induction xs) auto

lemma map_of_take: "map_of (take n xs) k = Some y \<Longrightarrow> map_of xs k = Some y"
  by (metis append_take_drop_id map_add_find_right map_of_append)

lemma list_lru_Add:
  "lru_Add list_lru k x (n, xs) = (n, (k, x) # take n (filter (\<lambda>p. fst p \<noteq> k) xs))"
  by (simp add: list_lru_def)

lemma list_lru_ok: "lru_ok list_lru (\<lambda>(n, xs). map_of xs)"
proof -
  have "map_of (take n (filter (\<lambda>p. fst p \<noteq> k) xs)) j \<in> {None, map_of xs j}" for n k xs and j :: int
  proof (cases "map_of (take n (filter (\<lambda>p. fst p \<noteq> k) xs)) j")
    case (Some y)
    from map_of_take [OF this] Some show ?thesis by (simp add: map_of_filter_other split: if_splits)
  qed simp
  then show ?thesis unfolding lru_ok_def
    by (auto simp: list_lru_Add) (auto simp: list_lru_def map_of_filter_other fun_eq_iff split: option.splits if_splits)
qed

definition cached_row :: user where
  "cached_row =
     \<lparr>u_id = 7, u_tenant = ''default'', u_email = ''a@b.c'', u_password_hash = '''', u_role_id = ''admin'', u_is_verified = True,
      u_avatar_url = None, u_created_at = None, u_provider = None, u_provider_id = None\<rparr>"

text \<open>The user's row is loaded at 50 and gone at 60.\<close>

definition site_before_delete :: "(nat \<times> (int \<times> cache_item) list) cached_site" where
  "site_before_delete =
     \<lparr>si_db = (migrated_db 50)\<lparr>t_users := [cached_row]\<rparr>, si_user_id = 7,
      si_cache = \<lparr>uc_cache = (999, []), uc_ttl = 15 * minute, uc_hits = 0, uc_misses = 0, uc_evicts = 0\<rparr>\<rparr>"

definition site_after_delete :: "(nat \<times> (int \<times> cache_item) list) cached_site" where
  "site_after_delete = (snd (cached_load list_lru 7 site_before_delete))\<lparr>si_db := migrated_db 60, si_user_id := 7\<rparr>"

lemma site_before_delete_reached: "cache_reach list_lru DefaultUserCacheConfig site_before_delete {}"
  unfolding site_before_delete_def
  by (rule reach_start) (simp add: NewUserCache_def DefaultUserCacheConfig_def list_lru_def)

lemma load_before_delete:
  "cached_load list_lru 7 site_before_delete =
     (Inr cached_row, site_before_delete\<lparr>si_cache := \<lparr>uc_cache = (999, [(7, \<lparr>ci_User = cached_row, ci_ExpiresAt = 50 + 15 * minute\<rparr>)]),
        uc_ttl = 15 * minute, uc_hits = 0, uc_misses = 1, uc_evicts = 0\<rparr>\<rparr>)"
  by (simp add: cached_load_def GetOrLoad_def uc_Get_def uc_Set_def list_lru_def site_before_delete_def migrated_db_def GetUserByID_def
      run_def cached_row_def)

lemma load_after_delete: "fst (cached_load list_lru 7 site_after_delete) = Inr cached_row"
  unfolding site_after_delete_def load_before_delete
  by (simp add: cached_load_def GetOrLoad_def uc_Get_def list_lru_def site_before_delete_def migrated_db_def IsExpired_def minute_def second_def)

theorem cached_user_is_recent_witness:
  "t_users (si_db site_after_delete) = [] \<and>
   fst (RequireAuthWithCache (cached_load list_lru) (\<lambda>rq cx ws. (map_option u_id (cx_user cx) = Some 7, ws)) undefined no_context
     (undefined, site_after_delete))"
proof -
  have reach: "cache_reach list_lru DefaultUserCacheConfig site_after_delete (read_rows list_lru 7 site_before_delete)"
    using reach_database [OF reach_load [OF site_before_delete_reached, of 7], of "migrated_db 60" 7]
    by (simp add: site_after_delete_def load_before_delete) (simp add: site_before_delete_def migrated_db_def)
  have id: "si_user_id site_after_delete = 7" by (simp add: site_after_delete_def)
  let ?h = "\<lambda>rq cx ws. (map_option u_id (cx_user cx) = Some 7, ws)"
  obtain s1 where l: "cached_load list_lru 7 site_after_delete = (Inr cached_row, s1)"
    using load_after_delete by (cases "cached_load list_lru 7 site_after_delete") simp
  then have "si_user_id s1 = 7" using cached.load_session [of list_lru 7 site_after_delete] id by simp
  then have "s1 \<noteq> s1\<lparr>si_user_id := 0\<rparr>" by (metis cached_site.select_convs(1) site.select_convs(2) site.update_convs(2) site.surjective zero_neq_numeral)
  then have "RequireAuthWithCache (cached_load list_lru) ?h undefined no_context (undefined, site_after_delete) \<noteq>
      (False, redirectLogin undefined undefined, (snd (cached_load list_lru (si_user_id site_after_delete) site_after_delete))\<lparr>si_user_id := 0\<rparr>)"
    using l id by (simp add: RequireAuthWithCache_def)
  from cached_user_is_recent [OF list_lru_ok reach _ this] id
  have "fst (RequireAuthWithCache (cached_load list_lru) ?h undefined no_context (undefined, site_after_delete))"
    by (auto simp: DefaultUserCacheConfig_def minute_def second_def)
  then show ?thesis by (simp add: site_after_delete_def migrated_db_def)
qed

end
