(* ===== verification/Shutdown.thy ===== *)
theory Shutdown
  imports Worker_Pool Processor_Outcomes Sse Db_Writer
begin

text \<open>
  The life of the process, \<open>RunServer\<close> of \<open>internal/cmd/server.go\<close> from the signal on: the order in which the parts
  are stopped, with the workers (\<open>Processor\<close>), the stream handlers (\<open>Sse\<close>) and the writer of the jobs behind it.
\<close>

section \<open>A job whose context ends\<close>

text \<open>
  The context of the jobs is the one \<open>RunServer\<close> cancels, and every statement on it fails from then on.
  \<open>cut_off\<close> replaces the schedule of faults accordingly.
\<close>

definition context_canceled :: dberr where
  "context_canceled = DriverError ''context canceled''"

definition with_faults :: "dberr option list \<Rightarrow> ('l, 'w) worker \<Rightarrow> ('l, 'w) worker" where
  "with_faults fs st = st\<lparr>st_db := (st_db st)\<lparr>faults := fs\<rparr>\<rparr>"

definition cut_off :: "nat \<Rightarrow> ('l, 'w) worker \<Rightarrow> ('l, 'w) worker" where
  "cut_off n = with_faults (replicate n (Some context_canceled))"

text \<open>The database but for the time and the schedule.\<close>

definition stored :: "('l, 'w) worker \<Rightarrow> db" where
  "stored st = (st_db st)\<lparr>clock := 0, faults := []\<rparr>"

definition canceled :: "nat \<Rightarrow> ('l, 'w) worker \<Rightarrow> bool" where
  "canceled n st \<longleftrightarrow> (\<exists>k. n \<le> k \<and> faults (st_db st) = replicate k (Some context_canceled))"

lemma canceled_cut_off: "n \<le> k \<Longrightarrow> canceled n (cut_off k st)" "stored (cut_off k st) = stored st"
  by (auto simp: canceled_def cut_off_def with_faults_def stored_def)

text \<open>\<open>nothing_done n st st'\<close>: at most \<open>n\<close> statements were tried, nothing was stored and no message sent.\<close>

definition nothing_done :: "nat \<Rightarrow> ('l, 'w) worker \<Rightarrow> ('l, 'w) worker \<Rightarrow> bool" where
  "nothing_done n st st' \<longleftrightarrow>
     stored st' = stored st \<and> st_sse st' = st_sse st \<and> (\<forall>m. canceled (m + n) st \<longrightarrow> canceled m st')"

lemma nothing_done_refl [simp]: "nothing_done n st st"
  by (auto simp: nothing_done_def canceled_def intro: le_trans [OF le_add1])

lemma nothing_done_trans: "nothing_done a st st1 \<Longrightarrow> nothing_done b st1 st2 \<Longrightarrow> nothing_done (b + a) st st2"
  by (auto simp: nothing_done_def) (metis add.assoc)

lemma nothing_done_canceled: "nothing_done n st st' \<Longrightarrow> canceled (m + n) st \<Longrightarrow> canceled m st'"
  by (simp add: nothing_done_def)

lemma nothing_done_proc [simp]:
  "nothing_done n st st' \<Longrightarrow> nothing_done n st (st'\<lparr>st_proc := p\<rparr>)" "nothing_done n st st' \<Longrightarrow> nothing_done n st (st'\<lparr>st_world := w\<rparr>)"
  by (simp_all add: nothing_done_def stored_def canceled_def)

lemma nothing_done_time: "nothing_done n st st' \<Longrightarrow> nothing_done n st (pass_time d st')"
  by (simp add: nothing_done_def stored_def canceled_def pass_time_def)

text \<open>A statement of the queries is \<open>run\<close> of something.\<close>

definition is_statement :: "'a query \<Rightarrow> bool" where
  "is_statement q \<longleftrightarrow> (\<exists>q'. q = run q')"

lemma job_statements:
  "is_statement (IsJobProcessed i)" "is_statement (RecordJobProcessed i)" "is_statement (CompleteJob i)"
  "is_statement (FailJob eo i)" "is_statement (UpdateJobNextRetry t i)"
  "is_statement (CreateDeadLetterJob i ty p e n te md)"
  unfolding is_statement_def
  by (auto simp: IsJobProcessed_def RecordJobProcessed_def CompleteJob_def FailJob_def UpdateJobNextRetry_def CreateDeadLetterJob_def
      fun_eq_iff)

lemma webhook_statements: "is_statement (IsWebhookEventProcessed source ev)" "is_statement (GetWebhookByID i)"
  unfolding is_statement_def by (auto simp: IsWebhookEventProcessed_def GetWebhookByID_def fun_eq_iff)

lemma on_db_canceled:
  assumes "is_statement q" and "canceled 1 st"
  shows "\<exists>st'. on_db q st = (Inl context_canceled, st') \<and> nothing_done 1 st st'"
proof -
  obtain q' where q: "q = run q'" using assms(1) by (auto simp: is_statement_def)
  obtain k where k: "faults (st_db st) = replicate (Suc k) (Some context_canceled)"
    using assms(2) unfolding canceled_def by (metis One_nat_def Suc_le_D)
  have "canceled m (st\<lparr>st_db := (st_db st)\<lparr>faults := replicate k (Some context_canceled)\<rparr>\<rparr>)" if "canceled (m + 1) st" for m
    using that k unfolding canceled_def by (auto dest: arg_cong [where f = length])
  with k show ?thesis by (auto simp: q on_db_def run_def nothing_done_def stored_def)
qed

lemma do_db_canceled:
  assumes "is_statement q" and "canceled 1 st"
  shows "nothing_done 1 st (do_db q st)"
proof -
  have "do_db q st = snd (on_db q st)" by (simp add: do_db_def on_db_def split: prod.split)
  with on_db_canceled [OF assms] show ?thesis by auto
qed

lemma breaker_records_canceled: "nothing_done n st st' \<Longrightarrow> nothing_done n st (breaker_records f ty st')"
  by (simp add: breaker_records_def)

lemma breaker_allows_canceled: "breaker_allows ty st = (ok, st') \<Longrightarrow> nothing_done 0 st st'"
  by (auto simp: breaker_allows_def split: option.splits prod.splits)

lemma throttler_canceled: "throttler_delay env ty st = (d, st') \<Longrightarrow> nothing_done 0 st st'"
  by (auto simp: throttler_delay_def split: option.splits prod.splits bool.splits)

lemma handler_canceled:
  assumes "canceled 2 st" and "run_handler env j st = (e, st')"
  shows "nothing_done 2 st st'"
proof -
  have mail: "nothing_done 2 st st1" if "send_mail env to subject body st = (e1, st1)" for to subject body e1 st1
    using that by (auto simp: send_mail_def intro!: nothing_done_time split: prod.splits)
  have hook: "nothing_done 2 st (st\<lparr>st_db := s\<rparr>)" if "ProcessWebhookEvent i source ev (st_db st) = (r, s)" for i source ev r s
  proof -
    obtain st1 where one: "on_db (IsWebhookEventProcessed source ev) st = (Inl context_canceled, st1)" "nothing_done 1 st st1"
      using on_db_canceled [OF webhook_statements(1)] assms(1) by (metis canceled_def one_le_numeral order_trans)
    have "canceled 1 st1" using nothing_done_canceled [OF one(2), of 1] assms(1) by (simp add: numeral_2_eq_2)
    then obtain st2 where two: "on_db (GetWebhookByID i) st1 = (Inl context_canceled, st2)" "nothing_done 1 st1 st2"
      using on_db_canceled [OF webhook_statements(2)] by blast
    have "st2 = st\<lparr>st_db := s\<rparr>"
      using that one(1) two(1) by (auto simp: ProcessWebhookEvent_def on_db_def split: prod.splits)
    with nothing_done_trans [OF one(2) two(2)] show ?thesis by (simp add: numeral_2_eq_2)
  qed
  from assms(2) show ?thesis
    by (auto simp: run_handler_def Let_def handleSendEmail_def handleSendPasswordResetEmail_def handleSendVerificationEmail_def
        handleProcessAI_def handleProcessWebhook_def on_db_def intro: mail hook intro!: nothing_done_time
        split: if_splits option.splits prod.splits sum.splits hook_error.splits)
qed

lemma two_statements:
  assumes "is_statement q" "is_statement q'" "canceled 2 st"
  shows "nothing_done 2 st (do_db q' (do_db q st))"
proof -
  have "canceled 1 st" using assms(3) by (metis canceled_def one_le_numeral order_trans)
  note one = do_db_canceled [OF assms(1) this]
  then have "canceled 1 (do_db q st)" using nothing_done_canceled [OF one, of 1] assms(3) by (simp add: numeral_2_eq_2)
  from nothing_done_trans [OF one do_db_canceled [OF assms(2) this]] show ?thesis by (simp add: numeral_2_eq_2)
qed

lemma after_failure_canceled:
  assumes "canceled 2 st" and "after_failure env j cfg e st = (out, st')"
  shows "nothing_done 2 st st'"
proof -
  have w: "canceled 2 (st\<lparr>st_world := w\<rparr>)" "nothing_done 0 st (st\<lparr>st_world := w\<rparr>)" for w
    using assms(1) by (simp_all add: canceled_def)
  have "nothing_done 2 st (do_db (FailJob (Some e) i) (do_db q (st\<lparr>st_world := w\<rparr>)))" if "is_statement q" for q :: "'x query" and i w
    using nothing_done_trans [OF w(2) two_statements [OF that job_statements(4) w(1)]] by simp
  from this [OF job_statements(6)] this [OF job_statements(5)] assms(2) show ?thesis
    by (auto simp: after_failure_def Let_def moveToDeadLetterQueue_def intro!: breaker_records_canceled split: option.splits if_splits prod.splits)
qed

lemma after_success_canceled:
  assumes "canceled 1 st"
  shows "nothing_done 1 st (after_success env j start st)"
proof -
  let ?q = "record_and_complete (wk_has_writer (st_proc st)) (j_id j)"
  have "\<exists>st'. on_db ?q st = (Inl context_canceled, st') \<and> nothing_done 1 st st'"
  proof (cases "wk_has_writer (st_proc st)")
    case True
    from on_db_canceled [OF job_statements(2) [of "j_id j"] assms] True show ?thesis
      by (auto simp: record_and_complete_def Let_def and_then_def on_db_def split: prod.splits sum.splits)
  next
    case False
    have "is_statement (run (\<lambda>t. (Inr (), t)))" by (auto simp: is_statement_def)
    from on_db_canceled [OF this assms] False show ?thesis
      by (auto simp: record_and_complete_def Let_def transaction_def on_db_def split: prod.splits sum.splits)
  qed
  then show ?thesis by (auto simp: after_success_def)
qed

lemma closing_canceled:
  assumes "canceled 2 st"
    and "(out, st') = (case e of Some err \<Rightarrow> after_failure env j cfg err st | None \<Rightarrow> (Returns (), after_success env j start st))"
  shows "nothing_done 2 st st'"
proof (cases e)
  case (Some err)
  with assms(2) after_failure_canceled [OF assms(1), of env j cfg err out st'] show ?thesis by simp
next
  case None
  have "canceled 1 st" using assms(1) by (metis canceled_def one_le_numeral order_trans)
  from nothing_done_trans [OF after_success_canceled [OF this] nothing_done_refl [of 1]] None assms(2) show ?thesis
    by (simp add: numeral_2_eq_2)
qed

text \<open>\<open>tried st k st'\<close>: of at least five failing statements, \<open>k\<close> were tried.\<close>

definition tried :: "('l, 'w) worker \<Rightarrow> nat \<Rightarrow> ('l, 'w) worker \<Rightarrow> bool" where
  "tried st k st' \<longleftrightarrow> canceled 5 st \<and> k \<le> 5 \<and> nothing_done k st st'"

lemma tried_canceled: "tried st k st' \<Longrightarrow> m + k \<le> 5 \<Longrightarrow> canceled m st'"
  unfolding tried_def by (metis canceled_def nothing_done_def order_trans)

lemma tried_next: "tried st k st1 \<Longrightarrow> nothing_done m st1 st2 \<Longrightarrow> m + k \<le> 5 \<Longrightarrow> tried st (m + k) st2"
  unfolding tried_def using nothing_done_trans by blast

lemma tried_statement: "tried st k st1 \<Longrightarrow> k < 5 \<Longrightarrow> is_statement q \<Longrightarrow> tried st (1 + k) (do_db q st1)"
  using do_db_canceled [OF _ tried_canceled [of st k st1 1], of q] by (intro tried_next) auto

lemma process_picked_canceled:
  assumes "canceled 5 st" and "process_picked env j st = (out, st')"
  shows "\<exists>k. tried st k st'"
proof -
  have w0: "tried st 0 st" using assms(1) by (simp add: tried_def)
  obtain ok st1 where br: "breaker_allows (j_type j) st = (ok, st1)" by force
  have w1: "tried st 0 st1" using tried_next [OF w0 breaker_allows_canceled [OF br]] by simp
  obtain d st2 where th: "throttler_delay env (j_type j) st1 = (d, st2)" by force
  have w2: "tried st 0 st2" using tried_next [OF w1 throttler_canceled [OF th]] by simp
  obtain st3 where pr: "on_db (IsJobProcessed (j_id j)) st2 = (Inl context_canceled, st3)" and n3: "nothing_done 1 st2 st3"
    using on_db_canceled [OF job_statements(1) tried_canceled [OF w2]] by auto
  have w3: "tried st 1 st3" using tried_next [OF w2 n3] by simp
  obtain e st4 where rh: "run_handler env j st3 = (e, st4)" by force
  have w4: "tried st 3 st4" using tried_next [OF w3 handler_canceled [OF tried_canceled [OF w3] rh]] by simp
  let ?cfg = "getJobConfig (j_type j) (st_proc st)"
  consider "st' = do_db (CompleteJob (j_id j)) st"
    | "st' = do_db (UpdateJobNextRetry (Some (now st1 + 30 * second)) (j_id j)) st1"
    | t where "st' = do_db (UpdateJobNextRetry (Some (now st2 + t)) (j_id j)) st2"
    | "(out, st') = (case e of Some err \<Rightarrow> after_failure env j ?cfg err st4 | None \<Rightarrow> (Returns (), after_success env j (now st) st4))"
    using assms(2) br th pr rh by (auto simp: process_picked_def Let_def split: if_splits bool.splits option.splits)
  then show ?thesis
  proof cases
    case 4
    from tried_next [OF w4 closing_canceled [OF tried_canceled [OF w4] this]] show ?thesis by auto
  qed (use tried_statement [OF w0 _ job_statements(3)] tried_statement [OF w1 _ job_statements(5)]
        tried_statement [OF w2 _ job_statements(5)] in \<open>auto intro: exI [of _ "Suc 0"]\<close>)
qed



section \<open>The writer after its end\<close>

text \<open>
  \<open>Start\<close> stops the writer as soon as the context ends, and does not wait for the workers. From then on no request is run:
  whoever submits one waits until its context ends or ten seconds are over.
\<close>

lemma stopped_writer_keeps:
  "writer_run ws rs ws' \<Longrightarrow> dw_stopped (fst ws) \<Longrightarrow>
     dw_stopped (fst ws') \<and> dw_results (fst ws') = dw_results (fst ws) \<and> snd ws' = snd ws \<and> dw_submitted (fst ws) \<le> dw_submitted (fst ws')"
proof (induction rule: writer_run.induct)
  case (more ws rs ws' rs' ws'')
  from more.hyps(2) more.IH [OF more.prems] show ?case
    by (cases rule: writer_step.cases) (auto simp: submit_send_def dw_run_def split: if_splits)
qed simp

lemma stopped_writer_never_answers:
  assumes "writer_at rs s0 k (w, s)" and "submit_send r (dw_Stop w) = Some (n, w1)" and "writer_run (w1, s) rs' (w2, s2)"
  shows "s2 = s \<and> dw_results w2 n = None"
proof -
  have "dw_stopped w1" "dw_results w1 = dw_results w" "n = dw_submitted w"
    using assms(2) by (auto simp: submit_send_def dw_Stop_def split: if_splits)
  moreover have "dw_results w (dw_submitted w) = None"
    using assms(1) by (auto simp: writer_at_def split: prod.splits)
  ultimately show ?thesis using stopped_writer_keeps [OF assms(3)] by simp
qed

section \<open>The process\<close>

text \<open>A worker goroutine waits for a job or runs one, on the context it was started with.\<close>

datatype goroutine = Idle worker_context | Busy worker_context job

definition on_server_context :: "goroutine \<Rightarrow> bool" where
  "on_server_context g = (case g of Idle c \<Rightarrow> c = ServerContext | Busy c _ \<Rightarrow> c = ServerContext)"

lemma on_server_context_simps [simp]:
  "on_server_context (Idle c) \<longleftrightarrow> c = ServerContext" "on_server_context (Busy c j) \<longleftrightarrow> c = ServerContext"
  by (simp_all add: on_server_context_def)

text \<open>
  Where the main goroutine is: waiting for the signal, for the collector of database statistics, for the workers, for the
  broker's loop, in \<open>srv.Shutdown\<close> until a deadline, in the second one of a development server, or at its end.
\<close>

datatype outcome = Exited_properly | Shutdown_failed | Server_failed

datatype phase = Serving | Stats_wait | Workers_wait | Broker_wait | Http_drain instant | Http_force instant | Ended outcome

record ('l, 'w) process =
  lf_phase :: phase
  lf_now :: instant
  lf_signal :: bool
  lf_cancelled :: bool
  lf_worker :: "('l, 'w) worker"
  lf_pool :: "goroutine list"
  lf_scaler :: bool
  lf_collector :: bool
  lf_sse :: sse
  lf_requests :: nat

definition shutdown_timeout :: "bool \<Rightarrow> duration" where
  "shutdown_timeout dev = (if dev then 2 * second else 5 * second)"

text \<open>No connection is active: \<open>srv.Shutdown\<close> returns.\<close>

definition quiescent :: "('l, 'w) process \<Rightarrow> bool" where
  "quiescent p \<longleftrightarrow> lf_requests p = 0 \<and> list_all (\<lambda>h. h_pc h = Returned) (sse_handlers (lf_sse p))"

text \<open>The main goroutine; \<open>None\<close> where it has to wait. The second \<open>Shutdown\<close> of a development server is awaited and its result dropped.\<close>

definition main_step :: "bool \<Rightarrow> ('l, 'w) process \<Rightarrow> ('l, 'w) process option" where
  "main_step dev p =
     (case lf_phase p of
        Serving \<Rightarrow> if lf_signal p then Some (p\<lparr>lf_signal := False, lf_phase := Stats_wait\<rparr>) else None
      | Stats_wait \<Rightarrow> if lf_collector p then None else Some (p\<lparr>lf_cancelled := True, lf_phase := Workers_wait\<rparr>)
      | Workers_wait \<Rightarrow> if lf_pool p = [] then Some (p\<lparr>lf_phase := Broker_wait\<rparr>) else None
      | Broker_wait \<Rightarrow>
          if sse_running (lf_sse p) then None else Some (p\<lparr>lf_phase := Http_drain (lf_now p + shutdown_timeout dev)\<rparr>)
      | Http_drain t \<Rightarrow>
          if quiescent p then Some (p\<lparr>lf_phase := Ended Exited_properly\<rparr>)
          else if lf_now p < t then None
          else Some (p\<lparr>lf_phase := (if dev then Http_force (lf_now p + 500 * millisecond) else Ended Shutdown_failed)\<rparr>)
      | Http_force t \<Rightarrow>
          if quiescent p \<or> t \<le> lf_now p then Some (p\<lparr>lf_phase := Ended Shutdown_failed\<rparr>) else None
      | Ended _ \<Rightarrow> None)"

text \<open>The listener is closed by \<open>srv.Shutdown\<close> only.\<close>

definition accepting :: "('l, 'w) process \<Rightarrow> bool" where
  "accepting p \<longleftrightarrow> lf_phase p \<in> {Serving, Stats_wait, Workers_wait, Broker_wait}"

text \<open>A message of a job goes to the broker, or is dropped when its context is done.\<close>

definition hand_over :: "Processor.sse_message \<Rightarrow> sse \<Rightarrow> sse" where
  "hand_over m s =
     (if sse_running s
      then (case m of ToUser u ev text \<Rightarrow> deliver u (sse_message ev text) s | ToAll ev text \<Rightarrow> deliver 0 (sse_message ev text) s)
      else s)"

definition hand_over_new :: "('l, 'w) worker \<Rightarrow> ('l, 'w) worker \<Rightarrow> sse \<Rightarrow> sse" where
  "hand_over_new st st' = fold hand_over (drop (length (st_sse st)) (st_sse st'))"

text \<open>
  What may fail under a job: nothing more than the database does by itself while its context lives, and everything from some
  statement on once it has ended. The jobs on the background context lose the writer then, so any of their statements may fail.
\<close>

definition schedule_ok :: "('l, 'w) process \<Rightarrow> worker_context \<Rightarrow> dberr option list \<Rightarrow> bool" where
  "schedule_ok p c fs \<longleftrightarrow>
     (if \<not> lf_cancelled p then fs = faults (st_db (lf_worker p))
      else c = ServerContext \<longrightarrow> (\<exists>k n. 5 \<le> n \<and> fs = replicate k None @ replicate n (Some context_canceled)))"

definition run_busy ::
  "('l, 'w) worker_env \<Rightarrow> job \<Rightarrow> dberr option list \<Rightarrow> ('l, 'w) worker \<Rightarrow> unit go_result \<times> ('l, 'w) worker" where
  "run_busy env j fs st =
     (case process_picked env j (with_faults fs st) of (out, st') \<Rightarrow> (out, with_faults (faults (st_db st)) st'))"

text \<open>One step of the process in which no job panics; \<open>cpus\<close> is the number of processors.\<close>

inductive life_step :: "('l, 'w) worker_env \<Rightarrow> int \<Rightarrow> bool \<Rightarrow> ('l, 'w) process \<Rightarrow> ('l, 'w) process \<Rightarrow> bool" for env cpus dev where
  life_signal: "life_step env cpus dev p (p\<lparr>lf_signal := True\<rparr>)"
| life_time: "0 \<le> d \<Longrightarrow> life_step env cpus dev p (p\<lparr>lf_now := lf_now p + d\<rparr>)"
| life_main: "main_step dev p = Some p' \<Longrightarrow> life_step env cpus dev p p'"
| life_listen: "accepting p \<Longrightarrow> life_step env cpus dev p (p\<lparr>lf_phase := Ended Server_failed\<rparr>)"
| life_collector: "lf_phase p \<noteq> Serving \<Longrightarrow> life_step env cpus dev p (p\<lparr>lf_collector := False\<rparr>)"
| life_pick: "i < length (lf_pool p) \<Longrightarrow> lf_pool p ! i = Idle c \<Longrightarrow> c = ServerContext \<longrightarrow> \<not> lf_cancelled p \<Longrightarrow>
    on_db (PickNextJobWithWorker (Some (wk_worker_id (st_proc (lf_worker p))))) (lf_worker p) = (Inr j, st) \<Longrightarrow>
    life_step env cpus dev p (p\<lparr>lf_worker := st, lf_pool := (lf_pool p)[i := Busy c j]\<rparr>)"
| life_finish: "i < length (lf_pool p) \<Longrightarrow> lf_pool p ! i = Busy c j \<Longrightarrow> schedule_ok p c fs \<Longrightarrow>
    run_busy env j fs (lf_worker p) = (Returns (), st) \<Longrightarrow>
    life_step env cpus dev p (p\<lparr>lf_worker := st, lf_pool := (lf_pool p)[i := Idle c], lf_sse := hand_over_new (lf_worker p) st (lf_sse p)\<rparr>)"
| life_leave: "i < length (lf_pool p) \<Longrightarrow> lf_pool p ! i = Idle ServerContext \<Longrightarrow> lf_cancelled p \<Longrightarrow>
    life_step env cpus dev p (p\<lparr>lf_pool := take i (lf_pool p) @ drop (Suc i) (lf_pool p)\<rparr>)"
| life_scale: "lf_scaler p \<Longrightarrow> evaluateScaling cpus (lf_worker p) = (spawn, st) \<Longrightarrow>
    life_step env cpus dev p (p\<lparr>lf_worker := st, lf_pool := lf_pool p @ (if spawn then [Idle BackgroundContext] else [])\<rparr>)"
| life_scaler_ends: "lf_cancelled p \<Longrightarrow> life_step env cpus dev p (p\<lparr>lf_scaler := False\<rparr>)"
| life_request: "accepting p \<Longrightarrow> life_step env cpus dev p (p\<lparr>lf_requests := lf_requests p + 1\<rparr>)"
| life_answer: "lf_requests p = Suc n \<Longrightarrow> life_step env cpus dev p (p\<lparr>lf_requests := n\<rparr>)"
| life_stream: "accepting p \<Longrightarrow> sse_user cu su flusher = Inr u \<Longrightarrow> life_step env cpus dev p (p\<lparr>lf_sse := open_stream u (lf_sse p)\<rparr>)"
| life_handler: "handler_step i (lf_sse p) = Some s \<Longrightarrow> life_step env cpus dev p (p\<lparr>lf_sse := s\<rparr>)"
| life_client_leaves: "handler_leave i (lf_sse p) = Some s \<Longrightarrow> life_step env cpus dev p (p\<lparr>lf_sse := s\<rparr>)"
| life_client_gone: "i < length (sse_handlers (lf_sse p)) \<Longrightarrow>
    life_step env cpus dev p (p\<lparr>lf_sse := set_handler i (\<lambda>h. h\<lparr>h_cancelled := True\<rparr>) (lf_sse p)\<rparr>)"
| life_broker_stops: "sse_running (lf_sse p) \<Longrightarrow> lf_cancelled p \<Longrightarrow> life_step env cpus dev p (p\<lparr>lf_sse := stop_broker (lf_sse p)\<rparr>)"

text \<open>A job that panics ends its goroutine.\<close>

inductive life_crash :: "('l, 'w) worker_env \<Rightarrow> ('l, 'w) process \<Rightarrow> ('l, 'w) process \<Rightarrow> bool" for env where
  life_crash: "i < length (lf_pool p) \<Longrightarrow> lf_pool p ! i = Busy c j \<Longrightarrow> schedule_ok p c fs \<Longrightarrow>
    run_busy env j fs (lf_worker p) = (Panics, st) \<Longrightarrow>
    life_crash env p (p\<lparr>lf_worker := st, lf_pool := take i (lf_pool p) @ drop (Suc i) (lf_pool p)\<rparr>)"

definition boot :: "nat \<Rightarrow> instant \<Rightarrow> ('l, 'w) worker \<Rightarrow> ('l, 'w) process" where
  "boot n t st =
     \<lparr>lf_phase = Serving, lf_now = t, lf_signal = False, lf_cancelled = False, lf_worker = st, lf_pool = replicate n (Idle ServerContext),
      lf_scaler = wk_auto_scale (st_proc st), lf_collector = True, lf_sse = NewBroker, lf_requests = 0\<rparr>"

inductive life_reach :: "('l, 'w) worker_env \<Rightarrow> int \<Rightarrow> bool \<Rightarrow> ('l, 'w) process \<Rightarrow> bool" for env cpus dev where
  life_boot: "life_reach env cpus dev (boot n t st)"
| life_next: "life_reach env cpus dev p \<Longrightarrow> life_step env cpus dev p p' \<or> life_crash env p p' \<Longrightarrow> life_reach env cpus dev p'"

section \<open>Streams\<close>

lemma sse_hand_over: "sse_reach s \<Longrightarrow> sse_reach (hand_over m s)"
  by (auto simp: hand_over_def split: Processor.sse_message.split intro: reach_send)

lemma sse_hand_over_new: "sse_reach s \<Longrightarrow> sse_reach (hand_over_new st st' s)"
proof -
  have "sse_reach s \<Longrightarrow> sse_reach (fold hand_over ms s)" for ms
    by (induction ms arbitrary: s) (auto intro: sse_hand_over)
  then show "sse_reach s \<Longrightarrow> ?thesis" by (simp add: hand_over_new_def)
qed

inductive_cases life_stepE: "life_step env cpus dev p p'"
inductive_cases life_crashE: "life_crash env p p'"

lemma main_step_frame:
  assumes "main_step dev p = Some p'"
  shows "lf_sse p' = lf_sse p" "lf_pool p' = lf_pool p" "lf_requests p' = lf_requests p" "lf_collector p' = lf_collector p"
  using assms by (auto simp: main_step_def split: phase.splits if_splits)

lemma life_reach_sse: "life_reach env cpus dev p \<Longrightarrow> sse_reach (lf_sse p)"
proof (induction rule: life_reach.induct)
  case (life_boot n t st)
  show ?case by (simp add: boot_def reach_new)
next
  case (life_next p p')
  from life_next.hyps(2) show ?case
  proof
    assume "life_step env cpus dev p p'"
    then show ?thesis
      by (elim life_stepE)
        (use life_next.IH in \<open>auto simp: main_step_frame(1) intro: sse_hand_over_new reach_open reach_step reach_leave reach_gone reach_stop\<close>)
  next
    assume "life_crash env p p'"
    then show ?thesis by (elim life_crashE) (use life_next.IH in simp)
  qed
qed

lemma life_reach_not_returned: "life_reach env cpus dev p \<Longrightarrow> h \<in> set (sse_handlers (lf_sse p)) \<Longrightarrow> h_pc h \<noteq> Returned"
  using sse_inv_handler [OF sse_reach_inv [OF life_reach_sse]] unfolding in_set_conv_nth handler_inv_def by blast

lemma quiescent_iff: "life_reach env cpus dev p \<Longrightarrow> quiescent p \<longleftrightarrow> lf_requests p = 0 \<and> sse_handlers (lf_sse p) = []"
  using life_reach_not_returned [of env cpus dev p] by (cases "sse_handlers (lf_sse p)") (auto simp: quiescent_def)

text \<open>The handlers are as many as streams were opened.\<close>

lemma length_handler_step: "handler_step i s = Some s' \<Longrightarrow> length (sse_handlers s') = length (sse_handlers s)"
  by (auto simp: handler_step_def Let_def set_handler_def split: if_splits sse_pc.splits list.splits)

lemma length_handler_leave: "handler_leave i s = Some s' \<Longrightarrow> length (sse_handlers s') = length (sse_handlers s)"
  by (auto simp: handler_leave_def set_handler_def split: if_splits)

lemma length_fold_update: "length (fold (\<lambda>c hs. hs[c := f c hs]) cs hs) = length hs"
  by (induction cs arbitrary: hs) simp_all

lemma length_stop_broker: "length (sse_handlers (stop_broker s)) = length (sse_handlers s)"
  using length_fold_update [where f = "\<lambda>c hs. (hs ! c)\<lparr>h_closed := True\<rparr>"] by (simp add: stop_broker_def)

lemma length_hand_over_new: "length (sse_handlers (hand_over_new st st' s)) = length (sse_handlers s)"
proof -
  have "length (sse_handlers (fold hand_over ms s)) = length (sse_handlers s)" for ms
    by (induction ms arbitrary: s) (auto simp: hand_over_def length_deliver split: Processor.sse_message.split)
  then show ?thesis by (simp add: hand_over_new_def)
qed

lemma length_set_handler: "length (sse_handlers (set_handler i f s)) = length (sse_handlers s)"
  by (simp add: set_handler_def)

lemmas stream_counts = length_handler_step length_handler_leave length_deliver length_stop_broker length_hand_over_new length_set_handler

definition ended_clean :: "('l, 'w) process \<Rightarrow> bool" where
  "ended_clean p \<longleftrightarrow> (lf_phase p = Ended Exited_properly \<longrightarrow> lf_requests p = 0 \<and> sse_handlers (lf_sse p) = [])"

lemma ended_clean_step:
  assumes "life_reach env cpus dev p" and "ended_clean p" and "life_step env cpus dev p p'"
  shows "ended_clean p'"
  using assms(3)
proof (cases rule: life_step.cases)
  case life_main
  with assms(2) quiescent_iff [OF assms(1)] show ?thesis
    by (auto simp: ended_clean_def main_step_def split: phase.splits if_splits)
next
  case (life_handler i s)
  with assms(2) length_handler_step [of i "lf_sse p" s] show ?thesis by (auto simp: ended_clean_def)
next
  case (life_client_leaves i s)
  with assms(2) length_handler_leave [of i "lf_sse p" s] show ?thesis by (auto simp: ended_clean_def)
next
  case (life_finish i c j fs st)
  with assms(2) length_hand_over_new [of "lf_worker p" st "lf_sse p"] show ?thesis by (auto simp: ended_clean_def)
next
  case life_broker_stops
  with assms(2) length_stop_broker [of "lf_sse p"] show ?thesis by (auto simp: ended_clean_def)
qed (use assms(2) in \<open>auto simp: ended_clean_def accepting_def length_set_handler\<close>)

lemma ended_clean_reach: "life_reach env cpus dev p \<Longrightarrow> ended_clean p"
proof (induction rule: life_reach.induct)
  case (life_next p p')
  from life_next.hyps(2) show ?case
  proof
    assume "life_step env cpus dev p p'"
    with life_next show ?thesis by (blast intro: ended_clean_step)
  next
    assume "life_crash env p p'"
    then show ?thesis by (elim life_crashE) (use life_next.IH in \<open>simp add: ended_clean_def\<close>)
  qed
qed (simp add: boot_def ended_clean_def)

text \<open>The process ends without an error only if nobody ever opened a stream: the handler of a stream never returns, so
  \<open>srv.Shutdown\<close> runs into its deadline, and the exit is reported as failed.\<close>

theorem clean_exit_had_no_stream:
  assumes "life_reach env cpus dev p" and "lf_phase p = Ended Exited_properly"
  shows "sse_handlers (lf_sse p) = [] \<and> lf_requests p = 0"
  using ended_clean_reach [OF assms(1)] assms(2) by (simp add: ended_clean_def)

section \<open>Workers of the scaling\<close>

definition has_background :: "('l, 'w) process \<Rightarrow> bool" where
  "has_background p \<longleftrightarrow> list_ex (\<lambda>g. \<not> on_server_context g) (lf_pool p)"

text \<open>The main goroutine has not got past the workers.\<close>

definition before_broker :: "('l, 'w) process \<Rightarrow> bool" where
  "before_broker p \<longleftrightarrow> lf_phase p \<in> {Serving, Stats_wait, Workers_wait, Ended Server_failed}"

lemma list_ex_update: "i < length xs \<Longrightarrow> P (xs ! i) = P y \<Longrightarrow> list_ex P (xs[i := y]) = list_ex P xs"
  by (induction xs arbitrary: i) (auto split: nat.split)

lemma list_ex_remove: "i < length xs \<Longrightarrow> \<not> P (xs ! i) \<Longrightarrow> list_ex P (take i xs @ drop (Suc i) xs) = list_ex P xs"
  by (subst (3) id_take_nth_drop [of i xs]) (auto simp: list_ex_append)

lemma has_background_step:
  assumes "life_step env cpus dev p p'" and "has_background p"
  shows "has_background p'"
  using assms(1)
proof (cases rule: life_step.cases)
  case life_main
  with assms(2) show ?thesis by (simp add: has_background_def main_step_frame(2))
next
  case (life_pick i c j st)
  with assms(2) show ?thesis by (simp add: has_background_def list_ex_update)
next
  case (life_finish i c j fs st)
  with assms(2) show ?thesis by (simp add: has_background_def list_ex_update)
next
  case (life_leave i)
  then have "list_ex (\<lambda>g. \<not> on_server_context g) (take i (lf_pool p) @ drop (Suc i) (lf_pool p)) = has_background p"
    unfolding has_background_def by (intro list_ex_remove) simp_all
  with assms(2) life_leave(1) show ?thesis by (simp add: has_background_def del: list_ex_append)
qed (use assms(2) in \<open>auto simp: has_background_def list_ex_append\<close>)

lemma background_blocks:
  assumes "life_step env cpus dev p p'" and "has_background p" and "before_broker p"
  shows "before_broker p'"
  using assms(1)
proof (cases rule: life_step.cases)
  case life_main
  with assms(2,3) show ?thesis
    by (auto simp: before_broker_def main_step_def has_background_def split: phase.splits if_splits)
qed (use assms(3) in \<open>auto simp: before_broker_def\<close>)

text \<open>C18: Once the scaling has started a worker, the process ignores the signal to stop: as long as no job panics it never stops
  the broker, never closes its listener and never exits, unless listening fails, whatever signals arrive and however long one waits.\<close>

theorem scaled_process_ignores_signals:
  assumes "lf_scaler p" and "evaluateScaling cpus (lf_worker p) = (True, st)" and "before_broker p"
    and "(life_step env cpus dev)\<^sup>*\<^sup>* (p\<lparr>lf_worker := st, lf_pool := lf_pool p @ [Idle BackgroundContext]\<rparr>) p'"
  shows "lf_phase p' \<in> {Serving, Stats_wait, Workers_wait, Ended Server_failed}"
proof -
  have "has_background p' \<and> before_broker p'"
    using assms(4)
  proof (induction rule: rtranclp_induct)
    case base
    from assms(3) show ?case by (simp add: has_background_def before_broker_def list_ex_append)
  next
    case (step y z)
    then show ?case using has_background_step background_blocks by blast
  qed
  then show ?thesis by (simp add: before_broker_def)
qed

section \<open>The order of the shutdown\<close>

definition rank :: "phase \<Rightarrow> nat" where
  "rank ph =
     (case ph of Serving \<Rightarrow> 0 | Stats_wait \<Rightarrow> 1 | Workers_wait \<Rightarrow> 2 | Broker_wait \<Rightarrow> 3 | Http_drain _ \<Rightarrow> 4 | Http_force _ \<Rightarrow> 5
      | Ended o1 \<Rightarrow> if o1 = Server_failed then 0 else 6)"

text \<open>
  What is stopped at each place: the collector and the context from the wait for the workers on, the workers of the server's
  context from the wait for the broker on, the broker from the closing of the listener on.
\<close>

definition stop_order :: "('l, 'w) process \<Rightarrow> bool" where
  "stop_order p \<longleftrightarrow>
     (2 \<le> rank (lf_phase p) \<longrightarrow> lf_cancelled p \<and> \<not> lf_collector p) \<and>
     (3 \<le> rank (lf_phase p) \<longrightarrow> list_all (\<lambda>g. \<not> on_server_context g) (lf_pool p)) \<and>
     (4 \<le> rank (lf_phase p) \<longrightarrow> \<not> sse_running (lf_sse p))"

lemma running_handler_step: "handler_step i s = Some s' \<Longrightarrow> sse_running s' = sse_running s"
  by (auto simp: handler_step_def Let_def set_handler_def split: if_splits sse_pc.splits list.splits)

lemma running_handler_leave: "handler_leave i s = Some s' \<Longrightarrow> sse_running s' = sse_running s"
  by (auto simp: handler_leave_def set_handler_def split: if_splits)

lemma running_hand_over_new: "sse_running (hand_over_new st st' s) = sse_running s"
proof -
  have "sse_running (fold hand_over ms s) = sse_running s" for ms
    by (induction ms arbitrary: s) (auto simp: hand_over_def deliver_def split: Processor.sse_message.split)
  then show ?thesis by (simp add: hand_over_new_def)
qed

lemma main_step_order: "main_step dev p = Some p' \<Longrightarrow> stop_order p \<Longrightarrow> stop_order p'"
  by (auto simp: main_step_def stop_order_def rank_def split: phase.splits if_splits)

lemma list_all_remove: "list_all P xs \<Longrightarrow> list_all P (take i xs @ drop (Suc i) xs)"
  by (auto simp: list_all_iff dest: in_set_takeD in_set_dropD)

lemma list_all_background:
  "list_all (\<lambda>g. \<not> on_server_context g) gs \<Longrightarrow> i < length gs \<Longrightarrow> gs ! i = g \<Longrightarrow> on_server_context g' = on_server_context g \<Longrightarrow>
     list_all (\<lambda>g. \<not> on_server_context g) (gs[i := g'])"
  by (auto simp: list_all_length nth_list_update)

lemma stop_order_step:
  assumes "stop_order p" and "life_step env cpus dev p p'"
  shows "stop_order p'"
  using assms(2)
proof (cases rule: life_step.cases)
  case life_main
  with assms(1) main_step_order show ?thesis by blast
next
  case (life_pick i c j st)
  with assms(1) show ?thesis by (auto simp: stop_order_def intro!: list_all_background)
next
  case (life_finish i c j fs st)
  with assms(1) show ?thesis by (auto simp: stop_order_def running_hand_over_new intro!: list_all_background)
next
  case (life_leave i)
  with assms(1) show ?thesis by (auto simp: stop_order_def simp del: list_all_append intro!: list_all_remove)
next
  case (life_scale spawn st)
  with assms(1) show ?thesis by (auto simp: stop_order_def)
next
  case (life_handler i s)
  with assms(1) show ?thesis by (simp add: stop_order_def running_handler_step)
next
  case (life_client_leaves i s)
  with assms(1) show ?thesis by (simp add: stop_order_def running_handler_leave)
qed (use assms(1) in \<open>auto simp: stop_order_def rank_def open_stream_def set_handler_def stop_broker_def\<close>)


section \<open>A shutdown that succeeds\<close>

lemma idle_workers_leave:
  "lf_cancelled p \<Longrightarrow> lf_pool p = replicate n (Idle ServerContext) \<Longrightarrow> (life_step env cpus dev)\<^sup>*\<^sup>* p (p\<lparr>lf_pool := []\<rparr>)"
proof (induction n arbitrary: p)
  case (Suc n)
  let ?p = "p\<lparr>lf_pool := replicate n (Idle ServerContext)\<rparr>"
  have "life_step env cpus dev p ?p"
    using life_leave [of 0 p env cpus dev] Suc.prems by simp
  moreover have "(life_step env cpus dev)\<^sup>*\<^sup>* ?p (p\<lparr>lf_pool := []\<rparr>)"
    using Suc.IH [of ?p] Suc.prems by simp
  ultimately show ?case by (rule converse_rtranclp_into_rtranclp)
next
  case 0
  then have "p\<lparr>lf_pool := []\<rparr> = p" by simp
  then show ?case by simp
qed

lemma life_main_steps: "main_step dev p = Some p' \<Longrightarrow> (life_step env cpus dev)\<^sup>*\<^sup>* p p'"
  by (rule r_into_rtranclp, rule life_main)

lemma idle_process_stops:
  assumes "lf_phase p = Serving" and "lf_requests p = 0" and "lf_sse p = NewBroker" and "lf_pool p = replicate n (Idle ServerContext)"
  shows "\<exists>p'. (life_step env cpus dev)\<^sup>*\<^sup>* p p' \<and> lf_phase p' = Ended Exited_properly \<and> lf_now p' = lf_now p"
proof -
  let ?go = "(life_step env cpus dev)\<^sup>*\<^sup>*"
  let ?p1 = "p\<lparr>lf_signal := False, lf_phase := Stats_wait\<rparr>"
  let ?p2 = "?p1\<lparr>lf_collector := False\<rparr>"
  let ?p3 = "?p2\<lparr>lf_cancelled := True, lf_phase := Workers_wait\<rparr>"
  let ?p4 = "?p3\<lparr>lf_pool := [], lf_sse := stop_broker (lf_sse p)\<rparr>"
  let ?p5 = "?p4\<lparr>lf_phase := Broker_wait\<rparr>"
  let ?p6 = "?p5\<lparr>lf_phase := Http_drain (lf_now p + shutdown_timeout dev)\<rparr>"
  have "?go p (p\<lparr>lf_signal := True\<rparr>)" by (rule r_into_rtranclp, rule life_signal)
  also have "?go \<dots> ?p1" using assms(1) by (intro life_main_steps) (simp add: main_step_def)
  also have "?go \<dots> ?p2" using life_collector [of ?p1 env cpus dev] by (intro r_into_rtranclp) simp
  also have "?go \<dots> ?p3" by (intro life_main_steps) (simp add: main_step_def)
  also have "?go \<dots> (?p3\<lparr>lf_pool := []\<rparr>)" using assms(4) by (intro idle_workers_leave [of _ n]) simp_all
  also have "?go \<dots> ?p4" using life_broker_stops [of "?p3\<lparr>lf_pool := []\<rparr>" env cpus dev] assms(3)
    by (intro r_into_rtranclp) (simp add: NewBroker_def)
  also have "?go \<dots> ?p5" by (intro life_main_steps) (simp add: main_step_def)
  also have "?go \<dots> ?p6" by (intro life_main_steps) (simp add: main_step_def stop_broker_def)
  also have "?go \<dots> (?p6\<lparr>lf_phase := Ended Exited_properly\<rparr>)"
    using assms(2,3) by (intro life_main_steps) (simp add: main_step_def quiescent_def stop_broker_def NewBroker_def)
  finally have "?go p (?p6\<lparr>lf_phase := Ended Exited_properly\<rparr>)" .
  then show ?thesis by (intro exI [of _ "?p6\<lparr>lf_phase := Ended Exited_properly\<rparr>"]) simp
qed

lemma life_reach_steps: "(life_step env cpus dev)\<^sup>*\<^sup>* p p' \<Longrightarrow> life_reach env cpus dev p \<Longrightarrow> life_reach env cpus dev p'"
  by (induction rule: rtranclp_induct) (auto intro: life_next)

text \<open>C0: A server with idle workers, no stream and no open request can stop at once: from any start the process reaches the end
  without an error, and no time has to pass.\<close>

theorem idle_server_stops_cleanly:
  "\<exists>p'. (life_step env cpus dev)\<^sup>*\<^sup>* (boot n t st) p' \<and> life_reach env cpus dev p' \<and> lf_phase p' = Ended Exited_properly \<and> lf_now p' = t"
proof -
  have "lf_phase (boot n t st) = Serving" "lf_requests (boot n t st) = 0" "lf_sse (boot n t st) = NewBroker"
    "lf_pool (boot n t st) = replicate n (Idle ServerContext)" "lf_now (boot n t st) = t"
    by (simp_all add: boot_def)
  with idle_process_stops [of "boot n t st" n env cpus dev] show ?thesis
    by (metis life_boot life_reach_steps)
qed

lemma some_clean_exit: "\<exists>p. life_reach demo_env 4 True p \<and> lf_phase p = Ended Exited_properly"
proof -
  have "lf_phase (boot 3 0 demo_worker) = Serving" "lf_requests (boot 3 0 demo_worker) = 0" "lf_sse (boot 3 0 demo_worker) = NewBroker"
    "lf_pool (boot 3 0 demo_worker) = replicate 3 (Idle ServerContext)"
    by (simp_all add: boot_def)
  from idle_process_stops [OF this, of demo_env 4 True] show ?thesis
    using life_reach_steps life_boot by blast
qed

theorem clean_exit_had_no_stream_witness:
  "\<exists>p. life_reach demo_env 4 True p \<and> lf_phase p = Ended Exited_properly \<and> sse_handlers (lf_sse p) = []"
  using some_clean_exit clean_exit_had_no_stream by blast


definition scaling_process :: "(unit, unit) process" where
  "scaling_process = (boot 1 0 (pl_worker busy_pool))\<lparr>lf_scaler := True\<rparr>"

theorem scaled_process_ignores_signals_witness:
  "\<exists>p. life_step demo_env 4 False scaling_process p \<and>
     \<not> (\<exists>p'. (life_step demo_env 4 False)\<^sup>*\<^sup>* p p' \<and> lf_phase p' = Ended Exited_properly)"
proof -
  obtain st where st: "evaluateScaling 4 (lf_worker scaling_process) = (True, st)"
    using busy_scales by (cases "evaluateScaling 4 (pl_worker busy_pool)") (simp add: scaling_process_def boot_def)
  have on: "lf_scaler scaling_process" "before_broker scaling_process"
    by (simp_all add: scaling_process_def boot_def before_broker_def)
  let ?p = "scaling_process\<lparr>lf_worker := st, lf_pool := lf_pool scaling_process @ [Idle BackgroundContext]\<rparr>"
  have "life_step demo_env 4 False scaling_process ?p"
    using life_scale [OF on(1) st, of demo_env False] by simp
  moreover have "lf_phase p' \<noteq> Ended Exited_properly" if "(life_step demo_env 4 False)\<^sup>*\<^sup>* ?p p'" for p'
    using scaled_process_ignores_signals [OF on(1) st on(2) that] by auto
  ultimately show ?thesis by blast
qed

end
