(* ===== verification/Metrics.thy ===== *)
theory Metrics
  imports Http_Client Processor
begin

text \<open>
  The numbers the service publishes (\<open>internal/platform/metrics\<close>, and the worker's own in \<open>processor.go\<close>): which
  families it registers, and the calls it makes on them. The Prometheus client is a library: a run is the list of calls, and
  what its documentation says of them is \<open>call_ok\<close> (anything else panics) and \<open>gauge_value\<close> (the last \<open>Set\<close> counts).
\<close>

section \<open>Families\<close>

datatype buckets = DefBuckets | ExponentialBuckets rat rat nat

datatype metric_kind = Counter | Gauge | Histogram buckets

text \<open>Name, kind and names of the labels. A \<open>GaugeFunc\<close> is a gauge.\<close>

type_synonym family = "string \<times> metric_kind \<times> string list"

definition service_metrics :: "family list" where
  "service_metrics =
     [(''http_requests_total'', Counter, [''path'', ''method'', ''status'']),
      (''http_request_duration_seconds'', Histogram DefBuckets, [''path'', ''method'']),
      (''job_processing_seconds'', Histogram (ExponentialBuckets (1 / 10) 2 10), [''type'', ''status'']),
      (''worker_pending_jobs'', Gauge, []),
      (''worker_processing_jobs'', Gauge, []),
      (''worker_jobs_processed_total'', Counter, [''status'']),
      (''worker_jobs_failed_total'', Counter, [''type'']),
      (''worker_jobs_dead_letter_total'', Counter, []),
      (''auth_registrations_total'', Counter, [''status'']),
      (''auth_logins_total'', Counter, [''status'']),
      (''auth_password_resets_total'', Counter, []),
      (''auth_oauth_logins_total'', Counter, [''provider'', ''status'']),
      (''auth_email_verifications_total'', Counter, [''status'']),
      (''auth_active_sessions'', Gauge, []),
      (''billing_payments_total'', Counter, [''type'', ''status'']),
      (''billing_revenue_total_cents'', Counter, []),
      (''billing_subscriptions_active'', Gauge, []),
      (''billing_subscriptions_created_total'', Counter, [''plan'']),
      (''billing_subscriptions_cancelled_total'', Counter, [''reason'']),
      (''billing_mrr_total_cents'', Gauge, []),
      (''billing_churn_rate'', Gauge, [])]"

definition system_metrics :: "family list" where
  "system_metrics =
     [(''active_users'', Gauge, []),
      (''user_registrations_total'', Counter, [''method'']),
      (''user_actions_total'', Counter, [''action'']),
      (''user_session_duration_seconds'', Histogram (ExponentialBuckets 60 2 10), []),
      (''feature_flags_total'', Gauge, []),
      (''feature_flags_enabled'', Gauge, []),
      (''feature_flag_evaluations_total'', Counter, [''flag'', ''result'']),
      (''db_connections_open'', Gauge, []),
      (''db_connections_in_use'', Gauge, []),
      (''db_connections_idle'', Gauge, []),
      (''db_connections_wait_total'', Counter, []),
      (''db_connections_wait_duration_seconds'', Histogram DefBuckets, []),
      (''db_max_open_connections'', Gauge, []),
      (''db_stats'', Gauge, [''stat'']),
      (''cache_hits_total'', Counter, [''cache'']),
      (''cache_misses_total'', Counter, [''cache'']),
      (''circuit_breaker_state'', Gauge, [''name'', ''state'']),
      (''circuit_breaker_failures_total'', Counter, [''name'']),
      (''circuit_breaker_successes_total'', Counter, [''name'']),
      (''circuit_breaker_half_open_requests'', Gauge, [''name''])]"

definition platform_metrics :: "family list" where
  "platform_metrics = service_metrics @ system_metrics"

definition worker_metrics :: "family list" where
  "worker_metrics =
     [(''worker_jobs_processed_by_type_total'', Counter, [''job_type'', ''status'']),
      (''worker_jobs_succeeded_total'', Counter, [''job_type'']),
      (''worker_jobs_failed_by_type_total'', Counter, [''job_type'']),
      (''worker_jobs_dead_letter_by_type_total'', Counter, []),
      (''worker_job_duration_by_type_seconds'', Histogram (ExponentialBuckets (1 / 10) 2 10), [''job_type'', ''status'']),
      (''worker_active_jobs'', Gauge, []),
      (''worker_pending_jobs_by_type'', Gauge, []),
      (''worker_processing_jobs_by_type'', Gauge, []),
      (''worker_throughput_per_hour'', Gauge, [''job_type'', ''status'']),
      (''worker_queue_depth'', Gauge, [''priority'']),
      (''worker_job_wait_time_seconds'', Histogram (ExponentialBuckets 1 2 10), [''job_type'']),
      (''worker_circuit_breaker_state'', Gauge, [''job_type'']),
      (''worker_db_writer_queue_length'', Gauge, []),
      (''worker_count'', Gauge, []),
      (''worker_scaling_events_total'', Counter, [''direction''])]"

section \<open>Calls\<close>

datatype metric_call = Set_Gauge string "string list" rat | Increment string "string list" | Observe string "string list" rat

definition is_histogram :: "metric_kind \<Rightarrow> bool" where
  "is_histogram k = (case k of Histogram _ \<Rightarrow> True | _ \<Rightarrow> False)"

definition fits :: "family list \<Rightarrow> (metric_kind \<Rightarrow> bool) \<Rightarrow> string \<Rightarrow> string list \<Rightarrow> bool" where
  "fits fs good name vs = (case map_of fs name of None \<Rightarrow> False | Some (k, labels) \<Rightarrow> good k \<and> length vs = length labels)"

definition call_ok :: "family list \<Rightarrow> metric_call \<Rightarrow> bool" where
  "call_ok fs c =
     (case c of
        Set_Gauge name vs _ \<Rightarrow> fits fs (\<lambda>k. k = Gauge) name vs
      | Increment name vs \<Rightarrow> fits fs (\<lambda>k. k = Counter) name vs
      | Observe name vs _ \<Rightarrow> fits fs is_histogram name vs)"

text \<open>The value of a gauge after some calls, 0 before the first \<open>Set\<close>; the count of a counter; the sum of a histogram.\<close>

primrec gauge_value :: "string \<Rightarrow> string list \<Rightarrow> metric_call list \<Rightarrow> rat \<Rightarrow> rat" where
  "gauge_value name vs [] r = r"
| "gauge_value name vs (c # cs) r = gauge_value name vs cs (case c of Set_Gauge n ws x \<Rightarrow> if n = name \<and> ws = vs then x else r | _ \<Rightarrow> r)"

definition counter_value :: "string \<Rightarrow> string list \<Rightarrow> metric_call list \<Rightarrow> nat" where
  "counter_value name vs cs = length (filter (\<lambda>c. c = Increment name vs) cs)"

primrec histogram_sum :: "string \<Rightarrow> metric_call list \<Rightarrow> rat" where
  "histogram_sum name [] = 0"
| "histogram_sum name (c # cs) = (case c of Observe n _ x \<Rightarrow> if n = name then x else 0 | _ \<Rightarrow> 0) + histogram_sum name cs"

section \<open>The collectors\<close>

text \<open>\<open>sql.DBStats\<close>: the counts of connections, and the waits since the start.\<close>

record db_stats =
  ds_open :: int
  ds_in_use :: int
  ds_idle :: int
  ds_max_open :: int
  ds_wait_count :: int
  ds_wait_duration :: duration

definition collectDBStats :: "db_stats option \<Rightarrow> metric_call list" where
  "collectDBStats stats =
     (case stats of
        None \<Rightarrow> []
      | Some s \<Rightarrow>
          [Set_Gauge ''db_connections_open'' [] (of_int (ds_open s)), Set_Gauge ''db_connections_in_use'' [] (of_int (ds_in_use s)),
           Set_Gauge ''db_connections_idle'' [] (of_int (ds_idle s)), Set_Gauge ''db_max_open_connections'' [] (of_int (ds_max_open s)),
           Set_Gauge ''db_stats'' [''wait_count''] (of_int (ds_wait_count s))] @
          (if 0 < ds_wait_duration s
           then [Observe ''db_connections_wait_duration_seconds'' [] (of_int (ds_wait_duration s) / of_int second)] else []) @
          [Set_Gauge ''db_stats'' [''open_connections''] (of_int (ds_open s)), Set_Gauge ''db_stats'' [''in_use''] (of_int (ds_in_use s)),
           Set_Gauge ''db_stats'' [''idle''] (of_int (ds_idle s)), Set_Gauge ''db_stats'' [''max_open_connections''] (of_int (ds_max_open s))])"

text \<open>The state and the numbers are read one after the other, so they may come from different moments.\<close>

definition collectCircuitBreakerStats :: "(string \<times> http_circuit_state \<times> http_breaker_stats) option \<Rightarrow> metric_call list" where
  "collectCircuitBreakerStats cb =
     (case cb of
        None \<Rightarrow> []
      | Some (name, state, stats) \<Rightarrow>
          map (\<lambda>s. Set_Gauge ''circuit_breaker_state'' [name, s] 0) [''closed'', ''open'', ''half-open''] @
          [Set_Gauge ''circuit_breaker_state'' [name, http_circuit_state_String state] 1,
           Set_Gauge ''circuit_breaker_half_open_requests'' [name] (of_int (hs_failures stats)),
           Set_Gauge ''circuit_breaker_half_open_requests'' [name] (of_int (hs_half_open_reqs stats))])"

text \<open>The loop of a collector: one round for each tick before the stop channel is closed.\<close>

definition collector_rounds :: "('a \<Rightarrow> metric_call list) \<Rightarrow> 'a list \<Rightarrow> metric_call list" where
  "collector_rounds collect ticks = concat (map collect ticks)"

section \<open>The calls of the service\<close>

definition request_metric :: "string \<Rightarrow> string \<Rightarrow> int \<Rightarrow> metric_call" where
  "request_metric path method status = Increment ''http_requests_total'' [path, method, string_of_int status]"

definition registration_metric :: "bool \<Rightarrow> metric_call" where
  "registration_metric ok = Increment ''auth_registrations_total'' [if ok then ''success'' else ''failure'']"

definition login_metric :: "bool \<Rightarrow> metric_call" where
  "login_metric ok = Increment ''auth_logins_total'' [if ok then ''success'' else ''failure'']"

definition skipped_metrics :: "string \<Rightarrow> metric_call list" where
  "skipped_metrics ty = [Increment ''worker_jobs_processed_by_type_total'' [ty, ''skipped'']]"

definition dead_metrics :: "string \<Rightarrow> rat \<Rightarrow> metric_call list" where
  "dead_metrics ty secs =
     [Increment ''worker_jobs_failed_by_type_total'' [ty], Increment ''worker_jobs_dead_letter_by_type_total'' [],
      Observe ''worker_job_duration_by_type_seconds'' [ty, ''failed''] secs]"

definition retry_metrics :: "string \<Rightarrow> rat \<Rightarrow> metric_call list" where
  "retry_metrics ty secs =
     [Increment ''worker_jobs_failed_by_type_total'' [ty], Observe ''worker_job_duration_by_type_seconds'' [ty, ''retry_scheduled''] secs]"

definition success_metrics :: "string \<Rightarrow> rat \<Rightarrow> metric_call list" where
  "success_metrics ty secs =
     [Increment ''worker_jobs_processed_by_type_total'' [ty, ''success''], Increment ''worker_jobs_succeeded_total'' [ty],
      Observe ''worker_job_duration_by_type_seconds'' [ty, ''success''] secs]"

definition stale_metrics :: "string \<Rightarrow> metric_call list" where
  "stale_metrics ty = [Increment ''worker_jobs_failed_by_type_total'' [ty]]"

definition scaling_metrics :: "bool \<Rightarrow> metric_call list" where
  "scaling_metrics up = [Increment ''worker_scaling_events_total'' [if up then ''up'' else ''down'']]"

text \<open>One round of \<open>collectHourlyMetrics\<close> on the rows of the hour.\<close>

definition null_int :: "int option \<Rightarrow> rat" where
  "null_int v = (case v of None \<Rightarrow> 0 | Some n \<Rightarrow> of_int n)"

definition throughput_metrics :: "job_metrics_hourly list \<Rightarrow> metric_call list" where
  "throughput_metrics rows =
     concat (map (\<lambda>m. [Set_Gauge ''worker_throughput_per_hour'' [jm_job_type m, ''succeeded''] (null_int (jm_total_succeeded m)),
       Set_Gauge ''worker_throughput_per_hour'' [jm_job_type m, ''failed''] (null_int (jm_total_failed m))]) rows)"

section \<open>What they show\<close>

definition all_metrics :: "family list" where
  "all_metrics = platform_metrics @ worker_metrics"

lemmas metric_tables = all_metrics_def platform_metrics_def service_metrics_def system_metrics_def worker_metrics_def

lemma metric_names_distinct: "distinct (map fst all_metrics)"
  by code_simp

lemma fits_platform:
  "fits all_metrics (\<lambda>k. k = Gauge) ''db_connections_open'' []" "fits all_metrics (\<lambda>k. k = Gauge) ''db_connections_in_use'' []"
  "fits all_metrics (\<lambda>k. k = Gauge) ''db_connections_idle'' []" "fits all_metrics (\<lambda>k. k = Gauge) ''db_max_open_connections'' []"
  "fits all_metrics (\<lambda>k. k = Gauge) ''db_stats'' [v]" "fits all_metrics is_histogram ''db_connections_wait_duration_seconds'' []"
  "fits all_metrics (\<lambda>k. k = Gauge) ''circuit_breaker_state'' [v, w]" "fits all_metrics (\<lambda>k. k = Gauge) ''circuit_breaker_half_open_requests'' [v]"
  "fits all_metrics (\<lambda>k. k = Counter) ''http_requests_total'' [v, w, x]" "fits all_metrics (\<lambda>k. k = Counter) ''auth_registrations_total'' [v]"
  "fits all_metrics (\<lambda>k. k = Counter) ''auth_logins_total'' [v]"
  by (simp_all add: fits_def metric_tables is_histogram_def)

lemma fits_worker:
  "fits all_metrics (\<lambda>k. k = Counter) ''worker_jobs_processed_by_type_total'' [v, w]" "fits all_metrics (\<lambda>k. k = Counter) ''worker_jobs_succeeded_total'' [v]"
  "fits all_metrics (\<lambda>k. k = Counter) ''worker_jobs_failed_by_type_total'' [v]" "fits all_metrics (\<lambda>k. k = Counter) ''worker_jobs_dead_letter_by_type_total'' []"
  "fits all_metrics is_histogram ''worker_job_duration_by_type_seconds'' [v, w]" "fits all_metrics (\<lambda>k. k = Counter) ''worker_scaling_events_total'' [v]"
  "fits all_metrics (\<lambda>k. k = Gauge) ''worker_throughput_per_hour'' [v, w]"
  by (simp_all add: fits_def metric_tables is_histogram_def)

lemma db_calls_ok: "list_all (call_ok all_metrics) (collectDBStats stats)"
  by (simp add: collectDBStats_def call_ok_def fits_platform split: option.split)

lemma breaker_calls_ok: "list_all (call_ok all_metrics) (collectCircuitBreakerStats cb)"
  by (auto simp: collectCircuitBreakerStats_def call_ok_def fits_platform split: option.split)

lemma collector_calls_ok: "(\<And>t. list_all (call_ok fs) (collect t)) \<Longrightarrow> list_all (call_ok fs) (collector_rounds collect ticks)"
  by (auto simp: collector_rounds_def list_all_iff)

lemma rounds_ok:
  "list_all (call_ok all_metrics) (collector_rounds collectDBStats stats)"
  "list_all (call_ok all_metrics) (collector_rounds collectCircuitBreakerStats breakers)"
  by (rule collector_calls_ok, rule db_calls_ok breaker_calls_ok)+

lemma throughput_calls_ok: "list_all (call_ok all_metrics) (throughput_metrics rows)"
  by (auto simp: throughput_metrics_def call_ok_def fits_worker list_all_iff)


text \<open>A second worker in the same process registers its families again.\<close>

lemma second_worker_panics: "\<not> distinct (map fst (all_metrics @ worker_metrics))"
  by (simp add: metric_tables)

lemma gauge_value_append: "gauge_value name vs (cs @ ds) r = gauge_value name vs ds (gauge_value name vs cs r)"
  by (induction cs arbitrary: r) simp_all

text \<open>After every round exactly the gauge of the breaker's state is 1 and the other two are 0, and the gauge of half-open requests
  shows them; the failures written to the same gauge a moment before are lost, and no counter of failures is ever incremented.\<close>

theorem breaker_gauges_show_state:
  "(\<forall>st. gauge_value ''circuit_breaker_state'' [name, http_circuit_state_String st]
       (collector_rounds collectCircuitBreakerStats (earlier @ [Some (name, state, stats)])) r = (if st = state then 1 else 0)) \<and>
   gauge_value ''circuit_breaker_half_open_requests'' [name]
       (collector_rounds collectCircuitBreakerStats (earlier @ [Some (name, state, stats)])) r = of_int (hs_half_open_reqs stats) \<and>
   counter_value ''circuit_breaker_failures_total'' [name] (collector_rounds collectCircuitBreakerStats breakers) = 0"
proof (intro conjI allI)
  fix st
  show "gauge_value ''circuit_breaker_state'' [name, http_circuit_state_String st]
       (collector_rounds collectCircuitBreakerStats (earlier @ [Some (name, state, stats)])) r = (if st = state then 1 else 0)"
    by (cases st; cases state) (simp_all add: collector_rounds_def gauge_value_append collectCircuitBreakerStats_def)
qed (auto simp: collector_rounds_def gauge_value_append collectCircuitBreakerStats_def counter_value_def filter_empty_conv split: option.splits)

lemma histogram_sum_append: "histogram_sum name (cs @ ds) = histogram_sum name cs + histogram_sum name ds"
  by (induction cs) simp_all

text \<open>The wait for connections is counted again in every round: with one wait and then none, the published sum grows by that wait
  every ten seconds for ever.\<close>

theorem waits_counted_every_round:
  "histogram_sum ''db_connections_wait_duration_seconds'' (collector_rounds collectDBStats (replicate n (Some s))) =
     of_nat n * (if 0 < ds_wait_duration s then of_int (ds_wait_duration s) / of_int second else 0)"
  by (induction n) (auto simp: collector_rounds_def histogram_sum_append collectDBStats_def algebra_simps)

end
