(* ===== verification/Access_Log.thy ===== *)
theory Access_Log
  imports Metrics Log_Level Middleware
begin

text \<open>
  What the server records of each request (\<open>middleware/logger.go\<close>, \<open>middleware/tracing.go\<close>, \<open>logging.go\<close>, \<open>tracing.go\<close>): one record
  in the log with the status and size its response writer counted, one increment of the request counter, and one span. slog
  and OpenTelemetry are libraries; records and spans are what is handed to them.
\<close>

section \<open>Events and loggers\<close>

datatype log_value = LString string | LInt int | LMillis rat

type_synonym attrs = "(string \<times> log_value) list"

text \<open>An event collects attributes, in the order they are added.\<close>

definition event_Add :: "attrs \<Rightarrow> attrs \<Rightarrow> attrs" where
  "event_Add new e = e @ new"

text \<open>\<open>AddToEvent\<close> on the event of the context, if it has one.\<close>

definition AddToEvent :: "attrs \<Rightarrow> attrs option \<Rightarrow> attrs option" where
  "AddToEvent new e = map_option (event_Add new) e"

record log_entry =
  en_level :: int
  en_message :: string
  en_attrs :: attrs

record logger =
  lg_level :: int
  lg_with :: attrs

text \<open>\<open>NewLogger\<close>: the level of the process if there is one, else the one asked for; \<open>version\<close> is the variable VERSION.\<close>

definition NewLogger :: "unicode \<Rightarrow> int option \<Rightarrow> string \<Rightarrow> string \<Rightarrow> logger" where
  "NewLogger u global version level =
     \<lparr>lg_level = (case global of Some l \<Rightarrow> l | None \<Rightarrow> parseLogLevel u level),
      lg_with = [(''version'', LString (if version = '''' then ''dev'' else version)), (''service'', LString ''goth-api'')]\<rparr>"

definition log_record :: "logger \<Rightarrow> int \<Rightarrow> string \<Rightarrow> attrs \<Rightarrow> log_entry list \<Rightarrow> log_entry list" where
  "log_record lg level msg as es =
     (if level_Enabled (lg_level lg) level then es @ [\<lparr>en_level = level, en_message = msg, en_attrs = lg_with lg @ as\<rparr>] else es)"

section \<open>The response writer of the log\<close>

text \<open>What a handler does with its writer and its event; of the bytes written \<open>n\<close> are taken, fewer when the client is gone.\<close>

datatype call = Set_Header string string | Write_Header int | Write string nat | Add_Attrs attrs

definition plain_call :: "call \<Rightarrow> writer \<Rightarrow> writer" where
  "plain_call c w =
     (case c of
        Set_Header k v \<Rightarrow> set_header k v w
      | Write_Header code \<Rightarrow> write_header code w
      | Write b n \<Rightarrow> write_body (take n b) w
      | Add_Attrs _ \<Rightarrow> w)"

record response_writer =
  rw_inner :: writer
  rw_status :: int
  rw_size :: nat
  rw_wroteHeader :: bool

definition rw_WriteHeader :: "int \<Rightarrow> response_writer \<Rightarrow> response_writer" where
  "rw_WriteHeader code rw =
     (if rw_wroteHeader rw then rw
      else rw\<lparr>rw_status := code, rw_wroteHeader := True, rw_inner := write_header code (rw_inner rw)\<rparr>)"

definition rw_Write :: "string \<Rightarrow> nat \<Rightarrow> response_writer \<Rightarrow> response_writer" where
  "rw_Write b n rw =
     (let rw1 = (if rw_wroteHeader rw then rw else rw_WriteHeader 200 rw)
      in rw1\<lparr>rw_inner := write_body (take n b) (rw_inner rw1), rw_size := rw_size rw1 + length (take n b)\<rparr>)"

definition wrap :: "writer \<Rightarrow> response_writer" where
  "wrap w = \<lparr>rw_inner = w, rw_status = 200, rw_size = 0, rw_wroteHeader = False\<rparr>"

definition rw_call :: "call \<Rightarrow> response_writer \<times> attrs \<Rightarrow> response_writer \<times> attrs" where
  "rw_call c = (\<lambda>(rw, e).
     (case c of
        Set_Header k v \<Rightarrow> (rw\<lparr>rw_inner := set_header k v (rw_inner rw)\<rparr>, e)
      | Write_Header code \<Rightarrow> (rw_WriteHeader code rw, e)
      | Write b n \<Rightarrow> (rw_Write b n rw, e)
      | Add_Attrs as \<Rightarrow> (rw, event_Add as e)))"

text \<open>The wrapped writer sends what the plain one would, and counts it.\<close>

definition counts :: "writer \<Rightarrow> response_writer \<Rightarrow> bool" where
  "counts w rw \<longleftrightarrow>
     rw_inner rw = w \<and> rw_status rw = answered w \<and> rw_size rw = length (w_body w) \<and> (rw_wroteHeader rw \<longleftrightarrow> w_status w \<noteq> None)"

lemma counts_call: "counts w rw \<Longrightarrow> counts (plain_call c w) (fst (rw_call c (rw, e)))"
  by (cases c)
    (auto simp: counts_def plain_call_def rw_call_def rw_WriteHeader_def rw_Write_def Let_def set_header_def write_header_def
      write_body_def answered_def)

lemma counts_calls: "counts w (fst re) \<Longrightarrow> counts (fold plain_call cs w) (fst (fold rw_call cs re))"
proof (induction cs arbitrary: w re)
  case (Cons c cs)
  from Cons.IH [OF counts_call [OF Cons.prems, of c "snd re"]] show ?case by simp
qed simp

lemma counts_wrap: "w_status w = None \<Longrightarrow> w_body w = [] \<Longrightarrow> counts w (wrap w)"
  by (simp add: counts_def wrap_def answered_def)

lemma events_kept: "snd (fold rw_call cs re) = snd re @ concat (map (\<lambda>c. case c of Add_Attrs as \<Rightarrow> as | _ \<Rightarrow> []) cs)"
  by (induction cs arbitrary: re) (auto simp: rw_call_def event_Add_def split: call.split)

section \<open>Spans\<close>

text \<open>The status of a span is an error with a text, or unset; a span records until it ends.\<close>

record span =
  sp_name :: string
  sp_attrs :: "(string \<times> string) list"
  sp_status :: "(bool \<times> string) option"
  sp_errors :: "string list"
  sp_ended :: bool

definition StartSpan :: "string \<Rightarrow> span" where
  "StartSpan name = \<lparr>sp_name = name, sp_attrs = [], sp_status = None, sp_errors = [], sp_ended = False\<rparr>"

definition if_recording :: "(span \<Rightarrow> span) \<Rightarrow> span \<Rightarrow> span" where
  "if_recording f sp = (if sp_ended sp then sp else f sp)"

definition AddSpanAttributes :: "(string \<times> string) list \<Rightarrow> span \<Rightarrow> span" where
  "AddSpanAttributes as = if_recording (\<lambda>sp. sp\<lparr>sp_attrs := sp_attrs sp @ as\<rparr>)"

definition span_RecordError :: "string \<Rightarrow> span \<Rightarrow> span" where
  "span_RecordError e = if_recording (\<lambda>sp. sp\<lparr>sp_errors := sp_errors sp @ [e], sp_status := Some (True, e)\<rparr>)"

definition RecordErrorWithAttributes :: "string \<Rightarrow> (string \<times> string) list \<Rightarrow> span \<Rightarrow> span" where
  "RecordErrorWithAttributes e as = if_recording (\<lambda>sp. AddSpanAttributes as (span_RecordError e sp))"

definition SetSpanStatus :: "bool \<Rightarrow> string \<Rightarrow> span \<Rightarrow> span" where
  "SetSpanStatus is_error text = if_recording (\<lambda>sp. sp\<lparr>sp_status := Some (is_error, text)\<rparr>)"

definition EndSpan :: "string option \<Rightarrow> span \<Rightarrow> span" where
  "EndSpan err sp =
     (case err of
        None \<Rightarrow> sp
      | Some e \<Rightarrow> sp\<lparr>sp_status := Some (True, e), sp_errors := sp_errors sp @ [e]\<rparr>)\<lparr>sp_ended := True\<rparr>"

text \<open>\<open>WithSpanAndResult\<close>, and \<open>WithSpan\<close> for a function that gives no value; \<open>ms\<close> is the elapsed time as text.\<close>

definition WithSpanAndResult :: "string \<Rightarrow> string \<Rightarrow> (string option \<times> 'a) \<Rightarrow> (string option \<times> 'a) \<times> span" where
  "WithSpanAndResult name ms result =
     (let sp = AddSpanAttributes [(''duration_ms'', ms)] (StartSpan name);
          sp' = (case fst result of None \<Rightarrow> sp | Some e \<Rightarrow> span_RecordError e sp)
      in (result, sp'\<lparr>sp_ended := True\<rparr>))"

definition WithSpan :: "string \<Rightarrow> string \<Rightarrow> string option \<Rightarrow> string option \<times> span" where
  "WithSpan name ms err = apfst fst (WithSpanAndResult name ms (err, ()))"

text \<open>A span's result is its function's, and it ends, marked as failed exactly when the function failed.\<close>

lemma WithSpan_marks:
  "fst (WithSpan name ms err) = err \<and> sp_ended (snd (WithSpan name ms err)) \<and>
   sp_status (snd (WithSpan name ms err)) = map_option (Pair True) err \<and> sp_errors (snd (WithSpan name ms err)) = (case err of None \<Rightarrow> [] | Some e \<Rightarrow> [e])"
  by (cases err) (simp_all add: WithSpan_def WithSpanAndResult_def StartSpan_def AddSpanAttributes_def span_RecordError_def if_recording_def Let_def)

section \<open>Set-up of tracing\<close>

datatype exporter = No_Exporter | Stdout_Exporter | Otlp_Http string | Otlp_Grpc string

datatype sampler = AlwaysSample | TraceIDRatioBased rat

record tracing_config =
  tc_ServiceName :: string
  tc_Endpoint :: string
  tc_Protocol :: string
  tc_SampleRate :: rat
  tc_UseStdout :: bool

record tracing =
  tr_exporter :: exporter
  tr_service :: string
  tr_env :: string
  tr_sampler :: sampler

text \<open>The exporter and the resource are made by the library, which may fail; \<open>app_env\<close> is the variable APP_ENV.\<close>

definition tracing_exporter :: "tracing_config \<Rightarrow> exporter" where
  "tracing_exporter cfg =
     (if tc_UseStdout cfg then Stdout_Exporter
      else if tc_Endpoint cfg \<noteq> '''' then
        (if tc_Protocol cfg = ''http'' then Otlp_Http (tc_Endpoint cfg) else Otlp_Grpc (tc_Endpoint cfg))
      else No_Exporter)"

definition tracing_Init :: "(exporter \<Rightarrow> string option) \<Rightarrow> (string \<Rightarrow> string \<Rightarrow> string option) \<Rightarrow> string \<Rightarrow> tracing_config \<Rightarrow> string + tracing" where
  "tracing_Init make_exporter make_resource app_env cfg =
     (let ex = tracing_exporter cfg;
          service = (if tc_ServiceName cfg = '''' then ''goth'' else tc_ServiceName cfg);
          env = (if app_env = '''' then ''dev'' else app_env) in
      case (if ex = No_Exporter then None else make_exporter ex) of
        Some e \<Rightarrow> Inl ((case ex of Stdout_Exporter \<Rightarrow> ''failed to create stdout exporter: '' | _ \<Rightarrow> ''failed to create OTLP exporter: '') @ e)
      | None \<Rightarrow>
          (case make_resource service env of
             Some e \<Rightarrow> Inl (''failed to create resource: '' @ e)
           | None \<Rightarrow>
               Inr \<lparr>tr_exporter = ex, tr_service = service, tr_env = env,
                 tr_sampler = (if 0 < tc_SampleRate cfg \<and> tc_SampleRate cfg < 1 then TraceIDRatioBased (tc_SampleRate cfg) else AlwaysSample)\<rparr>))"

text \<open>\<open>HTTPCarrier\<close>\<close>

definition carrier_Get :: "string \<Rightarrow> (string \<rightharpoonup> string) \<Rightarrow> string" where
  "carrier_Get k c = (case c k of None \<Rightarrow> '''' | Some v \<Rightarrow> v)"

definition carrier_Set :: "string \<Rightarrow> string \<Rightarrow> (string \<rightharpoonup> string) \<Rightarrow> (string \<rightharpoonup> string)" where
  "carrier_Set k v c = c(k \<mapsto> v)"

section \<open>The middlewares\<close>

record observed =
  ob_level :: "int option"
  ob_log :: "log_entry list"
  ob_metrics :: "metric_call list"
  ob_spans :: "span list"

text \<open>A handler as the calls it makes, and the surroundings: what \<open>uuid.New\<close>, the tracing library and the clock give for a request.\<close>

type_synonym 's program = "request \<Rightarrow> ctx \<Rightarrow> 's \<Rightarrow> bool \<times> call list \<times> 's"

record recorder =
  re_unicode :: unicode
  re_version :: string
  re_uuid :: "request \<Rightarrow> string"
  re_trace_id :: "request \<Rightarrow> string"
  re_span_id :: "request \<Rightarrow> string"
  re_millis :: "request \<Rightarrow> rat"
  re_url :: "request \<Rightarrow> string"

definition run_program :: "'s program \<Rightarrow> 's handler" where
  "run_program prog rq cx ws = (case ws of (w, s) \<Rightarrow> (case prog rq cx s of (p, cs, s') \<Rightarrow> (p, fold plain_call cs w, s')))"

definition request_attrs :: "recorder \<Rightarrow> request \<Rightarrow> ctx \<Rightarrow> attrs" where
  "request_attrs re rq cx =
     [(''request_id'', LString (if GetRequestID cx = '''' then re_uuid re rq else GetRequestID cx)),
      (''trace_id'', LString (re_trace_id re rq)), (''span_id'', LString (re_span_id re rq)),
      (''method'', LString (rq_method rq)), (''path'', LString (rq_path rq)), (''remote_addr'', LString (rq_remote rq)),
      (''user_agent'', LString (rq_header rq ''User-Agent''))]"

text \<open>The logger of the context is put there further in, so the one used here is \<open>logging.New("info")\<close>.\<close>

definition Logger :: "recorder \<Rightarrow> 's program \<Rightarrow> ('s \<times> observed) handler" where
  "Logger re prog rq cx ws =
     (case ws of (w, s, ob) \<Rightarrow>
        (case prog rq cx s of (p, cs, s') \<Rightarrow>
           (case fold rw_call cs (wrap w, event_Add (request_attrs re rq cx) []) of (rw, e) \<Rightarrow>
              if p then (True, rw_inner rw, s', ob)
              else
                let attrs = event_Add [(''status'', LInt (rw_status rw)), (''size'', LInt (int (rw_size rw))), (''duration_ms'', LMillis (re_millis re rq))] e;
                    level = (if 500 \<le> rw_status rw then level_error else level_info)
                in (False, rw_inner rw, s',
                    ob\<lparr>ob_metrics := ob_metrics ob @ [request_metric (rq_path rq) (rq_method rq) (rw_status rw)],
                       ob_log := log_record (NewLogger (re_unicode re) (ob_level ob) (re_version re) ''info'') level ''request completed'' attrs (ob_log ob)\<rparr>))))"

definition request_span :: "recorder \<Rightarrow> request \<Rightarrow> span" where
  "request_span re rq =
     (AddSpanAttributes [(''http.method'', rq_method rq), (''http.url'', re_url re rq), (''http.host'', rq_host rq), (''http.route'', rq_path rq),
        (''user_agent'', rq_header rq ''User-Agent'')] (StartSpan (''HTTP '' @ rq_method rq)))\<lparr>sp_ended := True\<rparr>"

text \<open>The span ends by \<open>defer\<close>, a panic or not.\<close>

definition Tracing :: "recorder \<Rightarrow> ('s \<times> observed) handler \<Rightarrow> ('s \<times> observed) handler" where
  "Tracing re h rq cx ws =
     (case h rq cx ws of (p, w, s, ob) \<Rightarrow> (p, w, s, ob\<lparr>ob_spans := ob_spans ob @ [request_span re rq]\<rparr>))"

section \<open>What is recorded\<close>

definition request_logger :: "recorder \<Rightarrow> observed \<Rightarrow> logger" where
  "request_logger re ob = NewLogger (re_unicode re) (ob_level ob) (re_version re) ''info''"

definition answer_level :: "writer \<Rightarrow> int" where
  "answer_level w = (if 500 \<le> answered w then level_error else level_info)"

lemma Logger_returns:
  assumes "w_status w = None" and "w_body w = []" and "prog rq cx s = (False, cs, s')"
  shows "\<exists>e. Logger re prog rq cx (w, s, ob) =
    (False, fold plain_call cs w, s',
     ob\<lparr>ob_metrics := ob_metrics ob @ [request_metric (rq_path rq) (rq_method rq) (answered (fold plain_call cs w))],
        ob_log := log_record (request_logger re ob) (answer_level (fold plain_call cs w)) ''request completed''
          (request_attrs re rq cx @ e @ [(''status'', LInt (answered (fold plain_call cs w))),
             (''size'', LInt (int (length (w_body (fold plain_call cs w))))), (''duration_ms'', LMillis (re_millis re rq))]) (ob_log ob)\<rparr>)"
proof -
  obtain rw e where f: "fold rw_call cs (wrap w, event_Add (request_attrs re rq cx) []) = (rw, e)" by force
  have "counts (fold plain_call cs w) rw"
    using counts_calls [of w "(wrap w, event_Add (request_attrs re rq cx) [])" cs] counts_wrap [OF assms(1,2)] f by simp
  moreover obtain e' where "e = request_attrs re rq cx @ e'"
    using events_kept [of cs "(wrap w, event_Add (request_attrs re rq cx) [])"] f by (simp add: event_Add_def)
  ultimately show ?thesis
    using f assms(3) by (intro exI [of _ e']) (simp add: Logger_def counts_def Let_def event_Add_def answer_level_def request_logger_def)
qed


text \<open>A request whose handler panics is answered by \<open>Recovery\<close>, with 500 unless the handler had begun to answer, and is
  neither logged nor counted; its span ends without the mark of an error.\<close>

theorem panic_goes_unrecorded:
  assumes "fst (prog rq cx s) = True" and "w_status w = None" and "w_body w = []"
    and "Recovery (Tracing re (Logger re prog)) rq cx (w, s, ob) = (p, w', s', ob')"
  shows "p = False \<and> ob_log ob' = ob_log ob \<and> ob_metrics ob' = ob_metrics ob \<and>
    (\<exists>sp. ob_spans ob' = ob_spans ob @ [sp] \<and> sp_ended sp \<and> sp_status sp = None) \<and>
    (fst (snd (prog rq cx s)) = [] \<longrightarrow> answered w' = 500)"
proof -
  obtain cs s1 where pr: "prog rq cx s = (True, cs, s1)" using assms(1) by (cases "prog rq cx s") simp
  obtain rw e where f: "fold rw_call cs (wrap w, event_Add (request_attrs re rq cx) []) = (rw, e)" by force
  from pr f assms(4) have "p = False" "ob' = ob\<lparr>ob_spans := ob_spans ob @ [request_span re rq]\<rparr>"
    "w' = write_body ''Internal Server Error'' (write_header 500 (rw_inner rw))"
    by (auto simp: Recovery_def Tracing_def Logger_def)
  moreover have "sp_ended (request_span re rq) \<and> sp_status (request_span re rq) = None"
    by (simp add: request_span_def AddSpanAttributes_def if_recording_def StartSpan_def)
  moreover have "cs = [] \<Longrightarrow> rw_inner rw = w" using f by (auto simp: wrap_def)
  ultimately show ?thesis using pr assms(2)
    by (auto simp: write_body_def write_header_def answered_def Let_def)
qed

text \<open>The request id is set further in (\<open>RequestID\<close> runs inside the log), so the logged one is fresh and not the one of the answer.\<close>

lemma logged_request_id: "cx_request_id cx = None \<Longrightarrow> map_of (request_attrs re rq cx) ''request_id'' = Some (LString (re_uuid re rq))"
  by (simp add: request_attrs_def GetRequestID_def)

text \<open>Every path a client asks for makes a series of its own, whether there is a route for it or not.\<close>

lemma paths_make_series: "request_metric p m c = request_metric p' m' c' \<Longrightarrow> p = p'"
  by (simp add: request_metric_def)

definition demo_recorder :: recorder where
  "demo_recorder =
     \<lparr>re_unicode = plain_unicode, re_version = '''', re_uuid = (\<lambda>_. ''id''), re_trace_id = (\<lambda>_. ''t''), re_span_id = (\<lambda>_. ''s''), re_millis = (\<lambda>_. 1),
      re_url = rq_path\<rparr>"

definition not_found_program :: "unit program" where
  "not_found_program rq cx s = (False, [Write_Header 404, Write ''none'' 4, Write_Header 200], s)"

definition nothing_observed :: observed where
  "nothing_observed = \<lparr>ob_level = Some level_info, ob_log = [], ob_metrics = [], ob_spans = []\<rparr>"

definition demo_request :: request where
  "demo_request =
     \<lparr>rq_method = ''GET'', rq_path = ''/none'', rq_host = ''a.io'', rq_remote = ''10.0.0.9:4711'', rq_header = (\<lambda>_. ''''), rq_cookie = (\<lambda>_. None),
      rq_body = ''''\<rparr>"

lemma digits_404: "string_of_int 404 = ''404''"
  by code_simp


theorem panic_goes_unrecorded_witness:
  "ob_metrics (snd (snd (snd (Recovery (Tracing demo_recorder (Logger demo_recorder (\<lambda>rq cx s. (True, [], s)))) demo_request no_context
     (fresh_writer, (), nothing_observed))))) = []"
proof -
  let ?prog = "\<lambda>rq cx s. (True, [], s)"
  obtain p w' s' ob' where t: "Recovery (Tracing demo_recorder (Logger demo_recorder ?prog)) demo_request no_context (fresh_writer, (), nothing_observed)
      = (p, w', s', ob')" by (metis prod.exhaust)
  have fresh: "w_status fresh_writer = None" "w_body fresh_writer = []" by (simp_all add: fresh_writer_def)
  from panic_goes_unrecorded [where prog = ?prog and rq = demo_request and cx = no_context and s = "()", OF _ fresh t] t
  show ?thesis by (simp add: nothing_observed_def)
qed

end
