(* ===== verification/Sitemap.thy ===== *)
theory Sitemap
  imports Routes
begin

text \<open>
  What the site tells crawlers (\<open>internal/platform/seo/sitemap.go\<close>): the sitemap as XML and robots.txt, their handlers, and
  readers for both.
\<close>

section \<open>The sitemap\<close>

text \<open>The priority in tenths, as \<open>float32\<close> prints it.\<close>

record sitemap_url =
  su_Loc :: string
  su_LastMod :: string
  su_ChangeFreq :: string
  su_Priority :: nat

record sitemap_config =
  sc_BaseURL :: string
  sc_StaticURLs :: "string list"
  sc_DynamicURLs :: "(string + string list) option"

definition sitemap_DefaultConfig :: sitemap_config where
  "sitemap_DefaultConfig =
     \<lparr>sc_BaseURL = ''https://goth.local'',
      sc_StaticURLs = [''/'', ''/login'', ''/register'', ''/forgot-password'', ''/dashboard'', ''/profile'', ''/settings''],
      sc_DynamicURLs = None\<rparr>"

definition static_url :: "string \<Rightarrow> string \<Rightarrow> string \<Rightarrow> sitemap_url" where
  "static_url stamp base path =
     (let url = \<lparr>su_Loc = base @ path, su_LastMod = stamp, su_ChangeFreq = ''weekly'', su_Priority = 5\<rparr>
      in if path = ''/'' then url\<lparr>su_Priority := 10, su_ChangeFreq := ''daily''\<rparr>
         else if path \<in> {''/login'', ''/register''} then url\<lparr>su_Priority := 8\<rparr>
         else if path \<in> {''/dashboard'', ''/profile'', ''/settings''} then url\<lparr>su_Priority := 6\<rparr>
         else url)"

definition dynamic_url :: "string \<Rightarrow> string \<Rightarrow> string \<Rightarrow> sitemap_url" where
  "dynamic_url stamp base path = \<lparr>su_Loc = base @ path, su_LastMod = stamp, su_ChangeFreq = ''weekly'', su_Priority = 5\<rparr>"

text \<open>\<open>encoding/xml\<close>: text is escaped, a control character becomes U+FFFD; bytes from 0x80 on are part of valid UTF-8.\<close>

definition entities :: "(char \<times> string) list" where
  "entities =
     [(CHR ''&'', ''&amp;''), (CHR ''<'', ''&lt;''), (CHR ''>'', ''&gt;''), (CHR 0x22, ''&#34;''), (CHR 0x27, ''&#39;''),
      (CHR 0x09, ''&#x9;''), (CHR 0x0A, ''&#xA;''), (CHR 0x0D, ''&#xD;'')]"

definition escape_char :: "char \<Rightarrow> string" where
  "escape_char c =
     (case map_of entities c of
        Some e \<Rightarrow> e
      | None \<Rightarrow> if of_char c < (0x20 :: nat) then [CHR 0xEF, CHR 0xBF, CHR 0xBD] else [c])"

definition escape_text :: "string \<Rightarrow> string" where
  "escape_text s = concat (map escape_char s)"

definition priority_text :: "nat \<Rightarrow> string" where
  "priority_text p = (if p = 10 then ''1'' else ''0.'' @ string_of_int (int p))"

definition url_lines :: "sitemap_url \<Rightarrow> string list" where
  "url_lines u =
     [''  <url>'', ''    <loc>'' @ escape_text (su_Loc u) @ ''</loc>'', ''    <lastmod>'' @ escape_text (su_LastMod u) @ ''</lastmod>'',
      ''    <changefreq>'' @ escape_text (su_ChangeFreq u) @ ''</changefreq>'',
      ''    <priority>'' @ priority_text (su_Priority u) @ ''</priority>'', ''  </url>'']"

definition marshal_sitemap :: "sitemap_url list \<Rightarrow> string" where
  "marshal_sitemap us =
     join [CHR 0x0A]
       ((''<urlset xmlns='' @ [CHR 0x22] @ ''http://www.sitemaps.org/schemas/sitemap/0.9'' @ [CHR 0x22] @ ''>'') #
        concat (map url_lines us) @ [''</urlset>''])"

text \<open>\<open>stamp\<close> is the time of the request as text; the result is an error or the document.\<close>

definition sitemap_Generate :: "string \<Rightarrow> sitemap_config option \<Rightarrow> string + string" where
  "sitemap_Generate stamp config =
     (let cfg = (case config of None \<Rightarrow> sitemap_DefaultConfig | Some c \<Rightarrow> c);
          urls = map (static_url stamp (sc_BaseURL cfg)) (sc_StaticURLs cfg)
      in case sc_DynamicURLs cfg of
           None \<Rightarrow> Inr (marshal_sitemap urls)
         | Some (Inl e) \<Rightarrow> Inl (''failed to get dynamic URLs: '' @ e)
         | Some (Inr paths) \<Rightarrow> Inr (marshal_sitemap (urls @ map (dynamic_url stamp (sc_BaseURL cfg)) paths)))"

definition sitemap_Handler :: "string \<Rightarrow> sitemap_config option \<Rightarrow> 's handler" where
  "sitemap_Handler stamp cfg rq cx ws =
     (case ws of (w, s) \<Rightarrow>
        let w1 = set_header ''Cache-Control'' ''public, max-age=3600'' (set_header ''Content-Type'' ''application/xml'' w)
        in case sitemap_Generate stamp cfg of
             Inl _ \<Rightarrow> (False, write_error ''Failed to generate sitemap'' 500 w1, s)
           | Inr data \<Rightarrow> (False, write_body data w1, s))"

section \<open>Reading a sitemap\<close>

function unescape_text :: "string \<Rightarrow> string" where
  "unescape_text [] = []"
| "unescape_text (c # cs) =
     (case find (\<lambda>(k, e). has_prefix (c # cs) e) entities of
        Some (k, e) \<Rightarrow> k # unescape_text (drop (length e - 1) cs)
      | None \<Rightarrow> c # unescape_text cs)"
  by pat_completeness auto
termination by (relation "measure length") auto

definition sitemap_locs :: "string \<Rightarrow> string list" where
  "sitemap_locs doc =
     map (\<lambda>l. unescape_text (take (length l - 15) (drop 9 l))) (filter (\<lambda>l. has_prefix l ''    <loc>'') (split_at (CHR 0x0A) doc))"

definition printable :: "string \<Rightarrow> bool" where
  "printable s = list_all (\<lambda>c. (0x20 :: nat) \<le> of_char c) s"

section \<open>robots.txt\<close>

definition robots_lines :: "string \<Rightarrow> string list" where
  "robots_lines base =
     [''# robots.txt for '' @ base,
      ''User-agent: *'',
      ''Allow: /'',
      ''Disallow: /admin/'',
      ''Disallow: /api/'',
      ''Disallow: /auth/'',
      ''Disallow: /checkout/'',
      ''Disallow: /webhook/'',
      '''',
      ''# Sitemap'',
      ''Sitemap: '' @ base @ ''/sitemap.xml'',
      '''',
      ''# Crawl-delay (optional)'',
      ''Crawl-delay: 1'',
      '''',
      ''# Google specific'',
      ''User-agent: Googlebot'',
      ''Allow: /'',
      ''Allow: /public/'',
      '''',
      ''# Bing specific'',
      ''User-agent: Bingbot'',
      ''Allow: /'',
      ''Allow: /public/'',
      '''',
      ''# Block bad bots'',
      ''User-agent: AhrefsBot'',
      ''Disallow: /'',
      '''',
      ''User-agent: SemrushBot'',
      ''Disallow: /'',
      '''',
      ''User-agent: MJ12bot'',
      ''Disallow: /'',
      '''']"

definition GenerateRobotsTxt :: "sitemap_config option \<Rightarrow> string" where
  "GenerateRobotsTxt config = join [CHR 0x0A] (robots_lines (sc_BaseURL (case config of None \<Rightarrow> sitemap_DefaultConfig | Some c \<Rightarrow> c)))"

definition RobotsHandler :: "sitemap_config option \<Rightarrow> 's handler" where
  "RobotsHandler cfg rq cx ws =
     (case ws of (w, s) \<Rightarrow>
        (False, write_body (GenerateRobotsTxt cfg)
           (set_header ''Cache-Control'' ''public, max-age=86400'' (set_header ''Content-Type'' ''text/plain'' w)), s))"

text \<open>
  The reading of RFC 9309: a group is one or more lines naming a crawler and the rules after them; a crawler takes the groups that
  name it, and those of the star only if there is none. Of the rules whose path is a prefix of an address the longest counts, on a tie
  \<open>Allow\<close>; without any rule an address is allowed.
\<close>

datatype robots_line = Agent string | Rule bool string | Other

definition robots_line :: "string \<Rightarrow> robots_line" where
  "robots_line l =
     (if has_prefix l ''User-agent: '' then Agent (drop 12 l)
      else if has_prefix l ''Allow: '' then Rule True (drop 7 l)
      else if has_prefix l ''Disallow: '' then Rule False (drop 10 l)
      else Other)"

fun rules_for :: "string \<Rightarrow> bool \<Rightarrow> bool \<Rightarrow> robots_line list \<Rightarrow> (bool \<times> string) list" where
  "rules_for ua mine naming [] = []"
| "rules_for ua mine naming (Agent a # ls) = rules_for ua (a = ua \<or> naming \<and> mine) True ls"
| "rules_for ua mine naming (Rule ok p # ls) = (if mine then [(ok, p)] else []) @ rules_for ua mine False ls"
| "rules_for ua mine naming (Other # ls) = rules_for ua mine naming ls"

definition robots_allowed :: "string \<Rightarrow> string \<Rightarrow> string \<Rightarrow> bool" where
  "robots_allowed doc ua path =
     (let ls = map robots_line (split_at (CHR 0x0A) doc);
          rules = (if Agent ua \<in> set ls then rules_for ua False False ls else rules_for ''*'' False False ls);
          hits = filter (\<lambda>(ok, p). has_prefix path p) rules;
          longest = foldr max (map (\<lambda>(ok, p). length p) hits) 0
      in hits = [] \<or> (\<exists>(ok, p)\<in>set hits. length p = longest \<and> ok))"

section \<open>What the sitemap says\<close>

lemma entities_ampersand: "(k, e) \<in> set entities \<Longrightarrow> \<exists>r. e = CHR ''&'' # r"
  by (auto simp: entities_def)

lemma entities_start: "find (\<lambda>(k, e). has_prefix (c # cs) e) entities = Some ke \<Longrightarrow> c = CHR ''&''"
proof -
  assume f: "find (\<lambda>(k, e). has_prefix (c # cs) e) entities = Some ke"
  obtain k e where ke: "ke = (k, e)" by force
  with f have "(k, e) \<in> set entities" "has_prefix (c # cs) e" using find_Some_in [OF f] by simp_all
  moreover obtain r where "e = CHR ''&'' # r" using entities_ampersand [OF \<open>(k, e) \<in> set entities\<close>] by blast
  ultimately show ?thesis by (simp add: has_prefix_def)
qed

lemma markup_chars:
  "list_all (\<lambda>(k, e). (0x20 :: nat) \<le> of_char k \<longrightarrow> k \<in> {CHR ''&'', CHR ''<'', CHR ''>'', CHR 0x22, CHR 0x27}) entities"
  by code_simp

lemma unescape_escape_char:
  assumes "(0x20 :: nat) \<le> of_char c"
  shows "unescape_text (escape_char c @ r) = c # unescape_text r"
proof (cases "map_of entities c")
  case None
  then have "c \<noteq> CHR ''&''" by (auto simp: entities_def)
  then have "find (\<lambda>(k, e). has_prefix (c # r) e) entities = None" using entities_start [of c r] by (meson not_Some_eq)
  with None assms show ?thesis by (simp add: escape_char_def)
next
  case (Some e)
  then have "(c, e) \<in> set entities" by (rule map_of_SomeD)
  with markup_chars assms have "c \<in> {CHR ''&'', CHR ''<'', CHR ''>'', CHR 0x22, CHR 0x27}"
    unfolding list_all_iff by blast
  then show ?thesis
    by (elim insertE emptyE; hypsubst) (simp_all add: escape_char_def entities_def has_prefix_def)
qed

lemma unescape_escape: "printable s \<Longrightarrow> unescape_text (escape_text s) = s"
  by (induction s) (auto simp: escape_text_def printable_def unescape_escape_char)

lemma escape_char_no_newline: "CHR 0x0A \<notin> set (escape_char c)"
proof (cases "map_of entities c")
  case None
  then have "c \<noteq> CHR 0x0A" by (auto simp: entities_def)
  with None show ?thesis by (auto simp: escape_char_def)
next
  case (Some e)
  then have "(c, e) \<in> set entities" by (rule map_of_SomeD)
  then show ?thesis using Some by (auto simp: escape_char_def entities_def)
qed

lemma escape_text_no_newline: "CHR 0x0A \<notin> set (escape_text s)"
  by (simp add: escape_text_def escape_char_no_newline)

lemma priority_no_newline: "CHR 0x0A \<notin> set (priority_text (su_Priority (static_url t b p)))"
  "CHR 0x0A \<notin> set (priority_text (su_Priority (dynamic_url t b p)))"
proof -
  have "CHR 0x0A \<notin> set (priority_text n)" if "n \<in> {5, 6, 8, 10}" for n
    using that by (elim insertE emptyE; hypsubst; code_simp)
  then show "CHR 0x0A \<notin> set (priority_text (su_Priority (static_url t b p)))"
    "CHR 0x0A \<notin> set (priority_text (su_Priority (dynamic_url t b p)))"
    by (auto simp: static_url_def dynamic_url_def Let_def)
qed

lemma url_lines_no_newline:
  "CHR 0x0A \<notin> set (priority_text (su_Priority u)) \<Longrightarrow> l \<in> set (url_lines u) \<Longrightarrow> CHR 0x0A \<notin> set l"
  by (auto simp: url_lines_def escape_text_no_newline)

lemma loc_lines: "filter (\<lambda>l. has_prefix l ''    <loc>'') (url_lines u) = [''    <loc>'' @ escape_text (su_Loc u) @ ''</loc>'']"
  by (simp add: url_lines_def has_prefix_def)

lemma marshal_locs:
  assumes "\<And>u. u \<in> set us \<Longrightarrow> CHR 0x0A \<notin> set (priority_text (su_Priority u)) \<and> printable (su_Loc u)"
  shows "sitemap_locs (marshal_sitemap us) = map su_Loc us"
proof -
  let ?start = "''<urlset xmlns='' @ [CHR 0x22] @ ''http://www.sitemaps.org/schemas/sitemap/0.9'' @ [CHR 0x22] @ ''>''"
  have "CHR 0x0A \<notin> set l" if "l \<in> set (?start # concat (map url_lines us) @ [''</urlset>''])" for l
    using that url_lines_no_newline assms by auto
  then have split: "split_at (CHR 0x0A) (marshal_sitemap us) = ?start # concat (map url_lines us) @ [''</urlset>'']"
    unfolding marshal_sitemap_def by (intro split_join) simp_all
  have "filter (\<lambda>l. has_prefix l ''    <loc>'') (concat (map url_lines us)) = map (\<lambda>u. ''    <loc>'' @ escape_text (su_Loc u) @ ''</loc>'') us"
    by (induction us) (simp_all add: loc_lines)
  moreover have "\<not> has_prefix ?start ''    <loc>''" "\<not> has_prefix ''</urlset>'' ''    <loc>''" by (simp_all add: has_prefix_def)
  ultimately have "filter (\<lambda>l. has_prefix l ''    <loc>'') (split_at (CHR 0x0A) (marshal_sitemap us)) =
      map (\<lambda>u. ''    <loc>'' @ escape_text (su_Loc u) @ ''</loc>'') us"
    unfolding split by (simp only: filter.simps filter_append append_Nil append_Nil2 if_False)
  then show ?thesis
    using assms by (simp add: sitemap_locs_def unescape_escape)
qed

text \<open>The sitemap can be read back: whatever printable addresses are configured, markup characters included, the document lists
  exactly the base address with each static path, in order, and then with each dynamic one.\<close>

theorem sitemap_lists_addresses:
  assumes "printable (sc_BaseURL cfg)" and "list_all printable (sc_StaticURLs cfg)" and "list_all printable paths"
    and "sc_DynamicURLs cfg = Some (Inr paths)"
  shows "\<exists>doc. sitemap_Generate stamp (Some cfg) = Inr doc \<and>
    sitemap_locs doc = map (\<lambda>p. sc_BaseURL cfg @ p) (sc_StaticURLs cfg @ paths)"
proof -
  let ?us = "map (static_url stamp (sc_BaseURL cfg)) (sc_StaticURLs cfg) @ map (dynamic_url stamp (sc_BaseURL cfg)) paths"
  have locs: "su_Loc (static_url t b p) = b @ p" "su_Loc (dynamic_url t b p) = b @ p" for t b p
    by (simp_all add: static_url_def dynamic_url_def Let_def)
  have "CHR 0x0A \<notin> set (priority_text (su_Priority u)) \<and> printable (su_Loc u)" if "u \<in> set ?us" for u
    using that assms(1-3) by (auto simp: priority_no_newline locs printable_def list_all_iff)
  then have "sitemap_locs (marshal_sitemap ?us) = map su_Loc ?us" by (rule marshal_locs)
  with assms(4) show ?thesis by (simp add: sitemap_Generate_def locs o_def)
qed

theorem sitemap_lists_addresses_witness:
  "\<exists>doc. sitemap_Generate ''t'' (Some (sitemap_DefaultConfig\<lparr>sc_DynamicURLs := Some (Inr [''/shop?a=1&b=<2>''])\<rparr>)) = Inr doc \<and>
    last (sitemap_locs doc) = ''https://goth.local/shop?a=1&b=<2>''"
proof -
  let ?cfg = "sitemap_DefaultConfig\<lparr>sc_DynamicURLs := Some (Inr [''/shop?a=1&b=<2>''])\<rparr>"
  have "printable (sc_BaseURL ?cfg)" "list_all printable (sc_StaticURLs ?cfg)" "list_all printable [''/shop?a=1&b=<2>'']"
    "sc_DynamicURLs ?cfg = Some (Inr [''/shop?a=1&b=<2>''])"
    by (simp_all add: sitemap_DefaultConfig_def printable_def)
  from sitemap_lists_addresses [OF this, of "''t''"] show ?thesis
    by (auto simp: sitemap_DefaultConfig_def)
qed

section \<open>What crawlers get\<close>

definition served_page :: "string \<Rightarrow> (guard \<times> endpoint) option" where
  "served_page path = (case mux_answer (server_routes True True) ''GET'' path of Serve t \<Rightarrow> Some t | _ \<Rightarrow> None)"

text \<open>Of the seven pages the sitemap advertises every one has a route of its own, but three are behind the login and send a crawler
  to the login page; and the lines that keep crawlers from the operators' pages do not reach Google and Bing, which have groups of
  their own that allow everything.\<close>

theorem crawlers_get_other_rules:
  "map served_page (sc_StaticURLs sitemap_DefaultConfig) =
     map Some [(Open, Page ''Landing''), (Open, Auth_Page ''LoginForm''), (Open, Auth_Page ''RegisterForm''), (Open, Auth_Page ''ForgotPasswordForm''),
       (Signed_In, User_Page ''Dashboard''), (Signed_In, User_Page ''Profile''), (Signed_In, User_Page ''Settings'')] \<and>
   robots_allowed (GenerateRobotsTxt None) ''Googlebot'' ''/admin/users'' \<and> robots_allowed (GenerateRobotsTxt None) ''Bingbot'' ''/admin/users'' \<and>
   \<not> robots_allowed (GenerateRobotsTxt None) ''DuckDuckBot'' ''/admin/users'' \<and> robots_allowed (GenerateRobotsTxt None) ''DuckDuckBot'' ''/pricing'' \<and>
   \<not> robots_allowed (GenerateRobotsTxt None) ''AhrefsBot'' ''/pricing''"
  by code_simp

end
