(* ===== verification/Request_Helpers.thy ===== *)
theory Request_Helpers
  imports Middleware
begin

text \<open>
  Small functions the pages use: who may edit a post (\<open>internal/policies\<close>), the texts of a language (\<open>internal/platform/i18n\<close>), the
  token of the request (\<open>internal/view/helpers.go\<close>).
\<close>

record post =
  po_id :: int
  po_user_id :: int

definition CanEditPost :: "user \<Rightarrow> post \<Rightarrow> bool" where
  "CanEditPost u p = (if u_role_id u = ''admin'' then True else u_id u = po_user_id p)"

record translation =
  tl_Login :: string
  tl_Email :: string
  tl_Password :: string
  tl_Register :: string
  tl_Welcome :: string
  tl_Dashboard :: string

definition ptBR :: translation where
  "ptBR =
     \<lparr>tl_Login = ''Entrar'', tl_Email = ''E-mail'', tl_Password = ''Senha'', tl_Register = ''Registrar'', tl_Welcome = ''Bem-vindo'',
      tl_Dashboard = ''Painel de Controle''\<rparr>"

definition enUS :: translation where
  "enUS =
     \<lparr>tl_Login = ''Login'', tl_Email = ''Email'', tl_Password = ''Password'', tl_Register = ''Register'', tl_Welcome = ''Welcome'',
      tl_Dashboard = ''Dashboard''\<rparr>"

definition i18n_Get :: "ctx \<Rightarrow> translation" where
  "i18n_Get cx = (case cx_locale cx of Some l \<Rightarrow> if l = ''en'' then enUS else ptBR | None \<Rightarrow> ptBR)"

definition CSRFToken :: "ctx \<Rightarrow> string" where
  "CSRFToken cx = (case cx_csrf cx of Some t \<Rightarrow> t | None \<Rightarrow> '''')"

text \<open>A handler that shows what a function makes of its context.\<close>

definition showing :: "(ctx \<Rightarrow> string) \<Rightarrow> 's handler" where
  "showing f rq cx ws = (False, apfst (write_body (f cx)) ws)"

text \<open>The page is in English exactly for the cookie \<open>lang=en\<close> or, without that cookie, when the browser's first language is
  English; any other cookie, \<open>en-US\<close> too, gives Portuguese.\<close>

theorem language_of_page:
  "Locale (showing (\<lambda>cx. tl_Login (i18n_Get cx))) rq cx (w, s) =
     (False, write_body (if rq_cookie rq ''lang'' = Some ''en'' \<or> rq_cookie rq ''lang'' = None \<and> has_prefix (rq_header rq ''Accept-Language'') ''en''
        then ''Login'' else ''Entrar'') w, s)"
  by (simp add: Locale_def showing_def i18n_Get_def enUS_def ptBR_def split: option.split)

text \<open>The role decides before the owner, whatever the tenant of the post is.\<close>

lemma admin_edits_any_post: "u_role_id u = ''admin'' \<Longrightarrow> CanEditPost u p"
  by (simp add: CanEditPost_def)

lemma others_edit_their_own: "u_role_id u \<noteq> ''admin'' \<Longrightarrow> CanEditPost u p = (u_id u = po_user_id p)"
  by (simp add: CanEditPost_def)

end
