(* ===== verification/Startup.thy ===== *)
theory Startup
  imports Go_Text Database
begin

text \<open>
  How the process gets its database: the start of \<open>RunServer\<close> with the steps that may fail, the settings of SQLite
  (\<open>configureSQLite\<close>, \<open>internal/platform/dbutil\<close>), and the pool of connections they are made on.
\<close>

section \<open>The start of the server\<close>

datatype start_step =
    Load_Config | Init_Logging | Secrets_Manager | Validate_Secrets | Init_Tracing | Open_Database | Ping_Database | Configure_SQLite
  | Make_Directories | Run_Migrations | Rescue_Zombies | Init_RBAC | Default_Roles

text \<open>\<open>Fatal p\<close>: a failure ends \<open>RunServer\<close> with \<open>p\<close> before the error; \<open>Warning m\<close>: it is logged.\<close>

datatype severity = Fatal string | Warning string

definition start_severity :: "start_step \<Rightarrow> severity" where
  "start_severity st =
     (case st of
        Load_Config \<Rightarrow> Fatal ''failed to load config: ''
      | Init_Logging \<Rightarrow> Fatal ''failed to initialize dynamic logging: ''
      | Secrets_Manager \<Rightarrow> Warning ''failed to initialize secrets manager, hot reload disabled''
      | Validate_Secrets \<Rightarrow> Warning ''secret validation warning''
      | Init_Tracing \<Rightarrow> Warning ''failed to initialize tracing''
      | Open_Database \<Rightarrow> Fatal ''failed to open database: ''
      | Ping_Database \<Rightarrow> Fatal ''failed to ping database: ''
      | Configure_SQLite \<Rightarrow> Warning ''failed to configure SQLite optimizations''
      | Make_Directories \<Rightarrow> Fatal ''failed to create storage directories: ''
      | Run_Migrations \<Rightarrow> Fatal ''failed to attempt migrations: ''
      | Rescue_Zombies \<Rightarrow> Warning ''zombie hunter failed''
      | Init_RBAC \<Rightarrow> Warning ''failed to initialize RBAC, using fallback''
      | Default_Roles \<Rightarrow> Warning ''failed to initialize default RBAC roles'')"

definition start_steps :: "start_step list" where
  "start_steps =
     [Load_Config, Init_Logging, Secrets_Manager, Validate_Secrets, Init_Tracing, Open_Database, Ping_Database, Configure_SQLite,
      Make_Directories, Run_Migrations, Rescue_Zombies, Init_RBAC, Default_Roles]"

text \<open>A step that is nested in another one's success is left out when that one failed.\<close>

definition skipped_step :: "start_step \<Rightarrow> start_step list \<Rightarrow> bool" where
  "skipped_step st failed \<longleftrightarrow> st = Validate_Secrets \<and> Secrets_Manager \<in> set failed \<or> st = Default_Roles \<and> Init_RBAC \<in> set failed"

text \<open>\<open>attempt st\<close> is the error of a step, if any; the result is the error of \<open>RunServer\<close>, or the steps that only logged one.\<close>

primrec start_from :: "(start_step \<Rightarrow> string option) \<Rightarrow> start_step list \<Rightarrow> start_step list \<Rightarrow> string + start_step list" where
  "start_from attempt failed [] = Inr failed"
| "start_from attempt failed (st # sts) =
     (if skipped_step st failed then start_from attempt failed sts
      else case attempt st of
        None \<Rightarrow> start_from attempt failed sts
      | Some e \<Rightarrow> (case start_severity st of Fatal p \<Rightarrow> Inl (p @ e) | Warning _ \<Rightarrow> start_from attempt (failed @ [st]) sts))"

definition start_server :: "(start_step \<Rightarrow> string option) \<Rightarrow> string + start_step list" where
  "start_server attempt = start_from attempt [] start_steps"

definition dsn_with_options :: "string \<Rightarrow> string" where
  "dsn_with_options dsn =
     dsn @ (if CHR ''?'' \<in> set dsn then ''&'' else ''?'') @ ''_journal_mode=WAL&_busy_timeout=5000&_synchronous=NORMAL''"

definition fatal :: "start_step \<Rightarrow> bool" where
  "fatal st = (case start_severity st of Fatal _ \<Rightarrow> True | Warning _ \<Rightarrow> False)"

lemma start_from_result:
  "(\<exists>failed'. start_from attempt failed sts = Inr failed') \<longleftrightarrow> (\<forall>st \<in> set sts. fatal st \<longrightarrow> attempt st = None)"
proof (induction sts arbitrary: failed)
  case (Cons st sts)
  have "skipped_step st failed \<Longrightarrow> \<not> fatal st" by (auto simp: skipped_step_def fatal_def start_severity_def)
  with Cons.IH show ?case
    by (auto simp: fatal_def split: option.splits severity.splits)
qed simp

text \<open>The server starts exactly when the six steps that must succeed do: the configuration, the log level, opening and reaching
  the database, the directories and the migrations. Secrets, tracing, the settings of SQLite, the zombies and the roles may all
  fail, and it then runs without them.\<close>

theorem server_starts_iff:
  "(\<exists>failed. start_server attempt = Inr failed) \<longleftrightarrow>
     attempt Load_Config = None \<and> attempt Init_Logging = None \<and> attempt Open_Database = None \<and> attempt Ping_Database = None \<and>
     attempt Make_Directories = None \<and> attempt Run_Migrations = None"
  unfolding start_server_def start_from_result by (simp add: start_steps_def fatal_def start_severity_def)

section \<open>Settings of SQLite\<close>

text \<open>\<open>exec sql args\<close> is the error of a statement with bound parameters, if any, and the state after it.\<close>

type_synonym 's exec = "string \<Rightarrow> int list \<Rightarrow> 's \<Rightarrow> string option \<times> 's"

primrec exec_all :: "'s exec \<Rightarrow> (string \<times> int list) list \<Rightarrow> 's \<Rightarrow> string option \<times> 's" where
  "exec_all exec [] s = (None, s)"
| "exec_all exec (q # qs) s = (case exec (fst q) (snd q) s of (None, s1) \<Rightarrow> exec_all exec qs s1 | (Some e, s1) \<Rightarrow> (Some e, s1))"

definition sqlite_pragmas :: "string list" where
  "sqlite_pragmas =
     [''PRAGMA wal_autocheckpoint=1000'', ''PRAGMA cache_size=-2000'', ''PRAGMA temp_store=MEMORY'', ''PRAGMA mmap_size=268435456'',
      ''PRAGMA synchronous=NORMAL'', ''PRAGMA journal_size_limit=67108864'']"

definition configureSQLite :: "'s exec \<Rightarrow> 's \<Rightarrow> string option \<times> 's" where
  "configureSQLite exec s =
     (case exec ''PRAGMA foreign_keys=ON'' [] s of
        (Some e, s1) \<Rightarrow> (Some (''failed to enable foreign keys: '' @ e), s1)
      | (None, s1) \<Rightarrow> exec_all exec (map (\<lambda>q. (q, [])) sqlite_pragmas) s1)"

record wal_config =
  wc_BusyTimeout :: int
  wc_AutoCheckpoint :: int
  wc_Synchronous :: int

definition DefaultWALConfig :: wal_config where
  "DefaultWALConfig = \<lparr>wc_BusyTimeout = 5000, wc_AutoCheckpoint = 1000, wc_Synchronous = 1\<rparr>"

definition ConfigureWAL :: "'s exec \<Rightarrow> wal_config \<Rightarrow> 's \<Rightarrow> string option \<times> 's" where
  "ConfigureWAL exec cfg =
     exec_all exec
       [(''PRAGMA journal_mode=WAL'', []), (''PRAGMA busy_timeout=?'', [wc_BusyTimeout cfg]),
        (''PRAGMA wal_autocheckpoint=?'', [wc_AutoCheckpoint cfg]), (''PRAGMA synchronous=?'', [wc_Synchronous cfg]),
        (''PRAGMA cache_size=-2000'', []), (''PRAGMA temp_store=MEMORY'', [])]"

text \<open>The grammar of SQLite takes a literal in a \<open>PRAGMA\<close>, and no parameter: such a statement does not compile and does nothing.\<close>

definition pragma_takes_literals :: "'s exec \<Rightarrow> bool" where
  "pragma_takes_literals exec \<longleftrightarrow>
     (\<forall>q args s. has_prefix q ''PRAGMA '' \<and> CHR ''?'' \<in> set q \<longrightarrow> (\<exists>e. exec q args s = (Some e, s)))"

lemma ConfigureWAL_stops:
  assumes "pragma_takes_literals exec"
  shows "\<exists>e. fst (ConfigureWAL exec cfg s) = Some e \<and> snd (ConfigureWAL exec cfg s) = snd (exec ''PRAGMA journal_mode=WAL'' [] s)"
proof -
  obtain r s1 where j: "exec ''PRAGMA journal_mode=WAL'' [] s = (r, s1)" by force
  obtain e where "exec ''PRAGMA busy_timeout=?'' [wc_BusyTimeout cfg] s1 = (Some e, s1)"
    using assms unfolding pragma_takes_literals_def by (force simp: has_prefix_def)
  with j show ?thesis by (cases r) (simp_all add: ConfigureWAL_def)
qed

text \<open>A row of numbers scanned into one variable leaves the last.\<close>

definition scan_into_one :: "int list \<Rightarrow> int" where
  "scan_into_one row = last row"

text \<open>One tick of \<open>StartWALCheckpoint\<close> on the row \<open>busy, log, checkpointed\<close> of the pragma: what is logged.\<close>

datatype checkpoint_log = Checkpoint_Failed | Checkpoint_Busy | Checkpoint_Quiet

definition wal_checkpoint_tick :: "(string + int list) \<Rightarrow> checkpoint_log" where
  "wal_checkpoint_tick row =
     (case row of
        Inl _ \<Rightarrow> Checkpoint_Failed
      | Inr r \<Rightarrow> if scan_into_one r = 1 then Checkpoint_Busy else Checkpoint_Quiet)"

definition GetWALStats :: "(string \<Rightarrow> string + int list) \<Rightarrow> string + (string \<times> int) list" where
  "GetWALStats query =
     (case query ''PRAGMA wal_checkpoint'' of Inl e \<Rightarrow> Inl e | Inr w \<Rightarrow>
      case query ''PRAGMA page_size'' of Inl e \<Rightarrow> Inl e | Inr ps \<Rightarrow>
      case query ''PRAGMA page_count'' of Inl e \<Rightarrow> Inl e | Inr pc \<Rightarrow>
      case query ''PRAGMA freelist_count'' of Inl e \<Rightarrow> Inl e | Inr fc \<Rightarrow>
        Inr [(''checkpoint_pages'', scan_into_one w), (''page_size'', scan_into_one ps), (''page_count'', scan_into_one pc),
             (''freelist_count'', scan_into_one fc)])"

definition Optimize :: "'s exec \<Rightarrow> 's \<Rightarrow> string option \<times> 's" where
  "Optimize exec = exec_all exec [(''ANALYZE'', [])]"

definition dbutil_HealthCheck :: "(string \<Rightarrow> string + int list) \<Rightarrow> string option" where
  "dbutil_HealthCheck query = (case query ''SELECT 1'' of Inl e \<Rightarrow> Some e | Inr _ \<Rightarrow> None)"

lemma busy_is_the_last_column: "wal_checkpoint_tick (Inr [busy, log_pages, done_pages]) = Checkpoint_Busy \<longleftrightarrow> done_pages = 1"
  by (simp add: wal_checkpoint_tick_def scan_into_one_def)

section \<open>The pool of connections\<close>

text \<open>
  \<open>database/sql\<close> keeps connections that are made with the same address. A setting made by a statement holds for the one connection the
  statement ran on; the address sets no foreign keys, which SQLite leaves off. A free connection is used again unless it is older than
  the lifetime, and is closed on its return when there are enough free ones.
\<close>

record conn =
  cn_made :: instant
  cn_foreign_keys :: bool

record conn_pool =
  cp_now :: instant
  cp_free :: "conn list"
  cp_used :: "conn list"

record pool_limits =
  pm_MaxOpenConns :: nat
  pm_MaxIdleConns :: nat
  pm_ConnMaxLifetime :: duration

definition new_conn :: "instant \<Rightarrow> conn" where
  "new_conn t = \<lparr>cn_made = t, cn_foreign_keys = False\<rparr>"

definition expired :: "pool_limits \<Rightarrow> instant \<Rightarrow> conn \<Rightarrow> bool" where
  "expired pm now c \<longleftrightarrow> 0 < pm_ConnMaxLifetime pm \<and> cn_made c + pm_ConnMaxLifetime pm < now"

text \<open>The ping of the start makes one connection, at the time \<open>t\<close>, and \<open>configureSQLite\<close> finds it free and sets it up.\<close>

definition configured_pool :: "instant \<Rightarrow> conn_pool" where
  "configured_pool t = \<lparr>cp_now = t, cp_free = [(new_conn t)\<lparr>cn_foreign_keys := True\<rparr>], cp_used = []\<rparr>"

inductive pool_move :: "pool_limits \<Rightarrow> conn_pool \<Rightarrow> conn option \<Rightarrow> conn_pool \<Rightarrow> bool" for pm where
  pool_time: "0 \<le> d \<Longrightarrow> pool_move pm p None (p\<lparr>cp_now := cp_now p + d\<rparr>)"
| pool_reuse: "c \<in> set (cp_free p) \<Longrightarrow> \<not> expired pm (cp_now p) c \<Longrightarrow>
    pool_move pm p (Some c) (p\<lparr>cp_free := remove1 c (cp_free p), cp_used := c # cp_used p\<rparr>)"
| pool_expire: "c \<in> set (cp_free p) \<Longrightarrow> expired pm (cp_now p) c \<Longrightarrow> pool_move pm p None (p\<lparr>cp_free := remove1 c (cp_free p)\<rparr>)"
| pool_open: "cp_free p = [] \<Longrightarrow> pm_MaxOpenConns pm = 0 \<or> length (cp_used p) < pm_MaxOpenConns pm \<Longrightarrow>
    pool_move pm p (Some (new_conn (cp_now p))) (p\<lparr>cp_used := new_conn (cp_now p) # cp_used p\<rparr>)"
| pool_return: "c \<in> set (cp_used p) \<Longrightarrow>
    pool_move pm p None
      (p\<lparr>cp_used := remove1 c (cp_used p),
         cp_free := (if length (cp_free p) < pm_MaxIdleConns pm \<and> \<not> expired pm (cp_now p) c then c # cp_free p else cp_free p)\<rparr>)"

text \<open>\<open>pool_run pm t p\<close>: the pool is \<open>p\<close> some time after the start at \<open>t\<close>.\<close>

inductive pool_run :: "pool_limits \<Rightarrow> instant \<Rightarrow> conn_pool \<Rightarrow> bool" for pm t where
  run_start: "pool_run pm t (configured_pool t)"
| run_move: "pool_run pm t p \<Longrightarrow> pool_move pm p use p' \<Longrightarrow> pool_run pm t p'"

lemma run_foreign_keys:
  "pool_run pm t p \<Longrightarrow> c \<in> set (cp_free p @ cp_used p) \<Longrightarrow> cn_foreign_keys c \<Longrightarrow> cn_made c = t"
proof (induction arbitrary: c rule: pool_run.induct)
  case (run_move p use p')
  from run_move.hyps(2) run_move.prems run_move.IH show ?case
    by (cases rule: pool_move.cases) (auto simp: new_conn_def dest: set_remove1_subset [THEN subsetD] split: if_splits)
qed (simp add: configured_pool_def new_conn_def)


text \<open>Before that it depends on the connection: a second statement at the same time has none.\<close>

lemma second_connection_has_none:
  assumes "pm_MaxOpenConns pm = 0 \<or> 1 < pm_MaxOpenConns pm"
  shows "\<exists>p p'. pool_run pm t p \<and> cp_now p = t \<and> pool_move pm p (Some (new_conn t)) p' \<and> \<not> cn_foreign_keys (new_conn t)"
proof -
  let ?c = "(new_conn t)\<lparr>cn_foreign_keys := True\<rparr>"
  let ?p = "\<lparr>cp_now = t, cp_free = [], cp_used = [?c]\<rparr>"
  have "\<not> expired pm t ?c" by (auto simp: expired_def new_conn_def)
  then have "pool_move pm (configured_pool t) (Some ?c) ?p"
    using pool_reuse [of ?c "configured_pool t" pm] by (simp add: configured_pool_def)
  then have "pool_run pm t ?p" by (rule run_move [OF run_start])
  moreover have "pool_move pm ?p (Some (new_conn t)) (?p\<lparr>cp_used := [new_conn t, ?c]\<rparr>)"
    using pool_open [of ?p pm] assms by simp
  ultimately show ?thesis by (intro exI [of _ ?p] exI conjI) (simp_all add: new_conn_def)
qed

definition default_limits :: pool_limits where
  "default_limits = \<lparr>pm_MaxOpenConns = 50, pm_MaxIdleConns = 10, pm_ConnMaxLifetime = 300 * second\<rparr>"

definition later_pool :: conn_pool where
  "later_pool = (configured_pool 0)\<lparr>cp_now := 301 * second\<rparr>"


end
