(* ===== verification/Site_Pages.thy ===== *)
theory Site_Pages
  imports Routes Pipeline
begin

text \<open>
  The handlers \<open>RunServer\<close> registers itself: the public pages and the pages of the operators, and the static files. \<open>render\<close>
  is the HTML of a page for a visitor (the templates are in \<open>Public_Pages\<close>), and \<open>serve\<close> is \<open>http.ServeFile\<close>.
\<close>

section \<open>Pages\<close>

definition page_handler :: "(string \<Rightarrow> user option \<Rightarrow> string) \<Rightarrow> string \<Rightarrow> 's handler" where
  "page_handler render name rq cx ws =
     (False, apfst (\<lambda>w. write_body (render name (GetUser cx)) (set_header ''Content-Type'' ''text/html; charset=utf-8'' w)) ws)"

text \<open>\<open>h\<close> answers \<open>rq\<close> with the body \<open>b\<close> and changes nothing, when no user is in the context.\<close>

definition answers :: "string \<Rightarrow> 's handler \<Rightarrow> request \<Rightarrow> bool" where
  "answers b h rq \<longleftrightarrow>
     (\<forall>cx w s. cx_user cx = None \<longrightarrow> w_status w = None \<longrightarrow> w_body w = '''' \<longrightarrow>
        (\<exists>w'. h rq cx (w, s) = (False, w', s) \<and> w_status w' = Some 200 \<and> w_body w' = b))"

lemma answersD:
  "answers b h rq \<Longrightarrow> cx_user cx = None \<Longrightarrow> w_status w = None \<Longrightarrow> w_body w = '''' \<Longrightarrow>
     \<exists>w'. h rq cx (w, s) = (False, w', s) \<and> w_status w' = Some 200 \<and> w_body w' = b"
  unfolding answers_def by blast

lemma set_header_frame [simp]:
  "w_status (set_header k v w) = w_status w" "w_body (set_header k v w) = w_body w"
  by (simp_all add: set_header_def)

lemma answers_page: "answers (render name None) (page_handler render name) rq"
  unfolding answers_def page_handler_def GetUser_def by (simp add: write_body_def write_header_def Let_def)

lemma answers_Recovery:
  assumes "answers b h rq"
  shows "answers b (Recovery h) rq"
  unfolding answers_def
proof (intro allI impI)
  fix cx :: ctx and w :: writer and s
  assume "cx_user cx = None" "w_status w = None" "w_body w = ''''"
  from answersD [OF assms this, of s]
  show "\<exists>w'. Recovery h rq cx (w, s) = (False, w', s) \<and> w_status w' = Some 200 \<and> w_body w' = b"
    by (auto simp: Recovery_def)
qed

lemma answers_RequestID: "answers b h rq \<Longrightarrow> answers b (RequestID uuid h) rq"
  unfolding answers_def RequestID_def by (simp add: Let_def)

lemma answers_Locale: "answers b h rq \<Longrightarrow> answers b (Locale h) rq"
  unfolding answers_def Locale_def by (simp add: Let_def)

lemma answers_TenantExtractor: "answers b h rq \<Longrightarrow> answers b (TenantExtractor u d h) rq"
  unfolding answers_def TenantExtractor_def by (simp add: Let_def)

lemma answers_SecurityHeaders: "answers b h rq \<Longrightarrow> answers b (SecurityHeaders random p h) rq"
  unfolding answers_def SecurityHeaders_def security_headers_def by (simp add: Let_def)

lemma answers_CORS: "rq_method rq \<noteq> ''OPTIONS'' \<Longrightarrow> answers b h rq \<Longrightarrow> answers b (CORS u cfg h) rq"
  unfolding answers_def CORS_def expose_header_def by (simp add: Let_def)

lemma answers_sessions:
  assumes "saves_quietly las" and "answers b h rq"
  shows "answers b (las h) rq"
  unfolding answers_def
proof (intro allI impI)
  fix cx :: ctx and w :: writer and s
  assume "cx_user cx = None" "w_status w = None" "w_body w = ''''"
  from answersD [OF assms(2) this, of s]
  obtain w' where h: "h rq cx (w, s) = (False, w', s)" "w_status w' = Some 200" "w_body w' = b" by blast
  obtain hd where "las h rq cx (w, s) = (case h rq cx (w, s) of (p, w, s) \<Rightarrow> (p, w\<lparr>w_headers := hd\<rparr>, s))"
    using assms(1) unfolding saves_quietly_def by blast
  with h show "\<exists>w'. las h rq cx (w, s) = (False, w', s) \<and> w_status w' = Some 200 \<and> w_body w' = b" by simp
qed

lemma answers_CSRFHandler:
  assumes law: "checks_tokens nosurf" and "safe_method (rq_method rq)" and h: "answers b h rq"
  shows "answers b (CSRFHandler nosurf token env h) rq"
  unfolding answers_def
proof (intro allI impI)
  fix cx :: ctx and w :: writer and s
  assume w: "cx_user cx = None" "w_status w = None" "w_body w = ''''"
  let ?ok = "\<lambda>rq cx. h rq (cx\<lparr>cx_csrf := Some (token rq)\<rparr>)"
  obtain w' where w': "adds_headers w w'" "nosurf (csrf_exempt env) ?ok csrf_failure rq cx (w, s) = ?ok rq cx (w', s)"
    using law assms(2) unfolding checks_tokens_def by blast
  then have "w_status w' = None" "w_body w' = ''''" using w by (auto simp: adds_headers_def)
  with answersD [OF h, of "cx\<lparr>cx_csrf := Some (token rq)\<rparr>" w' s] w w'(2)
  show "\<exists>w'. CSRFHandler nosurf token env h rq cx (w, s) = (False, w', s) \<and> w_status w' = Some 200 \<and> w_body w' = b"
    by (simp add: CSRFHandler_def)
qed

definition public_pages :: "(string \<times> string) list" where
  "public_pages =
     [(''/'', ''Landing''), (''/pricing'', ''Pricing''), (''/about'', ''About''), (''/contact'', ''Contact''), (''/terms'', ''Terms''),
      (''/privacy'', ''Privacy''), (''/404'', ''Error404''), (''/500'', ''Error500''), (''/admin'', ''Admin''), (''/admin/users'', ''AdminUsers'')]"

lemma public_pages_found:
  "list_all (\<lambda>(p, n). mux_answer (server_routes secrets google) ''GET'' p = Serve (Open, Page n)) public_pages"
proof -
  have "list_all (\<lambda>(p, n). mux_answer (server_routes True True) ''GET'' p = Serve (Open, Page n)) public_pages"
    "list_all (\<lambda>(p, n). mux_answer (server_routes True False) ''GET'' p = Serve (Open, Page n)) public_pages"
    "list_all (\<lambda>(p, n). mux_answer (server_routes False True) ''GET'' p = Serve (Open, Page n)) public_pages"
    "list_all (\<lambda>(p, n). mux_answer (server_routes False False) ''GET'' p = Serve (Open, Page n)) public_pages"
    by code_simp+
  then show ?thesis by (cases secrets; cases google) simp_all
qed

text \<open>The pages the server registers itself never know their visitor: no middleware puts the user of the session into the context,
  so through the whole chain each of the ten pages is the one for nobody, whoever is signed in.\<close>

theorem public_pages_know_nobody:
  assumes "saves_quietly (sr_sessions sr)" and "checks_tokens (sr_nosurf sr)"
    and "rq_method rq = ''GET''" and "(rq_path rq, name) \<in> set public_pages" and "hs (Page name) = page_handler render name"
  shows "\<exists>w. serve_request sr (server_mux limiter hs (server_routes secrets google)) rq s = (w, s) \<and> answered w = 200 \<and>
    w_body w = render name None"
proof -
  have "mux_answer (server_routes secrets google) (rq_method rq) (rq_path rq) = Serve (Open, Page name)"
    using public_pages_found [of secrets google] assms(3,4) unfolding list_all_iff by auto
  then have "answers (render name None) (server_mux limiter hs (server_routes secrets google)) rq"
    using answers_page [of render name rq, where 'a = site] assms(5)
    unfolding answers_def server_mux_def guarded_def by simp
  then have "answers (render name None) (server_handler sr (server_mux limiter hs (server_routes secrets google))) rq"
    unfolding server_handler_def
    by (intro answers_Recovery answers_TenantExtractor answers_Locale answers_sessions [OF assms(1)] answers_RequestID answers_CORS
        answers_SecurityHeaders answers_CSRFHandler [OF assms(2)])
      (simp_all add: assms(3) safe_method_def)
  from answersD [OF this, of no_context fresh_writer s] show ?thesis
    by (auto simp: serve_request_def answered_def fresh_writer_def no_context_def)
qed

definition plain_page :: "string \<Rightarrow> user option \<Rightarrow> string" where
  "plain_page name u = (case u of None \<Rightarrow> name | Some v \<Rightarrow> name @ '' '' @ u_email v)"

definition pricing_request :: request where
  "pricing_request =
     \<lparr>rq_method = ''GET'', rq_path = ''/pricing'', rq_host = ''shop.example.com'', rq_remote = '''', rq_header = (\<lambda>_. ''''), rq_cookie = (\<lambda>_. None),
      rq_body = ''''\<rparr>"

theorem public_pages_know_nobody_witness:
  "\<exists>w. serve_request production (server_mux (\<lambda>h. h) (\<lambda>e. page_handler plain_page ''Pricing'') (server_routes True False)) pricing_request
       \<lparr>si_db = migrated_db 0, si_user_id = 7\<rparr> = (w, \<lparr>si_db = migrated_db 0, si_user_id = 7\<rparr>) \<and> w_body w = ''Pricing''"
proof -
  have "saves_quietly (sr_sessions production)" "checks_tokens (sr_nosurf production)"
    by (simp_all add: production_def saves_quietly_id checks_tokens_plain)
  from public_pages_know_nobody [OF this, of pricing_request "''Pricing''" "\<lambda>e. page_handler plain_page ''Pricing''" plain_page]
  have "\<exists>w. serve_request production (server_mux (\<lambda>h. h) (\<lambda>e. page_handler plain_page ''Pricing'') (server_routes True False)) pricing_request
       \<lparr>si_db = migrated_db 0, si_user_id = 7\<rparr> = (w, \<lparr>si_db = migrated_db 0, si_user_id = 7\<rparr>) \<and> answered w = 200 \<and> w_body w = plain_page ''Pricing'' None"
    by (simp add: pricing_request_def public_pages_def)
  then show ?thesis by (auto simp: plain_page_def)
qed

section \<open>Static files\<close>

text \<open>\<open>http.StripPrefix\<close>.\<close>

definition strip_prefix :: "string \<Rightarrow> 's handler \<Rightarrow> 's handler" where
  "strip_prefix p h rq cx ws =
     (if has_prefix (rq_path rq) p then h (rq\<lparr>rq_path := drop (length p) (rq_path rq)\<rparr>) cx ws
      else (False, apfst (write_error ''404 page not found'' 404) ws))"

definition trim_prefix :: "string \<Rightarrow> string \<Rightarrow> string" where
  "trim_prefix s p = (if has_prefix s p then drop (length p) s else s)"

definition has_ending :: "string \<Rightarrow> string \<Rightarrow> bool" where
  "has_ending s e \<longleftrightarrow> length e \<le> length s \<and> drop (length s - length e) s = e"

definition assets_handler :: "(string \<Rightarrow> 's handler) \<Rightarrow> 's handler" where
  "assets_handler serve =
     strip_prefix ''/assets/'' (\<lambda>rq cx ws.
       let path = trim_prefix (rq_path rq) ''/assets/''
       in serve (''web/static/assets/'' @ path) rq cx
            (apfst (if has_ending path ''.css'' then set_header ''Content-Type'' ''text/css; charset=utf-8'' else id) ws))"

text \<open>The headers follow the file.\<close>

definition static_handler :: "string \<Rightarrow> (string \<Rightarrow> 's handler) \<Rightarrow> 's handler" where
  "static_handler env serve rq cx ws =
     (let path = trim_prefix (rq_path rq) ''/static/'' in
      case serve (''web/static/'' @ path) rq cx ws of
        (True, ws1) \<Rightarrow> (True, ws1)
      | (False, ws1) \<Rightarrow>
          (False, apfst (\<lambda>w.
             if has_ending path ''.js'' then
               (if env \<noteq> ''prod'' then set_header ''Cache-Control'' ''no-cache, no-store, must-revalidate'' else id)
                 (set_header ''Content-Type'' ''application/javascript'' w)
             else w) ws1))"

text \<open>The content type and the cache setting of scripts come too late: \<open>ServeFile\<close> has sent its headers, so what is answered under
  \<open>/static/\<close> is exactly what \<open>ServeFile\<close> answers, in every environment.\<close>

theorem script_headers_come_too_late:
  assumes "\<And>name rq cx ws. w_status (fst (snd (serve name rq cx ws))) \<noteq> None"
  shows "static_handler env serve rq cx ws = serve (''web/static/'' @ trim_prefix (rq_path rq) ''/static/'') rq cx ws"
proof -
  obtain p w s where r: "serve (''web/static/'' @ trim_prefix (rq_path rq) ''/static/'') rq cx ws = (p, w, s)"
    by (metis prod.exhaust)
  then obtain c where "w_status w = Some c"
    using assms [of "''web/static/'' @ trim_prefix (rq_path rq) ''/static/''" rq cx ws] by auto
  with r show ?thesis by (cases p) (simp_all add: static_handler_def Let_def set_header_def)
qed

theorem script_headers_come_too_late_witness:
  "static_handler ''dev'' (\<lambda>name rq cx ws. (False, apfst (write_body name) ws)) (pricing_request\<lparr>rq_path := ''/static/js/a.js''\<rparr>) no_context (fresh_writer, ()) =
     (False, write_body ''web/static/js/a.js'' fresh_writer, ())"
proof -
  have "w_status (fst (snd (False, apfst (write_body name) ws))) \<noteq> None" for name and ws :: "writer \<times> unit"
    by (cases ws) (simp add: write_body_def write_header_def Let_def)
  from script_headers_come_too_late [of "\<lambda>name rq cx ws. (False, apfst (write_body name) ws)", OF this]
  show ?thesis by (simp add: pricing_request_def trim_prefix_def has_prefix_def)
qed

text \<open>Styles get their type in time.\<close>

lemma style_header_in_time:
  assumes "has_ending path ''.css''" and "\<not> has_prefix path ''/assets/''"
  shows "assets_handler serve (rq\<lparr>rq_path := ''/assets/'' @ path\<rparr>) cx (w, s) =
    serve (''web/static/assets/'' @ path) (rq\<lparr>rq_path := path\<rparr>) cx (set_header ''Content-Type'' ''text/css; charset=utf-8'' w, s)"
  using assms by (simp add: assets_handler_def strip_prefix_def trim_prefix_def has_prefix_def Let_def)

section \<open>The callback of Google\<close>

text \<open>The handler the server puts around \<open>GoogleCallback\<close>, which says whether it failed.\<close>

definition google_callback_route :: "(string \<Rightarrow> request \<Rightarrow> ctx \<Rightarrow> writer \<times> 's \<Rightarrow> bool \<times> writer \<times> 's) \<Rightarrow> 's handler" where
  "google_callback_route callback rq cx ws =
     (let tenant = (if rq_header rq ''X-Tenant-ID'' = '''' then ''default'' else rq_header rq ''X-Tenant-ID'')
      in case callback tenant rq cx ws of
           (failed, w, s) \<Rightarrow> (False, if failed then write_redirect ''/login?error=oauth_failed'' 307 w else w, s))"

end
