(* ===== verification/Env_Rotation.thy ===== *)
theory Env_Rotation
  imports Auth_Handlers
begin

text \<open>
  The script that rotates a secret in the file \<open>.env\<close> (\<open>scripts/dev/rotate-secret.go\<close>). What it prints is left out but for the value
  it shows masked.
\<close>

definition secret_variables :: "(string \<times> string) list" where
  "secret_variables =
     [(''session_secret'', ''SESSION_SECRET''), (''password_pepper'', ''PASSWORD_PEPPER''), (''smtp_user'', ''SMTP_USER''),
      (''smtp_pass'', ''SMTP_PASS''), (''google_client_id'', ''GOOGLE_CLIENT_ID''), (''google_client_secret'', ''GOOGLE_CLIENT_SECRET''),
      (''asaas_api_key'', ''ASAAS_API_KEY''), (''asaas_webhook_token'', ''ASAAS_WEBHOOK_TOKEN''), (''asaas_hmac_secret'', ''ASAAS_HMAC_SECRET'')]"

definition normalizeToEnvVar :: "unicode \<Rightarrow> string \<Rightarrow> string" where
  "normalizeToEnvVar u ty =
     (case map_of secret_variables ty of
        Some v \<Rightarrow> v
      | None \<Rightarrow> if ToUpper u ty = ty then ty else ToUpper u (map (\<lambda>c. if c = CHR ''-'' then CHR ''_'' else c) ty))"

text \<open>\<open>rand n\<close> is what the random source gives for \<open>n\<close> bytes, if it does not fail; the empty string stands for no value.\<close>

definition generateRandomHex :: "(nat \<Rightarrow> string option) \<Rightarrow> nat \<Rightarrow> string" where
  "generateRandomHex rand n = (case rand n of None \<Rightarrow> '''' | Some b \<Rightarrow> hex_encode b)"

definition generateRandomBase64 :: "(nat \<Rightarrow> string option) \<Rightarrow> nat \<Rightarrow> string" where
  "generateRandomBase64 rand n = (case rand n of None \<Rightarrow> '''' | Some b \<Rightarrow> base64_url b)"

definition generateSecureSecret :: "(nat \<Rightarrow> string option) \<Rightarrow> string \<Rightarrow> string" where
  "generateSecureSecret rand ty =
     (if ty \<in> {''session_secret'', ''SESSION_SECRET''} then generateRandomHex rand 32
      else if ty \<in> {''password_pepper'', ''PASSWORD_PEPPER''} then generateRandomHex rand 16
      else if ty \<in> {''asaas_hmac_secret'', ''ASAAS_HMAC_SECRET''} then generateRandomHex rand 32
      else if ty \<in> {''google_client_secret'', ''GOOGLE_CLIENT_SECRET''} then generateRandomBase64 rand 32
      else '''')"

definition maskSecret :: "string \<Rightarrow> string" where
  "maskSecret s = (if length s \<le> 8 then ''****'' else take 4 s @ ''...'' @ drop (length s - 4) s)"

fun set_first :: "('a \<Rightarrow> bool) \<Rightarrow> 'a \<Rightarrow> 'a list \<Rightarrow> 'a list" where
  "set_first p new [] = [new]"
| "set_first p new (x # xs) = (if p x then new # xs else x # set_first p new xs)"

definition env_text :: "string \<Rightarrow> string \<Rightarrow> string \<Rightarrow> string" where
  "env_text var val content =
     join [CHR 0x0A] (set_first (\<lambda>l. has_prefix l (var @ ''='')) (var @ ''='' @ val) (split_at (CHR 0x0A) content))"

text \<open>The files as a map; \<open>writable\<close> says whether the write succeeds.\<close>

definition updateEnvFile ::
  "unicode \<Rightarrow> (string \<Rightarrow> bool) \<Rightarrow> string \<Rightarrow> string \<Rightarrow> string \<Rightarrow> (string \<rightharpoonup> string) \<Rightarrow> bool \<times> (string \<rightharpoonup> string)" where
  "updateEnvFile u writable path ty val files =
     (case files path of
        None \<Rightarrow> (False, files)
      | Some content \<Rightarrow>
          if writable path then (True, files(path \<mapsto> env_text (normalizeToEnvVar u ty) val content)) else (False, files))"

definition findEnvFile :: "(string \<rightharpoonup> string) \<Rightarrow> string option" where
  "findEnvFile files = find (\<lambda>p. files p \<noteq> None) [''.env'', ''../.env'', ''../../.env'']"

datatype rotation = Usage | No_Value | No_File | Write_Failed | Rotated string string

text \<open>\<open>main\<close>, with its arguments; \<open>Rotated\<close> has the path and the masked value it prints.\<close>

definition rotate_main ::
  "unicode \<Rightarrow> (nat \<Rightarrow> string option) \<Rightarrow> (string \<Rightarrow> bool) \<Rightarrow> string list \<Rightarrow> (string \<rightharpoonup> string) \<Rightarrow> rotation \<times> (string \<rightharpoonup> string)" where
  "rotate_main u rand writable args files =
     (case args of
        [] \<Rightarrow> (Usage, files)
      | ty # rest \<Rightarrow>
          (let val = (case rest of [] \<Rightarrow> generateSecureSecret rand ty | v # _ \<Rightarrow> v) in
           if val = '''' then (No_Value, files)
           else case findEnvFile files of
             None \<Rightarrow> (No_File, files)
           | Some path \<Rightarrow>
               (case updateEnvFile u writable path ty val files of
                  (True, files') \<Rightarrow> (Rotated path (maskSecret val), files')
                | (False, files') \<Rightarrow> (Write_Failed, files'))))"

section \<open>The file afterwards\<close>

text \<open>The values a file gives a variable, line by line.\<close>

definition env_values :: "string \<Rightarrow> string \<Rightarrow> string list" where
  "env_values var content =
     map (drop (length var + 1)) (filter (\<lambda>l. has_prefix l (var @ ''='')) (split_at (CHR 0x0A) content))"

lemma has_prefix_append [simp]: "has_prefix (p @ s) p"
  by (simp add: has_prefix_def)

lemma has_prefix_variable:
  assumes "CHR ''='' \<notin> set v" "CHR ''='' \<notin> set w" "has_prefix l (v @ ''='')" "has_prefix l (w @ ''='')"
  shows "v = w"
proof -
  have take: "takeWhile (\<lambda>c. c \<noteq> CHR ''='') l = x" if "CHR ''='' \<notin> set x" "has_prefix l (x @ ''='')" for x
  proof -
    have "l = (x @ ''='') @ drop (length (x @ ''='')) l" using that(2) unfolding has_prefix_def by (metis append_take_drop_id)
    then have "takeWhile (\<lambda>c. c \<noteq> CHR ''='') l = takeWhile (\<lambda>c. c \<noteq> CHR ''='') (x @ CHR ''='' # drop (length (x @ ''='')) l)" by simp
    also have "\<dots> = x" using that(1) by (subst takeWhile_append2) auto
    finally show ?thesis .
  qed
  from take [OF assms(1,3)] take [OF assms(2,4)] show ?thesis by simp
qed

lemma filter_set_first: "p new \<Longrightarrow> filter p (set_first p new xs) = new # tl (filter p xs)"
  by (induction xs) auto

lemma filter_set_first_other: "\<not> q new \<Longrightarrow> (\<And>x. p x \<Longrightarrow> \<not> q x) \<Longrightarrow> filter q (set_first p new xs) = filter q xs"
  by (induction xs) auto

lemma set_first_elements: "set (set_first p new xs) \<subseteq> insert new (set xs)"
  by (induction xs) auto

lemma set_first_nonempty [simp]: "set_first p new xs \<noteq> []"
  by (cases xs) simp_all

lemma split_env_text:
  assumes "CHR 0x0A \<notin> set var" and "CHR 0x0A \<notin> set val"
  shows "split_at (CHR 0x0A) (env_text var val content) =
    set_first (\<lambda>l. has_prefix l (var @ ''='')) (var @ ''='' @ val) (split_at (CHR 0x0A) content)"
  unfolding env_text_def
proof (rule split_join)
  fix l
  assume "l \<in> set (set_first (\<lambda>l. has_prefix l (var @ ''='')) (var @ ''='' @ val) (split_at (CHR 0x0A) content))"
  then have "l = var @ ''='' @ val \<or> l \<in> set (split_at (CHR 0x0A) content)" using set_first_elements by fastforce
  then show "CHR 0x0A \<notin> set l" using assms split_at_parts by auto
qed simp

text \<open>After a rotation the first line of the variable has the new value, or a new line at the end has it, and every other variable
  keeps its values. A second line of the same variable stays, and for a reader that lets the last one count it still wins.\<close>

theorem rotation_sets_first_line:
  assumes "CHR 0x0A \<notin> set var" and "CHR 0x0A \<notin> set val" and "CHR ''='' \<notin> set var"
  shows "env_values var (env_text var val content) = val # tl (env_values var content) \<and>
    (\<forall>w. w \<noteq> var \<and> CHR ''='' \<notin> set w \<longrightarrow> env_values w (env_text var val content) = env_values w content)"
proof (intro conjI allI impI)
  let ?new = "var @ ''='' @ val"
  have new: "has_prefix ?new (var @ ''='')" using has_prefix_append [of "var @ ''=''" val] by simp
  show "env_values var (env_text var val content) = val # tl (env_values var content)"
    unfolding env_values_def split_env_text [OF assms(1,2)]
    by (subst filter_set_first, rule new) (simp add: map_tl)
  fix w
  assume w: "w \<noteq> var \<and> CHR ''='' \<notin> set w"
  then have "\<not> has_prefix l (w @ ''='')" if "has_prefix l (var @ ''='')" for l
    using has_prefix_variable assms(3) that by blast
  with new show "env_values w (env_text var val content) = env_values w content"
    unfolding env_values_def split_env_text [OF assms(1,2)] by (subst filter_set_first_other) auto
qed

theorem rotation_sets_first_line_witness:
  "env_values ''A'' (env_text ''A'' ''new'' (''A=1'' @ [CHR 0x0A] @ ''B=2'' @ [CHR 0x0A] @ ''A=3'')) = [''new'', ''3'']"
  using rotation_sets_first_line [of "''A''" "''new''" "''A=1'' @ [CHR 0x0A] @ ''B=2'' @ [CHR 0x0A] @ ''A=3''"]
  by (simp add: env_values_def has_prefix_def)

text \<open>Of a secret of nine characters the mask hides one.\<close>

lemma mask_shows_eight: "length s = 9 \<Longrightarrow> maskSecret s = take 4 s @ ''...'' @ drop 5 s"
  by (simp add: maskSecret_def)

end
