(* ===== verification/Bench_Tools.thy ===== *)
theory Bench_Tools
  imports Go_Text Database "HOL-Library.Word"
begin

text \<open>
  The tools that watch the speed of the service: reading the output of \<open>go test -bench\<close> (\<open>scripts/bench/benchmark-parse\<close>), comparing two
  runs (\<open>scripts/bench/benchmark-compare\<close>) and the percentiles of repeated runs (\<open>test/benchmarks\<close>). Times are rationals and differences
  IEEE values; the text of the report is left out but for its numbers and its verdict.
\<close>

section \<open>Reading a run\<close>

record bench_result =
  be_Name :: string
  be_Iterations :: int
  be_NsPerOp :: rat
  be_MemAllocs :: int
  be_MemBytes :: int

record golden =
  go_Fingerprint :: string
  go_Reference :: rat
  go_Benchmarks :: "bench_result list"

text \<open>\<open>strings.Fields\<close> on ASCII, and \<open>strconv.ParseInt\<close> with its error dropped: 0 for what is no number, the nearest bound outside 64 bits.\<close>

definition is_blank :: "char \<Rightarrow> bool" where
  "is_blank c \<longleftrightarrow> c \<in> {CHR '' '', CHR 0x09, CHR 0x0A, CHR 0x0B, CHR 0x0C, CHR 0x0D}"

function str_Fields :: "string \<Rightarrow> string list" where
  "str_Fields s =
     (let r = dropWhile is_blank s in if r = [] then [] else takeWhile (\<lambda>c. \<not> is_blank c) r # str_Fields (dropWhile (\<lambda>c. \<not> is_blank c) r))"
  by pat_completeness auto
termination
proof (relation "measure length")
  fix s r :: string
  assume r: "r = dropWhile is_blank s" "r \<noteq> []"
  then have "\<not> is_blank (hd r)" by (simp add: hd_dropWhile)
  then have "length (dropWhile (\<lambda>c. \<not> is_blank c) r) < length r"
    using r(2) by (cases r) (auto simp: less_Suc_eq_le length_dropWhile_le)
  also have "length r \<le> length s" using r(1) by (simp add: length_dropWhile_le)
  finally show "(dropWhile (\<lambda>c. \<not> is_blank c) r, s) \<in> measure length" by simp
qed simp

declare str_Fields.simps [simp del]

definition parse_int_or_zero :: "string \<Rightarrow> int" where
  "parse_int_or_zero s =
     (let neg = (s \<noteq> [] \<and> hd s = CHR ''-'');
          ds = (if s \<noteq> [] \<and> (hd s = CHR ''-'' \<or> hd s = CHR ''+'') then tl s else s);
          n = (if neg then - int (digits_value ds) else int (digits_value ds))
      in if ds = [] \<or> \<not> list_all is_digit ds then 0 else max (- (2 ^ 63)) (min (2 ^ 63 - 1) n))"

text \<open>The suffix \<open>-8\<close> of the number of processors, and whatever digits and dashes precede it.\<close>

definition trim_procs :: "string \<Rightarrow> string" where
  "trim_procs name = rev (dropWhile (\<lambda>c. is_digit c \<or> c = CHR ''-'') (rev name))"

text \<open>\<open>float\<close> is \<open>strconv.ParseFloat\<close>.\<close>

definition parse_line :: "(string \<Rightarrow> rat option) \<Rightarrow> string \<Rightarrow> bench_result option" where
  "parse_line float line =
     (let parts = str_Fields line in
      if str_contains line ''ns/op'' \<and> has_prefix (dropWhile is_blank line) ''Benchmark'' \<and> 8 \<le> length parts then
        (case float (parts ! 2) of
           None \<Rightarrow> None
         | Some ns \<Rightarrow>
             Some \<lparr>be_Name = trim_procs (parts ! 0), be_Iterations = parse_int_or_zero (parts ! 1), be_NsPerOp = ns,
               be_MemAllocs = parse_int_or_zero (parts ! 6), be_MemBytes = parse_int_or_zero (parts ! 4)\<rparr>)
      else None)"

text \<open>The last benchmark of the text search is the reference, 4000 ns without one.\<close>

definition parse_run :: "(string \<Rightarrow> rat option) \<Rightarrow> string \<Rightarrow> string list \<Rightarrow> golden" where
  "parse_run float fingerprint ls =
     (let bs = List.map_filter (parse_line float) ls;
          ref = fold (\<lambda>b r. if str_contains (be_Name b) ''BenchmarkFTS5Search'' then be_NsPerOp b else r) bs 0
      in \<lparr>go_Fingerprint = fingerprint, go_Reference = (if ref = 0 then 4000 else ref), go_Benchmarks = bs\<rparr>)"

section \<open>Comparing two runs\<close>

record comparison =
  cm_Name :: string
  cm_NormalizedNs :: rat
  cm_Diff :: float64
  cm_NormalizedDiff :: float64
  cm_MemDiff :: rat
  cm_IsRegression :: bool
  cm_IsImprovement :: bool
  cm_Excluded :: bool
  cm_ExcludeReason :: string

definition unstablePatterns :: "string list" where
  "unstablePatterns = [''Bcrypt'', ''PasswordHashing'']"

definition microBenchmarkPatterns :: "string list" where
  "microBenchmarkPatterns = [''CacheHit'', ''CacheMiss'']"

text \<open>\<open>(x - base) / base * 100\<close> in floating point.\<close>

definition percent_diff :: "rat \<Rightarrow> rat \<Rightarrow> float64" where
  "percent_diff x base =
     (if base \<noteq> 0 then Fin ((x - base) / base * 100) else if x = 0 then NaN else if 0 < x then PosInf else NegInf)"

fun float_above :: "float64 \<Rightarrow> rat \<Rightarrow> bool" where
  "float_above (Fin q) t \<longleftrightarrow> t < q"
| "float_above PosInf t \<longleftrightarrow> True"
| "float_above _ t \<longleftrightarrow> False"

fun float_below :: "float64 \<Rightarrow> rat \<Rightarrow> bool" where
  "float_below (Fin q) t \<longleftrightarrow> q < t"
| "float_below NegInf t \<longleftrightarrow> True"
| "float_below _ t \<longleftrightarrow> False"

definition exclude_reason :: "bool \<Rightarrow> bool \<Rightarrow> string \<Rightarrow> string option" where
  "exclude_reason skip_unstable same name =
     (if \<not> skip_unstable \<or> same then None
      else if list_ex (str_contains name) unstablePatterns then Some ''Unstable across hardware (crypto timing)''
      else if list_ex (str_contains name) microBenchmarkPatterns then Some ''Micro-benchmark (cache-sensitive)''
      else None)"

text \<open>The later of two results with one name stays in the map.\<close>

definition baseline_map :: "golden \<Rightarrow> string \<rightharpoonup> bench_result" where
  "baseline_map g = map_of (rev (map (\<lambda>b. (be_Name b, b)) (go_Benchmarks g)))"

definition norm_factor :: "golden \<Rightarrow> golden \<Rightarrow> bool \<Rightarrow> rat" where
  "norm_factor baseline current normalise =
     (if normalise \<and> go_Fingerprint baseline \<noteq> go_Fingerprint current \<and> 0 < go_Reference baseline \<and> 0 < go_Reference current
      then go_Reference baseline / go_Reference current else 1)"

definition effective_threshold :: "golden \<Rightarrow> golden \<Rightarrow> rat \<Rightarrow> rat" where
  "effective_threshold baseline current t = (if go_Fingerprint baseline = go_Fingerprint current then t else max t 30)"

definition compare_one :: "golden \<Rightarrow> golden \<Rightarrow> rat \<Rightarrow> bool \<Rightarrow> bool \<Rightarrow> bench_result \<Rightarrow> bench_result \<Rightarrow> comparison" where
  "compare_one baseline current threshold normalise skip_unstable c b =
     (let normalized = be_NsPerOp c * norm_factor baseline current normalise;
          diff = percent_diff normalized (be_NsPerOp b); t = effective_threshold baseline current threshold;
          ex = exclude_reason skip_unstable (go_Fingerprint baseline = go_Fingerprint current) (be_Name c)
      in \<lparr>cm_Name = be_Name c, cm_NormalizedNs = normalized, cm_Diff = percent_diff (be_NsPerOp c) (be_NsPerOp b),
          cm_NormalizedDiff = diff,
          cm_MemDiff = (if 0 < be_MemBytes b then (of_int (be_MemBytes c) - of_int (be_MemBytes b)) / of_int (be_MemBytes b) * 100 else 0),
          cm_IsRegression = (ex = None \<and> float_above diff t), cm_IsImprovement = (ex = None \<and> float_below diff (- t)),
          cm_Excluded = (ex \<noteq> None), cm_ExcludeReason = (case ex of None \<Rightarrow> '''' | Some r \<Rightarrow> r)\<rparr>)"

definition compareBenchmarks :: "golden \<Rightarrow> golden \<Rightarrow> rat \<Rightarrow> bool \<Rightarrow> string \<Rightarrow> bool \<Rightarrow> comparison list" where
  "compareBenchmarks baseline current threshold normalise exclude skip_unstable =
     List.map_filter (\<lambda>c.
       if exclude \<noteq> '''' \<and> str_contains (be_Name c) exclude then None
       else map_option (compare_one baseline current threshold normalise skip_unstable c) (baseline_map baseline (be_Name c)))
       (go_Benchmarks current)"

text \<open>The summary: regressions, improvements, stable and excluded; and the verdict of the report.\<close>

definition summary :: "comparison list \<Rightarrow> nat \<times> nat \<times> nat \<times> nat" where
  "summary cs =
     (length (filter (\<lambda>c. \<not> cm_Excluded c \<and> cm_IsRegression c) cs),
      length (filter (\<lambda>c. \<not> cm_Excluded c \<and> \<not> cm_IsRegression c \<and> cm_IsImprovement c) cs),
      length (filter (\<lambda>c. \<not> cm_Excluded c \<and> \<not> cm_IsRegression c \<and> \<not> cm_IsImprovement c) cs),
      length (filter cm_Excluded cs))"

datatype verdict = Regressed nat bool | Excluded_Some nat | Passed_All

definition report_verdict :: "bool \<Rightarrow> comparison list \<Rightarrow> verdict" where
  "report_verdict same cs =
     (case summary cs of (r, _, _, x) \<Rightarrow>
        if 0 < r then Regressed r (\<not> same) else if 0 < x \<and> \<not> same then Excluded_Some x else Passed_All)"

text \<open>The exit status of the tool: 1 for a regression.\<close>

definition compare_exit :: "comparison list \<Rightarrow> int" where
  "compare_exit cs = (if list_ex cm_IsRegression cs then 1 else 0)"

section \<open>Percentiles\<close>

definition percentiles :: "rat list \<Rightarrow> rat \<times> rat \<times> rat" where
  "percentiles vs =
     (if vs = [] then (0, 0, 0)
      else let s = sort vs; n = length s in (s ! (n * 50 div 100), s ! (n * 95 div 100), s ! (min (n * 99 div 100) (n - 1))))"

definition average :: "rat list \<Rightarrow> rat" where
  "average vs = (if vs = [] then 0 else sum_list vs / of_nat (length vs))"

text \<open>The mean of 64-bit integers; the sum wraps around and the division truncates.\<close>

definition averageInt64 :: "64 word list \<Rightarrow> 64 word" where
  "averageInt64 vs =
     (if vs = [] then 0
      else word_of_int (sgn (sint (sum_list vs)) * (\<bar>sint (sum_list vs)\<bar> div int (length vs))))"


text \<open>The percentiles of the five runs of a benchmark.\<close>

definition run_percentiles :: "rat list \<Rightarrow> rat \<times> rat \<times> rat \<times> rat" where
  "run_percentiles vs = (case percentiles vs of (p50, p95, p99) \<Rightarrow> (average vs, p50, p95, p99))"

section \<open>What the tools promise\<close>

lemma in_map_filter: "y \<in> set (List.map_filter f xs) \<longleftrightarrow> (\<exists>x \<in> set xs. f x = Some y)"
  by (auto simp: List.map_filter_def) force

text \<open>The comparison of a benchmark is a regression under one condition.\<close>

definition is_regression :: "golden \<Rightarrow> golden \<Rightarrow> rat \<Rightarrow> bool \<Rightarrow> bool \<Rightarrow> bench_result \<Rightarrow> bench_result \<Rightarrow> bool" where
  "is_regression baseline current t normalise skip c b \<longleftrightarrow>
     exclude_reason skip (go_Fingerprint baseline = go_Fingerprint current) (be_Name c) = None \<and>
     float_above (percent_diff (be_NsPerOp c * norm_factor baseline current normalise) (be_NsPerOp b)) (effective_threshold baseline current t)"

lemma compare_one_regression [simp]:
  "cm_IsRegression (compare_one baseline current t normalise skip c b) \<longleftrightarrow> is_regression baseline current t normalise skip c b"
  by (simp add: compare_one_def is_regression_def Let_def)

text \<open>The comparison fails exactly when a benchmark that is in both runs and in no excluded group is slower than the threshold allows;
  a benchmark of the baseline that the current run lacks plays no part.\<close>

theorem comparison_fails_iff:
  "compare_exit (compareBenchmarks baseline current t normalise exclude skip) = 1 \<longleftrightarrow>
     (\<exists>c b. c \<in> set (go_Benchmarks current) \<and> baseline_map baseline (be_Name c) = Some b \<and>
        \<not> (exclude \<noteq> '''' \<and> str_contains (be_Name c) exclude) \<and> is_regression baseline current t normalise skip c b)"
  (is "_ \<longleftrightarrow> ?reg")
proof -
  have "compare_exit (compareBenchmarks baseline current t normalise exclude skip) = 1 \<longleftrightarrow>
    (\<exists>m \<in> set (compareBenchmarks baseline current t normalise exclude skip). cm_IsRegression m)"
    by (simp add: compare_exit_def list_ex_iff)
  also have "\<dots> \<longleftrightarrow> ?reg"
    unfolding compareBenchmarks_def by (fastforce simp: in_map_filter Bex_def split: if_splits)
  finally show ?thesis .
qed

text \<open>C0: Lines without the two memory figures, which \<open>go test\<close> prints only with \<open>-benchmem\<close>, are dropped: such a run has no benchmark,
  and compared with any baseline it passes.\<close>

theorem run_without_memory_passes:
  assumes "\<forall>l \<in> set ls. length (str_Fields l) < 8"
  shows "go_Benchmarks (parse_run float fp ls) = [] \<and>
    compare_exit (compareBenchmarks baseline (parse_run float fp ls) t normalise exclude skip) = 0 \<and>
    report_verdict (go_Fingerprint baseline = fp) (compareBenchmarks baseline (parse_run float fp ls) t normalise exclude skip) = Passed_All"
proof -
  have "List.map_filter (parse_line float) ls = []"
    using assms by (induction ls) (auto simp: List.map_filter_simps parse_line_def Let_def)
  then have none: "go_Benchmarks (parse_run float fp ls) = []" by (simp add: parse_run_def Let_def)
  then have "compareBenchmarks baseline (parse_run float fp ls) t normalise exclude skip = []"
    by (simp add: compareBenchmarks_def List.map_filter_simps)
  with none show ?thesis by (simp add: compare_exit_def report_verdict_def summary_def)
qed

text \<open>C0: The percentiles of a list of times are among its values and in order, and with at most a hundred values the last is the maximum.\<close>

theorem percentiles_ordered:
  assumes "vs \<noteq> []" and "percentiles vs = (p50, p95, p99)"
  shows "p50 \<le> p95 \<and> p95 \<le> p99 \<and> {p50, p95, p99} \<subseteq> set vs \<and> (length vs \<le> 100 \<longrightarrow> p99 = Max (set vs))"
proof -
  let ?s = "sort vs" and ?n = "length vs"
  have n: "0 < ?n" using assms(1) by simp
  have p: "p50 = ?s ! (?n * 50 div 100)" "p95 = ?s ! (?n * 95 div 100)" "p99 = ?s ! min (?n * 99 div 100) (?n - 1)"
    using assms by (auto simp: percentiles_def Let_def)
  have lt: "?n * 50 div 100 < ?n" "?n * 95 div 100 < ?n" "min (?n * 99 div 100) (?n - 1) < ?n" using n by linarith+
  have le: "?n * 50 div 100 \<le> ?n * 95 div 100" "?n * 95 div 100 \<le> min (?n * 99 div 100) (?n - 1)" using n lt by linarith+
  have mono: "?s ! i \<le> ?s ! j" if "i \<le> j" "j < ?n" for i j using that by (simp add: sorted_nth_mono)
  have elem: "?s ! i \<in> set vs" if "i < ?n" for i using that by (metis length_sort nth_mem set_sort)
  have "p99 = Max (set vs)" if "?n \<le> 100"
  proof -
    have "min (?n * 99 div 100) (?n - 1) = ?n - 1" using that n by linarith
    moreover have "?s ! (?n - 1) = Max (set vs)"
    proof (rule Max_eqI [symmetric])
      fix y assume "y \<in> set vs"
      then obtain i where "i < ?n" "y = ?s ! i" by (metis in_set_conv_nth length_sort set_sort)
      then show "y \<le> ?s ! (?n - 1)" using mono [of i "?n - 1"] by linarith
    qed (use n elem in auto)
    ultimately show ?thesis using p by simp
  qed
  then show ?thesis using p mono [OF le(1) lt(2)] mono [OF le(2) lt(3)] elem lt by simp
qed

text \<open>Two benchmarks whose names differ in their last digits have one name after the parser cut the number of processors off.\<close>

lemma digits_of_the_name_are_cut: "trim_procs ''BenchmarkPage1-8'' = ''BenchmarkPage'' \<and> trim_procs ''BenchmarkPage20-8'' = ''BenchmarkPage''"
  by code_simp

end
