(* ===== verification/Html.thy ===== *)
theory Html
  imports Go_Text Unicode "HOL-Library.Sublist"
begin

text \<open>
  The HTML the templates write, as trees: literal parts are copied to the page, data is escaped by \<open>templ.EscapeString\<close>, a parameter whose
  law is that it is \<open>html.EscapeString\<close> of the standard library. \<open>read_html\<close> is the tokenizer of a browser, cut to what the pages use:
  tags, attributes in double quotes, comments, the five character references of \<open>html.EscapeString\<close>, and raw text in \<open>script\<close> and \<open>style\<close>.
\<close>

section \<open>Trees and text\<close>

datatype attr = At string string | Ad string string | Af string

datatype html =
    Mark string
  | Lit string
  | Dat string
  | El string "attr list" "html list"
  | Raw string "attr list" string

definition void_tags :: "string list" where
  "void_tags = [''input'', ''img'', ''meta'', ''link'']"

definition raw_tags :: "string list" where
  "raw_tags = [''script'', ''style'']"

abbreviation (input) quot :: char where "quot \<equiv> CHR 0x22"

definition quoted_value :: "string \<Rightarrow> string" where
  "quoted_value v = CHR ''='' # quot # v @ [quot]"

fun render_attr :: "(string \<Rightarrow> string) \<Rightarrow> attr \<Rightarrow> string" where
  "render_attr esc (At k v) = CHR '' '' # k @ quoted_value v"
| "render_attr esc (Ad k v) = CHR '' '' # k @ quoted_value (esc v)"
| "render_attr esc (Af k) = CHR '' '' # k"

definition open_tag :: "(string \<Rightarrow> string) \<Rightarrow> string \<Rightarrow> attr list \<Rightarrow> string" where
  "open_tag esc n as = CHR ''<'' # n @ concat (map (render_attr esc) as) @ ''>''"

definition close_tag :: "string \<Rightarrow> string" where
  "close_tag n = ''</'' @ n @ ''>''"

fun render :: "(string \<Rightarrow> string) \<Rightarrow> html \<Rightarrow> string" where
  "render esc (Mark s) = ''<!'' @ s @ ''>''"
| "render esc (Lit s) = s"
| "render esc (Dat s) = esc s"
| "render esc (El n as cs) = open_tag esc n as @ (if n \<in> set void_tags then '''' else concat (map (render esc) cs) @ close_tag n)"
| "render esc (Raw n as b) = open_tag esc n as @ b @ close_tag n"

definition render_page :: "(string \<Rightarrow> string) \<Rightarrow> html list \<Rightarrow> string" where
  "render_page esc hs = concat (map (render esc) hs)"

text \<open>\<open>html.EscapeString\<close>.\<close>

definition escape_char :: "char \<Rightarrow> string" where
  "escape_char c =
     (if c = CHR ''&'' then ''&amp;'' else if c = CHR 0x27 then ''&#39;'' else if c = CHR ''<'' then ''&lt;''
      else if c = CHR ''>'' then ''&gt;'' else if c = quot then ''&#34;'' else [c])"

definition html_EscapeString :: "string \<Rightarrow> string" where
  "html_EscapeString s = concat (map escape_char s)"

section \<open>Reading a page\<close>

datatype token =
    TMark string
  | TChar char
  | TOpen string "(string \<times> string option) list"
  | TClose string
  | TRaw string

text \<open>What follows an ampersand.\<close>

definition entity :: "string \<Rightarrow> (char \<times> string) option" where
  "entity s =
     (if has_prefix s ''amp;'' then Some (CHR ''&'', drop 4 s) else if has_prefix s ''#39;'' then Some (CHR 0x27, drop 4 s)
      else if has_prefix s ''lt;'' then Some (CHR ''<'', drop 3 s) else if has_prefix s ''gt;'' then Some (CHR ''>'', drop 3 s)
      else if has_prefix s ''#34;'' then Some (quot, drop 4 s) else None)"

definition next_char :: "char \<Rightarrow> string \<Rightarrow> char \<times> string" where
  "next_char c s = (if c = CHR ''&'' then (case entity s of Some x \<Rightarrow> x | None \<Rightarrow> (c, s)) else (c, s))"

lemma next_char_shorter: "length (snd (next_char c s)) \<le> length s"
  by (auto simp: next_char_def entity_def)

function decode_refs :: "string \<Rightarrow> string" where
  "decode_refs [] = []"
| "decode_refs (c # s) = fst (next_char c s) # decode_refs (snd (next_char c s))"
  by pat_completeness auto
termination by (relation "measure length") (auto simp: next_char_shorter less_Suc_eq_le)

definition tag_char :: "char \<Rightarrow> bool" where
  "tag_char c \<longleftrightarrow> c \<noteq> CHR '' '' \<and> c \<noteq> CHR ''>''"

definition attr_char :: "char \<Rightarrow> bool" where
  "attr_char c \<longleftrightarrow> c \<noteq> CHR '' '' \<and> c \<noteq> CHR ''>'' \<and> c \<noteq> CHR ''='' \<and> c \<noteq> quot"

definition after_char :: "char \<Rightarrow> string \<Rightarrow> string" where
  "after_char c s = drop 1 (dropWhile (\<lambda>x. x \<noteq> c) s)"

lemma after_char_shorter: "length (after_char c s) \<le> length s"
  unfolding after_char_def using length_dropWhile_le [of "\<lambda>x. x \<noteq> c" s] by simp

lemma dropWhile_shorter: "p c \<Longrightarrow> length (dropWhile p (c # s)) < Suc (length s)"
  using length_dropWhile_le [of p s] by simp

text \<open>The attributes of a tag and what follows the tag.\<close>

function read_attrs :: "string \<Rightarrow> (string \<times> string option) list \<times> string" where
  "read_attrs [] = ([], [])"
| "read_attrs (c # s) =
     (if c = CHR ''>'' then ([], s)
      else if \<not> attr_char c then read_attrs s
      else let n = takeWhile attr_char (c # s); r = dropWhile attr_char (c # s) in
        if has_prefix r [CHR ''='', quot] then
          (case read_attrs (after_char quot (drop 2 r)) of
             (as, t) \<Rightarrow> ((n, Some (decode_refs (takeWhile (\<lambda>x. x \<noteq> quot) (drop 2 r)))) # as, t))
        else (case read_attrs r of (as, t) \<Rightarrow> ((n, None) # as, t)))"
  by pat_completeness auto
termination
proof (relation "measure length")
  fix c :: char and s r :: string and n
  assume r: "r = dropWhile attr_char (c # s)" and c: "\<not> \<not> attr_char c"
  then have len: "length r < length (c # s)" using dropWhile_shorter [of attr_char c s] by simp
  then show "(r, c # s) \<in> measure length" by simp
  show "(after_char quot (drop 2 r), c # s) \<in> measure length"
    using len after_char_shorter [of quot "drop 2 r"] by simp
qed simp_all

lemma read_attrs_shorter: "length (snd (read_attrs s)) \<le> length s"
proof (induction s rule: read_attrs.induct)
  case (2 c s)
  let ?r = "dropWhile attr_char (c # s)"
  have "length (after_char quot (drop 2 ?r)) \<le> length ?r" using after_char_shorter [of quot "drop 2 ?r"] by simp
  moreover have "length ?r \<le> length (c # s)" by (rule length_dropWhile_le)
  ultimately show ?case using 2 by (auto simp: Let_def simp del: dropWhile.simps takeWhile.simps split: prod.splits)
      (meson le_trans)+
qed simp

fun raw_text :: "string \<Rightarrow> string \<Rightarrow> string \<times> string" where
  "raw_text e [] = ([], [])"
| "raw_text e (c # s) = (if has_prefix (c # s) e then ([], c # s) else (case raw_text e s of (b, r) \<Rightarrow> (c # b, r)))"

lemma raw_text_shorter: "length (snd (raw_text e s)) \<le> length s"
  by (induction s) (auto split: prod.splits)

function read_html :: "string \<Rightarrow> token list" where
  "read_html [] = []"
| "read_html (c # s) =
     (if c \<noteq> CHR ''<'' then TChar (fst (next_char c s)) # read_html (snd (next_char c s))
      else if has_prefix s ''/'' then TClose (takeWhile (\<lambda>x. x \<noteq> CHR ''>'') (tl s)) # read_html (after_char (CHR ''>'') s)
      else if has_prefix s ''!'' then TMark (takeWhile (\<lambda>x. x \<noteq> CHR ''>'') (tl s)) # read_html (after_char (CHR ''>'') s)
      else let n = takeWhile tag_char s; as = fst (read_attrs (dropWhile tag_char s)); r = snd (read_attrs (dropWhile tag_char s)) in
        TOpen n as #
          (if n \<in> set raw_tags then TRaw (fst (raw_text (''</'' @ n) r)) # read_html (snd (raw_text (''</'' @ n) r)) else read_html r))"
  by pat_completeness auto
termination
proof (relation "measure length")
  fix c :: char and s :: string
  show "(snd (next_char c s), c # s) \<in> measure length" using next_char_shorter [of c s] by simp
  show "(after_char (CHR ''>'') s, c # s) \<in> measure length" "(after_char (CHR ''>'') s, c # s) \<in> measure length"
    using after_char_shorter [of "CHR ''>''" s] by simp_all
  fix n r :: string and as
  assume "r = snd (read_attrs (dropWhile tag_char s))"
  then have len: "length r \<le> length s"
    using read_attrs_shorter [of "dropWhile tag_char s"] length_dropWhile_le [of tag_char s] by simp
  then show "(r, c # s) \<in> measure length" by simp
  show "(snd (raw_text (''</'' @ n) r), c # s) \<in> measure length" using len raw_text_shorter [of "''</'' @ n" r] by simp
qed simp

declare read_attrs.simps(2) [simp del] read_html.simps(2) [simp del]

abbreviation (input) cls :: "string \<Rightarrow> attr" where "cls c \<equiv> At ''class'' c"

abbreviation (input) stroke_path :: "string \<Rightarrow> html" where
  "stroke_path d \<equiv> El ''path'' [At ''stroke-linecap'' ''round'', At ''stroke-linejoin'' ''round'', At ''stroke-width'' ''2'', At ''d'' d] []"

abbreviation (input) drawing :: "string \<Rightarrow> html list \<Rightarrow> html" where
  "drawing c ps \<equiv> El ''svg'' [cls c, At ''fill'' ''none'', At ''viewBox'' ''0 0 24 24'', At ''stroke'' ''currentColor''] ps"

section \<open>Data stays text\<close>

text \<open>What a browser is to read of a tree: data is characters, whatever it is.\<close>

fun attr_token :: "attr \<Rightarrow> string \<times> string option" where
  "attr_token (At k v) = (k, Some v)"
| "attr_token (Ad k v) = (k, Some v)"
| "attr_token (Af k) = (k, None)"

fun tokens :: "html \<Rightarrow> token list" where
  "tokens (Mark s) = [TMark s]"
| "tokens (Lit s) = map TChar s"
| "tokens (Dat s) = map TChar s"
| "tokens (El n as cs) = TOpen n (map attr_token as) # (if n \<in> set void_tags then [] else concat (map tokens cs) @ [TClose n])"
| "tokens (Raw n as b) = [TOpen n (map attr_token as), TRaw b, TClose n]"

text \<open>The literal parts of a template are well formed.\<close>

fun plain_text :: "string \<Rightarrow> bool" where
  "plain_text [] \<longleftrightarrow> True"
| "plain_text (c # s) \<longleftrightarrow> c \<noteq> CHR ''<'' \<and> (c = CHR ''&'' \<longrightarrow> s \<noteq> [] \<and> hd s \<notin> set ''al#g'') \<and> plain_text s"

definition attr_name :: "string \<Rightarrow> bool" where
  "attr_name k \<longleftrightarrow> k \<noteq> [] \<and> list_all attr_char k"

definition tag_name :: "string \<Rightarrow> bool" where
  "tag_name n \<longleftrightarrow> n \<noteq> [] \<and> list_all tag_char n \<and> hd n \<notin> set ''/!''"

fun wf_attr :: "attr \<Rightarrow> bool" where
  "wf_attr (At k v) \<longleftrightarrow> attr_name k \<and> list_all (\<lambda>c. c \<noteq> quot \<and> c \<noteq> CHR ''&'') v"
| "wf_attr (Ad k v) \<longleftrightarrow> attr_name k"
| "wf_attr (Af k) \<longleftrightarrow> attr_name k"

fun wf_html :: "html \<Rightarrow> bool" where
  "wf_html (Mark s) \<longleftrightarrow> list_all (\<lambda>c. c \<noteq> CHR ''>'') s"
| "wf_html (Lit s) \<longleftrightarrow> plain_text s"
| "wf_html (Dat s) \<longleftrightarrow> True"
| "wf_html (El n as cs) \<longleftrightarrow> tag_name n \<and> n \<notin> set raw_tags \<and> list_all wf_attr as \<and> list_all wf_html cs"
| "wf_html (Raw n as b) \<longleftrightarrow> tag_name n \<and> n \<in> set raw_tags \<and> list_all wf_attr as \<and> list_all (\<lambda>c. c \<noteq> CHR ''<'') b"

lemma has_prefix_self [simp]: "has_prefix (p @ s) p"
  by (simp add: has_prefix_def)

lemma has_prefix_Cons [simp]: "has_prefix (c # s) (d # p) \<longleftrightarrow> c = d \<and> has_prefix s p" "has_prefix s []" "\<not> has_prefix [] (d # p)"
  by (auto simp: has_prefix_def)

lemma next_char_escaped:
  "escape_char c = d # ds \<Longrightarrow> d \<noteq> CHR ''<'' \<and> next_char d (ds @ r) = (c, r)"
  by (auto simp: escape_char_def next_char_def entity_def split: if_splits)

lemma escape_char_nonempty: "escape_char c \<noteq> []"
  by (simp add: escape_char_def)

lemma read_escaped_char: "read_html (escape_char c @ r) = TChar c # read_html r"
  using next_char_escaped [of c _ _ r] escape_char_nonempty [of c] by (cases "escape_char c") (auto simp: read_html.simps(2))

lemma read_escaped: "read_html (html_EscapeString s @ r) = map TChar s @ read_html r"
  by (induction s) (simp_all add: html_EscapeString_def read_escaped_char)

lemma decode_escaped_char: "decode_refs (escape_char c @ r) = c # decode_refs r"
  using next_char_escaped [of c _ _ r] escape_char_nonempty [of c] by (cases "escape_char c") auto

lemma decode_escaped [simp]: "decode_refs (html_EscapeString s) = s"
  by (induction s) (simp_all add: html_EscapeString_def decode_escaped_char)

lemma escaped_no_quote [simp]: "quot \<notin> set (html_EscapeString s)"
  by (induction s) (auto simp: html_EscapeString_def escape_char_def)

lemma decode_plain: "list_all (\<lambda>c. c \<noteq> quot \<and> c \<noteq> CHR ''&'') v \<Longrightarrow> decode_refs v = v"
  by (induction v) (auto simp: next_char_def)

lemma read_plain: "plain_text s \<Longrightarrow> read_html (s @ r) = map TChar s @ read_html r"
proof (induction s)
  case (Cons c s)
  then have "next_char c (s @ r) = (c, s @ r)"
    by (cases s) (auto simp: next_char_def entity_def)
  with Cons show ?case by (simp add: read_html.simps(2))
qed simp

lemma takeWhile_until: "list_all p k \<Longrightarrow> \<not> p c \<Longrightarrow> takeWhile p (k @ c # r) = k" "list_all p k \<Longrightarrow> \<not> p c \<Longrightarrow> dropWhile p (k @ c # r) = c # r"
  by (induction k) auto

lemma after_char_until: "c \<notin> set v \<Longrightarrow> after_char c (v @ c # r) = r"
  unfolding after_char_def by (subst dropWhile_append2) auto

lemma read_attr_skip [simp]: "read_attrs (CHR '' '' # s) = read_attrs s" "read_attrs (CHR ''>'' # s) = ([], s)"
  by (simp_all add: read_attrs.simps(2) attr_char_def)

lemma read_attr_value:
  assumes "attr_name k" and "quot \<notin> set v"
  shows "read_attrs (k @ quoted_value v @ r) = apfst (Cons (k, Some (decode_refs v))) (read_attrs r)"
proof -
  obtain c k' where k: "k = c # k'" using assms(1) unfolding attr_name_def by (cases k) auto
  then have c: "attr_char c" "c \<noteq> CHR ''>''" using assms(1) unfolding attr_name_def attr_char_def by auto
  let ?r = "CHR ''='' # quot # v @ quot # r"
  have eq: "\<not> attr_char (CHR ''='')" by (simp add: attr_char_def)
  have all: "list_all attr_char (c # k')" using assms(1) k by (simp add: attr_name_def)
  have "takeWhile attr_char ((c # k') @ ?r) = k" "dropWhile attr_char ((c # k') @ ?r) = ?r"
    using takeWhile_until [OF all eq] k by simp_all
  moreover have "takeWhile (\<lambda>x. x \<noteq> quot) (v @ quot # r) = v" using assms(2) by (subst takeWhile_append2) auto
  ultimately show ?thesis using c after_char_until [OF assms(2), of r]
    by (simp add: k quoted_value_def read_attrs.simps(2) Let_def apfst_def map_prod_def
        del: takeWhile.simps dropWhile.simps split: prod.splits)
qed

lemma read_attr_flag:
  assumes "attr_name k" and "c = CHR '' '' \<or> c = CHR ''>''"
  shows "read_attrs (k @ c # r) = apfst (Cons (k, None)) (read_attrs (c # r))"
proof -
  obtain d k' where k: "k = d # k'" using assms(1) unfolding attr_name_def by (cases k) auto
  then have d: "attr_char d" "d \<noteq> CHR ''>''" using assms(1) unfolding attr_name_def attr_char_def by auto
  have stop: "\<not> attr_char c" using assms(2) by (auto simp: attr_char_def)
  have all: "list_all attr_char (d # k')" using assms(1) k by (simp add: attr_name_def)
  have "takeWhile attr_char ((d # k') @ c # r) = k" "dropWhile attr_char ((d # k') @ c # r) = c # r"
    using takeWhile_until [OF all stop] k by simp_all
  moreover have "\<not> has_prefix (c # r) [CHR ''='', quot]" using assms(2) by auto
  ultimately show ?thesis using d
    by (simp add: k read_attrs.simps(2) [of d] Let_def apfst_def map_prod_def del: takeWhile.simps dropWhile.simps has_prefix_Cons split: prod.splits)
qed

lemma attrs_start: "\<exists>c s. concat (map (render_attr esc) as) @ CHR ''>'' # r = c # s \<and> (c = CHR '' '' \<or> c = CHR ''>'')"
proof (cases as)
  case (Cons a as')
  then show ?thesis by (cases a) auto
qed simp

lemma read_rendered_attrs:
  "list_all wf_attr as \<Longrightarrow> read_attrs (concat (map (render_attr html_EscapeString) as) @ CHR ''>'' # r) = (map attr_token as, r)"
proof (induction as)
  case (Cons a as)
  then have IH: "read_attrs (concat (map (render_attr html_EscapeString) as) @ CHR ''>'' # r) = (map attr_token as, r)" by simp
  show ?case
  proof (cases a)
    case (At k v)
    with Cons.prems have "quot \<notin> set v" by (auto simp: list_all_iff)
    with At Cons.prems show ?thesis by (simp add: read_attr_value IH decode_plain)
  next
    case (Ad k v)
    with Cons.prems show ?thesis by (simp add: read_attr_value IH)
  next
    case (Af k)
    obtain c s where cs: "concat (map (render_attr html_EscapeString) as) @ CHR ''>'' # r = c # s" "c = CHR '' '' \<or> c = CHR ''>''"
      using attrs_start by blast
    from Af Cons.prems have "read_attrs (k @ c # s) = apfst (Cons (k, None)) (read_attrs (c # s))" using cs(2) by (simp add: read_attr_flag)
    with Af IH cs(1) show ?thesis by simp
  qed
qed simp

lemma read_open_tag:
  assumes "tag_name n" and "list_all wf_attr as"
  shows "read_html (open_tag html_EscapeString n as @ r) = TOpen n (map attr_token as) #
    (if n \<in> set raw_tags then TRaw (fst (raw_text (''</'' @ n) r)) # read_html (snd (raw_text (''</'' @ n) r)) else read_html r)"
proof -
  let ?s = "concat (map (render_attr html_EscapeString) as) @ CHR ''>'' # r"
  obtain c s where cs: "?s = c # s" "c = CHR '' '' \<or> c = CHR ''>''" using attrs_start by blast
  then have "\<not> tag_char c" by (auto simp: tag_char_def)
  then have "takeWhile tag_char (n @ ?s) = n" "dropWhile tag_char (n @ ?s) = ?s"
    unfolding cs(1) using assms(1) takeWhile_until [of tag_char n c s] by (simp_all add: tag_name_def)
  moreover obtain d n' where "n = d # n'" "d \<noteq> CHR ''/''" "d \<noteq> CHR ''!''" using assms(1) unfolding tag_name_def by (cases n) auto
  ultimately show ?thesis
    using read_rendered_attrs [OF assms(2), of r] by (simp add: open_tag_def read_html.simps(2) Let_def del: takeWhile.simps dropWhile.simps)
qed

lemma read_close_tag:
  assumes "tag_name n"
  shows "read_html (close_tag n @ r) = TClose n # read_html r"
proof -
  have n: "CHR ''>'' \<notin> set n" using assms by (auto simp: tag_name_def tag_char_def list_all_iff)
  then have "takeWhile (\<lambda>x. x \<noteq> CHR ''>'') (n @ CHR ''>'' # r) = n" by (subst takeWhile_append2) auto
  moreover have "CHR ''>'' \<notin> set (CHR ''/'' # n)" using n by simp
  from after_char_until [OF this, of r] have "after_char (CHR ''>'') (CHR ''/'' # n @ CHR ''>'' # r) = r" by simp
  ultimately show ?thesis by (simp add: close_tag_def read_html.simps(2))
qed

lemma raw_text_ends:
  assumes "list_all (\<lambda>c. c \<noteq> CHR ''<'') b"
  shows "raw_text (CHR ''<'' # CHR ''/'' # n) (b @ close_tag n @ r) = (b, close_tag n @ r)"
  using assms by (induction b) (simp_all add: close_tag_def)

lemma read_rendered: "wf_html h \<Longrightarrow> read_html (render html_EscapeString h @ r) = tokens h @ read_html r"
proof (induction h arbitrary: r)
  case (El n as cs)
  have kids: "read_html (concat (map (render html_EscapeString) cs) @ r') = concat (map tokens cs) @ read_html r'" for r'
    using El by (induction cs) (auto simp: list_all_iff)
  from El.prems show ?case by (simp add: read_open_tag read_close_tag kids)
next
  case (Raw n as b)
  then show ?case by (simp add: read_open_tag raw_text_ends read_close_tag)
next
  case (Mark s)
  then have "CHR ''>'' \<notin> set s" by (auto simp: list_all_iff)
  then have "takeWhile (\<lambda>x. x \<noteq> CHR ''>'') (s @ CHR ''>'' # r) = s" "after_char (CHR ''>'') ((CHR ''!'' # s) @ CHR ''>'' # r) = r"
    using after_char_until [of "CHR ''>''" "CHR ''!'' # s" r] by (auto simp: takeWhile_tail)
  then show ?case by (simp add: read_html.simps(2))
qed (simp_all add: read_plain read_escaped)

text \<open>A page of well-formed templates is read as written: what the data contains never becomes a tag or an attribute.\<close>

lemma page_read_back:
  assumes "list_all wf_html hs" and "\<forall>s. esc s = html_EscapeString s"
  shows "read_html (render_page esc hs) = concat (map tokens hs)"
proof -
  have "esc = html_EscapeString" using assms(2) by (simp add: fun_eq_iff)
  moreover have "read_html (concat (map (render html_EscapeString) hs)) = concat (map tokens hs)"
    using assms(1) by (induction hs) (simp_all add: read_rendered)
  ultimately show ?thesis by (simp add: render_page_def)
qed

end
