(* ===== verification/Page_Components.thy ===== *)
theory Page_Components
  imports Html User_Pages
begin

text \<open>
  The components the pages are made of (\<open>web/components/*_templ.go\<close>, the code templ generates, and \<open>internal/view/pagination_templ.go\<close>),
  each the HTML it writes, byte for byte. \<open>children...\<close> is the argument \<open>kids\<close>, and a component that may be nil is an option. What the
  templates take from templ and from the context is \<open>page_env\<close>: the CSRF token, \<open>CSSClasses\<close> of one string, and the check of addresses
  that are not declared safe. In the text of a script a backquote stands for an apostrophe and a circumflex for a quotation mark.
\<close>

record page_env =
  pe_csrf :: string
  pe_css :: "string \<Rightarrow> string"
  pe_url :: "string \<Rightarrow> string"

definition script_char :: "char \<Rightarrow> char" where
  "script_char c = (if c = CHR 0x60 then CHR 0x27 else if c = CHR 0x5E then CHR 0x22 else c)"

text \<open>Lines with the number of tabs before each.\<close>

definition script_text :: "(nat \<times> string) list \<Rightarrow> string" where
  "script_text ls = concat (map (\<lambda>(n, l). CHR 0x0A # replicate n (CHR 0x09) @ map script_char l) ls)"

text \<open>An attribute or a text may be a \<open>bool\<close> or an \<open>int\<close>, which is printed.\<close>

definition go_bool :: "bool \<Rightarrow> string" where
  "go_bool b = (if b then ''true'' else ''false'')"

definition component :: "html list option \<Rightarrow> html list" where
  "component c = (case c of None \<Rightarrow> [] | Some h \<Rightarrow> h)"

section \<open>Buttons and icons\<close>

definition getButtonClass :: "string \<Rightarrow> string \<Rightarrow> string" where
  \<open>getButtonClass variant sz =
     ''inline-flex items-center justify-center font-medium rounded-lg transition-all focus:outline-none focus:ring-2 focus:ring-offset-2 disabled:opacity-50 disabled:cursor-not-allowed '' @
     (if sz = ''sm'' then ''px-3 py-1.5 text-xs'' else if sz = ''lg'' then ''px-6 py-3 text-base'' else ''px-4 py-2 text-sm'') @ '' '' @
     (if variant = ''secondary'' then
        ''bg-gray-100 text-gray-900 hover:bg-gray-200 focus:ring-gray-500 dark:bg-gray-800 dark:text-gray-100 dark:hover:bg-gray-700''
      else if variant = ''danger'' then ''bg-red-600 text-white hover:bg-red-700 focus:ring-red-500 dark:focus:ring-offset-zinc-900''
      else if variant = ''ghost'' then ''bg-transparent text-gray-700 hover:bg-gray-100 focus:ring-gray-500 dark:text-gray-300 dark:hover:bg-gray-800''
      else
        ''bg-gray-900 text-white hover:bg-gray-800 focus:ring-gray-900 dark:bg-white dark:text-gray-900 dark:hover:bg-gray-100 dark:focus:ring-white dark:focus:ring-offset-zinc-900'')\<close>

definition getIconButtonClass :: "string \<Rightarrow> string" where
  \<open>getIconButtonClass variant =
     ''inline-flex items-center justify-center p-2 rounded-lg transition-all focus:outline-none focus:ring-2 focus:ring-offset-2 '' @
     (if variant = ''primary'' then ''bg-gray-900 text-white hover:bg-gray-800 focus:ring-gray-900 dark:bg-white dark:text-gray-900''
      else if variant = ''secondary'' then ''bg-gray-100 text-gray-900 hover:bg-gray-200 focus:ring-gray-500 dark:bg-gray-800 dark:text-gray-100''
      else ''bg-transparent text-gray-700 hover:bg-gray-100 focus:ring-gray-500 dark:text-gray-300 dark:hover:bg-gray-800'')\<close>

definition Button :: "page_env \<Rightarrow> string \<Rightarrow> string \<Rightarrow> string \<Rightarrow> bool \<Rightarrow> html list" where
  \<open>Button env text variant sz disabled =
     [El ''button'' [At ''type'' ''button'', Ad ''class'' (pe_css env (getButtonClass variant sz)), Ad ''disabled'' (go_bool disabled)] [Dat text]]\<close>

definition SubmitButton :: "page_env \<Rightarrow> string \<Rightarrow> string \<Rightarrow> string \<Rightarrow> bool \<Rightarrow> html list" where
  \<open>SubmitButton env text variant sz disabled =
     [El ''button'' [At ''type'' ''submit'', Ad ''class'' (pe_css env (getButtonClass variant sz)), Ad ''disabled'' (go_bool disabled)] [Dat text]]\<close>

definition IconButton :: "page_env \<Rightarrow> html list option \<Rightarrow> string \<Rightarrow> string \<Rightarrow> html list" where
  \<open>IconButton env icon ariaLabel variant =
     [El ''button'' [At ''type'' ''button'', Ad ''class'' (pe_css env (getIconButtonClass variant)), Ad ''aria-label'' ariaLabel] (component icon)]\<close>

definition LucideIcon :: "page_env \<Rightarrow> string \<Rightarrow> string \<Rightarrow> html list" where
  \<open>LucideIcon env name classes =
     [El ''i'' [Ad ''data-lucide'' name, Ad ''class'' (pe_css env classes)] []]\<close>

section \<open>Cards\<close>

definition Card :: "html list list \<Rightarrow> html list \<Rightarrow> html list" where
  \<open>Card args kids =
     [El ''div'' [cls ''bg-white dark:bg-zinc-900 rounded-xl shadow-sm border border-gray-200 dark:border-gray-800 overflow-hidden''] kids]\<close>

definition CardHeader :: "html list list \<Rightarrow> html list \<Rightarrow> html list" where
  \<open>CardHeader args kids =
     [El ''div'' [cls ''px-6 py-4 border-b border-gray-200 dark:border-gray-800''] kids]\<close>

definition CardTitle :: "string \<Rightarrow> html list" where
  \<open>CardTitle title =
     [El ''h2'' [cls ''text-base font-semibold text-gray-900 dark:text-white''] [Dat title]]\<close>

definition CardDescription :: "string \<Rightarrow> html list" where
  \<open>CardDescription description =
     [El ''p'' [cls ''text-sm text-gray-500 dark:text-gray-400 mt-1''] [Dat description]]\<close>

definition CardContent :: "html list list \<Rightarrow> html list \<Rightarrow> html list" where
  \<open>CardContent args kids =
     [El ''div'' [cls ''px-6 py-4''] kids]\<close>

definition CardFooter :: "html list list \<Rightarrow> html list \<Rightarrow> html list" where
  \<open>CardFooter args kids =
     [El ''div'' [cls ''px-6 py-4 bg-gray-50 dark:bg-zinc-900/50 border-t border-gray-200 dark:border-gray-800''] kids]\<close>

definition StatCard :: "string \<Rightarrow> string \<Rightarrow> string \<Rightarrow> html list option \<Rightarrow> html list" where
  \<open>StatCard title value change icon =
     [El ''div'' [cls ''bg-white dark:bg-zinc-900 rounded-xl shadow-sm border border-gray-200 dark:border-gray-800 p-6'']
        [El ''div'' [cls ''flex items-center justify-between'']
           [El ''div'' []
              ([El ''p'' [cls ''text-sm font-medium text-gray-500 dark:text-gray-400''] [Dat title],
               El ''p'' [cls ''mt-2 text-2xl font-semibold text-gray-900 dark:text-white''] [Dat value]] @
              (if change \<noteq> '''' then [El ''p'' [cls ''mt-1 text-sm text-green-600 dark:text-green-400''] [Dat change]] else [])),
            El ''div'' [cls ''flex items-center justify-center w-12 h-12 rounded-lg bg-gray-100 dark:bg-gray-800 text-gray-600 dark:text-gray-300'']
              (component icon)]]]\<close>

section \<open>Messages\<close>

definition Alert :: "string \<Rightarrow> string \<Rightarrow> string \<Rightarrow> html list" where
  \<open>Alert alertType title message =
     (if alertType = ''success'' then
        [El ''div'' [cls ''rounded-lg border border-green-200 bg-green-50 p-4 dark:border-green-800 dark:bg-green-900/20'', At ''role'' ''alert'',
                     At ''x-data'' ''{ dismissed: false }'', At ''x-show'' ''!dismissed'']
           [El ''div'' [cls ''flex'']
              [El ''div'' [cls ''flex-shrink-0''] [drawing ''h-5 w-5 text-green-500'' [stroke_path ''M9 12l2 2 4-4m6 2a9 9 0 11-18 0 9 9 0 0118 0z'']],
               El ''div'' [cls ''ml-3 flex-1'']
                 [El ''h3'' [cls ''text-sm font-medium text-green-800 dark:text-green-400''] [Dat title],
                  El ''div'' [cls ''mt-1 text-sm text-green-700 dark:text-green-300''] [El ''p'' [] [Dat message]]],
               El ''div'' [cls ''ml-auto pl-3'']
                 [El ''button'' [At ''type'' ''button'',
                                 cls ''inline-flex rounded-md p-1.5 text-green-500 hover:bg-green-100 focus:outline-none focus:ring-2 focus:ring-green-500 dark:hover:bg-green-900/30'',
                                 At ''@click'' ''dismissed = true''] [drawing ''h-4 w-4'' [stroke_path ''M6 18L18 6M6 6l12 12'']]]]]]
      else if alertType = ''error'' then
        [El ''div'' [cls ''rounded-lg border border-red-200 bg-red-50 p-4 dark:border-red-800 dark:bg-red-900/20'', At ''role'' ''alert'',
                     At ''x-data'' ''{ dismissed: false }'', At ''x-show'' ''!dismissed'']
           [El ''div'' [cls ''flex'']
              [El ''div'' [cls ''flex-shrink-0'']
                 [drawing ''h-5 w-5 text-red-500'' [stroke_path ''M10 14l2-2m0 0l2-2m-2 2l-2-2m2 2l2 2m7-2a9 9 0 11-18 0 9 9 0 0118 0z'']],
               El ''div'' [cls ''ml-3 flex-1'']
                 [El ''h3'' [cls ''text-sm font-medium text-red-800 dark:text-red-400''] [Dat title],
                  El ''div'' [cls ''mt-1 text-sm text-red-700 dark:text-red-300''] [El ''p'' [] [Dat message]]],
               El ''div'' [cls ''ml-auto pl-3'']
                 [El ''button'' [At ''type'' ''button'',
                                 cls ''inline-flex rounded-md p-1.5 text-red-500 hover:bg-red-100 focus:outline-none focus:ring-2 focus:ring-red-500 dark:hover:bg-red-900/30'',
                                 At ''@click'' ''dismissed = true''] [drawing ''h-4 w-4'' [stroke_path ''M6 18L18 6M6 6l12 12'']]]]]]
      else if alertType = ''warning'' then
        [El ''div'' [cls ''rounded-lg border border-yellow-200 bg-yellow-50 p-4 dark:border-yellow-800 dark:bg-yellow-900/20'',
                     At ''role'' ''alert'', At ''x-data'' ''{ dismissed: false }'', At ''x-show'' ''!dismissed'']
           [El ''div'' [cls ''flex'']
              [El ''div'' [cls ''flex-shrink-0'']
                 [drawing ''h-5 w-5 text-yellow-500''
                    [stroke_path ''M12 9v2m0 4h.01m-6.938 4h13.856c1.54 0 2.502-1.667 1.732-3L13.732 4c-.77-1.333-2.694-1.333-3.464 0L3.34 16c-.77 1.333.192 3 1.732 3z'']],
               El ''div'' [cls ''ml-3 flex-1'']
                 [El ''h3'' [cls ''text-sm font-medium text-yellow-800 dark:text-yellow-400''] [Dat title],
                  El ''div'' [cls ''mt-1 text-sm text-yellow-700 dark:text-yellow-300''] [El ''p'' [] [Dat message]]],
               El ''div'' [cls ''ml-auto pl-3'']
                 [El ''button'' [At ''type'' ''button'',
                                 cls ''inline-flex rounded-md p-1.5 text-yellow-500 hover:bg-yellow-100 focus:outline-none focus:ring-2 focus:ring-yellow-500 dark:hover:bg-yellow-900/30'',
                                 At ''@click'' ''dismissed = true''] [drawing ''h-4 w-4'' [stroke_path ''M6 18L18 6M6 6l12 12'']]]]]]
      else
        [El ''div'' [cls ''rounded-lg border border-blue-200 bg-blue-50 p-4 dark:border-blue-800 dark:bg-blue-900/20'', At ''role'' ''alert'',
                     At ''x-data'' ''{ dismissed: false }'', At ''x-show'' ''!dismissed'']
           [El ''div'' [cls ''flex'']
              [El ''div'' [cls ''flex-shrink-0'']
                 [drawing ''h-5 w-5 text-blue-500'' [stroke_path ''M13 16h-1v-4h-1m1-4h.01M21 12a9 9 0 11-18 0 9 9 0 0118 0z'']],
               El ''div'' [cls ''ml-3 flex-1'']
                 [El ''h3'' [cls ''text-sm font-medium text-blue-800 dark:text-blue-400''] [Dat title],
                  El ''div'' [cls ''mt-1 text-sm text-blue-700 dark:text-blue-300''] [El ''p'' [] [Dat message]]],
               El ''div'' [cls ''ml-auto pl-3'']
                 [El ''button'' [At ''type'' ''button'',
                                 cls ''inline-flex rounded-md p-1.5 text-blue-500 hover:bg-blue-100 focus:outline-none focus:ring-2 focus:ring-blue-500 dark:hover:bg-blue-900/30'',
                                 At ''@click'' ''dismissed = true''] [drawing ''h-4 w-4'' [stroke_path ''M6 18L18 6M6 6l12 12'']]]]]])\<close>

definition Badge :: "string \<Rightarrow> string \<Rightarrow> html list" where
  \<open>Badge text variant =
     (if variant = ''success'' then
        [El ''span'' [cls ''inline-flex items-center rounded-md bg-green-100 px-2.5 py-0.5 text-xs font-medium text-green-800 dark:bg-green-900/20 dark:text-green-400'']
           [Dat text]]
      else if variant = ''error'' then
        [El ''span'' [cls ''inline-flex items-center rounded-md bg-red-100 px-2.5 py-0.5 text-xs font-medium text-red-800 dark:bg-red-900/20 dark:text-red-400'']
           [Dat text]]
      else if variant = ''warning'' then
        [El ''span'' [cls ''inline-flex items-center rounded-md bg-yellow-100 px-2.5 py-0.5 text-xs font-medium text-yellow-800 dark:bg-yellow-900/20 dark:text-yellow-400'']
           [Dat text]]
      else
        [El ''span'' [cls ''inline-flex items-center rounded-md bg-gray-100 px-2.5 py-0.5 text-xs font-medium text-gray-800 dark:bg-gray-800 dark:text-gray-400'']
           [Dat text]])\<close>

definition InlineError :: "string \<Rightarrow> html list" where
  \<open>InlineError message =
     [El ''p'' [cls ''mt-1 text-sm text-red-600 dark:text-red-400'', At ''role'' ''alert''] [Dat message]]\<close>

definition InlineSuccess :: "string \<Rightarrow> html list" where
  \<open>InlineSuccess message =
     [El ''p'' [cls ''mt-1 text-sm text-green-600 dark:text-green-400'', At ''role'' ''status''] [Dat message]]\<close>

section \<open>Form fields\<close>

definition getErrorClass :: "string \<Rightarrow> string" where
  "getErrorClass errorText =
     (if errorText \<noteq> '''' then ''border-red-300 focus:border-red-500 focus:ring-red-500/20 dark:border-red-800'' else '''')"

definition Input :: "page_env \<Rightarrow> string \<Rightarrow> string \<Rightarrow> string \<Rightarrow> string \<Rightarrow> string \<Rightarrow> bool \<Rightarrow> bool \<Rightarrow> html list option \<Rightarrow> string \<Rightarrow> string \<Rightarrow> html list" where
  \<open>Input env label name inputType placeholder value required disabled icon helpText errorText =
     [El ''div'' []
        ((if label \<noteq> '''' then
           [El ''label'' [Ad ''for'' name, cls ''block text-sm font-medium text-gray-700 dark:text-gray-300 mb-2''] [Dat label]] else []) @
        [El ''div'' [cls ''relative'']
           ((if icon \<noteq> None then
              [El ''div'' [cls ''absolute inset-y-0 left-0 pl-4 flex items-center pointer-events-none'']
                 [El ''span'' [cls ''h-5 w-5 text-gray-400''] (component icon)],
               El ''input'' [Ad ''type'' inputType, Ad ''id'' name, Ad ''name'' name, Ad ''value'' value, Ad ''placeholder'' placeholder,
                             Ad ''required'' (go_bool required), Ad ''disabled'' (go_bool disabled),
                             Ad ''class'' (pe_css env (''block w-full pl-12 pr-4 py-2.5 rounded-lg border border-gray-200 bg-white text-gray-900 placeholder-gray-400 focus:border-gray-900 focus:outline-none focus:ring-2 focus:ring-gray-900/20 dark:border-gray-700 dark:bg-zinc-800 dark:text-white dark:placeholder-gray-500 dark:focus:border-white dark:focus:ring-white/20 transition-all '' @ getErrorClass errorText))]
                 []]
            else
              [El ''input'' [Ad ''type'' inputType, Ad ''id'' name, Ad ''name'' name, Ad ''value'' value, Ad ''placeholder'' placeholder,
                             Ad ''required'' (go_bool required), Ad ''disabled'' (go_bool disabled),
                             Ad ''class'' (pe_css env (''block w-full px-4 py-2.5 rounded-lg border border-gray-200 bg-white text-gray-900 placeholder-gray-400 focus:border-gray-900 focus:outline-none focus:ring-2 focus:ring-gray-900/20 dark:border-gray-700 dark:bg-zinc-800 dark:text-white dark:placeholder-gray-500 dark:focus:border-white dark:focus:ring-white/20 transition-all '' @ getErrorClass errorText))]
                 []]))] @
        (if helpText \<noteq> '''' \<and> errorText = '''' then [El ''p'' [cls ''mt-1.5 text-xs text-gray-500 dark:text-gray-400''] [Dat helpText]] else []) @
        (if errorText \<noteq> '''' then
           [El ''p'' [cls ''mt-1.5 text-xs text-red-600 dark:text-red-400'', At ''role'' ''alert''] [Dat errorText]] else []))]\<close>

definition InputWithHX :: "string \<Rightarrow> string \<Rightarrow> string \<Rightarrow> string \<Rightarrow> string \<Rightarrow> bool \<Rightarrow> html list option \<Rightarrow> string \<Rightarrow> string \<Rightarrow> string \<Rightarrow> html list" where
  \<open>InputWithHX label name inputType placeholder value required icon hxGet hxTarget hxTrigger =
     [El ''div'' []
        ((if label \<noteq> '''' then
           [El ''label'' [Ad ''for'' name, cls ''block text-sm font-medium text-gray-700 dark:text-gray-300 mb-2''] [Dat label]] else []) @
        [El ''div'' [cls ''relative'']
           ((if icon \<noteq> None then
              [El ''div'' [cls ''absolute inset-y-0 left-0 pl-4 flex items-center pointer-events-none'']
                 [El ''span'' [cls ''h-5 w-5 text-gray-400''] (component icon)],
               El ''input'' [Ad ''type'' inputType, Ad ''id'' name, Ad ''name'' name, Ad ''value'' value, Ad ''placeholder'' placeholder,
                             Ad ''required'' (go_bool required),
                             cls ''block w-full pl-12 pr-4 py-2.5 rounded-lg border border-gray-200 bg-white text-gray-900 placeholder-gray-400 focus:border-gray-900 focus:outline-none focus:ring-2 focus:ring-gray-900/20 dark:border-gray-700 dark:bg-zinc-800 dark:text-white dark:placeholder-gray-500 dark:focus:border-white dark:focus:ring-white/20 transition-all'',
                             Ad ''hx-get'' hxGet, Ad ''hx-trigger'' hxTrigger, Ad ''hx-target'' hxTarget, At ''hx-push-url'' ''true'']
                 []]
            else
              [El ''input'' [Ad ''type'' inputType, Ad ''id'' name, Ad ''name'' name, Ad ''value'' value, Ad ''placeholder'' placeholder,
                             Ad ''required'' (go_bool required),
                             cls ''block w-full px-4 py-2.5 rounded-lg border border-gray-200 bg-white text-gray-900 placeholder-gray-400 focus:border-gray-900 focus:outline-none focus:ring-2 focus:ring-gray-900/20 dark:border-gray-700 dark:bg-zinc-800 dark:text-white dark:placeholder-gray-500 dark:focus:border-white dark:focus:ring-white/20 transition-all'',
                             Ad ''hx-get'' hxGet, Ad ''hx-trigger'' hxTrigger, Ad ''hx-target'' hxTarget, At ''hx-push-url'' ''true'']
                 []]))])]\<close>

definition TextArea :: "page_env \<Rightarrow> string \<Rightarrow> string \<Rightarrow> string \<Rightarrow> string \<Rightarrow> bool \<Rightarrow> int \<Rightarrow> string \<Rightarrow> string \<Rightarrow> html list" where
  \<open>TextArea env label name placeholder value required rows helpText errorText =
     [El ''div'' []
        ((if label \<noteq> '''' then
           [El ''label'' [Ad ''for'' name, cls ''block text-sm font-medium text-gray-700 dark:text-gray-300 mb-2''] [Dat label], Lit '' ''] else []) @
        [El ''textarea'' [Ad ''id'' name, Ad ''name'' name, Ad ''placeholder'' placeholder, Ad ''required'' (go_bool required),
                          Ad ''rows'' (string_of_int rows),
                          Ad ''class'' (pe_css env (''block w-full px-4 py-2.5 rounded-lg border border-gray-200 bg-white text-gray-900 placeholder-gray-400 focus:border-gray-900 focus:outline-none focus:ring-2 focus:ring-gray-900/20 dark:border-gray-700 dark:bg-zinc-800 dark:text-white dark:placeholder-gray-500 dark:focus:border-white dark:focus:ring-white/20 transition-all resize-none '' @ getErrorClass errorText))]
           [Dat value],
         Lit '' ''] @
        (if helpText \<noteq> '''' \<and> errorText = '''' then [El ''p'' [cls ''mt-1.5 text-xs text-gray-500 dark:text-gray-400''] [Dat helpText]] else []) @
        (if errorText \<noteq> '''' then
           [El ''p'' [cls ''mt-1.5 text-xs text-red-600 dark:text-red-400'', At ''role'' ''alert''] [Dat errorText]] else []))]\<close>

definition Checkbox :: "string \<Rightarrow> string \<Rightarrow> bool \<Rightarrow> bool \<Rightarrow> html list" where
  \<open>Checkbox label name checked required =
     [El ''label'' [cls ''flex items-center'']
        ([El ''input'' [At ''type'' ''checkbox'', Ad ''name'' name, Ad ''checked'' (go_bool checked), Ad ''required'' (go_bool required),
                       cls ''h-4 w-4 text-gray-900 border-gray-300 rounded focus:ring-gray-900 dark:border-gray-700 dark:bg-zinc-800 dark:text-white'']
           [],
         Lit '' ''] @
        (if label \<noteq> '''' then [El ''span'' [cls ''ml-2 text-sm text-gray-700 dark:text-gray-300''] [Dat label]] else []))]\<close>

section \<open>Waiting\<close>

definition getSpinnerSize :: "string \<Rightarrow> string" where
  "getSpinnerSize sz = (if sz = ''sm'' then ''h-4 w-4'' else if sz = ''lg'' then ''h-8 w-8'' else ''h-5 w-5'')"

definition Spinner :: "page_env \<Rightarrow> string \<Rightarrow> html list" where
  \<open>Spinner env sz =
     [El ''span'' [Ad ''class'' (pe_css env (''inline-block animate-spin '' @ getSpinnerSize sz))]
        [El ''svg'' [At ''xmlns'' ''http://www.w3.org/2000/svg'', At ''fill'' ''none'', At ''viewBox'' ''0 0 24 24'']
           [El ''circle'' [cls ''opacity-25'', At ''cx'' ''12'', At ''cy'' ''12'', At ''r'' ''10'', At ''stroke'' ''currentColor'',
                           At ''stroke-width'' ''4''] [],
            Lit '' '',
            El ''path'' [cls ''opacity-75'', At ''fill'' ''currentColor'',
                         At ''d'' ''M4 12a8 8 0 018-8V0C5.373 0 0 5.373 0 12h4zm2 5.291A7.962 7.962 0 014 12H0c0 3.042 1.135 5.824 3 7.938l3-2.647z'']
              []]]]\<close>

definition LoadingOverlay :: "page_env \<Rightarrow> string \<Rightarrow> html list" where
  \<open>LoadingOverlay env message =
     [El ''div'' [cls ''fixed inset-0 z-50 flex items-center justify-center bg-black/50 backdrop-blur-sm'']
        [El ''div'' [cls ''bg-white dark:bg-zinc-900 rounded-xl shadow-xl p-6 flex flex-col items-center gap-4'']
           (Spinner env ''lg'' @ (if message \<noteq> '''' then [El ''p'' [cls ''text-sm text-gray-600 dark:text-gray-400''] [Dat message]] else []))]]\<close>

definition InlineSpinner :: "page_env \<Rightarrow> string \<Rightarrow> html list" where
  \<open>InlineSpinner env sz =
     [El ''span'' [Ad ''class'' (pe_css env (''inline-block animate-spin '' @ getSpinnerSize sz))]
        [El ''svg'' [At ''xmlns'' ''http://www.w3.org/2000/svg'', At ''fill'' ''none'', At ''viewBox'' ''0 0 24 24'']
           [El ''circle'' [cls ''opacity-25'', At ''cx'' ''12'', At ''cy'' ''12'', At ''r'' ''10'', At ''stroke'' ''currentColor'',
                           At ''stroke-width'' ''4''] [],
            Lit '' '',
            El ''path'' [cls ''opacity-75'', At ''fill'' ''currentColor'',
                         At ''d'' ''M4 12a8 8 0 018-8V0C5.373 0 0 5.373 0 12h4zm2 5.291A7.962 7.962 0 014 12H0c0 3.042 1.135 5.824 3 7.938l3-2.647z'']
              []]]]\<close>

definition Skeleton :: "page_env \<Rightarrow> string \<Rightarrow> string \<Rightarrow> string \<Rightarrow> html list" where
  \<open>Skeleton env width height rounded =
     [El ''div'' [Ad ''class'' (pe_css env (''animate-pulse bg-gray-200 dark:bg-gray-700 '' @ width @ '' '' @ height @ '' '' @ rounded))] []]\<close>

definition SkeletonText :: "int \<Rightarrow> html list" where
  \<open>SkeletonText lines =
     [El ''div'' [cls ''space-y-2'']
        (concat (replicate (nat lines)
           ([El ''div'' [cls ''animate-pulse bg-gray-200 dark:bg-gray-700 h-4 rounded w-3/4''] []])))]\<close>

definition SkeletonCard :: "html list" where
  \<open>SkeletonCard =
     [El ''div'' [cls ''bg-white dark:bg-zinc-900 rounded-xl shadow-lg border border-gray-200 dark:border-gray-800 p-6'']
        [El ''div'' [cls ''flex items-center gap-4'']
           [El ''div'' [cls ''animate-pulse bg-gray-200 dark:bg-gray-700 h-12 w-12 rounded-full''] [],
            El ''div'' [cls ''flex-1 space-y-2'']
              [El ''div'' [cls ''animate-pulse bg-gray-200 dark:bg-gray-700 h-4 rounded w-1/2''] [],
               El ''div'' [cls ''animate-pulse bg-gray-200 dark:bg-gray-700 h-3 rounded w-1/3''] []]],
         El ''div'' [cls ''mt-4 space-y-2'']
           [El ''div'' [cls ''animate-pulse bg-gray-200 dark:bg-gray-700 h-3 rounded''] [],
            El ''div'' [cls ''animate-pulse bg-gray-200 dark:bg-gray-700 h-3 rounded w-5/6''] []]]]\<close>

section \<open>The head of a page\<close>

definition HeadComponent :: "string \<Rightarrow> string \<Rightarrow> string \<Rightarrow> string \<Rightarrow> html list \<Rightarrow> html list" where
  \<open>HeadComponent title description picture url kids =
     [El ''title'' [] [Dat title],
      Mark ''-- Basic Meta Tags --'',
      El ''meta'' [At ''name'' ''description'', Ad ''content'' description] [],
      El ''meta'' [At ''name'' ''viewport'', At ''content'' ''width=device-width, initial-scale=1''] [],
      El ''meta'' [At ''name'' ''color-scheme'', At ''content'' ''light dark''] [],
      Mark ''-- Open Graph / Facebook --'',
      El ''meta'' [At ''property'' ''og:type'', At ''content'' ''website''] [],
      El ''meta'' [At ''property'' ''og:url'', Ad ''content'' url] [],
      El ''meta'' [At ''property'' ''og:title'', Ad ''content'' title] [],
      El ''meta'' [At ''property'' ''og:description'', Ad ''content'' description] [],
      El ''meta'' [At ''property'' ''og:image'', Ad ''content'' picture] [],
      Mark ''-- Twitter --'',
      El ''meta'' [At ''name'' ''twitter:card'', At ''content'' ''summary_large_image''] [],
      El ''meta'' [At ''name'' ''twitter:url'', Ad ''content'' url] [],
      El ''meta'' [At ''name'' ''twitter:title'', Ad ''content'' title] [],
      El ''meta'' [At ''name'' ''twitter:description'', Ad ''content'' description] [],
      El ''meta'' [At ''name'' ''twitter:image'', Ad ''content'' picture] [],
      Mark ''-- Favicon --'',
      El ''link'' [At ''rel'' ''icon'', At ''type'' ''image/png'', At ''href'' ''/favicon-96x96.png'', At ''sizes'' ''96x96''] [],
      El ''link'' [At ''rel'' ''icon'', At ''type'' ''image/svg+xml'', At ''href'' ''/favicon.svg''] [],
      El ''link'' [At ''rel'' ''shortcut icon'', At ''href'' ''/favicon.ico''] [],
      El ''link'' [At ''rel'' ''apple-touch-icon'', At ''sizes'' ''180x180'', At ''href'' ''/apple-touch-icon.png''] [],
      El ''link'' [At ''rel'' ''manifest'', At ''href'' ''/site.webmanifest''] [],
      Mark ''-- Preconnect to external resources --'',
      El ''link'' [At ''rel'' ''preconnect'', At ''href'' ''https://fonts.googleapis.com''] [],
      El ''link'' [At ''rel'' ''preconnect'', At ''href'' ''https://fonts.gstatic.com'', Af ''crossorigin''] [],
      Mark ''-- DNS prefetch for APIs --'',
      El ''link'' [At ''rel'' ''dns-prefetch'', At ''href'' ''https://www.google-analytics.com''] []] @
     kids\<close>

definition HeadWithTitle :: "string \<Rightarrow> string \<Rightarrow> html list \<Rightarrow> html list" where
  \<open>HeadWithTitle title appName kids =
     HeadComponent (title @ '' - '' @ appName) (''Default description for '' @ appName) ''/images/og-default.png'' (''https://'' @ appName @ ''.com'')
     kids\<close>

definition HeadFull :: "page_env \<Rightarrow> string \<Rightarrow> string \<Rightarrow> string \<Rightarrow> string \<Rightarrow> string \<Rightarrow> string \<Rightarrow> string \<Rightarrow> bool \<Rightarrow> html list \<Rightarrow> html list" where
  \<open>HeadFull env title description picture url ogType twitterCard canonical noIndex kids =
     [El ''title'' [] [Dat title],
      Mark ''-- Basic Meta Tags --'',
      El ''meta'' [At ''name'' ''description'', Ad ''content'' description] [],
      El ''meta'' [At ''name'' ''viewport'', At ''content'' ''width=device-width, initial-scale=1''] [],
      El ''meta'' [At ''name'' ''color-scheme'', At ''content'' ''light dark''] [],
      Mark ''-- Robots --''] @
     (if noIndex then [El ''meta'' [At ''name'' ''robots'', At ''content'' ''noindex, nofollow''] []]
      else
        [El ''meta'' [At ''name'' ''robots'', At ''content'' ''index, follow''] []]) @
     [Mark ''-- Canonical URL --''] @
     (if canonical \<noteq> '''' then [El ''link'' [At ''rel'' ''canonical'', Ad ''href'' (pe_url env canonical)] []] else []) @
     [Mark ''-- Open Graph --'',
      El ''meta'' [At ''property'' ''og:type'', Ad ''content'' ogType] [],
      El ''meta'' [At ''property'' ''og:url'', Ad ''content'' url] [],
      El ''meta'' [At ''property'' ''og:title'', Ad ''content'' title] [],
      El ''meta'' [At ''property'' ''og:description'', Ad ''content'' description] [],
      El ''meta'' [At ''property'' ''og:image'', Ad ''content'' picture] [],
      El ''meta'' [At ''property'' ''og:locale'', At ''content'' ''pt_BR''] [],
      El ''meta'' [At ''property'' ''og:site_name'', At ''content'' ''GOTH App''] [],
      Mark ''-- Twitter --'',
      El ''meta'' [At ''name'' ''twitter:card'', Ad ''content'' twitterCard] [],
      El ''meta'' [At ''name'' ''twitter:url'', Ad ''content'' url] [],
      El ''meta'' [At ''name'' ''twitter:title'', Ad ''content'' title] [],
      El ''meta'' [At ''name'' ''twitter:description'', Ad ''content'' description] [],
      El ''meta'' [At ''name'' ''twitter:image'', Ad ''content'' picture] [],
      Mark ''-- Favicon --'',
      El ''link'' [At ''rel'' ''icon'', At ''type'' ''image/png'', At ''href'' ''/favicon-96x96.png'', At ''sizes'' ''96x96''] [],
      El ''link'' [At ''rel'' ''icon'', At ''type'' ''image/svg+xml'', At ''href'' ''/favicon.svg''] [],
      El ''link'' [At ''rel'' ''shortcut icon'', At ''href'' ''/favicon.ico''] [],
      El ''link'' [At ''rel'' ''apple-touch-icon'', At ''sizes'' ''180x180'', At ''href'' ''/apple-touch-icon.png''] [],
      El ''link'' [At ''rel'' ''manifest'', At ''href'' ''/site.webmanifest''] []] @
     kids\<close>

definition StructuredDataOrganization :: "string \<Rightarrow> string \<Rightarrow> string \<Rightarrow> html list" where
  \<open>StructuredDataOrganization name url logoURL =
     [Raw ''script'' [At ''type'' ''application/ld+json'']
        (script_text [(2, ''{''), (3, ''^@context^: ^https://schema.org^,''), (3, ''^@type^: ^Organization^,''), (3, ''^name^: name,''),
                      (3, ''^url^: url,''), (3, ''^logo^: url + logoURL,''), (3, ''^sameAs^: [''), (4, ''^https://twitter.com/myapp^,''),
                      (4, ''^https://github.com/myapp^''), (3, '']''), (2, ''}''), (1, '''')])]\<close>

definition StructuredDataProduct :: "string \<Rightarrow> string \<Rightarrow> string \<Rightarrow> string \<Rightarrow> string \<Rightarrow> string \<Rightarrow> html list" where
  \<open>StructuredDataProduct name description picture url price currency =
     [Raw ''script'' [At ''type'' ''application/ld+json'']
        (script_text [(2, ''{''), (3, ''^@context^: ^https://schema.org^,''), (3, ''^@type^: ^Product^,''), (3, ''^name^: name,''),
                      (3, ''^description^: description,''), (3, ''^image^: image,''), (3, ''^url^: url,''), (3, ''^offers^: {''),
                      (4, ''^@type^: ^Offer^,''), (4, ''^price^: price,''), (4, ''^priceCurrency^: currency,''),
                      (4, ''^availability^: ^https://schema.org/InStock^''), (3, ''}''), (2, ''}''), (1, '''')])]\<close>

definition StructuredDataArticle :: "string \<Rightarrow> string \<Rightarrow> string \<Rightarrow> string \<Rightarrow> string \<Rightarrow> string \<Rightarrow> html list" where
  \<open>StructuredDataArticle headline description picture url authorName publishedDate =
     [Raw ''script'' [At ''type'' ''application/ld+json'']
        (script_text [(2, ''{''), (3, ''^@context^: ^https://schema.org^,''), (3, ''^@type^: ^Article^,''), (3, ''^headline^: headline,''),
                      (3, ''^description^: description,''), (3, ''^image^: image,''), (3, ''^url^: url,''), (3, ''^author^: {''),
                      (4, ''^@type^: ^Person^,''), (4, ''^name^: authorName''), (3, ''},''), (3, ''^datePublished^: publishedDate,''),
                      (3, ''^dateModified^: publishedDate''), (2, ''}''), (1, '''')])]\<close>

definition StructuredDataBreadcrumb :: "(string \<times> string) list \<Rightarrow> html list" where
  \<open>StructuredDataBreadcrumb items =
     [Raw ''script'' [At ''type'' ''application/ld+json'']
        (script_text [(2, ''{''), (3, ''^@context^: ^https://schema.org^,''), (3, ''^@type^: ^BreadcrumbList^,''), (3, ''^itemListElement^: [''),
                      (4, ''for i, item := range items {''), (5, ''{''), (6, ''^@type^: ^ListItem^,''), (6, ''^position^: { i + 1 },''),
                      (6, ''^name^: { item.Name },''), (6, ''^item^: { item.URL }''), (5, ''}''), (4, ''}''), (3, '']''), (2, ''}''), (1, '''')])]\<close>

definition MetaRobotsNoIndex :: "html list" where
  \<open>MetaRobotsNoIndex =
     [El ''meta'' [At ''name'' ''robots'', At ''content'' ''noindex, nofollow''] []]\<close>

definition MetaRefresh :: "string \<Rightarrow> int \<Rightarrow> html list" where
  \<open>MetaRefresh url delay =
     [El ''meta'' [At ''http-equiv'' ''refresh'', Ad ''content'' (string_of_int delay @ '';url='' @ url)] []]\<close>

definition PreloadResource :: "page_env \<Rightarrow> string \<Rightarrow> string \<Rightarrow> html list" where
  \<open>PreloadResource env href asType =
     [El ''link'' [At ''rel'' ''preload'', Ad ''href'' (pe_url env href), Ad ''as'' asType, Af ''crossorigin''] []]\<close>

definition PrefetchResource :: "page_env \<Rightarrow> string \<Rightarrow> html list" where
  \<open>PrefetchResource env href =
     [El ''link'' [At ''rel'' ''prefetch'', Ad ''href'' (pe_url env href), At ''as'' ''document''] []]\<close>

section \<open>Theme, toasts, navigation, pages of a list\<close>

definition ThemeScript :: "html list" where
  \<open>ThemeScript =
     [Raw ''script'' []
        (script_text [(2, ''(function() {''), (3, ''var saved = localStorage.getItem(`theme`);''),
                      (3, ''var prefersDark = window.matchMedia(`(prefers-color-scheme: dark)`).matches;''), (3, ''''),
                      (3, ''// Default to `system` if no preference saved''), (3, ''var theme = saved || `system`;''), (3, ''''),
                      (3, ''// Apply theme based on selection''), (3, ''function applyTheme(selectedTheme) {''),
                      (4, ''if (selectedTheme === `system`) {''), (5, ''if (prefersDark) {''),
                      (6, ''document.documentElement.classList.add(`dark`);''), (5, ''} else {''),
                      (6, ''document.documentElement.classList.remove(`dark`);''), (5, ''}''), (4, ''} else if (selectedTheme === `dark`) {''),
                      (5, ''document.documentElement.classList.add(`dark`);''), (4, ''} else {''),
                      (5, ''document.documentElement.classList.remove(`dark`);''), (4, ''}''), (3, ''}''), (3, ''''), (3, ''applyTheme(theme);''),
                      (3, ''''), (3, ''// Store current theme for JS access''), (3, ''window.__theme = theme;''), (3, ''''),
                      (3, ''// Listen for system theme changes''),
                      (3, ''window.matchMedia(`(prefers-color-scheme: dark)`).addEventListener(`change`, function(e) {''),
                      (4, ''var currentTheme = localStorage.getItem(`theme`) || `system`;''), (4, ''if (currentTheme === `system`) {''),
                      (5, ''if (e.matches) {''), (6, ''document.documentElement.classList.add(`dark`);''), (6, ''window.__theme = `dark`;''),
                      (5, ''} else {''), (6, ''document.documentElement.classList.remove(`dark`);''), (6, ''window.__theme = `light`;''), (5, ''}''),
                      (5, ''window.dispatchEvent(new CustomEvent(`themechange`, { detail: { theme: currentTheme } }));''), (4, ''}''), (3, ''});''),
                      (2, ''})();''), (1, '''')])]\<close>

definition ThemeToggle :: "html list" where
  \<open>ThemeToggle =
     [El ''button'' [At ''type'' ''button'', At ''id'' ''theme-toggle'',
                     cls ''inline-flex items-center justify-center rounded-lg p-2 text-gray-500 hover:bg-gray-100 hover:text-gray-900 dark:text-gray-400 dark:hover:bg-gray-800 dark:hover:text-gray-100 focus:outline-none focus:ring-2 focus:ring-blue-500 transition-colors'',
                     At ''aria-label'' ''Toggle theme'',
                     At ''title'' (''Toggle theme (Light '' @ [CHR 0xE2, CHR 0x86, CHR 0x92] @ '' Dark '' @ [CHR 0xE2, CHR 0x86, CHR 0x92] @ '' System)'')]
        [Mark ''-- Sun icon (visible when theme=light) --'',
         drawing ''sun-icon w-5 h-5 hidden''
           [stroke_path ''M12 3v1m0 16v1m9-9h-1M4 12H3m15.364 6.364l-.707-.707M6.343 6.343l-.707-.707m12.728 0l-.707.707M6.343 17.657l-.707.707M16 12a4 4 0 11-8 0 4 4 0 018 0z''],
         Mark ''-- Moon icon (visible when theme=dark) --'',
         drawing ''moon-icon w-5 h-5 hidden'' [stroke_path ''M20.354 15.354A9 9 0 018.646 3.646 9.003 9.003 0 0012 21a9.003 9.003 0 008.354-5.646z''],
         Mark ''-- System icon (visible when theme=system) --'',
         drawing ''system-icon w-5 h-5 block''
           [stroke_path ''M9.75 17L9 20l-1 1h8l-1-1-.75-3M3 13h18M5 17h14a2 2 0 002-2V5a2 2 0 00-2-2H5a2 2 0 00-2 2v10a2 2 0 002 2z'']]]\<close>

definition ToastContainer :: "html list" where
  \<open>ToastContainer =
     [El ''div'' [At ''id'' ''toast-container'', cls ''fixed inset-0 flex items-end px-4 py-6 sm:items-start sm:p-6 z-50 pointer-events-none'',
                  At ''aria-live'' ''assertive''] [El ''div'' [cls ''flex w-full flex-col items-center space-y-4 sm:items-end''] []]]\<close>

definition NavbarGuest :: "html list" where
  \<open>NavbarGuest =
     [El ''div'' [cls ''flex items-center gap-4'']
        ([El ''a'' [At ''href'' ''/login'',
                   cls ''text-sm font-medium text-gray-700 hover:text-gray-900 dark:text-gray-300 dark:hover:text-white transition-colors'']
           [Lit ''Login''],
         Lit '' '',
         El ''a'' [At ''href'' ''/register'',
                   cls ''rounded-xl bg-gray-900 px-4 py-2 text-sm font-semibold text-white hover:bg-gray-800 dark:bg-white dark:text-gray-900 dark:hover:bg-gray-100 transition-colors'']
           [Lit ''Sign Up'']] @
        ThemeToggle)]\<close>

text \<open>Two runes of the name, or of the address when there is no name.\<close>

definition GetInitials :: "string \<Rightarrow> string \<Rightarrow> string" where
  "GetInitials name email =
     (if name \<noteq> '''' then
        (let parts = runes name in
         if 2 \<le> length parts then utf8_encode (parts ! 0) @ utf8_encode (parts ! (length parts - 1)) else utf8_encode (parts ! 0))
      else if email \<noteq> '''' then
        (let parts = runes email in if 2 \<le> length parts then utf8_encode (parts ! 0) @ utf8_encode (parts ! 1) else utf8_encode (parts ! 0))
      else ''?'')"

definition NavbarAuth :: "page_env \<Rightarrow> user \<Rightarrow> html list" where
  \<open>NavbarAuth env user =
     [El ''div'' [cls ''flex items-center gap-2'']
        ([El ''nav'' [cls ''hidden md:flex items-center gap-1'']
           [El ''a'' [At ''href'' ''/dashboard'',
                      cls ''rounded-lg px-3 py-2 text-sm font-medium text-gray-700 hover:bg-gray-100 dark:text-gray-300 dark:hover:bg-zinc-800 transition-colors'']
              [Lit ''Dashboard''],
            Lit '' '',
            El ''a'' [At ''href'' ''/profile'',
                      cls ''rounded-lg px-3 py-2 text-sm font-medium text-gray-700 hover:bg-gray-100 dark:text-gray-300 dark:hover:bg-zinc-800 transition-colors'']
              [Lit ''Profile''],
            Lit '' '',
            El ''a'' [At ''href'' ''/settings'',
                      cls ''rounded-lg px-3 py-2 text-sm font-medium text-gray-700 hover:bg-gray-100 dark:text-gray-300 dark:hover:bg-zinc-800 transition-colors'']
              [Lit ''Settings'']]] @
        ThemeToggle @
        [El ''div'' [cls ''relative'', At ''x-data'' ''{ open: false }'']
           [El ''button'' [At ''@click'' ''open = !open'', At ''@click.outside'' ''open = false'',
                           cls ''flex items-center gap-2 rounded-lg p-2 text-gray-500 hover:bg-gray-100 dark:text-gray-400 dark:hover:bg-zinc-800 transition-colors'']
              [El ''div'' [cls ''h-8 w-8 rounded-full bg-gray-200 dark:bg-zinc-700 flex items-center justify-center'']
                 [El ''span'' [cls ''text-sm font-medium text-gray-600 dark:text-gray-300''] [Dat (GetInitials '''' (u_email user))]],
               drawing ''h-4 w-4'' [stroke_path ''M19 9l-7 7-7-7'']],
            El ''div'' [At ''x-show'' ''open'', Af ''x-transition'', Af ''x-cloak'',
                        cls ''absolute right-0 mt-2 w-48 rounded-xl border border-gray-200 bg-white py-1 shadow-lg dark:border-gray-700 dark:bg-zinc-900'']
              [El ''div'' [cls ''border-b border-gray-200 px-4 py-3 dark:border-gray-700'']
                 [El ''p'' [cls ''text-sm font-medium text-gray-900 dark:text-white truncate''] [Dat (u_email user)],
                  El ''p'' [cls ''text-xs text-gray-500 dark:text-gray-400 truncate''] [Lit ''Member'']],
               El ''a'' [At ''href'' ''/dashboard'',
                         cls ''flex items-center gap-2 px-4 py-2 text-sm text-gray-700 hover:bg-gray-100 dark:text-gray-300 dark:hover:bg-zinc-800'']
                 (LucideIcon env ''layout-dashboard'' ''h-4 w-4'' @ [Lit ''Dashboard'']),
               Lit '' '',
               El ''a'' [At ''href'' ''/profile'',
                         cls ''flex items-center gap-2 px-4 py-2 text-sm text-gray-700 hover:bg-gray-100 dark:text-gray-300 dark:hover:bg-zinc-800'']
                 (LucideIcon env ''user'' ''h-4 w-4'' @ [Lit ''Profile'']),
               Lit '' '',
               El ''a'' [At ''href'' ''/settings'',
                         cls ''flex items-center gap-2 px-4 py-2 text-sm text-gray-700 hover:bg-gray-100 dark:text-gray-300 dark:hover:bg-zinc-800'']
                 (LucideIcon env ''settings'' ''h-4 w-4'' @ [Lit ''Settings'']),
               Lit '' '',
               El ''a'' [At ''href'' ''/notifications'',
                         cls ''flex items-center gap-2 px-4 py-2 text-sm text-gray-700 hover:bg-gray-100 dark:text-gray-300 dark:hover:bg-zinc-800'']
                 (LucideIcon env ''bell'' ''h-4 w-4'' @ [Lit ''Notifications'']),
               El ''div'' [cls ''border-t border-gray-200 dark:border-gray-700'']
                 [El ''form'' [At ''action'' ''/logout'', At ''method'' ''POST'']
                    [El ''input'' [At ''type'' ''hidden'', At ''name'' ''csrf_token''] [],
                     Lit '' '',
                     El ''button'' [At ''type'' ''submit'',
                                    cls ''flex w-full items-center gap-2 px-4 py-2 text-sm text-red-600 hover:bg-red-50 dark:text-red-400 dark:hover:bg-red-900/20'']
                       (LucideIcon env ''log-out'' ''h-4 w-4'' @ [Lit ''Logout''])]]]]])]\<close>

definition PaginationControls :: "pagination \<Rightarrow> string \<Rightarrow> html list" where
  \<open>PaginationControls p baseURL =
     (if 1 < view_TotalPages p then
        [El ''div'' [cls ''flex items-center justify-center gap-2 mt-4'']
           ((if HasPrevious p then
              [El ''a'' [Ad ''href'' (baseURL @ ''?page='' @ string_of_int (PreviousPage p)),
                         cls ''inline-flex items-center gap-1 px-3 py-1.5 text-sm rounded-lg border border-gray-200 bg-white text-gray-700 hover:bg-gray-50 dark:border-gray-700 dark:bg-zinc-800 dark:text-gray-300 dark:hover:bg-zinc-700 transition-colors'']
                 [drawing ''h-4 w-4'' [stroke_path ''M15 19l-7-7 7-7''], Lit '' Anterior''],
               Lit '' ''] else []) @
           [El ''span'' [cls ''px-3 py-1.5 text-sm text-gray-600 dark:text-gray-400'']
              [Lit (''P'' @ [CHR 0xC3, CHR 0xA1] @ ''gina ''),
               Dat (string_of_int (pg_CurrentPage p)),
               Lit '' de '',
               Dat (string_of_int (view_TotalPages p))],
            Lit '' ''] @
           (if HasNext p then
              [El ''a'' [Ad ''href'' (baseURL @ ''?page='' @ string_of_int (NextPage p)),
                         cls ''inline-flex items-center gap-1 px-3 py-1.5 text-sm rounded-lg border border-gray-200 bg-white text-gray-700 hover:bg-gray-50 dark:border-gray-700 dark:bg-zinc-800 dark:text-gray-300 dark:hover:bg-zinc-700 transition-colors'']
                 [Lit (''Pr'' @ [CHR 0xC3, CHR 0xB3] @ ''xima ''), drawing ''h-4 w-4'' [stroke_path ''M9 5l7 7-7 7'']]] else []))] else [])\<close>

end
