(* ===== verification/Page_Templates.thy ===== *)
theory Page_Templates
  imports Page_Components
begin

text \<open>
  The layout of the site (\<open>internal/view/layout/base_templ.go\<close>) and the pages of visitors who sign in and of users
  (\<open>internal/view/pages/*_templ.go\<close>), each the HTML it writes.
\<close>

section \<open>Layout\<close>

definition Base_layout :: "page_env \<Rightarrow> string \<Rightarrow> string \<Rightarrow> user option \<Rightarrow> html list \<Rightarrow> html list" where
  \<open>Base_layout env title tenant user kids =
     [Mark ''doctype html'',
      El ''html'' [At ''lang'' ''pt-BR'']
        [El ''head'' []
           ([Mark ''-- Theme script MUST be first to prevent FOUC --''] @
           ThemeScript @
           HeadComponent title ''GOTH Stack - Minimalist Boilerplate'' ''/images/og-default.png'' ''https://goth.local'' [] @
           [El ''meta'' [At ''name'' ''csrf-token'', Ad ''content'' (pe_csrf env)] [],
            Mark ''-- Styles --'',
            El ''link'' [At ''href'' ''/assets/styles.css?v=6'', At ''rel'' ''stylesheet''] [],
            Mark ''-- Scripts --'',
            Raw ''script'' [At ''src'' ''/assets/js/htmx.min.js'']
              [],
            Raw ''script'' [At ''src'' ''https://unpkg.com/htmx-ext-sse@2.2.2/sse.js'']
              [],
            Raw ''script'' [Af ''defer'', At ''src'' ''/assets/js/alpine.min.js'']
              [],
            Raw ''script'' [Af ''defer'', At ''src'' ''/static/js/app.js?v=2'']
              [],
            Mark ''-- Lucide Icons (CDN) --'',
            Raw ''script'' [At ''src'' ''https://unpkg.com/lucide@latest'']
              [],
            Raw ''style'' []
              (script_text [(1, ''    [x-cloak] { display: none !important; }''), (0, ''''), (1, ''    /* Minimalist scrollbar */''),
                            (1, ''    ::-webkit-scrollbar { width: 8px; height: 8px; }''),
                            (1, ''    ::-webkit-scrollbar-track { background: transparent; }''),
                            (1, ''    ::-webkit-scrollbar-thumb { background: #cbd5e1; border-radius: 4px; }''),
                            (1, ''    .dark ::-webkit-scrollbar-thumb { background: #475569; }''),
                            (1, ''    ::-webkit-scrollbar-thumb:hover { background: #94a3b8; }''),
                            (1, ''    .dark ::-webkit-scrollbar-thumb:hover { background: #64748b; }''), (1, ''  '')])]),
         El ''body'' [cls ''min-h-screen bg-white text-gray-900 antialiased dark:bg-zinc-950 dark:text-gray-100'']
           ([Mark ''-- Skip Link --'',
            El ''a'' [At ''href'' ''#main-content'',
                      cls ''sr-only focus:not-sr-only focus:absolute focus:left-4 focus:top-4 focus:z-50 focus:rounded-lg focus:bg-gray-900 focus:px-4 focus:py-2 focus:text-white dark:focus:bg-white dark:focus:text-gray-900'']
              [Lit ''Skip to main content''],
            Mark ''-- Header --'',
            El ''header'' [cls ''sticky top-0 z-40 w-full border-b border-gray-200 bg-white/80 backdrop-blur-sm dark:border-gray-800 dark:bg-zinc-950/80'']
              [El ''div'' [cls ''mx-auto flex h-16 max-w-7xl items-center justify-between px-4 sm:px-6 lg:px-8'']
                 ([El ''a'' [At ''href'' ''/'', cls ''flex items-center gap-2 text-lg font-semibold'']
                    [El ''div'' [cls ''flex h-8 w-8 items-center justify-center rounded-lg bg-gray-900 dark:bg-white'']
                       [El ''span'' [cls ''text-sm font-bold text-white dark:text-gray-900''] [Lit ''G'']],
                     El ''span'' [cls ''text-gray-900 dark:text-white''] [Lit ''GOTH''],
                     Lit '' '',
                     El ''span'' [cls ''text-gray-400''] [Lit ''Stack'']],
                  Mark ''-- Dynamic Navbar based on auth state --''] @
                 (if user \<noteq> None then NavbarAuth env (the user) else NavbarGuest))],
            Mark ''-- Main Content --'',
            El ''main'' [At ''id'' ''main-content'', cls ''mx-auto max-w-7xl px-4 py-8 sm:px-6 lg:px-8''] kids,
            Mark ''-- Footer --'',
            El ''footer'' [cls ''mt-auto border-t border-gray-200 py-6 dark:border-gray-800'']
              [El ''div'' [cls ''mx-auto max-w-7xl px-4 text-center text-sm text-gray-500 dark:text-gray-400 sm:px-6 lg:px-8'']
                 [El ''p'' [] [Lit ''&copy; 2024 GOTH Stack. Built with Go, Templ, HTMX & Tailwind.'']]],
            Mark ''-- Toast Container --''] @
           ToastContainer @
           [Mark ''-- HTMX Config --'',
            Raw ''script'' []
              (script_text [(1, ''    document.body.addEventListener(`htmx:configRequest`, (event) => {''),
                            (1, ''      event.detail.headers[`X-CSRF-Token`] = document.querySelector(`meta[name=^csrf-token^]`).content;''),
                            (1, ''    });''), (1, ''  '')])])]]\<close>

section \<open>Signing in\<close>

definition Login_page :: "page_env \<Rightarrow> string \<Rightarrow> user option \<Rightarrow> html list" where
  \<open>Login_page env errorMessage user =
     Base_layout env ''Login'' ''GOTH Stack'' user
     [El ''div'' [cls ''flex min-h-[calc(100vh-8rem)] items-center justify-center py-12'']
         [El ''div'' [cls ''w-full max-w-md'']
            [Mark ''-- Logo and Title --'',
             El ''div'' [cls ''text-center mb-8'']
               [El ''div'' [cls ''inline-flex items-center justify-center w-16 h-16 rounded-2xl bg-gray-900 dark:bg-white shadow-lg mb-4'']
                  [El ''span'' [cls ''text-3xl font-bold text-white dark:text-gray-900''] [Lit ''G'']],
                El ''h1'' [cls ''text-3xl font-bold text-gray-900 dark:text-white''] [Lit ''GOTH Stack''],
                El ''p'' [cls ''mt-2 text-gray-600 dark:text-gray-400''] [Lit ''Acesse sua conta para continuar'']],
             Mark ''-- Login Card --'',
             El ''div'' [cls ''bg-white dark:bg-zinc-900 rounded-2xl shadow-xl border border-gray-200 dark:border-gray-800 overflow-hidden'']
               [El ''div'' [cls ''p-8 space-y-6'']
                  ([Mark ''-- Error Alert --''] @
                  (if errorMessage \<noteq> '''' then Alert ''error'' ''Erro'' errorMessage else []) @
                  [Mark ''-- Form --'',
                   El ''form'' [cls ''space-y-5'', At ''action'' ''/login'', At ''method'' ''POST'']
                     [El ''input'' [At ''type'' ''hidden'', At ''name'' ''csrf_token'', Ad ''value'' (pe_csrf env)] [],
                      El ''div'' []
                        [El ''label'' [At ''for'' ''email'', cls ''block text-sm font-medium text-gray-700 dark:text-gray-300 mb-2''] [Lit ''Email''],
                         El ''div'' [cls ''relative'']
                           [El ''div'' [cls ''absolute inset-y-0 left-0 pl-4 flex items-center pointer-events-none'']
                              [drawing ''h-5 w-5 text-gray-400''
                                 [stroke_path ''M3 8l7.89 5.26a2 2 0 002.22 0L21 8M5 19h14a2 2 0 002-2V7a2 2 0 00-2-2H5a2 2 0 00-2 2v10a2 2 0 002 2z'']],
                            El ''input'' [At ''id'' ''email'', At ''name'' ''email'', At ''type'' ''email'', At ''autocomplete'' ''email'',
                                          Af ''required'',
                                          cls ''block w-full pl-12 pr-4 py-3 rounded-xl border border-gray-200 bg-gray-50 text-gray-900 placeholder-gray-400 focus:border-gray-900 focus:bg-white focus:outline-none focus:ring-2 focus:ring-gray-900/20 dark:border-gray-700 dark:bg-zinc-800 dark:text-white dark:placeholder-gray-500 dark:focus:border-white dark:focus:ring-white/20 transition-all'',
                                          At ''placeholder'' ''seu@email.com''] []]],
                      El ''div'' []
                        [El ''div'' [cls ''flex items-center justify-between mb-2'']
                           [El ''label'' [At ''for'' ''password'', cls ''block text-sm font-medium text-gray-700 dark:text-gray-300''] [Lit ''Senha''],
                            Lit '' '',
                            El ''a'' [At ''href'' ''/forgot-password'',
                                      cls ''text-sm font-medium text-gray-900 hover:text-gray-700 dark:text-gray-300 dark:hover:text-gray-100 transition-colors'']
                              [Lit ''Esqueceu a senha?'']],
                         El ''div'' [cls ''relative'']
                           [El ''div'' [cls ''absolute inset-y-0 left-0 pl-4 flex items-center pointer-events-none'']
                              [drawing ''h-5 w-5 text-gray-400''
                                 [stroke_path ''M12 15v2m-6 4h12a2 2 0 002-2v-6a2 2 0 00-2-2H6a2 2 0 00-2 2v6a2 2 0 002 2zm10-10V7a4 4 0 00-8 0v4h8z'']],
                            El ''input'' [At ''id'' ''password'', At ''name'' ''password'', At ''type'' ''password'',
                                          At ''autocomplete'' ''current-password'', Af ''required'',
                                          cls ''block w-full pl-12 pr-4 py-3 rounded-xl border border-gray-200 bg-gray-50 text-gray-900 placeholder-gray-400 focus:border-gray-900 focus:bg-white focus:outline-none focus:ring-2 focus:ring-gray-900/20 dark:border-gray-700 dark:bg-zinc-800 dark:text-white dark:placeholder-gray-500 dark:focus:border-white dark:focus:ring-white/20 transition-all'',
                                          At ''placeholder'' ([CHR 0xE2, CHR 0x80, CHR 0xA2, CHR 0xE2, CHR 0x80, CHR 0xA2, CHR 0xE2, CHR 0x80, CHR 0xA2, CHR 0xE2, CHR 0x80, CHR 0xA2, CHR 0xE2, CHR 0x80, CHR 0xA2, CHR 0xE2, CHR 0x80, CHR 0xA2, CHR 0xE2, CHR 0x80, CHR 0xA2, CHR 0xE2, CHR 0x80, CHR 0xA2])]
                              []]],
                      El ''button'' [At ''type'' ''submit'',
                                     cls ''w-full py-3 px-4 bg-gray-900 hover:bg-gray-800 text-white font-semibold rounded-xl shadow-lg focus:outline-none focus:ring-2 focus:ring-gray-900 focus:ring-offset-2 dark:bg-white dark:text-gray-900 dark:hover:bg-gray-100 dark:focus:ring-white dark:focus:ring-offset-zinc-900 transition-all'']
                        [Lit ''Entrar'']],
                   Mark ''-- Divider --'',
                   El ''div'' [cls ''relative my-6'']
                     [El ''div'' [cls ''absolute inset-0 flex items-center'']
                        [El ''div'' [cls ''w-full border-t border-gray-200 dark:border-gray-700''] []],
                      El ''div'' [cls ''relative flex justify-center text-sm'']
                        [El ''span'' [cls ''px-4 bg-white dark:bg-zinc-900 text-gray-500 dark:text-gray-400''] [Lit ''ou continue com'']]],
                   Mark ''-- Google Login --'',
                   El ''a'' [At ''href'' ''/auth/google'',
                             cls ''w-full flex items-center justify-center gap-3 py-3 px-4 border border-gray-200 dark:border-gray-700 rounded-xl bg-white dark:bg-zinc-800 hover:bg-gray-50 dark:hover:bg-zinc-700 text-gray-700 dark:text-gray-200 font-medium transition-all'']
                     [El ''svg'' [cls ''h-5 w-5'', At ''viewBox'' ''0 0 24 24'']
                        [El ''path'' [At ''fill'' ''currentColor'',
                                      At ''d'' ''M22.56 12.25c0-.78-.07-1.53-.2-2.25H12v4.26h5.92c-.26 1.37-1.04 2.53-2.21 3.31v2.77h3.57c2.08-1.92 3.28-4.74 3.28-8.09z'']
                           [],
                         Lit '' '',
                         El ''path'' [At ''fill'' ''currentColor'',
                                      At ''d'' ''M12 23c2.97 0 5.46-.98 7.28-2.66l-3.57-2.77c-.98.66-2.23 1.06-3.71 1.06-2.86 0-5.29-1.93-6.16-4.53H2.18v2.84C3.99 20.53 7.7 23 12 23z'']
                           [],
                         Lit '' '',
                         El ''path'' [At ''fill'' ''currentColor'',
                                      At ''d'' ''M5.84 14.09c-.22-.66-.35-1.36-.35-2.09s.13-1.43.35-2.09V7.07H2.18C1.43 8.55 1 10.22 1 12s.43 3.45 1.18 4.93l2.85-2.22.81-.62z'']
                           [],
                         Lit '' '',
                         El ''path'' [At ''fill'' ''currentColor'',
                                      At ''d'' ''M12 5.38c1.62 0 3.06.56 4.21 1.64l3.15-3.15C17.45 2.09 14.97 1 12 1 7.7 1 3.99 3.47 2.18 7.07l3.66 2.84c.87-2.6 3.3-4.53 6.16-4.53z'']
                           []],
                      Lit '' '',
                      El ''span'' [] [Lit ''Google'']]]),
                Mark ''-- Footer --'',
                El ''div'' [cls ''px-8 py-4 bg-gray-50 dark:bg-zinc-900/50 border-t border-gray-200 dark:border-gray-800'']
                  [El ''p'' [cls ''text-center text-sm text-gray-600 dark:text-gray-400'']
                     [Lit (''N'' @ [CHR 0xC3, CHR 0xA3] @ ''o tem uma conta? ''),
                      El ''a'' [At ''href'' ''/register'',
                                cls ''font-semibold text-gray-900 hover:text-gray-700 dark:text-white dark:hover:text-gray-200 transition-colors'']
                        [Lit (''Crie uma conta gr'' @ [CHR 0xC3, CHR 0xA1] @ ''tis'')]]]],
             Mark ''-- Security Badge --'',
             El ''div'' [cls ''mt-6 flex items-center justify-center gap-2 text-xs text-gray-500 dark:text-gray-400'']
               [drawing ''h-4 w-4''
                  [stroke_path ''M9 12l2 2 4-4m5.618-4.016A11.955 11.955 0 0112 2.944a11.955 11.955 0 01-8.618 3.04A12.02 12.02 0 003 9c0 5.591 3.824 10.29 9 11.622 5.176-1.332 9-6.03 9-11.622 0-1.042-.133-2.052-.382-3.016z''],
                Lit '' '',
                El ''span'' [] [Lit ''Ambiente seguro e criptografado'']]]]]\<close>

definition Register_page :: "page_env \<Rightarrow> string \<Rightarrow> user option \<Rightarrow> html list" where
  \<open>Register_page env errorMessage user =
     Base_layout env ''Criar Conta'' ''GOTH Stack'' user
     [El ''div'' [cls ''flex min-h-[calc(100vh-8rem)] items-center justify-center py-12'']
         [El ''div'' [cls ''w-full max-w-md'']
            [Mark ''-- Logo and Title --'',
             El ''div'' [cls ''text-center mb-8'']
               [El ''div'' [cls ''inline-flex items-center justify-center w-16 h-16 rounded-2xl bg-gray-900 dark:bg-white shadow-lg mb-4'']
                  [El ''span'' [cls ''text-3xl font-bold text-white dark:text-gray-900''] [Lit ''G'']],
                El ''h1'' [cls ''text-3xl font-bold text-gray-900 dark:text-white''] [Lit ''GOTH Stack''],
                El ''p'' [cls ''mt-2 text-gray-600 dark:text-gray-400''] [Lit ''Crie sua conta gratuitamente'']],
             Mark ''-- Register Card --'',
             El ''div'' [cls ''bg-white dark:bg-zinc-900 rounded-2xl shadow-xl border border-gray-200 dark:border-gray-800 overflow-hidden'']
               [El ''div'' [cls ''p-8 space-y-5'']
                  ([Mark ''-- Error Alert --''] @
                  (if errorMessage \<noteq> '''' then Alert ''error'' ''Erro'' errorMessage else []) @
                  [Mark ''-- Form --'',
                   El ''form'' [cls ''space-y-5'', At ''action'' ''/register'', At ''method'' ''POST'']
                     [El ''input'' [At ''type'' ''hidden'', At ''name'' ''csrf_token'', Ad ''value'' (pe_csrf env)] [],
                      El ''div'' []
                        [El ''label'' [At ''for'' ''email'', cls ''block text-sm font-medium text-gray-700 dark:text-gray-300 mb-2''] [Lit ''Email''],
                         El ''div'' [cls ''relative'']
                           [El ''div'' [cls ''absolute inset-y-0 left-0 pl-4 flex items-center pointer-events-none'']
                              [drawing ''h-5 w-5 text-gray-400''
                                 [stroke_path ''M3 8l7.89 5.26a2 2 0 002.22 0L21 8M5 19h14a2 2 0 002-2V7a2 2 0 00-2-2H5a2 2 0 00-2 2v10a2 2 0 002 2z'']],
                            El ''input'' [At ''id'' ''email'', At ''name'' ''email'', At ''type'' ''email'', At ''autocomplete'' ''email'',
                                          Af ''required'',
                                          cls ''block w-full pl-12 pr-4 py-3 rounded-xl border border-gray-200 bg-gray-50 text-gray-900 placeholder-gray-400 focus:border-gray-900 focus:bg-white focus:outline-none focus:ring-2 focus:ring-gray-900/20 dark:border-gray-700 dark:bg-zinc-800 dark:text-white dark:placeholder-gray-500 dark:focus:border-white dark:focus:ring-white/20 transition-all'',
                                          At ''placeholder'' ''seu@email.com''] []]],
                      El ''div'' []
                        [El ''label'' [At ''for'' ''password'', cls ''block text-sm font-medium text-gray-700 dark:text-gray-300 mb-2'']
                           [Lit ''Senha''],
                         El ''div'' [cls ''relative'']
                           [El ''div'' [cls ''absolute inset-y-0 left-0 pl-4 flex items-center pointer-events-none'']
                              [drawing ''h-5 w-5 text-gray-400''
                                 [stroke_path ''M12 15v2m-6 4h12a2 2 0 002-2v-6a2 2 0 00-2-2H6a2 2 0 00-2 2v6a2 2 0 002 2zm10-10V7a4 4 0 00-8 0v4h8z'']],
                            El ''input'' [At ''id'' ''password'', At ''name'' ''password'', At ''type'' ''password'',
                                          At ''autocomplete'' ''new-password'', Af ''required'', At ''minlength'' ''8'',
                                          cls ''block w-full pl-12 pr-4 py-3 rounded-xl border border-gray-200 bg-gray-50 text-gray-900 placeholder-gray-400 focus:border-gray-900 focus:bg-white focus:outline-none focus:ring-2 focus:ring-gray-900/20 dark:border-gray-700 dark:bg-zinc-800 dark:text-white dark:placeholder-gray-500 dark:focus:border-white dark:focus:ring-white/20 transition-all'',
                                          At ''placeholder'' ([CHR 0xE2, CHR 0x80, CHR 0xA2, CHR 0xE2, CHR 0x80, CHR 0xA2, CHR 0xE2, CHR 0x80, CHR 0xA2, CHR 0xE2, CHR 0x80, CHR 0xA2, CHR 0xE2, CHR 0x80, CHR 0xA2, CHR 0xE2, CHR 0x80, CHR 0xA2, CHR 0xE2, CHR 0x80, CHR 0xA2, CHR 0xE2, CHR 0x80, CHR 0xA2])]
                              []],
                         El ''p'' [cls ''mt-2 text-xs text-gray-500 dark:text-gray-400 flex items-center gap-1'']
                           [drawing ''h-3 w-3'' [stroke_path ''M13 16h-1v-4h-1m1-4h.01M21 12a9 9 0 11-18 0 9 9 0 0118 0z''],
                            Lit ('' M'' @ [CHR 0xC3, CHR 0xAD] @ ''nimo de 8 caracteres'')]],
                      El ''button'' [At ''type'' ''submit'',
                                     cls ''w-full py-3 px-4 bg-gray-900 hover:bg-gray-800 text-white font-semibold rounded-xl shadow-lg focus:outline-none focus:ring-2 focus:ring-gray-900 focus:ring-offset-2 dark:bg-white dark:text-gray-900 dark:hover:bg-gray-100 dark:focus:ring-white dark:focus:ring-offset-zinc-900 transition-all'']
                        [Lit ''Criar Conta'']]]),
                Mark ''-- Footer --'',
                El ''div'' [cls ''px-8 py-4 bg-gray-50 dark:bg-zinc-900/50 border-t border-gray-200 dark:border-gray-800'']
                  [El ''p'' [cls ''text-center text-sm text-gray-600 dark:text-gray-400'']
                     [Lit (''J'' @ [CHR 0xC3, CHR 0xA1] @ '' tem uma conta? ''),
                      El ''a'' [At ''href'' ''/login'',
                                cls ''font-semibold text-gray-900 hover:text-gray-700 dark:text-white dark:hover:text-gray-200 transition-colors'']
                        [Lit (''Fa'' @ [CHR 0xC3, CHR 0xA7] @ ''a login'')]]]],
             Mark ''-- Features --'',
             El ''div'' [cls ''mt-6 grid grid-cols-3 gap-3'']
               [El ''div'' [cls ''flex flex-col items-center p-3 rounded-lg bg-gray-50 dark:bg-zinc-900/50 border border-gray-200 dark:border-gray-800'']
                  [drawing ''mb-1 h-5 w-5 text-gray-900 dark:text-white'' [stroke_path ''M13 10V3L4 14h7v7l9-11h-7z''],
                   Lit '' '',
                   El ''span'' [cls ''text-xs text-gray-600 dark:text-gray-400''] [Lit (''R'' @ [CHR 0xC3, CHR 0xA1] @ ''pido'')]],
                El ''div'' [cls ''flex flex-col items-center p-3 rounded-lg bg-gray-50 dark:bg-zinc-900/50 border border-gray-200 dark:border-gray-800'']
                  [drawing ''mb-1 h-5 w-5 text-gray-900 dark:text-white''
                     [stroke_path ''M9 12l2 2 4-4m5.618-4.016A11.955 11.955 0 0112 2.944a11.955 11.955 0 01-8.618 3.04A12.02 12.02 0 003 9c0 5.591 3.824 10.29 9 11.622 5.176-1.332 9-6.03 9-11.622 0-1.042-.133-2.052-.382-3.016z''],
                   Lit '' '',
                   El ''span'' [cls ''text-xs text-gray-600 dark:text-gray-400''] [Lit ''Seguro'']],
                El ''div'' [cls ''flex flex-col items-center p-3 rounded-lg bg-gray-50 dark:bg-zinc-900/50 border border-gray-200 dark:border-gray-800'']
                  [drawing ''mb-1 h-5 w-5 text-gray-900 dark:text-white''
                     [stroke_path ''M14.828 14.828a4 4 0 01-5.656 0M9 10h.01M15 10h.01M21 12a9 9 0 11-18 0 9 9 0 0118 0z''],
                   Lit '' '',
                   El ''span'' [cls ''text-xs text-gray-600 dark:text-gray-400''] [Lit (''Gr'' @ [CHR 0xC3, CHR 0xA1] @ ''tis'')]]]]]]\<close>

definition ForgotPassword_page :: "page_env \<Rightarrow> string \<Rightarrow> user option \<Rightarrow> html list" where
  \<open>ForgotPassword_page env message user =
     Base_layout env ''Recuperar Senha'' ''GOTH Stack'' user
     [El ''div'' [cls ''flex min-h-[calc(100vh-8rem)] items-center justify-center py-12'']
         [El ''div'' [cls ''w-full max-w-sm'']
            ([Mark ''-- Logo --'',
             El ''div'' [cls ''text-center mb-8'']
               [El ''div'' [cls ''inline-flex items-center justify-center w-16 h-16 rounded-2xl bg-gray-900 dark:bg-white shadow-lg mb-4'']
                  [El ''span'' [cls ''text-3xl font-bold text-white dark:text-gray-900''] [Lit ''G'']],
                El ''h1'' [cls ''text-2xl font-semibold text-gray-900 dark:text-white''] [Lit ''Recuperar Senha''],
                El ''p'' [cls ''mt-2 text-sm text-gray-600 dark:text-gray-400'']
                  [Lit (''Enviaremos um link de recupera'' @ [CHR 0xC3, CHR 0xA7, CHR 0xC3, CHR 0xA3] @ ''o'')]],
             Mark ''-- Success Message --''] @
            (if message \<noteq> '''' then Alert ''success'' ''Sucesso'' message else []) @
            [Mark ''-- Form --'',
             El ''form'' [cls ''space-y-4'', At ''action'' ''/forgot-password'', At ''method'' ''POST'']
               [El ''input'' [At ''type'' ''hidden'', At ''name'' ''csrf_token'', Ad ''value'' (pe_csrf env)] [],
                El ''div'' []
                  [El ''label'' [At ''for'' ''email'', cls ''block text-sm font-medium text-gray-700 dark:text-gray-300 mb-2''] [Lit ''Email''],
                   El ''div'' [cls ''relative'']
                     [El ''div'' [cls ''absolute inset-y-0 left-0 pl-4 flex items-center pointer-events-none'']
                        [drawing ''h-5 w-5 text-gray-400''
                           [stroke_path ''M3 8l7.89 5.26a2 2 0 002.22 0L21 8M5 19h14a2 2 0 002-2V7a2 2 0 00-2-2H5a2 2 0 00-2 2v10a2 2 0 002 2z'']],
                      El ''input'' [At ''id'' ''email'', At ''name'' ''email'', At ''type'' ''email'', At ''autocomplete'' ''email'',
                                    Af ''required'',
                                    cls ''block w-full pl-12 pr-4 py-3 rounded-xl border border-gray-200 bg-gray-50 text-gray-900 placeholder-gray-400 focus:border-gray-900 focus:bg-white focus:outline-none focus:ring-2 focus:ring-gray-900/20 dark:border-gray-700 dark:bg-zinc-800 dark:text-white dark:placeholder-gray-500 dark:focus:border-white dark:focus:ring-white/20 transition-all'',
                                    At ''placeholder'' ''voce@exemplo.com''] []]],
                El ''button'' [At ''type'' ''submit'',
                               cls ''w-full flex items-center justify-center rounded-xl bg-gray-900 px-4 py-3 text-sm font-medium text-white hover:bg-gray-800 focus:outline-none focus:ring-2 focus:ring-gray-900 focus:ring-offset-2 dark:bg-white dark:text-gray-900 dark:hover:bg-gray-100 dark:focus:ring-white dark:focus:ring-offset-zinc-900 transition-all'']
                  [Lit ''Enviar Link'']],
             Mark ''-- Back to Login --'',
             El ''div'' [cls ''mt-6 text-center'']
               [El ''a'' [At ''href'' ''/login'',
                          cls ''inline-flex items-center gap-1 text-sm text-gray-600 hover:text-gray-900 dark:text-gray-400 dark:hover:text-white transition-colors'']
                  [drawing ''h-4 w-4'' [stroke_path ''M10 19l-7-7m0 0l7-7m-7 7h18''], Lit '' Voltar para o login'']]])]]\<close>

definition ResetPassword_page :: "page_env \<Rightarrow> string \<Rightarrow> string \<Rightarrow> user option \<Rightarrow> html list" where
  \<open>ResetPassword_page env token message user =
     Base_layout env ''Nova Senha'' ''GOTH Stack'' user
     [El ''div'' [cls ''flex min-h-[calc(100vh-8rem)] items-center justify-center py-12'']
         [El ''div'' [cls ''w-full max-w-sm'']
            ([Mark ''-- Logo --'',
             El ''div'' [cls ''text-center mb-8'']
               [El ''div'' [cls ''inline-flex items-center justify-center w-16 h-16 rounded-2xl bg-gray-900 dark:bg-white shadow-lg mb-4'']
                  [El ''span'' [cls ''text-3xl font-bold text-white dark:text-gray-900''] [Lit ''G'']],
                El ''h1'' [cls ''text-2xl font-semibold text-gray-900 dark:text-white''] [Lit ''Nova Senha''],
                El ''p'' [cls ''mt-2 text-sm text-gray-600 dark:text-gray-400''] [Lit ''Crie uma senha forte'']],
             Mark ''-- Error Message --''] @
            (if message \<noteq> '''' then Alert ''error'' ''Erro'' message else []) @
            [Mark ''-- Form --'',
             El ''form'' [cls ''space-y-4'', At ''action'' ''/reset-password'', At ''method'' ''POST'']
               [El ''input'' [At ''type'' ''hidden'', At ''name'' ''csrf_token'', Ad ''value'' (pe_csrf env)] [],
                Lit '' '',
                El ''input'' [At ''type'' ''hidden'', At ''name'' ''token'', Ad ''value'' token] [],
                El ''div'' []
                  [El ''label'' [At ''for'' ''password'', cls ''block text-sm font-medium text-gray-700 dark:text-gray-300 mb-2'']
                     [Lit ''Nova Senha''],
                   El ''div'' [cls ''relative'']
                     [El ''div'' [cls ''absolute inset-y-0 left-0 pl-4 flex items-center pointer-events-none'']
                        [drawing ''h-5 w-5 text-gray-400''
                           [stroke_path ''M12 15v2m-6 4h12a2 2 0 002-2v-6a2 2 0 00-2-2H6a2 2 0 00-2 2v6a2 2 0 002 2zm10-10V7a4 4 0 00-8 0v4h8z'']],
                      El ''input'' [At ''id'' ''password'', At ''name'' ''password'', At ''type'' ''password'', At ''autocomplete'' ''new-password'',
                                    Af ''required'', At ''minlength'' ''8'',
                                    cls ''block w-full pl-12 pr-4 py-3 rounded-xl border border-gray-200 bg-gray-50 text-gray-900 placeholder-gray-400 focus:border-gray-900 focus:bg-white focus:outline-none focus:ring-2 focus:ring-gray-900/20 dark:border-gray-700 dark:bg-zinc-800 dark:text-white dark:placeholder-gray-500 dark:focus:border-white dark:focus:ring-white/20 transition-all'',
                                    At ''placeholder'' ([CHR 0xE2, CHR 0x80, CHR 0xA2, CHR 0xE2, CHR 0x80, CHR 0xA2, CHR 0xE2, CHR 0x80, CHR 0xA2, CHR 0xE2, CHR 0x80, CHR 0xA2, CHR 0xE2, CHR 0x80, CHR 0xA2, CHR 0xE2, CHR 0x80, CHR 0xA2, CHR 0xE2, CHR 0x80, CHR 0xA2, CHR 0xE2, CHR 0x80, CHR 0xA2])]
                        []],
                   El ''p'' [cls ''mt-2 text-xs text-gray-500 dark:text-gray-400''] [Lit (''M'' @ [CHR 0xC3, CHR 0xAD] @ ''nimo de 8 caracteres'')]],
                El ''button'' [At ''type'' ''submit'',
                               cls ''w-full flex items-center justify-center rounded-xl bg-gray-900 px-4 py-3 text-sm font-medium text-white hover:bg-gray-800 focus:outline-none focus:ring-2 focus:ring-gray-900 focus:ring-offset-2 dark:bg-white dark:text-gray-900 dark:hover:bg-gray-100 dark:focus:ring-white dark:focus:ring-offset-zinc-900 transition-all'']
                  [Lit ''Alterar Senha'']]])]]\<close>

section \<open>Dates and letters\<close>

text \<open>The civil date of a day since the epoch: its year, month and day.\<close>

definition civil_from_days :: "int \<Rightarrow> int \<times> int \<times> int" where
  "civil_from_days n =
     (let z = n + 719468; era = z div 146097; doe = z - era * 146097;
          yoe = (doe - doe div 1460 + doe div 36524 - doe div 146096) div 365;
          doy = doe - (365 * yoe + yoe div 4 - yoe div 100); mp = (5 * doy + 2) div 153;
          m = (if mp < 10 then mp + 3 else mp - 9)
      in (yoe + era * 400 + (if m \<le> 2 then 1 else 0), m, doy - (153 * mp + 2) div 5 + 1))"

definition two_digits :: "int \<Rightarrow> string" where
  "two_digits n = (if n < 10 then ''0'' else '''') @ string_of_int n"

definition four_digits :: "int \<Rightarrow> string" where
  "four_digits n = (if n < 10 then ''000'' else if n < 100 then ''00'' else if n < 1000 then ''0'' else '''') @ string_of_int n"

text \<open>\<open>Format("01/01/2006")\<close> in UTC for the years 0 to 9999: \<open>01\<close> is the month, both times. \<open>format_clock\<close> is \<open>15:04\<close>.\<close>

definition format_date :: "instant \<Rightarrow> string" where
  "format_date t =
     (case civil_from_days (t div (24 * hour)) of (y, m, d) \<Rightarrow> two_digits m @ ''/'' @ two_digits m @ ''/'' @ four_digits y)"

definition format_clock :: "instant \<Rightarrow> string" where
  "format_clock t = two_digits (t div hour mod 24) @ '':'' @ two_digits (t div minute mod 60)"

text \<open>The time of a NULL is the zero time, the first of January of the year 1.\<close>

definition null_time :: "instant option \<Rightarrow> instant" where
  "null_time t = (case t of None \<Rightarrow> days_from_civil 1 1 1 * 24 * hour | Some x \<Rightarrow> x)"

text \<open>\<open>string(s[0])\<close>: the first byte as a rune. An empty string has none; see \<open>page_panics\<close>.\<close>

definition first_letter :: "string \<Rightarrow> string" where
  "first_letter s = utf8_encode (byte_of (hd s))"

definition the_url :: "user \<Rightarrow> string" where
  "the_url user = (case u_avatar_url user of None \<Rightarrow> '''' | Some a \<Rightarrow> a)"

section \<open>Pages of a user\<close>

record notification =
  nt_Title :: string
  nt_Message :: string
  nt_CreatedAt :: instant

definition Dashboard_page :: "page_env \<Rightarrow> user \<Rightarrow> user list \<Rightarrow> pagination \<Rightarrow> html list" where
  \<open>Dashboard_page env user users pag =
     Base_layout env ''Dashboard'' ''GOTH Stack'' (Some user)
     [El ''div'' [cls ''space-y-6'']
         [Mark ''-- Welcome Section --'',
          El ''div'' [cls ''bg-white dark:bg-zinc-900 rounded-xl shadow-sm border border-gray-200 dark:border-gray-800 p-6'']
            [El ''div'' [cls ''flex items-center gap-4'']
               ((if u_avatar_url user \<noteq> None then
                  [El ''img'' [Ad ''src'' (the_url user), cls ''h-14 w-14 rounded-full object-cover border-2 border-gray-200 dark:border-gray-700'',
                               Ad ''alt'' (u_email user)] []]
                else
                  [El ''div'' [cls ''flex h-14 w-14 items-center justify-center rounded-full bg-gray-100 dark:bg-gray-800 text-gray-600 dark:text-gray-300 font-medium'']
                     [El ''span'' [cls ''text-lg''] [Dat (first_letter (u_email user))]]]) @
               [El ''div'' [cls ''flex-1'']
                  [El ''h1'' [cls ''text-xl font-semibold text-gray-900 dark:text-white'']
                     [Lit (''Ol'' @ [CHR 0xC3, CHR 0xA1] @ '', ''), Dat (u_email user), Lit ''!''],
                   El ''p'' [cls ''text-sm text-gray-500 dark:text-gray-400 mt-0.5''] [Lit ''Bem-vindo ao seu dashboard''],
                   El ''form'' [At ''action'' ''/profile/avatar'', At ''method'' ''POST'', At ''enctype'' ''multipart/form-data'', cls ''mt-2'']
                     [El ''input'' [At ''type'' ''hidden'', At ''name'' ''csrf_token'', Ad ''value'' (pe_csrf env)] [],
                      Lit '' '',
                      El ''label'' [cls ''inline-flex cursor-pointer items-center gap-2 text-xs text-gray-500 hover:text-gray-700 dark:text-gray-400 dark:hover:text-gray-200'']
                        [drawing ''h-4 w-4''
                           [stroke_path ''M4 16l4.586-4.586a2 2 0 012.828 0L16 16m-2-2l1.586-1.586a2 2 0 012.828 0L20 14m-6-6h.01M6 20h12a2 2 0 002-2V6a2 2 0 00-2-2H6a2 2 0 00-2 2v12a2 2 0 002 2z''],
                         Lit '' '',
                         El ''span'' [] [Lit ''Atualizar avatar''],
                         Lit '' '',
                         El ''input'' [At ''type'' ''file'', At ''name'' ''avatar'', At ''accept'' ''image/*'', cls ''hidden'',
                                       At ''onchange'' ''this.form.submit()''] []]]]])],
          Mark ''-- SSE Container --'',
          El ''div'' [At ''hx-ext'' ''sse'', At ''sse-connect'' ''/events'', cls ''space-y-2'']
            [El ''div'' [At ''sse-swap'' ''job_completed'', At ''hx-swap'' ''afterbegin'', At ''hx-limit'' ''5''] []],
          Mark ''-- Users Section --'',
          El ''div'' [At ''id'' ''users-section'',
                      cls ''bg-white dark:bg-zinc-900 rounded-xl shadow-sm border border-gray-200 dark:border-gray-800 overflow-hidden'']
            ([El ''div'' [cls ''px-6 py-4 border-b border-gray-200 dark:border-gray-800'']
               [El ''div'' [cls ''flex items-center justify-between flex-wrap gap-4'']
                  [El ''h2'' [cls ''text-lg font-semibold text-gray-900 dark:text-white'']
                     [Lit (''Usu'' @ [CHR 0xC3, CHR 0xA1] @ ''rios do Sistema'')],
                   El ''form'' [At ''action'' ''/dashboard'', At ''method'' ''GET'', cls ''flex items-center gap-2'']
                     [El ''div'' [cls ''relative'']
                        [drawing ''absolute left-3 top-1/2 h-4 w-4 -translate-y-1/2 text-gray-400''
                           [stroke_path ''M21 21l-6-6m2-5a7 7 0 11-14 0 7 7 0 0114 0z''],
                         Lit '' '',
                         El ''input'' [At ''type'' ''text'', At ''name'' ''search'',
                                       At ''placeholder'' (''Buscar usu'' @ [CHR 0xC3, CHR 0xA1] @ ''rio...''),
                                       cls ''w-48 sm:w-64 rounded-lg border border-gray-200 bg-white py-2 pl-10 pr-4 text-sm placeholder:text-gray-400 focus:border-gray-900 focus:outline-none focus:ring-2 focus:ring-gray-900/20 dark:border-gray-700 dark:bg-zinc-800 dark:text-white dark:placeholder:text-gray-500 dark:focus:border-white transition-colors'',
                                       At ''hx-get'' ''/dashboard'', At ''hx-target'' ''#users-section'', At ''hx-push-url'' ''true'',
                                       At ''hx-trigger'' ''keyup changed delay:500ms''] []]]]],
             El ''div'' [cls ''divide-y divide-gray-100 dark:divide-gray-800'']
               ((if users = [] then
                  [El ''div'' [cls ''px-6 py-12 text-center text-gray-500 dark:text-gray-400'']
                     [drawing ''mx-auto mb-3 block h-12 w-12 text-gray-300 dark:text-gray-600''
                        [stroke_path ''M16 7a4 4 0 11-8 0 4 4 0 018 0zM12 14a7 7 0 00-7 7h14a7 7 0 00-7-7z''],
                      El ''p'' [] [Lit (''Nenhum usu'' @ [CHR 0xC3, CHR 0xA1] @ ''rio encontrado'')]]]
                else
                  [El ''ul'' []
                     (concat (map (\<lambda>v.
                        [El ''li'' [cls ''flex items-center justify-between px-6 py-4 hover:bg-gray-50 dark:hover:bg-zinc-800/50 transition-colors'']
                           ([El ''div'' [cls ''flex items-center gap-3'']
                              [El ''div'' [cls ''flex h-10 w-10 items-center justify-center rounded-full bg-gray-100 dark:bg-gray-800 text-gray-600 dark:text-gray-300 font-medium'']
                                 [El ''span'' [cls ''text-sm''] [Dat (first_letter (u_email v))]],
                               El ''span'' [cls ''text-sm font-medium text-gray-900 dark:text-white''] [Dat (u_email v)]]] @
                           Badge ''Ativo'' ''success'')]) users))]))] @
            (if 1 < view_TotalPages pag then
               [El ''div'' [cls ''px-6 py-4 border-t border-gray-200 dark:border-gray-800 bg-gray-50 dark:bg-zinc-900/50'']
                  (PaginationControls pag ''/dashboard'')] else []))],
       Mark ''-- SSE Notification Template --'',
       Lit '' '',
       El ''template'' [At ''id'' ''job-notification-template'']
         [El ''div'' [At ''x-data'' ''{ show: true }'', At ''x-show'' ''show'', At ''x-init'' ''setTimeout(() => show = false, 5000)'',
                      cls ''flex items-center justify-between rounded-lg border border-gray-200 bg-white px-4 py-3 text-gray-700 shadow-sm dark:border-gray-800 dark:bg-zinc-900 dark:text-gray-300'']
            [El ''div'' [cls ''flex items-center gap-2'']
               [drawing ''h-5 w-5 text-green-500'' [stroke_path ''M9 12l2 2 4-4m6 2a9 9 0 11-18 0 9 9 0 0118 0z''],
                Lit '' '',
                El ''span'' [cls ''text-sm font-medium''] [Lit (''Job conclu'' @ [CHR 0xC3, CHR 0xAD] @ ''do com sucesso!'')]],
             El ''button'' [At ''type'' ''button'', cls ''text-gray-400 hover:text-gray-600 dark:hover:text-gray-200'', At ''@click'' ''show = false'']
               [drawing ''h-5 w-5'' [stroke_path ''M6 18L18 6M6 6l12 12'']]]],
       Raw ''script'' []
         (script_text [(3, ''document.body.addEventListener(`htmx:sseMessage`, function(e) {''), (4, ''if (e.detail.type === `job_completed`) {''),
                       (5, ''const template = document.getElementById(`job-notification-template`);''),
                       (5, ''const clone = template.content.cloneNode(true);''), (5, ''e.target.appendChild(clone);''), (4, ''}''), (3, ''});''),
                       (2, '''')])]\<close>

definition Profile_page :: "page_env \<Rightarrow> user \<Rightarrow> html list" where
  \<open>Profile_page env user =
     Base_layout env ''Perfil - GOTH Stack'' ''GOTH Stack'' (Some user)
     [El ''div'' [cls ''mx-auto max-w-3xl'']
         [El ''h1'' [cls ''text-3xl font-bold text-gray-900 dark:text-white''] [Lit ''Meu Perfil''],
          El ''div'' [cls ''mt-8 rounded-xl bg-white dark:bg-zinc-900 shadow-sm border border-gray-200 dark:border-gray-800 overflow-hidden'']
            [El ''div'' [cls ''p-6'']
               [Mark ''-- Avatar Section --'',
                El ''div'' [cls ''flex items-center gap-6'']
                  [El ''div'' [cls ''flex h-24 w-24 items-center justify-center rounded-full bg-gray-100 dark:bg-gray-800 text-gray-600 dark:text-gray-300 font-medium text-3xl'']
                     ((if u_avatar_url user \<noteq> None then
                        [El ''img'' [Ad ''src'' (the_url user), Ad ''alt'' (u_email user), cls ''h-full w-full rounded-full object-cover''] []] else [El ''span'' [] [Dat (first_letter (u_email user))]])),
                   El ''div'' []
                     [El ''h2'' [cls ''text-xl font-semibold text-gray-900 dark:text-white''] [Dat (u_email user)],
                      El ''p'' [cls ''text-gray-600 dark:text-gray-400''] [Lit ''Membro desde '', Dat (format_date (null_time (u_created_at user)))]]],
                Mark ''-- Profile Form --'',
                El ''form'' [At ''action'' ''/profile'', At ''method'' ''POST'', cls ''mt-8 space-y-6'']
                  [El ''input'' [At ''type'' ''hidden'', At ''name'' ''csrf_token'', Ad ''value'' (pe_csrf env)] [],
                   El ''div'' []
                     [El ''label'' [At ''for'' ''name'', cls ''block text-sm font-medium text-gray-700 dark:text-gray-300''] [Lit ''Nome''],
                      Lit '' '',
                      El ''input'' [At ''type'' ''text'', At ''id'' ''name'', At ''name'' ''name'', Ad ''value'' (u_email user),
                                    cls ''mt-2 block w-full rounded-lg border border-gray-200 bg-white px-4 py-3 text-gray-900 placeholder-gray-400 focus:border-gray-900 focus:outline-none focus:ring-2 focus:ring-gray-900/20 dark:border-gray-700 dark:bg-zinc-800 dark:text-white dark:placeholder-gray-500 transition-colors'']
                        []],
                   El ''div'' []
                     [El ''label'' [At ''for'' ''bio'', cls ''block text-sm font-medium text-gray-700 dark:text-gray-300''] [Lit ''Bio''],
                      Lit '' '',
                      El ''textarea'' [At ''id'' ''bio'', At ''name'' ''bio'', At ''rows'' ''4'',
                                       cls ''mt-2 block w-full rounded-lg border border-gray-200 bg-white px-4 py-3 text-gray-900 placeholder-gray-400 focus:border-gray-900 focus:outline-none focus:ring-2 focus:ring-gray-900/20 dark:border-gray-700 dark:bg-zinc-800 dark:text-white dark:placeholder-gray-500 transition-colors resize-none'']
                        []],
                   El ''div'' [cls ''flex justify-end gap-4'']
                     [El ''button'' [At ''type'' ''submit'',
                                     cls ''rounded-xl bg-gray-900 px-6 py-3 text-base font-semibold text-white hover:bg-gray-800 dark:bg-white dark:text-gray-900 dark:hover:bg-gray-100 transition-colors'']
                        [Lit (''Salvar Altera'' @ [CHR 0xC3, CHR 0xA7, CHR 0xC3, CHR 0xB5] @ ''es'')]]]]]]]\<close>

definition Settings_page :: "page_env \<Rightarrow> user \<Rightarrow> html list" where
  \<open>Settings_page env user =
     Base_layout env (''Configura'' @ [CHR 0xC3, CHR 0xA7, CHR 0xC3, CHR 0xB5] @ ''es - GOTH Stack'') ''GOTH Stack'' (Some user)
     [El ''div'' [cls ''mx-auto max-w-3xl'']
         [El ''h1'' [cls ''text-3xl font-bold text-gray-900 dark:text-white'']
            [Lit (''Configura'' @ [CHR 0xC3, CHR 0xA7, CHR 0xC3, CHR 0xB5] @ ''es'')],
          El ''div'' [cls ''mt-8 space-y-6'']
            [Mark ''-- Security Section --'',
             El ''div'' [cls ''rounded-xl bg-white dark:bg-zinc-900 shadow-sm border border-gray-200 dark:border-gray-800 overflow-hidden'']
               [El ''div'' [cls ''border-b border-gray-200 dark:border-gray-800 px-6 py-4'']
                  [El ''h2'' [cls ''text-xl font-semibold text-gray-900 dark:text-white''] [Lit (''Seguran'' @ [CHR 0xC3, CHR 0xA7] @ ''a'')]],
                El ''div'' [cls ''p-6 space-y-6'']
                  [Mark ''-- Change Password --'',
                   El ''form'' [At ''action'' ''/settings/password'', At ''method'' ''POST'', cls ''space-y-4'']
                     [El ''input'' [At ''type'' ''hidden'', At ''name'' ''csrf_token'', Ad ''value'' (pe_csrf env)] [],
                      El ''div'' []
                        [El ''label'' [At ''for'' ''current_password'', cls ''block text-sm font-medium text-gray-700 dark:text-gray-300'']
                           [Lit ''Senha Atual''],
                         Lit '' '',
                         El ''input'' [At ''type'' ''password'', At ''id'' ''current_password'', At ''name'' ''current_password'',
                                       cls ''mt-2 block w-full rounded-lg border border-gray-200 bg-white px-4 py-3 text-gray-900 placeholder-gray-400 focus:border-gray-900 focus:outline-none focus:ring-2 focus:ring-gray-900/20 dark:border-gray-700 dark:bg-zinc-800 dark:text-white dark:placeholder-gray-500 transition-colors'']
                           []],
                      El ''div'' []
                        [El ''label'' [At ''for'' ''new_password'', cls ''block text-sm font-medium text-gray-700 dark:text-gray-300'']
                           [Lit ''Nova Senha''],
                         Lit '' '',
                         El ''input'' [At ''type'' ''password'', At ''id'' ''new_password'', At ''name'' ''new_password'',
                                       cls ''mt-2 block w-full rounded-lg border border-gray-200 bg-white px-4 py-3 text-gray-900 placeholder-gray-400 focus:border-gray-900 focus:outline-none focus:ring-2 focus:ring-gray-900/20 dark:border-gray-700 dark:bg-zinc-800 dark:text-white dark:placeholder-gray-500 transition-colors'']
                           []],
                      El ''button'' [At ''type'' ''submit'',
                                     cls ''rounded-xl bg-gray-900 px-6 py-3 text-base font-semibold text-white hover:bg-gray-800 dark:bg-white dark:text-gray-900 dark:hover:bg-gray-100 transition-colors'']
                        [Lit ''Alterar Senha'']],
                   Mark ''-- 2FA Section --'',
                   El ''div'' [cls ''border-t border-gray-200 dark:border-gray-800 pt-6'']
                     [El ''div'' [cls ''flex items-center justify-between'']
                        [El ''div'' []
                           [El ''h3'' [cls ''font-medium text-gray-900 dark:text-white'']
                              [Lit (''Autentica'' @ [CHR 0xC3, CHR 0xA7, CHR 0xC3, CHR 0xA3] @ ''o de Dois Fatores (2FA)'')],
                            El ''p'' [cls ''text-sm text-gray-600 dark:text-gray-400'']
                              [Lit (''Adicione uma camada extra de seguran'' @ [CHR 0xC3, CHR 0xA7] @ ''a'')]],
                         El ''button'' [At ''type'' ''button'',
                                        cls ''rounded-lg border border-gray-200 bg-white px-4 py-2 text-sm font-medium text-gray-700 hover:bg-gray-50 dark:border-gray-700 dark:bg-zinc-800 dark:text-gray-300 dark:hover:bg-zinc-700 transition-colors'']
                           [Lit ''Ativar 2FA'']]]]],
             Mark ''-- Preferences Section --'',
             El ''div'' [cls ''rounded-xl bg-white dark:bg-zinc-900 shadow-sm border border-gray-200 dark:border-gray-800 overflow-hidden'']
               [El ''div'' [cls ''border-b border-gray-200 dark:border-gray-800 px-6 py-4'']
                  [El ''h2'' [cls ''text-xl font-semibold text-gray-900 dark:text-white''] [Lit (''Prefer'' @ [CHR 0xC3, CHR 0xAA] @ ''ncias'')]],
                El ''div'' [cls ''p-6 space-y-6'']
                  [Mark ''-- Theme Preference --'',
                   El ''div'' [cls ''flex items-center justify-between'']
                     [El ''div'' []
                        [El ''h3'' [cls ''font-medium text-gray-900 dark:text-white''] [Lit ''Tema''],
                         El ''p'' [cls ''text-sm text-gray-600 dark:text-gray-400'']
                           [Lit (''Escolha entre claro, escuro ou autom'' @ [CHR 0xC3, CHR 0xA1] @ ''tico'')]],
                      El ''button'' [At ''type'' ''button'',
                                     cls ''inline-flex items-center justify-center rounded-lg p-2 text-gray-500 hover:bg-gray-100 hover:text-gray-900 dark:text-gray-400 dark:hover:bg-gray-800 dark:hover:text-gray-100 transition-colors'',
                                     At ''id'' ''theme-toggle-settings'']
                        [drawing ''sun-icon w-5 h-5 hidden''
                           [stroke_path ''M12 3v1m0 16v1m9-9h-1M4 12H3m15.364 6.364l-.707-.707M6.343 6.343l-.707-.707m12.728 0l-.707.707M6.343 17.657l-.707.707M16 12a4 4 0 11-8 0 4 4 0 018 0z''],
                         Lit '' '',
                         drawing ''moon-icon w-5 h-5 hidden''
                           [stroke_path ''M20.354 15.354A9 9 0 018.646 3.646 9.003 9.003 0 0012 21a9.003 9.003 0 008.354-5.646z'']]],
                   Mark ''-- Email Notifications --'',
                   El ''div'' [cls ''flex items-center justify-between'']
                     [El ''div'' []
                        [El ''h3'' [cls ''font-medium text-gray-900 dark:text-white'']
                           [Lit (''Notifica'' @ [CHR 0xC3, CHR 0xA7, CHR 0xC3, CHR 0xB5] @ ''es por Email'')],
                         El ''p'' [cls ''text-sm text-gray-600 dark:text-gray-400'']
                           [Lit (''Receba atualiza'' @ [CHR 0xC3, CHR 0xA7, CHR 0xC3, CHR 0xB5] @ ''es importantes'')]],
                      El ''label'' [cls ''relative inline-flex cursor-pointer items-center'']
                        [El ''input'' [At ''type'' ''checkbox'', Af ''checked'', cls ''peer sr-only''] [],
                         El ''div'' [cls (''peer h-6 w-11 rounded-full bg-gray-200 after:absolute after:left-[2px] after:top-[2px] after:h-5 after:w-5 after:rounded-full after:border after:border-gray-300 after:bg-white after:transition-all after:content-['' @ [CHR 0x27, CHR 0x27] @ ''] peer-checked:bg-gray-900 peer-checked:after:translate-x-full peer-checked:after:border-white peer-focus:outline-none peer-focus:ring-2 peer-focus:ring-gray-900/20 dark:border-gray-700 dark:bg-gray-700 dark:peer-checked:bg-white'')]
                           []]]]],
             Mark ''-- Billing Section --'',
             El ''div'' [cls ''rounded-xl bg-white dark:bg-zinc-900 shadow-sm border border-gray-200 dark:border-gray-800 overflow-hidden'']
               [El ''div'' [cls ''border-b border-gray-200 dark:border-gray-800 px-6 py-4'']
                  [El ''h2'' [cls ''text-xl font-semibold text-gray-900 dark:text-white''] [Lit ''Faturamento'']],
                El ''div'' [cls ''p-6'']
                  [El ''div'' [cls ''flex items-center justify-between'']
                     [El ''div'' []
                        [El ''h3'' [cls ''font-medium text-gray-900 dark:text-white''] [Lit ''Plano Atual''],
                         El ''p'' [cls ''text-sm text-gray-600 dark:text-gray-400''] [Lit (''Free - R$0/m'' @ [CHR 0xC3, CHR 0xAA] @ ''s'')]],
                      El ''a'' [At ''href'' ''/pricing'',
                                cls ''rounded-lg bg-gray-900 px-4 py-2 text-sm font-semibold text-white hover:bg-gray-800 dark:bg-white dark:text-gray-900 dark:hover:bg-gray-100 transition-colors'']
                        [Lit ''Upgrade'']]]],
             Mark ''-- Danger Zone --'',
             El ''div'' [cls ''rounded-xl border border-red-200 bg-red-50 dark:border-red-800 dark:bg-red-900/20 overflow-hidden'']
               [El ''div'' [cls ''border-b border-red-200 dark:border-red-800 px-6 py-4'']
                  [El ''h2'' [cls ''text-xl font-semibold text-red-800 dark:text-red-400''] [Lit ''Zona de Perigo'']],
                El ''div'' [cls ''p-6'']
                  [El ''div'' [cls ''flex items-center justify-between'']
                     [El ''div'' []
                        [El ''h3'' [cls ''font-medium text-red-800 dark:text-red-400''] [Lit ''Excluir Conta''],
                         El ''p'' [cls ''text-sm text-red-600 dark:text-red-400'']
                           [Lit (''Esta a'' @ [CHR 0xC3, CHR 0xA7, CHR 0xC3, CHR 0xA3] @ ''o '' @ [CHR 0xC3, CHR 0xA9] @ '' irrevers'' @ [CHR 0xC3, CHR 0xAD] @ ''vel'')]],
                      El ''button'' [At ''type'' ''button'',
                                     cls ''rounded-lg border border-red-300 bg-white px-4 py-2 text-sm font-medium text-red-600 hover:bg-red-50 dark:border-red-700 dark:bg-zinc-800 dark:text-red-400 dark:hover:bg-red-900/20 transition-colors'']
                        [Lit ''Excluir Conta'']]]]]]]\<close>

definition Notifications_page :: "page_env \<Rightarrow> user \<Rightarrow> notification list \<Rightarrow> html list" where
  \<open>Notifications_page env user notifications =
     Base_layout env (''Notifica'' @ [CHR 0xC3, CHR 0xA7, CHR 0xC3, CHR 0xB5] @ ''es - GOTH Stack'') ''GOTH Stack'' (Some user)
     [El ''div'' [cls ''mx-auto max-w-3xl'']
         [El ''div'' [cls ''flex items-center justify-between'']
            [El ''h1'' [cls ''text-3xl font-bold text-gray-900 dark:text-white'']
               [Lit (''Notifica'' @ [CHR 0xC3, CHR 0xA7, CHR 0xC3, CHR 0xB5] @ ''es'')],
             El ''button'' [At ''type'' ''button'',
                            cls ''text-sm text-gray-600 hover:text-gray-900 dark:text-gray-400 dark:hover:text-white transition-colors'']
               [Lit ''Marcar todas como lidas'']],
          El ''div'' [cls ''mt-8 space-y-4'']
            ((if notifications = [] then
               [El ''div'' [cls ''rounded-xl bg-white dark:bg-zinc-900 shadow-sm border border-gray-200 dark:border-gray-800 p-12 text-center'']
                  [drawing ''mx-auto h-12 w-12 text-gray-400''
                     [stroke_path ''M15 17h5l-1.405-1.405A2.032 2.032 0 0118 14.158V11a6.002 6.002 0 00-4-5.659V5a2 2 0 10-4 0v.341C7.67 6.165 6 8.388 6 11v3.159c0 .538-.214 1.055-.595 1.436L4 17h5m6 0v1a3 3 0 11-6 0v-1m6 0H9''],
                   El ''h3'' [cls ''mt-4 text-lg font-medium text-gray-900 dark:text-white'']
                     [Lit (''Sem notifica'' @ [CHR 0xC3, CHR 0xA7, CHR 0xC3, CHR 0xB5] @ ''es'')],
                   El ''p'' [cls ''mt-2 text-gray-600 dark:text-gray-400'']
                     [Lit (''Quando voc'' @ [CHR 0xC3, CHR 0xAA] @ '' receber notifica'' @ [CHR 0xC3, CHR 0xA7, CHR 0xC3, CHR 0xB5] @ ''es, elas aparecer'' @ [CHR 0xC3, CHR 0xA3] @ ''o aqui.'')]]]
             else
               concat (map (\<lambda>n.
                  [El ''div'' [cls ''rounded-xl bg-white dark:bg-zinc-900 shadow-sm border border-gray-200 dark:border-gray-800 p-4 transition-colors'']
                     [El ''div'' [cls ''flex items-start gap-4'']
                        [El ''div'' [cls ''flex h-10 w-10 items-center justify-center rounded-full bg-blue-100 dark:bg-blue-900/20 text-blue-600 dark:text-blue-400'']
                           [drawing ''h-5 w-5'' [stroke_path ''M13 16h-1v-4h-1m1-4h.01M21 12a9 9 0 11-18 0 9 9 0 0118 0z'']],
                         El ''div'' [cls ''flex-1'']
                           [El ''h3'' [cls ''font-medium text-gray-900 dark:text-white''] [Dat (nt_Title n)],
                            El ''p'' [cls ''mt-1 text-sm text-gray-600 dark:text-gray-400''] [Dat (nt_Message n)],
                            El ''p'' [cls ''mt-2 text-xs text-gray-500 dark:text-gray-500'']
                              [Dat (format_date (nt_CreatedAt n) @ '' '' @ format_clock (nt_CreatedAt n))]]]]]) notifications)))]]\<close>

text \<open>The letter that stands for an avatar is read from the address, which panics when it is empty.\<close>

definition page_panics :: "user \<Rightarrow> user list \<Rightarrow> bool" where
  "page_panics user users \<longleftrightarrow> u_avatar_url user = None \<and> u_email user = '''' \<or> list_ex (\<lambda>u. u_email u = '''') users"

end
