(* ===== verification/Public_Pages.thy ===== *)
theory Public_Pages
  imports Page_Templates
begin

text \<open>
  The pages without data of their own (\<open>internal/view/pages/*_templ.go\<close>): the public site, the error pages and the pages for operators.
\<close>

definition Landing_page :: "page_env \<Rightarrow> user option \<Rightarrow> html list" where
  \<open>Landing_page env user =
     Base_layout env ''GOTH Stack - Modern Web Development'' ''GOTH Stack'' user
     [El ''div'' [cls ''relative overflow-hidden'']
         [Mark ''-- Hero Section --'',
          El ''section'' [cls ''relative py-20 lg:py-32'']
            [El ''div'' [cls ''mx-auto max-w-7xl px-4 sm:px-6 lg:px-8'']
               [El ''div'' [cls ''text-center'']
                  [El ''div'' [cls ''inline-flex items-center rounded-full border border-gray-200 bg-gray-50 px-4 py-1.5 text-sm font-medium text-gray-600 dark:border-gray-800 dark:bg-zinc-900 dark:text-gray-400 mb-8'']
                     [El ''span'' [cls ''flex h-2 w-2 rounded-full bg-green-500 mr-2''] [], Lit '' Now with HTMX & TailwindCSS''],
                   El ''h1'' [cls ''mx-auto max-w-4xl text-5xl font-bold tracking-tight text-gray-900 dark:text-white sm:text-6xl lg:text-7xl'']
                     [Lit ''Build faster with '', El ''span'' [cls ''text-gray-900 dark:text-white''] [Lit ''GOTH Stack'']],
                   El ''p'' [cls ''mx-auto mt-6 max-w-2xl text-lg leading-8 text-gray-600 dark:text-gray-400'']
                     [Lit ''A modern, minimalist full-stack framework combining Go, HTMX, and TailwindCSS.  Build performant web applications with simplicity and elegance.''],
                   El ''div'' [cls ''mt-10 flex items-center justify-center gap-x-6'']
                     [El ''a'' [At ''href'' ''/register'',
                                cls ''rounded-xl bg-gray-900 px-8 py-3.5 text-sm font-semibold text-white shadow-sm hover:bg-gray-800 dark:bg-white dark:text-gray-900 dark:hover:bg-gray-100 transition-colors'']
                        [Lit ''Get Started''],
                      Lit '' '',
                      El ''a'' [At ''href'' ''/pricing'',
                                cls ''text-sm font-semibold leading-6 text-gray-900 dark:text-white hover:text-gray-700 dark:hover:text-gray-300 transition-colors'']
                        [Lit ''View Pricing '', El ''span'' [At ''aria-hidden'' ''true''] [Lit ([CHR 0xE2, CHR 0x86, CHR 0x92])]]]]]],
          Mark ''-- Features Section --'',
          El ''section'' [cls ''py-20 bg-gray-50 dark:bg-zinc-900/50'']
            [El ''div'' [cls ''mx-auto max-w-7xl px-4 sm:px-6 lg:px-8'']
               [El ''div'' [cls ''text-center mb-16'']
                  [El ''h2'' [cls ''text-3xl font-bold tracking-tight text-gray-900 dark:text-white sm:text-4xl'']
                     [Lit ''Everything you need to build''],
                   El ''p'' [cls ''mt-4 text-lg text-gray-600 dark:text-gray-400''] [Lit ''A complete solution for modern web development'']],
                El ''div'' [cls ''grid grid-cols-1 gap-8 sm:grid-cols-2 lg:grid-cols-3'']
                  [Mark ''-- Feature 1 --'',
                   El ''div'' [cls ''relative rounded-2xl border border-gray-200 bg-white p-8 dark:border-gray-800 dark:bg-zinc-900'']
                     [El ''div'' [cls ''inline-flex h-12 w-12 items-center justify-center rounded-xl bg-gray-900 dark:bg-white mb-6'']
                        (LucideIcon env ''zap'' ''h-6 w-6 text-white dark:text-gray-900''),
                      El ''h3'' [cls ''text-xl font-semibold text-gray-900 dark:text-white''] [Lit ''Lightning Fast''],
                      El ''p'' [cls ''mt-4 text-gray-600 dark:text-gray-400'']
                        [Lit ''Built on Go for exceptional performance. HTMX brings interactivity without the JavaScript complexity.'']],
                   Mark ''-- Feature 2 --'',
                   El ''div'' [cls ''relative rounded-2xl border border-gray-200 bg-white p-8 dark:border-gray-800 dark:bg-zinc-900'']
                     [El ''div'' [cls ''inline-flex h-12 w-12 items-center justify-center rounded-xl bg-gray-900 dark:bg-white mb-6'']
                        (LucideIcon env ''shield-check'' ''h-6 w-6 text-white dark:text-gray-900''),
                      El ''h3'' [cls ''text-xl font-semibold text-gray-900 dark:text-white''] [Lit ''Secure by Default''],
                      El ''p'' [cls ''mt-4 text-gray-600 dark:text-gray-400'']
                        [Lit ''Enterprise-grade security with 2FA, RBAC, CSRF protection, and secure session management built-in.'']],
                   Mark ''-- Feature 3 --'',
                   El ''div'' [cls ''relative rounded-2xl border border-gray-200 bg-white p-8 dark:border-gray-800 dark:bg-zinc-900'']
                     [El ''div'' [cls ''inline-flex h-12 w-12 items-center justify-center rounded-xl bg-gray-900 dark:bg-white mb-6'']
                        (LucideIcon env ''layout-grid'' ''h-6 w-6 text-white dark:text-gray-900''),
                      El ''h3'' [cls ''text-xl font-semibold text-gray-900 dark:text-white''] [Lit ''Modern Stack''],
                      El ''p'' [cls ''mt-4 text-gray-600 dark:text-gray-400'']
                        [Lit ''TailwindCSS for beautiful UIs, SQLite for simplicity, and comprehensive API support out of the box.'']]]]],
          Mark ''-- CTA Section --'',
          El ''section'' [cls ''py-20'']
            [El ''div'' [cls ''mx-auto max-w-7xl px-4 sm:px-6 lg:px-8'']
               [El ''div'' [cls ''relative overflow-hidden rounded-3xl bg-gray-900 px-6 py-24 shadow-2xl sm:px-12 sm:py-32'']
                  [El ''div'' [cls ''absolute inset-0 bg-gradient-to-br from-gray-900 via-gray-800 to-gray-900''] [],
                   El ''div'' [cls ''relative mx-auto max-w-2xl text-center'']
                     [El ''h2'' [cls ''text-3xl font-bold tracking-tight text-white sm:text-4xl''] [Lit ''Ready to get started?''],
                      El ''p'' [cls ''mx-auto mt-6 max-w-xl text-lg leading-8 text-gray-300'']
                        [Lit ''Join thousands of developers building faster, simpler web applications with GOTH Stack.''],
                      El ''div'' [cls ''mt-10 flex items-center justify-center gap-x-6'']
                        [El ''a'' [At ''href'' ''/register'',
                                   cls ''rounded-xl bg-white px-8 py-3.5 text-sm font-semibold text-gray-900 shadow-sm hover:bg-gray-100 transition-colors'']
                           [Lit ''Start Building Free''],
                         Lit '' '',
                         El ''a'' [At ''href'' ''/contact'', cls ''text-sm font-semibold leading-6 text-white hover:text-gray-300 transition-colors'']
                           [Lit ''Contact Sales '', El ''span'' [At ''aria-hidden'' ''true''] [Lit ([CHR 0xE2, CHR 0x86, CHR 0x92])]]]]]]]]]\<close>

definition Pricing_page :: "page_env \<Rightarrow> user option \<Rightarrow> html list" where
  \<open>Pricing_page env user =
     Base_layout env ''Pricing - GOTH Stack'' ''GOTH Stack'' user
     [El ''div'' [cls ''py-20'']
         [El ''div'' [cls ''mx-auto max-w-7xl px-4 sm:px-6 lg:px-8'']
            [Mark ''-- Header --'',
             El ''div'' [cls ''text-center mb-16'']
               [El ''h1'' [cls ''text-4xl font-bold tracking-tight text-gray-900 dark:text-white sm:text-5xl''] [Lit ''Simple, transparent pricing''],
                El ''p'' [cls ''mt-4 text-xl text-gray-600 dark:text-gray-400''] [Lit ''Choose the plan that fits your needs. No hidden fees.'']],
             Mark ''-- Pricing Cards --'',
             El ''div'' [cls ''grid grid-cols-1 gap-8 lg:grid-cols-3'']
               [Mark ''-- Free Plan --'',
                El ''div'' [cls ''relative rounded-2xl border border-gray-200 bg-white p-8 dark:border-gray-800 dark:bg-zinc-900'']
                  [El ''h3'' [cls ''text-lg font-semibold leading-8 text-gray-900 dark:text-white''] [Lit ''Free''],
                   El ''p'' [cls ''mt-4 text-sm leading-6 text-gray-600 dark:text-gray-400''] [Lit ''Perfect for hobby projects''],
                   El ''p'' [cls ''mt-6 flex items-baseline gap-x-1'']
                     [El ''span'' [cls ''text-4xl font-bold tracking-tight text-gray-900 dark:text-white''] [Lit ''$0''],
                      Lit '' '',
                      El ''span'' [cls ''text-sm font-semibold leading-6 text-gray-600 dark:text-gray-400''] [Lit ''/month'']],
                   El ''ul'' [At ''role'' ''list'', cls ''mt-8 space-y-3 text-sm leading-6 text-gray-600 dark:text-gray-400'']
                     [El ''li'' [cls ''flex gap-x-3''] (LucideIcon env ''check'' ''h-6 w-5 flex-none text-gray-900 dark:text-white'' @ [Lit ''1 user'']),
                      El ''li'' [cls ''flex gap-x-3'']
                        (LucideIcon env ''check'' ''h-6 w-5 flex-none text-gray-900 dark:text-white'' @ [Lit ''1,000 API requests/month'']),
                      El ''li'' [cls ''flex gap-x-3'']
                        (LucideIcon env ''check'' ''h-6 w-5 flex-none text-gray-900 dark:text-white'' @ [Lit ''100MB storage'']),
                      El ''li'' [cls ''flex gap-x-3'']
                        (LucideIcon env ''check'' ''h-6 w-5 flex-none text-gray-900 dark:text-white'' @ [Lit ''Community support''])],
                   El ''a'' [At ''href'' ''/register'',
                             cls ''mt-8 block rounded-xl bg-gray-100 px-3 py-2 text-center text-sm font-semibold text-gray-900 hover:bg-gray-200 dark:bg-zinc-800 dark:text-white dark:hover:bg-zinc-700 transition-colors'']
                     [Lit ''Get Started Free'']],
                Mark ''-- Pro Plan --'',
                El ''div'' [cls ''relative rounded-2xl border border-gray-900 bg-gray-900 p-8 dark:border-white dark:bg-white'']
                  [El ''h3'' [cls ''text-lg font-semibold leading-8 text-white dark:text-gray-900''] [Lit ''Pro''],
                   El ''p'' [cls ''mt-4 text-sm leading-6 text-gray-300 dark:text-gray-600''] [Lit ''For growing teams''],
                   El ''p'' [cls ''mt-6 flex items-baseline gap-x-1'']
                     [El ''span'' [cls ''text-4xl font-bold tracking-tight text-white dark:text-gray-900''] [Lit ''$29''],
                      Lit '' '',
                      El ''span'' [cls ''text-sm font-semibold leading-6 text-gray-300 dark:text-gray-600''] [Lit ''/month'']],
                   El ''ul'' [At ''role'' ''list'', cls ''mt-8 space-y-3 text-sm leading-6 text-gray-300 dark:text-gray-600'']
                     [El ''li'' [cls ''flex gap-x-3'']
                        (LucideIcon env ''check'' ''h-6 w-5 flex-none text-white dark:text-gray-900'' @ [Lit ''Up to 10 users'']),
                      El ''li'' [cls ''flex gap-x-3'']
                        (LucideIcon env ''check'' ''h-6 w-5 flex-none text-white dark:text-gray-900'' @ [Lit ''100,000 API requests/month'']),
                      El ''li'' [cls ''flex gap-x-3'']
                        (LucideIcon env ''check'' ''h-6 w-5 flex-none text-white dark:text-gray-900'' @ [Lit ''10GB storage'']),
                      El ''li'' [cls ''flex gap-x-3'']
                        (LucideIcon env ''check'' ''h-6 w-5 flex-none text-white dark:text-gray-900'' @ [Lit ''Priority email support'']),
                      El ''li'' [cls ''flex gap-x-3'']
                        (LucideIcon env ''check'' ''h-6 w-5 flex-none text-white dark:text-gray-900'' @ [Lit ''Advanced analytics''])],
                   El ''a'' [At ''href'' ''/register?plan=pro'',
                             cls ''mt-8 block rounded-xl bg-white px-3 py-2 text-center text-sm font-semibold text-gray-900 hover:bg-gray-100 dark:bg-gray-900 dark:text-white dark:hover:bg-gray-800 transition-colors'']
                     [Lit ''Start Pro Trial'']],
                Mark ''-- Enterprise Plan --'',
                El ''div'' [cls ''relative rounded-2xl border border-gray-200 bg-white p-8 dark:border-gray-800 dark:bg-zinc-900'']
                  [El ''h3'' [cls ''text-lg font-semibold leading-8 text-gray-900 dark:text-white''] [Lit ''Enterprise''],
                   El ''p'' [cls ''mt-4 text-sm leading-6 text-gray-600 dark:text-gray-400''] [Lit ''For large organizations''],
                   El ''p'' [cls ''mt-6 flex items-baseline gap-x-1'']
                     [El ''span'' [cls ''text-4xl font-bold tracking-tight text-gray-900 dark:text-white''] [Lit ''Custom'']],
                   El ''ul'' [At ''role'' ''list'', cls ''mt-8 space-y-3 text-sm leading-6 text-gray-600 dark:text-gray-400'']
                     [El ''li'' [cls ''flex gap-x-3'']
                        (LucideIcon env ''check'' ''h-6 w-5 flex-none text-gray-900 dark:text-white'' @ [Lit ''Unlimited users'']),
                      El ''li'' [cls ''flex gap-x-3'']
                        (LucideIcon env ''check'' ''h-6 w-5 flex-none text-gray-900 dark:text-white'' @ [Lit ''Unlimited API requests'']),
                      El ''li'' [cls ''flex gap-x-3'']
                        (LucideIcon env ''check'' ''h-6 w-5 flex-none text-gray-900 dark:text-white'' @ [Lit ''Unlimited storage'']),
                      El ''li'' [cls ''flex gap-x-3'']
                        (LucideIcon env ''check'' ''h-6 w-5 flex-none text-gray-900 dark:text-white'' @ [Lit ''24/7 dedicated support'']),
                      El ''li'' [cls ''flex gap-x-3'']
                        (LucideIcon env ''check'' ''h-6 w-5 flex-none text-gray-900 dark:text-white'' @ [Lit ''Custom integrations''])],
                   El ''a'' [At ''href'' ''/contact'',
                             cls ''mt-8 block rounded-xl bg-gray-100 px-3 py-2 text-center text-sm font-semibold text-gray-900 hover:bg-gray-200 dark:bg-zinc-800 dark:text-white dark:hover:bg-zinc-700 transition-colors'']
                     [Lit ''Contact Sales'']]],
             Mark ''-- FAQ Section --'',
             El ''div'' [cls ''mt-24'']
               [El ''h2'' [cls ''text-2xl font-bold tracking-tight text-gray-900 dark:text-white text-center mb-12'']
                  [Lit ''Frequently Asked Questions''],
                El ''div'' [cls ''grid grid-cols-1 gap-8 md:grid-cols-2'']
                  [El ''div'' [cls ''rounded-xl border border-gray-200 p-6 dark:border-gray-800 dark:bg-zinc-900'']
                     [El ''h3'' [cls ''text-lg font-semibold text-gray-900 dark:text-white''] [Lit ''Can I change plans later?''],
                      El ''p'' [cls ''mt-2 text-gray-600 dark:text-gray-400'']
                        [Lit ''Yes, you can upgrade or downgrade your plan at any time. Changes take effect immediately.'']],
                   El ''div'' [cls ''rounded-xl border border-gray-200 p-6 dark:border-gray-800 dark:bg-zinc-900'']
                     [El ''h3'' [cls ''text-lg font-semibold text-gray-900 dark:text-white''] [Lit ''What payment methods do you accept?''],
                      El ''p'' [cls ''mt-2 text-gray-600 dark:text-gray-400'']
                        [Lit ''We accept all major credit cards, PayPal, and bank transfers for Enterprise plans.'']],
                   El ''div'' [cls ''rounded-xl border border-gray-200 p-6 dark:border-gray-800 dark:bg-zinc-900'']
                     [El ''h3'' [cls ''text-lg font-semibold text-gray-900 dark:text-white''] [Lit ''Is there a free trial?''],
                      El ''p'' [cls ''mt-2 text-gray-600 dark:text-gray-400'']
                        [Lit ''Yes! Pro plans include a 14-day free trial. No credit card required.'']],
                   El ''div'' [cls ''rounded-xl border border-gray-200 p-6 dark:border-gray-800 dark:bg-zinc-900'']
                     [El ''h3'' [cls ''text-lg font-semibold text-gray-900 dark:text-white''] [Lit ''What happens if I exceed my limits?''],
                      El ''p'' [cls ''mt-2 text-gray-600 dark:text-gray-400'']
                        [Lit (''We'' @ [CHR 0x27] @ ''ll notify you before hitting limits. You can upgrade or pay for overages.'')]]]]]]]\<close>

definition About_page :: "page_env \<Rightarrow> user option \<Rightarrow> html list" where
  \<open>About_page env user =
     Base_layout env ''About - GOTH Stack'' ''GOTH Stack'' user
     [El ''div'' [cls ''py-20'']
         [El ''div'' [cls ''mx-auto max-w-7xl px-4 sm:px-6 lg:px-8'']
            [Mark ''-- Hero --'',
             El ''div'' [cls ''text-center mb-16'']
               [El ''h1'' [cls ''text-4xl font-bold tracking-tight text-gray-900 dark:text-white sm:text-5xl''] [Lit ''About GOTH Stack''],
                El ''p'' [cls ''mt-4 text-xl text-gray-600 dark:text-gray-400''] [Lit ''Building the future of web development, one line at a time.'']],
             Mark ''-- Story Section --'',
             El ''div'' [cls ''grid grid-cols-1 lg:grid-cols-2 gap-12 items-center mb-20'']
               [El ''div'' []
                  [El ''h2'' [cls ''text-3xl font-bold text-gray-900 dark:text-white mb-6''] [Lit ''Our Story''],
                   El ''div'' [cls ''space-y-4 text-gray-600 dark:text-gray-400'']
                     [El ''p'' []
                        [Lit ''GOTH Stack was born from a simple observation: modern web development had become unnecessarily complex.  We believed there had to be a better way to build fast, secure, and beautiful web applications.''],
                      El ''p'' []
                        [Lit ''Founded in 2024, we set out to create a framework that combines the performance of Go with the simplicity  of HTMX and the beauty of TailwindCSS. Our mission is to empower developers to build amazing things  without getting bogged down in complexity.''],
                      El ''p'' []
                        [Lit ''Today, thousands of developers around the world use GOTH Stack to build everything from small hobby  projects to enterprise-grade applications.'']]],
                El ''div'' [cls ''relative'']
                  [El ''div'' [cls ''aspect-square rounded-3xl bg-gradient-to-br from-gray-900 to-gray-700 dark:from-white dark:to-gray-300 flex items-center justify-center'']
                     [El ''span'' [cls ''text-9xl font-bold text-white dark:text-gray-900''] [Lit ''G'']]]],
             Mark ''-- Values Section --'',
             El ''div'' [cls ''mb-20'']
               [El ''h2'' [cls ''text-3xl font-bold text-gray-900 dark:text-white text-center mb-12''] [Lit ''Our Values''],
                El ''div'' [cls ''grid grid-cols-1 md:grid-cols-3 gap-8'']
                  [El ''div'' [cls ''text-center p-6'']
                     [El ''div'' [cls ''inline-flex h-16 w-16 items-center justify-center rounded-full bg-gray-100 dark:bg-zinc-800 mb-4'']
                        (LucideIcon env ''zap'' ''h-8 w-8 text-gray-900 dark:text-white''),
                      El ''h3'' [cls ''text-xl font-semibold text-gray-900 dark:text-white mb-2''] [Lit ''Simplicity''],
                      El ''p'' [cls ''text-gray-600 dark:text-gray-400'']
                        [Lit (''We believe in elegant solutions that don'' @ [CHR 0x27] @ ''t require unnecessary complexity.'')]],
                   El ''div'' [cls ''text-center p-6'']
                     [El ''div'' [cls ''inline-flex h-16 w-16 items-center justify-center rounded-full bg-gray-100 dark:bg-zinc-800 mb-4'']
                        (LucideIcon env ''shield-check'' ''h-8 w-8 text-gray-900 dark:text-white''),
                      El ''h3'' [cls ''text-xl font-semibold text-gray-900 dark:text-white mb-2''] [Lit ''Security''],
                      El ''p'' [cls ''text-gray-600 dark:text-gray-400'']
                        [Lit (''Security isn'' @ [CHR 0x27] @ ''t an afterthought'' @ [CHR 0xE2, CHR 0x80, CHR 0x94] @ ''it'' @ [CHR 0x27] @ ''s built into everything we do.'')]],
                   El ''div'' [cls ''text-center p-6'']
                     [El ''div'' [cls ''inline-flex h-16 w-16 items-center justify-center rounded-full bg-gray-100 dark:bg-zinc-800 mb-4'']
                        (LucideIcon env ''users'' ''h-8 w-8 text-gray-900 dark:text-white''),
                      El ''h3'' [cls ''text-xl font-semibold text-gray-900 dark:text-white mb-2''] [Lit ''Community''],
                      El ''p'' [cls ''text-gray-600 dark:text-gray-400'']
                        [Lit (''We'' @ [CHR 0x27] @ ''re building more than code'' @ [CHR 0xE2, CHR 0x80, CHR 0x94] @ ''we'' @ [CHR 0x27] @ ''re fostering a community of makers.'')]]]],
             Mark ''-- Team Section --'',
             El ''div'' []
               [El ''h2'' [cls ''text-3xl font-bold text-gray-900 dark:text-white text-center mb-12''] [Lit ''Leadership''],
                El ''div'' [cls ''grid grid-cols-1 sm:grid-cols-2 lg:grid-cols-3 gap-8'']
                  [El ''div'' [cls ''text-center'']
                     [El ''div'' [cls ''mx-auto h-32 w-32 rounded-full bg-gray-200 dark:bg-zinc-700 mb-4 flex items-center justify-center'']
                        (LucideIcon env ''user'' ''h-16 w-16 text-gray-400''),
                      El ''h3'' [cls ''text-lg font-semibold text-gray-900 dark:text-white''] [Lit ''Paulo Hernane''],
                      El ''p'' [cls ''text-gray-600 dark:text-gray-400''] [Lit ''Founder & CEO'']],
                   El ''div'' [cls ''text-center'']
                     [El ''div'' [cls ''mx-auto h-32 w-32 rounded-full bg-gray-200 dark:bg-zinc-700 mb-4 flex items-center justify-center'']
                        (LucideIcon env ''user'' ''h-16 w-16 text-gray-400''),
                      El ''h3'' [cls ''text-lg font-semibold text-gray-900 dark:text-white''] [Lit ''Alex Developer''],
                      El ''p'' [cls ''text-gray-600 dark:text-gray-400''] [Lit ''CTO'']],
                   El ''div'' [cls ''text-center'']
                     [El ''div'' [cls ''mx-auto h-32 w-32 rounded-full bg-gray-200 dark:bg-zinc-700 mb-4 flex items-center justify-center'']
                        (LucideIcon env ''user'' ''h-16 w-16 text-gray-400''),
                      El ''h3'' [cls ''text-lg font-semibold text-gray-900 dark:text-white''] [Lit ''Sam Designer''],
                      El ''p'' [cls ''text-gray-600 dark:text-gray-400''] [Lit ''Head of Design'']]]]]]]\<close>

definition Contact_page :: "page_env \<Rightarrow> user option \<Rightarrow> html list" where
  \<open>Contact_page env user =
     Base_layout env ''Contact - GOTH Stack'' ''GOTH Stack'' user
     [El ''div'' [cls ''py-20'']
         [El ''div'' [cls ''mx-auto max-w-7xl px-4 sm:px-6 lg:px-8'']
            [Mark ''-- Header --'',
             El ''div'' [cls ''text-center mb-16'']
               [El ''h1'' [cls ''text-4xl font-bold tracking-tight text-gray-900 dark:text-white sm:text-5xl''] [Lit ''Get in Touch''],
                El ''p'' [cls ''mt-4 text-xl text-gray-600 dark:text-gray-400'']
                  [Lit (''Have questions? We'' @ [CHR 0x27] @ ''d love to hear from you.'')]],
             El ''div'' [cls ''grid grid-cols-1 lg:grid-cols-2 gap-12'']
               [Mark ''-- Contact Form --'',
                El ''div'' [cls ''bg-white dark:bg-zinc-900 rounded-2xl border border-gray-200 dark:border-gray-800 p-8'']
                  [El ''h2'' [cls ''text-2xl font-bold text-gray-900 dark:text-white mb-6''] [Lit ''Send us a message''],
                   El ''form'' [cls ''space-y-6'', At ''action'' ''/contact'', At ''method'' ''POST'']
                     [El ''div'' []
                        [El ''label'' [At ''for'' ''name'', cls ''block text-sm font-medium text-gray-700 dark:text-gray-300 mb-2''] [Lit ''Name''],
                         Lit '' '',
                         El ''input'' [At ''type'' ''text'', At ''id'' ''name'', At ''name'' ''name'', Af ''required'',
                                       cls ''block w-full rounded-xl border border-gray-200 bg-gray-50 px-4 py-3 text-gray-900 placeholder-gray-400 focus:border-gray-900 focus:bg-white focus:outline-none focus:ring-2 focus:ring-gray-900/20 dark:border-gray-700 dark:bg-zinc-800 dark:text-white dark:placeholder-gray-500 dark:focus:border-white dark:focus:ring-white/20 transition-all'',
                                       At ''placeholder'' ''Your name''] []],
                      El ''div'' []
                        [El ''label'' [At ''for'' ''email'', cls ''block text-sm font-medium text-gray-700 dark:text-gray-300 mb-2''] [Lit ''Email''],
                         Lit '' '',
                         El ''input'' [At ''type'' ''email'', At ''id'' ''email'', At ''name'' ''email'', Af ''required'',
                                       cls ''block w-full rounded-xl border border-gray-200 bg-gray-50 px-4 py-3 text-gray-900 placeholder-gray-400 focus:border-gray-900 focus:bg-white focus:outline-none focus:ring-2 focus:ring-gray-900/20 dark:border-gray-700 dark:bg-zinc-800 dark:text-white dark:placeholder-gray-500 dark:focus:border-white dark:focus:ring-white/20 transition-all'',
                                       At ''placeholder'' ''you@example.com''] []],
                      El ''div'' []
                        [El ''label'' [At ''for'' ''subject'', cls ''block text-sm font-medium text-gray-700 dark:text-gray-300 mb-2'']
                           [Lit ''Subject''],
                         Lit '' '',
                         El ''select'' [At ''id'' ''subject'', At ''name'' ''subject'',
                                        cls ''block w-full rounded-xl border border-gray-200 bg-gray-50 px-4 py-3 text-gray-900 focus:border-gray-900 focus:bg-white focus:outline-none focus:ring-2 focus:ring-gray-900/20 dark:border-gray-700 dark:bg-zinc-800 dark:text-white dark:focus:border-white dark:focus:ring-white/20 transition-all'']
                           [El ''option'' [At ''value'' ''general''] [Lit ''General Inquiry''],
                            Lit '' '',
                            El ''option'' [At ''value'' ''sales''] [Lit ''Sales Question''],
                            Lit '' '',
                            El ''option'' [At ''value'' ''support''] [Lit ''Technical Support''],
                            Lit '' '',
                            El ''option'' [At ''value'' ''partnership''] [Lit ''Partnership''],
                            Lit '' '',
                            El ''option'' [At ''value'' ''other''] [Lit ''Other'']]],
                      El ''div'' []
                        [El ''label'' [At ''for'' ''message'', cls ''block text-sm font-medium text-gray-700 dark:text-gray-300 mb-2'']
                           [Lit ''Message''],
                         Lit '' '',
                         El ''textarea'' [At ''id'' ''message'', At ''name'' ''message'', At ''rows'' ''5'', Af ''required'',
                                          cls ''block w-full rounded-xl border border-gray-200 bg-gray-50 px-4 py-3 text-gray-900 placeholder-gray-400 focus:border-gray-900 focus:bg-white focus:outline-none focus:ring-2 focus:ring-gray-900/20 dark:border-gray-700 dark:bg-zinc-800 dark:text-white dark:placeholder-gray-500 dark:focus:border-white dark:focus:ring-white/20 transition-all'',
                                          At ''placeholder'' ''How can we help you?''] []],
                      El ''button'' [At ''type'' ''submit'',
                                     cls ''w-full rounded-xl bg-gray-900 px-6 py-3 text-base font-semibold text-white hover:bg-gray-800 dark:bg-white dark:text-gray-900 dark:hover:bg-gray-100 transition-colors'']
                        [Lit ''Send Message'']]],
                Mark ''-- Contact Info --'',
                El ''div'' [cls ''space-y-8'']
                  [El ''div'' [cls ''bg-white dark:bg-zinc-900 rounded-2xl border border-gray-200 dark:border-gray-800 p-8'']
                     [El ''h2'' [cls ''text-2xl font-bold text-gray-900 dark:text-white mb-6''] [Lit ''Contact Information''],
                      El ''div'' [cls ''space-y-4'']
                        [El ''div'' [cls ''flex items-start gap-4'']
                           [El ''div'' [cls ''inline-flex h-10 w-10 items-center justify-center rounded-lg bg-gray-100 dark:bg-zinc-800'']
                              (LucideIcon env ''mail'' ''h-5 w-5 text-gray-900 dark:text-white''),
                            El ''div'' []
                              [El ''h3'' [cls ''font-semibold text-gray-900 dark:text-white''] [Lit ''Email''],
                               El ''p'' [cls ''text-gray-600 dark:text-gray-400''] [Lit ''hello@gothstack.dev'']]],
                         El ''div'' [cls ''flex items-start gap-4'']
                           [El ''div'' [cls ''inline-flex h-10 w-10 items-center justify-center rounded-lg bg-gray-100 dark:bg-zinc-800'']
                              (LucideIcon env ''map-pin'' ''h-5 w-5 text-gray-900 dark:text-white''),
                            El ''div'' []
                              [El ''h3'' [cls ''font-semibold text-gray-900 dark:text-white''] [Lit ''Location''],
                               El ''p'' [cls ''text-gray-600 dark:text-gray-400''] [Lit ''Remote-first, operating globally'']]],
                         El ''div'' [cls ''flex items-start gap-4'']
                           [El ''div'' [cls ''inline-flex h-10 w-10 items-center justify-center rounded-lg bg-gray-100 dark:bg-zinc-800'']
                              (LucideIcon env ''clock'' ''h-5 w-5 text-gray-900 dark:text-white''),
                            El ''div'' []
                              [El ''h3'' [cls ''font-semibold text-gray-900 dark:text-white''] [Lit ''Business Hours''],
                               El ''p'' [cls ''text-gray-600 dark:text-gray-400''] [Lit ''Monday - Friday, 9am - 6pm (UTC)'']]]]],
                   El ''div'' [cls ''bg-white dark:bg-zinc-900 rounded-2xl border border-gray-200 dark:border-gray-800 p-8'']
                     [El ''h2'' [cls ''text-2xl font-bold text-gray-900 dark:text-white mb-6''] [Lit ''Follow Us''],
                      El ''div'' [cls ''flex gap-4'']
                        [El ''a'' [At ''href'' ''#'',
                                   cls ''inline-flex h-12 w-12 items-center justify-center rounded-lg bg-gray-100 hover:bg-gray-200 dark:bg-zinc-800 dark:hover:bg-zinc-700 transition-colors'']
                           (LucideIcon env ''twitter'' ''h-5 w-5 text-gray-900 dark:text-white''),
                         Lit '' '',
                         El ''a'' [At ''href'' ''#'',
                                   cls ''inline-flex h-12 w-12 items-center justify-center rounded-lg bg-gray-100 hover:bg-gray-200 dark:bg-zinc-800 dark:hover:bg-zinc-700 transition-colors'']
                           (LucideIcon env ''github'' ''h-5 w-5 text-gray-900 dark:text-white''),
                         Lit '' '',
                         El ''a'' [At ''href'' ''#'',
                                   cls ''inline-flex h-12 w-12 items-center justify-center rounded-lg bg-gray-100 hover:bg-gray-200 dark:bg-zinc-800 dark:hover:bg-zinc-700 transition-colors'']
                           (LucideIcon env ''linkedin'' ''h-5 w-5 text-gray-900 dark:text-white'')]]]]]]]\<close>

definition Terms_page :: "page_env \<Rightarrow> user option \<Rightarrow> html list" where
  \<open>Terms_page env user =
     Base_layout env ''Terms of Service - GOTH Stack'' ''GOTH Stack'' user
     [El ''div'' [cls ''py-20'']
         [El ''div'' [cls ''mx-auto max-w-3xl px-4 sm:px-6 lg:px-8'']
            [El ''h1'' [cls ''text-4xl font-bold tracking-tight text-gray-900 dark:text-white mb-8''] [Lit ''Terms of Service''],
             El ''div'' [cls ''prose prose-lg dark:prose-invert'']
               [El ''p'' [cls ''text-gray-600 dark:text-gray-400''] [Lit ''Last updated: March 2026''],
                El ''h2'' [cls ''text-2xl font-bold text-gray-900 dark:text-white mt-8 mb-4''] [Lit ''1. Acceptance of Terms''],
                El ''p'' [cls ''text-gray-600 dark:text-gray-400'']
                  [Lit ''By accessing and using GOTH Stack, you accept and agree to be bound by the terms and provision of this agreement.''],
                El ''h2'' [cls ''text-2xl font-bold text-gray-900 dark:text-white mt-8 mb-4''] [Lit ''2. Description of Service''],
                El ''p'' [cls ''text-gray-600 dark:text-gray-400'']
                  [Lit ''GOTH Stack provides a web development framework and platform for building modern web applications.  We reserve the right to modify or discontinue the service at any time.''],
                El ''h2'' [cls ''text-2xl font-bold text-gray-900 dark:text-white mt-8 mb-4''] [Lit ''3. User Accounts''],
                El ''p'' [cls ''text-gray-600 dark:text-gray-400'']
                  [Lit ''You are responsible for maintaining the confidentiality of your account and password.  You agree to accept responsibility for all activities that occur under your account.''],
                El ''h2'' [cls ''text-2xl font-bold text-gray-900 dark:text-white mt-8 mb-4''] [Lit ''4. User Conduct''],
                El ''p'' [cls ''text-gray-600 dark:text-gray-400''] [Lit ''You agree not to use the service to:''],
                El ''ul'' [cls ''list-disc pl-6 text-gray-600 dark:text-gray-400 space-y-2'']
                  [El ''li'' [] [Lit ''Upload or transmit any material that is unlawful, harmful, or offensive''],
                   El ''li'' [] [Lit ''Interfere with or disrupt the service or servers''],
                   El ''li'' [] [Lit ''Attempt to gain unauthorized access to any part of the service''],
                   El ''li'' [] [Lit ''Violate any applicable laws or regulations'']],
                El ''h2'' [cls ''text-2xl font-bold text-gray-900 dark:text-white mt-8 mb-4''] [Lit ''5. Intellectual Property''],
                El ''p'' [cls ''text-gray-600 dark:text-gray-400'']
                  [Lit ''The GOTH Stack platform and its original content, features, and functionality are owned by us and are protected by international copyright, trademark, and other intellectual property laws.''],
                El ''h2'' [cls ''text-2xl font-bold text-gray-900 dark:text-white mt-8 mb-4''] [Lit ''6. Limitation of Liability''],
                El ''p'' [cls ''text-gray-600 dark:text-gray-400'']
                  [Lit ''In no event shall GOTH Stack be liable for any indirect, incidental, special, consequential, or punitive damages, including without limitation, loss of profits, data, use, goodwill, or other intangible losses.''],
                El ''h2'' [cls ''text-2xl font-bold text-gray-900 dark:text-white mt-8 mb-4''] [Lit ''7. Termination''],
                El ''p'' [cls ''text-gray-600 dark:text-gray-400'']
                  [Lit ''We may terminate or suspend your account immediately, without prior notice or liability, for any reason, including breach of these Terms.''],
                El ''h2'' [cls ''text-2xl font-bold text-gray-900 dark:text-white mt-8 mb-4''] [Lit ''8. Changes to Terms''],
                El ''p'' [cls ''text-gray-600 dark:text-gray-400'']
                  [Lit ''We reserve the right to modify these terms at any time. Your continued use of the service after any changes indicates your acceptance of the new terms.''],
                El ''h2'' [cls ''text-2xl font-bold text-gray-900 dark:text-white mt-8 mb-4''] [Lit ''9. Contact Us''],
                El ''p'' [cls ''text-gray-600 dark:text-gray-400'']
                  [Lit ''If you have any questions about these Terms, please contact us at legal@gothstack.dev.'']]]]]\<close>

definition Privacy_page :: "page_env \<Rightarrow> user option \<Rightarrow> html list" where
  \<open>Privacy_page env user =
     Base_layout env ''Privacy Policy - GOTH Stack'' ''GOTH Stack'' user
     [El ''div'' [cls ''py-20'']
         [El ''div'' [cls ''mx-auto max-w-3xl px-4 sm:px-6 lg:px-8'']
            [El ''h1'' [cls ''text-4xl font-bold tracking-tight text-gray-900 dark:text-white mb-8''] [Lit ''Privacy Policy''],
             El ''div'' [cls ''prose prose-lg dark:prose-invert'']
               [El ''p'' [cls ''text-gray-600 dark:text-gray-400''] [Lit ''Last updated: March 2026''],
                El ''h2'' [cls ''text-2xl font-bold text-gray-900 dark:text-white mt-8 mb-4''] [Lit ''1. Introduction''],
                El ''p'' [cls ''text-gray-600 dark:text-gray-400'']
                  [Lit ''At GOTH Stack, we take your privacy seriously. This Privacy Policy explains how we collect, use, disclose, and safeguard your information when you use our platform.''],
                El ''h2'' [cls ''text-2xl font-bold text-gray-900 dark:text-white mt-8 mb-4''] [Lit ''2. Information We Collect''],
                El ''p'' [cls ''text-gray-600 dark:text-gray-400'']
                  [Lit ''We may collect personal information that you voluntarily provide to us when you register on the platform, express interest in obtaining information about us or our products and services, or otherwise contact us.''],
                El ''ul'' [cls ''list-disc pl-6 text-gray-600 dark:text-gray-400 space-y-2 mt-4'']
                  [El ''li'' [] [Lit ''Name and contact data''],
                   El ''li'' [] [Lit ''Account credentials''],
                   El ''li'' [] [Lit ''Usage data and analytics''],
                   El ''li'' [] [Lit ''Communication preferences'']],
                El ''h2'' [cls ''text-2xl font-bold text-gray-900 dark:text-white mt-8 mb-4''] [Lit ''3. How We Use Your Information''],
                El ''p'' [cls ''text-gray-600 dark:text-gray-400''] [Lit ''We use the information we collect to:''],
                El ''ul'' [cls ''list-disc pl-6 text-gray-600 dark:text-gray-400 space-y-2 mt-4'']
                  [El ''li'' [] [Lit ''Provide and maintain our services''],
                   El ''li'' [] [Lit ''Improve and personalize your experience''],
                   El ''li'' [] [Lit ''Communicate with you about updates and support''],
                   El ''li'' [] [Lit ''Comply with legal obligations'']],
                El ''h2'' [cls ''text-2xl font-bold text-gray-900 dark:text-white mt-8 mb-4''] [Lit ''4. Data Sharing and Disclosure''],
                El ''p'' [cls ''text-gray-600 dark:text-gray-400'']
                  [Lit ''We do not sell your personal information. We may share your information with service providers who assist us in operating our platform, conducting our business, or servicing you.''],
                El ''h2'' [cls ''text-2xl font-bold text-gray-900 dark:text-white mt-8 mb-4''] [Lit ''5. Data Security''],
                El ''p'' [cls ''text-gray-600 dark:text-gray-400'']
                  [Lit ''We implement appropriate technical and organizational security measures to protect your personal information against unauthorized access, alteration, disclosure, or destruction.''],
                El ''h2'' [cls ''text-2xl font-bold text-gray-900 dark:text-white mt-8 mb-4''] [Lit ''6. Your Rights''],
                El ''p'' [cls ''text-gray-600 dark:text-gray-400'']
                  [Lit ''You have the right to access, correct, or delete your personal information. You may also opt out of certain data collection or processing activities.''],
                El ''h2'' [cls ''text-2xl font-bold text-gray-900 dark:text-white mt-8 mb-4''] [Lit ''7. Cookies and Tracking''],
                El ''p'' [cls ''text-gray-600 dark:text-gray-400'']
                  [Lit ''We use cookies and similar tracking technologies to track activity on our platform and hold certain information. You can instruct your browser to refuse all cookies.''],
                El ''h2'' [cls ''text-2xl font-bold text-gray-900 dark:text-white mt-8 mb-4''] [Lit (''8. Children'' @ [CHR 0x27] @ ''s Privacy'')],
                El ''p'' [cls ''text-gray-600 dark:text-gray-400'']
                  [Lit ''Our service is not intended for use by children under the age of 13. We do not knowingly collect personal information from children under 13.''],
                El ''h2'' [cls ''text-2xl font-bold text-gray-900 dark:text-white mt-8 mb-4''] [Lit ''9. Changes to This Policy''],
                El ''p'' [cls ''text-gray-600 dark:text-gray-400'']
                  [Lit ''We may update our Privacy Policy from time to time. We will notify you of any changes by posting the new Privacy Policy on this page.''],
                El ''h2'' [cls ''text-2xl font-bold text-gray-900 dark:text-white mt-8 mb-4''] [Lit ''10. Contact Us''],
                El ''p'' [cls ''text-gray-600 dark:text-gray-400'']
                  [Lit ''If you have any questions about this Privacy Policy, please contact us at privacy@gothstack.dev.'']]]]]\<close>

definition Error404_page :: "page_env \<Rightarrow> user option \<Rightarrow> html list" where
  \<open>Error404_page env user =
     Base_layout env (''P'' @ [CHR 0xC3, CHR 0xA1] @ ''gina N'' @ [CHR 0xC3, CHR 0xA3] @ ''o Encontrada - GOTH Stack'') ''GOTH Stack'' user
     [El ''div'' [cls ''flex min-h-[calc(100vh-16rem)] items-center justify-center py-12'']
         [El ''div'' [cls ''text-center'']
            [El ''h1'' [cls ''text-9xl font-bold text-gray-900 dark:text-white''] [Lit ''404''],
             El ''p'' [cls ''mt-4 text-2xl font-semibold text-gray-600 dark:text-gray-400'']
               [Lit (''P'' @ [CHR 0xC3, CHR 0xA1] @ ''gina n'' @ [CHR 0xC3, CHR 0xA3] @ ''o encontrada'')],
             El ''p'' [cls ''mt-2 text-gray-600 dark:text-gray-400'']
               [Lit (''A p'' @ [CHR 0xC3, CHR 0xA1] @ ''gina que voc'' @ [CHR 0xC3, CHR 0xAA] @ '' est'' @ [CHR 0xC3, CHR 0xA1] @ '' procurando n'' @ [CHR 0xC3, CHR 0xA3] @ ''o existe ou foi movida.'')],
             El ''div'' [cls ''mt-8'']
               [El ''a'' [At ''href'' ''/'',
                          cls ''inline-flex items-center rounded-xl bg-gray-900 px-6 py-3 text-base font-semibold text-white hover:bg-gray-800 dark:bg-white dark:text-gray-900 dark:hover:bg-gray-100 transition-colors'']
                  [Lit ''Voltar para Home'']]]]]\<close>

definition Error500_page :: "page_env \<Rightarrow> user option \<Rightarrow> html list" where
  \<open>Error500_page env user =
     Base_layout env ''Erro Interno - GOTH Stack'' ''GOTH Stack'' user
     [El ''div'' [cls ''flex min-h-[calc(100vh-16rem)] items-center justify-center py-12'']
         [El ''div'' [cls ''text-center'']
            [El ''h1'' [cls ''text-9xl font-bold text-gray-900 dark:text-white''] [Lit ''500''],
             El ''p'' [cls ''mt-4 text-2xl font-semibold text-gray-600 dark:text-gray-400''] [Lit ''Erro Interno do Servidor''],
             El ''p'' [cls ''mt-2 text-gray-600 dark:text-gray-400''] [Lit ''Algo deu errado nos nossos servidores. Tente novamente mais tarde.''],
             El ''div'' [cls ''mt-8'']
               [El ''a'' [At ''href'' ''/'',
                          cls ''inline-flex items-center rounded-xl bg-gray-900 px-6 py-3 text-base font-semibold text-white hover:bg-gray-800 dark:bg-white dark:text-gray-900 dark:hover:bg-gray-100 transition-colors'']
                  [Lit ''Voltar para Home'']]]]]\<close>

definition Admin_page :: "page_env \<Rightarrow> user option \<Rightarrow> html list" where
  \<open>Admin_page env user =
     Base_layout env ''Admin Dashboard - GOTH Stack'' ''GOTH Stack'' user
     [El ''div'' [cls ''py-8'']
         [El ''div'' [cls ''mx-auto max-w-7xl px-4 sm:px-6 lg:px-8'']
            [Mark ''-- Header --'',
             El ''div'' [cls ''mb-8'']
               [El ''h1'' [cls ''text-3xl font-bold text-gray-900 dark:text-white''] [Lit ''Admin Dashboard''],
                El ''p'' [cls ''mt-2 text-gray-600 dark:text-gray-400''] [Lit ''System overview and monitoring'']],
             Mark ''-- Stats Grid --'',
             El ''div'' [cls ''grid grid-cols-1 gap-6 sm:grid-cols-2 lg:grid-cols-4 mb-8'']
               [El ''div'' [cls ''bg-white dark:bg-zinc-900 rounded-xl border border-gray-200 dark:border-gray-800 p-6'']
                  [El ''div'' [cls ''flex items-center'']
                     [El ''div'' [cls ''inline-flex h-12 w-12 items-center justify-center rounded-lg bg-blue-100 dark:bg-blue-900/30'']
                        (LucideIcon env ''users'' ''h-6 w-6 text-blue-600 dark:text-blue-400''),
                      El ''div'' [cls ''ml-4'']
                        [El ''p'' [cls ''text-sm font-medium text-gray-500 dark:text-gray-400''] [Lit ''Total Users''],
                         El ''p'' [cls ''text-2xl font-semibold text-gray-900 dark:text-white'', At ''id'' ''total-users''] [Lit ''--'']]]],
                El ''div'' [cls ''bg-white dark:bg-zinc-900 rounded-xl border border-gray-200 dark:border-gray-800 p-6'']
                  [El ''div'' [cls ''flex items-center'']
                     [El ''div'' [cls ''inline-flex h-12 w-12 items-center justify-center rounded-lg bg-green-100 dark:bg-green-900/30'']
                        (LucideIcon env ''check-circle'' ''h-6 w-6 text-green-600 dark:text-green-400''),
                      El ''div'' [cls ''ml-4'']
                        [El ''p'' [cls ''text-sm font-medium text-gray-500 dark:text-gray-400''] [Lit ''Active Sessions''],
                         El ''p'' [cls ''text-2xl font-semibold text-gray-900 dark:text-white'', At ''id'' ''active-sessions''] [Lit ''--'']]]],
                El ''div'' [cls ''bg-white dark:bg-zinc-900 rounded-xl border border-gray-200 dark:border-gray-800 p-6'']
                  [El ''div'' [cls ''flex items-center'']
                     [El ''div'' [cls ''inline-flex h-12 w-12 items-center justify-center rounded-lg bg-yellow-100 dark:bg-yellow-900/30'']
                        (LucideIcon env ''clock'' ''h-6 w-6 text-yellow-600 dark:text-yellow-400''),
                      El ''div'' [cls ''ml-4'']
                        [El ''p'' [cls ''text-sm font-medium text-gray-500 dark:text-gray-400''] [Lit ''Pending Jobs''],
                         El ''p'' [cls ''text-2xl font-semibold text-gray-900 dark:text-white'', At ''id'' ''pending-jobs''] [Lit ''--'']]]],
                El ''div'' [cls ''bg-white dark:bg-zinc-900 rounded-xl border border-gray-200 dark:border-gray-800 p-6'']
                  [El ''div'' [cls ''flex items-center'']
                     [El ''div'' [cls ''inline-flex h-12 w-12 items-center justify-center rounded-lg bg-red-100 dark:bg-red-900/30'']
                        (LucideIcon env ''alert-triangle'' ''h-6 w-6 text-red-600 dark:text-red-400''),
                      El ''div'' [cls ''ml-4'']
                        [El ''p'' [cls ''text-sm font-medium text-gray-500 dark:text-gray-400''] [Lit ''DLQ Jobs''],
                         El ''p'' [cls ''text-2xl font-semibold text-gray-900 dark:text-white'', At ''id'' ''dlq-jobs''] [Lit ''--'']]]]],
             Mark ''-- Quick Links --'',
             El ''div'' [cls ''grid grid-cols-1 gap-6 lg:grid-cols-2'']
               [El ''div'' [cls ''bg-white dark:bg-zinc-900 rounded-xl border border-gray-200 dark:border-gray-800 p-6'']
                  [El ''h2'' [cls ''text-lg font-semibold text-gray-900 dark:text-white mb-4''] [Lit ''Quick Actions''],
                   El ''div'' [cls ''space-y-3'']
                     [El ''a'' [At ''href'' ''/admin/users'',
                                cls ''flex items-center justify-between p-3 rounded-lg border border-gray-200 dark:border-gray-700 hover:bg-gray-50 dark:hover:bg-zinc-800 transition-colors'']
                        ([El ''span'' [cls ''text-gray-700 dark:text-gray-300''] [Lit ''Manage Users'']] @
                        LucideIcon env ''chevron-right'' ''h-5 w-5 text-gray-400''),
                      Lit '' '',
                      El ''a'' [At ''href'' ''/admin/dlq'',
                                cls ''flex items-center justify-between p-3 rounded-lg border border-gray-200 dark:border-gray-700 hover:bg-gray-50 dark:hover:bg-zinc-800 transition-colors'']
                        ([El ''span'' [cls ''text-gray-700 dark:text-gray-300''] [Lit ''Dead Letter Queue'']] @
                        LucideIcon env ''chevron-right'' ''h-5 w-5 text-gray-400''),
                      Lit '' '',
                      El ''a'' [At ''href'' ''/admin/workers'',
                                cls ''flex items-center justify-between p-3 rounded-lg border border-gray-200 dark:border-gray-700 hover:bg-gray-50 dark:hover:bg-zinc-800 transition-colors'']
                        ([El ''span'' [cls ''text-gray-700 dark:text-gray-300''] [Lit ''Worker Status'']] @
                        LucideIcon env ''chevron-right'' ''h-5 w-5 text-gray-400'')]],
                El ''div'' [cls ''bg-white dark:bg-zinc-900 rounded-xl border border-gray-200 dark:border-gray-800 p-6'']
                  [El ''h2'' [cls ''text-lg font-semibold text-gray-900 dark:text-white mb-4''] [Lit ''System Health''],
                   El ''div'' [cls ''space-y-4'', At ''id'' ''system-health'']
                     [El ''div'' [cls ''flex items-center justify-between'']
                        [El ''span'' [cls ''text-gray-700 dark:text-gray-300''] [Lit ''Database''],
                         Lit '' '',
                         El ''span'' [cls ''inline-flex items-center px-2.5 py-0.5 rounded-full text-xs font-medium bg-green-100 text-green-800 dark:bg-green-900/30 dark:text-green-400'']
                           [Lit ''Checking...'']],
                      El ''div'' [cls ''flex items-center justify-between'']
                        [El ''span'' [cls ''text-gray-700 dark:text-gray-300''] [Lit ''Cache''],
                         Lit '' '',
                         El ''span'' [cls ''inline-flex items-center px-2.5 py-0.5 rounded-full text-xs font-medium bg-green-100 text-green-800 dark:bg-green-900/30 dark:text-green-400'']
                           [Lit ''Checking...'']],
                      El ''div'' [cls ''flex items-center justify-between'']
                        [El ''span'' [cls ''text-gray-700 dark:text-gray-300''] [Lit ''Job Queue''],
                         Lit '' '',
                         El ''span'' [cls ''inline-flex items-center px-2.5 py-0.5 rounded-full text-xs font-medium bg-green-100 text-green-800 dark:bg-green-900/30 dark:text-green-400'']
                           [Lit ''Checking...'']]]]]]]]\<close>

definition AdminUsers_page :: "page_env \<Rightarrow> user option \<Rightarrow> html list" where
  \<open>AdminUsers_page env user =
     Base_layout env ''Manage Users - Admin - GOTH Stack'' ''GOTH Stack'' user
     [El ''div'' [cls ''py-8'']
         [El ''div'' [cls ''mx-auto max-w-7xl px-4 sm:px-6 lg:px-8'']
            [Mark ''-- Header --'',
             El ''div'' [cls ''mb-8 flex items-center justify-between'']
               [El ''div'' []
                  [El ''h1'' [cls ''text-3xl font-bold text-gray-900 dark:text-white''] [Lit ''Manage Users''],
                   El ''p'' [cls ''mt-2 text-gray-600 dark:text-gray-400''] [Lit ''View, edit, and manage user accounts'']],
                El ''button'' [At ''type'' ''button'',
                               cls ''inline-flex items-center rounded-xl bg-gray-900 px-4 py-2 text-sm font-semibold text-white hover:bg-gray-800 dark:bg-white dark:text-gray-900 dark:hover:bg-gray-100 transition-colors'']
                  (LucideIcon env ''plus'' ''mr-2 h-4 w-4'' @ [Lit ''Add User''])],
             Mark ''-- Filters --'',
             El ''div'' [cls ''mb-6 flex flex-wrap gap-4'']
               [El ''div'' [cls ''flex-1 min-w-[200px]'']
                  [El ''input'' [At ''type'' ''text'', At ''placeholder'' ''Search users...'',
                                 cls ''w-full rounded-xl border border-gray-200 bg-gray-50 px-4 py-2 text-gray-900 placeholder-gray-400 focus:border-gray-900 focus:bg-white focus:outline-none focus:ring-2 focus:ring-gray-900/20 dark:border-gray-700 dark:bg-zinc-800 dark:text-white dark:placeholder-gray-500 dark:focus:border-white dark:focus:ring-white/20'']
                     []],
                El ''select'' [cls ''rounded-xl border border-gray-200 bg-gray-50 px-4 py-2 text-gray-900 focus:border-gray-900 focus:bg-white focus:outline-none focus:ring-2 focus:ring-gray-900/20 dark:border-gray-700 dark:bg-zinc-800 dark:text-white dark:focus:border-white dark:focus:ring-white/20'']
                  [El ''option'' [At ''value'' ''''] [Lit ''All Roles''],
                   Lit '' '',
                   El ''option'' [At ''value'' ''admin''] [Lit ''Admin''],
                   Lit '' '',
                   El ''option'' [At ''value'' ''user''] [Lit ''User'']],
                Lit '' '',
                El ''select'' [cls ''rounded-xl border border-gray-200 bg-gray-50 px-4 py-2 text-gray-900 focus:border-gray-900 focus:bg-white focus:outline-none focus:ring-2 focus:ring-gray-900/20 dark:border-gray-700 dark:bg-zinc-800 dark:text-white dark:focus:border-white dark:focus:ring-white/20'']
                  [El ''option'' [At ''value'' ''''] [Lit ''All Status''],
                   Lit '' '',
                   El ''option'' [At ''value'' ''active''] [Lit ''Active''],
                   Lit '' '',
                   El ''option'' [At ''value'' ''inactive''] [Lit ''Inactive''],
                   Lit '' '',
                   El ''option'' [At ''value'' ''pending''] [Lit ''Pending'']]],
             Mark ''-- Users Table --'',
             El ''div'' [cls ''bg-white dark:bg-zinc-900 rounded-xl border border-gray-200 dark:border-gray-800 overflow-hidden'']
               [El ''div'' [cls ''overflow-x-auto'']
                  [El ''table'' [cls ''w-full'']
                     [El ''thead'' [cls ''bg-gray-50 dark:bg-zinc-800'']
                        [El ''tr'' []
                           [El ''th'' [cls ''px-6 py-3 text-left text-xs font-medium text-gray-500 dark:text-gray-400 uppercase tracking-wider'']
                              [Lit ''User''],
                            El ''th'' [cls ''px-6 py-3 text-left text-xs font-medium text-gray-500 dark:text-gray-400 uppercase tracking-wider'']
                              [Lit ''Email''],
                            El ''th'' [cls ''px-6 py-3 text-left text-xs font-medium text-gray-500 dark:text-gray-400 uppercase tracking-wider'']
                              [Lit ''Role''],
                            El ''th'' [cls ''px-6 py-3 text-left text-xs font-medium text-gray-500 dark:text-gray-400 uppercase tracking-wider'']
                              [Lit ''Status''],
                            El ''th'' [cls ''px-6 py-3 text-left text-xs font-medium text-gray-500 dark:text-gray-400 uppercase tracking-wider'']
                              [Lit ''Created''],
                            El ''th'' [cls ''px-6 py-3 text-right text-xs font-medium text-gray-500 dark:text-gray-400 uppercase tracking-wider'']
                              [Lit ''Actions'']]],
                      Lit '' '',
                      El ''tbody'' [cls ''divide-y divide-gray-200 dark:divide-gray-800'']
                        [El ''tr'' [cls ''hover:bg-gray-50 dark:hover:bg-zinc-800/50'']
                           [El ''td'' [cls ''px-6 py-4 whitespace-nowrap'']
                              [El ''div'' [cls ''flex items-center'']
                                 [El ''div'' [cls ''h-10 w-10 rounded-full bg-gray-200 dark:bg-zinc-700 flex items-center justify-center'']
                                    [El ''span'' [cls ''text-sm font-medium text-gray-600 dark:text-gray-300''] [Lit ''PH'']],
                                  El ''div'' [cls ''ml-4'']
                                    [El ''div'' [cls ''text-sm font-medium text-gray-900 dark:text-white''] [Lit ''Paulo Hernane'']]]],
                            El ''td'' [cls ''px-6 py-4 whitespace-nowrap text-sm text-gray-600 dark:text-gray-400''] [Lit ''paulo@example.com''],
                            El ''td'' [cls ''px-6 py-4 whitespace-nowrap'']
                              [El ''span'' [cls ''inline-flex items-center px-2.5 py-0.5 rounded-full text-xs font-medium bg-purple-100 text-purple-800 dark:bg-purple-900/30 dark:text-purple-400'']
                                 [Lit ''Admin'']],
                            El ''td'' [cls ''px-6 py-4 whitespace-nowrap'']
                              [El ''span'' [cls ''inline-flex items-center px-2.5 py-0.5 rounded-full text-xs font-medium bg-green-100 text-green-800 dark:bg-green-900/30 dark:text-green-400'']
                                 [Lit ''Active'']],
                            El ''td'' [cls ''px-6 py-4 whitespace-nowrap text-sm text-gray-600 dark:text-gray-400''] [Lit ''Jan 15, 2024''],
                            El ''td'' [cls ''px-6 py-4 whitespace-nowrap text-right text-sm font-medium'']
                              [El ''button'' [cls ''text-gray-400 hover:text-gray-600 dark:hover:text-gray-300 mr-3''] [Lit ''Edit''],
                               Lit '' '',
                               El ''button'' [cls ''text-red-400 hover:text-red-600''] [Lit ''Delete'']]],
                         El ''tr'' [cls ''hover:bg-gray-50 dark:hover:bg-zinc-800/50'']
                           [El ''td'' [cls ''px-6 py-4 whitespace-nowrap'']
                              [El ''div'' [cls ''flex items-center'']
                                 [El ''div'' [cls ''h-10 w-10 rounded-full bg-gray-200 dark:bg-zinc-700 flex items-center justify-center'']
                                    [El ''span'' [cls ''text-sm font-medium text-gray-600 dark:text-gray-300''] [Lit ''JD'']],
                                  El ''div'' [cls ''ml-4'']
                                    [El ''div'' [cls ''text-sm font-medium text-gray-900 dark:text-white''] [Lit ''John Doe'']]]],
                            El ''td'' [cls ''px-6 py-4 whitespace-nowrap text-sm text-gray-600 dark:text-gray-400''] [Lit ''john@example.com''],
                            El ''td'' [cls ''px-6 py-4 whitespace-nowrap'']
                              [El ''span'' [cls ''inline-flex items-center px-2.5 py-0.5 rounded-full text-xs font-medium bg-gray-100 text-gray-800 dark:bg-gray-700 dark:text-gray-300'']
                                 [Lit ''User'']],
                            El ''td'' [cls ''px-6 py-4 whitespace-nowrap'']
                              [El ''span'' [cls ''inline-flex items-center px-2.5 py-0.5 rounded-full text-xs font-medium bg-green-100 text-green-800 dark:bg-green-900/30 dark:text-green-400'']
                                 [Lit ''Active'']],
                            El ''td'' [cls ''px-6 py-4 whitespace-nowrap text-sm text-gray-600 dark:text-gray-400''] [Lit ''Feb 20, 2024''],
                            El ''td'' [cls ''px-6 py-4 whitespace-nowrap text-right text-sm font-medium'']
                              [El ''button'' [cls ''text-gray-400 hover:text-gray-600 dark:hover:text-gray-300 mr-3''] [Lit ''Edit''],
                               Lit '' '',
                               El ''button'' [cls ''text-red-400 hover:text-red-600''] [Lit ''Delete'']]]]]],
                Mark ''-- Pagination --'',
                El ''div'' [cls ''flex items-center justify-between border-t border-gray-200 dark:border-gray-800 px-6 py-4'']
                  [El ''div'' [cls ''text-sm text-gray-600 dark:text-gray-400'']
                     [Lit ''Showing '',
                      El ''span'' [cls ''font-medium''] [Lit ''1''],
                      Lit '' to '',
                      El ''span'' [cls ''font-medium''] [Lit ''10''],
                      Lit '' of '',
                      El ''span'' [cls ''font-medium''] [Lit ''25''],
                      Lit '' results''],
                   El ''div'' [cls ''flex gap-2'']
                     [El ''button'' [cls ''rounded-lg border border-gray-200 dark:border-gray-700 px-3 py-1.5 text-sm text-gray-600 dark:text-gray-400 hover:bg-gray-50 dark:hover:bg-zinc-800 disabled:opacity-50'',
                                     Af ''disabled''] [Lit ''Previous''],
                      Lit '' '',
                      El ''button'' [cls ''rounded-lg border border-gray-200 dark:border-gray-700 px-3 py-1.5 text-sm text-gray-600 dark:text-gray-400 hover:bg-gray-50 dark:hover:bg-zinc-800'']
                        [Lit ''Next'']]]]]]]\<close>

end
