(* ===== verification/Page_Checks.thy ===== *)
theory Page_Checks
  imports Public_Pages Site_Pages
begin

text \<open>
  What holds of the pages: their markup is well formed, so data stays text (\<open>page_data_stays_text\<close>), and which of their forms the
  pipeline lets through. \<open>page_html\<close> is what the handlers give the templates.
\<close>

section \<open>Well-formed templates\<close>

abbreviation (input) wfs :: "html list \<Rightarrow> bool" where
  "wfs hs \<equiv> list_all wf_html hs"

lemma wfs_if: "wfs (if c then a else b) \<longleftrightarrow> (c \<longrightarrow> wfs a) \<and> (\<not> c \<longrightarrow> wfs b)"
  by simp

lemma wfs_concat: "wfs (concat (map f xs)) \<longleftrightarrow> list_all (\<lambda>x. wfs (f x)) xs"
  by (induction xs) simp_all

lemma wfs_component: "wfs (component c) \<longleftrightarrow> (case c of None \<Rightarrow> True | Some h \<Rightarrow> wfs h)"
  by (simp add: component_def split: option.splits)

lemma list_all_True: "list_all (\<lambda>x. True) xs"
  by (simp add: list_all_iff)

lemmas wfs_rules = list_all_append list.pred_inject wf_html.simps wfs_if wfs_concat wfs_component

lemma wfs_Icon: "wfs (LucideIcon env n c)"
  unfolding LucideIcon_def by code_simp

lemma wfs_theme: "wfs ThemeScript" "wfs ThemeToggle" "wfs ToastContainer"
  by code_simp+

lemma wfs_Navbar: "wfs NavbarGuest" "wfs (NavbarAuth env user)"
  by (simp only: NavbarGuest_def wfs_rules wfs_theme; code_simp) (simp only: NavbarAuth_def wfs_rules wfs_theme wfs_Icon; code_simp)

lemma wfs_Alert: "wfs (Alert a t m)"
  by (simp only: Alert_def wfs_rules; code_simp)

lemma wfs_Badge: "wfs (Badge t v)"
  by (simp only: Badge_def wfs_rules; code_simp)

lemma wfs_Pagination: "wfs (PaginationControls p url)"
  by (simp only: PaginationControls_def wfs_rules; code_simp)

lemma wfs_Head: "wfs (HeadComponent t d p u kids) \<longleftrightarrow> wfs kids"
proof -
  have "wfs (HeadComponent t d p u kids) \<longleftrightarrow> wfs (HeadComponent t d p u []) \<and> wfs kids"
    by (simp only: HeadComponent_def list_all_append list.pred_inject(1)) blast
  moreover have "wfs (HeadComponent t d p u [])" by (simp only: HeadComponent_def wfs_rules; code_simp)
  ultimately show ?thesis by simp
qed

lemma wfs_Base: "wfs kids \<Longrightarrow> wfs (Base_layout env t n u kids)"
proof -
  assume "wfs kids"
  then have kids: "wfs kids = True" by simp
  show ?thesis
    by (simp only: Base_layout_def wfs_rules kids wfs_theme wfs_Navbar wfs_Head; code_simp)
qed

lemmas wfs_parts = wfs_rules wfs_theme wfs_Icon wfs_Alert wfs_Badge wfs_Pagination list_all_True

lemma wfs_sign_in:
  "wfs (Login_page env e u)" "wfs (Register_page env e u)" "wfs (ForgotPassword_page env m u)" "wfs (ResetPassword_page env k m u)"
  by (unfold Login_page_def Register_page_def ForgotPassword_page_def ResetPassword_page_def; rule wfs_Base; simp only: wfs_parts; code_simp)+

lemma wfs_user_pages:
  "wfs (Dashboard_page env v us p)" "wfs (Profile_page env v)" "wfs (Settings_page env v)" "wfs (Notifications_page env v ns)"
  by (unfold Dashboard_page_def Profile_page_def Settings_page_def Notifications_page_def; rule wfs_Base; simp only: wfs_parts; code_simp;
      simp only: ball_triv simp_thms; code_simp)+

lemma wfs_public_pages:
  "wfs (Landing_page env u)" "wfs (Pricing_page env u)" "wfs (About_page env u)" "wfs (Contact_page env u)" "wfs (Terms_page env u)"
  "wfs (Privacy_page env u)" "wfs (Error404_page env u)" "wfs (Error500_page env u)" "wfs (Admin_page env u)" "wfs (AdminUsers_page env u)"
  by (unfold Landing_page_def Pricing_page_def About_page_def Contact_page_def Terms_page_def Privacy_page_def Error404_page_def
      Error500_page_def Admin_page_def AdminUsers_page_def; rule wfs_Base; simp only: wfs_parts; code_simp)+

section \<open>The pages the handlers show\<close>

datatype site_page =
    Auth_Html string string
  | User_Html user_page
  | Public_Html string "user option"

text \<open>\<open>AuthPage\<close> of the authentication handlers, with the token of a reset in its name; no handler passes them a user.\<close>

definition auth_page_html :: "page_env \<Rightarrow> string \<Rightarrow> string \<Rightarrow> html list" where
  "auth_page_html env name message =
     (if name = ''Login'' then Login_page env message None
      else if name = ''Register'' then Register_page env message None
      else if name = ''ForgotPassword'' then ForgotPassword_page env message None
      else ResetPassword_page env (drop (length ''ResetPassword '') name) message None)"

fun user_page_html :: "page_env \<Rightarrow> user_page \<Rightarrow> html list" where
  "user_page_html env (Dashboard_Page u us p) = Dashboard_page env u us p"
| "user_page_html env (user_page.Profile_Page u) = Profile_page env u"
| "user_page_html env (user_page.Settings_Page u) = Settings_page env u"
| "user_page_html env (user_page.Notifications_Page u) = Notifications_page env u []"

definition public_page_html :: "page_env \<Rightarrow> string \<Rightarrow> user option \<Rightarrow> html list" where
  "public_page_html env name user =
     (if name = ''Landing'' then Landing_page env user else if name = ''Pricing'' then Pricing_page env user
      else if name = ''About'' then About_page env user else if name = ''Contact'' then Contact_page env user
      else if name = ''Terms'' then Terms_page env user else if name = ''Privacy'' then Privacy_page env user
      else if name = ''Error404'' then Error404_page env user else if name = ''Error500'' then Error500_page env user
      else if name = ''Admin'' then Admin_page env user else AdminUsers_page env user)"

fun page_html :: "page_env \<Rightarrow> site_page \<Rightarrow> html list" where
  "page_html env (Auth_Html n m) = auth_page_html env n m"
| "page_html env (User_Html p) = user_page_html env p"
| "page_html env (Public_Html n u) = public_page_html env n u"

lemma page_cases:
  assumes "\<And>m u. P (Login_page env m u)" "\<And>m u. P (Register_page env m u)" "\<And>m u. P (ForgotPassword_page env m u)"
    "\<And>t m u. P (ResetPassword_page env t m u)" "\<And>u us p. P (Dashboard_page env u us p)" "\<And>u. P (Profile_page env u)"
    "\<And>u. P (Settings_page env u)" "\<And>u ns. P (Notifications_page env u ns)" "\<And>u. P (Landing_page env u)" "\<And>u. P (Pricing_page env u)"
    "\<And>u. P (About_page env u)" "\<And>u. P (Contact_page env u)" "\<And>u. P (Terms_page env u)" "\<And>u. P (Privacy_page env u)"
    "\<And>u. P (Error404_page env u)" "\<And>u. P (Error500_page env u)" "\<And>u. P (Admin_page env u)" "\<And>u. P (AdminUsers_page env u)"
  shows "P (page_html env p)"
proof (cases p)
  case (Auth_Html n m)
  then show ?thesis using assms(1-4) by (simp add: auth_page_html_def)
next
  case (User_Html q)
  then show ?thesis using assms(5-8) by (cases q) simp_all
next
  case (Public_Html n u)
  then show ?thesis using assms(9-18) by (simp add: public_page_html_def)
qed

lemma site_pages_wf: "wfs (page_html env p)"
  by (rule page_cases) (rule wfs_sign_in wfs_user_pages wfs_public_pages)+

text \<open>C29: A browser reads every page as the tree the template wrote: what is data, such as an address, an error message or the token
  of a reset, is read as its own characters in a text or a value, and never as a tag or an attribute.\<close>

theorem page_data_stays_text:
  assumes "\<forall>s. esc s = html_EscapeString s"
  shows "read_html (render_page esc (page_html env p)) = concat (map tokens (page_html env p))"
  by (rule page_read_back [OF site_pages_wf assms])

definition plain_env :: page_env where
  "plain_env = \<lparr>pe_csrf = ''t0ken'', pe_css = (\<lambda>c. c), pe_url = (\<lambda>a. a)\<rparr>"

theorem page_data_stays_text_witness:
  "read_html (render_page html_EscapeString (page_html plain_env (Auth_Html ''Login'' ''<script>x()</script>''))) =
     concat (map tokens (page_html plain_env (Auth_Html ''Login'' ''<script>x()</script>'')))"
  by (rule page_data_stays_text) simp

section \<open>Forms\<close>

fun attr_value :: "string \<Rightarrow> attr list \<Rightarrow> string option" where
  "attr_value n [] = None"
| "attr_value n (At k v # as) = (if k = n then Some v else attr_value n as)"
| "attr_value n (Ad k v # as) = (if k = n then Some v else attr_value n as)"
| "attr_value n (Af k # as) = (if k = n then Some '''' else attr_value n as)"

definition attr_or_empty :: "string \<Rightarrow> attr list \<Rightarrow> string" where
  "attr_or_empty n as = (case attr_value n as of None \<Rightarrow> '''' | Some v \<Rightarrow> v)"

text \<open>The fields a page fills in itself, and its forms: the method, the address and those fields.\<close>

fun hidden_fields :: "html \<Rightarrow> (string \<times> string) list" where
  "hidden_fields (El n as cs) =
     (if n = ''input'' \<and> attr_value ''type'' as = Some ''hidden'' then [(attr_or_empty ''name'' as, attr_or_empty ''value'' as)]
      else concat (map hidden_fields cs))"
| "hidden_fields _ = []"

type_synonym form = "string \<times> string \<times> (string \<times> string) list"

fun forms :: "html \<Rightarrow> form list" where
  "forms (El n as cs) =
     (if n = ''form'' then [(attr_or_empty ''method'' as, attr_or_empty ''action'' as, concat (map hidden_fields cs))]
      else concat (map forms cs))"
| "forms _ = []"

definition page_forms :: "html list \<Rightarrow> form list" where
  "page_forms hs = concat (map forms hs)"

definition page_fields :: "html list \<Rightarrow> (string \<times> string) list" where
  "page_fields hs = concat (map hidden_fields hs)"

lemma page_forms_simps [simp]:
  "page_forms [] = []" "page_forms (h # hs) = forms h @ page_forms hs" "page_forms (a @ b) = page_forms a @ page_forms b"
  "page_forms (concat (map f xs)) = concat (map (\<lambda>x. page_forms (f x)) xs)"
  by (simp_all add: page_forms_def) (induction xs; simp)

lemma page_forms_map [simp]: "page_forms (map f xs) = concat (map (\<lambda>x. forms (f x)) xs)" "concat (map (\<lambda>x. []) xs) = []"
  by (simp_all add: page_forms_def) (induction xs; simp)

lemma page_fields_simps [simp]:
  "page_fields [] = []" "page_fields (h # hs) = hidden_fields h @ page_fields hs" "page_fields (a @ b) = page_fields a @ page_fields b"
  by (simp_all add: page_fields_def)

lemma forms_El:
  "forms (El n as cs) = (if n = ''form'' then [(attr_or_empty ''method'' as, attr_or_empty ''action'' as, page_fields cs)] else page_forms cs)"
  "hidden_fields (El n as cs) =
     (if n = ''input'' \<and> attr_value ''type'' as = Some ''hidden'' then [(attr_or_empty ''name'' as, attr_or_empty ''value'' as)] else page_fields cs)"
  by (simp_all add: page_forms_def page_fields_def)

lemma page_forms_if [simp]: "page_forms (if c then a else b) = (if c then page_forms a else page_forms b)"
  by simp

lemma no_forms [simp]:
  "page_forms (LucideIcon env n c) = []" "page_fields (LucideIcon env n c) = []" "page_forms ThemeScript = []" "page_forms ThemeToggle = []"
  "page_forms ToastContainer = []" "page_forms (HeadComponent t d q u []) = []" "page_forms NavbarGuest = []" "page_forms (Alert a t m) = []"
  "page_forms (Badge t v) = []" "page_forms (PaginationControls p url) = []"
  by (simp_all add: LucideIcon_def ThemeScript_def ThemeToggle_def ToastContainer_def HeadComponent_def NavbarGuest_def Alert_def Badge_def
      PaginationControls_def forms_El del: forms.simps(1) hidden_fields.simps(1))

definition logout_form :: form where
  "logout_form = (''POST'', ''/logout'', [(''csrf_token'', '''')])"

definition navbar_forms :: "user option \<Rightarrow> form list" where
  "navbar_forms user = (if user = None then [] else [logout_form])"

definition token_form :: "page_env \<Rightarrow> string \<Rightarrow> form" where
  "token_form env action = (''POST'', action, [(''csrf_token'', pe_csrf env)])"

lemma navbar_logout: "page_forms (NavbarAuth env user) = [logout_form]"
  by (simp add: NavbarAuth_def forms_El attr_or_empty_def logout_form_def del: forms.simps(1) hidden_fields.simps(1))

lemma forms_Base: "page_forms (Base_layout env t n user kids) = navbar_forms user @ page_forms kids"
  by (cases user) (simp_all add: Base_layout_def forms_El navbar_logout navbar_forms_def del: forms.simps(1) hidden_fields.simps(1))

lemmas form_rules = forms_Base forms_El attr_or_empty_def token_form_def

lemma forms_sign_in:
  "page_forms (Login_page env m u) = navbar_forms u @ [token_form env ''/login'']"
  "page_forms (Register_page env m u) = navbar_forms u @ [token_form env ''/register'']"
  "page_forms (ForgotPassword_page env m u) = navbar_forms u @ [token_form env ''/forgot-password'']"
  "page_forms (ResetPassword_page env t m u) =
     navbar_forms u @ [(''POST'', ''/reset-password'', [(''csrf_token'', pe_csrf env), (''token'', t)])]"
  by (simp_all add: Login_page_def Register_page_def ForgotPassword_page_def ResetPassword_page_def form_rules
      del: forms.simps(1) hidden_fields.simps(1))

lemma forms_user_pages:
  "page_forms (Dashboard_page env v us p) = [logout_form, token_form env ''/profile/avatar'', (''GET'', ''/dashboard'', [])]"
  "page_forms (Profile_page env v) = [logout_form, token_form env ''/profile'']"
  "page_forms (Settings_page env v) = [logout_form, token_form env ''/settings/password'']"
  "page_forms (Notifications_page env v ns) = [logout_form]"
  by (simp_all add: Dashboard_page_def Profile_page_def Settings_page_def Notifications_page_def navbar_forms_def form_rules
      del: forms.simps(1) hidden_fields.simps(1))

lemma forms_public_pages:
  "page_forms (Contact_page env u) = navbar_forms u @ [(''POST'', ''/contact'', [])]"
  "page_forms (Landing_page env u) = navbar_forms u" "page_forms (Pricing_page env u) = navbar_forms u"
  "page_forms (About_page env u) = navbar_forms u" "page_forms (Terms_page env u) = navbar_forms u"
  "page_forms (Privacy_page env u) = navbar_forms u" "page_forms (Error404_page env u) = navbar_forms u"
  "page_forms (Error500_page env u) = navbar_forms u" "page_forms (Admin_page env u) = navbar_forms u"
  "page_forms (AdminUsers_page env u) = navbar_forms u"
  by (simp_all add: Contact_page_def Landing_page_def Pricing_page_def About_page_def Terms_page_def Privacy_page_def Error404_page_def
      Error500_page_def Admin_page_def AdminUsers_page_def form_rules del: forms.simps(1) hidden_fields.simps(1))

lemmas site_forms = forms_sign_in forms_user_pages forms_public_pages

text \<open>The body of a form the browser sends, and \<open>PostFormValue\<close> as far as the empty value goes.\<close>

definition form_body :: "(string \<times> string) list \<Rightarrow> string" where
  "form_body fs = join ''&'' (map (\<lambda>(k, v). k @ ''='' @ v) fs)"

definition field_of_body :: "string \<Rightarrow> string \<Rightarrow> string" where
  "field_of_body k body =
     (case find (\<lambda>p. has_prefix p (k @ ''='')) (split_at (CHR ''&'') body) of None \<Rightarrow> '''' | Some p \<Rightarrow> drop (length k + 1) p)"

definition submits :: "form \<Rightarrow> (string \<times> string) list \<Rightarrow> request \<Rightarrow> bool" where
  "submits f typed rq \<longleftrightarrow>
     (case f of (m, action, hidden) \<Rightarrow>
        rq_method rq = m \<and> rq_path rq = action \<and> rq_header rq ''X-CSRF-Token'' = '''' \<and> rq_body rq = form_body (hidden @ typed))"

text \<open>nosurf takes the token of a request from the header, or else from the form, and no empty token is right.\<close>

definition refuses_blank_tokens :: "'s csrf_library \<Rightarrow> bool" where
  "refuses_blank_tokens nosurf \<longleftrightarrow>
     (\<forall>exempt ok bad rq cx w s.
        \<not> safe_method (rq_method rq) \<and> \<not> exempt rq \<and> rq_header rq ''X-CSRF-Token'' = '''' \<and> field_of_body ''csrf_token'' (rq_body rq) = '''' \<longrightarrow>
          (\<exists>w'. adds_headers w w' \<and> nosurf exempt ok bad rq cx (w, s) = bad rq cx (w', s)))"

lemma refuses_blank:
  assumes law: "refuses_blank_tokens nosurf" and "\<not> safe_method (rq_method rq)" and "\<not> csrf_exempt env rq"
    and "rq_header rq ''X-CSRF-Token'' = ''''" and "field_of_body ''csrf_token'' (rq_body rq) = ''''"
  shows "refuses 400 (CSRFHandler nosurf token env h) rq"
  unfolding refuses_def
proof (intro allI impI)
  fix cx :: ctx and w :: writer and s
  assume w: "w_status w = None"
  obtain w' where w': "adds_headers w w'"
    "nosurf (csrf_exempt env) (\<lambda>rq cx. h rq (cx\<lparr>cx_csrf := Some (token rq)\<rparr>)) csrf_failure rq cx (w, s) = csrf_failure rq cx (w', s)"
    using law assms(2-) unfolding refuses_blank_tokens_def by blast
  moreover have "w_status w' = None" using w w'(1) by (auto simp: adds_headers_def)
  ultimately show "\<exists>w'. CSRFHandler nosurf token env h rq cx (w, s) = (False, w', s) \<and> w_status w' = Some 400"
    by (simp add: CSRFHandler_def csrf_failure_def)
qed

lemma blank_field: "field_of_body ''csrf_token'' (form_body [(''csrf_token'', '''')]) = ''''"
  by code_simp

text \<open>C7: Every page for a signed-in user has the form to sign out, and it sends an empty token, because its template gives the field no value.
  Whatever the routes are, the pipeline answers it 400 and changes nothing: nobody can sign out with the button of the site.\<close>

theorem logout_button_is_refused:
  assumes "saves_quietly (sr_sessions sr)" and "refuses_blank_tokens (sr_nosurf sr)"
    and "\<not> csrf_exempt (sr_app_env sr) rq" and "submits logout_form [] rq"
  shows "logout_form \<in> set (page_forms (page_html env (User_Html p))) \<and> rq_path rq = ''/logout'' \<and>
    (\<exists>w. serve_request sr mux rq s = (w, s) \<and> answered w = 400)"
proof (intro conjI)
  show "logout_form \<in> set (page_forms (page_html env (User_Html p)))"
    by (cases p) (simp_all add: site_forms)
  have rq: "rq_method rq = ''POST''" "rq_header rq ''X-CSRF-Token'' = ''''" "rq_body rq = form_body [(''csrf_token'', '''')]" "rq_path rq = ''/logout''"
    using assms(4) by (simp_all add: submits_def logout_form_def)
  then show "rq_path rq = ''/logout''" by simp
  from rq have "\<not> safe_method (rq_method rq)" "rq_method rq \<noteq> ''OPTIONS''" by (simp_all add: safe_method_def)
  with assms rq have "refuses 400 (server_handler sr mux) rq"
    unfolding server_handler_def
    by (intro refuses_Recovery refuses_RequestID refuses_Locale refuses_TenantExtractor refuses_SecurityHeaders refuses_CORS
        refuses_sessions [OF assms(1)] refuses_blank) (simp_all add: blank_field)
  from refusesD [OF this, of fresh_writer no_context s] show "\<exists>w. serve_request sr mux rq s = (w, s) \<and> answered w = 400"
    by (auto simp: serve_request_def answered_def fresh_writer_def)
qed

definition blank_nosurf :: "'s csrf_library" where
  "blank_nosurf exempt ok bad rq cx ws =
     (if safe_method (rq_method rq) \<or> exempt rq \<or> rq_header rq ''X-CSRF-Token'' \<noteq> '''' \<or> field_of_body ''csrf_token'' (rq_body rq) \<noteq> ''''
      then ok rq cx ws else bad rq cx ws)"

lemma refuses_blank_tokens_blank: "refuses_blank_tokens blank_nosurf"
proof -
  have "adds_headers w w" for w by (auto simp: adds_headers_def intro: exI [of _ "w_headers w"])
  then show ?thesis unfolding refuses_blank_tokens_def blank_nosurf_def by auto
qed

definition logout_click :: request where
  "logout_click =
     \<lparr>rq_method = ''POST'', rq_path = ''/logout'', rq_host = ''shop.example.com'', rq_remote = ''10.0.0.9:4711'', rq_header = (\<lambda>_. ''''),
      rq_cookie = (\<lambda>_. Some ''t0ken''), rq_body = ''csrf_token=''\<rparr>"

definition page_user :: user where
  "page_user =
     \<lparr>u_id = 7, u_tenant = ''default'', u_email = ''ana@example.com'', u_password_hash = '''', u_role_id = ''user'', u_is_verified = True,
      u_avatar_url = None, u_created_at = None, u_provider = None, u_provider_id = None\<rparr>"

theorem logout_button_is_refused_witness:
  "logout_form \<in> set (page_forms (page_html plain_env (User_Html (user_page.Profile_Page page_user)))) \<and>
     (\<exists>w. serve_request (production\<lparr>sr_nosurf := blank_nosurf\<rparr>) (\<lambda>rq cx (w, s). (False, write_header 303 w, Suc s)) logout_click 0 = (w, 0 :: nat) \<and>
        answered w = 400)"
proof -
  have "submits logout_form [] logout_click"
    by (simp add: submits_def logout_form_def logout_click_def form_body_def)
  from logout_button_is_refused [where sr = "production\<lparr>sr_nosurf := blank_nosurf\<rparr>" and p = "user_page.Profile_Page page_user"
      and env = plain_env and mux = "\<lambda>rq cx (w, s). (False, write_header 303 w, Suc s)" and s = "0 :: nat", OF _ _ _ this]
  show ?thesis by (simp add: production_def saves_quietly_id refuses_blank_tokens_blank csrf_exempt_def)
qed

text \<open>Of the forms the site has, those that post bring the token of the page, but for two: the one to sign out and the one of the contact page.\<close>

theorem posted_forms_bring_token:
  assumes "f \<in> set (page_forms (page_html env p))" and "f = (''POST'', action, hidden)" and "pe_csrf env \<noteq> ''''"
  shows "map_of hidden ''csrf_token'' = Some (pe_csrf env) \<longleftrightarrow> action \<notin> {''/logout'', ''/contact''}"
proof -
  define Q where "Q hs \<longleftrightarrow> (\<forall>g \<in> set (page_forms hs). case g of (m, a, fs) \<Rightarrow>
    m = ''POST'' \<longrightarrow> (map_of fs ''csrf_token'' = Some (pe_csrf env) \<longleftrightarrow> a \<notin> {''/logout'', ''/contact''}))" for hs
  have "Q (page_html env p)"
    by (rule page_cases) (use assms(3) in \<open>auto simp: Q_def site_forms navbar_forms_def logout_form_def token_form_def split: if_splits\<close>)
  with assms(1,2) show ?thesis unfolding Q_def by auto
qed

theorem posted_forms_bring_token_witness:
  "map_of [(''csrf_token'', ''t0ken'')] ''csrf_token'' = Some (pe_csrf plain_env)"
  using posted_forms_bring_token [where f = "token_form plain_env ''/profile''" and env = plain_env and
      p = "User_Html (user_page.Profile_Page page_user)" and action = "''/profile''" and hidden = "[(''csrf_token'', ''t0ken'')]"]
  by (simp add: site_forms token_form_def plain_env_def)

end
