(* ===== verification/Page_Links.thy ===== *)
theory Page_Links
  imports Page_Checks
begin

text \<open>
  Where the links and forms of the pages lead, over the route table of the server, and what some templates make of their arguments.
\<close>

section \<open>Links\<close>

fun links :: "html \<Rightarrow> string list" where
  "links (El n as cs) = (if n = ''a'' then [attr_or_empty ''href'' as] else []) @ concat (map links cs)"
| "links _ = []"

definition page_links :: "html list \<Rightarrow> string list" where
  "page_links hs = concat (map links hs)"

lemma page_links_simps [simp]:
  "page_links [] = []" "page_links (h # hs) = links h @ page_links hs" "page_links (a @ b) = page_links a @ page_links b"
  "page_links (concat (map f xs)) = concat (map (\<lambda>x. page_links (f x)) xs)"
  by (simp_all add: page_links_def) (induction xs; simp)

lemma page_links_map [simp]: "page_links (map f xs) = concat (map (\<lambda>x. links (f x)) xs)"
  by (simp add: page_links_def o_def)

lemma links_El: "links (El n as cs) = (if n = ''a'' then [attr_or_empty ''href'' as] else []) @ page_links cs"
  by (simp add: page_links_def)

lemma page_links_if [simp]: "page_links (if c then a else b) = (if c then page_links a else page_links b)"
  by simp

lemma no_links [simp]:
  "page_links (LucideIcon env n c) = []" "page_links ThemeScript = []" "page_links ThemeToggle = []" "page_links ToastContainer = []"
  "page_links (HeadComponent t d q u []) = []" "page_links (Alert a t m) = []" "page_links (Badge t v) = []"
  by (simp_all add: LucideIcon_def ThemeScript_def ThemeToggle_def ToastContainer_def HeadComponent_def Alert_def Badge_def links_El
      del: links.simps(1))

definition guest_links :: "string list" where
  "guest_links = [''/login'', ''/register'']"

definition user_links :: "string list" where
  "user_links = [''/dashboard'', ''/profile'', ''/settings'', ''/dashboard'', ''/profile'', ''/settings'', ''/notifications'']"

definition list_links :: "pagination \<Rightarrow> string \<Rightarrow> string list" where
  "list_links p url =
     (if 1 < view_TotalPages p then
        (if HasPrevious p then [url @ ''?page='' @ string_of_int (PreviousPage p)] else []) @
        (if HasNext p then [url @ ''?page='' @ string_of_int (NextPage p)] else [])
      else [])"

lemma navbar_links: "page_links NavbarGuest = guest_links" "page_links (NavbarAuth env user) = user_links"
  by (simp_all add: NavbarGuest_def NavbarAuth_def links_El attr_or_empty_def guest_links_def user_links_def del: links.simps(1))

lemma pagination_links: "page_links (PaginationControls p url) = list_links p url"
  by (simp add: PaginationControls_def links_El attr_or_empty_def list_links_def del: links.simps(1))

lemma links_Base:
  "page_links (Base_layout env t n user kids) = ''#main-content'' # ''/'' # (if user = None then guest_links else user_links) @ page_links kids"
  by (cases user) (simp_all add: Base_layout_def links_El attr_or_empty_def navbar_links del: links.simps(1))

definition site_links :: "string list" where
  "site_links =
     [''#main-content'', ''#'', ''/'', ''/login'', ''/register'', ''/register?plan=pro'', ''/dashboard'', ''/profile'', ''/settings'',
      ''/notifications'', ''/pricing'', ''/contact'', ''/forgot-password'', ''/auth/google'', ''/admin/users'', ''/admin/dlq'', ''/admin/workers'']"

lemma base_links: "set guest_links \<subseteq> set site_links" "set user_links \<subseteq> set site_links" "{''#main-content'', ''/''} \<subseteq> set site_links"
  by (simp_all add: guest_links_def user_links_def site_links_def)

lemma links_within_Base:
  assumes "set (page_links kids) \<subseteq> set site_links \<union> X"
  shows "set (page_links (Base_layout env t n user kids)) \<subseteq> set site_links \<union> X"
  using assms base_links by (auto simp: links_Base)

definition numbered :: "string set" where
  "numbered = {''/dashboard?page='' @ string_of_int i | i. True}"

lemma list_links_numbered: "set (list_links p ''/dashboard'') \<subseteq> numbered"
  by (auto simp: list_links_def numbered_def)

lemma page_links_known: "set (page_links (page_html env p)) \<subseteq> set site_links \<union> numbered"
proof (rule page_cases)
  fix u us q
  show "set (page_links (Dashboard_page env u us q)) \<subseteq> set site_links \<union> numbered"
    unfolding Dashboard_page_def
    by (rule links_within_Base) (use list_links_numbered [of q] in \<open>auto simp add: links_El pagination_links simp del: links.simps(1)\<close>)
qed (unfold Login_page_def Register_page_def ForgotPassword_page_def ResetPassword_page_def Profile_page_def Settings_page_def
    Notifications_page_def Landing_page_def Pricing_page_def About_page_def Contact_page_def Terms_page_def Privacy_page_def
    Error404_page_def Error500_page_def Admin_page_def AdminUsers_page_def;
    rule links_within_Base; simp add: links_El attr_or_empty_def site_links_def del: links.simps(1))+

text \<open>The path a browser asks for when it follows a link.\<close>

definition link_path :: "string \<Rightarrow> string" where
  "link_path h = takeWhile (\<lambda>c. c \<noteq> CHR ''?'' \<and> c \<noteq> CHR ''#'') h"

definition leads_to_page :: "server_route list \<Rightarrow> string \<Rightarrow> bool" where
  "leads_to_page rs h =
     (case mux_answer rs ''GET'' (link_path h) of
        Serve (g, e) \<Rightarrow> e = Page ''Landing'' \<longrightarrow> h = ''/''
      | _ \<Rightarrow> False)"

lemma site_links_lead:
  "list_all (\<lambda>h. hd h = CHR ''#'' \<or> leads_to_page (server_routes secrets True) h) site_links"
  by (cases secrets; simp only:; code_simp)

lemma numbered_path: "link_path (''/dashboard?page='' @ x) = ''/dashboard''"
  by (simp add: link_path_def)

lemma dashboard_leads: "leads_to_page (server_routes secrets True) ''/dashboard''"
  using site_links_lead [of secrets] by (auto simp: list_all_iff site_links_def)



text \<open>Without the client the button of the login page leads to the landing page, and so does the address of an icon in the head of every page.\<close>

lemma google_button_without_client:
  "''/auth/google'' \<in> set (page_links (Login_page env m u)) \<and> mux_answer (server_routes secrets False) ''GET'' ''/auth/google'' = Serve (Open, Page ''Landing'')"
proof
  show "''/auth/google'' \<in> set (page_links (Login_page env m u))"
    by (simp add: Login_page_def links_Base links_El attr_or_empty_def del: links.simps(1))
  show "mux_answer (server_routes secrets False) ''GET'' ''/auth/google'' = Serve (Open, Page ''Landing'')"
    by (cases secrets; simp only:; code_simp)
qed

lemma icon_is_landing_page: "mux_answer (server_routes True True) ''GET'' ''/favicon-96x96.png'' = Serve (Open, Page ''Landing'')"
  by code_simp

section \<open>Forms\<close>

definition post_targets :: "string list" where
  "post_targets =
     [''/logout'', ''/login'', ''/register'', ''/forgot-password'', ''/reset-password'', ''/profile/avatar'', ''/profile'', ''/settings/password'', ''/contact'']"

lemma post_targets_known: "f \<in> set (page_forms (page_html env p)) \<Longrightarrow> fst f = ''POST'' \<Longrightarrow> fst (snd f) \<in> set post_targets"
proof -
  define Q where "Q hs \<longleftrightarrow> (\<forall>g \<in> set (page_forms hs). fst g = ''POST'' \<longrightarrow> fst (snd g) \<in> set post_targets)" for hs
  have "Q (page_html env p)"
    by (rule page_cases) (auto simp: Q_def site_forms navbar_forms_def logout_form_def token_form_def post_targets_def split: if_splits)
  then show "f \<in> set (page_forms (page_html env p)) \<Longrightarrow> fst f = ''POST'' \<Longrightarrow> fst (snd f) \<in> set post_targets" unfolding Q_def by blast
qed

lemma post_targets_answered:
  "list_all (\<lambda>a. (mux_answer (server_routes secrets True) ''POST'' a = MethodNotAllowed) = (a \<in> set [''/contact'', ''/settings/password''])) post_targets"
  by (cases secrets; simp only:; code_simp)

text \<open>Of the forms that post, the server has no route for exactly two, the change of the password and the message to the site: they are answered 405.\<close>

theorem forms_without_route:
  assumes "(''POST'', action, hidden) \<in> set (page_forms (page_html env p))"
  shows "mux_answer (server_routes secrets True) ''POST'' action = MethodNotAllowed \<longleftrightarrow> action \<in> {''/contact'', ''/settings/password''}"
  using post_targets_answered [of secrets] post_targets_known [OF assms] by (simp add: list_all_iff)

theorem forms_without_route_witness:
  "mux_answer (server_routes True True) ''POST'' ''/settings/password'' = MethodNotAllowed"
  using forms_without_route [where action = "''/settings/password''" and hidden = "[(''csrf_token'', pe_csrf plain_env)]" and env = plain_env
      and p = "User_Html (user_page.Settings_Page page_user)" and secrets = True]
  by (simp add: site_forms token_form_def)

section \<open>What templates make of their arguments\<close>

text \<open>A browser takes a field as disabled, required or checked when the attribute is there, whatever its value.\<close>

fun flag_set :: "string \<Rightarrow> html \<Rightarrow> bool" where
  "flag_set k (El n as cs) \<longleftrightarrow> attr_value k as \<noteq> None \<or> list_ex (flag_set k) cs"
| "flag_set k _ \<longleftrightarrow> False"

text \<open>The templates write the attributes as values, \<open>disabled="false"\<close>: every button and field is disabled, every box is checked.\<close>

theorem fields_always_disabled:
  "list_ex (flag_set ''disabled'') (Button env t v s d) \<and> list_ex (flag_set ''disabled'') (SubmitButton env t v s d) \<and>
   list_ex (flag_set ''disabled'') (Input env l n ty ph val r d icon ht et) \<and> list_ex (flag_set ''checked'') (Checkbox l n c r) \<and>
   list_ex (flag_set ''required'') (TextArea env l n ph val r rows ht et)"
  by (simp add: Button_def SubmitButton_def Input_def Checkbox_def TextArea_def)

text \<open>Components passed to a card as arguments are not shown, only the children of its block.\<close>

lemma card_drops_arguments: "Card args kids = Card [] kids"
  by (simp add: Card_def)

text \<open>The day of a date is its month again.\<close>

lemma profile_shows_month_twice: "format_date (days_from_civil 2024 3 15 * 24 * hour) = ''03/03/2024''"
  by code_simp

text \<open>The structured data names its arguments instead of using them, and is no JSON.\<close>

definition raw_bodies :: "html list \<Rightarrow> string list" where
  "raw_bodies hs = List.map_filter (\<lambda>h. case h of Raw n as b \<Rightarrow> Some b | _ \<Rightarrow> None) hs"

lemma structured_data_is_no_json:
  "map json_parse (raw_bodies (StructuredDataOrganization n u l)) = [None]" "map json_parse (raw_bodies (StructuredDataArticle h d i u a q)) = [None]"
  by code_simp+

text \<open>The letter beside a user is the first byte of the address.\<close>

lemma accented_letter_broken: "first_letter ([CHR 0xC3, CHR 0xA1] @ s) = [CHR 0xC3, CHR 0x83]"
  by (simp add: first_letter_def) code_simp

text \<open>The scripts in the page itself carry no nonce, so the policy of production (\<open>inline_scripts_need_nonce\<close>) stops them, the one that gives
  the token to htmx included.\<close>

fun inline_scripts :: "html \<Rightarrow> attr list list" where
  "inline_scripts (El n as cs) = concat (map inline_scripts cs)"
| "inline_scripts (Raw n as b) = (if n = ''script'' \<and> attr_value ''src'' as = None then [as] else [])"
| "inline_scripts _ = []"

lemma layout_scripts_without_nonce:
  "list_all (\<lambda>as. attr_value ''nonce'' as = None) (concat (map inline_scripts (Base_layout env t n None []))) \<and>
   length (concat (map inline_scripts (Base_layout env t n None []))) = 2"
  by code_simp

section \<open>Toasts\<close>

text \<open>The keys of a map are printed in order.\<close>

definition ToastHelper :: "string \<Rightarrow> string \<Rightarrow> string \<Rightarrow> writer \<Rightarrow> writer" where
  "ToastHelper toastType title message =
     set_header ''X-Toast'' (json_print (JObj [(''message'', JStr message), (''title'', JStr title), (''type'', JStr toastType)]))"

end
